(* ===== verification/Go_Prelude.thy ===== *)
theory Go_Prelude
  imports Main "HOL-Library.Word" "HOL-Library.Char_ord" "HOL-Library.List_Lexorder"
    "HOL-Library.Signed_Division"
begin

text \<open>
  The prelude of the development: the Go types the library uses (fixed-width integers as words,
  byte slices, strings), its error values (\<open>errors.go\<close>), the result type of a Go call that can
  return, fail or panic, the big-endian integers of \<open>encoding/binary\<close> that the codec writes, and
  the list, word and result lemmas every component shares. The collections declared here carry the
  component proofs: \<open>ser_simps\<close> computes serialisations, \<open>dec_steps\<close> runs a decoder over bytes
  that are known, \<open>wire_ok\<close> discharges the side conditions of both.
\<close>

unbundle bit_operations_syntax

named_theorems ser_simps \<open>equations that compute the bytes of an encoding\<close>
named_theorems dec_steps \<open>equations that run one decoder call over known bytes\<close>
named_theorems wire_ok \<open>facts that discharge well-formedness side conditions\<close>

subsection \<open>Types\<close>

type_synonym byte = "8 word"
type_synonym int8 = "8 word"
type_synonym int16 = "16 word"
type_synonym int32 = "32 word"
type_synonym int64 = "64 word"
type_synonym uint32 = "32 word"
type_synonym uint64 = "64 word"

text \<open>A Go slice of bytes that the code compares with nil; a pointer to a string.\<close>

type_synonym nbytes = "byte list option"
type_synonym nstring = "string option"

abbreviation MaxInt16 :: int where "MaxInt16 \<equiv> 32767"
abbreviation MaxInt32 :: int where "MaxInt32 \<equiv> 2147483647"

subsection \<open>Errors (errors.go)\<close>

text \<open>A broker error code; only the codes the modelled code tests are named.\<close>

type_synonym KError = int16

abbreviation (input) ErrUnknown :: KError where "ErrUnknown \<equiv> - 1"
abbreviation (input) ErrNoError :: KError where "ErrNoError \<equiv> 0"
abbreviation (input) ErrOffsetOutOfRange :: KError where "ErrOffsetOutOfRange \<equiv> 1"
abbreviation (input) ErrUnknownTopicOrPartition :: KError where "ErrUnknownTopicOrPartition \<equiv> 3"
abbreviation (input) ErrLeaderNotAvailable :: KError where "ErrLeaderNotAvailable \<equiv> 5"
abbreviation (input) ErrNotLeaderForPartition :: KError where "ErrNotLeaderForPartition \<equiv> 6"
abbreviation (input) ErrRequestTimedOut :: KError where "ErrRequestTimedOut \<equiv> 7"
abbreviation (input) ErrReplicaNotAvailable :: KError where "ErrReplicaNotAvailable \<equiv> 9"
abbreviation (input) ErrOffsetsLoadInProgress :: KError where "ErrOffsetsLoadInProgress \<equiv> 14"
abbreviation (input) ErrConsumerCoordinatorNotAvailable :: KError where
  "ErrConsumerCoordinatorNotAvailable \<equiv> 15"
abbreviation (input) ErrNotCoordinatorForConsumer :: KError where "ErrNotCoordinatorForConsumer \<equiv> 16"
abbreviation (input) ErrIllegalGeneration :: KError where "ErrIllegalGeneration \<equiv> 22"
abbreviation (input) ErrUnknownMemberId :: KError where "ErrUnknownMemberId \<equiv> 25"
abbreviation (input) ErrTopicAuthorizationFailed :: KError where "ErrTopicAuthorizationFailed \<equiv> 29"
abbreviation (input) ErrGroupAuthorizationFailed :: KError where "ErrGroupAuthorizationFailed \<equiv> 30"
abbreviation (input) ErrInvalidProducerIDMapping :: KError where "ErrInvalidProducerIDMapping \<equiv> 49"
abbreviation (input) ErrConcurrentTransactions :: KError where "ErrConcurrentTransactions \<equiv> 51"
abbreviation (input) ErrOperationNotAttempted :: KError where "ErrOperationNotAttempted \<equiv> 55"
abbreviation (input) ErrUnknownProducerID :: KError where "ErrUnknownProducerID \<equiv> 59"
abbreviation (input) ErrFencedInstancedId :: KError where "ErrFencedInstancedId \<equiv> 82"

text \<open>
  The sentinel errors of \<open>errors.go\<close>, its error structs, a broker error code used as an error,
  and any other error value, known by its text. The parts of an error's text that are formatted
  from values (a length, a version) are left out.
\<close>

datatype go_error =
    ErrOutOfBrokers | ErrBrokerNotFound | ErrClosedClient | ErrIncompleteResponse
  | ErrInvalidPartition | ErrAlreadyConnected | ErrNotConnected | ErrInsufficientData
  | ErrShuttingDown | ErrMessageTooLarge | ErrConsumerOffsetNotAdvanced
  | ErrControllerNotAvailable | ErrNoTopicsToUpdateMetadata | ErrUnknownScramMechanism
  | ErrReassignPartitions | ErrDeleteRecords | ErrCreateACLs | ErrAddPartitionsToTxn
  | ErrTxnOffsetCommit | ErrTransactionNotReady | ErrNonTransactedProducer
  | ErrTransitionNotAllowed | ErrCannotTransitionNilError | ErrTxnUnableToParseResponse
  | PacketEncodingError string
  | PacketDecodingError string
  | ConfigurationError string
  | KErr KError
  | SentinelError go_error "go_error list"
  | OtherError string

text \<open>\<open>Wrap\<close>, and \<open>errors.Is\<close> on the errors above: the value itself, or one it wraps.\<close>

definition Wrap :: "go_error \<Rightarrow> go_error list \<Rightarrow> go_error" where
  "Wrap sentinel wrapped = SentinelError sentinel wrapped"

fun errors_Is :: "go_error \<Rightarrow> go_error \<Rightarrow> bool" where
  "errors_Is (SentinelError s ws) target =
     (SentinelError s ws = target \<or> errors_Is s target \<or> list_ex (\<lambda>w. errors_Is w target) ws)"
| "errors_Is e target = (e = target)"

lemma errors_Is_refl [simp]: "errors_Is e e"
  by (cases e) simp_all

lemma errors_Is_Wrap: "errors_Is (Wrap s ws) s" and
  errors_Is_Wrap_mem: "w \<in> set ws \<Longrightarrow> errors_Is (Wrap s ws) w"
  by (simp_all add: Wrap_def list_ex_iff) (metis errors_Is_refl)

subsection \<open>Results\<close>

text \<open>
  What a Go call does: return a value, return an error, panic (an index out of range, a negative
  length given to \<open>make\<close>), or not return within the fuel of the model.
\<close>

datatype 'a res = Ok 'a | Err go_error | Panic | Diverge

fun res_bind :: "'a res \<Rightarrow> ('a \<Rightarrow> 'b res) \<Rightarrow> 'b res" where
  "res_bind (Ok x) f = f x"
| "res_bind (Err e) f = Err e"
| "res_bind Panic f = Panic"
| "res_bind Diverge f = Diverge"

lemma res_bind_Ok_iff: "res_bind r f = Ok y \<longleftrightarrow> (\<exists>x. r = Ok x \<and> f x = Ok y)"
  by (cases r) auto

lemma res_bind_Panic_iff: "res_bind r f = Panic \<longleftrightarrow> r = Panic \<or> (\<exists>x. r = Ok x \<and> f x = Panic)"
  by (cases r) auto

lemma res_bind_assoc: "res_bind (res_bind r f) g = res_bind r (\<lambda>x. res_bind (f x) g)"
  by (cases r) simp_all

definition is_Ok :: "'a res \<Rightarrow> bool" where
  "is_Ok r = (case r of Ok _ \<Rightarrow> True | _ \<Rightarrow> False)"

lemma is_Ok_simps [simp]: "is_Ok (Ok x)" "\<not> is_Ok (Err e)" "\<not> is_Ok Panic" "\<not> is_Ok Diverge"
  by (simp_all add: is_Ok_def)

subsection \<open>Strings as bytes\<close>

text \<open>A Go string is a sequence of bytes; a character of a HOL string is a byte.\<close>

definition byte_of_char :: "char \<Rightarrow> byte" where
  "byte_of_char c = word_of_nat (of_char c)"

definition char_of_byte :: "byte \<Rightarrow> char" where
  "char_of_byte b = char_of (unat b)"

definition bytes_of :: "string \<Rightarrow> byte list" where
  "bytes_of s = map byte_of_char s"

definition string_of :: "byte list \<Rightarrow> string" where
  "string_of bs = map char_of_byte bs"

lemma char_of_byte_of_char [simp]: "char_of_byte (byte_of_char c) = c"
proof -
  have "of_char c < (256 :: nat)" by simp
  then have "unat (word_of_nat (of_char c) :: byte) = of_char c"
    by (simp add: unat_of_nat)
  then show ?thesis by (simp add: char_of_byte_def byte_of_char_def)
qed

lemma byte_of_char_of_byte [simp]: "byte_of_char (char_of_byte b) = b"
proof -
  have "unat b < 2 ^ LENGTH(8)" by (rule unsigned_less)
  then have "unat b mod 256 = unat b" by simp
  then show ?thesis by (simp add: char_of_byte_def byte_of_char_def)
qed

lemma string_of_bytes_of [simp]: "string_of (bytes_of s) = s"
  by (simp add: string_of_def bytes_of_def o_def)

lemma bytes_of_string_of [simp]: "bytes_of (string_of bs) = bs"
  by (simp add: string_of_def bytes_of_def o_def)

lemma length_bytes_of [simp]: "length (bytes_of s) = length s"
  by (simp add: bytes_of_def)

lemma bytes_of_Nil [simp]: "bytes_of [] = []"
  by (simp add: bytes_of_def)

lemma bytes_of_inject [simp]: "bytes_of s = bytes_of t \<longleftrightarrow> s = t"
  by (metis string_of_bytes_of)

subsection \<open>Big-endian integers (encoding/binary)\<close>

primrec be_put :: "nat \<Rightarrow> 'a::len word \<Rightarrow> byte list" where
  "be_put 0 w = []"
| "be_put (Suc n) w = be_put n (drop_bit 8 w) @ [ucast w]"

definition be_get :: "byte list \<Rightarrow> 'a::len word" where
  "be_get bs = foldl (\<lambda>acc b. push_bit 8 acc OR ucast b) 0 bs"

lemma length_be_put [simp]: "length (be_put n w) = n"
  by (induction n arbitrary: w) simp_all

lemma be_get_be_put: "be_get (be_put n w) = take_bit (8 * n) (w :: 'a::len word)"
proof (induction n arbitrary: w)
  case 0
  then show ?case by (simp add: be_get_def)
next
  case (Suc n)
  have "be_get (be_put (Suc n) w) =
      (push_bit 8 (take_bit (8 * n) (drop_bit 8 w)) OR ucast (ucast w :: byte) :: 'a word)"
    using Suc [of "drop_bit 8 w"] by (simp add: be_get_def)
  also have "\<dots> = take_bit (8 * Suc n) w"
    by (rule bit_word_eqI) (auto simp: bit_simps)
  finally show ?case .
qed

lemma be_get_be_put_full [simp]:
  "LENGTH('a) = 8 * n \<Longrightarrow> be_get (be_put n (w :: 'a::len word)) = w"
  using take_bit_length_eq [of w] by (simp add: be_get_be_put)

definition be16 :: "int16 \<Rightarrow> byte list" where "be16 w = be_put 2 w"
definition be32 :: "int32 \<Rightarrow> byte list" where "be32 w = be_put 4 w"
definition be64 :: "int64 \<Rightarrow> byte list" where "be64 w = be_put 8 w"

lemma be_lengths [simp]:
  "length (be16 a) = 2" "length (be32 b) = 4" "length (be64 c) = 8"
  by (simp_all add: be16_def be32_def be64_def)

lemma be_gets [simp]:
  "be_get (be16 a) = a" "be_get (be32 b) = b" "be_get (be64 c) = c"
  by (simp_all add: be16_def be32_def be64_def)

subsection \<open>Signed reading of words\<close>

lemma sint_word_of_int_id:
  "- (2 ^ (LENGTH('a) - 1)) \<le> i \<Longrightarrow> i < 2 ^ (LENGTH('a) - 1) \<Longrightarrow> sint (word_of_int i :: 'a::len word) = i"
  by (simp add: signed_take_bit_int_eq_self sint_sbintrunc')

lemma sint_word_of_nat_id:
  assumes "n < 2 ^ (LENGTH('a) - 1)"
  shows "sint (word_of_nat n :: 'a::len word) = int n"
proof -
  have "int n < 2 ^ (LENGTH('a) - 1)"
    using assms by (metis of_nat_less_iff of_nat_numeral of_nat_power)
  then have "sint (word_of_int (int n) :: 'a word) = int n"
    by (intro sint_word_of_int_id) (simp_all add: order_trans [of _ 0])
  then show ?thesis by simp
qed

subsection \<open>Lists\<close>

lemma length_le_concat_map:
  "(\<And>x. x \<in> set xs \<Longrightarrow> f x \<noteq> []) \<Longrightarrow> length xs \<le> length (concat (map f xs))"
proof (induction xs)
  case Nil
  then show ?case by simp
next
  case (Cons x xs)
  have "f x \<noteq> []" using Cons.prems by simp
  then have "Suc 0 \<le> length (f x)" by (simp add: Suc_le_eq)
  moreover have "length xs \<le> length (concat (map f xs))" using Cons by simp
  ultimately show ?case by simp
qed

lemma take_append_exact [simp]: "take (length xs) (xs @ ys) = xs" "drop (length xs) (xs @ ys) = ys"
  by simp_all

end
