(* ===== verification/Varint.thy ===== *)
theory Varint
  imports Go_Prelude
begin

text \<open>
  The variable-length integers of \<open>encoding/binary\<close> (\<open>PutUvarint\<close>, \<open>Uvarint\<close>,
  \<open>PutVarint\<close>, \<open>Varint\<close>), which the flexible protocol versions and the record format use:
  their definitions at width 64, the round trips, and the bounds on their size that the producer
  relies on (\<open>MaxVarintLen32\<close>, \<open>MaxVarintLen64\<close>).
\<close>

subsection \<open>Unsigned\<close>

function PutUvarint :: "uint64 \<Rightarrow> byte list" where
  "PutUvarint x = (if x < 128 then [ucast x] else (ucast x OR 128) # PutUvarint (drop_bit 7 x))"
  by pat_completeness auto
termination
proof (relation "measure unat")
  fix x :: uint64
  assume "\<not> x < 128"
  then have "128 \<le> unat x" by (simp add: word_less_nat_alt)
  then have "unat x div 2 ^ 7 < unat x" by simp
  then show "(drop_bit 7 x, x) \<in> measure unat"
    by (simp add: drop_bit_eq_div unat_div)
qed simp

declare PutUvarint.simps [simp del]

text \<open>
  The loop over the buffer: the index \<open>i\<close>, the value so far, and the shift. The second component
  is the count \<open>Uvarint\<close> returns: 0 for a buffer that ends too early, negative for an overflow.
\<close>

fun Uvarint_loop :: "nat \<Rightarrow> uint64 \<Rightarrow> nat \<Rightarrow> byte list \<Rightarrow> uint64 \<times> int" where
  "Uvarint_loop i x s [] = (0, 0)"
| "Uvarint_loop i x s (b # bs) =
     (if i = 10 then (0, - (int i + 1))
      else if b < 128 then
        (if i = 9 \<and> b > 1 then (0, - (int i + 1)) else (x OR push_bit s (ucast b), int i + 1))
      else Uvarint_loop (Suc i) (x OR push_bit s (ucast (b AND 127))) (s + 7) bs)"

definition Uvarint :: "byte list \<Rightarrow> uint64 \<times> int" where
  "Uvarint buf = Uvarint_loop 0 0 0 buf"

subsection \<open>Signed (zig-zag)\<close>

definition zigzag :: "int64 \<Rightarrow> uint64" where
  "zigzag x = (let ux = push_bit 1 x in if sint x < 0 then NOT ux else ux)"

definition unzigzag :: "uint64 \<Rightarrow> int64" where
  "unzigzag ux = (let x = drop_bit 1 ux in if ux AND 1 \<noteq> 0 then NOT x else x)"

definition PutVarint :: "int64 \<Rightarrow> byte list" where
  "PutVarint x = PutUvarint (zigzag x)"

definition Varint :: "byte list \<Rightarrow> int64 \<times> int" where
  "Varint buf = (case Uvarint buf of (ux, n) \<Rightarrow> (unzigzag ux, n))"

subsection \<open>Size\<close>

lemma unat_drop_bit7: "unat (drop_bit 7 (x :: uint64)) = unat x div 2 ^ 7"
  by (simp add: drop_bit_eq_div unat_div)

lemma PutUvarint_nonempty [simp]: "PutUvarint x \<noteq> []" "[] \<noteq> PutUvarint x"
  by (subst PutUvarint.simps, simp)+

lemma PutVarint_nonempty [simp]: "PutVarint x \<noteq> []" "[] \<noteq> PutVarint x"
  by (simp_all add: PutVarint_def)

lemma length_PutUvarint_le:
  "unat x < 2 ^ (7 * Suc k) \<Longrightarrow> length (PutUvarint x) \<le> Suc k"
proof (induction k arbitrary: x)
  case 0
  then have "x < 128" by (simp add: word_less_nat_alt)
  then show ?case by (subst PutUvarint.simps) simp
next
  case (Suc k)
  show ?case
  proof (cases "x < 128")
    case True
    then show ?thesis by (subst PutUvarint.simps) simp
  next
    case False
    have "unat x < 2 ^ (7 * Suc k) * 2 ^ 7"
      using Suc.prems by (simp add: power_add mult.assoc)
    then have "unat (drop_bit 7 x) < 2 ^ (7 * Suc k)"
      unfolding unat_drop_bit7 by (rule less_mult_imp_div_less)
    then have "length (PutUvarint (drop_bit 7 x)) \<le> Suc k" by (rule Suc.IH)
    with False show ?thesis by (subst PutUvarint.simps) simp
  qed
qed

lemma length_PutUvarint_max: "length (PutUvarint x) \<le> 10"
proof -
  have "unat x < 2 ^ LENGTH(64)" by (rule unsigned_less)
  then have "unat x < 2 ^ (7 * Suc 9)" by simp
  then show ?thesis using length_PutUvarint_le [of x 9] by simp
qed

lemma length_PutVarint_max: "length (PutVarint x) \<le> 10"
  by (simp add: PutVarint_def length_PutUvarint_max)

lemma unat_zigzag_nonneg:
  "n < 2 ^ 63 \<Longrightarrow> unat (zigzag (word_of_nat n)) = 2 * n"
proof -
  assume n: "n < 2 ^ 63"
  then have "sint (word_of_nat n :: int64) = int n"
    by (simp add: sint_word_of_nat_id)
  moreover have "(2 * n) mod 2 ^ 64 = 2 * n" using n by simp
  ultimately show ?thesis
    by (simp add: zigzag_def Let_def push_bit_eq_mult unat_word_ariths unat_of_nat mod_mult_right_eq mult.commute)
qed

text \<open>A length below 2^31 takes at most five bytes, a length below 64 one byte.\<close>

lemma length_PutVarint_nat:
  assumes "n < 2 ^ 31"
  shows "length (PutVarint (word_of_nat n)) \<le> 5"
proof -
  have "unat (zigzag (word_of_nat n)) = 2 * n" using assms by (simp add: unat_zigzag_nonneg)
  with assms have "unat (zigzag (word_of_nat n)) < 2 ^ (7 * Suc 4)" by simp
  then show ?thesis using length_PutUvarint_le [of _ 4] by (simp add: PutVarint_def)
qed

subsection \<open>Round trips\<close>

lemma bit_low7: "bit ((ucast (w :: uint64) OR 128 :: byte) AND 127) k \<longleftrightarrow> k < 7 \<and> bit w k"
proof -
  have m: "(127 :: byte) = mask 7" "(128 :: byte) = push_bit 7 1"
    by (simp_all add: mask_eq_exp_minus_1)
  have *: "bit (127 :: byte) k \<longleftrightarrow> k < 7" "bit (128 :: byte) k \<longleftrightarrow> k = 7"
    by (auto simp only: m bit_simps possible_bit_word) simp_all
  show ?thesis by (simp only: bit_and_iff bit_or_iff bit_unsigned_iff *) auto
qed

lemma or_push_bit_step:
  "(x OR push_bit s (ucast ((ucast w OR 128 :: byte) AND 127))) OR push_bit (s + 7) (drop_bit 7 w)
    = x OR push_bit s (w :: uint64)"
proof -
  define b where "b = (ucast w OR 128 :: byte) AND 127"
  have b: "bit b k \<longleftrightarrow> k < 7 \<and> bit w k" for k
    unfolding b_def by (rule bit_low7)
  have "push_bit s (ucast b) OR push_bit (s + 7) (drop_bit 7 w) = push_bit s w"
  proof (rule bit_word_eqI)
    fix n assume n: "n < LENGTH(64)"
    show "bit (push_bit s (ucast b) OR push_bit (s + 7) (drop_bit 7 w)) n \<longleftrightarrow> bit (push_bit s w) n"
    proof (cases "s \<le> n")
      case True
      then obtain k where "n = s + k" using le_Suc_ex by blast
      with n show ?thesis
        by (cases "k < 7") (simp_all add: bit_or_iff bit_push_bit_iff bit_drop_bit_eq bit_unsigned_iff b)
    qed (simp add: bit_or_iff bit_push_bit_iff)
  qed
  then show ?thesis by (simp only: b_def or.assoc)
qed

lemma ucast_byte_small:
  assumes "w < (128 :: uint64)"
  shows "ucast (ucast w :: byte) = w" and "(ucast w :: byte) < 128"
    and "unat w \<le> 1 \<Longrightarrow> \<not> (ucast w :: byte) > 1"
proof -
  have w: "take_bit LENGTH(8) (unat w) = unat w" "take_bit LENGTH(64) (unat w) = unat w"
    using assms by (simp_all add: word_less_nat_alt take_bit_nat_eq_self_iff)
  then have u: "unat (ucast w :: byte) = unat w"
    by (simp only: unsigned_ucast_eq)
  have "unat (ucast b :: uint64) = take_bit LENGTH(64) (unat b)" for b :: byte
    by (rule unsigned_ucast_eq)
  then have "unat (ucast (ucast w :: byte) :: uint64) = unat w"
    by (simp only: u w)
  then show "ucast (ucast w :: byte) = w" by (simp add: word_unat_eq_iff)
  show "(ucast w :: byte) < 128" using assms u by (simp add: word_less_nat_alt)
  show "unat w \<le> 1 \<Longrightarrow> \<not> (ucast w :: byte) > 1" using u by (simp add: word_less_nat_alt)
qed

lemma Uvarint_loop_PutUvarint:
  "unat w < 2 ^ (64 - 7 * i) \<Longrightarrow> i \<le> 9 \<Longrightarrow>
   Uvarint_loop i x (7 * i) (PutUvarint w @ rest) =
     (x OR push_bit (7 * i) w, int i + int (length (PutUvarint w)))"
proof (induction w arbitrary: i x rule: PutUvarint.induct)
  case (1 w)
  show ?case
  proof (cases "w < 128")
    case True
    have "i = 9 \<Longrightarrow> unat w \<le> 1" using "1.prems" by simp
    then show ?thesis using True ucast_byte_small [OF True] "1.prems"
      by (subst (1 2) PutUvarint.simps) auto
  next
    case False
    then have w: "128 \<le> unat w" by (simp add: word_less_nat_alt)
    have i: "i < 9"
    proof (rule ccontr)
      assume "\<not> i < 9"
      with "1.prems" have "i = 9" by simp
      with "1.prems" w show False by simp
    qed
    have "(64 - 7 * i) = (64 - 7 * Suc i) + 7" using i by simp
    then have "unat w < 2 ^ (64 - 7 * Suc i) * 2 ^ 7"
      using "1.prems"(1) by (simp only: power_add)
    then have "unat (drop_bit 7 w) < 2 ^ (64 - 7 * Suc i)"
      unfolding unat_drop_bit7 by (rule less_mult_imp_div_less)
    then have IH: "Uvarint_loop (Suc i) y (7 * Suc i) (PutUvarint (drop_bit 7 w) @ rest) =
        (y OR push_bit (7 * Suc i) (drop_bit 7 w), int (Suc i) + int (length (PutUvarint (drop_bit 7 w))))" for y
      using "1.IH" [OF False, of "Suc i" y] i by simp
    have "\<not> (ucast w OR 128 :: byte) < 128"
      using le_word_or2 [of "128 :: byte" "ucast w"] by (simp add: or.commute)
    then have "Uvarint_loop i x (7 * i) (PutUvarint w @ rest) =
        Uvarint_loop (Suc i) (x OR push_bit (7 * i) (ucast ((ucast w OR 128 :: byte) AND 127))) (7 * Suc i)
          (PutUvarint (drop_bit 7 w) @ rest)"
      using False i by (subst PutUvarint.simps) (simp add: add.commute)
    also have "\<dots> = (x OR push_bit (7 * i) w, int (Suc i) + int (length (PutUvarint (drop_bit 7 w))))"
      using or_push_bit_step [of x "7 * i" w] by (simp only: IH) (simp add: add.commute)
    finally show ?thesis using False by (subst (2) PutUvarint.simps) simp
  qed
qed

lemma Uvarint_PutUvarint: "Uvarint (PutUvarint w @ rest) = (w, int (length (PutUvarint w)))"
proof -
  have "unat w < 2 ^ LENGTH(64)" by (rule unsigned_less)
  then show ?thesis
    using Uvarint_loop_PutUvarint [of w 0 0 rest] by (simp add: Uvarint_def)
qed

lemma bit_double: "bit (x * 2 :: uint64) k \<longleftrightarrow> 0 < k \<and> k < 64 \<and> bit x (k - 1)"
  using bit_push_bit_iff [of 1 x k] by (auto simp: push_bit_eq_mult)

lemma unzigzag_zigzag [simp]: "unzigzag (zigzag x) = x"
proof (rule bit_word_eqI)
  fix n assume n: "n < LENGTH(64)"
  have s: "sint x < 0 \<longleftrightarrow> bit x 63"
    by (simp add: bit_last_iff [symmetric])
  show "bit (unzigzag (zigzag x)) n \<longleftrightarrow> bit x n"
    using n by (cases "n = 63") (auto simp: unzigzag_def zigzag_def Let_def s bit_simps and_one_eq bit_double
        odd_iff_mod_2_eq_one [symmetric] even_push_bit_iff)
qed

lemma Varint_PutVarint: "Varint (PutVarint x @ rest) = (x, int (length (PutVarint x)))"
  by (simp add: Varint_def PutVarint_def Uvarint_PutUvarint)

text \<open>A single byte is the encoding of its own value below 128, so 0 is one zero byte.\<close>

lemma PutUvarint_0 [simp]: "PutUvarint 0 = [0]"
  by (subst PutUvarint.simps) simp

end
