(* ===== verification/Hashes.thy ===== *)
theory Hashes
  imports Go_Prelude
begin

text \<open>
  The checksums and hashes of the Go standard library that the code calls: \<open>hash/crc32\<close> with the
  IEEE and Castagnoli polynomials (message and record batch checksums, the CRC partitioner) and
  FNV-1a (\<open>hash/fnv\<close>, the default partitioner), each as the bit-serial definition that the table
  driven library implements.
\<close>

primrec crc_bits :: "nat \<Rightarrow> uint32 \<Rightarrow> uint32 \<Rightarrow> uint32" where
  "crc_bits 0 poly crc = crc"
| "crc_bits (Suc n) poly crc =
     crc_bits n poly (if crc AND 1 = 1 then drop_bit 1 crc XOR poly else drop_bit 1 crc)"

definition crc_update :: "uint32 \<Rightarrow> uint32 \<Rightarrow> byte \<Rightarrow> uint32" where
  "crc_update poly crc b = crc_bits 8 poly (crc XOR ucast b)"

definition crc32_Checksum :: "uint32 \<Rightarrow> byte list \<Rightarrow> uint32" where
  "crc32_Checksum poly bs = NOT (foldl (crc_update poly) (NOT 0) bs)"

text \<open>The polynomials in reversed bit order: \<open>0xedb88320\<close> and \<open>0x82f63b78\<close>.\<close>

definition crc32_IEEE :: uint32 where "crc32_IEEE = 3988292384"
definition crc32_Castagnoli :: uint32 where "crc32_Castagnoli = 2197175160"

definition fnv1a_32 :: "byte list \<Rightarrow> uint32" where
  "fnv1a_32 bs = foldl (\<lambda>h b. (h XOR ucast b) * 16777619) 2166136261 bs"

text \<open>The check values of the two polynomials and of the hash.\<close>

lemma crc32_IEEE_check: "crc32_Checksum crc32_IEEE (bytes_of ''123456789'') = 3421780262"
  by code_simp

lemma crc32_Castagnoli_check:
  "crc32_Checksum crc32_Castagnoli (bytes_of ''123456789'') = 3808858755"
  by code_simp

lemma fnv1a_32_check: "fnv1a_32 (bytes_of ''foobar'') = 3214735720"
  by code_simp

end
