(* ===== verification/Wire_Encoder.thy ===== *)
theory Wire_Encoder
  imports Varint Hashes
begin

text \<open>
  The encoding half of the wire codec: the \<open>packetEncoder\<close> interface, its two implementations
  \<open>prepEncoder\<close> (which only counts bytes) and \<open>realEncoder\<close> (which fills a buffer of exactly
  that size), the length and checksum fields that are patched into the buffer when they are popped
  (\<open>length_field.go\<close>, \<open>crc32_field.go\<close>), and the two-pass \<open>encode\<close>
  (\<open>encoder_decoder.go\<close>).

  An \<open>encode\<close> method of the library only calls methods of the \<open>packetEncoder\<close> it is given and
  returns at the first error, so it is modelled by the sequence of calls it makes, a
  \<open>pe_op list\<close>. \<open>push\<close> and \<open>pop\<close> always bracket the calls between them inside one method;
  the bracket is the constructor \<open>pushPop\<close>, which both encoders run as a push, the calls of the
  body and a pop on their stack. An error the method itself returns is \<open>fail\<close>.

  The lemmas give the sequence its meaning: \<open>ser_ops\<close> is the byte string it stands for,
  \<open>ops_ok\<close> says that no call of it returns an error, and \<open>encode_ops_ok\<close> shows that the two
  passes of \<open>encode\<close> agree on every accepted sequence, never run out of the buffer, and produce
  those bytes.
\<close>

subsection \<open>Push fields\<close>

datatype crcPolynomial = crcIEEE | crcCastagnoli

text \<open>The field objects, with the offset they save and the length they carry.\<close>

datatype pushField =
    lengthField nat int32
  | crc32Field nat crcPolynomial
  | varintLengthField nat int64

fun saveOffset :: "nat \<Rightarrow> pushField \<Rightarrow> pushField" where
  "saveOffset off (lengthField _ l) = lengthField off l"
| "saveOffset off (crc32Field _ p) = crc32Field off p"
| "saveOffset off (varintLengthField _ l) = varintLengthField off l"

fun reserveLength :: "pushField \<Rightarrow> nat" where
  "reserveLength (lengthField _ _) = 4"
| "reserveLength (crc32Field _ _) = 4"
| "reserveLength (varintLengthField _ l) = length (PutVarint l)"

text \<open>
  \<open>adjustLength\<close> of a \<open>dynamicPushEncoder\<close>, here the varint length field: the length the field
  now has to hold, and by how much its own size changes. Other fields are not dynamic.
\<close>

fun adjustLength :: "nat \<Rightarrow> pushField \<Rightarrow> pushField \<times> int" where
  "adjustLength currOffset (varintLengthField start l) =
     (let oldFieldSize = length (PutVarint l);
          l' = word_of_int (int currOffset - int start - int oldFieldSize)
      in (varintLengthField start l', int (length (PutVarint l')) - int oldFieldSize))"
| "adjustLength currOffset f = (f, 0)"

definition crc_of :: "crcPolynomial \<Rightarrow> byte list \<Rightarrow> uint32" where
  "crc_of p bs = crc32_Checksum (case p of crcIEEE \<Rightarrow> crc32_IEEE | crcCastagnoli \<Rightarrow> crc32_Castagnoli) bs"

text \<open>Writing into a buffer, and \<open>copy\<close> into the slice that starts at an offset.\<close>

definition write_at :: "nat \<Rightarrow> byte list \<Rightarrow> byte list \<Rightarrow> byte list res" where
  "write_at off bs raw =
     (if off + length bs \<le> length raw then Ok (take off raw @ bs @ drop (off + length bs) raw)
      else Panic)"

definition copy_at :: "nat \<Rightarrow> byte list \<Rightarrow> byte list \<Rightarrow> byte list res" where
  "copy_at off bs raw =
     (if off \<le> length raw
      then Ok (take off raw @ take (length raw - off) bs @ drop (off + length bs) raw)
      else Panic)"

fun field_run :: "pushField \<Rightarrow> nat \<Rightarrow> byte list \<Rightarrow> byte list res" where
  "field_run (lengthField start _) cur buf =
     write_at start (be32 (word_of_int (int cur - int start - 4))) buf"
| "field_run (crc32Field start p) cur buf =
     (if start + 4 \<le> cur \<and> cur \<le> length buf
      then write_at start (be32 (crc_of p (take (cur - (start + 4)) (drop (start + 4) buf)))) buf
      else Panic)"
| "field_run (varintLengthField start l) cur buf = write_at start (PutVarint l) buf"

subsection \<open>The calls of the packetEncoder interface\<close>

datatype pe_op =
    putInt8 int8
  | putInt16 int16
  | putInt32 int32
  | putInt64 int64
  | putVarint int64
  | putUVarint uint64
  | putFloat64 "64 word"
  | putCompactArrayLength int
  | putArrayLength int
  | putBool bool
  | putBytes nbytes
  | putVarintBytes nbytes
  | putCompactBytes "byte list"
  | putRawBytes "byte list"
  | putCompactString string
  | putNullableCompactString nstring
  | putString string
  | putNullableString nstring
  | putStringArray "string list"
  | putCompactInt32Array "int32 list option"
  | putNullableCompactInt32Array "int32 list option"
  | putInt32Array "int32 list"
  | putInt64Array "int64 list"
  | putEmptyTaggedFieldArray
  | pushPop pushField "pe_op list"
  | fail go_error

subsection \<open>prepEncoder\<close>

record prepEncoder =
  pe_stack :: "pushField list"
  pe_length :: nat

definition prep_add :: "nat \<Rightarrow> prepEncoder \<Rightarrow> prepEncoder res" where
  "prep_add n pe = Ok (pe\<lparr>pe_length := pe_length pe + n\<rparr>)"

definition prep_putInt8 :: "int8 \<Rightarrow> prepEncoder \<Rightarrow> prepEncoder res" where
  "prep_putInt8 v pe = prep_add 1 pe"

definition prep_putInt16 :: "int16 \<Rightarrow> prepEncoder \<Rightarrow> prepEncoder res" where
  "prep_putInt16 v pe = prep_add 2 pe"

definition prep_putInt32 :: "int32 \<Rightarrow> prepEncoder \<Rightarrow> prepEncoder res" where
  "prep_putInt32 v pe = prep_add 4 pe"

definition prep_putInt64 :: "int64 \<Rightarrow> prepEncoder \<Rightarrow> prepEncoder res" where
  "prep_putInt64 v pe = prep_add 8 pe"

definition prep_putVarint :: "int64 \<Rightarrow> prepEncoder \<Rightarrow> prepEncoder res" where
  "prep_putVarint v pe = prep_add (length (PutVarint v)) pe"

definition prep_putUVarint :: "uint64 \<Rightarrow> prepEncoder \<Rightarrow> prepEncoder res" where
  "prep_putUVarint v pe = prep_add (length (PutUvarint v)) pe"

definition prep_putFloat64 :: "64 word \<Rightarrow> prepEncoder \<Rightarrow> prepEncoder res" where
  "prep_putFloat64 v pe = prep_add 8 pe"

definition prep_putArrayLength :: "int \<Rightarrow> prepEncoder \<Rightarrow> prepEncoder res" where
  "prep_putArrayLength n pe =
     (if n > MaxInt32 then Err (PacketEncodingError ''array too long'') else prep_add 4 pe)"

definition prep_putCompactArrayLength :: "int \<Rightarrow> prepEncoder \<Rightarrow> prepEncoder res" where
  "prep_putCompactArrayLength n pe = prep_putUVarint (word_of_int (n + 1)) pe"

definition prep_putBool :: "bool \<Rightarrow> prepEncoder \<Rightarrow> prepEncoder res" where
  "prep_putBool v pe = prep_add 1 pe"

definition prep_putRawBytes :: "byte list \<Rightarrow> prepEncoder \<Rightarrow> prepEncoder res" where
  "prep_putRawBytes bs pe =
     (if int (length bs) > MaxInt32 then Err (PacketEncodingError ''byteslice too long'')
      else prep_add (length bs) pe)"

definition prep_putBytes :: "nbytes \<Rightarrow> prepEncoder \<Rightarrow> prepEncoder res" where
  "prep_putBytes v pe =
     res_bind (prep_add 4 pe) (\<lambda>pe. case v of None \<Rightarrow> Ok pe | Some bs \<Rightarrow> prep_putRawBytes bs pe)"

definition prep_putVarintBytes :: "nbytes \<Rightarrow> prepEncoder \<Rightarrow> prepEncoder res" where
  "prep_putVarintBytes v pe =
     (case v of None \<Rightarrow> prep_putVarint (- 1) pe
      | Some bs \<Rightarrow> res_bind (prep_putVarint (word_of_nat (length bs)) pe) (prep_putRawBytes bs))"

definition prep_putCompactBytes :: "byte list \<Rightarrow> prepEncoder \<Rightarrow> prepEncoder res" where
  "prep_putCompactBytes bs pe =
     res_bind (prep_putUVarint (word_of_nat (length bs + 1)) pe) (prep_putRawBytes bs)"

definition prep_putCompactString :: "string \<Rightarrow> prepEncoder \<Rightarrow> prepEncoder res" where
  "prep_putCompactString s pe =
     res_bind (prep_putCompactArrayLength (int (length s)) pe) (prep_putRawBytes (bytes_of s))"

definition prep_putNullableCompactString :: "nstring \<Rightarrow> prepEncoder \<Rightarrow> prepEncoder res" where
  "prep_putNullableCompactString v pe =
     (case v of None \<Rightarrow> prep_putUVarint 0 pe | Some s \<Rightarrow> prep_putCompactString s pe)"

definition prep_putString :: "string \<Rightarrow> prepEncoder \<Rightarrow> prepEncoder res" where
  "prep_putString s pe =
     res_bind (prep_add 2 pe) (\<lambda>pe.
       if int (length s) > MaxInt16 then Err (PacketEncodingError ''string too long'')
       else prep_add (length s) pe)"

definition prep_putNullableString :: "nstring \<Rightarrow> prepEncoder \<Rightarrow> prepEncoder res" where
  "prep_putNullableString v pe = (case v of None \<Rightarrow> prep_add 2 pe | Some s \<Rightarrow> prep_putString s pe)"

primrec prep_putStrings :: "string list \<Rightarrow> prepEncoder \<Rightarrow> prepEncoder res" where
  "prep_putStrings [] pe = Ok pe"
| "prep_putStrings (s # ss) pe = res_bind (prep_putString s pe) (prep_putStrings ss)"

definition prep_putStringArray :: "string list \<Rightarrow> prepEncoder \<Rightarrow> prepEncoder res" where
  "prep_putStringArray ss pe =
     res_bind (prep_putArrayLength (int (length ss)) pe) (prep_putStrings ss)"

definition prep_putCompactInt32Array :: "int32 list option \<Rightarrow> prepEncoder \<Rightarrow> prepEncoder res" where
  "prep_putCompactInt32Array v pe =
     (case v of None \<Rightarrow> Err (OtherError ''expected int32 array to be non null'')
      | Some xs \<Rightarrow> res_bind (prep_putUVarint (word_of_nat (length xs) + 1) pe)
          (prep_add (4 * length xs)))"

definition prep_putNullableCompactInt32Array :: "int32 list option \<Rightarrow> prepEncoder \<Rightarrow> prepEncoder res" where
  "prep_putNullableCompactInt32Array v pe =
     (case v of None \<Rightarrow> prep_putUVarint 0 pe
      | Some xs \<Rightarrow> res_bind (prep_putUVarint (word_of_nat (length xs) + 1) pe)
          (prep_add (4 * length xs)))"

definition prep_putInt32Array :: "int32 list \<Rightarrow> prepEncoder \<Rightarrow> prepEncoder res" where
  "prep_putInt32Array xs pe =
     res_bind (prep_putArrayLength (int (length xs)) pe) (prep_add (4 * length xs))"

definition prep_putInt64Array :: "int64 list \<Rightarrow> prepEncoder \<Rightarrow> prepEncoder res" where
  "prep_putInt64Array xs pe =
     res_bind (prep_putArrayLength (int (length xs)) pe) (prep_add (8 * length xs))"

definition prep_putEmptyTaggedFieldArray :: "prepEncoder \<Rightarrow> prepEncoder res" where
  "prep_putEmptyTaggedFieldArray pe = prep_putUVarint 0 pe"

definition prep_push :: "pushField \<Rightarrow> prepEncoder \<Rightarrow> prepEncoder" where
  "prep_push f pe =
     (let f' = saveOffset (pe_length pe) f
      in pe\<lparr>pe_length := pe_length pe + reserveLength f', pe_stack := f' # pe_stack pe\<rparr>)"

text \<open>\<open>pop\<close> also returns the field, whose length a dynamic field has updated.\<close>

definition prep_pop :: "prepEncoder \<Rightarrow> (pushField \<times> prepEncoder) res" where
  "prep_pop pe =
     (case pe_stack pe of [] \<Rightarrow> Panic
      | f # st \<Rightarrow>
          (case adjustLength (pe_length pe) f of (f', d) \<Rightarrow>
             Ok (f', pe\<lparr>pe_stack := st, pe_length := nat (int (pe_length pe) + d)\<rparr>)))"

subsection \<open>realEncoder\<close>

record realEncoder =
  re_raw :: "byte list"
  re_off :: nat
  re_stack :: "pushField list"

text \<open>Store bytes at the offset and advance it: \<open>PutUint16\<close> and its kin panic outside the buffer.\<close>

definition real_store :: "byte list \<Rightarrow> realEncoder \<Rightarrow> realEncoder res" where
  "real_store bs re =
     res_bind (write_at (re_off re) bs (re_raw re)) (\<lambda>raw.
       Ok (re\<lparr>re_raw := raw, re_off := re_off re + length bs\<rparr>))"

definition real_putInt8 :: "int8 \<Rightarrow> realEncoder \<Rightarrow> realEncoder res" where
  "real_putInt8 v re = real_store [v] re"

definition real_putInt16 :: "int16 \<Rightarrow> realEncoder \<Rightarrow> realEncoder res" where
  "real_putInt16 v re = real_store (be16 v) re"

definition real_putInt32 :: "int32 \<Rightarrow> realEncoder \<Rightarrow> realEncoder res" where
  "real_putInt32 v re = real_store (be32 v) re"

definition real_putInt64 :: "int64 \<Rightarrow> realEncoder \<Rightarrow> realEncoder res" where
  "real_putInt64 v re = real_store (be64 v) re"

definition real_putVarint :: "int64 \<Rightarrow> realEncoder \<Rightarrow> realEncoder res" where
  "real_putVarint v re = real_store (PutVarint v) re"

definition real_putUVarint :: "uint64 \<Rightarrow> realEncoder \<Rightarrow> realEncoder res" where
  "real_putUVarint v re = real_store (PutUvarint v) re"

definition real_putFloat64 :: "64 word \<Rightarrow> realEncoder \<Rightarrow> realEncoder res" where
  "real_putFloat64 v re = real_store (be64 v) re"

definition real_putArrayLength :: "int \<Rightarrow> realEncoder \<Rightarrow> realEncoder res" where
  "real_putArrayLength n re = real_putInt32 (word_of_int n) re"

definition real_putCompactArrayLength :: "int \<Rightarrow> realEncoder \<Rightarrow> realEncoder res" where
  "real_putCompactArrayLength n re = real_putUVarint (word_of_int (n + 1)) re"

definition real_putBool :: "bool \<Rightarrow> realEncoder \<Rightarrow> realEncoder res" where
  "real_putBool b re = (if b then real_putInt8 1 re else real_putInt8 0 re)"

definition real_putRawBytes :: "byte list \<Rightarrow> realEncoder \<Rightarrow> realEncoder res" where
  "real_putRawBytes bs re =
     res_bind (copy_at (re_off re) bs (re_raw re)) (\<lambda>raw.
       Ok (re\<lparr>re_raw := raw, re_off := re_off re + length bs\<rparr>))"

definition real_putBytes :: "nbytes \<Rightarrow> realEncoder \<Rightarrow> realEncoder res" where
  "real_putBytes v re =
     (case v of None \<Rightarrow> real_putInt32 (- 1) re
      | Some bs \<Rightarrow> res_bind (real_putInt32 (word_of_nat (length bs)) re) (real_putRawBytes bs))"

definition real_putVarintBytes :: "nbytes \<Rightarrow> realEncoder \<Rightarrow> realEncoder res" where
  "real_putVarintBytes v re =
     (case v of None \<Rightarrow> real_putVarint (- 1) re
      | Some bs \<Rightarrow> res_bind (real_putVarint (word_of_nat (length bs)) re) (real_putRawBytes bs))"

definition real_putCompactBytes :: "byte list \<Rightarrow> realEncoder \<Rightarrow> realEncoder res" where
  "real_putCompactBytes bs re =
     res_bind (real_putUVarint (word_of_nat (length bs + 1)) re) (real_putRawBytes bs)"

definition real_putCompactString :: "string \<Rightarrow> realEncoder \<Rightarrow> realEncoder res" where
  "real_putCompactString s re =
     res_bind (real_putCompactArrayLength (int (length s)) re) (real_putRawBytes (bytes_of s))"

definition real_putNullableCompactString :: "nstring \<Rightarrow> realEncoder \<Rightarrow> realEncoder res" where
  "real_putNullableCompactString v re =
     (case v of None \<Rightarrow> real_putInt8 0 re | Some s \<Rightarrow> real_putCompactString s re)"

definition real_putString :: "string \<Rightarrow> realEncoder \<Rightarrow> realEncoder res" where
  "real_putString s re =
     res_bind (real_putInt16 (word_of_nat (length s)) re) (\<lambda>re.
     res_bind (copy_at (re_off re) (bytes_of s) (re_raw re)) (\<lambda>raw.
       Ok (re\<lparr>re_raw := raw, re_off := re_off re + length s\<rparr>)))"

definition real_putNullableString :: "nstring \<Rightarrow> realEncoder \<Rightarrow> realEncoder res" where
  "real_putNullableString v re =
     (case v of None \<Rightarrow> real_putInt16 (- 1) re | Some s \<Rightarrow> real_putString s re)"

primrec real_each :: "('a \<Rightarrow> realEncoder \<Rightarrow> realEncoder res) \<Rightarrow> 'a list \<Rightarrow> realEncoder \<Rightarrow> realEncoder res" where
  "real_each put [] re = Ok re"
| "real_each put (x # xs) re = res_bind (put x re) (real_each put xs)"

definition real_putStringArray :: "string list \<Rightarrow> realEncoder \<Rightarrow> realEncoder res" where
  "real_putStringArray ss re =
     res_bind (real_putArrayLength (int (length ss)) re) (real_each real_putString ss)"

definition real_putCompactInt32Array :: "int32 list option \<Rightarrow> realEncoder \<Rightarrow> realEncoder res" where
  "real_putCompactInt32Array v re =
     (case v of None \<Rightarrow> Err (OtherError ''expected int32 array to be non null'')
      | Some xs \<Rightarrow> res_bind (real_putUVarint (word_of_nat (length xs) + 1) re)
          (real_each real_putInt32 xs))"

definition real_putNullableCompactInt32Array :: "int32 list option \<Rightarrow> realEncoder \<Rightarrow> realEncoder res" where
  "real_putNullableCompactInt32Array v re =
     (case v of None \<Rightarrow> real_putUVarint 0 re
      | Some xs \<Rightarrow> res_bind (real_putUVarint (word_of_nat (length xs) + 1) re)
          (real_each real_putInt32 xs))"

definition real_putInt32Array :: "int32 list \<Rightarrow> realEncoder \<Rightarrow> realEncoder res" where
  "real_putInt32Array xs re =
     res_bind (real_putArrayLength (int (length xs)) re) (real_each real_putInt32 xs)"

definition real_putInt64Array :: "int64 list \<Rightarrow> realEncoder \<Rightarrow> realEncoder res" where
  "real_putInt64Array xs re =
     res_bind (real_putArrayLength (int (length xs)) re) (real_each real_putInt64 xs)"

definition real_putEmptyTaggedFieldArray :: "realEncoder \<Rightarrow> realEncoder res" where
  "real_putEmptyTaggedFieldArray re = real_putUVarint 0 re"

definition real_push :: "pushField \<Rightarrow> realEncoder \<Rightarrow> realEncoder" where
  "real_push f re =
     (let f' = saveOffset (re_off re) f
      in re\<lparr>re_off := re_off re + reserveLength f', re_stack := f' # re_stack re\<rparr>)"

definition real_pop :: "realEncoder \<Rightarrow> realEncoder res" where
  "real_pop re =
     (case re_stack re of [] \<Rightarrow> Panic
      | f # st \<Rightarrow>
          res_bind (field_run f (re_off re) (re_raw re)) (\<lambda>raw.
            Ok (re\<lparr>re_raw := raw, re_stack := st\<rparr>)))"

subsection \<open>Running a sequence of calls\<close>

text \<open>
  The preparing pass returns the sequence as well, because the varint length fields in it are
  pointers into the encoded object: the pass stores in them the length that the second pass writes.
\<close>

definition keep_op :: "pe_op \<Rightarrow> prepEncoder res \<Rightarrow> (pe_op \<times> prepEncoder) res" where
  "keep_op op r = res_bind r (\<lambda>pe. Ok (op, pe))"

fun prep_op :: "pe_op \<Rightarrow> prepEncoder \<Rightarrow> (pe_op \<times> prepEncoder) res"
  and prep_ops :: "pe_op list \<Rightarrow> prepEncoder \<Rightarrow> (pe_op list \<times> prepEncoder) res" where
  "prep_op (putInt8 v) pe = keep_op (putInt8 v) (prep_putInt8 v pe)"
| "prep_op (putInt16 v) pe = keep_op (putInt16 v) (prep_putInt16 v pe)"
| "prep_op (putInt32 v) pe = keep_op (putInt32 v) (prep_putInt32 v pe)"
| "prep_op (putInt64 v) pe = keep_op (putInt64 v) (prep_putInt64 v pe)"
| "prep_op (putVarint v) pe = keep_op (putVarint v) (prep_putVarint v pe)"
| "prep_op (putUVarint v) pe = keep_op (putUVarint v) (prep_putUVarint v pe)"
| "prep_op (putFloat64 v) pe = keep_op (putFloat64 v) (prep_putFloat64 v pe)"
| "prep_op (putCompactArrayLength v) pe =
     keep_op (putCompactArrayLength v) (prep_putCompactArrayLength v pe)"
| "prep_op (putArrayLength v) pe = keep_op (putArrayLength v) (prep_putArrayLength v pe)"
| "prep_op (putBool v) pe = keep_op (putBool v) (prep_putBool v pe)"
| "prep_op (putBytes v) pe = keep_op (putBytes v) (prep_putBytes v pe)"
| "prep_op (putVarintBytes v) pe = keep_op (putVarintBytes v) (prep_putVarintBytes v pe)"
| "prep_op (putCompactBytes v) pe = keep_op (putCompactBytes v) (prep_putCompactBytes v pe)"
| "prep_op (putRawBytes v) pe = keep_op (putRawBytes v) (prep_putRawBytes v pe)"
| "prep_op (putCompactString v) pe = keep_op (putCompactString v) (prep_putCompactString v pe)"
| "prep_op (putNullableCompactString v) pe =
     keep_op (putNullableCompactString v) (prep_putNullableCompactString v pe)"
| "prep_op (putString v) pe = keep_op (putString v) (prep_putString v pe)"
| "prep_op (putNullableString v) pe = keep_op (putNullableString v) (prep_putNullableString v pe)"
| "prep_op (putStringArray v) pe = keep_op (putStringArray v) (prep_putStringArray v pe)"
| "prep_op (putCompactInt32Array v) pe =
     keep_op (putCompactInt32Array v) (prep_putCompactInt32Array v pe)"
| "prep_op (putNullableCompactInt32Array v) pe =
     keep_op (putNullableCompactInt32Array v) (prep_putNullableCompactInt32Array v pe)"
| "prep_op (putInt32Array v) pe = keep_op (putInt32Array v) (prep_putInt32Array v pe)"
| "prep_op (putInt64Array v) pe = keep_op (putInt64Array v) (prep_putInt64Array v pe)"
| "prep_op putEmptyTaggedFieldArray pe =
     keep_op putEmptyTaggedFieldArray (prep_putEmptyTaggedFieldArray pe)"
| "prep_op (pushPop f body) pe =
     res_bind (prep_ops body (prep_push f pe)) (\<lambda>(body', pe).
     res_bind (prep_pop pe) (\<lambda>(f', pe). Ok (pushPop f' body', pe)))"
| "prep_op (fail e) pe = Err e"
| "prep_ops [] pe = Ok ([], pe)"
| "prep_ops (op # ops) pe =
     res_bind (prep_op op pe) (\<lambda>(op', pe).
     res_bind (prep_ops ops pe) (\<lambda>(ops', pe). Ok (op' # ops', pe)))"

fun real_op :: "pe_op \<Rightarrow> realEncoder \<Rightarrow> realEncoder res"
  and real_ops :: "pe_op list \<Rightarrow> realEncoder \<Rightarrow> realEncoder res" where
  "real_op (putInt8 v) re = real_putInt8 v re"
| "real_op (putInt16 v) re = real_putInt16 v re"
| "real_op (putInt32 v) re = real_putInt32 v re"
| "real_op (putInt64 v) re = real_putInt64 v re"
| "real_op (putVarint v) re = real_putVarint v re"
| "real_op (putUVarint v) re = real_putUVarint v re"
| "real_op (putFloat64 v) re = real_putFloat64 v re"
| "real_op (putCompactArrayLength v) re = real_putCompactArrayLength v re"
| "real_op (putArrayLength v) re = real_putArrayLength v re"
| "real_op (putBool v) re = real_putBool v re"
| "real_op (putBytes v) re = real_putBytes v re"
| "real_op (putVarintBytes v) re = real_putVarintBytes v re"
| "real_op (putCompactBytes v) re = real_putCompactBytes v re"
| "real_op (putRawBytes v) re = real_putRawBytes v re"
| "real_op (putCompactString v) re = real_putCompactString v re"
| "real_op (putNullableCompactString v) re = real_putNullableCompactString v re"
| "real_op (putString v) re = real_putString v re"
| "real_op (putNullableString v) re = real_putNullableString v re"
| "real_op (putStringArray v) re = real_putStringArray v re"
| "real_op (putCompactInt32Array v) re = real_putCompactInt32Array v re"
| "real_op (putNullableCompactInt32Array v) re = real_putNullableCompactInt32Array v re"
| "real_op (putInt32Array v) re = real_putInt32Array v re"
| "real_op (putInt64Array v) re = real_putInt64Array v re"
| "real_op putEmptyTaggedFieldArray re = real_putEmptyTaggedFieldArray re"
| "real_op (pushPop f body) re = res_bind (real_ops body (real_push f re)) real_pop"
| "real_op (fail e) re = Err e"
| "real_ops [] re = Ok re"
| "real_ops (op # ops) re = res_bind (real_op op re) (real_ops ops)"

text \<open>\<open>MaxRequestSize\<close> has the default the library gives it.\<close>

definition MaxRequestSize :: nat where
  "MaxRequestSize = 100 * 1024 * 1024"

definition encode :: "pe_op list \<Rightarrow> byte list res" where
  "encode ops =
     res_bind (prep_ops ops \<lparr>pe_stack = [], pe_length = 0\<rparr>) (\<lambda>(ops', prepEnc).
       if pe_length prepEnc > MaxRequestSize then Err (PacketEncodingError ''invalid request size'')
       else
         res_bind (real_ops ops' \<lparr>re_raw = replicate (pe_length prepEnc) 0, re_off = 0, re_stack = []\<rparr>)
           (\<lambda>realEnc. Ok (re_raw realEnc)))"

subsection \<open>The bytes a sequence of calls stands for\<close>

definition ser_bool :: "bool \<Rightarrow> byte list" where
  "ser_bool b = (if b then [1] else [0])"

definition ser_string :: "string \<Rightarrow> byte list" where
  "ser_string s = be16 (word_of_nat (length s)) @ bytes_of s"

definition ser_nstring :: "nstring \<Rightarrow> byte list" where
  "ser_nstring v = (case v of None \<Rightarrow> be16 (- 1) | Some s \<Rightarrow> ser_string s)"

definition ser_cstring :: "string \<Rightarrow> byte list" where
  "ser_cstring s = PutUvarint (word_of_int (int (length s) + 1)) @ bytes_of s"

definition ser_ncstring :: "nstring \<Rightarrow> byte list" where
  "ser_ncstring v = (case v of None \<Rightarrow> [0] | Some s \<Rightarrow> ser_cstring s)"

definition ser_bytes :: "nbytes \<Rightarrow> byte list" where
  "ser_bytes v = (case v of None \<Rightarrow> be32 (- 1) | Some bs \<Rightarrow> be32 (word_of_nat (length bs)) @ bs)"

definition ser_vbytes :: "nbytes \<Rightarrow> byte list" where
  "ser_vbytes v =
     (case v of None \<Rightarrow> PutVarint (- 1) | Some bs \<Rightarrow> PutVarint (word_of_nat (length bs)) @ bs)"

definition ser_cbytes :: "byte list \<Rightarrow> byte list" where
  "ser_cbytes bs = PutUvarint (word_of_nat (length bs + 1)) @ bs"

definition ser_strings :: "string list \<Rightarrow> byte list" where
  "ser_strings ss = be32 (word_of_int (int (length ss))) @ concat (map ser_string ss)"

definition ser_cint32s :: "int32 list \<Rightarrow> byte list" where
  "ser_cint32s xs = PutUvarint (word_of_nat (length xs) + 1) @ concat (map be32 xs)"

definition ser_ncint32s :: "int32 list option \<Rightarrow> byte list" where
  "ser_ncint32s v = (case v of None \<Rightarrow> [0] | Some xs \<Rightarrow> ser_cint32s xs)"

definition ser_int32s :: "int32 list \<Rightarrow> byte list" where
  "ser_int32s xs = be32 (word_of_int (int (length xs))) @ concat (map be32 xs)"

definition ser_int64s :: "int64 list \<Rightarrow> byte list" where
  "ser_int64s xs = be32 (word_of_int (int (length xs))) @ concat (map be64 xs)"

definition ser_array_length :: "int \<Rightarrow> byte list" where
  "ser_array_length n = be32 (word_of_int n)"

definition ser_carray_length :: "int \<Rightarrow> byte list" where
  "ser_carray_length n = PutUvarint (word_of_int (n + 1))"

lemmas ser_defs = ser_bool_def ser_nstring_def ser_cstring_def ser_ncstring_def ser_bytes_def
  ser_vbytes_def ser_cbytes_def ser_strings_def ser_cint32s_def ser_ncint32s_def ser_int32s_def
  ser_int64s_def ser_array_length_def ser_carray_length_def

lemma length_ser_array_length [simp]: "length (ser_array_length n) = 4"
  by (simp add: ser_array_length_def)

fun op_ok :: "pe_op \<Rightarrow> bool" where
  "op_ok (putArrayLength n) \<longleftrightarrow> n \<le> MaxInt32"
| "op_ok (putBytes v) \<longleftrightarrow> (case v of None \<Rightarrow> True | Some bs \<Rightarrow> int (length bs) \<le> MaxInt32)"
| "op_ok (putVarintBytes v) \<longleftrightarrow> (case v of None \<Rightarrow> True | Some bs \<Rightarrow> int (length bs) \<le> MaxInt32)"
| "op_ok (putCompactBytes bs) \<longleftrightarrow> int (length bs) \<le> MaxInt32"
| "op_ok (putRawBytes bs) \<longleftrightarrow> int (length bs) \<le> MaxInt32"
| "op_ok (putCompactString s) \<longleftrightarrow> int (length s) \<le> MaxInt32"
| "op_ok (putNullableCompactString v) \<longleftrightarrow>
     (case v of None \<Rightarrow> True | Some s \<Rightarrow> int (length s) \<le> MaxInt32)"
| "op_ok (putString s) \<longleftrightarrow> int (length s) \<le> MaxInt16"
| "op_ok (putNullableString v) \<longleftrightarrow> (case v of None \<Rightarrow> True | Some s \<Rightarrow> int (length s) \<le> MaxInt16)"
| "op_ok (putStringArray ss) \<longleftrightarrow>
     int (length ss) \<le> MaxInt32 \<and> list_all (\<lambda>s. int (length s) \<le> MaxInt16) ss"
| "op_ok (putCompactInt32Array v) \<longleftrightarrow> v \<noteq> None"
| "op_ok (putInt32Array xs) \<longleftrightarrow> int (length xs) \<le> MaxInt32"
| "op_ok (putInt64Array xs) \<longleftrightarrow> int (length xs) \<le> MaxInt32"
| "op_ok (pushPop f body) \<longleftrightarrow> list_all op_ok body"
| "op_ok (fail e) \<longleftrightarrow> False"
| "op_ok _ \<longleftrightarrow> True"

abbreviation ops_ok :: "pe_op list \<Rightarrow> bool" where
  "ops_ok ops \<equiv> list_all op_ok ops"

text \<open>A push field stands for bytes computed from the bytes of its body.\<close>

fun ser_field :: "pushField \<Rightarrow> byte list \<Rightarrow> byte list" where
  "ser_field (lengthField _ _) body = be32 (word_of_nat (length body))"
| "ser_field (crc32Field _ p) body = be32 (crc_of p body)"
| "ser_field (varintLengthField _ _) body = PutVarint (word_of_nat (length body))"

fun ser_op :: "pe_op \<Rightarrow> byte list" where
  "ser_op (putInt8 v) = [v]"
| "ser_op (putInt16 v) = be16 v"
| "ser_op (putInt32 v) = be32 v"
| "ser_op (putInt64 v) = be64 v"
| "ser_op (putVarint v) = PutVarint v"
| "ser_op (putUVarint v) = PutUvarint v"
| "ser_op (putFloat64 v) = be64 v"
| "ser_op (putCompactArrayLength n) = ser_carray_length n"
| "ser_op (putArrayLength n) = ser_array_length n"
| "ser_op (putBool b) = ser_bool b"
| "ser_op (putBytes v) = ser_bytes v"
| "ser_op (putVarintBytes v) = ser_vbytes v"
| "ser_op (putCompactBytes bs) = ser_cbytes bs"
| "ser_op (putRawBytes bs) = bs"
| "ser_op (putCompactString s) = ser_cstring s"
| "ser_op (putNullableCompactString v) = ser_ncstring v"
| "ser_op (putString s) = ser_string s"
| "ser_op (putNullableString v) = ser_nstring v"
| "ser_op (putStringArray ss) = ser_strings ss"
| "ser_op (putCompactInt32Array v) = (case v of None \<Rightarrow> [] | Some xs \<Rightarrow> ser_cint32s xs)"
| "ser_op (putNullableCompactInt32Array v) = ser_ncint32s v"
| "ser_op (putInt32Array xs) = ser_int32s xs"
| "ser_op (putInt64Array xs) = ser_int64s xs"
| "ser_op putEmptyTaggedFieldArray = [0]"
| "ser_op (pushPop f body) = ser_field f (concat (map ser_op body)) @ concat (map ser_op body)"
| "ser_op (fail e) = []"

definition ser_ops :: "pe_op list \<Rightarrow> byte list" where
  "ser_ops ops = concat (map ser_op ops)"

lemma ser_ops_simps [ser_simps]:
  "ser_ops [] = []" "ser_ops (op # ops) = ser_op op @ ser_ops ops"
  "ser_ops (ops @ ops') = ser_ops ops @ ser_ops ops'"
  by (simp_all add: ser_ops_def)

lemma ser_ops_concat [ser_simps]: "ser_ops (concat opss) = concat (map ser_ops opss)"
  by (induction opss) (simp_all add: ser_simps)

lemma ser_op_pushPop: "ser_op (pushPop f body) = ser_field f (ser_ops body) @ ser_ops body"
  by (simp add: ser_ops_def)

subsection \<open>The real encoder writes what the calls stand for\<close>

definition writes :: "(realEncoder \<Rightarrow> realEncoder res) \<Rightarrow> byte list \<Rightarrow> bool" where
  "writes f bs \<longleftrightarrow> (\<forall>pre mid post st. length mid = length bs \<longrightarrow>
     f \<lparr>re_raw = pre @ mid @ post, re_off = length pre, re_stack = st\<rparr> =
       Ok \<lparr>re_raw = pre @ bs @ post, re_off = length pre + length bs, re_stack = st\<rparr>)"

lemma writesD:
  "writes f bs \<Longrightarrow> length mid = length bs \<Longrightarrow> n = length pre \<Longrightarrow>
   f \<lparr>re_raw = pre @ mid @ post, re_off = n, re_stack = st\<rparr> =
     Ok \<lparr>re_raw = pre @ bs @ post, re_off = n + length bs, re_stack = st\<rparr>"
  by (simp add: writes_def)

lemma writes_store: "writes (real_store bs) bs"
  by (simp add: writes_def real_store_def write_at_def)

lemma writes_raw: "writes (real_putRawBytes bs) bs"
  by (simp add: writes_def real_putRawBytes_def copy_at_def)

lemma writes_bind:
  assumes f: "writes f a" and g: "writes g b"
  shows "writes (\<lambda>re. res_bind (f re) g) (a @ b)"
  unfolding writes_def
proof (intro allI impI)
  fix pre mid post :: "byte list" and st
  assume len: "length mid = length (a @ b)"
  let ?m = "take (length a) mid" and ?n = "drop (length a) mid"
  have "mid = ?m @ ?n" by simp
  moreover have "f \<lparr>re_raw = pre @ ?m @ (?n @ post), re_off = length pre, re_stack = st\<rparr> =
      Ok \<lparr>re_raw = pre @ a @ (?n @ post), re_off = length pre + length a, re_stack = st\<rparr>"
    using len by (intro writesD [OF f]) simp_all
  moreover have "g \<lparr>re_raw = (pre @ a) @ ?n @ post, re_off = length pre + length a, re_stack = st\<rparr> =
      Ok \<lparr>re_raw = (pre @ a) @ b @ post, re_off = length pre + length a + length b, re_stack = st\<rparr>"
    using len by (intro writesD [OF g]) simp_all
  ultimately show "res_bind (f \<lparr>re_raw = pre @ mid @ post, re_off = length pre, re_stack = st\<rparr>) g =
      Ok \<lparr>re_raw = pre @ (a @ b) @ post, re_off = length pre + length (a @ b), re_stack = st\<rparr>"
    by (metis append.assoc append_take_drop_id length_append res_bind.simps(1) add.assoc)
qed

lemma writes_each:
  "(\<And>x. x \<in> set xs \<Longrightarrow> writes (put x) (s x)) \<Longrightarrow> writes (real_each put xs) (concat (map s xs))"
proof (induction xs)
  case Nil
  then show ?case by (simp add: writes_def)
next
  case (Cons x xs)
  have "writes (\<lambda>re. res_bind (put x re) (real_each put xs)) (s x @ concat (map s xs))"
    by (rule writes_bind) (simp_all add: Cons)
  then show ?case by (simp add: fun_eq_iff writes_def)
qed

lemma writes_string: "writes (real_putString s) (ser_string s)"
proof -
  have "writes (\<lambda>re. res_bind (real_putInt16 (word_of_nat (length s)) re) (real_putRawBytes (bytes_of s)))
      (be16 (word_of_nat (length s)) @ bytes_of s)"
    by (rule writes_bind) (simp_all add: writes_raw writes_store real_putInt16_def [abs_def])
  then show ?thesis
    by (simp add: ser_string_def real_putString_def [abs_def] real_putRawBytes_def [abs_def])
qed

lemmas real_defs =
  real_putInt8_def real_putInt16_def real_putInt32_def real_putInt64_def real_putVarint_def
  real_putUVarint_def real_putFloat64_def real_putArrayLength_def real_putCompactArrayLength_def
  real_putBool_def real_putBytes_def real_putVarintBytes_def real_putCompactBytes_def
  real_putCompactString_def real_putNullableCompactString_def real_putNullableString_def
  real_putStringArray_def real_putCompactInt32Array_def real_putNullableCompactInt32Array_def
  real_putInt32Array_def real_putInt64Array_def real_putEmptyTaggedFieldArray_def

lemmas prep_defs =
  prep_putInt8_def prep_putInt16_def prep_putInt32_def prep_putInt64_def prep_putVarint_def
  prep_putUVarint_def prep_putFloat64_def prep_putArrayLength_def prep_putCompactArrayLength_def
  prep_putBool_def prep_putRawBytes_def prep_putBytes_def prep_putVarintBytes_def
  prep_putCompactBytes_def prep_putCompactString_def prep_putNullableCompactString_def
  prep_putString_def prep_putNullableString_def prep_putStringArray_def
  prep_putCompactInt32Array_def prep_putNullableCompactInt32Array_def prep_putInt32Array_def
  prep_putInt64Array_def prep_putEmptyTaggedFieldArray_def prep_add_def keep_op_def

text \<open>A call that is not a bracket: the real encoder on an accepted call.\<close>

fun is_bracket :: "pe_op \<Rightarrow> bool" where
  "is_bracket (pushPop _ _) = True"
| "is_bracket _ = False"

lemma writes_ints:
  "writes (real_each (\<lambda>v. real_store (be32 v)) xs) (concat (map be32 xs))"
  "writes (real_each (\<lambda>v. real_store (be64 v)) ys) (concat (map be64 ys))"
  by (rule writes_each, rule writes_store)+

lemma writes_strings: "writes (real_each real_putString xs) (concat (map ser_string xs))"
  by (rule writes_each) (rule writes_string)

lemmas writes_intros = writes_store writes_raw writes_string writes_ints
  writes_strings writes_bind

lemma real_op_eqs:
  "real_op (putInt8 a1) = real_putInt8 a1" "real_op (putInt16 a2) = real_putInt16 a2"
  "real_op (putInt32 a3) = real_putInt32 a3" "real_op (putInt64 a4) = real_putInt64 a4"
  "real_op (putVarint a4) = real_putVarint a4" "real_op (putUVarint a4) = real_putUVarint a4"
  "real_op (putFloat64 a4) = real_putFloat64 a4"
  "real_op (putCompactArrayLength i) = real_putCompactArrayLength i"
  "real_op (putArrayLength i) = real_putArrayLength i" "real_op (putBool b) = real_putBool b"
  "real_op (putBytes nb) = real_putBytes nb" "real_op (putVarintBytes nb) = real_putVarintBytes nb"
  "real_op (putCompactBytes bs) = real_putCompactBytes bs"
  "real_op (putRawBytes bs) = real_putRawBytes bs"
  "real_op (putCompactString s) = real_putCompactString s"
  "real_op (putNullableCompactString ns) = real_putNullableCompactString ns"
  "real_op (putString s) = real_putString s"
  "real_op (putNullableString ns) = real_putNullableString ns"
  "real_op (putStringArray ss) = real_putStringArray ss"
  "real_op (putCompactInt32Array v) = real_putCompactInt32Array v"
  "real_op (putNullableCompactInt32Array v) = real_putNullableCompactInt32Array v"
  "real_op (putInt32Array xs) = real_putInt32Array xs"
  "real_op (putInt64Array ys) = real_putInt64Array ys"
  "real_op putEmptyTaggedFieldArray = real_putEmptyTaggedFieldArray"
  by (simp_all add: fun_eq_iff)

lemma writes_call:
  assumes "op_ok op" and "\<not> is_bracket op"
  shows "writes (real_op op) (ser_op op)"
  using assms
  by (cases op)
     (auto simp: real_op_eqs real_defs [abs_def] ser_defs simp del: of_int_add of_nat_add
           intro!: writes_intros split: option.splits)

subsection \<open>The two passes agree\<close>

lemma prep_putStrings_ok:
  "list_all (\<lambda>s. int (length s) \<le> MaxInt16) ss \<Longrightarrow>
   prep_putStrings ss pe = Ok (pe\<lparr>pe_length := pe_length pe + length (concat (map ser_string ss))\<rparr>)"
  by (induction ss arbitrary: pe) (simp_all add: prep_putString_def prep_add_def ser_string_def)

lemma prep_putStrings_bad:
  "\<not> list_all (\<lambda>s. int (length s) \<le> MaxInt16) ss \<Longrightarrow>
   prep_putStrings ss pe = Err (PacketEncodingError ''string too long'')"
  by (induction ss arbitrary: pe) (auto simp: prep_putString_def prep_add_def)

lemma length_concat_be [simp]:
  "length (concat (map be32 xs)) = 4 * length xs" "length (concat (map be64 ys)) = 8 * length ys"
  by (induction xs, simp_all, induction ys, simp_all)

lemma prep_call_ok:
  assumes "op_ok op" and "\<not> is_bracket op"
  shows "prep_op op pe = Ok (op, pe\<lparr>pe_length := pe_length pe + length (ser_op op)\<rparr>)"
  using assms
  by (cases op) (auto simp: prep_defs ser_defs ser_string_def prep_putStrings_ok split: option.splits)

lemma prep_call_bad:
  assumes "\<not> op_ok op" and "\<not> is_bracket op"
  shows "\<exists>e. prep_op op pe = Err e"
  using assms
  by (cases op) (auto simp: prep_defs prep_putStrings_bad split: option.splits)

lemma writes_ops_Cons:
  "writes (real_op op) a \<Longrightarrow> writes (real_ops ops) b \<Longrightarrow> writes (real_ops (op # ops)) (a @ b)"
  using writes_bind [of "real_op op" a "real_ops ops" b] by (simp add: fun_eq_iff writes_def)

fun ready_field :: "pushField \<Rightarrow> pushField \<Rightarrow> byte list \<Rightarrow> bool" where
  "ready_field (lengthField _ _) (lengthField _ _) body = True"
| "ready_field (crc32Field _ p) (crc32Field _ q) body = (p = q)"
| "ready_field (varintLengthField _ l) (varintLengthField _ _) body = (l = word_of_nat (length body))"
| "ready_field _ _ _ = False"

lemma writes_bracket:
  assumes body: "writes (real_ops ops) bs" and f: "ready_field f' f bs"
  shows "writes (real_op (pushPop f' ops)) (ser_field f bs @ bs)"
  unfolding writes_def
proof (intro allI impI)
  fix pre mid post :: "byte list" and st
  assume len: "length mid = length (ser_field f bs @ bs)"
  let ?r = "length (ser_field f bs)"
  have split: "take ?r mid @ drop ?r mid @ post = mid @ post"
    by (metis append.assoc append_take_drop_id)
  have r: "reserveLength (saveOffset n f') = ?r" for n
    using f by (cases "(f', f, bs)" rule: ready_field.cases) auto
  have "real_ops ops \<lparr>re_raw = (pre @ take ?r mid) @ drop ?r mid @ post, re_off = length pre + ?r,
      re_stack = saveOffset (length pre) f' # st\<rparr> =
      Ok \<lparr>re_raw = (pre @ take ?r mid) @ bs @ post, re_off = length pre + ?r + length bs,
        re_stack = saveOffset (length pre) f' # st\<rparr>"
    using len by (intro writesD [OF body]) simp_all
  moreover have "field_run (saveOffset (length pre) f') (length pre + ?r + length bs)
      ((pre @ take ?r mid) @ bs @ post) = Ok (pre @ ser_field f bs @ bs @ post)"
    using f len by (cases "(f', f, bs)" rule: ready_field.cases) (auto simp: write_at_def)
  ultimately show "real_op (pushPop f' ops) \<lparr>re_raw = pre @ mid @ post, re_off = length pre, re_stack = st\<rparr> =
      Ok \<lparr>re_raw = pre @ (ser_field f bs @ bs) @ post,
        re_off = length pre + length (ser_field f bs @ bs), re_stack = st\<rparr>"
    by (simp add: real_push_def real_pop_def Let_def r split)
qed

lemma prep_bracket:
  assumes "prep_ops ops (prep_push f pe) =
      Ok (ops', prep_push f pe\<lparr>pe_length := pe_length (prep_push f pe) + length bs\<rparr>)"
  shows "\<exists>f'. prep_op (pushPop f ops) pe =
      Ok (pushPop f' ops', pe\<lparr>pe_length := pe_length pe + length (ser_field f bs @ bs)\<rparr>) \<and>
      ready_field f' f bs"
  using assms by (cases f) (auto simp: prep_push_def prep_pop_def Let_def)

definition passes_agree :: "pe_op \<Rightarrow> bool" where
  "passes_agree op \<longleftrightarrow> (\<forall>pe. \<exists>op'.
     prep_op op pe = Ok (op', pe\<lparr>pe_length := pe_length pe + length (ser_op op)\<rparr>) \<and>
     writes (real_op op') (ser_op op))"

lemma passes_agree_ops:
  "(\<And>op. op \<in> set ops \<Longrightarrow> passes_agree op) \<Longrightarrow>
   \<exists>ops'. prep_ops ops pe = Ok (ops', pe\<lparr>pe_length := pe_length pe + length (ser_ops ops)\<rparr>) \<and>
     writes (real_ops ops') (ser_ops ops)"
proof (induction ops arbitrary: pe)
  case Nil
  then show ?case by (simp add: writes_def ser_ops_def)
next
  case (Cons op ops)
  let ?pe = "pe\<lparr>pe_length := pe_length pe + length (ser_op op)\<rparr>"
  from Cons.prems obtain op' where 1: "prep_op op pe = Ok (op', ?pe)"
    and 2: "writes (real_op op') (ser_op op)" by (auto simp: passes_agree_def)
  from Cons obtain ops' where
    3: "prep_ops ops ?pe = Ok (ops', ?pe\<lparr>pe_length := pe_length ?pe + length (ser_ops ops)\<rparr>)"
    and 4: "writes (real_ops ops') (ser_ops ops)" by (metis list.set_intros(2))
  have "writes (real_ops (op' # ops')) (ser_ops (op # ops))"
    using writes_ops_Cons [OF 2 4] by (simp add: ser_ops_def)
  moreover have "prep_ops (op # ops) pe =
      Ok (op' # ops', pe\<lparr>pe_length := pe_length pe + length (ser_ops (op # ops))\<rparr>)"
    using 1 3 by (simp add: ser_ops_def)
  ultimately show ?case by blast
qed

lemma passes_agree_bracket:
  assumes "\<And>op. op \<in> set body \<Longrightarrow> passes_agree op"
  shows "passes_agree (pushPop f body)"
  unfolding passes_agree_def
proof
  fix pe
  let ?bs = "ser_ops body"
  obtain ops' where p: "prep_ops body (prep_push f pe) =
      Ok (ops', prep_push f pe\<lparr>pe_length := pe_length (prep_push f pe) + length ?bs\<rparr>)"
    and w: "writes (real_ops ops') ?bs"
    using passes_agree_ops [of body "prep_push f pe"] assms by blast
  from prep_bracket [OF p] obtain f' where f': "prep_op (pushPop f body) pe =
      Ok (pushPop f' ops', pe\<lparr>pe_length := pe_length pe + length (ser_field f ?bs @ ?bs)\<rparr>)"
    and r: "ready_field f' f ?bs" by blast
  have "ser_op (pushPop f body) = ser_field f ?bs @ ?bs" by (simp add: ser_ops_def)
  with f' writes_bracket [OF w r]
  show "\<exists>op'. prep_op (pushPop f body) pe =
      Ok (op', pe\<lparr>pe_length := pe_length pe + length (ser_op (pushPop f body))\<rparr>) \<and>
      writes (real_op op') (ser_op (pushPop f body))"
    by (intro exI [of _ "pushPop f' ops'"] conjI) (simp_all only:)
qed

lemma passes_agree_op: "op_ok op \<Longrightarrow> passes_agree op"
proof (induction op rule: measure_induct_rule [where f = size])
  case (less op)
  show ?case
  proof (cases "is_bracket op")
    case False
    with less.prems show ?thesis
      by (simp add: passes_agree_def prep_call_ok writes_call)
  next
    case True
    then obtain f body where op: "op = pushPop f body" by (cases op) auto
    have "passes_agree o'" if "o' \<in> set body" for o'
    proof (rule less.IH)
      show "size o' < size op"
        using that op by (simp add: less_Suc_eq_le size_list_estimation')
      show "op_ok o'" using that less.prems op by (auto simp: list_all_iff)
    qed
    then show ?thesis unfolding op by (rule passes_agree_bracket)
  qed
qed

theorem encode_ops_ok:
  assumes "ops_ok ops"
  shows "encode ops =
    (if length (ser_ops ops) \<le> MaxRequestSize then Ok (ser_ops ops)
     else Err (PacketEncodingError ''invalid request size''))"
proof -
  have "passes_agree op" if "op \<in> set ops" for op
    using that assms by (auto simp: list_all_iff intro: passes_agree_op)
  then obtain ops' where 1: "prep_ops ops \<lparr>pe_stack = [], pe_length = 0\<rparr> =
      Ok (ops', \<lparr>pe_stack = [], pe_length = length (ser_ops ops)\<rparr>)"
    and 2: "writes (real_ops ops') (ser_ops ops)"
    using passes_agree_ops [of ops "\<lparr>pe_stack = [], pe_length = 0\<rparr>"] by auto
  have "real_ops ops' \<lparr>re_raw = replicate (length (ser_ops ops)) 0, re_off = 0, re_stack = []\<rparr> =
      Ok \<lparr>re_raw = ser_ops ops, re_off = length (ser_ops ops), re_stack = []\<rparr>"
    using writesD [OF 2, of "replicate (length (ser_ops ops)) 0" 0 "[]" "[]" "[]"] by simp
  with 1 show ?thesis by (simp add: encode_def)
qed

text \<open>A sequence that is not accepted fails in the preparing pass, before anything is written.\<close>

definition rejects :: "pe_op \<Rightarrow> bool" where
  "rejects op \<longleftrightarrow> (\<forall>pe. \<exists>e. prep_op op pe = Err e)"

lemma passes_agree_prep: "op_ok op \<Longrightarrow> \<exists>op' pe'. prep_op op pe = Ok (op', pe')"
  using passes_agree_op [of op] unfolding passes_agree_def by blast

lemma rejects_ops:
  assumes "\<And>op. op \<in> set ops \<Longrightarrow> \<not> op_ok op \<Longrightarrow> rejects op" and "\<not> ops_ok ops"
  shows "\<exists>e. prep_ops ops pe = Err e"
  using assms
proof (induction ops arbitrary: pe)
  case Nil
  then show ?case by simp
next
  case (Cons op ops)
  show ?case
  proof (cases "op_ok op")
    case True
    then obtain op' pe' where 1: "prep_op op pe = Ok (op', pe')" using passes_agree_prep by blast
    from Cons.prems True have "\<not> ops_ok ops" by simp
    then obtain e where "prep_ops ops pe' = Err e"
      using Cons.IH [of pe'] Cons.prems(1) by (metis list.set_intros(2))
    with 1 show ?thesis by simp
  next
    case False
    then obtain e where "prep_op op pe = Err e"
      using Cons.prems(1) [of op] unfolding rejects_def by auto
    then show ?thesis by simp
  qed
qed

lemma rejects_op: "\<not> op_ok op \<Longrightarrow> rejects op"
proof (induction op rule: measure_induct_rule [where f = size])
  case (less op)
  show ?case
  proof (cases "is_bracket op")
    case False
    with less.prems show ?thesis by (simp add: rejects_def prep_call_bad)
  next
    case True
    then obtain f body where op: "op = pushPop f body" by (cases op) auto
    have "rejects o'" if "o' \<in> set body" "\<not> op_ok o'" for o'
      using that op by (intro less.IH) (simp_all add: less_Suc_eq_le size_list_estimation')
    moreover have "\<not> ops_ok body" using less.prems op by simp
    ultimately have "\<exists>e. prep_ops body (prep_push f pe) = Err e" for pe by (rule rejects_ops)
    then have "\<exists>e. prep_op (pushPop f body) pe = Err e" for pe
      by (metis prep_op.simps(25) res_bind.simps(2))
    then show ?thesis by (simp add: rejects_def op)
  qed
qed

theorem encode_ops_bad:
  assumes "\<not> ops_ok ops"
  shows "\<exists>e. encode ops = Err e"
proof -
  obtain e where "prep_ops ops \<lparr>pe_stack = [], pe_length = 0\<rparr> = Err e"
    using rejects_ops [of ops] rejects_op assms by blast
  then show ?thesis by (simp add: encode_def)
qed

corollary encode_ok_bytes:
  assumes "encode ops = Ok bs"
  shows "bs = ser_ops ops" "ops_ok ops" "length (ser_ops ops) \<le> MaxRequestSize"
  using assms encode_ops_ok [of ops] encode_ops_bad [of ops] by (cases "ops_ok ops"; simp split: if_splits)+

declare ser_op.simps(25) [simp del]
declare ser_op_pushPop [simp]

end
