(* ===== verification/Wire_Decoder.thy ===== *)
theory Wire_Decoder
  imports Wire_Encoder
begin

text \<open>
  The decoding half of the wire codec: \<open>realDecoder\<close> (\<open>real_decoder.go\<close>), a cursor over a byte
  buffer with a stack of length and checksum fields, every method of the \<open>packetDecoder\<close>
  interface with all its error branches, and the entry points \<open>decode\<close> and \<open>versionedDecode\<close>
  (\<open>encoder_decoder.go\<close>).

  A method is a function of the decoder's state that returns a result together with the state it
  leaves, also when it fails: several callers catch \<open>ErrInsufficientData\<close> and go on, so where a
  failing method leaves the offset matters. The buffer's capacity is taken to be its length.

  The lemmas run each method over known bytes: it reads back what the matching \<open>packetEncoder\<close>
  call writes (the rules of \<open>dec_steps\<close>, over a decoder \<open>dec_at pre post st\<close> that stands between
  the bytes read and the bytes to come; \<open>reads d bs x\<close> packs such a rule into one predicate).
\<close>

subsection \<open>The decoder and its results\<close>

record realDecoder =
  rd_raw :: "byte list"
  rd_off :: nat
  rd_stack :: "pushField list"

type_synonym 'a dec = "realDecoder \<Rightarrow> 'a res \<times> realDecoder"

definition dreturn :: "'a \<Rightarrow> 'a dec" where
  "dreturn x rd = (Ok x, rd)"

definition derror :: "go_error \<Rightarrow> 'a dec" where
  "derror e rd = (Err e, rd)"

definition dpanic :: "'a dec" where
  "dpanic rd = (Panic, rd)"

definition dbind :: "'a dec \<Rightarrow> ('a \<Rightarrow> 'b dec) \<Rightarrow> 'b dec" where
  "dbind m f rd =
     (case m rd of
        (Ok x, rd') \<Rightarrow> f x rd'
      | (Err e, rd') \<Rightarrow> (Err e, rd')
      | (Panic, rd') \<Rightarrow> (Panic, rd')
      | (Diverge, rd') \<Rightarrow> (Diverge, rd'))"

text \<open>Catching an error: the handler runs in the state the failing call left.\<close>

definition dcatch :: "'a dec \<Rightarrow> (go_error \<Rightarrow> 'a dec) \<Rightarrow> 'a dec" where
  "dcatch m h rd = (case m rd of (Err e, rd') \<Rightarrow> h e rd' | r \<Rightarrow> r)"

text \<open>\<open>make\<close> panics on a negative length.\<close>

definition dmake :: "int \<Rightarrow> unit dec" where
  "dmake n = (if n < 0 then dpanic else dreturn ())"

primrec dec_times :: "nat \<Rightarrow> 'a dec \<Rightarrow> 'a list dec" where
  "dec_times 0 d = dreturn []"
| "dec_times (Suc n) d = dbind d (\<lambda>x. dbind (dec_times n d) (\<lambda>xs. dreturn (x # xs)))"

subsection \<open>Primitives\<close>

definition remaining :: "realDecoder \<Rightarrow> int" where
  "remaining rd = int (length (rd_raw rd)) - int (rd_off rd)"

definition advance :: "nat \<Rightarrow> realDecoder \<Rightarrow> realDecoder" where
  "advance n rd = rd\<lparr>rd_off := rd_off rd + n\<rparr>"

definition rest_of :: "realDecoder \<Rightarrow> byte list" where
  "rest_of rd = drop (rd_off rd) (rd_raw rd)"

text \<open>The branch every read takes on a short buffer: the offset moves to the end.\<close>

definition insufficient :: "'a dec" where
  "insufficient rd = (Err ErrInsufficientData, rd\<lparr>rd_off := length (rd_raw rd)\<rparr>)"

definition errInvalidArrayLength :: go_error where
  "errInvalidArrayLength = PacketDecodingError ''invalid array length''"
definition errInvalidByteSliceLength :: go_error where
  "errInvalidByteSliceLength = PacketDecodingError ''invalid byteslice length''"
definition errInvalidStringLength :: go_error where
  "errInvalidStringLength = PacketDecodingError ''invalid string length''"
definition errVarintOverflow :: go_error where
  "errVarintOverflow = PacketDecodingError ''varint overflow''"
definition errUVarintOverflow :: go_error where
  "errUVarintOverflow = PacketDecodingError ''uvarint overflow''"
definition errInvalidBool :: go_error where
  "errInvalidBool = PacketDecodingError ''invalid bool''"

definition getInt8 :: "int8 dec" where
  "getInt8 rd =
     (if remaining rd < 1 then insufficient rd
      else (Ok (rd_raw rd ! rd_off rd), advance 1 rd))"

definition getInt16 :: "int16 dec" where
  "getInt16 rd =
     (if remaining rd < 2 then insufficient rd
      else (Ok (be_get (take 2 (rest_of rd))), advance 2 rd))"

definition getInt32 :: "int32 dec" where
  "getInt32 rd =
     (if remaining rd < 4 then insufficient rd
      else (Ok (be_get (take 4 (rest_of rd))), advance 4 rd))"

definition getInt64 :: "int64 dec" where
  "getInt64 rd =
     (if remaining rd < 8 then insufficient rd
      else (Ok (be_get (take 8 (rest_of rd))), advance 8 rd))"

definition getVarint :: "int64 dec" where
  "getVarint rd =
     (case Varint (rest_of rd) of (tmp, n) \<Rightarrow>
        if n = 0 then insufficient rd
        else if n < 0 then (Err errVarintOverflow, advance (nat (- n)) rd)
        else (Ok tmp, advance (nat n) rd))"

definition getUVarint :: "uint64 dec" where
  "getUVarint rd =
     (case Uvarint (rest_of rd) of (tmp, n) \<Rightarrow>
        if n = 0 then insufficient rd
        else if n < 0 then (Err errUVarintOverflow, advance (nat (- n)) rd)
        else (Ok tmp, advance (nat n) rd))"

definition getFloat64 :: "64 word dec" where
  "getFloat64 rd =
     (if remaining rd < 8 then insufficient rd
      else (Ok (be_get (take 8 (rest_of rd))), advance 8 rd))"

definition getArrayLength :: "int dec" where
  "getArrayLength rd =
     (if remaining rd < 4 then insufficient rd
      else
        let tmp = sint (be_get (take 4 (rest_of rd)) :: int32); rd' = advance 4 rd
        in if tmp > remaining rd' then insufficient rd'
           else if tmp > 2 * 65535 then (Err errInvalidArrayLength, rd')
           else (Ok tmp, rd'))"

definition getCompactArrayLength :: "int dec" where
  "getCompactArrayLength =
     dbind getUVarint (\<lambda>n. if n = 0 then dreturn 0 else dreturn (sint (n - 1)))"

definition getBool :: "bool dec" where
  "getBool =
     dbind getInt8 (\<lambda>b.
       if b = 0 then dreturn False else if b \<noteq> 1 then derror errInvalidBool else dreturn True)"

definition getRawBytes :: "int \<Rightarrow> byte list dec" where
  "getRawBytes n rd =
     (if n < 0 then (Err errInvalidByteSliceLength, rd)
      else if n > remaining rd then insufficient rd
      else (Ok (take (nat n) (rest_of rd)), advance (nat n) rd))"

text \<open>One round of the loop over the tagged fields: skip an identifier, a length, the bytes.\<close>

definition skipTaggedField :: "unit dec" where
  "skipTaggedField =
     dbind getUVarint (\<lambda>_. dbind getUVarint (\<lambda>n. dbind (getRawBytes (sint n)) (\<lambda>_. dreturn ())))"

definition getEmptyTaggedFieldArray :: "int dec" where
  "getEmptyTaggedFieldArray =
     dbind getUVarint (\<lambda>tagCount. dbind (dec_times (unat tagCount) skipTaggedField) (\<lambda>_. dreturn 0))"

subsection \<open>Collections\<close>

definition getBytes :: "nbytes dec" where
  "getBytes =
     dbind getInt32 (\<lambda>tmp.
       if tmp = - 1 then dreturn None else dbind (getRawBytes (sint tmp)) (\<lambda>bs. dreturn (Some bs)))"

definition getVarintBytes :: "nbytes dec" where
  "getVarintBytes =
     dbind getVarint (\<lambda>tmp.
       if tmp = - 1 then dreturn None else dbind (getRawBytes (sint tmp)) (\<lambda>bs. dreturn (Some bs)))"

definition getCompactBytes :: "byte list dec" where
  "getCompactBytes = dbind getUVarint (\<lambda>n. getRawBytes (sint (n - 1)))"

definition getStringLength :: "int dec" where
  "getStringLength =
     dbind getInt16 (\<lambda>len. \<lambda>rd.
       if sint len < - 1 then (Err errInvalidStringLength, rd)
       else if sint len > remaining rd then insufficient rd
       else (Ok (sint len), rd))"

text \<open>The string in the slice of the next bytes; a slice past the end of the buffer panics.\<close>

definition sliceString :: "int \<Rightarrow> string dec" where
  "sliceString n rd =
     (if n > remaining rd then (Panic, rd)
      else (Ok (string_of (take (nat n) (rest_of rd))), advance (nat n) rd))"

definition getString :: "string dec" where
  "getString = dbind getStringLength (\<lambda>n. if n = - 1 then dreturn [] else sliceString n)"

definition getNullableString :: "nstring dec" where
  "getNullableString =
     dbind getStringLength (\<lambda>n.
       if n = - 1 then dreturn None else dbind (sliceString n) (\<lambda>s. dreturn (Some s)))"

definition getCompactString :: "string dec" where
  "getCompactString =
     dbind getUVarint (\<lambda>n.
       if sint (n - 1) < 0 then derror errInvalidByteSliceLength else sliceString (sint (n - 1)))"

definition getCompactNullableString :: "nstring dec" where
  "getCompactNullableString =
     dbind getUVarint (\<lambda>n.
       if sint (n - 1) < 0 then dreturn None
       else dbind (sliceString (sint (n - 1))) (\<lambda>s. dreturn (Some s)))"

text \<open>One element of the unchecked loops: \<open>Uint32(rd.raw[rd.off:])\<close> panics on a short slice.\<close>

definition sliceInt32 :: "int32 dec" where
  "sliceInt32 rd =
     (if remaining rd < 4 then (Panic, rd) else (Ok (be_get (take 4 (rest_of rd))), advance 4 rd))"

definition sliceInt64 :: "int64 dec" where
  "sliceInt64 rd =
     (if remaining rd < 8 then (Panic, rd) else (Ok (be_get (take 8 (rest_of rd))), advance 8 rd))"

definition getCompactInt32Array :: "int32 list option dec" where
  "getCompactInt32Array =
     dbind getUVarint (\<lambda>n.
       if n = 0 then dreturn None
       else
         dbind (dmake (sint (n - 1))) (\<lambda>_.
         dbind (dec_times (nat (sint (n - 1))) sliceInt32) (\<lambda>xs. dreturn (Some xs))))"

definition getInt32Array :: "int32 list dec" where
  "getInt32Array rd =
     (if remaining rd < 4 then insufficient rd
      else
        let n = uint (be_get (take 4 (rest_of rd)) :: uint32); rd' = advance 4 rd
        in if remaining rd' < 4 * n then insufficient rd'
           else if n = 0 then (Ok [], rd')
           else dec_times (nat n) sliceInt32 rd')"

definition getInt64Array :: "int64 list dec" where
  "getInt64Array rd =
     (if remaining rd < 4 then insufficient rd
      else
        let n = uint (be_get (take 4 (rest_of rd)) :: uint32); rd' = advance 4 rd
        in if remaining rd' < 8 * n then insufficient rd'
           else if n = 0 then (Ok [], rd')
           else dec_times (nat n) sliceInt64 rd')"

definition getStringArray :: "string list dec" where
  "getStringArray rd =
     (if remaining rd < 4 then insufficient rd
      else
        let n = uint (be_get (take 4 (rest_of rd)) :: uint32); rd' = advance 4 rd
        in if n = 0 then (Ok [], rd') else dec_times (nat n) getString rd')"

subsection \<open>Subsets\<close>

definition getSubset :: "int \<Rightarrow> realDecoder dec" where
  "getSubset n = dbind (getRawBytes n) (\<lambda>buf. dreturn \<lparr>rd_raw = buf, rd_off = 0, rd_stack = []\<rparr>)"

definition peek :: "nat \<Rightarrow> nat \<Rightarrow> realDecoder dec" where
  "peek offset n rd =
     (if remaining rd < int offset + int n then (Err ErrInsufficientData, rd)
      else (Ok \<lparr>rd_raw = take n (drop (rd_off rd + offset) (rd_raw rd)), rd_off = 0, rd_stack = []\<rparr>, rd))"

definition peekInt8 :: "nat \<Rightarrow> int8 dec" where
  "peekInt8 offset rd =
     (if remaining rd < int offset + 1 then (Err ErrInsufficientData, rd)
      else (Ok (rd_raw rd ! (rd_off rd + offset)), rd))"

subsection \<open>Stacks\<close>

text \<open>
  \<open>decode\<close> of the dynamic fields (\<open>length_field.go\<close>); \<open>int32(pd.remaining())\<close> truncates.
\<close>

definition lengthField_decode :: "int32 dec" where
  "lengthField_decode =
     dbind getInt32 (\<lambda>l. \<lambda>rd.
       if sint l > sint (word_of_int (remaining rd) :: int32) then (Err ErrInsufficientData, rd)
       else (Ok l, rd))"

definition push_stack :: "pushField \<Rightarrow> unit dec" where
  "push_stack f rd = (Ok (), rd\<lparr>rd_stack := f # rd_stack rd\<rparr>)"

fun rd_push :: "pushField \<Rightarrow> unit dec" where
  "rd_push (lengthField _ _) rd =
     dbind lengthField_decode (\<lambda>l. push_stack (lengthField (rd_off rd) l)) rd"
| "rd_push (varintLengthField _ _) rd =
     dbind getVarint (\<lambda>l. push_stack (varintLengthField (rd_off rd) l)) rd"
| "rd_push (crc32Field _ p) rd =
     (if remaining rd < 4 then insufficient rd
      else push_stack (crc32Field (rd_off rd) p) (advance 4 rd))"

fun field_check :: "pushField \<Rightarrow> nat \<Rightarrow> byte list \<Rightarrow> unit res" where
  "field_check (lengthField start l) cur buf =
     (if word_of_int (int cur - int start - 4) \<noteq> l then Err (PacketDecodingError ''length field invalid'')
      else Ok ())"
| "field_check (varintLengthField start l) cur buf =
     (if word_of_int (int cur - int start - int (length (PutVarint l))) \<noteq> l
      then Err (PacketDecodingError ''length field invalid'') else Ok ())"
| "field_check (crc32Field start p) cur buf =
     (if start + 4 \<le> cur \<and> cur \<le> length buf then
        (if crc_of p (take (cur - (start + 4)) (drop (start + 4) buf)) \<noteq> be_get (take 4 (drop start buf))
         then Err (PacketDecodingError ''CRC did not match'') else Ok ())
      else Panic)"

definition rd_pop :: "unit dec" where
  "rd_pop rd =
     (case rd_stack rd of [] \<Rightarrow> (Panic, rd)
      | f # st \<Rightarrow> (field_check f (rd_off rd) (rd_raw rd), rd\<lparr>rd_stack := st\<rparr>))"

subsection \<open>Entry points\<close>

definition new_decoder :: "byte list \<Rightarrow> realDecoder" where
  "new_decoder buf = \<lparr>rd_raw = buf, rd_off = 0, rd_stack = []\<rparr>"

definition decode_buf :: "byte list \<Rightarrow> 'a dec \<Rightarrow> 'a res" where
  "decode_buf buf d =
     (case d (new_decoder buf) of (r, helper) \<Rightarrow>
        res_bind r (\<lambda>x.
          if rd_off helper \<noteq> length buf then Err (PacketDecodingError ''invalid length'') else Ok x))"

text \<open>
  The buffer may be nil; the object to fill is then left as it was. The two entry points differ
  in the version they pass on.
\<close>

definition decode :: "nbytes \<Rightarrow> 'a \<Rightarrow> 'a dec \<Rightarrow> 'a res" where
  "decode buf x d = (case buf of None \<Rightarrow> Ok x | Some bs \<Rightarrow> decode_buf bs d)"

definition versionedDecode :: "nbytes \<Rightarrow> 'a \<Rightarrow> (int \<Rightarrow> 'a dec) \<Rightarrow> int \<Rightarrow> 'a res" where
  "versionedDecode buf x d version = (case buf of None \<Rightarrow> Ok x | Some bs \<Rightarrow> decode_buf bs (d version))"

subsection \<open>Running a decoder over known bytes\<close>

definition dec_at :: "byte list \<Rightarrow> byte list \<Rightarrow> pushField list \<Rightarrow> realDecoder" where
  "dec_at pre post st = \<lparr>rd_raw = pre @ post, rd_off = length pre, rd_stack = st\<rparr>"

lemma dec_at_simps [simp]:
  "remaining (dec_at pre post st) = int (length post)"
  "rest_of (dec_at pre post st) = post"
  "rd_off (dec_at pre post st) = length pre"
  "rd_raw (dec_at pre post st) = pre @ post"
  "rd_stack (dec_at pre post st) = st"
  by (simp_all add: dec_at_def remaining_def rest_of_def)

lemma advance_dec_at [simp]: "advance (length bs) (dec_at pre (bs @ post) st) = dec_at (pre @ bs) post st"
  by (simp add: dec_at_def advance_def)

lemma advance_dec_at_eq: "n = length bs \<Longrightarrow> advance n (dec_at pre (bs @ post) st) = dec_at (pre @ bs) post st"
  by simp

lemma new_decoder_eq: "new_decoder buf = dec_at [] buf []"
  by (simp add: new_decoder_def dec_at_def)

lemma dec_monad [dec_steps]:
  "dreturn x rd = (Ok x, rd)"
  "derror e rd = (Err e, rd)"
  "dbind m f rd =
     (case m rd of (Ok x, rd') \<Rightarrow> f x rd' | (Err e, rd') \<Rightarrow> (Err e, rd')
      | (Panic, rd') \<Rightarrow> (Panic, rd') | (Diverge, rd') \<Rightarrow> (Diverge, rd'))"
  by (simp_all add: dreturn_def derror_def dbind_def)

lemma dmake_nat [dec_steps]: "0 \<le> n \<Longrightarrow> dmake n rd = (Ok (), rd)"
  by (simp add: dmake_def dreturn_def)

lemma take_be [simp]:
  "take 2 (be16 a @ post) = be16 a" "take 4 (be32 b @ post) = be32 b" "take 8 (be64 c @ post) = be64 c"
  by simp_all

lemma getInt8_at [dec_steps]: "getInt8 (dec_at pre (v # post) st) = (Ok v, dec_at (pre @ [v]) post st)"
  using advance_dec_at_eq [of 1 "[v]" pre post st] by (simp add: getInt8_def nth_append)

lemma getInt16_at [dec_steps]: "getInt16 (dec_at pre (be16 v @ post) st) = (Ok v, dec_at (pre @ be16 v) post st)"
  by (simp add: getInt16_def advance_dec_at_eq)

lemma getInt32_at [dec_steps]: "getInt32 (dec_at pre (be32 v @ post) st) = (Ok v, dec_at (pre @ be32 v) post st)"
  by (simp add: getInt32_def advance_dec_at_eq)

lemma getInt64_at [dec_steps]: "getInt64 (dec_at pre (be64 v @ post) st) = (Ok v, dec_at (pre @ be64 v) post st)"
  by (simp add: getInt64_def advance_dec_at_eq)

lemma getFloat64_at [dec_steps]: "getFloat64 (dec_at pre (be64 v @ post) st) = (Ok v, dec_at (pre @ be64 v) post st)"
  by (simp add: getFloat64_def advance_dec_at_eq)

lemma getVarint_at [dec_steps]:
  "getVarint (dec_at pre (PutVarint v @ post) st) = (Ok v, dec_at (pre @ PutVarint v) post st)"
  by (simp add: getVarint_def Varint_PutVarint)

lemma getUVarint_at [dec_steps]:
  "getUVarint (dec_at pre (PutUvarint v @ post) st) = (Ok v, dec_at (pre @ PutUvarint v) post st)"
  by (simp add: getUVarint_def Uvarint_PutUvarint)

lemma getUVarint_at_0 [dec_steps]:
  "getUVarint (dec_at pre (0 # post) st) = (Ok 0, dec_at (pre @ [0]) post st)"
  using getUVarint_at [of pre 0 post st] by simp

lemma getEmptyTaggedFieldArray_at [dec_steps]:
  "getEmptyTaggedFieldArray (dec_at pre (0 # post) st) = (Ok 0, dec_at (pre @ [0]) post st)"
  by (simp add: getEmptyTaggedFieldArray_def dec_steps)

lemma getBool_at [dec_steps]:
  "getBool (dec_at pre (ser_bool b @ post) st) = (Ok b, dec_at (pre @ ser_bool b) post st)"
  by (cases b) (simp_all add: getBool_def ser_bool_def dec_steps)

lemma getArrayLength_at [dec_steps]:
  "- (2 ^ 31) \<le> n \<Longrightarrow> n \<le> 131070 \<Longrightarrow> n \<le> int (length post) \<Longrightarrow>
   getArrayLength (dec_at pre (ser_array_length n @ post) st) =
     (Ok n, dec_at (pre @ ser_array_length n) post st)"
  by (simp add: getArrayLength_def ser_array_length_def advance_dec_at_eq Let_def
      sint_word_of_int_id)

lemma word_of_int_succ_neq_0:
  assumes "0 \<le> n" "n < 2 ^ 63"
  shows "(word_of_int (n + 1) :: uint64) \<noteq> 0"
proof
  assume eq: "(word_of_int (n + 1) :: uint64) = 0"
  have "uint (word_of_int (n + 1) :: uint64) = n + 1"
    unfolding uint_word_of_int using assms by simp
  with eq assms show False by simp
qed

lemma getCompactArrayLength_at [dec_steps]:
  "0 \<le> n \<Longrightarrow> n < 2 ^ 63 - 1 \<Longrightarrow>
   getCompactArrayLength (dec_at pre (ser_carray_length n @ post) st) =
     (Ok n, dec_at (pre @ ser_carray_length n) post st)"
  by (simp add: getCompactArrayLength_def ser_carray_length_def dec_steps word_of_int_succ_neq_0
      sint_word_of_int_id del: of_int_add)
     (simp add: sint_word_of_int_id)

lemma getRawBytes_at [dec_steps]:
  "n = int (length bs) \<Longrightarrow> getRawBytes n (dec_at pre (bs @ post) st) = (Ok bs, dec_at (pre @ bs) post st)"
  by (simp add: getRawBytes_def)

lemma sliceString_at [dec_steps]:
  "n = int (length s) \<Longrightarrow>
   sliceString n (dec_at pre (bytes_of s @ post) st) = (Ok s, dec_at (pre @ bytes_of s) post st)"
  by (simp add: sliceString_def advance_dec_at_eq)

lemma sint_len16: "length s \<le> 32767 \<Longrightarrow> sint (word_of_nat (length s) :: int16) = int (length s)"
  by (rule sint_word_of_nat_id) simp

lemma getString_at [dec_steps]:
  "length s \<le> 32767 \<Longrightarrow>
   getString (dec_at pre (ser_string s @ post) st) = (Ok s, dec_at (pre @ ser_string s) post st)"
  by (simp add: getString_def getStringLength_def ser_string_def dec_steps sint_len16)

lemma getNullableString_at [dec_steps]:
  "pred_option (\<lambda>s. length s \<le> 32767) v \<Longrightarrow>
   getNullableString (dec_at pre (ser_nstring v @ post) st) = (Ok v, dec_at (pre @ ser_nstring v) post st)"
  by (cases v)
     (simp_all add: getNullableString_def getStringLength_def ser_nstring_def ser_string_def dec_steps sint_len16)

lemma sint_len32:
  "length xs \<le> 2147483647 \<Longrightarrow> sint (word_of_nat (length xs) :: int32) = int (length xs)"
  by (rule sint_word_of_nat_id) simp

lemma sint_len64:
  "length xs \<le> 2147483647 \<Longrightarrow> sint (word_of_nat (length xs) :: int64) = int (length xs)"
  by (rule sint_word_of_nat_id) simp

lemma word_len_not_minus1:
  "length xs \<le> 2147483647 \<Longrightarrow> (word_of_nat (length xs) :: int32) \<noteq> - 1"
  "length xs \<le> 2147483647 \<Longrightarrow> (word_of_nat (length xs) :: int64) \<noteq> - 1"
  by (rule notI, use sint_len32 [of xs] in simp) (rule notI, use sint_len64 [of xs] in simp)

lemma getBytes_at [dec_steps]:
  "pred_option (\<lambda>bs. length bs \<le> 2147483647) v \<Longrightarrow>
   getBytes (dec_at pre (ser_bytes v @ post) st) = (Ok v, dec_at (pre @ ser_bytes v) post st)"
  by (cases v) (simp_all add: getBytes_def ser_bytes_def dec_steps sint_len32 word_len_not_minus1)

lemma getVarintBytes_at [dec_steps]:
  "pred_option (\<lambda>bs. length bs \<le> 2147483647) v \<Longrightarrow>
   getVarintBytes (dec_at pre (ser_vbytes v @ post) st) = (Ok v, dec_at (pre @ ser_vbytes v) post st)"
  by (cases v) (simp_all add: getVarintBytes_def ser_vbytes_def dec_steps sint_len64 word_len_not_minus1)

lemma sint_minus_1_succ:
  "0 \<le> n \<Longrightarrow> n < 2 ^ 63 \<Longrightarrow> sint (word_of_int (n + 1) - 1 :: uint64) = n"
  by (simp add: sint_word_of_int_id)

lemma getCompactString_at [dec_steps]:
  "length s \<le> 2147483647 \<Longrightarrow>
   getCompactString (dec_at pre (ser_cstring s @ post) st) = (Ok s, dec_at (pre @ ser_cstring s) post st)"
  by (simp add: getCompactString_def ser_cstring_def dec_steps sint_minus_1_succ del: of_int_add)

lemma getCompactNullableString_at [dec_steps]:
  "pred_option (\<lambda>s. length s \<le> 2147483647) v \<Longrightarrow>
   getCompactNullableString (dec_at pre (ser_ncstring v @ post) st) =
     (Ok v, dec_at (pre @ ser_ncstring v) post st)"
  by (cases v)
     (simp_all add: getCompactNullableString_def ser_ncstring_def ser_cstring_def dec_steps
        sint_minus_1_succ del: of_int_add)

lemma getCompactBytes_at [dec_steps]:
  "length bs \<le> 2147483647 \<Longrightarrow>
   getCompactBytes (dec_at pre (ser_cbytes bs @ post) st) = (Ok bs, dec_at (pre @ ser_cbytes bs) post st)"
  using sint_minus_1_succ [of "int (length bs)"]
  by (simp add: getCompactBytes_def ser_cbytes_def dec_steps)

subsection \<open>Loops\<close>

lemma dec_times_at:
  assumes "\<And>x pre post. x \<in> set xs \<Longrightarrow>
      d (dec_at pre (f x @ post) st) = (Ok x, dec_at (pre @ f x) post st)"
  shows "dec_times (length xs) d (dec_at pre (concat (map f xs) @ post) st) =
      (Ok xs, dec_at (pre @ concat (map f xs)) post st)"
  using assms
proof (induction xs arbitrary: pre)
  case Nil
  then show ?case by (simp add: dec_steps)
next
  case (Cons x xs)
  then show ?case by (simp add: dec_steps)
qed

lemma sliceInt_at:
  "sliceInt32 (dec_at pre (be32 v @ post) st) = (Ok v, dec_at (pre @ be32 v) post st)"
  "sliceInt64 (dec_at pre (be64 w @ post) st) = (Ok w, dec_at (pre @ be64 w) post st)"
  by (simp_all add: sliceInt32_def sliceInt64_def advance_dec_at_eq)

lemma uint_len32: "length xs \<le> 2147483647 \<Longrightarrow> uint (word_of_nat (length xs) :: uint32) = int (length xs)"
  by (simp add: uint_nat unat_of_nat)

lemma getInt32Array_at [dec_steps]:
  "length xs \<le> 2147483647 \<Longrightarrow>
   getInt32Array (dec_at pre (ser_int32s xs @ post) st) = (Ok xs, dec_at (pre @ ser_int32s xs) post st)"
  using dec_times_at [of xs sliceInt32 be32 st "pre @ be32 (word_of_nat (length xs))" post]
  by (simp add: getInt32Array_def ser_int32s_def Let_def uint_len32 advance_dec_at_eq sliceInt_at)

lemma getInt64Array_at [dec_steps]:
  "length xs \<le> 2147483647 \<Longrightarrow>
   getInt64Array (dec_at pre (ser_int64s xs @ post) st) = (Ok xs, dec_at (pre @ ser_int64s xs) post st)"
  using dec_times_at [of xs sliceInt64 be64 st "pre @ be32 (word_of_nat (length xs))" post]
  by (simp add: getInt64Array_def ser_int64s_def Let_def uint_len32 advance_dec_at_eq sliceInt_at)

lemma getStringArray_at [dec_steps]:
  "length ss \<le> 2147483647 \<Longrightarrow> list_all (\<lambda>s. length s \<le> 32767) ss \<Longrightarrow>
   getStringArray (dec_at pre (ser_strings ss @ post) st) = (Ok ss, dec_at (pre @ ser_strings ss) post st)"
  using dec_times_at [of ss getString ser_string st "pre @ be32 (word_of_nat (length ss))" post]
  by (simp add: getStringArray_def ser_strings_def Let_def uint_len32 advance_dec_at_eq getString_at list_all_iff)

lemma getCompactInt32Array_at [dec_steps]:
  "pred_option (\<lambda>xs. length xs \<le> 2147483647) v \<Longrightarrow>
   getCompactInt32Array (dec_at pre (ser_ncint32s v @ post) st) =
     (Ok v, dec_at (pre @ ser_ncint32s v) post st)"
proof (cases v)
  case None
  then show ?thesis by (simp add: getCompactInt32Array_def ser_ncint32s_def dec_steps)
next
  case (Some xs)
  assume "pred_option (\<lambda>xs. length xs \<le> 2147483647) v"
  with Some have len: "length xs \<le> 2147483647" by simp
  have "(word_of_nat (length xs) + 1 :: uint64) \<noteq> 0"
    using word_of_int_succ_neq_0 [of "int (length xs)"] len by simp
  then show ?thesis
    using dec_times_at [of xs sliceInt32 be32 st "pre @ PutUvarint (word_of_nat (length xs) + 1)" post] len
    by (simp add: Some getCompactInt32Array_def ser_ncint32s_def ser_cint32s_def dec_steps sint_len64 sliceInt_at)
qed

lemma dec_catch_steps [dec_steps]:
  "dcatch m h rd = (case m rd of (Err e, rd') \<Rightarrow> h e rd' | r \<Rightarrow> r)"
  by (simp add: dcatch_def)

lemma peekInt8_at: "n < length post \<Longrightarrow> peekInt8 n (dec_at pre post st) = (Ok (post ! n), dec_at pre post st)"
  by (simp add: peekInt8_def nth_append)

subsection \<open>What a decoder reads\<close>

text \<open>
  \<open>reads d bs x\<close>: wherever the bytes \<open>bs\<close> stand in a buffer, \<open>d\<close> started there returns \<open>x\<close> and
  stops right behind them, with the stack as it was.
\<close>

definition reads :: "'a dec \<Rightarrow> byte list \<Rightarrow> 'a \<Rightarrow> bool" where
  "reads d bs x \<longleftrightarrow>
     (\<forall>pre post st. d (dec_at pre (bs @ post) st) = (Ok x, dec_at (pre @ bs) post st))"

lemma readsI: "(\<And>pre post st. d (dec_at pre (bs @ post) st) = (Ok x, dec_at (pre @ bs) post st)) \<Longrightarrow> reads d bs x"
  by (simp add: reads_def)

lemma reads_at: "reads d bs x \<Longrightarrow> d (dec_at pre (bs @ post) st) = (Ok x, dec_at (pre @ bs) post st)"
  by (simp add: reads_def)

lemma reads_at_end: "reads d bs x \<Longrightarrow> d (dec_at pre bs st) = (Ok x, dec_at (pre @ bs) [] st)"
  using reads_at [of d bs x pre "[]" st] by simp

lemma reads_decode_buf: "reads d bs x \<Longrightarrow> decode_buf bs d = Ok x"
  by (simp add: decode_buf_def new_decoder_eq reads_at_end)

lemma reads_unique: "reads d bs x \<Longrightarrow> reads d bs y \<Longrightarrow> x = y"
  by (metis reads_decode_buf res.inject(1))

text \<open>A loop; \<open>g x\<close> is what the reader makes of the bytes \<open>f x\<close>.\<close>

lemma reads_times_view:
  "(\<And>x. x \<in> set xs \<Longrightarrow> reads d (f x) (g x)) \<Longrightarrow>
   reads (dec_times (length xs) d) (concat (map f xs)) (map g xs)"
proof (induction xs)
  case Nil
  then show ?case by (intro readsI) (simp add: dec_steps)
next
  case (Cons x xs)
  then have "reads d (f x) (g x)" "reads (dec_times (length xs) d) (concat (map f xs)) (map g xs)" by simp_all
  from this [THEN reads_at] show ?case by (intro readsI) (simp add: dec_steps)
qed

lemma reads_times:
  "(\<And>x. x \<in> set xs \<Longrightarrow> reads d (f x) x) \<Longrightarrow> reads (dec_times (length xs) d) (concat (map f xs)) xs"
  using reads_times_view [of xs d f "\<lambda>x. x"] by simp

lemma reads_times_at:
  "(\<And>x. x \<in> set xs \<Longrightarrow> reads d (f x) x) \<Longrightarrow> n = length xs \<Longrightarrow>
   dec_times n d (dec_at pre (concat (map f xs) @ post) st) =
     (Ok xs, dec_at (pre @ concat (map f xs)) post st)"
  by (simp add: reads_at reads_times)

subsection \<open>Length and checksum brackets\<close>

definition dec_bracket :: "pushField \<Rightarrow> 'a dec \<Rightarrow> 'a dec" where
  "dec_bracket f body = dbind (rd_push f) (\<lambda>_. dbind body (\<lambda>x. dbind rd_pop (\<lambda>_. dreturn x)))"

lemma rd_stack_update_dec_at [simp]: "dec_at pre post st\<lparr>rd_stack := st'\<rparr> = dec_at pre post st'"
  by (simp add: dec_at_def)

lemma rd_push_length_at:
  "length bs + length post \<le> 2147483647 \<Longrightarrow>
   rd_push (lengthField n l) (dec_at pre (be32 (word_of_nat (length bs)) @ bs @ post) st) =
     (Ok (), dec_at (pre @ be32 (word_of_nat (length bs))) (bs @ post)
       (lengthField (length pre) (word_of_nat (length bs)) # st))"
  using sint_len32 [of bs] sint_len32 [of "bs @ post"]
  by (simp add: lengthField_decode_def dec_steps push_stack_def)

lemma rd_push_varint_at:
  "rd_push (varintLengthField n l) (dec_at pre (PutVarint w @ post) st) =
     (Ok (), dec_at (pre @ PutVarint w) post (varintLengthField (length pre) w # st))"
  by (simp add: dec_steps push_stack_def)

lemma rd_push_crc_at:
  "rd_push (crc32Field n p) (dec_at pre (be32 w @ post) st) =
     (Ok (), dec_at (pre @ be32 w) post (crc32Field (length pre) p # st))"
  by (simp add: advance_dec_at_eq push_stack_def)

lemma rd_pop_at:
  "rd_pop (dec_at pre post (f # st)) = (field_check f (length pre) (pre @ post), dec_at pre post st)"
  by (simp add: rd_pop_def)

lemma field_check_at:
  "field_check (lengthField (length pre) (word_of_nat (length bs))) (length (pre @ be32 v @ bs)) buf = Ok ()"
  "field_check (varintLengthField (length pre) (word_of_nat (length bs)))
     (length (pre @ PutVarint (word_of_nat (length bs)) @ bs)) buf = Ok ()"
  "field_check (crc32Field (length pre) p) (length (pre @ be32 (crc_of p bs) @ bs))
     (pre @ be32 (crc_of p bs) @ bs @ post) = Ok ()"
  by simp_all

lemma dec_bracket_varint_at:
  "reads body bs x \<Longrightarrow>
   dec_bracket (varintLengthField n l) body
     (dec_at pre (ser_field (varintLengthField n' l') bs @ bs @ post) st) =
   (Ok x, dec_at (pre @ ser_field (varintLengthField n' l') bs @ bs) post st)"
  using field_check_at(2) [of pre bs]
  by (simp add: dec_bracket_def dec_steps rd_push_varint_at reads_at rd_pop_at del: rd_push.simps field_check.simps)

lemma dec_bracket_crc_at:
  "reads body bs x \<Longrightarrow>
   dec_bracket (crc32Field n p) body
     (dec_at pre (ser_field (crc32Field n' p) bs @ bs @ post) st) =
   (Ok x, dec_at (pre @ ser_field (crc32Field n' p) bs @ bs) post st)"
  using field_check_at(3) [of pre p bs post]
  by (simp add: dec_bracket_def dec_steps rd_push_crc_at reads_at rd_pop_at del: rd_push.simps field_check.simps)

lemma dec_bracket_length_at:
  "reads body bs x \<Longrightarrow> length bs + length post \<le> 2147483647 \<Longrightarrow>
   dec_bracket (lengthField n l) body
     (dec_at pre (ser_field (lengthField n' l') bs @ bs @ post) st) =
   (Ok x, dec_at (pre @ ser_field (lengthField n' l') bs @ bs) post st)"
  using field_check_at(1) [of pre bs]
  by (simp add: dec_bracket_def dec_steps rd_push_length_at reads_at rd_pop_at del: rd_push.simps field_check.simps)

end
