(* ===== verification/Decoder_Safety.thy ===== *)
theory Decoder_Safety
  imports Wire_Decoder
begin

text \<open>
  Safety of the decoder on arbitrary input. \<open>dec_safe d\<close> says that \<open>d\<close> never moves the offset of
  \<open>realDecoder\<close> outside its buffer, never moves it back and never changes the buffer, whatever the
  bytes are; \<open>dec_total d\<close> adds that \<open>d\<close> returns a value or an error, so that it does not panic.
  Both are closed under the way decoders are composed (the collections \<open>safe_intros\<close> and
  \<open>total_intros\<close>). Every method of \<open>real_decoder.go\<close> is safe. All but the compact strings and
  the compact array of int32, which slice the buffer without checking the length, are total.
\<close>

subsection \<open>Safety\<close>

definition in_buffer :: "realDecoder \<Rightarrow> bool" where
  "in_buffer rd \<longleftrightarrow> rd_off rd \<le> length (rd_raw rd)"

definition dec_safe :: "'a dec \<Rightarrow> bool" where
  "dec_safe d \<longleftrightarrow> (\<forall>rd. in_buffer rd \<longrightarrow>
     in_buffer (snd (d rd)) \<and> rd_raw (snd (d rd)) = rd_raw rd \<and> rd_off rd \<le> rd_off (snd (d rd)))"

named_theorems safe_intros \<open>rules that derive the safety of a decoder from its parts\<close>

lemma dec_safeD:
  "dec_safe d \<Longrightarrow> in_buffer rd \<Longrightarrow> d rd = (r, rd') \<Longrightarrow>
   in_buffer rd' \<and> rd_raw rd' = rd_raw rd \<and> rd_off rd \<le> rd_off rd'"
  unfolding dec_safe_def by (metis snd_conv)

lemma dec_safeI:
  "(\<And>rd r rd'. in_buffer rd \<Longrightarrow> d rd = (r, rd') \<Longrightarrow>
     in_buffer rd' \<and> rd_raw rd' = rd_raw rd \<and> rd_off rd \<le> rd_off rd') \<Longrightarrow> dec_safe d"
  unfolding dec_safe_def by (metis prod.collapse)

lemma dec_safe_monad [safe_intros]:
  "dec_safe (dreturn x)" "dec_safe (derror e)" "dec_safe dpanic" "dec_safe (dmake n)"
  by (simp_all add: dec_safe_def dreturn_def derror_def dpanic_def dmake_def)

lemma dec_safe_bind [safe_intros]:
  assumes m: "dec_safe m" and f: "\<And>x. dec_safe (f x)"
  shows "dec_safe (dbind m f)"
proof (rule dec_safeI)
  fix rd r rd' assume rd: "in_buffer rd" "dbind m f rd = (r, rd')"
  obtain y rd1 where y: "m rd = (y, rd1)" by fastforce
  note 1 = dec_safeD [OF m rd(1) y]
  show "in_buffer rd' \<and> rd_raw rd' = rd_raw rd \<and> rd_off rd \<le> rd_off rd'"
    using rd(2) 1 by (cases y) (auto simp: dbind_def y dest!: dec_safeD [OF f, rotated])
qed

lemma dec_safe_catch [safe_intros]:
  assumes m: "dec_safe m" and h: "\<And>e. dec_safe (h e)"
  shows "dec_safe (dcatch m h)"
proof (rule dec_safeI)
  fix rd r rd' assume rd: "in_buffer rd" "dcatch m h rd = (r, rd')"
  obtain y rd1 where y: "m rd = (y, rd1)" by fastforce
  note 1 = dec_safeD [OF m rd(1) y]
  show "in_buffer rd' \<and> rd_raw rd' = rd_raw rd \<and> rd_off rd \<le> rd_off rd'"
    using rd(2) 1 by (cases y) (auto simp: dcatch_def y dest!: dec_safeD [OF h, rotated])
qed

lemma dec_safe_if [safe_intros]: "dec_safe a \<Longrightarrow> dec_safe b \<Longrightarrow> dec_safe (if c then a else b)"
  by simp

lemma dec_safe_times [safe_intros]: "dec_safe d \<Longrightarrow> dec_safe (dec_times n d)"
  by (induction n) (auto intro!: safe_intros)

lemmas safe_prims = dec_safe_def in_buffer_def remaining_def insufficient_def advance_def

lemma dec_safe_ints [safe_intros]:
  "dec_safe getInt8" "dec_safe getInt16" "dec_safe getInt32" "dec_safe getInt64" "dec_safe getFloat64"
  by (auto simp: safe_prims getInt8_def getInt16_def getInt32_def getInt64_def getFloat64_def)

lemma dec_safe_slices [safe_intros]:
  "dec_safe getArrayLength" "dec_safe (getRawBytes n)" "dec_safe (sliceString n)"
  "dec_safe sliceInt32" "dec_safe sliceInt64"
  by (auto simp: safe_prims getArrayLength_def getRawBytes_def sliceString_def sliceInt32_def
      sliceInt64_def Let_def)

lemma dec_safe_peeks [safe_intros]: "dec_safe (peek k m)" "dec_safe (peekInt8 k)"
  by (auto simp: safe_prims peek_def peekInt8_def)

lemma dec_safe_lengthField [safe_intros]: "dec_safe lengthField_decode"
  unfolding lengthField_decode_def by (intro safe_intros) (simp add: safe_prims)

lemma Uvarint_loop_range: "\<bar>snd (Uvarint_loop i x s bs)\<bar> \<le> int (i + length bs)"
  by (induction i x s bs rule: Uvarint_loop.induct) auto

lemma Uvarint_range: "Uvarint bs = (y, n) \<Longrightarrow> \<bar>n\<bar> \<le> int (length bs)"
  using Uvarint_loop_range [of 0 0 0 bs] by (simp add: Uvarint_def)

lemma Varint_range: "Varint bs = (y, n) \<Longrightarrow> \<bar>n\<bar> \<le> int (length bs)"
  using Uvarint_range [of bs] by (auto simp: Varint_def split: prod.splits)

lemma dec_safe_varints [safe_intros]: "dec_safe getVarint" "dec_safe getUVarint"
  by (auto simp: safe_prims getVarint_def getUVarint_def rest_of_def split: prod.splits
      dest!: Uvarint_range Varint_range)

lemma dec_safe_stack [safe_intros]: "dec_safe (push_stack f)" "dec_safe rd_pop"
  by (simp_all add: safe_prims push_stack_def rd_pop_def split: list.splits)

lemma dec_safe_push [safe_intros]: "dec_safe (rd_push f)"
proof -
  have r: "in_buffer rd \<Longrightarrow> in_buffer (snd (dbind d (\<lambda>l. push_stack (h l)) rd)) \<and>
      rd_raw (snd (dbind d (\<lambda>l. push_stack (h l)) rd)) = rd_raw rd \<and>
      rd_off rd \<le> rd_off (snd (dbind d (\<lambda>l. push_stack (h l)) rd))"
    if "dec_safe d" for d :: "'b dec" and h rd
    using dec_safe_bind [OF that dec_safe_stack(1), of h] unfolding dec_safe_def by blast
  show ?thesis
  proof (cases f)
    case (crc32Field start p)
    then show ?thesis by (auto simp: safe_prims push_stack_def)
  qed (use r [OF dec_safe_lengthField] r [OF dec_safe_varints(1)] in \<open>simp_all add: dec_safe_def\<close>)
qed

lemma dec_safe_compound [safe_intros]:
  "dec_safe getCompactArrayLength" "dec_safe getBool" "dec_safe skipTaggedField"
  "dec_safe getEmptyTaggedFieldArray" "dec_safe getBytes" "dec_safe getVarintBytes"
  "dec_safe getCompactBytes" "dec_safe getCompactString" "dec_safe getCompactNullableString"
  "dec_safe getCompactInt32Array" "dec_safe (getSubset n)"
  unfolding getCompactArrayLength_def getBool_def skipTaggedField_def getEmptyTaggedFieldArray_def
    getBytes_def getVarintBytes_def getCompactBytes_def getCompactString_def
    getCompactNullableString_def getCompactInt32Array_def getSubset_def
  by (intro safe_intros)+

lemma dec_safe_getStringLength [safe_intros]: "dec_safe getStringLength"
  unfolding getStringLength_def
  by (intro safe_intros) (simp add: safe_prims)

lemma dec_safe_strings [safe_intros]: "dec_safe getString" "dec_safe getNullableString"
  unfolding getString_def getNullableString_def by (intro safe_intros)+

lemma dec_safe_insufficient [safe_intros]: "dec_safe insufficient"
  by (simp add: safe_prims)

lemma dec_safe_state_if [safe_intros]:
  "dec_safe a \<Longrightarrow> dec_safe b \<Longrightarrow> dec_safe (\<lambda>rd. if P rd then a rd else b rd)"
  by (simp add: dec_safe_def)

lemma dec_safe_count:
  assumes "\<And>n. dec_safe (k n)"
  shows "dec_safe (\<lambda>rd. if remaining rd < 4 then insufficient rd else k (h rd) (advance 4 rd))"
  unfolding dec_safe_def
proof (intro allI impI)
  fix rd assume rd: "in_buffer rd"
  show "in_buffer (snd (if remaining rd < 4 then insufficient rd else k (h rd) (advance 4 rd))) \<and>
    rd_raw (snd (if remaining rd < 4 then insufficient rd else k (h rd) (advance 4 rd))) = rd_raw rd \<and>
    rd_off rd \<le> rd_off (snd (if remaining rd < 4 then insufficient rd else k (h rd) (advance 4 rd)))"
  proof (cases "remaining rd < 4")
    case False
    with rd have "in_buffer (advance 4 rd)" by (simp add: in_buffer_def advance_def remaining_def)
    with False dec_safeD [OF assms [of "h rd"] this surjective_pairing] show ?thesis by (auto simp: advance_def)
  qed (use rd in \<open>simp add: safe_prims\<close>)
qed

lemma dec_safe_counted_loop:
  "dec_safe d \<Longrightarrow> dec_safe (\<lambda>rd. if remaining rd < m * n then insufficient rd
     else if n = 0 then (Ok [], rd) else dec_times (nat n) d rd)"
  "dec_safe d \<Longrightarrow> dec_safe (\<lambda>rd. if n = 0 then (Ok [], rd) else dec_times (nat n) d rd)"
  by (intro safe_intros; simp add: dec_safe_def)+

lemma dec_safe_arrays [safe_intros]:
  "dec_safe getInt32Array" "dec_safe getInt64Array" "dec_safe getStringArray"
  unfolding getInt32Array_def [abs_def] getInt64Array_def [abs_def] getStringArray_def [abs_def] Let_def
  by (rule dec_safe_count [OF dec_safe_counted_loop(1) [OF dec_safe_slices(4)]]
      dec_safe_count [OF dec_safe_counted_loop(1) [OF dec_safe_slices(5)]]
      dec_safe_count [OF dec_safe_counted_loop(2) [OF dec_safe_strings(1)]])+

lemma dec_safe_bracket [safe_intros]: "dec_safe d \<Longrightarrow> dec_safe (dec_bracket f d)"
  unfolding dec_bracket_def by (intro safe_intros)

subsection \<open>Totality\<close>

text \<open>\<open>dec_total\<close>: a safe decoder that returns a value or an error on every buffer.\<close>

definition returns :: "'a res \<Rightarrow> bool" where
  "returns r \<longleftrightarrow> (case r of Ok _ \<Rightarrow> True | Err _ \<Rightarrow> True | _ \<Rightarrow> False)"

lemma returns_simps [simp]: "returns (Ok x)" "returns (Err e)" "\<not> returns Panic" "\<not> returns Diverge"
  by (simp_all add: returns_def)

definition dec_total :: "'a dec \<Rightarrow> bool" where
  "dec_total d \<longleftrightarrow> dec_safe d \<and> (\<forall>rd. in_buffer rd \<longrightarrow> returns (fst (d rd)))"

named_theorems total_intros \<open>rules that derive that a decoder never panics from its parts\<close>

lemma dec_total_safe: "dec_total d \<Longrightarrow> dec_safe d"
  by (simp add: dec_total_def)

lemma dec_total_monad [total_intros]: "dec_total (dreturn x)" "dec_total (derror e)"
  by (simp_all add: dec_total_def safe_intros dec_steps)

lemma dec_total_bind [total_intros]:
  assumes m: "dec_total m" and f: "\<And>x. dec_total (f x)"
  shows "dec_total (dbind m f)"
  unfolding dec_total_def
proof (intro conjI allI impI)
  show "dec_safe (dbind m f)" using assms by (intro safe_intros dec_total_safe)
  fix rd assume rd: "in_buffer rd"
  obtain y rd1 where y: "m rd = (y, rd1)" by fastforce
  have "in_buffer rd1" using dec_safeD [OF dec_total_safe [OF m] rd y] by simp
  moreover have "returns y" using m rd y unfolding dec_total_def by (metis fst_conv)
  ultimately show "returns (fst (dbind m f rd))"
    using f by (cases y) (simp_all add: dbind_def y dec_total_def)
qed

lemma dec_total_catch [total_intros]:
  assumes m: "dec_total m" and h: "\<And>e. dec_total (h e)"
  shows "dec_total (dcatch m h)"
  unfolding dec_total_def
proof (intro conjI allI impI)
  show "dec_safe (dcatch m h)" using assms by (intro safe_intros dec_total_safe)
  fix rd assume rd: "in_buffer rd"
  obtain y rd1 where y: "m rd = (y, rd1)" by fastforce
  have "in_buffer rd1" using dec_safeD [OF dec_total_safe [OF m] rd y] by simp
  moreover have "returns y" using m rd y unfolding dec_total_def by (metis fst_conv)
  ultimately show "returns (fst (dcatch m h rd))"
    using h by (cases y) (simp_all add: dcatch_def y dec_total_def)
qed

lemma dec_total_if [total_intros]: "(c \<Longrightarrow> dec_total a) \<Longrightarrow> (\<not> c \<Longrightarrow> dec_total b) \<Longrightarrow> dec_total (if c then a else b)"
  by simp

lemma dec_total_times [total_intros]: "dec_total d \<Longrightarrow> dec_total (dec_times n d)"
  by (induction n) (auto intro!: total_intros)

lemma dec_total_make [total_intros]: "0 \<le> n \<Longrightarrow> dec_total (dmake n)"
  by (simp add: dmake_def total_intros)

lemma dec_total_prims [total_intros]:
  "dec_total getInt8" "dec_total getInt16" "dec_total getInt32" "dec_total getInt64" "dec_total getFloat64"
  "dec_total getVarint" "dec_total getUVarint" "dec_total (getRawBytes n)" "dec_total getArrayLength"
  "dec_total (peek k m)" "dec_total (peekInt8 k)"
  by (simp_all add: dec_total_def safe_intros getInt8_def getInt16_def getInt32_def getInt64_def
      getFloat64_def getVarint_def getUVarint_def getRawBytes_def getArrayLength_def peek_def peekInt8_def
      insufficient_def Let_def split: prod.splits)

lemma dec_total_lengthField [total_intros]: "dec_total lengthField_decode"
  unfolding lengthField_decode_def by (intro total_intros) (simp add: dec_total_def safe_prims)

lemma dec_total_compound [total_intros]:
  "dec_total getCompactArrayLength" "dec_total getBool" "dec_total getEmptyTaggedFieldArray"
  "dec_total getBytes" "dec_total getVarintBytes" "dec_total getCompactBytes" "dec_total (getSubset n)"
  unfolding getCompactArrayLength_def getBool_def skipTaggedField_def getEmptyTaggedFieldArray_def
    getBytes_def getVarintBytes_def getCompactBytes_def getSubset_def
  by (intro total_intros)+

lemma getString_returns: "returns (fst (getString rd))" "returns (fst (getNullableString rd))"
  by (simp_all add: getString_def getNullableString_def getStringLength_def sliceString_def
      getInt16_def insufficient_def dec_steps)

lemma dec_total_strings [total_intros]: "dec_total getString" "dec_total getNullableString"
  by (simp_all add: dec_total_def safe_intros getString_returns)

lemma sliceInt_ok:
  "4 \<le> remaining rd \<Longrightarrow> sliceInt32 rd = (Ok (be_get (take 4 (rest_of rd))), advance 4 rd)"
  "8 \<le> remaining rd \<Longrightarrow> sliceInt64 rd = (Ok (be_get (take 8 (rest_of rd))), advance 8 rd)"
  by (simp_all add: sliceInt32_def sliceInt64_def)

lemma slice_loops_return:
  "4 * int n \<le> remaining rd \<Longrightarrow> returns (fst (dec_times n sliceInt32 rd))"
  "8 * int n \<le> remaining rd \<Longrightarrow> returns (fst (dec_times n sliceInt64 rd))"
proof (induction n arbitrary: rd)
  case 0
  { case 1 show ?case by (simp add: dec_steps) next case 2 show ?case by (simp add: dec_steps) }
next
  case (Suc n)
  {
    case 1
    then have "returns (fst (dec_times n sliceInt32 (advance 4 rd)))"
      by (intro Suc) (simp add: remaining_def advance_def)
    with 1 show ?case by (auto simp: dec_steps sliceInt_ok split: prod.splits res.splits)
  next
    case 2
    then have "returns (fst (dec_times n sliceInt64 (advance 8 rd)))"
      by (intro Suc) (simp add: remaining_def advance_def)
    with 2 show ?case by (auto simp: dec_steps sliceInt_ok split: prod.splits res.splits)
  }
qed

lemma dec_times_returns:
  "dec_total d \<Longrightarrow> in_buffer rd \<Longrightarrow> returns (fst (dec_times n d rd))"
  using dec_total_times [of d n] by (simp add: dec_total_def)

lemma dec_total_arrays [total_intros]:
  "dec_total getInt32Array" "dec_total getInt64Array" "dec_total getStringArray"
  by (simp_all add: dec_total_def safe_intros)
     (auto simp: getInt32Array_def getInt64Array_def getStringArray_def Let_def insufficient_def
      intro!: slice_loops_return dec_times_returns total_intros simp: in_buffer_def remaining_def advance_def)

end
