(* ===== verification/Wire_Codec.thy ===== *)
theory Wire_Codec
  imports Decoder_Safety "HOL-Library.AList"
begin

text \<open>
  What the request, response and record types promise to the codec: the interface
  \<open>encoder\<close>/\<open>versionedDecoder\<close> of \<open>encoder_decoder.go\<close> with its contract, as the locale
  \<open>wire_codec\<close>. A type supplies the calls its \<open>encode\<close> makes, its \<open>decode\<close>, the version its
  object carries and the condition under which the object can be sent; the locale's laws say that
  no call of \<open>encode\<close> fails and that \<open>decode\<close> reads the bytes back. Proved once from the laws: the
  round trip through the two passes of \<open>encode\<close> and \<open>versionedDecode\<close>, that different objects
  have different encodings, that an encoding is not a proper prefix of another, and the array of
  such objects. Every message type of the development interprets the locale.

  Arrays and maps: a loop over \<open>getArrayLength\<close> elements that fills a slice or a map.
\<close>

subsection \<open>Arrays and maps\<close>

definition enc_array :: "('a \<Rightarrow> pe_op list) \<Rightarrow> 'a list \<Rightarrow> pe_op list" where
  "enc_array enc xs = putArrayLength (int (length xs)) # concat (map enc xs)"

text \<open>
  Decoding into a slice made with the length that was read, which panics when it is negative, and
  a loop that runs while its counter is below the length, which then reads nothing.
\<close>

definition dec_array :: "'a dec \<Rightarrow> 'a list dec" where
  "dec_array d = dbind getArrayLength (\<lambda>n. dbind (dmake n) (\<lambda>_. dec_times (nat n) d))"

definition dec_loop :: "'a dec \<Rightarrow> 'a list dec" where
  "dec_loop d = dbind getArrayLength (\<lambda>n. dec_times (nat n) d)"

text \<open>
  A Go map is a list of entries with distinct keys, in the order an iteration over the map visits
  them. Storing the decoded entries one after another overwrites an earlier entry of the same key.
\<close>

definition go_map :: "('k \<times> 'v) list \<Rightarrow> ('k \<times> 'v) list" where
  "go_map kvs = foldl (\<lambda>m (k, v). AList.update k v m) [] kvs"

definition dec_map :: "('k \<times> 'v) dec \<Rightarrow> ('k \<times> 'v) list dec" where
  "dec_map d = dbind (dec_loop d) (\<lambda>kvs. dreturn (go_map kvs))"

definition dec_pair :: "'a dec \<Rightarrow> 'b dec \<Rightarrow> ('a \<times> 'b) dec" where
  "dec_pair da db = dbind da (\<lambda>a. dbind db (\<lambda>b. dreturn (a, b)))"

lemma update_new_key: "k \<notin> fst ` set m \<Longrightarrow> AList.update k v m = m @ [(k, v)]"
  by (induction m) auto

lemma foldl_update_distinct:
  "distinct (map fst kvs) \<Longrightarrow> fst ` set kvs \<inter> fst ` set m = {} \<Longrightarrow>
   foldl (\<lambda>m (k, v). AList.update k v m) m kvs = m @ kvs"
proof (induction kvs arbitrary: m)
  case (Cons kv kvs)
  obtain k v where kv: "kv = (k, v)" by fastforce
  with Cons.prems have "AList.update k v m = m @ [(k, v)]" by (intro update_new_key) auto
  moreover have "foldl (\<lambda>m (k, v). AList.update k v m) (m @ [(k, v)]) kvs = (m @ [(k, v)]) @ kvs"
    using Cons.prems kv by (intro Cons.IH) auto
  ultimately show ?case by (simp add: kv)
qed simp

lemma go_map_distinct [simp]: "distinct (map fst kvs) \<Longrightarrow> go_map kvs = kvs"
  using foldl_update_distinct [of kvs "[]"] by (simp add: go_map_def)

lemma distinct_go_map: "distinct (map fst (go_map kvs))"
proof -
  have "distinct (map fst m) \<Longrightarrow> distinct (map fst (foldl (\<lambda>m (k, v). AList.update k v m) m kvs))" for m
    by (induction kvs arbitrary: m) (auto simp: distinct_update)
  then show ?thesis by (simp add: go_map_def)
qed

lemma update_nonempty: "AList.update k v m \<noteq> []"
  by (cases m) auto

lemma go_map_nonempty: "kvs \<noteq> [] \<Longrightarrow> go_map kvs \<noteq> []"
  by (cases kvs rule: rev_cases) (auto simp: go_map_def update_nonempty split: prod.splits)

lemma ser_ops_enc_array [ser_simps]:
  "ser_ops (enc_array enc xs) =
     ser_array_length (int (length xs)) @ concat (map (\<lambda>x. ser_ops (enc x)) xs)"
  by (simp add: enc_array_def ser_simps o_def)

lemma ops_ok_concat [wire_ok]: "ops_ok (concat (map enc xs)) \<longleftrightarrow> (\<forall>x \<in> set xs. ops_ok (enc x))"
  by (induction xs) auto

lemma ops_ok_enc_array [wire_ok]:
  "ops_ok (enc_array enc xs) \<longleftrightarrow> length xs \<le> 2147483647 \<and> (\<forall>x \<in> set xs. ops_ok (enc x))"
  by (simp add: enc_array_def ops_ok_concat)

lemma reads_loop_view:
  assumes "\<And>x. x \<in> set xs \<Longrightarrow> reads d (f x) (g x)" "\<And>x. x \<in> set xs \<Longrightarrow> f x \<noteq> []" "length xs \<le> 131070"
  shows "reads (dec_loop d) (ser_array_length (int (length xs)) @ concat (map f xs)) (map g xs)"
    and "reads (dec_array d) (ser_array_length (int (length xs)) @ concat (map f xs)) (map g xs)"
proof -
  have t: "reads (dec_times (length xs) d) (concat (map f xs)) (map g xs)"
    using assms(1) by (rule reads_times_view)
  have "length xs \<le> length (concat (map f xs))" using assms(2) by (rule length_le_concat_map)
  then show "reads (dec_loop d) (ser_array_length (int (length xs)) @ concat (map f xs)) (map g xs)"
    and "reads (dec_array d) (ser_array_length (int (length xs)) @ concat (map f xs)) (map g xs)"
    using assms(3) reads_at [OF t]
    by (auto intro!: readsI simp: dec_loop_def dec_array_def dec_steps)
qed

lemma reads_loop:
  assumes "\<And>x. x \<in> set xs \<Longrightarrow> reads d (f x) x" "\<And>x. x \<in> set xs \<Longrightarrow> f x \<noteq> []" "length xs \<le> 131070"
  shows "reads (dec_loop d) (ser_array_length (int (length xs)) @ concat (map f xs)) xs"
    and "reads (dec_array d) (ser_array_length (int (length xs)) @ concat (map f xs)) xs"
  using reads_loop_view [of xs d f "\<lambda>x. x"] assms by simp_all

lemma reads_map_view:
  assumes "\<And>kv. kv \<in> set kvs \<Longrightarrow> reads d (f kv) (g kv)" "\<And>kv. kv \<in> set kvs \<Longrightarrow> f kv \<noteq> []"
    "length kvs \<le> 131070" "distinct (map fst (map g kvs))"
  shows "reads (dec_map d) (ser_array_length (int (length kvs)) @ concat (map f kvs)) (map g kvs)"
proof -
  have "reads (dec_loop d) (ser_array_length (int (length kvs)) @ concat (map f kvs)) (map g kvs)"
    using assms(1-3) by (rule reads_loop_view)
  from reads_at [OF this] show ?thesis
    using go_map_distinct [OF assms(4)] by (intro readsI) (simp add: dec_map_def dec_steps)
qed

lemma reads_pair:
  "reads da a x \<Longrightarrow> reads db b y \<Longrightarrow> reads (dec_pair da db) (a @ b) (x, y)"
  by (intro readsI) (simp add: dec_pair_def dec_steps reads_at)

lemma dec_safe_collections [safe_intros]:
  "dec_safe d \<Longrightarrow> dec_safe (dec_array d)" "dec_safe d \<Longrightarrow> dec_safe (dec_loop d)"
  "dec_safe da \<Longrightarrow> dec_safe db \<Longrightarrow> dec_safe (dec_pair da db)"
  unfolding dec_array_def dec_loop_def dec_pair_def by (intro safe_intros; assumption)+

lemma dec_safe_map [safe_intros]: "dec_safe d \<Longrightarrow> dec_safe (dec_map d)"
  unfolding dec_map_def by (intro safe_intros)

subsection \<open>The contract of a message type\<close>

locale wire_codec =
  fixes enc :: "'a \<Rightarrow> pe_op list"
    and dec :: "int \<Rightarrow> 'a dec"
    and ver :: "'a \<Rightarrow> int"
    and wf :: "'a \<Rightarrow> bool"
  assumes ok: "wf x \<Longrightarrow> ops_ok (enc x)"
    and reads: "wf x \<Longrightarrow> reads (dec (ver x)) (ser_ops (enc x)) x"
begin

lemma encode_eq:
  "wf x \<Longrightarrow> encode (enc x) =
     (if length (ser_ops (enc x)) \<le> MaxRequestSize then Ok (ser_ops (enc x))
      else Err (PacketEncodingError ''invalid request size''))"
  using encode_ops_ok [OF ok] by simp

lemma roundtrip:
  assumes "wf x" "encode (enc x) = Ok bs"
  shows "versionedDecode (Some bs) x0 dec (ver x) = Ok x"
  using assms reads_decode_buf [OF reads]
  by (auto simp: encode_eq versionedDecode_def split: if_splits)

lemma encode_inj:
  assumes "wf x" "wf y" "ver x = ver y" "encode (enc x) = Ok bs" "encode (enc y) = Ok bs"
  shows "x = y"
  using roundtrip [OF assms(1,4)] roundtrip [OF assms(2,5)] unfolding assms(3) by (metis res.inject(1))

lemma reads_here:
  "wf x \<Longrightarrow> v = ver x \<Longrightarrow>
   dec v (dec_at pre (ser_ops (enc x) @ post) st) = (Ok x, dec_at (pre @ ser_ops (enc x)) post st)"
  by (simp add: reads_at reads)

lemma prefix_free:
  assumes "wf x" "wf y" "ver x = ver y" "ser_ops (enc x) = ser_ops (enc y) @ zs"
  shows "x = y \<and> zs = []"
proof -
  have "dec (ver x) (dec_at [] (ser_ops (enc x) @ []) []) = (Ok x, dec_at (ser_ops (enc x)) [] [])"
    using reads_here [OF assms(1) refl, of "[]" "[]" "[]"] by simp
  moreover have "dec (ver x) (dec_at [] (ser_ops (enc y) @ zs) []) = (Ok y, dec_at (ser_ops (enc y)) zs [])"
    using reads_here [OF assms(2,3), of "[]" zs "[]"] by simp
  ultimately show ?thesis
    using assms(4) by (auto simp: dec_at_def)
qed

end

text \<open>A type of which a message holds an array: its encoding is not empty.\<close>

locale wire_elem = wire_codec +
  assumes nonempty: "wf x \<Longrightarrow> ser_ops (enc x) \<noteq> []"
begin

lemma array_ok: "list_all wf xs \<Longrightarrow> length xs \<le> 131070 \<Longrightarrow> ops_ok (enc_array enc xs)"
  by (simp add: ops_ok_enc_array ok list_all_iff [of wf])

lemma array_reads:
  assumes "list_all wf xs" "list_all (\<lambda>x. ver x = v) xs" "length xs \<le> 131070"
  shows "reads (dec_array (dec v)) (ser_ops (enc_array enc xs)) xs"
    and "reads (dec_loop (dec v)) (ser_ops (enc_array enc xs)) xs"
proof -
  have 1: "reads (dec v) (ser_ops (enc x)) x" if "x \<in> set xs" for x
    using reads [of x] that assms(1,2) by (auto simp: list_all_iff)
  have 2: "ser_ops (enc x) \<noteq> []" if "x \<in> set xs" for x
    using nonempty [of x] that assms(1) by (auto simp: list_all_iff)
  show "reads (dec_array (dec v)) (ser_ops (enc_array enc xs)) xs"
    using reads_loop(2) [OF 1 2 assms(3)] by (simp add: ser_ops_enc_array)
  show "reads (dec_loop (dec v)) (ser_ops (enc_array enc xs)) xs"
    using reads_loop(1) [OF 1 2 assms(3)] by (simp add: ser_ops_enc_array)
qed

lemma array_at:
  assumes "list_all wf xs" "list_all (\<lambda>x. ver x = v) xs" "length xs \<le> 131070"
  shows "dec_array (dec v) (dec_at pre (ser_ops (enc_array enc xs) @ post) st) =
      (Ok xs, dec_at (pre @ ser_ops (enc_array enc xs)) post st)"
    and "dec_loop (dec v) (dec_at pre (ser_ops (enc_array enc xs) @ post) st) =
      (Ok xs, dec_at (pre @ ser_ops (enc_array enc xs)) post st)"
  using array_reads [OF assms] by (simp_all add: reads_at)

end

end
