(* ===== verification/Compression.thy ===== *)
theory Compression
  imports Wire_Codec
begin

text \<open>
  Compression of record data: the codec numbers of \<open>message.go\<close> and the dispatch of
  \<open>compress.go\<close> and \<open>decompress.go\<close>. The gzip, snappy, lz4 and zstd implementations are
  third-party packages; they are the fields of \<open>codecs\<close>, an argument of every definition that
  compresses. What the library relies on is \<open>lossless\<close>: decompressing what was compressed gives
  the data back.
\<close>

subsection \<open>Codec numbers\<close>

type_synonym CompressionCodec = int8

abbreviation (input) CompressionNone :: CompressionCodec where "CompressionNone \<equiv> 0"
abbreviation (input) CompressionGZIP :: CompressionCodec where "CompressionGZIP \<equiv> 1"
abbreviation (input) CompressionSnappy :: CompressionCodec where "CompressionSnappy \<equiv> 2"
abbreviation (input) CompressionLZ4 :: CompressionCodec where "CompressionLZ4 \<equiv> 3"
abbreviation (input) CompressionZSTD :: CompressionCodec where "CompressionZSTD \<equiv> 4"

abbreviation (input) compressionCodecMask :: int8 where "compressionCodecMask \<equiv> 7"

definition CompressionLevelDefault :: int where
  "CompressionLevelDefault = - 1000"

text \<open>\<open>String\<close> indexes a slice of five names: any other codec panics.\<close>

definition codec_String :: "CompressionCodec \<Rightarrow> string res" where
  "codec_String cc =
     (let names = [''none'', ''gzip'', ''snappy'', ''lz4'', ''zstd'']; i = sint cc
      in if 0 \<le> i \<and> i < int (length names) then Ok (names ! nat i) else Panic)"

definition UnmarshalText :: "byte list \<Rightarrow> CompressionCodec res" where
  "UnmarshalText txt =
     (case map_of [(''none'', CompressionNone), (''gzip'', CompressionGZIP),
        (''snappy'', CompressionSnappy), (''lz4'', CompressionLZ4), (''zstd'', CompressionZSTD)]
        (string_of txt) of
        None \<Rightarrow> Err (OtherError ''cannot parse as a compression codec'')
      | Some cc \<Rightarrow> Ok cc)"

definition MarshalText :: "CompressionCodec \<Rightarrow> byte list res" where
  "MarshalText cc = res_bind (codec_String cc) (\<lambda>s. Ok (bytes_of s))"

definition is_codec :: "CompressionCodec \<Rightarrow> bool" where
  "is_codec cc \<longleftrightarrow> cc = 0 \<or> cc = 1 \<or> cc = 2 \<or> cc = 3 \<or> cc = 4"

subsection \<open>compress and decompress\<close>

text \<open>
  The third-party packages. A gzip writer is made for a level, or for the package's default level
  (\<open>None\<close>); making it fails for a level the package does not know. The snappy encoder cannot fail.
\<close>

record codecs =
  gzip_compress :: "int option \<Rightarrow> byte list \<Rightarrow> byte list res"
  gzip_decompress :: "byte list \<Rightarrow> byte list res"
  snappy_Encode :: "byte list \<Rightarrow> byte list"
  snappy_Decode :: "byte list \<Rightarrow> byte list res"
  lz4_compress :: "byte list \<Rightarrow> byte list res"
  lz4_decompress :: "byte list \<Rightarrow> byte list res"
  zstd_EncodeAll :: "int option \<Rightarrow> byte list \<Rightarrow> byte list"
  zstd_DecodeAll :: "byte list \<Rightarrow> byte list res"

text \<open>
  \<open>zstd.go\<close> keeps encoders of a level in a channel and reuses them; a zstd encoder made for the
  default level or for \<open>EncoderLevelFromZstd level\<close> (\<open>Some level\<close>) cannot fail.
\<close>

definition zstdCompress :: "codecs \<Rightarrow> int \<Rightarrow> byte list \<Rightarrow> byte list res" where
  "zstdCompress cs level src =
     Ok (zstd_EncodeAll cs (if level \<noteq> CompressionLevelDefault then Some level else None) src)"

definition zstdDecompress :: "codecs \<Rightarrow> byte list \<Rightarrow> byte list res" where
  "zstdDecompress cs src = zstd_DecodeAll cs src"

definition compress :: "codecs \<Rightarrow> CompressionCodec \<Rightarrow> int \<Rightarrow> byte list \<Rightarrow> byte list res" where
  "compress cs cc level data =
     (if cc = CompressionNone then Ok data
      else if cc = CompressionGZIP then
        gzip_compress cs (if level = CompressionLevelDefault then None else Some level) data
      else if cc = CompressionSnappy then Ok (snappy_Encode cs data)
      else if cc = CompressionLZ4 then lz4_compress cs data
      else if cc = CompressionZSTD then zstdCompress cs level data
      else Err (PacketEncodingError ''unsupported compression codec''))"

definition decompress :: "codecs \<Rightarrow> CompressionCodec \<Rightarrow> byte list \<Rightarrow> byte list res" where
  "decompress cs cc data =
     (if cc = CompressionNone then Ok data
      else if cc = CompressionGZIP then gzip_decompress cs data
      else if cc = CompressionSnappy then snappy_Decode cs data
      else if cc = CompressionLZ4 then lz4_decompress cs data
      else if cc = CompressionZSTD then zstdDecompress cs data
      else Err (PacketDecodingError ''invalid compression specified''))"

definition lossless :: "codecs \<Rightarrow> bool" where
  "lossless cs \<longleftrightarrow>
     (\<forall>l d c. gzip_compress cs l d = Ok c \<longrightarrow> gzip_decompress cs c = Ok d) \<and>
     (\<forall>d. snappy_Decode cs (snappy_Encode cs d) = Ok d) \<and>
     (\<forall>d c. lz4_compress cs d = Ok c \<longrightarrow> lz4_decompress cs c = Ok d) \<and>
     (\<forall>l d. zstd_DecodeAll cs (zstd_EncodeAll cs l d) = Ok d)"

text \<open>A concrete instance: every codec stores the data behind a byte that marks it.\<close>

definition stored :: "byte \<Rightarrow> byte list \<Rightarrow> byte list res" where
  "stored mark bs = (case bs of [] \<Rightarrow> Err (OtherError ''bad header'') | b # ds \<Rightarrow>
     if b = mark then Ok ds else Err (OtherError ''bad header''))"

definition marking_codecs :: codecs where
  "marking_codecs = \<lparr>gzip_compress = (\<lambda>_ d. Ok (1 # d)), gzip_decompress = stored 1,
     snappy_Encode = (\<lambda>d. 2 # d), snappy_Decode = stored 2,
     lz4_compress = (\<lambda>d. Ok (3 # d)), lz4_decompress = stored 3,
     zstd_EncodeAll = (\<lambda>_ d. 4 # d), zstd_DecodeAll = stored 4\<rparr>"

lemma lossless_marking_codecs: "lossless marking_codecs"
  by (simp add: lossless_def marking_codecs_def stored_def)

subsection \<open>Lemmas\<close>

lemma decompress_compress:
  "lossless cs \<Longrightarrow> compress cs cc level data = Ok c \<Longrightarrow> decompress cs cc c = Ok data"
  by (auto simp: lossless_def compress_def decompress_def zstdCompress_def zstdDecompress_def split: if_splits)

lemma compress_is_codec: "compress cs cc level data = Ok c \<Longrightarrow> is_codec cc"
  by (auto simp: compress_def is_codec_def split: if_splits)

lemma is_codec_mask: "is_codec cc \<Longrightarrow> cc AND compressionCodecMask = cc"
  by (auto simp: is_codec_def)

lemma codec_String_panics: "codec_String cc = Panic \<longleftrightarrow> \<not> is_codec cc"
proof -
  have "is_codec cc \<longleftrightarrow> 0 \<le> sint cc \<and> sint cc < 5"
  proof
    assume *: "0 \<le> sint cc \<and> sint cc < 5"
    define i where "i = sint cc"
    have "i \<in> {0, 1, 2, 3, 4}" using * by (auto simp: i_def)
    then have "is_codec (word_of_int i)" by (elim insertE emptyE) (simp_all add: is_codec_def)
    then show "is_codec cc" by (simp add: i_def)
  qed (auto simp: is_codec_def)
  then show ?thesis by (simp add: codec_String_def Let_def)
qed

end
