(* ===== verification/Record_Format.thy ===== *)
theory Record_Format
  imports Compression
begin

text \<open>
  The record format of message version 2: timestamps (\<open>timestamp.go\<close>), records and their headers
  (\<open>record.go\<close>), record batches (\<open>record_batch.go\<close>) and control records
  (\<open>control_record.go\<close>).

  A \<open>time.Time\<close> is the number of nanoseconds since the Unix epoch; location and monotonic clock
  do not reach the wire. The varint length field a record carries is scratch space of the codec:
  the preparing pass overwrites whatever it holds, so the record is modelled without it.
  \<open>RecordBatch.encode\<close> stores the compressed records in the batch, so its model returns the batch
  as well as the calls it makes; \<open>enc_RecordBatch_again\<close> shows that the second pass of \<open>encode\<close>
  repeats the calls of the first.

  The lemmas: the wire round trips of records and batches, with all codecs; the bound on the size of
  a record that the producer uses when it fills a batch.
\<close>

subsection \<open>Timestamps\<close>

type_synonym time = int

definition zeroTime :: time where
  "zeroTime = - 62135596800 * 1000000000"

definition UnixNano :: "time \<Rightarrow> int64" where
  "UnixNano t = word_of_int t"

definition enc_Timestamp :: "time \<Rightarrow> pe_op list" where
  "enc_Timestamp t =
     (if \<not> t < 0 then [putInt64 (word_of_int (sint (UnixNano t) sdiv 1000000))]
      else if t \<noteq> zeroTime then [fail (PacketEncodingError ''invalid timestamp'')]
      else [putInt64 (- 1)])"

definition dec_Timestamp :: "time dec" where
  "dec_Timestamp =
     dbind getInt64 (\<lambda>millis.
       if sint millis \<ge> 0
       then dreturn (sint millis div 1000 * 1000000000 + sint millis mod 1000 * 1000000)
       else dreturn zeroTime)"

text \<open>The times that survive the wire: the zero time, and whole milliseconds since the epoch.\<close>

definition wf_time :: "time \<Rightarrow> bool" where
  "wf_time t \<longleftrightarrow> t = zeroTime \<or> (0 \<le> t \<and> t < 2 ^ 63 \<and> 1000000 dvd t)"

lemma zeroTime_neg: "zeroTime < 0"
  by (simp add: zeroTime_def)

lemma enc_Timestamp_ok [wire_ok]: "wf_time t \<Longrightarrow> ops_ok (enc_Timestamp t)"
  by (auto simp: wf_time_def enc_Timestamp_def)

lemma sint_word64: "- (2 ^ 63) \<le> i \<Longrightarrow> i < 2 ^ 63 \<Longrightarrow> sint (word_of_int i :: int64) = i"
  by (rule sint_word_of_int_id) simp_all

lemma sdiv_mult: "(1000000 * k) sdiv 1000000 = (k :: int)"
  by (simp add: signed_divide_int_def abs_mult sgn_mult mult_sgn_abs)

lemma reads_Timestamp:
  assumes "wf_time t"
  shows "reads dec_Timestamp (ser_ops (enc_Timestamp t)) t"
proof (cases "t = zeroTime")
  case True
  then show ?thesis
    by (intro readsI) (simp add: enc_Timestamp_def dec_Timestamp_def ser_simps dec_steps zeroTime_neg)
next
  case False
  with assms obtain k where t: "0 \<le> t" "t < 2 ^ 63" "t = 1000000 * k" by (auto simp: wf_time_def)
  then have k: "0 \<le> k" "k < 2 ^ 63" by auto
  have "sint (UnixNano t) = t" using t(1,2) by (simp add: UnixNano_def sint_word64)
  then have "sint (UnixNano t) sdiv 1000000 = k" by (simp only: t(3) sdiv_mult)
  moreover have "k div 1000 * 1000000000 + k mod 1000 * 1000000 = t"
    using t(3) div_mult_mod_eq [of k 1000] by linarith
  ultimately show ?thesis
    using t(1) k by (intro readsI)
      (simp add: enc_Timestamp_def dec_Timestamp_def ser_simps dec_steps sint_word64)
qed

lemma length_ser_Timestamp [simp]: "wf_time t \<Longrightarrow> length (ser_ops (enc_Timestamp t)) = 8"
  by (auto simp: wf_time_def enc_Timestamp_def ser_simps)

lemmas Timestamp_at [dec_steps] = reads_at [OF reads_Timestamp]

lemma dec_total_Timestamp [total_intros]: "dec_total dec_Timestamp"
  unfolding dec_Timestamp_def by (intro total_intros)

subsection \<open>Records\<close>

abbreviation (input) isTransactionalMask :: int16 where "isTransactionalMask \<equiv> 0x10"
abbreviation (input) controlMask :: int16 where "controlMask \<equiv> 0x20"
abbreviation (input) timestampTypeMask :: int16 where "timestampTypeMask \<equiv> 0x08"

definition maximumRecordOverhead :: nat where
  "maximumRecordOverhead = 5 * 5 + 10 + 1"

record RecordHeader =
  hdr_Key :: nbytes
  hdr_Value :: nbytes

definition enc_RecordHeader :: "RecordHeader \<Rightarrow> pe_op list" where
  "enc_RecordHeader h = [putVarintBytes (hdr_Key h), putVarintBytes (hdr_Value h)]"

definition dec_RecordHeader :: "RecordHeader dec" where
  "dec_RecordHeader =
     dbind getVarintBytes (\<lambda>k. dbind getVarintBytes (\<lambda>v. dreturn \<lparr>hdr_Key = k, hdr_Value = v\<rparr>))"

record Record =
  rec_Headers :: "RecordHeader list"
  rec_Attributes :: int8
  rec_TimestampDelta :: int64
  rec_OffsetDelta :: int64
  rec_Key :: nbytes
  rec_Value :: nbytes

definition enc_Record_body :: "Record \<Rightarrow> pe_op list" where
  "enc_Record_body r =
     [putInt8 (rec_Attributes r),
      putVarint (word_of_int (sint (rec_TimestampDelta r) sdiv 1000000)),
      putVarint (rec_OffsetDelta r),
      putVarintBytes (rec_Key r),
      putVarintBytes (rec_Value r),
      putVarint (word_of_nat (length (rec_Headers r)))] @
     concat (map enc_RecordHeader (rec_Headers r))"

definition enc_Record :: "Record \<Rightarrow> pe_op list" where
  "enc_Record r = [pushPop (varintLengthField 0 0) (enc_Record_body r)]"

definition dec_Record_body :: "Record dec" where
  "dec_Record_body =
     dbind getInt8 (\<lambda>attributes.
     dbind getVarint (\<lambda>timestamp.
     dbind getVarint (\<lambda>offsetDelta.
     dbind getVarintBytes (\<lambda>key.
     dbind getVarintBytes (\<lambda>val.
     dbind getVarint (\<lambda>numHeaders.
     dbind (dec_times (nat (sint numHeaders)) dec_RecordHeader) (\<lambda>headers.
       dreturn \<lparr>rec_Headers = headers, rec_Attributes = attributes,
         rec_TimestampDelta = timestamp * 1000000, rec_OffsetDelta = offsetDelta,
         rec_Key = key, rec_Value = val\<rparr>)))))))"

definition dec_Record :: "Record dec" where
  "dec_Record = dec_bracket (varintLengthField 0 0) dec_Record_body"

definition wf_nbytes :: "nbytes \<Rightarrow> bool" where
  "wf_nbytes v \<longleftrightarrow> pred_option (\<lambda>bs. length bs \<le> 2147483647) v"

definition wf_RecordHeader :: "RecordHeader \<Rightarrow> bool" where
  "wf_RecordHeader h \<longleftrightarrow> wf_nbytes (hdr_Key h) \<and> wf_nbytes (hdr_Value h)"

definition wf_Record :: "Record \<Rightarrow> bool" where
  "wf_Record r \<longleftrightarrow> wf_nbytes (rec_Key r) \<and> wf_nbytes (rec_Value r) \<and>
     list_all wf_RecordHeader (rec_Headers r) \<and> length (rec_Headers r) \<le> 2147483647 \<and>
     1000000 dvd sint (rec_TimestampDelta r)"

lemma wf_nbytes_ok [wire_ok]:
  "wf_nbytes v \<Longrightarrow> op_ok (putVarintBytes v)" "wf_nbytes v \<Longrightarrow> op_ok (putBytes v)"
  by (cases v; simp add: wf_nbytes_def)+

lemma reads_RecordHeader: "wf_RecordHeader h \<Longrightarrow> reads dec_RecordHeader (ser_ops (enc_RecordHeader h)) h"
  by (intro readsI)
    (simp add: wf_RecordHeader_def wf_nbytes_def dec_RecordHeader_def enc_RecordHeader_def ser_simps dec_steps)

lemma millis_mult: "1000000 dvd sint d \<Longrightarrow> word_of_int (sint d sdiv 1000000) * 1000000 = (d :: int64)"
proof -
  assume "1000000 dvd sint d"
  then obtain k where k: "sint d = 1000000 * k" by auto
  then have "sint d sdiv 1000000 = k" by (simp only: sdiv_mult)
  then have "word_of_int (sint d sdiv 1000000) * 1000000 = (word_of_int (sint d) :: int64)"
    by (simp add: k mult.commute)
  then show ?thesis by simp
qed

lemma reads_Record_body:
  assumes "wf_Record r"
  shows "reads dec_Record_body (ser_ops (enc_Record_body r)) r"
proof (rule readsI)
  fix pre post st
  have "\<And>h. h \<in> set (rec_Headers r) \<Longrightarrow> reads dec_RecordHeader (ser_ops (enc_RecordHeader h)) h"
    using assms by (auto simp: wf_Record_def list_all_iff reads_RecordHeader)
  then show "dec_Record_body (dec_at pre (ser_ops (enc_Record_body r) @ post) st) =
      (Ok r, dec_at (pre @ ser_ops (enc_Record_body r)) post st)"
    using assms
    by (simp add: wf_Record_def wf_nbytes_def dec_Record_body_def enc_Record_body_def ser_simps dec_steps
        sint_len64 millis_mult reads_times_at o_def)
qed

lemma enc_RecordHeader_ok: "wf_RecordHeader h \<Longrightarrow> ops_ok (enc_RecordHeader h)"
  by (simp add: enc_RecordHeader_def wf_RecordHeader_def wire_ok del: op_ok.simps)

lemma enc_Record_ok: "wf_Record r \<Longrightarrow> ops_ok (enc_Record r)"
  using enc_RecordHeader_ok
  by (auto simp: enc_Record_def enc_Record_body_def wf_Record_def list_all_iff wire_ok simp del: op_ok.simps(2-7))

lemma reads_Record: "wf_Record r \<Longrightarrow> reads dec_Record (ser_ops (enc_Record r)) r"
  using dec_bracket_varint_at [OF reads_Record_body]
  by (intro readsI) (simp add: dec_Record_def enc_Record_def ser_simps del: ser_field.simps)

interpretation rec_codec: wire_elem enc_Record "\<lambda>_. dec_Record" "\<lambda>_. 0" wf_Record
  by unfold_locales
    (simp_all add: enc_Record_ok reads_Record, simp add: enc_Record_def ser_simps)

subsection \<open>The size of a record\<close>

definition nlen :: "nbytes \<Rightarrow> nat" where
  "nlen v = (case v of None \<Rightarrow> 0 | Some bs \<Rightarrow> length bs)"

lemma PutVarint_minus_1: "PutVarint (- 1) = [1]"
  by code_simp

lemma length_ser_vbytes: "nlen v < 2 ^ 31 \<Longrightarrow> length (ser_vbytes v) \<le> 5 + nlen v"
  using length_PutVarint_nat
  by (auto simp: ser_vbytes_def nlen_def PutVarint_minus_1 split: option.splits)

definition header_bytes :: "RecordHeader \<Rightarrow> nat" where
  "header_bytes h = nlen (hdr_Key h) + nlen (hdr_Value h) + 2 * 5"

definition record_bytes :: "Record \<Rightarrow> nat" where
  "record_bytes r = maximumRecordOverhead + sum_list (map header_bytes (rec_Headers r)) +
     nlen (rec_Key r) + nlen (rec_Value r)"

lemma length_ser_header:
  "header_bytes h < 2 ^ 31 \<Longrightarrow> length (ser_ops (enc_RecordHeader h)) \<le> header_bytes h"
  using length_ser_vbytes [of "hdr_Key h"] length_ser_vbytes [of "hdr_Value h"]
  by (simp add: header_bytes_def enc_RecordHeader_def ser_simps)

lemma length_ser_headers:
  "sum_list (map header_bytes hs) < 2 ^ 31 \<Longrightarrow>
   length (ser_ops (concat (map enc_RecordHeader hs))) \<le> sum_list (map header_bytes hs)"
proof (induction hs)
  case (Cons h hs)
  then show ?case using length_ser_header [of h] by (simp add: ser_simps)
qed (simp add: ser_simps)

lemma header_count: "10 * length hs \<le> sum_list (map header_bytes hs)"
  by (induction hs) (simp_all add: header_bytes_def)

lemma length_PutVarint_sint:
  "0 \<le> sint w \<Longrightarrow> sint w < 2 ^ 31 \<Longrightarrow> length (PutVarint w) \<le> 5"
proof -
  assume "0 \<le> sint w" "sint w < 2 ^ 31"
  then have "length (PutVarint (word_of_nat (nat (sint w)))) \<le> 5" by (intro length_PutVarint_nat) simp
  moreover have "(word_of_nat (nat (sint w)) :: int64) = word_of_int (sint w)"
    using \<open>0 \<le> sint w\<close> by (metis int_nat_eq of_int_of_nat_eq)
  ultimately show ?thesis by simp
qed

lemma record_size_bound:
  assumes "0 \<le> sint (rec_OffsetDelta r)" "sint (rec_OffsetDelta r) < 2 ^ 31" "record_bytes r < 2 ^ 31"
  shows "length (ser_ops (enc_Record r)) \<le> record_bytes r"
proof -
  let ?body = "ser_ops (enc_Record_body r)"
  have "length (rec_Headers r) < 2 ^ 31"
    using assms(3) header_count [of "rec_Headers r"] by (simp add: record_bytes_def)
  then have 1: "length (PutVarint (word_of_nat (length (rec_Headers r)))) \<le> 5"
    by (intro length_PutVarint_nat) simp
  have 2: "length (PutVarint (word_of_int (sint (rec_TimestampDelta r) sdiv 1000000))) \<le> 10"
    by (rule length_PutVarint_max)
  have 3: "length (ser_ops (concat (map enc_RecordHeader (rec_Headers r)))) \<le>
      sum_list (map header_bytes (rec_Headers r))"
    using assms(3) by (intro length_ser_headers) (simp add: record_bytes_def)
  have "length ?body + 5 \<le> record_bytes r"
    using length_ser_vbytes [of "rec_Key r"] length_ser_vbytes [of "rec_Value r"] 1 2 3
      length_PutVarint_sint [OF assms(1,2)] assms(3)
    by (simp add: record_bytes_def maximumRecordOverhead_def enc_Record_body_def ser_simps)
  moreover from this have "length (PutVarint (word_of_nat (length ?body))) \<le> 5"
    using assms(3) by (intro length_PutVarint_nat) simp
  ultimately show ?thesis by (simp add: enc_Record_def ser_simps)
qed

end
