(* ===== verification/Record_Batch.thy ===== *)
theory Record_Batch
  imports Record_Format
begin

text \<open>
  Record batches (\<open>record_batch.go\<close>) and control records (\<open>control_record.go\<close>).

  \<open>RecordBatch.encode\<close> caches the compressed records in the batch, so its model returns the batch
  next to the calls it makes; \<open>enc_RecordBatch_again\<close> shows that the second pass of \<open>encode\<close>
  makes the calls of the first. \<open>RecordBatch.decode\<close> is modelled with both of its ways to end
  early: a truncated batch is not an error but a batch without records that is marked as partial,
  and the checksum field it pushed then stays on the decoder's stack.

  The lemmas: a batch whose records compress to at least as many bytes as there are records is read
  back with all codecs; \<open>batch_count_check\<close> is the other case, where the count check of
  \<open>getArrayLength\<close> takes the batch for truncated.
\<close>

subsection \<open>Batches\<close>

definition recordBatchOverhead :: int where
  "recordBatchOverhead = 49"

definition enc_recordsArray :: "Record list \<Rightarrow> pe_op list" where
  "enc_recordsArray rs = concat (map enc_Record rs)"

definition dec_recordsArray :: "nat \<Rightarrow> Record list dec" where
  "dec_recordsArray n = dec_times n dec_Record"

record RecordBatch =
  rb_FirstOffset :: int64
  rb_PartitionLeaderEpoch :: int32
  rb_Version :: int8
  rb_Codec :: CompressionCodec
  rb_CompressionLevel :: int
  rb_Control :: bool
  rb_LogAppendTime :: bool
  rb_LastOffsetDelta :: int32
  rb_FirstTimestamp :: time
  rb_MaxTimestamp :: time
  rb_ProducerID :: int64
  rb_ProducerEpoch :: int16
  rb_FirstSequence :: int32
  rb_Records :: "Record list"
  rb_PartialTrailingRecord :: bool
  rb_IsTransactional :: bool
  rb_compressedRecords :: nbytes
  rb_recordsLen :: nat

definition LastOffset :: "RecordBatch \<Rightarrow> int64" where
  "LastOffset b = rb_FirstOffset b + scast (rb_LastOffsetDelta b)"

definition computeAttributes :: "RecordBatch \<Rightarrow> int16" where
  "computeAttributes b =
     (scast (rb_Codec b) AND scast compressionCodecMask)
     OR (if rb_Control b then controlMask else 0)
     OR (if rb_LogAppendTime b then timestampTypeMask else 0)
     OR (if rb_IsTransactional b then isTransactionalMask else 0)"

definition addRecord :: "Record \<Rightarrow> RecordBatch \<Rightarrow> RecordBatch" where
  "addRecord r b = b\<lparr>rb_Records := rb_Records b @ [r]\<rparr>"

definition encodeRecords :: "codecs \<Rightarrow> RecordBatch \<Rightarrow> unit res \<times> RecordBatch" where
  "encodeRecords cs b =
     (case encode (enc_recordsArray (rb_Records b)) of
        Ok raw \<Rightarrow>
          (let b = b\<lparr>rb_recordsLen := length raw\<rparr>
           in case compress cs (rb_Codec b) (rb_CompressionLevel b) raw of
                Ok c \<Rightarrow> (Ok (), b\<lparr>rb_compressedRecords := Some c\<rparr>)
              | Err e \<Rightarrow> (Err e, b\<lparr>rb_compressedRecords := None\<rparr>)
              | Panic \<Rightarrow> (Panic, b) | Diverge \<Rightarrow> (Diverge, b))
      | Err e \<Rightarrow> (Err e, b) | Panic \<Rightarrow> (Panic, b) | Diverge \<Rightarrow> (Diverge, b))"

text \<open>
  The calls before the records are encoded; when one of them fails the records are not touched.
  A call that panics in the middle of \<open>encode\<close> can only come from a third-party codec and has no
  counterpart among the calls; it is shown as a failure.
\<close>

definition batch_header :: "RecordBatch \<Rightarrow> pe_op list" where
  "batch_header b =
     [putInt16 (computeAttributes b), putInt32 (rb_LastOffsetDelta b)] @
     enc_Timestamp (rb_FirstTimestamp b) @ enc_Timestamp (rb_MaxTimestamp b) @
     [putInt64 (rb_ProducerID b), putInt16 (rb_ProducerEpoch b), putInt32 (rb_FirstSequence b),
      putArrayLength (int (length (rb_Records b)))]"

definition batch_records :: "codecs \<Rightarrow> RecordBatch \<Rightarrow> pe_op list \<times> RecordBatch" where
  "batch_records cs b =
     (case rb_compressedRecords b of
        Some c \<Rightarrow> ([putRawBytes c], b)
      | None \<Rightarrow>
          (case encodeRecords cs b of
             (Ok _, b) \<Rightarrow> ([putRawBytes (case rb_compressedRecords b of None \<Rightarrow> [] | Some c \<Rightarrow> c)], b)
           | (Err e, b) \<Rightarrow> ([fail e], b)
           | (_, b) \<Rightarrow> ([fail (OtherError ''panic'')], b)))"

definition enc_RecordBatch :: "codecs \<Rightarrow> RecordBatch \<Rightarrow> pe_op list \<times> RecordBatch" where
  "enc_RecordBatch cs b =
     (if rb_Version b \<noteq> 2 then ([fail (PacketEncodingError ''unsupported record batch version'')], b)
      else
        (case (if ops_ok (batch_header b) then batch_records cs b else ([], b)) of (recs, b') \<Rightarrow>
          ([putInt64 (rb_FirstOffset b),
            pushPop (lengthField 0 0)
              [putInt32 (rb_PartitionLeaderEpoch b), putInt8 (rb_Version b),
               pushPop (crc32Field 0 crcCastagnoli) (batch_header b @ recs)]], b')))"

text \<open>A result that is not a decoder's own, and the handling of a buffer that is too short.\<close>

definition dlift :: "'a res \<Rightarrow> 'a dec" where
  "dlift r rd = (r, rd)"

definition or_insufficient :: "'a dec \<Rightarrow> 'a option dec" where
  "or_insufficient d =
     dcatch (dbind d (\<lambda>x. dreturn (Some x)))
       (\<lambda>e. if errors_Is e ErrInsufficientData then dreturn None else derror e)"

definition dec_RecordBatch :: "codecs \<Rightarrow> RecordBatch dec" where
  "dec_RecordBatch cs =
     dbind getInt64 (\<lambda>firstOffset.
     dbind getInt32 (\<lambda>batchLen.
     dbind getInt32 (\<lambda>partitionLeaderEpoch.
     dbind getInt8 (\<lambda>version.
     dbind (rd_push (crc32Field 0 crcCastagnoli)) (\<lambda>_.
     dbind getInt16 (\<lambda>attributes.
     dbind getInt32 (\<lambda>lastOffsetDelta.
     dbind dec_Timestamp (\<lambda>firstTimestamp.
     dbind dec_Timestamp (\<lambda>maxTimestamp.
     dbind getInt64 (\<lambda>producerID.
     dbind getInt16 (\<lambda>producerEpoch.
     dbind getInt32 (\<lambda>firstSequence.
     dbind getArrayLength (\<lambda>numRecs.
       let codec = ucast attributes AND compressionCodecMask;
           b = \<lparr>rb_FirstOffset = firstOffset, rb_PartitionLeaderEpoch = partitionLeaderEpoch,
             rb_Version = version, rb_Codec = codec, rb_CompressionLevel = 0,
             rb_Control = (attributes AND controlMask = controlMask),
             rb_LogAppendTime = (attributes AND timestampTypeMask = timestampTypeMask),
             rb_LastOffsetDelta = lastOffsetDelta, rb_FirstTimestamp = firstTimestamp,
             rb_MaxTimestamp = maxTimestamp, rb_ProducerID = producerID,
             rb_ProducerEpoch = producerEpoch, rb_FirstSequence = firstSequence, rb_Records = [],
             rb_PartialTrailingRecord = False,
             rb_IsTransactional = (attributes AND isTransactionalMask = isTransactionalMask),
             rb_compressedRecords = None, rb_recordsLen = 0\<rparr>
       in dbind (or_insufficient (getRawBytes (sint batchLen - recordBatchOverhead))) (\<lambda>recBuffer.
            case recBuffer of
              None \<Rightarrow> dreturn (b\<lparr>rb_PartialTrailingRecord := True\<rparr>)
            | Some buf \<Rightarrow>
                dbind rd_pop (\<lambda>_.
                dbind (dlift (decompress cs codec buf)) (\<lambda>raw.
                dbind (or_insufficient (dlift (decode (Some raw) [] (dec_recordsArray (nat numRecs))))) (\<lambda>records.
                  case records of
                    None \<Rightarrow> dreturn (b\<lparr>rb_recordsLen := length raw, rb_PartialTrailingRecord := True\<rparr>)
                  | Some rs \<Rightarrow> dreturn (b\<lparr>rb_recordsLen := length raw, rb_Records := rs\<rparr>))))))))))))))))))"

subsection \<open>Round trip\<close>

definition records_raw :: "RecordBatch \<Rightarrow> byte list" where
  "records_raw b = ser_ops (enc_recordsArray (rb_Records b))"

definition batch_payload :: "codecs \<Rightarrow> RecordBatch \<Rightarrow> byte list" where
  "batch_payload cs b =
     (case compress cs (rb_Codec b) (rb_CompressionLevel b) (records_raw b) of Ok c \<Rightarrow> c | _ \<Rightarrow> [])"

text \<open>
  A batch that \<open>encode\<close> accepts and that holds nothing the wire cannot carry; and one whose record
  count also passes the check that the decoder makes against the bytes that follow the count.
\<close>

definition sendable_batch :: "codecs \<Rightarrow> RecordBatch \<Rightarrow> bool" where
  "sendable_batch cs b \<longleftrightarrow> rb_Version b = 2 \<and> wf_time (rb_FirstTimestamp b) \<and> wf_time (rb_MaxTimestamp b) \<and>
     list_all wf_Record (rb_Records b) \<and> length (rb_Records b) \<le> 131070 \<and>
     length (records_raw b) \<le> MaxRequestSize \<and> \<not> rb_PartialTrailingRecord b \<and>
     rb_compressedRecords b = None \<and>
     is_Ok (compress cs (rb_Codec b) (rb_CompressionLevel b) (records_raw b)) \<and>
     length (batch_payload cs b) \<le> 2147483647 - 49"

definition wf_RecordBatch :: "codecs \<Rightarrow> RecordBatch \<Rightarrow> bool" where
  "wf_RecordBatch cs b \<longleftrightarrow> sendable_batch cs b \<and> length (rb_Records b) \<le> length (batch_payload cs b)"

text \<open>What of a batch is on the wire: its compression level is not, its uncompressed size is.\<close>

definition batch_on_wire :: "RecordBatch \<Rightarrow> RecordBatch" where
  "batch_on_wire b = b\<lparr>rb_CompressionLevel := 0, rb_recordsLen := length (records_raw b)\<rparr>"

lemma batch_on_wire_eq:
  "rb_compressedRecords b = None \<Longrightarrow> \<not> rb_PartialTrailingRecord b \<Longrightarrow>
   \<lparr>rb_FirstOffset = rb_FirstOffset b, rb_PartitionLeaderEpoch = rb_PartitionLeaderEpoch b,
    rb_Version = rb_Version b, rb_Codec = rb_Codec b, rb_CompressionLevel = 0,
    rb_Control = rb_Control b, rb_LogAppendTime = rb_LogAppendTime b,
    rb_LastOffsetDelta = rb_LastOffsetDelta b, rb_FirstTimestamp = rb_FirstTimestamp b,
    rb_MaxTimestamp = rb_MaxTimestamp b, rb_ProducerID = rb_ProducerID b,
    rb_ProducerEpoch = rb_ProducerEpoch b, rb_FirstSequence = rb_FirstSequence b,
    rb_Records = rb_Records b, rb_PartialTrailingRecord = False,
    rb_IsTransactional = rb_IsTransactional b, rb_compressedRecords = None,
    rb_recordsLen = length (records_raw b)\<rparr> = batch_on_wire b"
  by (cases b) (simp add: batch_on_wire_def)

lemma recordsArray_ok: "list_all wf_Record rs \<Longrightarrow> ops_ok (enc_recordsArray rs)"
  by (simp add: enc_recordsArray_def ops_ok_concat list_all_iff [of wf_Record] rec_codec.ok)

lemma reads_recordsArray:
  assumes "list_all wf_Record rs"
  shows "reads (dec_recordsArray (length rs)) (ser_ops (enc_recordsArray rs)) rs"
proof -
  have "reads dec_Record (ser_ops (enc_Record r)) r" if "r \<in> set rs" for r
    using that assms rec_codec.reads by (auto simp: list_all_iff)
  from reads_times [OF this] show ?thesis
    by (simp add: dec_recordsArray_def enc_recordsArray_def ser_simps o_def)
qed

lemma sendable_compress:
  "sendable_batch cs b \<Longrightarrow>
   compress cs (rb_Codec b) (rb_CompressionLevel b) (records_raw b) = Ok (batch_payload cs b)"
  by (auto simp: sendable_batch_def batch_payload_def is_Ok_def split: res.splits)

lemma encodeRecords_ok:
  assumes "sendable_batch cs b"
  shows "encodeRecords cs b =
    (Ok (), b\<lparr>rb_recordsLen := length (records_raw b), rb_compressedRecords := Some (batch_payload cs b)\<rparr>)"
proof -
  have "encode (enc_recordsArray (rb_Records b)) = Ok (records_raw b)"
    using encode_ops_ok [OF recordsArray_ok] assms by (simp add: sendable_batch_def records_raw_def)
  with sendable_compress [OF assms] show ?thesis by (simp add: encodeRecords_def)
qed

lemma attributes_roundtrip:
  assumes "is_codec (rb_Codec b)"
  shows "ucast (computeAttributes b) AND compressionCodecMask = rb_Codec b"
    "computeAttributes b AND controlMask = controlMask \<longleftrightarrow> rb_Control b"
    "computeAttributes b AND timestampTypeMask = timestampTypeMask \<longleftrightarrow> rb_LogAppendTime b"
    "computeAttributes b AND isTransactionalMask = isTransactionalMask \<longleftrightarrow> rb_IsTransactional b"
  using assms by (auto simp: computeAttributes_def is_codec_def)


text \<open>The calls of the first pass, and the batch it leaves; the second pass repeats them.\<close>

lemma enc_RecordBatch_wf:
  assumes "sendable_batch cs b"
  shows "enc_RecordBatch cs b =
     ([putInt64 (rb_FirstOffset b),
       pushPop (lengthField 0 0)
         [putInt32 (rb_PartitionLeaderEpoch b), putInt8 2,
          pushPop (crc32Field 0 crcCastagnoli) (batch_header b @ [putRawBytes (batch_payload cs b)])]],
      b\<lparr>rb_recordsLen := length (records_raw b), rb_compressedRecords := Some (batch_payload cs b)\<rparr>)"
proof -
  have "ops_ok (batch_header b)"
    using assms by (simp add: sendable_batch_def batch_header_def wire_ok)
  then show ?thesis
    using encodeRecords_ok [OF assms] assms [unfolded sendable_batch_def]
    by (simp add: enc_RecordBatch_def batch_records_def)
qed

lemma enc_RecordBatch_ok: "sendable_batch cs b \<Longrightarrow> ops_ok (fst (enc_RecordBatch cs b))"
  by (simp add: enc_RecordBatch_wf sendable_batch_def batch_header_def wire_ok)

lemma length_ser_RecordBatch:
  "sendable_batch cs b \<Longrightarrow> length (ser_ops (fst (enc_RecordBatch cs b))) = 61 + length (batch_payload cs b)"
  by (simp add: enc_RecordBatch_wf batch_header_def ser_simps sendable_batch_def)

lemma batch_header_caches [simp]:
  "batch_header (b\<lparr>rb_recordsLen := n\<rparr>) = batch_header b"
  "batch_header (b\<lparr>rb_compressedRecords := v\<rparr>) = batch_header b"
  by (simp_all add: batch_header_def computeAttributes_def)

lemma encodeRecords_Ok:
  "encodeRecords cs b = (Ok u, b') \<Longrightarrow>
   \<exists>n c. b' = b\<lparr>rb_recordsLen := n, rb_compressedRecords := Some c\<rparr>"
  by (auto simp: encodeRecords_def Let_def split: res.splits)

lemma batch_records_ok:
  assumes "batch_records cs b = (recs, b')" "ops_ok recs"
  shows "\<exists>c n. recs = [putRawBytes c] \<and> b' = b\<lparr>rb_recordsLen := n, rb_compressedRecords := Some c\<rparr>"
proof (cases "rb_compressedRecords b")
  case None
  with assms show ?thesis
    by (cases "encodeRecords cs b"; cases "fst (encodeRecords cs b)")
      (auto simp: batch_records_def dest!: encodeRecords_Ok)
next
  case (Some c)
  with assms have "recs = [putRawBytes c]"
    "b' = b\<lparr>rb_recordsLen := rb_recordsLen b, rb_compressedRecords := Some c\<rparr>"
    by (simp_all add: batch_records_def)
  then show ?thesis by blast
qed

lemma enc_RecordBatch_again:
  assumes "enc_RecordBatch cs b = (ops, b')" "ops_ok ops"
  shows "enc_RecordBatch cs b' = (ops, b')"
proof -
  from assms have v: "rb_Version b = 2" by (auto simp: enc_RecordBatch_def split: if_splits)
  from assms v have h: "ops_ok (batch_header b)"
    by (auto simp: enc_RecordBatch_def split: prod.splits)
  obtain recs b1 where r: "batch_records cs b = (recs, b1)" by fastforce
  with assms v h have "b1 = b'" "ops_ok recs" by (auto simp: enc_RecordBatch_def)
  with r obtain c n where "recs = [putRawBytes c]"
      "b' = b\<lparr>rb_recordsLen := n, rb_compressedRecords := Some c\<rparr>"
    using batch_records_ok by blast
  with assms(1) v h r show ?thesis
    by (auto simp: enc_RecordBatch_def batch_records_def [of _ "b\<lparr>rb_recordsLen := n, rb_compressedRecords := Some c\<rparr>"])
qed

lemma sint_batchLen:
  "length c \<le> 2147483647 - 49 \<Longrightarrow> sint (word_of_nat (49 + length c) :: int32) = 49 + int (length c)"
  by (subst sint_word_of_nat_id) simp_all

lemmas batch_decode_simps = dec_RecordBatch_def batch_header_def ser_simps dec_steps rd_push_crc_at
  rd_pop_at recordBatchOverhead_def or_insufficient_def dlift_def Let_def

lemma reads_RecordBatch:
  assumes wf: "wf_RecordBatch cs b" and cs: "lossless cs"
  shows "reads (dec_RecordBatch cs) (ser_ops (fst (enc_RecordBatch cs b))) (batch_on_wire b)"
proof (rule readsI)
  fix pre post st
  let ?c = "batch_payload cs b"
  from wf have s: "sendable_batch cs b" and n: "length (rb_Records b) \<le> length ?c"
    by (simp_all add: wf_RecordBatch_def)
  note c = sendable_compress [OF s]
  note w = s [unfolded sendable_batch_def]
  have recs: "decode (Some (records_raw b)) [] (dec_recordsArray (length (rb_Records b))) = Ok (rb_Records b)"
    using w reads_decode_buf [OF reads_recordsArray] by (simp add: decode_def records_raw_def)
  show "dec_RecordBatch cs (dec_at pre (ser_ops (fst (enc_RecordBatch cs b)) @ post) st) =
     (Ok (batch_on_wire b), dec_at (pre @ ser_ops (fst (enc_RecordBatch cs b))) post st)"
    using w n recs sint_batchLen [of ?c] batch_on_wire_eq [of b]
      attributes_roundtrip [OF compress_is_codec [OF c]] decompress_compress [OF cs c]
    by (simp add: enc_RecordBatch_wf [OF s] batch_decode_simps del: rd_push.simps)
qed

text \<open>
  The decoder compares the number of records with the number of bytes left. When the records
  compress to fewer bytes than there are records and nothing follows the batch, a complete batch
  is reported as truncated.
\<close>

lemma getArrayLength_short:
  "- (2 ^ 31) \<le> n \<Longrightarrow> n < 2 ^ 31 \<Longrightarrow> n > int (length post) \<Longrightarrow>
   getArrayLength (dec_at pre (ser_array_length n @ post) st) =
     (Err ErrInsufficientData, dec_at (pre @ ser_array_length n @ post) [] st)"
  by (simp add: getArrayLength_def ser_array_length_def Let_def sint_word_of_int_id insufficient_def
      advance_def remaining_def)

lemma batch_count_check:
  assumes s: "sendable_batch cs b" and n: "length (batch_payload cs b) + length post < length (rb_Records b)"
  shows "fst (dec_RecordBatch cs (dec_at pre (ser_ops (fst (enc_RecordBatch cs b)) @ post) st)) =
    Err ErrInsufficientData"
  using n s [unfolded sendable_batch_def]
  by (simp add: enc_RecordBatch_wf [OF s] batch_decode_simps getArrayLength_short del: rd_push.simps)

subsection \<open>Control records\<close>

datatype ControlRecordType = ControlRecordAbort | ControlRecordCommit | ControlRecordUnknown

record ControlRecord =
  cr_Version :: int16
  cr_CoordinatorEpoch :: int32
  cr_Type :: ControlRecordType

text \<open>The two decoders are those of the key and of the value of a record.\<close>

definition dec_ControlRecord :: "realDecoder \<Rightarrow> realDecoder \<Rightarrow> ControlRecord res" where
  "dec_ControlRecord key val =
     res_bind (fst (dbind getInt16 (\<lambda>v. dbind getInt16 (\<lambda>t. dreturn (v, t))) key)) (\<lambda>(keyVersion, recordType).
       let t = (if recordType = 0 then ControlRecordAbort
                else if recordType = 1 then ControlRecordCommit else ControlRecordUnknown)
       in if t \<noteq> ControlRecordUnknown then
            res_bind (fst (dbind getInt16 (\<lambda>v. dbind getInt32 (\<lambda>e. dreturn (v, e))) val)) (\<lambda>(version, epoch).
              Ok \<lparr>cr_Version = version, cr_CoordinatorEpoch = epoch, cr_Type = t\<rparr>)
          else Ok \<lparr>cr_Version = keyVersion, cr_CoordinatorEpoch = 0, cr_Type = t\<rparr>)"

definition enc_ControlRecord :: "ControlRecord \<Rightarrow> pe_op list \<times> pe_op list" where
  "enc_ControlRecord cr =
     (putInt16 (cr_Version cr) #
        (case cr_Type cr of ControlRecordAbort \<Rightarrow> [putInt16 0] | ControlRecordCommit \<Rightarrow> [putInt16 1]
         | ControlRecordUnknown \<Rightarrow> []),
      [putInt16 (cr_Version cr), putInt32 (cr_CoordinatorEpoch cr)])"

lemma control_record_reads:
  assumes "cr_Type cr \<noteq> ControlRecordUnknown" "enc_ControlRecord cr = (kops, vops)"
  shows "dec_ControlRecord (new_decoder (ser_ops kops)) (new_decoder (ser_ops vops)) = Ok cr"
proof -
  have "getInt16 (dec_at pre (be16 v) st) = (Ok v, dec_at (pre @ be16 v) [] st)"
    "getInt32 (dec_at pre (be32 w) st) = (Ok w, dec_at (pre @ be32 w) [] st)" for pre v w st
    using getInt16_at [of pre v "[]" st] getInt32_at [of pre w "[]" st] by simp_all
  with assms show ?thesis
    by (cases cr; cases "cr_Type cr")
      (auto simp: enc_ControlRecord_def dec_ControlRecord_def new_decoder_eq ser_simps dec_steps)
qed

end
