(* ===== verification/Message_Format.thy ===== *)
theory Message_Format
  imports Record_Batch
begin

text \<open>
  The message format of versions 0 and 1: messages (\<open>message.go\<close>) and message sets
  (\<open>message_set.go\<close>).

  \<open>Message.encode\<close> compresses the value in the first pass and keeps the result in the message for
  the second pass, which takes it out again; its model returns the message next to the calls.
  Decoding recurses: a compressed message holds a message set, whose messages may be compressed in
  turn. \<open>dec_MessageSet\<close> takes the nesting depth it may descend as fuel; \<open>Diverge\<close> means that the
  data nests deeper. The loop over one set needs no more rounds than the buffer has bytes, which
  \<open>msgset_loop_enough\<close> shows, so the fuel of the loop never runs out.

  The lemmas: a set read back, also a compressed one inside a message; a set that the broker cut off
  at any byte gives the complete messages and the mark of a partial one.
\<close>

subsection \<open>Data\<close>

datatype Message = Message
    (msg_Codec: CompressionCodec)
    (msg_CompressionLevel: int)
    (msg_LogAppendTime: bool)
    (msg_Key: nbytes)
    (msg_Value: nbytes)
    (msg_Set: "MessageSet option")
    (msg_Version: int8)
    (msg_Timestamp: time)
    (msg_compressedCache: nbytes)
    (msg_compressedSize: nat)
  and MessageBlock = MessageBlock (msb_Offset: int64) (msb_Msg: Message)
  and MessageSet = MessageSet
    (ms_PartialTrailingMessage: bool)
    (ms_OverflowMessage: bool)
    (ms_Messages: "MessageBlock list")

definition msb_Messages :: "MessageBlock \<Rightarrow> MessageBlock list" where
  "msb_Messages msb = (case msg_Set (msb_Msg msb) of Some s \<Rightarrow> ms_Messages s | None \<Rightarrow> [msb])"

definition addMessage :: "Message \<Rightarrow> MessageSet \<Rightarrow> MessageSet" where
  "addMessage msg ms =
     MessageSet (ms_PartialTrailingMessage ms) (ms_OverflowMessage ms)
       (ms_Messages ms @ [MessageBlock 0 msg])"

subsection \<open>Encoding\<close>

abbreviation (input) timestampTypeMask8 :: int8 where "timestampTypeMask8 \<equiv> 0x08"

definition msg_attributes :: "Message \<Rightarrow> int8" where
  "msg_attributes m =
     (msg_Codec m AND compressionCodecMask) OR (if msg_LogAppendTime m then timestampTypeMask8 else 0)"

definition message_header :: "Message \<Rightarrow> pe_op list" where
  "message_header m =
     [putInt8 (msg_Version m), putInt8 (msg_attributes m)] @
     (if sint (msg_Version m) \<ge> 1 then enc_Timestamp (msg_Timestamp m) else []) @
     [putBytes (msg_Key m)]"

fun with_cache :: "Message \<Rightarrow> nbytes \<Rightarrow> nat \<Rightarrow> Message" where
  "with_cache (Message c l lat k v s ver ts _ _) cache csize = Message c l lat k v s ver ts cache csize"

definition message_payload :: "codecs \<Rightarrow> Message \<Rightarrow> pe_op list \<times> Message" where
  "message_payload cs m =
     (case msg_compressedCache m of
        Some p \<Rightarrow> ([putBytes (Some p)], with_cache m None (msg_compressedSize m))
      | None \<Rightarrow>
          (case msg_Value m of
             None \<Rightarrow> ([putBytes None], m)
           | Some v \<Rightarrow>
               (case compress cs (msg_Codec m) (msg_CompressionLevel m) v of
                  Ok p \<Rightarrow> ([putBytes (Some p)], with_cache m (Some p) (length p))
                | Err e \<Rightarrow> ([fail e], m)
                | _ \<Rightarrow> ([fail (OtherError ''panic'')], m))))"

definition enc_Message :: "codecs \<Rightarrow> Message \<Rightarrow> pe_op list \<times> Message" where
  "enc_Message cs m =
     (case (if ops_ok (message_header m) then message_payload cs m else ([], m)) of (payload, m') \<Rightarrow>
        ([pushPop (crc32Field 0 crcIEEE) (message_header m @ payload)], m'))"

definition enc_MessageBlock :: "codecs \<Rightarrow> MessageBlock \<Rightarrow> pe_op list \<times> MessageBlock" where
  "enc_MessageBlock cs msb =
     (case enc_Message cs (msb_Msg msb) of (ops, m') \<Rightarrow>
        ([putInt64 (msb_Offset msb), pushPop (lengthField 0 0) ops], MessageBlock (msb_Offset msb) m'))"

text \<open>The loop of \<open>MessageSet.encode\<close> stops at the first block that fails.\<close>

fun enc_MessageBlocks :: "codecs \<Rightarrow> MessageBlock list \<Rightarrow> pe_op list \<times> MessageBlock list" where
  "enc_MessageBlocks cs [] = ([], [])"
| "enc_MessageBlocks cs (msb # msbs) =
     (case enc_MessageBlock cs msb of (ops, msb') \<Rightarrow>
        if ops_ok ops
        then (case enc_MessageBlocks cs msbs of (ops', msbs') \<Rightarrow> (ops @ ops', msb' # msbs'))
        else (ops, msb' # msbs))"

definition enc_MessageSet :: "codecs \<Rightarrow> MessageSet \<Rightarrow> pe_op list \<times> MessageSet" where
  "enc_MessageSet cs ms =
     (case enc_MessageBlocks cs (ms_Messages ms) of (ops, msbs) \<Rightarrow>
        (ops, MessageSet (ms_PartialTrailingMessage ms) (ms_OverflowMessage ms) msbs))"

subsection \<open>Decoding\<close>

abbreviation (input) magicOffset :: nat where "magicOffset \<equiv> 16"

definition magicValue :: "int8 dec" where
  "magicValue = peekInt8 magicOffset"

definition dec_Message_body :: "codecs \<Rightarrow> MessageSet dec \<Rightarrow> Message dec" where
  "dec_Message_body cs decodeSet =
     dbind getInt8 (\<lambda>version.
     if sint version > 1 then derror (PacketDecodingError ''unknown magic byte'') else
     dbind getInt8 (\<lambda>attribute.
     dbind (if version = 1 then dec_Timestamp else dreturn zeroTime) (\<lambda>timestamp.
     dbind getBytes (\<lambda>key.
     dbind getBytes (\<lambda>val.
       let codec = attribute AND compressionCodecMask;
           logAppend = (attribute AND timestampTypeMask8 = timestampTypeMask8);
           m = (\<lambda>v s. Message codec 0 logAppend key v s version timestamp None (nlen val))
       in case val of
            Some v \<Rightarrow>
              if codec \<noteq> CompressionNone then
                dbind (dlift (decompress cs codec v)) (\<lambda>raw.
                dbind (dlift (fst (decodeSet (new_decoder raw)))) (\<lambda>s.
                  dreturn (m (Some raw) (Some s))))
              else dreturn (m val None)
          | None \<Rightarrow> dreturn (m None None))))))"

definition dec_Message_with :: "codecs \<Rightarrow> MessageSet dec \<Rightarrow> Message dec" where
  "dec_Message_with cs decodeSet = dec_bracket (crc32Field 0 crcIEEE) (dec_Message_body cs decodeSet)"

text \<open>
  \<open>MessageBlock.decode\<close>, with the offset the block holds when the method returns, which the caller
  reads also after an error.
\<close>

definition dec_MessageBlock_with ::
    "codecs \<Rightarrow> MessageSet dec \<Rightarrow> realDecoder \<Rightarrow> int64 \<times> MessageBlock res \<times> realDecoder" where
  "dec_MessageBlock_with cs decodeSet rd =
     (case getInt64 rd of
        (Ok off, rd) \<Rightarrow>
          (off, dbind (dec_bracket (lengthField 0 0) (dec_Message_with cs decodeSet))
                  (\<lambda>m. dreturn (MessageBlock off m)) rd)
      | (Err e, rd) \<Rightarrow> (0, Err e, rd)
      | (Panic, rd) \<Rightarrow> (0, Panic, rd)
      | (Diverge, rd) \<Rightarrow> (0, Diverge, rd))"

fun ms_partial :: "MessageSet \<Rightarrow> MessageSet" where
  "ms_partial (MessageSet p o' msbs) = MessageSet True o' msbs"

fun ms_overflow :: "MessageSet \<Rightarrow> MessageSet" where
  "ms_overflow (MessageSet p o' msbs) = MessageSet p True msbs"

fun ms_append :: "MessageSet \<Rightarrow> MessageBlock \<Rightarrow> MessageSet" where
  "ms_append (MessageSet p o' msbs) msb = MessageSet p o' (msbs @ [msb])"

fun msgset_loop ::
    "nat \<Rightarrow> (realDecoder \<Rightarrow> int64 \<times> MessageBlock res \<times> realDecoder) \<Rightarrow> MessageSet \<Rightarrow> MessageSet dec" where
  "msgset_loop 0 blk ms rd = (Diverge, rd)"
| "msgset_loop (Suc k) blk ms rd =
     (if remaining rd > 0 then
        (case magicValue rd of
           (Err e, rd) \<Rightarrow>
             if errors_Is e ErrInsufficientData then (Ok (ms_partial ms), rd) else (Err e, rd)
         | (Ok magic, rd) \<Rightarrow>
             if sint magic > 1 then (Ok ms, rd)
             else
               (case blk rd of
                  (off, Ok msb, rd) \<Rightarrow> msgset_loop k blk (ms_append ms msb) rd
                | (off, Err e, rd) \<Rightarrow>
                    if errors_Is e ErrInsufficientData
                    then (Ok (if off = - 1 then ms_overflow ms else ms_partial ms), rd)
                    else (Err e, rd)
                | (off, Panic, rd) \<Rightarrow> (Panic, rd)
                | (off, Diverge, rd) \<Rightarrow> (Diverge, rd))
         | (Panic, rd) \<Rightarrow> (Panic, rd)
         | (Diverge, rd) \<Rightarrow> (Diverge, rd))
      else (Ok ms, rd))"

primrec dec_MessageSet :: "nat \<Rightarrow> codecs \<Rightarrow> MessageSet dec" where
  "dec_MessageSet 0 cs = (\<lambda>rd. (Diverge, rd))"
| "dec_MessageSet (Suc depth) cs =
     (\<lambda>rd. msgset_loop (Suc (length (rd_raw rd))) (dec_MessageBlock_with cs (dec_MessageSet depth cs))
        (MessageSet False False []) rd)"

definition dec_Message :: "nat \<Rightarrow> codecs \<Rightarrow> Message dec" where
  "dec_Message depth cs = dec_Message_with cs (dec_MessageSet depth cs)"

definition dec_MessageBlock :: "nat \<Rightarrow> codecs \<Rightarrow> MessageBlock dec" where
  "dec_MessageBlock depth cs rd = snd (dec_MessageBlock_with cs (dec_MessageSet depth cs) rd)"

subsection \<open>Messages\<close>

text \<open>The message as the receiver sees it, given the set it finds in the value.\<close>

fun message_on_wire :: "Message \<Rightarrow> nat \<Rightarrow> MessageSet option \<Rightarrow> Message" where
  "message_on_wire (Message c l lat k v _ ver ts _ _) csize s =
     Message c 0 lat k v s ver (if ver = 1 then ts else zeroTime) None csize"

definition wf_Message :: "codecs \<Rightarrow> Message \<Rightarrow> bool" where
  "wf_Message cs m \<longleftrightarrow> (msg_Version m = 0 \<or> msg_Version m = 1) \<and> is_codec (msg_Codec m) \<and>
     (msg_Version m = 1 \<longrightarrow> wf_time (msg_Timestamp m)) \<and> wf_nbytes (msg_Key m) \<and>
     msg_compressedCache m = None \<and>
     (case msg_Value m of None \<Rightarrow> True
      | Some v \<Rightarrow> (case compress cs (msg_Codec m) (msg_CompressionLevel m) v of
                    Ok p \<Rightarrow> length p \<le> 2147483647 | _ \<Rightarrow> False))"

definition payload_of :: "codecs \<Rightarrow> Message \<Rightarrow> nbytes" where
  "payload_of cs m =
     (case msg_Value m of None \<Rightarrow> None
      | Some v \<Rightarrow> (case compress cs (msg_Codec m) (msg_CompressionLevel m) v of Ok p \<Rightarrow> Some p | _ \<Rightarrow> None))"

lemma message_header_ok: "wf_Message cs m \<Longrightarrow> ops_ok (message_header m)"
  by (auto simp: wf_Message_def message_header_def wire_ok simp del: op_ok.simps(2))

lemma with_cache_sel [simp]:
  "msg_compressedCache (with_cache m p n) = p" "msg_compressedSize (with_cache m p n) = n"
  "with_cache (with_cache m p n) p' n' = with_cache m p' n'"
  "message_header (with_cache m p n) = message_header m"
  "msg_Value (with_cache m p n) = msg_Value m"
  by (cases m; simp add: message_header_def msg_attributes_def)+

lemma enc_Message_wf:
  assumes "wf_Message cs m"
  shows "enc_Message cs m =
    ([pushPop (crc32Field 0 crcIEEE) (message_header m @ [putBytes (payload_of cs m)])],
     if msg_Value m = None then m else with_cache m (payload_of cs m) (nlen (payload_of cs m)))"
  using message_header_ok [OF assms] assms
  by (auto simp: wf_Message_def enc_Message_def message_payload_def payload_of_def nlen_def
      split: option.splits res.splits)

text \<open>
  The second pass makes the calls of the first and leaves no compressed data behind: the message
  can be sent again.
\<close>

lemma enc_Message_twice:
  assumes "wf_Message cs m" "enc_Message cs m = (ops, m1)"
  shows "fst (enc_Message cs m1) = ops"
    and "snd (enc_Message cs m1) = m \<or> snd (enc_Message cs m1) = with_cache m None (nlen (payload_of cs m))"
  using message_header_ok [OF assms(1)] assms(2) unfolding enc_Message_wf [OF assms(1)]
  using enc_Message_wf [OF assms(1)] assms(1)
  by (auto simp: enc_Message_def message_payload_def wf_Message_def payload_of_def nlen_def
      split: option.splits res.splits if_splits)

text \<open>
  What the receiver finds in the value: nothing to descend into, or the set that the decompressed
  bytes decode to.
\<close>

definition inner_set :: "MessageSet dec \<Rightarrow> Message \<Rightarrow> MessageSet option \<Rightarrow> bool" where
  "inner_set decodeSet m s \<longleftrightarrow>
     (case msg_Value m of
        None \<Rightarrow> s = None
      | Some v \<Rightarrow>
          if msg_Codec m = CompressionNone then s = None
          else (\<exists>ms. s = Some ms \<and> fst (decodeSet (new_decoder v)) = Ok ms))"

lemma msg_attributes_roundtrip:
  assumes "is_codec (msg_Codec m)"
  shows "msg_attributes m AND compressionCodecMask = msg_Codec m"
    "msg_attributes m AND timestampTypeMask8 = timestampTypeMask8 \<longleftrightarrow> msg_LogAppendTime m"
  using assms by (auto simp: msg_attributes_def is_codec_def)

definition message_result ::
    "codecs \<Rightarrow> MessageSet dec \<Rightarrow> int8 \<Rightarrow> int8 \<Rightarrow> time \<Rightarrow> nbytes \<Rightarrow> nbytes \<Rightarrow> Message res" where
  "message_result cs decodeSet ver a ts key val =
     (let codec = a AND compressionCodecMask;
          m = (\<lambda>v s. Message codec 0 (a AND timestampTypeMask8 = timestampTypeMask8) key v s ver
                 (if ver = 1 then ts else zeroTime) None (nlen val))
      in case val of
           None \<Rightarrow> Ok (m None None)
         | Some v \<Rightarrow>
             if codec = CompressionNone then Ok (m val None)
             else res_bind (decompress cs codec v) (\<lambda>raw.
                  res_bind (fst (decodeSet (new_decoder raw))) (\<lambda>s. Ok (m (Some raw) (Some s)))))"

lemma dec_Message_body_at:
  assumes "ver = 0 \<or> ver = 1 \<and> wf_time ts" "wf_nbytes key" "wf_nbytes val"
  shows "dec_Message_body cs decodeSet
      (dec_at pre (ver # a # (if ver = 1 then ser_ops (enc_Timestamp ts) else []) @
         ser_bytes key @ ser_bytes val @ post) st) =
    (message_result cs decodeSet ver a ts key val,
     dec_at (pre @ ver # a # (if ver = 1 then ser_ops (enc_Timestamp ts) else []) @
       ser_bytes key @ ser_bytes val) post st)"
proof -
  have b: "dbind (dlift r) f rd = (res_bind r (\<lambda>x. fst (f x rd)), rd)"
    if "\<And>x. snd (f x rd) = rd" for r :: "'b res" and f :: "'b \<Rightarrow> 'c dec" and rd
    using that by (cases r) (auto simp: dbind_def dlift_def prod_eq_iff)
  from assms show ?thesis
    by (cases val; elim disjE)
      (simp_all add: dec_Message_body_def message_result_def wf_nbytes_def dec_steps Let_def
        b [unfolded dec_steps])
qed

lemma compress_None: "compress cs CompressionNone l d = Ok d"
  by (simp add: compress_def)

lemma reads_Message_body:
  assumes wf: "wf_Message cs m" and cs: "lossless cs" and inner: "inner_set decodeSet m s"
  shows "reads (dec_Message_body cs decodeSet) (ser_ops (message_header m @ [putBytes (payload_of cs m)]))
    (message_on_wire m (nlen (payload_of cs m)) s)"
proof (rule readsI)
  fix pre post st
  let ?a = "msg_attributes m" and ?p = "payload_of cs m" and ?v = "msg_Version m"
  have ver: "?v = 0 \<or> ?v = 1 \<and> wf_time (msg_Timestamp m)" using wf by (auto simp: wf_Message_def)
  have key: "wf_nbytes (msg_Key m)" "wf_nbytes ?p"
    using wf by (auto simp: wf_Message_def wf_nbytes_def payload_of_def split: option.splits res.splits)
  have ser: "ser_ops (message_header m @ [putBytes ?p]) =
      ?v # ?a # (if ?v = 1 then ser_ops (enc_Timestamp (msg_Timestamp m)) else []) @
      ser_bytes (msg_Key m) @ ser_bytes ?p"
    using ver by (auto simp: message_header_def ser_simps)
  have codec: "is_codec (msg_Codec m)" using wf by (simp add: wf_Message_def)
  have "message_result cs decodeSet ?v ?a (msg_Timestamp m) (msg_Key m) ?p =
      Ok (message_on_wire m (nlen ?p) s)"
    using msg_attributes_roundtrip [OF codec] wf inner decompress_compress [OF cs]
    by (cases m) (auto simp: compress_None message_result_def wf_Message_def inner_set_def payload_of_def nlen_def
        split: option.splits res.splits if_splits)
  then show "dec_Message_body cs decodeSet (dec_at pre (ser_ops (message_header m @ [putBytes ?p]) @ post) st) =
      (Ok (message_on_wire m (nlen ?p) s),
       dec_at (pre @ ser_ops (message_header m @ [putBytes ?p])) post st)"
    using dec_Message_body_at [OF ver key, of cs decodeSet pre ?a post st] unfolding ser by simp
qed

lemma reads_Message:
  assumes "wf_Message cs m" "lossless cs" "inner_set decodeSet m s"
  shows "reads (dec_Message_with cs decodeSet) (ser_ops (fst (enc_Message cs m)))
    (message_on_wire m (nlen (payload_of cs m)) s)"
  using dec_bracket_crc_at [OF reads_Message_body [OF assms]]
  by (intro readsI)
    (simp add: dec_Message_with_def enc_Message_wf [OF assms(1)] ser_simps del: ser_field.simps)

subsection \<open>The loop over a set\<close>

text \<open>Every round of the loop that goes on consumes bytes, so the fuel of the loop suffices.\<close>

lemma dec_safe_lift [safe_intros]: "dec_safe (dlift r)"
  by (simp add: dec_safe_def dlift_def)

lemma dec_safe_case_option [safe_intros]:
  "dec_safe a \<Longrightarrow> (\<And>x. dec_safe (b x)) \<Longrightarrow> dec_safe (case v of None \<Rightarrow> a | Some x \<Rightarrow> b x)"
  by (cases v) simp_all

lemma dec_safe_Message [safe_intros]: "dec_safe (dec_Message_with cs decodeSet)"
  unfolding dec_Message_with_def dec_Message_body_def Let_def dec_Timestamp_def by (intro safe_intros)

lemma block_progress:
  assumes "in_buffer rd" "dec_MessageBlock_with cs decodeSet rd = (off, r, rd')"
  shows "in_buffer rd' \<and> rd_raw rd' = rd_raw rd \<and> rd_off rd \<le> rd_off rd' \<and>
    (is_Ok r \<longrightarrow> rd_off rd < rd_off rd')"
proof -
  have safe: "dec_safe (dbind (dec_bracket (lengthField 0 0) (dec_Message_with cs decodeSet))
      (\<lambda>m. dreturn (MessageBlock o' m)))" for o'
    by (intro safe_intros)
  obtain q rd1 where q: "getInt64 rd = (q, rd1)" by fastforce
  have 1: "in_buffer rd1 \<and> rd_raw rd1 = rd_raw rd \<and> rd_off rd \<le> rd_off rd1"
    using dec_safeD [OF dec_safe_ints(4) assms(1) q] .
  show ?thesis
  proof (cases q)
    case (Ok o')
    with q have "rd_off rd < rd_off rd1"
      by (auto simp: getInt64_def insufficient_def advance_def split: if_splits)
    moreover from Ok assms(2) q have d: "dbind (dec_bracket (lengthField 0 0) (dec_Message_with cs decodeSet))
      (\<lambda>m. dreturn (MessageBlock o' m)) rd1 = (r, rd')"
      by (auto simp: dec_MessageBlock_with_def)
    ultimately show ?thesis using dec_safeD [OF safe _ d] 1 by auto
  qed (use assms(2) q 1 in \<open>auto simp: dec_MessageBlock_with_def\<close>)
qed

lemma msgset_loop_enough:
  assumes "in_buffer rd" "remaining rd < int k"
    and "\<And>rd off rd'. blk rd = (off, Diverge, rd') \<Longrightarrow> False"
    and "\<And>rd off r rd'. in_buffer rd \<Longrightarrow> blk rd = (off, r, rd') \<Longrightarrow>
      in_buffer rd' \<and> rd_raw rd' = rd_raw rd \<and> (is_Ok r \<longrightarrow> rd_off rd < rd_off rd')"
  shows "fst (msgset_loop k blk ms rd) \<noteq> Diverge"
  using assms(1,2)
proof (induction k arbitrary: ms rd)
  case 0
  then show ?case by (simp add: in_buffer_def remaining_def)
next
  case (Suc k)
  have IH: "fst (msgset_loop k blk ms' rd') \<noteq> Diverge"
    if "blk rd = (off, Ok msb, rd')" for ms' off msb rd'
    using assms(4) [OF Suc.prems(1) that] Suc.prems by (intro Suc.IH) (simp_all add: remaining_def)
  have mv: "magicValue rd = (q, rd') \<Longrightarrow> rd' = rd \<and> q \<noteq> Diverge" for q rd'
    by (auto simp: magicValue_def peekInt8_def split: if_splits)
  show ?case
    using IH assms(3) [of rd] by (auto split: prod.splits res.splits dest!: mv)
qed

subsection \<open>Reading a set, whole or cut off\<close>

definition block_bytes :: "int64 \<Rightarrow> byte list \<Rightarrow> byte list" where
  "block_bytes off mb = be64 off @ be32 (word_of_nat (length mb)) @ mb"

text \<open>The bytes of a message that \<open>blk\<close> can read, below the magic that ends the set.\<close>

definition message_bytes :: "codecs \<Rightarrow> MessageSet dec \<Rightarrow> byte list \<Rightarrow> Message \<Rightarrow> bool" where
  "message_bytes cs decodeSet mb m \<longleftrightarrow>
     reads (dec_Message_with cs decodeSet) mb m \<and> 5 \<le> length mb \<and> sint (mb ! 4) \<le> 1"

lemma length_block_bytes [simp]: "length (block_bytes off mb) = 12 + length mb"
  by (simp add: block_bytes_def)

lemma magicValue_at: "16 < length post \<Longrightarrow> magicValue (dec_at pre post st) = (Ok (post ! 16), dec_at pre post st)"
  by (simp add: magicValue_def peekInt8_at)

lemma magic_of_block: "5 \<le> length mb \<Longrightarrow> (block_bytes off mb @ post) ! 16 = mb ! 4"
  by (simp add: block_bytes_def nth_append)

lemma loop_step:
  assumes mb: "message_bytes cs decodeSet mb m" and len: "length mb + length post \<le> 2147483647"
  shows "msgset_loop (Suc k) (dec_MessageBlock_with cs decodeSet) ms
      (dec_at pre (block_bytes off mb @ post) st) =
    msgset_loop k (dec_MessageBlock_with cs decodeSet) (ms_append ms (MessageBlock off m))
      (dec_at (pre @ block_bytes off mb) post st)"
proof -
  from mb have r: "reads (dec_Message_with cs decodeSet) mb m" and l: "5 \<le> length mb" "sint (mb ! 4) \<le> 1"
    by (simp_all add: message_bytes_def)
  have "dec_MessageBlock_with cs decodeSet (dec_at pre (block_bytes off mb @ post) st) =
      (off, Ok (MessageBlock off m), dec_at (pre @ block_bytes off mb) post st)"
    using dec_bracket_length_at [OF r len, of 0 0 "pre @ be64 off" 0 0 st]
    by (simp add: dec_MessageBlock_with_def block_bytes_def dec_steps)
  then show ?thesis using l by (simp add: magicValue_at magic_of_block)
qed

lemma loop_short:
  assumes "0 < j" "j < length (block_bytes off mb)" "off \<noteq> - 1" "length mb \<le> 2147483647"
    and "5 \<le> length mb" "sint (mb ! 4) \<le> 1"
  shows "fst (msgset_loop (Suc k) (dec_MessageBlock_with cs decodeSet) ms
      (dec_at pre (take j (block_bytes off mb)) st)) = Ok (ms_partial ms)"
proof (cases "j \<le> 16")
  case True
  with assms show ?thesis by (simp add: magicValue_def peekInt8_def)
next
  case False
  with assms(2) have t: "take j (block_bytes off mb) =
      be64 off @ be32 (word_of_nat (length mb)) @ take (j - 12) mb"
    by (simp add: block_bytes_def)
  have m: "take j (block_bytes off mb) ! 16 = mb ! 4"
    using False assms(5) magic_of_block [of mb off "[]"] by simp
  have "sint (word_of_int (int (j - 12)) :: int32) = int (j - 12)"
    using assms(2,4) by (intro sint_word_of_int_id) simp_all
  then have "fst (snd (dec_MessageBlock_with cs decodeSet (dec_at pre (take j (block_bytes off mb)) st))) =
      Err ErrInsufficientData \<and>
      fst (dec_MessageBlock_with cs decodeSet (dec_at pre (take j (block_bytes off mb)) st)) = off"
    using False assms(2,4) sint_len32 [of mb]
    by (simp add: t dec_MessageBlock_with_def dec_steps dec_bracket_def lengthField_decode_def)
  with False assms(1-3,6) m show ?thesis
    by (auto simp: magicValue_at split: prod.splits)
qed

type_synonym wire_block = "int64 \<times> byte list \<times> Message"

fun wb_bytes :: "wire_block \<Rightarrow> byte list" where
  "wb_bytes (off, mb, m) = block_bytes off mb"

fun wb_block :: "wire_block \<Rightarrow> MessageBlock" where
  "wb_block (off, mb, m) = MessageBlock off m"

fun wb_ok :: "codecs \<Rightarrow> MessageSet dec \<Rightarrow> wire_block \<Rightarrow> bool" where
  "wb_ok cs decodeSet (off, mb, m) \<longleftrightarrow> message_bytes cs decodeSet mb m \<and> off \<noteq> - 1"

text \<open>The blocks that lie wholly within the first \<open>j\<close> bytes.\<close>

fun whole_blocks :: "nat \<Rightarrow> wire_block list \<Rightarrow> wire_block list" where
  "whole_blocks j [] = []"
| "whole_blocks j (b # bs) =
     (if length (wb_bytes b) \<le> j then b # whole_blocks (j - length (wb_bytes b)) bs else [])"

lemma loop_cut:
  assumes "list_all (wb_ok cs decodeSet) bs" "length (concat (map wb_bytes bs)) \<le> 2147483647"
    and "length (whole_blocks j bs) < k"
  shows "fst (msgset_loop k (dec_MessageBlock_with cs decodeSet) (MessageSet False False acc)
      (dec_at pre (take j (concat (map wb_bytes bs))) st)) =
    Ok (MessageSet (take j (concat (map wb_bytes bs)) \<noteq> concat (map wb_bytes (whole_blocks j bs))) False
      (acc @ map wb_block (whole_blocks j bs)))"
  using assms
proof (induction bs arbitrary: j k acc pre)
  case Nil
  then obtain k' where "k = Suc k'" by (cases k) auto
  then show ?case by simp
next
  case (Cons b bs)
  obtain off mb m where b: "b = (off, mb, m)" by (metis prod_cases3)
  obtain k' where k: "k = Suc k'" using Cons.prems(3) by (cases k) auto
  let ?rest = "concat (map wb_bytes bs)"
  from Cons.prems b have mb: "message_bytes cs decodeSet mb m" "off \<noteq> - 1" "length mb \<le> 2147483647"
    by (simp_all add:)
  show ?case
  proof (cases "12 + length mb \<le> j")
    case True
    then have t: "take j (concat (map wb_bytes (b # bs))) = block_bytes off mb @ take (j - (12 + length mb)) ?rest"
      by (simp add: b)
    have "fst (msgset_loop k' (dec_MessageBlock_with cs decodeSet) (MessageSet False False (acc @ [MessageBlock off m]))
        (dec_at (pre @ block_bytes off mb) (take (j - (12 + length mb)) ?rest) st)) =
      Ok (MessageSet (take (j - (12 + length mb)) ?rest \<noteq> concat (map wb_bytes (whole_blocks (j - (12 + length mb)) bs)))
        False ((acc @ [MessageBlock off m]) @ map wb_block (whole_blocks (j - (12 + length mb)) bs)))"
      using Cons.prems k True by (intro Cons.IH) (simp_all add: b)
    moreover have "length mb + length (take (j - (12 + length mb)) ?rest) \<le> 2147483647"
      using Cons.prems(2) by (simp add: b)
    ultimately show ?thesis
      using True loop_step [OF mb(1)] unfolding t k by (simp add: b)
  next
    case False
    then have t: "take j (concat (map wb_bytes (b # bs))) = take j (block_bytes off mb)"
      by (simp add: b)
    show ?thesis
    proof (cases "j = 0")
      case True
      with False show ?thesis by (simp add: b k)
    next
      case j: False
      then have "fst (msgset_loop (Suc k') (dec_MessageBlock_with cs decodeSet) (MessageSet False False acc)
          (dec_at pre (take j (block_bytes off mb)) st)) = Ok (ms_partial (MessageSet False False acc))"
        using False mb by (intro loop_short) (simp_all add: message_bytes_def)
      moreover have "block_bytes off mb \<noteq> []" using length_block_bytes [of off mb] by force
      ultimately show ?thesis using False j unfolding t k by (simp add: b del: msgset_loop.simps)
    qed
  qed
qed

lemma whole_blocks_count: "length (whole_blocks j bs) \<le> length (take j (concat (map wb_bytes bs)))"
proof (induction j bs rule: whole_blocks.induct)
  case (2 j b bs)
  have "0 < length (wb_bytes b)" by (cases b) simp
  with 2 show ?case
    by (cases "length (wb_bytes b) \<le> j") (auto simp: min_def simp del: length_greater_0_conv)
qed simp

lemma dec_MessageSet_cut:
  assumes "list_all (wb_ok cs (dec_MessageSet depth cs)) bs"
    and "length (concat (map wb_bytes bs)) \<le> 2147483647"
  shows "fst (dec_MessageSet (Suc depth) cs (new_decoder (take j (concat (map wb_bytes bs))))) =
    Ok (MessageSet (take j (concat (map wb_bytes bs)) \<noteq> concat (map wb_bytes (whole_blocks j bs))) False
      (map wb_block (whole_blocks j bs)))"
proof -
  have "length (whole_blocks j bs) < Suc (length (take j (concat (map wb_bytes bs))))"
    using whole_blocks_count [of j bs] by (rule le_imp_less_Suc)
  from loop_cut [OF assms this, of "[]" "[]" "[]"] show ?thesis
    by (simp add: new_decoder_eq del: msgset_loop.simps)
qed

lemma whole_blocks_all: "length (concat (map wb_bytes bs)) \<le> j \<Longrightarrow> whole_blocks j bs = bs"
  by (induction bs arbitrary: j) auto

subsection \<open>Sets of messages\<close>

text \<open>The wire form of the messages of a set, and the set as the receiver sees it.\<close>

definition wire_blocks :: "codecs \<Rightarrow> (MessageBlock \<times> MessageSet option) list \<Rightarrow> wire_block list" where
  "wire_blocks cs msbs = map (\<lambda>(msb, s).
     (msb_Offset msb, ser_ops (fst (enc_Message cs (msb_Msg msb))),
      message_on_wire (msb_Msg msb) (nlen (payload_of cs (msb_Msg msb))) s)) msbs"

definition wf_block :: "codecs \<Rightarrow> MessageSet dec \<Rightarrow> MessageBlock \<times> MessageSet option \<Rightarrow> bool" where
  "wf_block cs decodeSet = (\<lambda>(msb, s). wf_Message cs (msb_Msg msb) \<and> msb_Offset msb \<noteq> - 1 \<and>
     inner_set decodeSet (msb_Msg msb) s)"

lemma message_bytes_wf:
  assumes "wf_Message cs m" "lossless cs" "inner_set decodeSet m s"
  shows "message_bytes cs decodeSet (ser_ops (fst (enc_Message cs m)))
    (message_on_wire m (nlen (payload_of cs m)) s)"
  using reads_Message [OF assms] assms(1)
  by (auto simp: message_bytes_def enc_Message_wf ser_simps message_header_def wf_Message_def nth_append)

lemma wire_blocks_ok:
  "list_all (wf_block cs decodeSet) msbs \<Longrightarrow> lossless cs \<Longrightarrow> list_all (wb_ok cs decodeSet) (wire_blocks cs msbs)"
  by (auto simp: list_all_iff wire_blocks_def wf_block_def message_bytes_wf)

lemma enc_Message_ops_ok: "wf_Message cs m \<Longrightarrow> ops_ok (fst (enc_Message cs m))"
  using message_header_ok [of cs m]
  by (auto simp: enc_Message_wf wf_Message_def payload_of_def split: option.splits res.splits)

lemma enc_MessageBlocks_bytes:
  "list_all (wf_block cs decodeSet) msbs \<Longrightarrow>
   ops_ok (fst (enc_MessageBlocks cs (map fst msbs))) \<and>
   ser_ops (fst (enc_MessageBlocks cs (map fst msbs))) = concat (map wb_bytes (wire_blocks cs msbs))"
proof (induction msbs)
  case (Cons x msbs)
  obtain msb s where x: "x = (msb, s)" by fastforce
  with Cons.prems have "wf_Message cs (msb_Msg msb)" by (simp add: wf_block_def)
  from enc_Message_ops_ok [OF this] Cons x show ?case
    by (auto simp: enc_MessageBlock_def wire_blocks_def block_bytes_def ser_simps split: prod.splits)
qed (simp add: wire_blocks_def ser_simps)

end
