(* ===== verification/Records_Union.thy ===== *)
theory Records_Union
  imports Message_Format
begin

text \<open>
  \<open>records.go\<close>: the union of a legacy message set and a record batch that produce requests and
  fetch responses carry. When the type is not known it is taken from the fields (encoding) or from
  the magic byte (decoding), which stands at the same offset in both formats.
\<close>

definition unknownRecords :: int where "unknownRecords = 0"
definition legacyRecords :: int where "legacyRecords = 1"
definition defaultRecords :: int where "defaultRecords = 2"

lemmas recordsType_defs = unknownRecords_def legacyRecords_def defaultRecords_def

record Records =
  recordsType :: int
  rs_MsgSet :: "MessageSet option"
  rs_RecordBatch :: "RecordBatch option"

definition newLegacyRecords :: "MessageSet \<Rightarrow> Records" where
  "newLegacyRecords msgSet =
     \<lparr>recordsType = legacyRecords, rs_MsgSet = Some msgSet, rs_RecordBatch = None\<rparr>"

definition newDefaultRecords :: "RecordBatch \<Rightarrow> Records" where
  "newDefaultRecords batch =
     \<lparr>recordsType = defaultRecords, rs_MsgSet = None, rs_RecordBatch = Some batch\<rparr>"

definition zeroRecords :: Records where
  "zeroRecords = \<lparr>recordsType = unknownRecords, rs_MsgSet = None, rs_RecordBatch = None\<rparr>"

text \<open>The flag says that both fields are nil; the records are returned with their type.\<close>

definition setTypeFromFields :: "Records \<Rightarrow> bool res \<times> Records" where
  "setTypeFromFields r =
     (case (rs_MsgSet r, rs_RecordBatch r) of
        (None, None) \<Rightarrow> (Ok True, r)
      | (Some _, Some _) \<Rightarrow>
          (Err (OtherError ''both MsgSet and RecordBatch are set, but record type is unknown''), r)
      | (None, Some _) \<Rightarrow> (Ok False, r\<lparr>recordsType := defaultRecords\<rparr>)
      | (Some _, None) \<Rightarrow> (Ok False, r\<lparr>recordsType := legacyRecords\<rparr>))"

definition unknown_type_error :: go_error where
  "unknown_type_error = OtherError ''unknown records type''"

text \<open>
  The prologue that the methods share: on an unknown type take it from the fields; \<open>dflt\<close> is
  returned when there is nothing to look at.
\<close>

definition with_type :: "'a \<Rightarrow> (Records \<Rightarrow> 'a res \<times> Records) \<Rightarrow> Records \<Rightarrow> 'a res \<times> Records" where
  "with_type dflt f r =
     (if recordsType r = unknownRecords then
        (case setTypeFromFields r of
           (Ok noFields, r) \<Rightarrow> if noFields then (Ok dflt, r) else f r
         | (Err e, r) \<Rightarrow> (Err e, r)
         | (Panic, r) \<Rightarrow> (Panic, r)
         | (Diverge, r) \<Rightarrow> (Diverge, r))
      else f r)"

definition enc_Records_typed :: "codecs \<Rightarrow> Records \<Rightarrow> pe_op list \<times> Records" where
  "enc_Records_typed cs r =
     (if recordsType r = legacyRecords then
        (case rs_MsgSet r of
           None \<Rightarrow> ([], r)
         | Some ms \<Rightarrow> (case enc_MessageSet cs ms of (ops, ms) \<Rightarrow> (ops, r\<lparr>rs_MsgSet := Some ms\<rparr>)))
      else if recordsType r = defaultRecords then
        (case rs_RecordBatch r of
           None \<Rightarrow> ([], r)
         | Some b \<Rightarrow> (case enc_RecordBatch cs b of (ops, b) \<Rightarrow> (ops, r\<lparr>rs_RecordBatch := Some b\<rparr>)))
      else ([fail unknown_type_error], r))"

definition enc_Records :: "codecs \<Rightarrow> Records \<Rightarrow> pe_op list \<times> Records" where
  "enc_Records cs r =
     (if recordsType r = unknownRecords then
        (case setTypeFromFields r of
           (Ok noFields, r) \<Rightarrow> if noFields then ([], r) else enc_Records_typed cs r
         | (Err e, r) \<Rightarrow> ([fail e], r)
         | (_, r) \<Rightarrow> ([], r))
      else enc_Records_typed cs r)"

definition setTypeFromMagic :: "Records \<Rightarrow> Records dec" where
  "setTypeFromMagic r =
     dbind magicValue (\<lambda>magic.
       dreturn (r\<lparr>recordsType := (if sint magic < 2 then legacyRecords else defaultRecords)\<rparr>))"

definition dec_Records :: "nat \<Rightarrow> codecs \<Rightarrow> Records \<Rightarrow> Records dec" where
  "dec_Records depth cs r =
     dbind (if recordsType r = unknownRecords then setTypeFromMagic r else dreturn r) (\<lambda>r.
       if recordsType r = legacyRecords then
         dbind (dec_MessageSet depth cs) (\<lambda>ms. dreturn (r\<lparr>rs_MsgSet := Some ms\<rparr>))
       else if recordsType r = defaultRecords then
         dbind (dec_RecordBatch cs) (\<lambda>b. dreturn (r\<lparr>rs_RecordBatch := Some b\<rparr>))
       else derror unknown_type_error)"

definition numRecords :: "Records \<Rightarrow> nat res \<times> Records" where
  "numRecords = with_type 0 (\<lambda>r.
     if recordsType r = legacyRecords then
       (Ok (case rs_MsgSet r of None \<Rightarrow> 0 | Some ms \<Rightarrow> length (ms_Messages ms)), r)
     else if recordsType r = defaultRecords then
       (Ok (case rs_RecordBatch r of None \<Rightarrow> 0 | Some b \<Rightarrow> length (rb_Records b)), r)
     else (Err unknown_type_error, r))"

definition isPartial :: "Records \<Rightarrow> bool res \<times> Records" where
  "isPartial = with_type False (\<lambda>r.
     if recordsType r = unknownRecords then (Ok False, r)
     else if recordsType r = legacyRecords then
       (Ok (case rs_MsgSet r of None \<Rightarrow> False | Some ms \<Rightarrow> ms_PartialTrailingMessage ms), r)
     else if recordsType r = defaultRecords then
       (Ok (case rs_RecordBatch r of None \<Rightarrow> False | Some b \<Rightarrow> rb_PartialTrailingRecord b), r)
     else (Err unknown_type_error, r))"

definition isControl :: "Records \<Rightarrow> bool res \<times> Records" where
  "isControl = with_type False (\<lambda>r.
     if recordsType r = legacyRecords then (Ok False, r)
     else if recordsType r = defaultRecords then
       (Ok (case rs_RecordBatch r of None \<Rightarrow> False | Some b \<Rightarrow> rb_Control b), r)
     else (Err unknown_type_error, r))"

definition isOverflow :: "Records \<Rightarrow> bool res \<times> Records" where
  "isOverflow = with_type False (\<lambda>r.
     if recordsType r = unknownRecords then (Ok False, r)
     else if recordsType r = legacyRecords then
       (Ok (case rs_MsgSet r of None \<Rightarrow> False | Some ms \<Rightarrow> ms_OverflowMessage ms), r)
     else if recordsType r = defaultRecords then (Ok False, r)
     else (Err unknown_type_error, r))"

definition recordsOffset :: "Records \<Rightarrow> int64 option res" where
  "recordsOffset r =
     (if recordsType r = unknownRecords then Ok None
      else if recordsType r = legacyRecords then Ok None
      else if recordsType r = defaultRecords then
        Ok (case rs_RecordBatch r of None \<Rightarrow> None | Some b \<Rightarrow> Some (rb_FirstOffset b))
      else Err unknown_type_error)"

definition getControlRecord :: "Records \<Rightarrow> ControlRecord res" where
  "getControlRecord r =
     (case rs_RecordBatch r of
        None \<Rightarrow> Err (OtherError ''cannot get control record, record batch is empty'')
      | Some b \<Rightarrow>
          (case rb_Records b of
             [] \<Rightarrow> Err (OtherError ''cannot get control record, record batch is empty'')
           | firstRecord # _ \<Rightarrow>
               dec_ControlRecord
                 (new_decoder (case rec_Key firstRecord of None \<Rightarrow> [] | Some k \<Rightarrow> k))
                 (new_decoder (case rec_Value firstRecord of None \<Rightarrow> [] | Some v \<Rightarrow> v))))"

subsection \<open>Lemmas\<close>

lemma batch_magic:
  assumes "sendable_batch cs b"
  shows "16 < length (ser_ops (fst (enc_RecordBatch cs b)))"
    and "ser_ops (fst (enc_RecordBatch cs b)) ! 16 = 2"
  by (simp_all add: enc_RecordBatch_wf [OF assms] ser_simps nth_append)

lemma dec_Records_default:
  assumes "wf_RecordBatch cs b" "lossless cs"
  shows "reads (dec_Records depth cs zeroRecords) (ser_ops (fst (enc_Records cs (newDefaultRecords b))))
    (newDefaultRecords (batch_on_wire b))"
proof (rule readsI)
  fix pre post st
  let ?bs = "ser_ops (fst (enc_RecordBatch cs b))"
  have s: "sendable_batch cs b" using assms(1) by (simp add: wf_RecordBatch_def)
  have e: "ser_ops (fst (enc_Records cs (newDefaultRecords b))) = ?bs"
    by (simp add: enc_Records_def enc_Records_typed_def newDefaultRecords_def recordsType_defs split: prod.splits)
  have m: "magicValue (dec_at pre (?bs @ post) st) = (Ok 2, dec_at pre (?bs @ post) st)"
    using batch_magic [OF s] by (simp add: magicValue_at nth_append)
  show "dec_Records depth cs zeroRecords
      (dec_at pre (ser_ops (fst (enc_Records cs (newDefaultRecords b))) @ post) st) =
    (Ok (newDefaultRecords (batch_on_wire b)),
     dec_at (pre @ ser_ops (fst (enc_Records cs (newDefaultRecords b)))) post st)"
    unfolding e
    by (simp add: dec_Records_def zeroRecords_def setTypeFromMagic_def newDefaultRecords_def recordsType_defs
        dec_steps m reads_at [OF reads_RecordBatch [OF assms]])
qed

lemma numRecords_default: "fst (numRecords (newDefaultRecords b)) = Ok (length (rb_Records b))"
  by (simp add: numRecords_def with_type_def newDefaultRecords_def recordsType_defs)

end
