(* ===== verification/Kafka_Version.thy ===== *)
theory Kafka_Version
  imports Go_Prelude
begin

text \<open>
  Broker versions (\<open>utils.go\<close>): the four-part version number, its order \<open>IsAtLeast\<close>, the table
  of supported versions, and the conversion to and from strings. A component of the Go array of
  uint is a natural number below \<open>2 ^ 64\<close>.

  \<open>IsAtLeast\<close> is a total order; the type is an instance of \<open>linorder\<close> with it, so that the
  lemmas of the library apply to comparisons of versions. Printing and parsing are inverse.
\<close>

subsection \<open>Versions and their order\<close>

datatype KafkaVersion = KafkaVersion (kv_major: nat) (kv_minor: nat) (kv_veryMinor: nat) (kv_patch: nat)

definition newKafkaVersion :: "nat \<Rightarrow> nat \<Rightarrow> nat \<Rightarrow> nat \<Rightarrow> KafkaVersion" where
  "newKafkaVersion major minor veryMinor patch = KafkaVersion major minor veryMinor patch"

definition kv_version :: "KafkaVersion \<Rightarrow> nat list" where
  "kv_version v = [kv_major v, kv_minor v, kv_veryMinor v, kv_patch v]"

fun at_least_loop :: "nat list \<Rightarrow> nat list \<Rightarrow> bool" where
  "at_least_loop (x # xs) (y # ys) =
     (if x > y then True else if x < y then False else at_least_loop xs ys)"
| "at_least_loop _ _ = True"

definition IsAtLeast :: "KafkaVersion \<Rightarrow> KafkaVersion \<Rightarrow> bool" where
  "IsAtLeast v other = at_least_loop (kv_version v) (kv_version other)"

lemma at_least_loop_le: "length xs = length ys \<Longrightarrow> at_least_loop xs ys \<longleftrightarrow> ys \<le> xs"
  by (induction xs ys rule: at_least_loop.induct) auto

lemma kv_version_inject [simp]: "kv_version v = kv_version w \<longleftrightarrow> v = w"
  by (cases v; cases w) (simp add: kv_version_def)

lemma IsAtLeast_le: "IsAtLeast v w \<longleftrightarrow> kv_version w \<le> kv_version v"
  unfolding IsAtLeast_def by (rule at_least_loop_le) (simp add: kv_version_def)

instantiation KafkaVersion :: linorder
begin

definition less_eq_KafkaVersion :: "KafkaVersion \<Rightarrow> KafkaVersion \<Rightarrow> bool" where
  "less_eq_KafkaVersion v w \<longleftrightarrow> IsAtLeast w v"

definition less_KafkaVersion :: "KafkaVersion \<Rightarrow> KafkaVersion \<Rightarrow> bool" where
  "less_KafkaVersion v w \<longleftrightarrow> \<not> IsAtLeast v w"

instance
  by standard
    (auto simp: less_eq_KafkaVersion_def less_KafkaVersion_def IsAtLeast_le)

end

subsection \<open>The versions\<close>

abbreviation (input) V0_8_2_0 :: KafkaVersion where "V0_8_2_0 \<equiv> newKafkaVersion 0 8 2 0"
abbreviation (input) V0_8_2_1 :: KafkaVersion where "V0_8_2_1 \<equiv> newKafkaVersion 0 8 2 1"
abbreviation (input) V0_8_2_2 :: KafkaVersion where "V0_8_2_2 \<equiv> newKafkaVersion 0 8 2 2"
abbreviation (input) V0_9_0_0 :: KafkaVersion where "V0_9_0_0 \<equiv> newKafkaVersion 0 9 0 0"
abbreviation (input) V0_9_0_1 :: KafkaVersion where "V0_9_0_1 \<equiv> newKafkaVersion 0 9 0 1"
abbreviation (input) V0_10_0_0 :: KafkaVersion where "V0_10_0_0 \<equiv> newKafkaVersion 0 10 0 0"
abbreviation (input) V0_10_0_1 :: KafkaVersion where "V0_10_0_1 \<equiv> newKafkaVersion 0 10 0 1"
abbreviation (input) V0_10_1_0 :: KafkaVersion where "V0_10_1_0 \<equiv> newKafkaVersion 0 10 1 0"
abbreviation (input) V0_10_1_1 :: KafkaVersion where "V0_10_1_1 \<equiv> newKafkaVersion 0 10 1 1"
abbreviation (input) V0_10_2_0 :: KafkaVersion where "V0_10_2_0 \<equiv> newKafkaVersion 0 10 2 0"
abbreviation (input) V0_10_2_1 :: KafkaVersion where "V0_10_2_1 \<equiv> newKafkaVersion 0 10 2 1"
abbreviation (input) V0_10_2_2 :: KafkaVersion where "V0_10_2_2 \<equiv> newKafkaVersion 0 10 2 2"
abbreviation (input) V0_11_0_0 :: KafkaVersion where "V0_11_0_0 \<equiv> newKafkaVersion 0 11 0 0"
abbreviation (input) V0_11_0_1 :: KafkaVersion where "V0_11_0_1 \<equiv> newKafkaVersion 0 11 0 1"
abbreviation (input) V0_11_0_2 :: KafkaVersion where "V0_11_0_2 \<equiv> newKafkaVersion 0 11 0 2"
abbreviation (input) V1_0_0_0 :: KafkaVersion where "V1_0_0_0 \<equiv> newKafkaVersion 1 0 0 0"
abbreviation (input) V1_0_1_0 :: KafkaVersion where "V1_0_1_0 \<equiv> newKafkaVersion 1 0 1 0"
abbreviation (input) V1_0_2_0 :: KafkaVersion where "V1_0_2_0 \<equiv> newKafkaVersion 1 0 2 0"
abbreviation (input) V1_1_0_0 :: KafkaVersion where "V1_1_0_0 \<equiv> newKafkaVersion 1 1 0 0"
abbreviation (input) V1_1_1_0 :: KafkaVersion where "V1_1_1_0 \<equiv> newKafkaVersion 1 1 1 0"
abbreviation (input) V2_0_0_0 :: KafkaVersion where "V2_0_0_0 \<equiv> newKafkaVersion 2 0 0 0"
abbreviation (input) V2_0_1_0 :: KafkaVersion where "V2_0_1_0 \<equiv> newKafkaVersion 2 0 1 0"
abbreviation (input) V2_1_0_0 :: KafkaVersion where "V2_1_0_0 \<equiv> newKafkaVersion 2 1 0 0"
abbreviation (input) V2_1_1_0 :: KafkaVersion where "V2_1_1_0 \<equiv> newKafkaVersion 2 1 1 0"
abbreviation (input) V2_2_0_0 :: KafkaVersion where "V2_2_0_0 \<equiv> newKafkaVersion 2 2 0 0"
abbreviation (input) V2_2_1_0 :: KafkaVersion where "V2_2_1_0 \<equiv> newKafkaVersion 2 2 1 0"
abbreviation (input) V2_2_2_0 :: KafkaVersion where "V2_2_2_0 \<equiv> newKafkaVersion 2 2 2 0"
abbreviation (input) V2_3_0_0 :: KafkaVersion where "V2_3_0_0 \<equiv> newKafkaVersion 2 3 0 0"
abbreviation (input) V2_3_1_0 :: KafkaVersion where "V2_3_1_0 \<equiv> newKafkaVersion 2 3 1 0"
abbreviation (input) V2_4_0_0 :: KafkaVersion where "V2_4_0_0 \<equiv> newKafkaVersion 2 4 0 0"
abbreviation (input) V2_4_1_0 :: KafkaVersion where "V2_4_1_0 \<equiv> newKafkaVersion 2 4 1 0"
abbreviation (input) V2_5_0_0 :: KafkaVersion where "V2_5_0_0 \<equiv> newKafkaVersion 2 5 0 0"
abbreviation (input) V2_5_1_0 :: KafkaVersion where "V2_5_1_0 \<equiv> newKafkaVersion 2 5 1 0"
abbreviation (input) V2_6_0_0 :: KafkaVersion where "V2_6_0_0 \<equiv> newKafkaVersion 2 6 0 0"
abbreviation (input) V2_6_1_0 :: KafkaVersion where "V2_6_1_0 \<equiv> newKafkaVersion 2 6 1 0"
abbreviation (input) V2_6_2_0 :: KafkaVersion where "V2_6_2_0 \<equiv> newKafkaVersion 2 6 2 0"
abbreviation (input) V2_6_3_0 :: KafkaVersion where "V2_6_3_0 \<equiv> newKafkaVersion 2 6 3 0"
abbreviation (input) V2_7_0_0 :: KafkaVersion where "V2_7_0_0 \<equiv> newKafkaVersion 2 7 0 0"
abbreviation (input) V2_7_1_0 :: KafkaVersion where "V2_7_1_0 \<equiv> newKafkaVersion 2 7 1 0"
abbreviation (input) V2_7_2_0 :: KafkaVersion where "V2_7_2_0 \<equiv> newKafkaVersion 2 7 2 0"
abbreviation (input) V2_8_0_0 :: KafkaVersion where "V2_8_0_0 \<equiv> newKafkaVersion 2 8 0 0"
abbreviation (input) V2_8_1_0 :: KafkaVersion where "V2_8_1_0 \<equiv> newKafkaVersion 2 8 1 0"
abbreviation (input) V2_8_2_0 :: KafkaVersion where "V2_8_2_0 \<equiv> newKafkaVersion 2 8 2 0"
abbreviation (input) V3_0_0_0 :: KafkaVersion where "V3_0_0_0 \<equiv> newKafkaVersion 3 0 0 0"
abbreviation (input) V3_0_1_0 :: KafkaVersion where "V3_0_1_0 \<equiv> newKafkaVersion 3 0 1 0"
abbreviation (input) V3_0_2_0 :: KafkaVersion where "V3_0_2_0 \<equiv> newKafkaVersion 3 0 2 0"
abbreviation (input) V3_1_0_0 :: KafkaVersion where "V3_1_0_0 \<equiv> newKafkaVersion 3 1 0 0"
abbreviation (input) V3_1_1_0 :: KafkaVersion where "V3_1_1_0 \<equiv> newKafkaVersion 3 1 1 0"
abbreviation (input) V3_1_2_0 :: KafkaVersion where "V3_1_2_0 \<equiv> newKafkaVersion 3 1 2 0"
abbreviation (input) V3_2_0_0 :: KafkaVersion where "V3_2_0_0 \<equiv> newKafkaVersion 3 2 0 0"
abbreviation (input) V3_2_1_0 :: KafkaVersion where "V3_2_1_0 \<equiv> newKafkaVersion 3 2 1 0"
abbreviation (input) V3_2_2_0 :: KafkaVersion where "V3_2_2_0 \<equiv> newKafkaVersion 3 2 2 0"
abbreviation (input) V3_2_3_0 :: KafkaVersion where "V3_2_3_0 \<equiv> newKafkaVersion 3 2 3 0"
abbreviation (input) V3_3_0_0 :: KafkaVersion where "V3_3_0_0 \<equiv> newKafkaVersion 3 3 0 0"
abbreviation (input) V3_3_1_0 :: KafkaVersion where "V3_3_1_0 \<equiv> newKafkaVersion 3 3 1 0"
abbreviation (input) V3_3_2_0 :: KafkaVersion where "V3_3_2_0 \<equiv> newKafkaVersion 3 3 2 0"
abbreviation (input) V3_4_0_0 :: KafkaVersion where "V3_4_0_0 \<equiv> newKafkaVersion 3 4 0 0"
abbreviation (input) V3_4_1_0 :: KafkaVersion where "V3_4_1_0 \<equiv> newKafkaVersion 3 4 1 0"
abbreviation (input) V3_5_0_0 :: KafkaVersion where "V3_5_0_0 \<equiv> newKafkaVersion 3 5 0 0"
abbreviation (input) V3_5_1_0 :: KafkaVersion where "V3_5_1_0 \<equiv> newKafkaVersion 3 5 1 0"
abbreviation (input) V3_6_0_0 :: KafkaVersion where "V3_6_0_0 \<equiv> newKafkaVersion 3 6 0 0"

text \<open>The versions the package names, and the list it offers as supported.\<close>

definition namedVersions :: "KafkaVersion list" where
  "namedVersions =
    [V0_8_2_0, V0_8_2_1, V0_8_2_2, V0_9_0_0, V0_9_0_1, V0_10_0_0, V0_10_0_1, V0_10_1_0,
     V0_10_1_1, V0_10_2_0, V0_10_2_1, V0_10_2_2, V0_11_0_0, V0_11_0_1, V0_11_0_2, V1_0_0_0,
     V1_0_1_0, V1_0_2_0, V1_1_0_0, V1_1_1_0, V2_0_0_0, V2_0_1_0, V2_1_0_0, V2_1_1_0, V2_2_0_0,
     V2_2_1_0, V2_2_2_0, V2_3_0_0, V2_3_1_0, V2_4_0_0, V2_4_1_0, V2_5_0_0, V2_5_1_0, V2_6_0_0,
     V2_6_1_0, V2_6_2_0, V2_6_3_0, V2_7_0_0, V2_7_1_0, V2_7_2_0, V2_8_0_0, V2_8_1_0, V2_8_2_0,
     V3_0_0_0, V3_0_1_0, V3_0_2_0, V3_1_0_0, V3_1_1_0, V3_1_2_0, V3_2_0_0, V3_2_1_0, V3_2_2_0,
     V3_2_3_0, V3_3_0_0, V3_3_1_0, V3_3_2_0, V3_4_0_0, V3_4_1_0, V3_5_0_0, V3_5_1_0, V3_6_0_0]"

definition SupportedVersions :: "KafkaVersion list" where
  "SupportedVersions =
    [V0_8_2_0, V0_8_2_1, V0_8_2_2, V0_9_0_0, V0_9_0_1, V0_10_0_0, V0_10_0_1, V0_10_1_0,
     V0_10_1_1, V0_10_2_0, V0_10_2_1, V0_10_2_2, V0_11_0_0, V0_11_0_1, V0_11_0_2, V1_0_0_0,
     V1_0_1_0, V1_0_2_0, V1_1_0_0, V1_1_1_0, V2_0_0_0, V2_0_1_0, V2_1_0_0, V2_1_1_0, V2_2_0_0,
     V2_2_1_0, V2_2_2_0, V2_3_0_0, V2_3_1_0, V2_4_0_0, V2_4_1_0, V2_5_0_0, V2_5_1_0, V2_6_0_0,
     V2_6_1_0, V2_6_2_0, V2_7_0_0, V2_7_1_0, V2_8_0_0, V2_8_1_0, V2_8_2_0, V3_0_0_0, V3_0_1_0,
     V3_0_2_0, V3_1_0_0, V3_1_1_0, V3_1_2_0, V3_2_0_0, V3_2_1_0, V3_2_2_0, V3_2_3_0, V3_3_0_0,
     V3_3_1_0, V3_3_2_0, V3_4_0_0, V3_4_1_0, V3_5_0_0, V3_5_1_0, V3_6_0_0]"

definition MinVersion :: KafkaVersion where "MinVersion = V0_8_2_0"
definition MaxVersion :: KafkaVersion where "MaxVersion = V3_6_0_0"
definition DefaultVersion :: KafkaVersion where "DefaultVersion = V2_1_0_0"

subsection \<open>Strings\<close>

text \<open>The verb \<open>%d\<close> of \<open>fmt\<close> for a number that is not negative.\<close>

definition digit :: "nat \<Rightarrow> char" where
  "digit d = char_of (48 + d)"

function show_nat :: "nat \<Rightarrow> string" where
  "show_nat n = (if n < 10 then [digit n] else show_nat (n div 10) @ [digit (n mod 10)])"
  by auto
termination by (relation "measure id") auto

declare show_nat.simps [simp del]

definition kv_String :: "KafkaVersion \<Rightarrow> string" where
  "kv_String v =
     (if kv_major v = 0
      then ''0.'' @ show_nat (kv_minor v) @ ''.'' @ show_nat (kv_veryMinor v) @ ''.'' @ show_nat (kv_patch v)
      else show_nat (kv_major v) @ ''.'' @ show_nat (kv_minor v) @ ''.'' @ show_nat (kv_veryMinor v))"

definition is_digit :: "char \<Rightarrow> bool" where
  "is_digit c \<longleftrightarrow> 48 \<le> (of_char c :: nat) \<and> (of_char c :: nat) \<le> 57"

fun split_dots :: "string \<Rightarrow> string list" where
  "split_dots [] = [[]]"
| "split_dots (c # cs) =
     (if c = CHR ''.'' then [] # split_dots cs
      else (case split_dots cs of [] \<Rightarrow> [[c]] | w # ws \<Rightarrow> (c # w) # ws))"

text \<open>The regular expressions: groups of one or more digits between dots.\<close>

definition is_number :: "string \<Rightarrow> bool" where
  "is_number w \<longleftrightarrow> w \<noteq> [] \<and> list_all is_digit w"

definition validPreKafka1Version :: "string \<Rightarrow> bool" where
  "validPreKafka1Version s =
     (case split_dots s of [a, b, c, d] \<Rightarrow> a = ''0'' \<and> is_number b \<and> is_number c \<and> is_number d | _ \<Rightarrow> False)"

definition validPostKafka1Version :: "string \<Rightarrow> bool" where
  "validPostKafka1Version s =
     (case split_dots s of [a, b, c] \<Rightarrow> is_number a \<and> is_number b \<and> is_number c | _ \<Rightarrow> False)"

text \<open>The verb \<open>%d\<close> of \<open>Sscanf\<close> for a uint: an error when the number does not fit.\<close>

definition number_value :: "string \<Rightarrow> nat" where
  "number_value w = foldl (\<lambda>n c. 10 * n + (of_char c - 48)) 0 w"

definition scan_uint :: "string \<Rightarrow> nat res" where
  "scan_uint w =
     (if number_value w < 2 ^ 64 then Ok (number_value w)
      else Err (OtherError ''unsigned integer overflow''))"

definition scanKafkaVersion :: "string \<Rightarrow> (string \<Rightarrow> bool) \<Rightarrow> string list \<Rightarrow> (nat \<times> nat \<times> nat) res" where
  "scanKafkaVersion s pattern fields =
     (if \<not> pattern s then Err (OtherError ''invalid version'')
      else
        (case fields of
           [a, b, c] \<Rightarrow>
             res_bind (scan_uint a) (\<lambda>x. res_bind (scan_uint b) (\<lambda>y. res_bind (scan_uint c) (\<lambda>z. Ok (x, y, z))))
         | _ \<Rightarrow> Err (OtherError ''input does not match format'')))"

definition ParseKafkaVersion :: "string \<Rightarrow> KafkaVersion \<times> go_error option" where
  "ParseKafkaVersion s =
     (if length s < 5 then (DefaultVersion, Some (OtherError ''invalid version''))
      else
        (case (if hd s = CHR ''0''
               then res_bind (scanKafkaVersion s validPreKafka1Version (tl (split_dots s)))
                      (\<lambda>(minor, veryMinor, patch). Ok (newKafkaVersion 0 minor veryMinor patch))
               else res_bind (scanKafkaVersion s validPostKafka1Version (split_dots s))
                      (\<lambda>(major, minor, veryMinor). Ok (newKafkaVersion major minor veryMinor 0))) of
           Ok v \<Rightarrow> (v, None)
         | Err e \<Rightarrow> (DefaultVersion, Some e)
         | _ \<Rightarrow> (DefaultVersion, Some (OtherError ''unreachable''))))"

subsection \<open>Printing and parsing are inverse\<close>

lemma of_char_digit: "d < 10 \<Longrightarrow> (of_char (digit d) :: nat) = 48 + d"
  by (simp add: digit_def)

lemma is_digit_digit: "d < 10 \<Longrightarrow> is_digit (digit d)"
  by (simp add: is_digit_def of_char_digit)

lemma is_number_show_nat: "is_number (show_nat n)"
proof (induction n rule: show_nat.induct)
  case (1 n)
  then show ?case
    by (subst show_nat.simps) (auto simp: is_number_def is_digit_digit)
qed

lemma number_value_show_nat [simp]: "number_value (show_nat n) = n"
proof (induction n rule: show_nat.induct)
  case (1 n)
  show ?case
  proof (cases "n < 10")
    case True
    then show ?thesis by (subst show_nat.simps) (simp add: number_value_def of_char_digit)
  next
    case False
    with 1 have "number_value (show_nat (n div 10)) = n div 10" by simp
    then show ?thesis
      using False by (subst show_nat.simps) (simp add: number_value_def of_char_digit)
  qed
qed

lemma dot_not_digit: "is_digit c \<Longrightarrow> c \<noteq> CHR ''.''"
  by (auto simp: is_digit_def)

lemma split_dots_number: "list_all is_digit w \<Longrightarrow> split_dots (w @ CHR ''.'' # s) = w # split_dots s"
  by (induction w) (auto dest: dot_not_digit)

lemma split_dots_last: "list_all is_digit w \<Longrightarrow> split_dots w = [w]"
  by (induction w) (auto dest: dot_not_digit)

lemma show_nat_hd: "n \<noteq> 0 \<Longrightarrow> hd (show_nat n) \<noteq> CHR ''0''"
proof (induction n rule: show_nat.induct)
  case (1 n)
  show ?case
  proof (cases "n < 10")
    case True
    then have "(of_char (digit n) :: nat) = 48 + n" by (rule of_char_digit)
    then have "digit n \<noteq> CHR ''0''" using "1.prems" by auto
    then show ?thesis using True by (subst show_nat.simps) simp
  next
    case False
    with 1 is_number_show_nat [of "n div 10"] show ?thesis
      by (subst show_nat.simps) (auto simp: is_number_def)
  qed
qed

lemma ParseKafkaVersion_String:
  assumes "kv_major v = 0 \<or> kv_patch v = 0" "list_all (\<lambda>n. n < 2 ^ 64) (kv_version v)"
  shows "ParseKafkaVersion (kv_String v) = (v, None)"
proof -
  obtain a b c d where v: "v = KafkaVersion a b c d" by (cases v)
  have ln: "Suc 0 \<le> length (show_nat n)" for n using is_number_show_nat [of n] by (simp add: is_number_def Suc_le_eq)
  have dig: "list_all is_digit (show_nat n)" for n using is_number_show_nat [of n] by (simp add: is_number_def)
  note nums = split_dots_number [OF dig] split_dots_last [OF dig] is_number_show_nat scan_uint_def
  show ?thesis
  proof (cases "a = 0")
    case True
    have "split_dots (kv_String v) = [''0'', show_nat b, show_nat c, show_nat d]"
      using True by (simp add: v kv_String_def nums)
    moreover have "5 \<le> length (kv_String v)" "hd (kv_String v) = CHR ''0''"
      using True ln [of b] ln [of c] ln [of d] by (simp_all add: v kv_String_def)
    ultimately show ?thesis
      using assms True by (simp add: v ParseKafkaVersion_def scanKafkaVersion_def validPreKafka1Version_def
          nums kv_version_def newKafkaVersion_def)
  next
    case False
    have "split_dots (kv_String v) = [show_nat a, show_nat b, show_nat c]"
      using False by (simp add: v kv_String_def nums)
    moreover have "5 \<le> length (kv_String v)" "hd (kv_String v) \<noteq> CHR ''0''"
      using False ln [of a] ln [of b] ln [of c] show_nat_hd [of a] by (auto simp: v kv_String_def hd_append)
    ultimately show ?thesis
      using assms False by (simp add: v ParseKafkaVersion_def scanKafkaVersion_def validPostKafka1Version_def
          nums kv_version_def newKafkaVersion_def)
  qed
qed

end
