(* ===== verification/Protocol_Common.thy ===== *)
theory Protocol_Common
  imports Records_Union Kafka_Version
begin

text \<open>
  What the request and response types share: the map from topics to partitions to blocks that most
  of them carry, throttle times, and the way \<open>requiredVersion\<close> and \<open>isValidVersion\<close> are used. The
  lemmas give the round trip of the nested map from the one of its blocks, also as a part of the
  locale \<open>wire_codec\<close>.
\<close>

subsection \<open>Topics and partitions\<close>

type_synonym 'v topics = "(string \<times> (int32 \<times> 'v) list) list"

definition enc_partitions :: "('v \<Rightarrow> pe_op list) \<Rightarrow> (int32 \<times> 'v) list \<Rightarrow> pe_op list" where
  "enc_partitions enc = enc_array (\<lambda>(partition, block). putInt32 partition # enc block)"

definition enc_topics :: "('v \<Rightarrow> pe_op list) \<Rightarrow> 'v topics \<Rightarrow> pe_op list" where
  "enc_topics enc = enc_array (\<lambda>(topic, partitions). putString topic # enc_partitions enc partitions)"

definition dec_partitions :: "'v dec \<Rightarrow> (int32 \<times> 'v) list dec" where
  "dec_partitions d = dec_map (dec_pair getInt32 d)"

definition dec_topics :: "'v dec \<Rightarrow> 'v topics dec" where
  "dec_topics d = dec_map (dec_pair getString (dec_partitions d))"

definition wf_partitions :: "('v \<Rightarrow> bool) \<Rightarrow> (int32 \<times> 'v) list \<Rightarrow> bool" where
  "wf_partitions P ps \<longleftrightarrow> length ps \<le> 131070 \<and> distinct (map fst ps) \<and> list_all (\<lambda>(i, x). P x) ps"

definition wf_topics :: "('v \<Rightarrow> bool) \<Rightarrow> 'v topics \<Rightarrow> bool" where
  "wf_topics P m \<longleftrightarrow> length m \<le> 131070 \<and> distinct (map fst m) \<and>
     list_all (\<lambda>(t, ps). length t \<le> 32767 \<and> wf_partitions P ps) m"

lemma ser_string_nonempty [simp]: "ser_string s \<noteq> []"
  by (metis ser_string_def be_lengths(1) append_is_Nil_conv list.size(3) zero_neq_numeral)

lemma be_nonempty [simp]: "be16 v \<noteq> []" "be32 w \<noteq> []" "be64 x \<noteq> []"
  using be_lengths(1) [of v] be_lengths(2) [of w] be_lengths(3) [of x] by force+

lemma ser_array_length_nonempty [simp]: "ser_array_length n \<noteq> []"
  by (simp add: ser_array_length_def)

lemma reads_prims:
  "reads getInt8 [b] b" "reads getInt16 (be16 v) v" "reads getInt32 (be32 w) w" "reads getInt64 (be64 x) x"
  "length s \<le> 32767 \<Longrightarrow> reads getString (ser_string s) s"
  by (auto intro!: readsI simp: dec_steps)

definition view_partitions :: "('v \<Rightarrow> 'w) \<Rightarrow> (int32 \<times> 'v) list \<Rightarrow> (int32 \<times> 'w) list" where
  "view_partitions g = map (\<lambda>p. (fst p, g (snd p)))"

definition view_topics :: "('v \<Rightarrow> 'w) \<Rightarrow> 'v topics \<Rightarrow> 'w topics" where
  "view_topics g = map (\<lambda>t. (fst t, view_partitions g (snd t)))"

lemma view_id [simp]: "view_topics (\<lambda>x. x) m = m"
  by (simp add: view_topics_def view_partitions_def)

lemma reads_partitions:
  assumes "wf_partitions P ps" "\<And>x. P x \<Longrightarrow> reads d (ser_ops (enc x)) (g x)"
  shows "reads (dec_partitions d) (ser_ops (enc_partitions enc ps)) (view_partitions g ps)"
proof -
  have s: "ser_ops (enc_partitions enc ps) =
      ser_array_length (int (length ps)) @ concat (map (\<lambda>p. be32 (fst p) @ ser_ops (enc (snd p))) ps)"
    by (simp add: enc_partitions_def ser_simps case_prod_beta)
  show ?thesis
    unfolding s dec_partitions_def view_partitions_def
  proof (rule reads_map_view)
    fix p assume p: "p \<in> set ps"
    then have "P (snd p)" using assms(1) by (auto simp: wf_partitions_def list_all_iff)
    then show "reads (dec_pair getInt32 d) (be32 (fst p) @ ser_ops (enc (snd p))) (fst p, g (snd p))"
      by (intro reads_pair reads_prims assms(2))
  qed (use assms(1) in \<open>simp_all add: wf_partitions_def o_def\<close>)
qed

lemma reads_topics_view:
  assumes "wf_topics P m" "\<And>x. P x \<Longrightarrow> reads d (ser_ops (enc x)) (g x)"
  shows "reads (dec_topics d) (ser_ops (enc_topics enc m)) (view_topics g m)"
proof -
  have s: "ser_ops (enc_topics enc m) =
      ser_array_length (int (length m)) @
      concat (map (\<lambda>t. ser_string (fst t) @ ser_ops (enc_partitions enc (snd t))) m)"
    by (simp add: enc_topics_def ser_simps case_prod_beta)
  show ?thesis
    unfolding s dec_topics_def view_topics_def
  proof (rule reads_map_view)
    fix t assume t: "t \<in> set m"
    then have "length (fst t) \<le> 32767" "wf_partitions P (snd t)"
      using assms(1) by (auto simp: wf_topics_def list_all_iff)
    then show "reads (dec_pair getString (dec_partitions d))
        (ser_string (fst t) @ ser_ops (enc_partitions enc (snd t))) (fst t, view_partitions g (snd t))"
      by (intro reads_pair reads_prims reads_partitions assms(2))
  qed (use assms(1) in \<open>simp_all add: wf_topics_def o_def\<close>)
qed

lemma reads_topics:
  "wf_topics P m \<Longrightarrow> (\<And>x. P x \<Longrightarrow> reads d (ser_ops (enc x)) x) \<Longrightarrow>
   reads (dec_topics d) (ser_ops (enc_topics enc m)) m"
  using reads_topics_view [of P m d enc "\<lambda>x. x"] by simp

lemmas topics_at = reads_at [OF reads_topics]

lemma enc_partitions_ok:
  "wf_partitions P ps \<Longrightarrow> (\<And>x. P x \<Longrightarrow> ops_ok (enc x)) \<Longrightarrow> ops_ok (enc_partitions enc ps)"
  by (auto simp: enc_partitions_def wire_ok wf_partitions_def list_all_iff [of "\<lambda>(i, x). P x"])

lemma enc_topics_ok:
  "wf_topics P m \<Longrightarrow> (\<And>x. P x \<Longrightarrow> ops_ok (enc x)) \<Longrightarrow> ops_ok (enc_topics enc m)"
  by (auto simp: enc_topics_def wire_ok wf_topics_def list_all_iff [of "\<lambda>(t, ps). _ t ps"]
      intro!: enc_partitions_ok)

lemma dec_safe_topics [safe_intros]:
  "dec_safe d \<Longrightarrow> dec_safe (dec_partitions d)" "dec_safe d \<Longrightarrow> dec_safe (dec_topics d)"
  unfolding dec_partitions_def dec_topics_def by (intro safe_intros; assumption)+

subsection \<open>Durations on the wire\<close>

text \<open>A \<open>time.Duration\<close> counts nanoseconds in an int64; the wire has milliseconds in an int32.\<close>

definition enc_millis32 :: "int64 \<Rightarrow> pe_op list" where
  "enc_millis32 d = [putInt32 (word_of_int (sint d sdiv 1000000))]"

definition dec_millis32 :: "int64 dec" where
  "dec_millis32 = dbind getInt32 (\<lambda>millis. dreturn (scast millis * 1000000))"

definition wf_millis32 :: "int64 \<Rightarrow> bool" where
  "wf_millis32 d \<longleftrightarrow> 1000000 dvd sint d \<and> - (2 ^ 31) \<le> sint d div 1000000 \<and> sint d div 1000000 < 2 ^ 31"

lemma reads_millis32:
  assumes "wf_millis32 d"
  shows "reads dec_millis32 (ser_ops (enc_millis32 d)) d"
proof -
  from assms obtain k where k: "sint d = 1000000 * k" by (auto simp: wf_millis32_def)
  with assms have r: "- (2 ^ 31) \<le> k" "k < 2 ^ 31" by (simp_all add: wf_millis32_def)
  have q: "sint d sdiv 1000000 = k" by (simp only: k sdiv_mult)
  have "sint (word_of_int k :: int32) = k" using r by (intro sint_word_of_int_id) simp_all
  then have "(scast (word_of_int k :: int32) :: int64) = word_of_int k"
    by (metis of_int_sint)
  then have "scast (word_of_int k :: int32) * 1000000 = (word_of_int (sint d) :: int64)"
    by (simp add: k mult.commute)
  then show ?thesis
    by (intro readsI) (simp add: enc_millis32_def dec_millis32_def ser_simps dec_steps q)
qed

lemma enc_millis32_ok [wire_ok]: "ops_ok (enc_millis32 d)"
  by (simp add: enc_millis32_def)

lemmas millis32_at [dec_steps] = reads_at [OF reads_millis32]

end
