(* ===== verification/Wire_Steps.thy ===== *)
theory Wire_Steps
  imports Protocol_Common
begin

text \<open>
  Reading a message back call by call. \<open>codes d ops x\<close>: the calls \<open>ops\<close> of an \<open>encode\<close> are all
  within the encoders' limits, and the \<open>decode\<close> \<open>d\<close> reads the bytes they stand for as \<open>x\<close>. The
  rules of \<open>codes_rules\<close> follow the two methods side by side, one call of \<open>encode\<close> against one call
  of \<open>decode\<close>, so that the round trip of a message type is a matter of matching its two methods; a
  message type that has been matched enters the locale \<open>wire_codec\<close>.
\<close>

definition codes :: "'a dec \<Rightarrow> pe_op list \<Rightarrow> 'a \<Rightarrow> bool" where
  "codes d ops x \<longleftrightarrow> ops_ok ops \<and> reads d (ser_ops ops) x"

named_theorems codes_rules \<open>one call of encode against one call of decode\<close>
named_theorems codes_simps \<open>facts that discharge the limits of the calls\<close>

declare list_all_iff [codes_simps] ser_simps [codes_simps]

lemma nstring_compact [codes_simps]:
  "pred_option (\<lambda>s. length s \<le> 32767) v \<Longrightarrow> pred_option (\<lambda>s. length s \<le> 2147483647) v"
  by (cases v) simp_all

lemma wire_codecI: "(\<And>x. P x \<Longrightarrow> codes (dec (ver x)) (enc x) x) \<Longrightarrow> wire_codec enc dec ver P"
  by unfold_locales (simp_all add: codes_def)

lemma wire_elemI:
  "(\<And>x. P x \<Longrightarrow> codes (dec (ver x)) (enc x) x) \<Longrightarrow> (\<And>x. P x \<Longrightarrow> ser_ops (enc x) \<noteq> []) \<Longrightarrow>
   wire_elem enc dec ver P"
  by unfold_locales (simp_all add: codes_def)

text \<open>
  What the two ends of a connection rely on: \<open>encode\<close> gives bytes that \<open>versionedDecode\<close> reads as
  \<open>y\<close>, whatever the target was before, unless the message is beyond \<open>MaxRequestSize\<close>.
\<close>

definition delivered :: "pe_op list \<Rightarrow> (int \<Rightarrow> 'a dec) \<Rightarrow> int \<Rightarrow> 'a \<Rightarrow> 'a \<Rightarrow> bool" where
  "delivered ops d v x0 y \<longleftrightarrow>
     (case encode ops of
        Ok bs \<Rightarrow> versionedDecode (Some bs) x0 d v = Ok y
      | Err e \<Rightarrow> MaxRequestSize < length (ser_ops ops)
      | _ \<Rightarrow> False)"

lemma codes_delivered: "codes (d v) ops y \<Longrightarrow> delivered ops d v x0 y"
  using encode_ops_ok [of ops] reads_decode_buf [of "d v" "ser_ops ops" y]
  by (auto simp: delivered_def codes_def versionedDecode_def split: if_splits)

context wire_codec
begin

lemma sent: "wf x \<Longrightarrow> delivered (enc x) dec (ver x) x0 x"
  by (rule codes_delivered) (simp add: codes_def ok reads)

lemma codes: "wf x \<Longrightarrow> v = ver x \<Longrightarrow> codes (dec v) (enc x) x"
  by (simp add: codes_def ok reads)

end

subsection \<open>Sequencing\<close>

lemma codes_return [codes_rules]: "x = y \<Longrightarrow> codes (dreturn x) [] y"
  by (auto simp: codes_def ser_simps dec_steps intro!: readsI)

lemma codes_bind: "codes d ops x \<Longrightarrow> codes (f x) ops' y \<Longrightarrow> codes (dbind d f) (ops @ ops') y"
  by (auto simp: codes_def ser_simps dec_steps reads_at intro!: readsI)

lemma codes_last: "codes d ops x \<Longrightarrow> codes (f x) [] y \<Longrightarrow> codes (dbind d f) ops y"
  using codes_bind [of d ops x f "[]" y] by simp

lemma codes_step: "codes d [op] x \<Longrightarrow> codes (f x) ops y \<Longrightarrow> codes (dbind d f) (op # ops) y"
  using codes_bind [of d "[op]"] by simp

lemma dbind_return: "dbind (dreturn x) f = f x"
  by (rule ext) (simp add: dbind_def dreturn_def)

lemma dbind_assoc: "dbind (dbind a b) f = dbind a (\<lambda>x. dbind (b x) f)"
  by (rule ext) (simp add: dbind_def split: prod.splits res.splits)

lemma codes_shape [codes_rules]:
  "codes (f x) ops y \<Longrightarrow> codes (dbind (dreturn x) f) ops y"
  "codes (dbind a (\<lambda>x. dbind (b x) f)) ops y \<Longrightarrow> codes (dbind (dbind a b) f) ops y"
  "codes d ops y \<Longrightarrow> codes d ([] @ ops) y"
  "codes d (op # ops @ ops') y \<Longrightarrow> codes d ((op # ops) @ ops') y"
  "codes d (ops1 @ ops2 @ ops3) y \<Longrightarrow> codes d ((ops1 @ ops2) @ ops3) y"
  by (simp_all add: dbind_return dbind_assoc)

text \<open>A field that only some versions have; in the others the decoder leaves the default.\<close>

lemma codes_if:
  "(c \<Longrightarrow> codes d ops x) \<Longrightarrow> (\<not> c \<Longrightarrow> codes d' ops' x) \<Longrightarrow> codes (if c then d else d') (if c then ops else ops') x"
  by simp

lemma codes_cond [codes_rules]:
  "(c \<Longrightarrow> codes d ops x) \<Longrightarrow> (\<not> c \<Longrightarrow> codes d' ops' x) \<Longrightarrow> codes (f x) rest y \<Longrightarrow>
   codes (dbind (if c then d else d') f) ((if c then ops else ops') @ rest) y"
  "(c \<Longrightarrow> codes d ops x) \<Longrightarrow> (\<not> c \<Longrightarrow> codes d' ops' x) \<Longrightarrow> codes (f x) [] y \<Longrightarrow>
   codes (dbind (if c then d else d') f) (if c then ops else ops') y"
  by (auto intro: codes_bind codes_last codes_shape)

subsection \<open>The calls\<close>

lemma codes_calls:
  "codes getInt8 [putInt8 a] a"
  "codes getInt16 [putInt16 b] b"
  "codes getInt32 [putInt32 c] c"
  "codes getInt64 [putInt64 d] d"
  "codes getFloat64 [putFloat64 d] d"
  "codes getVarint [putVarint d] d"
  "codes getUVarint [putUVarint d] d"
  "codes getBool [putBool t] t"
  "codes getEmptyTaggedFieldArray [putEmptyTaggedFieldArray] 0"
  "length s \<le> 32767 \<Longrightarrow> codes getString [putString s] s"
  "pred_option (\<lambda>s. length s \<le> 32767) ns \<Longrightarrow> codes getNullableString [putNullableString ns] ns"
  "length s \<le> 2147483647 \<Longrightarrow> codes getCompactString [putCompactString s] s"
  "pred_option (\<lambda>s. length s \<le> 2147483647) ns \<Longrightarrow> codes getCompactNullableString [putNullableCompactString ns] ns"
  "pred_option (\<lambda>s. length s \<le> 2147483647) nb \<Longrightarrow> codes getBytes [putBytes nb] nb"
  "pred_option (\<lambda>s. length s \<le> 2147483647) nb \<Longrightarrow> codes getVarintBytes [putVarintBytes nb] nb"
  "length bs \<le> 2147483647 \<Longrightarrow> codes getCompactBytes [putCompactBytes bs] bs"
  "length is \<le> 2147483647 \<Longrightarrow> codes getInt32Array [putInt32Array is] is"
  "length js \<le> 2147483647 \<Longrightarrow> codes getInt64Array [putInt64Array js] js"
  "length ss \<le> 2147483647 \<Longrightarrow> list_all (\<lambda>s. length s \<le> 32767) ss \<Longrightarrow> codes getStringArray [putStringArray ss] ss"
  by (auto simp: codes_def ser_simps dec_steps list_all_iff option.pred_set intro!: readsI split: option.splits)

lemma codes_millis32: "wf_millis32 d \<Longrightarrow> codes dec_millis32 (enc_millis32 d) d"
  by (simp add: codes_def enc_millis32_ok reads_millis32)

lemma codes_Timestamp: "wf_time t \<Longrightarrow> codes dec_Timestamp (enc_Timestamp t) t"
  by (auto simp: codes_def wire_ok dec_steps intro!: readsI)

lemmas codes_seq [codes_rules] =
  codes_step [OF codes_calls(1)] codes_step [OF codes_calls(2)] codes_step [OF codes_calls(3)]
  codes_step [OF codes_calls(4)] codes_step [OF codes_calls(5)] codes_step [OF codes_calls(6)]
  codes_step [OF codes_calls(7)] codes_step [OF codes_calls(8)] codes_step [OF codes_calls(9)]
  codes_step [OF codes_calls(10)] codes_step [OF codes_calls(11)] codes_step [OF codes_calls(12)]
  codes_step [OF codes_calls(13)] codes_step [OF codes_calls(14)] codes_step [OF codes_calls(15)]
  codes_step [OF codes_calls(16)] codes_step [OF codes_calls(17)] codes_step [OF codes_calls(18)]
  codes_step [OF codes_calls(19)]
  codes_bind [OF codes_millis32] codes_last [OF codes_millis32]
  codes_bind [OF codes_Timestamp] codes_last [OF codes_Timestamp]

declare codes_calls [codes_rules] codes_millis32 [codes_rules] codes_Timestamp [codes_rules]

subsection \<open>Arrays and maps\<close>

lemma codes_array:
  assumes "\<And>x. x \<in> set xs \<Longrightarrow> codes d (enc x) x" "\<And>x. x \<in> set xs \<Longrightarrow> ser_ops (enc x) \<noteq> []"
    and "length xs \<le> 131070"
  shows "codes (dec_array d) (enc_array enc xs) xs" "codes (dec_loop d) (enc_array enc xs) xs"
  using assms reads_loop [of xs d "\<lambda>x. ser_ops (enc x)"]
  by (auto simp: codes_def wire_ok ser_ops_enc_array)

lemma codes_map:
  assumes "\<And>x. x \<in> set xs \<Longrightarrow> codes d (enc x) x" "\<And>x. x \<in> set xs \<Longrightarrow> ser_ops (enc x) \<noteq> []"
    and "length xs \<le> 131070" "distinct (map fst xs)"
  shows "codes (dec_map d) (enc_array enc xs) xs"
  using assms reads_map_view [of xs d "\<lambda>x. ser_ops (enc x)" "\<lambda>x. x"]
  by (auto simp: codes_def wire_ok ser_ops_enc_array)

lemma codes_topics:
  assumes "wf_topics P m" "\<And>x. P x \<Longrightarrow> codes d (enc x) x"
  shows "codes (dec_topics d) (enc_topics enc m) m"
  using assms reads_topics [of P m d enc] enc_topics_ok [of P m enc] by (auto simp: codes_def)

lemma codes_pair:
  "(\<And>a b. x = (a, b) \<Longrightarrow> codes d (f a b) (a, b)) \<Longrightarrow> codes d (case x of (a, b) \<Rightarrow> f a b) x"
  by (cases x) simp

text \<open>A map whose key is a field of the element.\<close>

definition dec_keyed :: "('v \<Rightarrow> 'k) \<Rightarrow> 'v dec \<Rightarrow> ('k \<times> 'v) list dec" where
  "dec_keyed key d = dbind (dec_loop d) (\<lambda>xs. dreturn (go_map (map (\<lambda>x. (key x, x)) xs)))"

lemma codes_keyed:
  assumes "\<And>k x. (k, x) \<in> set m \<Longrightarrow> codes d (enc x) x" "\<And>k x. (k, x) \<in> set m \<Longrightarrow> k = key x"
    and "\<And>x. ser_ops (enc x) \<noteq> []" "length m \<le> 131070" "distinct (map fst m)"
  shows "codes (dec_keyed key d) (enc_array (\<lambda>(_, x). enc x) m) m"
proof -
  have e: "enc_array (\<lambda>(_, x). enc x) m = enc_array enc (map snd m)"
    by (simp add: enc_array_def o_def split_def)
  have m: "map (\<lambda>x. (key x, x)) (map snd m) = m" using assms(2) by (auto simp: o_def intro!: map_idI)
  have "codes (dec_loop d) (enc_array enc (map snd m)) (map snd m)"
    using assms(1,3,4) by (intro codes_array(2)) auto
  then show ?thesis
    unfolding dec_keyed_def e using m assms(5) by (intro codes_last [of "dec_loop d"] codes_return) auto
qed

lemma codes_dec_pair:
  "codes (dbind da (\<lambda>a. dbind db (\<lambda>b. dreturn (a, b)))) ops x \<Longrightarrow> codes (dec_pair da db) ops x"
  by (simp add: dec_pair_def)

text \<open>
  The arrays of the flexible versions: the length is an unsigned varint, one more than the number of
  elements, and is not compared with what is left of the buffer. A loop over it, and a slice that is
  made with the length first.
\<close>

definition enc_carray :: "('a \<Rightarrow> pe_op list) \<Rightarrow> 'a list \<Rightarrow> pe_op list" where
  "enc_carray enc xs = putCompactArrayLength (int (length xs)) # concat (map enc xs)"

definition dec_carray :: "'a dec \<Rightarrow> 'a list dec" where
  "dec_carray d = dbind getCompactArrayLength (\<lambda>n. dbind (dmake n) (\<lambda>_. dec_times (nat n) d))"

definition dec_cloop :: "'a dec \<Rightarrow> 'a list dec" where
  "dec_cloop d = dbind getCompactArrayLength (\<lambda>n. dec_times (nat n) d)"

definition dec_cmap :: "('k \<times> 'v) dec \<Rightarrow> ('k \<times> 'v) list dec" where
  "dec_cmap d = dbind (dec_cloop d) (\<lambda>kvs. dreturn (go_map kvs))"

lemma ser_ops_enc_carray [ser_simps]:
  "ser_ops (enc_carray enc xs) =
     ser_carray_length (int (length xs)) @ concat (map (\<lambda>x. ser_ops (enc x)) xs)"
  by (simp add: enc_carray_def ser_simps o_def)

lemma codes_carray:
  assumes "\<And>x. x \<in> set xs \<Longrightarrow> codes d (enc x) x" "length xs \<le> 2147483647"
  shows "codes (dec_carray d) (enc_carray enc xs) xs" "codes (dec_cloop d) (enc_carray enc xs) xs"
proof -
  have t: "reads (dec_times (length xs) d) (concat (map (\<lambda>x. ser_ops (enc x)) xs)) xs"
    using assms(1) by (intro reads_times) (simp add: codes_def)
  have o: "ops_ok (enc_carray enc xs)"
    using assms(1) by (simp add: enc_carray_def ops_ok_concat codes_def)
  show "codes (dec_carray d) (enc_carray enc xs) xs" "codes (dec_cloop d) (enc_carray enc xs) xs"
    unfolding codes_def ser_ops_enc_carray
    using o assms(2) reads_at [OF t]
    by (auto intro!: readsI simp: dec_carray_def dec_cloop_def dec_steps)
qed

lemma codes_cmap:
  assumes "\<And>x. x \<in> set xs \<Longrightarrow> codes d (enc x) x" "length xs \<le> 2147483647" "distinct (map fst xs)"
  shows "codes (dec_cmap d) (enc_carray enc xs) xs"
  unfolding dec_cmap_def using assms(3)
  by (intro codes_last [OF codes_carray(2) [OF assms(1,2)]] codes_return) simp_all

lemma dec_safe_carrays [safe_intros]:
  "dec_safe d \<Longrightarrow> dec_safe (dec_carray d)" "dec_safe d \<Longrightarrow> dec_safe (dec_cloop d)"
  unfolding dec_carray_def dec_cloop_def by (intro safe_intros; assumption)+

lemma dec_safe_keyed [safe_intros]: "dec_safe d \<Longrightarrow> dec_safe (dec_keyed key d)"
  unfolding dec_keyed_def by (intro safe_intros)

lemma dec_safe_cmap [safe_intros]: "dec_safe e \<Longrightarrow> dec_safe (dec_cmap e)"
  unfolding dec_cmap_def by (intro safe_intros)

lemmas codes_collections [codes_rules] =
  codes_bind [OF codes_array(1)] codes_last [OF codes_array(1)]
  codes_bind [OF codes_array(2)] codes_last [OF codes_array(2)]
  codes_bind [OF codes_map] codes_last [OF codes_map]
  codes_bind [OF codes_carray(1)] codes_last [OF codes_carray(1)]
  codes_bind [OF codes_carray(2)] codes_last [OF codes_carray(2)]
  codes_bind [OF codes_cmap] codes_last [OF codes_cmap]
  codes_bind [OF codes_keyed] codes_last [OF codes_keyed]

declare codes_array [codes_rules] codes_map [codes_rules] codes_carray [codes_rules] codes_cmap [codes_rules]
declare codes_pair [codes_rules] codes_dec_pair [codes_rules]

subsection \<open>Topics with partition lists\<close>

definition enc_topic_partitions :: "(string \<times> int32 list) list \<Rightarrow> pe_op list" where
  "enc_topic_partitions m = enc_array (\<lambda>(topic, prts). [putString topic, putInt32Array prts]) m"

definition dec_topic_partitions :: "(string \<times> int32 list) list dec" where
  "dec_topic_partitions = dec_map (dec_pair getString getInt32Array)"

definition wf_topic_partitions :: "(string \<times> int32 list) list \<Rightarrow> bool" where
  "wf_topic_partitions m \<longleftrightarrow> length m \<le> 131070 \<and> distinct (map fst m) \<and>
     list_all (\<lambda>(topic, prts). length topic \<le> 32767 \<and> length prts \<le> 2147483647) m"

lemma codes_topic_partitions:
  "wf_topic_partitions m \<Longrightarrow> codes dec_topic_partitions (enc_topic_partitions m) m"
  unfolding enc_topic_partitions_def dec_topic_partitions_def wf_topic_partitions_def
  by (rule codes_rules | auto simp: codes_simps; fail)+

lemmas codes_topic_partitions_seq [codes_rules] =
  codes_bind [OF codes_topic_partitions] codes_last [OF codes_topic_partitions]

subsection \<open>Refused objects\<close>

text \<open>An \<open>encode\<close> that returns an error before it makes a call.\<close>

definition enc_guard :: "bool \<Rightarrow> go_error \<Rightarrow> pe_op list" where
  "enc_guard refused e = (if refused then [fail e] else [])"

lemma codes_guard [codes_rules]: "\<not> refused \<Longrightarrow> codes d ops y \<Longrightarrow> codes d (enc_guard refused e @ ops) y"
  by (simp add: enc_guard_def)

subsection \<open>Slices of int32 in both forms\<close>

text \<open>
  The two forms treat nil and the empty slice differently: the old decoder returns nil for an empty
  array, and the compact encoder refuses nil.
\<close>

definition list_of :: "'a list option \<Rightarrow> 'a list" where
  "list_of v = (case v of None \<Rightarrow> [] | Some xs \<Rightarrow> xs)"

definition slice_of :: "'a list \<Rightarrow> 'a list option" where
  "slice_of xs = (if xs = [] then None else Some xs)"

definition enc_int32s :: "bool \<Rightarrow> int32 list option \<Rightarrow> pe_op list" where
  "enc_int32s compact v = (if compact then [putCompactInt32Array v] else [putInt32Array (list_of v)])"

definition dec_int32s :: "bool \<Rightarrow> int32 list option dec" where
  "dec_int32s compact =
     (if compact then getCompactInt32Array else dbind getInt32Array (\<lambda>xs. dreturn (slice_of xs)))"

definition wf_int32s :: "bool \<Rightarrow> int32 list option \<Rightarrow> bool" where
  "wf_int32s compact v \<longleftrightarrow> length (list_of v) \<le> 2147483647 \<and> (if compact then v \<noteq> None else v \<noteq> Some [])"

lemma codes_int32s: "wf_int32s compact v \<Longrightarrow> codes (dec_int32s compact) (enc_int32s compact v) v"
  using getCompactInt32Array_at [of v]
  by (cases v; cases compact)
    (auto simp: codes_def wf_int32s_def enc_int32s_def dec_int32s_def list_of_def slice_of_def
      ser_simps dec_steps ser_ncint32s_def intro!: readsI)

lemma dec_safe_int32s [safe_intros]: "dec_safe (dec_int32s compact)"
  unfolding dec_int32s_def by (intro safe_intros)

subsection \<open>Topics in the flexible versions\<close>

definition enc_flex_topics :: "('v \<Rightarrow> pe_op list) \<Rightarrow> 'v topics \<Rightarrow> pe_op list" where
  "enc_flex_topics enc m =
     enc_carray (\<lambda>(topic, prts).
       [putCompactString topic] @ enc_carray (\<lambda>(prt, x). putInt32 prt # enc x) prts @ [putEmptyTaggedFieldArray]) m"

definition dec_flex_topics :: "'v dec \<Rightarrow> 'v topics dec" where
  "dec_flex_topics d =
     dec_cmap (dbind getCompactString (\<lambda>topic.
       dbind (dec_cmap (dec_pair getInt32 d)) (\<lambda>prts.
       dbind getEmptyTaggedFieldArray (\<lambda>_. dreturn (topic, prts)))))"

lemma codes_flex_topics:
  assumes "wf_topics P m" "\<And>x. P x \<Longrightarrow> codes d (enc x) x"
  shows "codes (dec_flex_topics d) (enc_flex_topics enc m) m"
  using assms(1) unfolding dec_flex_topics_def enc_flex_topics_def wf_topics_def wf_partitions_def
  by - (rule codes_rules codes_last [OF assms(2)] | (auto simp: codes_simps; fail))+

lemma dec_safe_flex_topics [safe_intros]: "dec_safe d \<Longrightarrow> dec_safe (dec_flex_topics d)"
  unfolding dec_flex_topics_def by (intro safe_intros)

subsection \<open>Entries of the nested map\<close>

definition set_block :: "string \<Rightarrow> int32 \<Rightarrow> 'v \<Rightarrow> 'v topics \<Rightarrow> 'v topics" where
  "set_block topic prt x m =
     AList.update topic (AList.update prt x (case map_of m topic of None \<Rightarrow> [] | Some ps \<Rightarrow> ps)) m"

definition get_block :: "'v topics \<Rightarrow> string \<Rightarrow> int32 \<Rightarrow> 'v option" where
  "get_block m topic prt = (case map_of m topic of None \<Rightarrow> None | Some ps \<Rightarrow> map_of ps prt)"

lemma get_set_block:
  "get_block (set_block topic prt x m) topic' prt' =
     (if topic' = topic \<and> prt' = prt then Some x else get_block m topic' prt')"
  by (simp add: get_block_def set_block_def update_conv' split: option.splits)

lemma wf_set_block:
  assumes "wf_topics P m" "P x" "length topic \<le> 32767" "length m < 131070"
    and "\<And>ps. map_of m topic = Some ps \<Longrightarrow> length ps < 131070"
  shows "wf_topics P (set_block topic prt x m)"
proof -
  let ?ps = "case map_of m topic of None \<Rightarrow> [] | Some ps \<Rightarrow> ps"
  have len: "length (AList.update k v al) \<le> Suc (length al)" for k v and al :: "('k \<times> 'w) list"
    by (induction al) auto
  have mem: "set (AList.update k v al) \<subseteq> insert (k, v) (set al)" for k v and al :: "('k \<times> 'w) list"
    by (induction al) auto
  have ps: "wf_partitions P ?ps" "length ?ps < 131070"
    using assms(1,5) by (auto simp: wf_topics_def wf_partitions_def list_all_iff split: option.splits dest!: map_of_SomeD)
  then have "wf_partitions P (AList.update prt x ?ps)"
    using assms(2) len [of prt x ?ps] mem [of prt x ?ps]
    by (fastforce simp: wf_partitions_def list_all_iff distinct_update)
  with assms(1,3,4) len [of topic _ m] mem [of topic "AList.update prt x ?ps" m] show ?thesis
    unfolding wf_topics_def set_block_def list_all_iff
    by (auto simp: distinct_update intro: order_trans [OF len])
qed

end
