(* ===== verification/Txn_Messages.thy ===== *)
theory Txn_Messages
  imports Wire_Steps
begin

text \<open>
  The messages of transactional production: \<open>init_producer_id_request.go\<close>,
  \<open>add_partitions_to_txn_request.go\<close>, \<open>add_offsets_to_txn_request.go\<close>, \<open>end_txn_request.go\<close>,
  \<open>txn_offset_commit_request.go\<close> and the responses to them. A request is decoded into the object
  that \<open>allocateBody\<close> makes, which holds the version; a response into an empty one. The responses
  to EndTxn and AddOffsetsToTxn do not store the version they were decoded with.

  Every type interprets \<open>wire_codec\<close>: what is sent is read back.
\<close>

subsection \<open>InitProducerID\<close>

record InitProducerIDRequest =
  ipq_Version :: int
  ipq_TransactionalID :: nstring
  ipq_TransactionTimeout :: int64
  ipq_ProducerID :: int64
  ipq_ProducerEpoch :: int16

definition enc_InitProducerIDRequest :: "InitProducerIDRequest \<Rightarrow> pe_op list" where
  "enc_InitProducerIDRequest r =
     (if ipq_Version r < 2 then [putNullableString (ipq_TransactionalID r)] else [putNullableCompactString (ipq_TransactionalID r)]) @
     enc_millis32 (ipq_TransactionTimeout r) @
     (if ipq_Version r \<ge> 3 then [putInt64 (ipq_ProducerID r)] else []) @
     (if ipq_Version r \<ge> 3 then [putInt16 (ipq_ProducerEpoch r)] else []) @
     (if ipq_Version r \<ge> 2 then [putEmptyTaggedFieldArray] else [])"

definition dec_InitProducerIDRequest :: "int \<Rightarrow> InitProducerIDRequest dec" where
  "dec_InitProducerIDRequest version =
     dbind (if version < 2 then getNullableString else getCompactNullableString) (\<lambda>transactionalID.
     dbind dec_millis32 (\<lambda>transactionTimeout.
     dbind (if version \<ge> 3 then getInt64 else dreturn 0) (\<lambda>producerID.
     dbind (if version \<ge> 3 then getInt16 else dreturn 0) (\<lambda>producerEpoch.
     dbind (if version \<ge> 2 then getEmptyTaggedFieldArray else dreturn 0) (\<lambda>_.
       dreturn \<lparr>ipq_Version = version, ipq_TransactionalID = transactionalID,
         ipq_TransactionTimeout = transactionTimeout, ipq_ProducerID = producerID,
         ipq_ProducerEpoch = producerEpoch\<rparr>)))))"

definition wf_InitProducerIDRequest :: "InitProducerIDRequest \<Rightarrow> bool" where
  "wf_InitProducerIDRequest r \<longleftrightarrow> pred_option (\<lambda>s. length s \<le> 32767) (ipq_TransactionalID r) \<and>
     wf_millis32 (ipq_TransactionTimeout r) \<and>
     (ipq_Version r \<ge> 3 \<or> ipq_ProducerID r = 0) \<and>
     (ipq_Version r \<ge> 3 \<or> ipq_ProducerEpoch r = 0)"

interpretation ipq: wire_codec enc_InitProducerIDRequest dec_InitProducerIDRequest ipq_Version
  wf_InitProducerIDRequest
  by (rule wire_codecI, unfold enc_InitProducerIDRequest_def dec_InitProducerIDRequest_def
      wf_InitProducerIDRequest_def)
    (rule codes_rules | (auto simp: codes_simps; fail))+

record InitProducerIDResponse =
  ipr_Version :: int
  ipr_ThrottleTime :: int64
  ipr_Err :: KError
  ipr_ProducerID :: int64
  ipr_ProducerEpoch :: int16

definition enc_InitProducerIDResponse :: "InitProducerIDResponse \<Rightarrow> pe_op list" where
  "enc_InitProducerIDResponse r =
     enc_millis32 (ipr_ThrottleTime r) @
     [putInt16 (ipr_Err r), putInt64 (ipr_ProducerID r), putInt16 (ipr_ProducerEpoch r)] @
     (if ipr_Version r \<ge> 2 then [putEmptyTaggedFieldArray] else [])"

definition dec_InitProducerIDResponse :: "int \<Rightarrow> InitProducerIDResponse dec" where
  "dec_InitProducerIDResponse version =
     dbind dec_millis32 (\<lambda>throttleTime.
     dbind getInt16 (\<lambda>err.
     dbind getInt64 (\<lambda>producerID.
     dbind getInt16 (\<lambda>producerEpoch.
     dbind (if version \<ge> 2 then getEmptyTaggedFieldArray else dreturn 0) (\<lambda>_.
       dreturn \<lparr>ipr_Version = version, ipr_ThrottleTime = throttleTime, ipr_Err = err,
         ipr_ProducerID = producerID, ipr_ProducerEpoch = producerEpoch\<rparr>)))))"

definition wf_InitProducerIDResponse :: "InitProducerIDResponse \<Rightarrow> bool" where
  "wf_InitProducerIDResponse r \<longleftrightarrow> wf_millis32 (ipr_ThrottleTime r)"

interpretation ipr: wire_codec enc_InitProducerIDResponse dec_InitProducerIDResponse ipr_Version
  wf_InitProducerIDResponse
  by (rule wire_codecI, unfold enc_InitProducerIDResponse_def dec_InitProducerIDResponse_def
      wf_InitProducerIDResponse_def)
    (rule codes_rules | (auto simp: codes_simps; fail))+

subsection \<open>AddPartitionsToTxn\<close>

record AddPartitionsToTxnRequest =
  apq_Version :: int
  apq_TransactionalID :: string
  apq_ProducerID :: int64
  apq_ProducerEpoch :: int16
  apq_TopicPartitions :: "(string \<times> int32 list) list"

definition enc_AddPartitionsToTxnRequest :: "AddPartitionsToTxnRequest \<Rightarrow> pe_op list" where
  "enc_AddPartitionsToTxnRequest r =
     [putString (apq_TransactionalID r), putInt64 (apq_ProducerID r),
      putInt16 (apq_ProducerEpoch r)] @
     enc_topic_partitions (apq_TopicPartitions r)"

definition dec_AddPartitionsToTxnRequest :: "int \<Rightarrow> AddPartitionsToTxnRequest dec" where
  "dec_AddPartitionsToTxnRequest version =
     dbind getString (\<lambda>transactionalID.
     dbind getInt64 (\<lambda>producerID.
     dbind getInt16 (\<lambda>producerEpoch.
     dbind dec_topic_partitions (\<lambda>topicPartitions.
       dreturn \<lparr>apq_Version = version, apq_TransactionalID = transactionalID, apq_ProducerID = producerID,
         apq_ProducerEpoch = producerEpoch, apq_TopicPartitions = topicPartitions\<rparr>))))"

definition wf_AddPartitionsToTxnRequest :: "AddPartitionsToTxnRequest \<Rightarrow> bool" where
  "wf_AddPartitionsToTxnRequest r \<longleftrightarrow> length (apq_TransactionalID r) \<le> 32767 \<and>
     wf_topic_partitions (apq_TopicPartitions r)"

interpretation apq: wire_codec enc_AddPartitionsToTxnRequest dec_AddPartitionsToTxnRequest apq_Version
  wf_AddPartitionsToTxnRequest
  by (rule wire_codecI, unfold enc_AddPartitionsToTxnRequest_def dec_AddPartitionsToTxnRequest_def
      wf_AddPartitionsToTxnRequest_def)
    (rule codes_rules | (auto simp: codes_simps; fail))+

record PartitionError =
  pte_Partition :: int32
  pte_Err :: KError

definition enc_PartitionError :: "PartitionError \<Rightarrow> pe_op list" where
  "enc_PartitionError r =
     [putInt32 (pte_Partition r), putInt16 (pte_Err r)]"

definition dec_PartitionError :: "PartitionError dec" where
  "dec_PartitionError =
     dbind getInt32 (\<lambda>prt.
     dbind getInt16 (\<lambda>err.
       dreturn \<lparr>pte_Partition = prt, pte_Err = err\<rparr>))"

lemma enc_PartitionError_nonempty: "ser_ops (enc_PartitionError r) \<noteq> []"
  by (simp add: enc_PartitionError_def ser_simps)

interpretation pte: wire_elem enc_PartitionError "\<lambda>_. dec_PartitionError" "\<lambda>_. 0"
  "\<lambda>_. True"
  by (rule wire_elemI [OF _ enc_PartitionError_nonempty], unfold enc_PartitionError_def dec_PartitionError_def)
    (rule codes_rules | (auto simp: codes_simps; fail))+

record AddPartitionsToTxnResponse =
  apr_Version :: int
  apr_ThrottleTime :: int64
  apr_Errors :: "(string \<times> PartitionError list) list"

definition enc_AddPartitionsToTxnResponse :: "AddPartitionsToTxnResponse \<Rightarrow> pe_op list" where
  "enc_AddPartitionsToTxnResponse r =
     enc_millis32 (apr_ThrottleTime r) @
     enc_array (\<lambda>(k, xs). putString k # enc_array enc_PartitionError xs) (apr_Errors r)"

definition dec_AddPartitionsToTxnResponse :: "int \<Rightarrow> AddPartitionsToTxnResponse dec" where
  "dec_AddPartitionsToTxnResponse version =
     dbind dec_millis32 (\<lambda>throttleTime.
     dbind (dec_map (dec_pair getString (dec_array dec_PartitionError))) (\<lambda>errors.
       dreturn \<lparr>apr_Version = version, apr_ThrottleTime = throttleTime, apr_Errors = errors\<rparr>))"

definition wf_AddPartitionsToTxnResponse :: "AddPartitionsToTxnResponse \<Rightarrow> bool" where
  "wf_AddPartitionsToTxnResponse r \<longleftrightarrow> wf_millis32 (apr_ThrottleTime r) \<and>
     length (apr_Errors r) \<le> 131070 \<and> distinct (map fst (apr_Errors r)) \<and>
     list_all (\<lambda>(k, xs). length k \<le> 32767 \<and> length xs \<le> 131070) (apr_Errors r)"

interpretation apr: wire_codec enc_AddPartitionsToTxnResponse dec_AddPartitionsToTxnResponse apr_Version
  wf_AddPartitionsToTxnResponse
  by (rule wire_codecI, unfold enc_AddPartitionsToTxnResponse_def dec_AddPartitionsToTxnResponse_def
      wf_AddPartitionsToTxnResponse_def)
    (rule codes_rules | (auto simp: codes_simps intro!: pte.codes pte.nonempty; fail))+

subsection \<open>AddOffsetsToTxn\<close>

record AddOffsetsToTxnRequest =
  aoq_Version :: int
  aoq_TransactionalID :: string
  aoq_ProducerID :: int64
  aoq_ProducerEpoch :: int16
  aoq_GroupID :: string

definition enc_AddOffsetsToTxnRequest :: "AddOffsetsToTxnRequest \<Rightarrow> pe_op list" where
  "enc_AddOffsetsToTxnRequest r =
     [putString (aoq_TransactionalID r), putInt64 (aoq_ProducerID r),
      putInt16 (aoq_ProducerEpoch r), putString (aoq_GroupID r)]"

definition dec_AddOffsetsToTxnRequest :: "int \<Rightarrow> AddOffsetsToTxnRequest dec" where
  "dec_AddOffsetsToTxnRequest version =
     dbind getString (\<lambda>transactionalID.
     dbind getInt64 (\<lambda>producerID.
     dbind getInt16 (\<lambda>producerEpoch.
     dbind getString (\<lambda>groupID.
       dreturn \<lparr>aoq_Version = version, aoq_TransactionalID = transactionalID, aoq_ProducerID = producerID,
         aoq_ProducerEpoch = producerEpoch, aoq_GroupID = groupID\<rparr>))))"

definition wf_AddOffsetsToTxnRequest :: "AddOffsetsToTxnRequest \<Rightarrow> bool" where
  "wf_AddOffsetsToTxnRequest r \<longleftrightarrow> length (aoq_TransactionalID r) \<le> 32767 \<and>
     length (aoq_GroupID r) \<le> 32767"

interpretation aoq: wire_codec enc_AddOffsetsToTxnRequest dec_AddOffsetsToTxnRequest aoq_Version
  wf_AddOffsetsToTxnRequest
  by (rule wire_codecI, unfold enc_AddOffsetsToTxnRequest_def dec_AddOffsetsToTxnRequest_def
      wf_AddOffsetsToTxnRequest_def)
    (rule codes_rules | (auto simp: codes_simps; fail))+

record AddOffsetsToTxnResponse =
  aor_Version :: int
  aor_ThrottleTime :: int64
  aor_Err :: KError

definition enc_AddOffsetsToTxnResponse :: "AddOffsetsToTxnResponse \<Rightarrow> pe_op list" where
  "enc_AddOffsetsToTxnResponse r =
     enc_millis32 (aor_ThrottleTime r) @
     [putInt16 (aor_Err r)]"

definition dec_AddOffsetsToTxnResponse :: "int \<Rightarrow> AddOffsetsToTxnResponse dec" where
  "dec_AddOffsetsToTxnResponse version =
     dbind dec_millis32 (\<lambda>throttleTime.
     dbind getInt16 (\<lambda>err.
       dreturn \<lparr>aor_Version = 0, aor_ThrottleTime = throttleTime, aor_Err = err\<rparr>))"

definition wf_AddOffsetsToTxnResponse :: "AddOffsetsToTxnResponse \<Rightarrow> bool" where
  "wf_AddOffsetsToTxnResponse r \<longleftrightarrow> aor_Version r = 0 \<and>
     wf_millis32 (aor_ThrottleTime r)"

interpretation aor: wire_codec enc_AddOffsetsToTxnResponse dec_AddOffsetsToTxnResponse "\<lambda>_. v"
  wf_AddOffsetsToTxnResponse for v
  by (rule wire_codecI, unfold enc_AddOffsetsToTxnResponse_def dec_AddOffsetsToTxnResponse_def
      wf_AddOffsetsToTxnResponse_def)
    (rule codes_rules | (auto simp: codes_simps; fail))+

subsection \<open>EndTxn\<close>

record EndTxnRequest =
  etq_Version :: int
  etq_TransactionalID :: string
  etq_ProducerID :: int64
  etq_ProducerEpoch :: int16
  etq_TransactionResult :: bool

definition enc_EndTxnRequest :: "EndTxnRequest \<Rightarrow> pe_op list" where
  "enc_EndTxnRequest r =
     [putString (etq_TransactionalID r), putInt64 (etq_ProducerID r),
      putInt16 (etq_ProducerEpoch r), putBool (etq_TransactionResult r)]"

definition dec_EndTxnRequest :: "int \<Rightarrow> EndTxnRequest dec" where
  "dec_EndTxnRequest version =
     dbind getString (\<lambda>transactionalID.
     dbind getInt64 (\<lambda>producerID.
     dbind getInt16 (\<lambda>producerEpoch.
     dbind getBool (\<lambda>transactionResult.
       dreturn \<lparr>etq_Version = version, etq_TransactionalID = transactionalID, etq_ProducerID = producerID,
         etq_ProducerEpoch = producerEpoch, etq_TransactionResult = transactionResult\<rparr>))))"

definition wf_EndTxnRequest :: "EndTxnRequest \<Rightarrow> bool" where
  "wf_EndTxnRequest r \<longleftrightarrow> length (etq_TransactionalID r) \<le> 32767"

interpretation etq: wire_codec enc_EndTxnRequest dec_EndTxnRequest etq_Version
  wf_EndTxnRequest
  by (rule wire_codecI, unfold enc_EndTxnRequest_def dec_EndTxnRequest_def
      wf_EndTxnRequest_def)
    (rule codes_rules | (auto simp: codes_simps; fail))+

record EndTxnResponse =
  etr_Version :: int
  etr_ThrottleTime :: int64
  etr_Err :: KError

definition enc_EndTxnResponse :: "EndTxnResponse \<Rightarrow> pe_op list" where
  "enc_EndTxnResponse r =
     enc_millis32 (etr_ThrottleTime r) @
     [putInt16 (etr_Err r)]"

definition dec_EndTxnResponse :: "int \<Rightarrow> EndTxnResponse dec" where
  "dec_EndTxnResponse version =
     dbind dec_millis32 (\<lambda>throttleTime.
     dbind getInt16 (\<lambda>err.
       dreturn \<lparr>etr_Version = 0, etr_ThrottleTime = throttleTime, etr_Err = err\<rparr>))"

definition wf_EndTxnResponse :: "EndTxnResponse \<Rightarrow> bool" where
  "wf_EndTxnResponse r \<longleftrightarrow> etr_Version r = 0 \<and>
     wf_millis32 (etr_ThrottleTime r)"

interpretation etr: wire_codec enc_EndTxnResponse dec_EndTxnResponse "\<lambda>_. v"
  wf_EndTxnResponse for v
  by (rule wire_codecI, unfold enc_EndTxnResponse_def dec_EndTxnResponse_def
      wf_EndTxnResponse_def)
    (rule codes_rules | (auto simp: codes_simps; fail))+

subsection \<open>TxnOffsetCommit\<close>

record PartitionOffsetMetadata =
  pom_Partition :: int32
  pom_Offset :: int64
  pom_LeaderEpoch :: int32
  pom_Metadata :: nstring

definition enc_PartitionOffsetMetadata :: "int \<Rightarrow> PartitionOffsetMetadata \<Rightarrow> pe_op list" where
  "enc_PartitionOffsetMetadata version r =
     [putInt32 (pom_Partition r), putInt64 (pom_Offset r)] @
     (if version \<ge> 2 then [putInt32 (pom_LeaderEpoch r)] else []) @
     [putNullableString (pom_Metadata r)]"

definition dec_PartitionOffsetMetadata :: "int \<Rightarrow> PartitionOffsetMetadata dec" where
  "dec_PartitionOffsetMetadata version =
     dbind getInt32 (\<lambda>prt.
     dbind getInt64 (\<lambda>offset.
     dbind (if version \<ge> 2 then getInt32 else dreturn 0) (\<lambda>leaderEpoch.
     dbind getNullableString (\<lambda>metadata.
       dreturn \<lparr>pom_Partition = prt, pom_Offset = offset, pom_LeaderEpoch = leaderEpoch,
         pom_Metadata = metadata\<rparr>))))"

definition wf_PartitionOffsetMetadata :: "int \<Rightarrow> PartitionOffsetMetadata \<Rightarrow> bool" where
  "wf_PartitionOffsetMetadata version r \<longleftrightarrow> (version \<ge> 2 \<or> pom_LeaderEpoch r = 0) \<and>
     pred_option (\<lambda>s. length s \<le> 32767) (pom_Metadata r)"

lemma enc_PartitionOffsetMetadata_nonempty: "ser_ops (enc_PartitionOffsetMetadata version r) \<noteq> []"
  by (simp add: enc_PartitionOffsetMetadata_def ser_simps)

interpretation pom: wire_elem "enc_PartitionOffsetMetadata v" dec_PartitionOffsetMetadata "\<lambda>_. v"
  "wf_PartitionOffsetMetadata v" for v
  by (rule wire_elemI [OF _ enc_PartitionOffsetMetadata_nonempty], unfold enc_PartitionOffsetMetadata_def dec_PartitionOffsetMetadata_def
      wf_PartitionOffsetMetadata_def)
    (rule codes_rules | (auto simp: codes_simps; fail))+

record TxnOffsetCommitRequest =
  tcq_Version :: int
  tcq_TransactionalID :: string
  tcq_GroupID :: string
  tcq_ProducerID :: int64
  tcq_ProducerEpoch :: int16
  tcq_Topics :: "(string \<times> PartitionOffsetMetadata list) list"

definition enc_TxnOffsetCommitRequest :: "TxnOffsetCommitRequest \<Rightarrow> pe_op list" where
  "enc_TxnOffsetCommitRequest r =
     [putString (tcq_TransactionalID r), putString (tcq_GroupID r), putInt64 (tcq_ProducerID r),
      putInt16 (tcq_ProducerEpoch r)] @
     enc_array (\<lambda>(k, xs). putString k # enc_array (enc_PartitionOffsetMetadata (tcq_Version r)) xs) (tcq_Topics r)"

definition dec_TxnOffsetCommitRequest :: "int \<Rightarrow> TxnOffsetCommitRequest dec" where
  "dec_TxnOffsetCommitRequest version =
     dbind getString (\<lambda>transactionalID.
     dbind getString (\<lambda>groupID.
     dbind getInt64 (\<lambda>producerID.
     dbind getInt16 (\<lambda>producerEpoch.
     dbind (dec_map (dec_pair getString (dec_array (dec_PartitionOffsetMetadata version)))) (\<lambda>tops.
       dreturn \<lparr>tcq_Version = version, tcq_TransactionalID = transactionalID, tcq_GroupID = groupID,
         tcq_ProducerID = producerID, tcq_ProducerEpoch = producerEpoch, tcq_Topics = tops\<rparr>)))))"

definition wf_TxnOffsetCommitRequest :: "TxnOffsetCommitRequest \<Rightarrow> bool" where
  "wf_TxnOffsetCommitRequest r \<longleftrightarrow> length (tcq_TransactionalID r) \<le> 32767 \<and>
     length (tcq_GroupID r) \<le> 32767 \<and>
     length (tcq_Topics r) \<le> 131070 \<and> distinct (map fst (tcq_Topics r)) \<and>
     list_all (\<lambda>(k, xs). length k \<le> 32767 \<and> length xs \<le> 131070 \<and> list_all (wf_PartitionOffsetMetadata (tcq_Version r)) xs) (tcq_Topics r)"

interpretation tcq: wire_codec enc_TxnOffsetCommitRequest dec_TxnOffsetCommitRequest tcq_Version
  wf_TxnOffsetCommitRequest
  by (rule wire_codecI, unfold enc_TxnOffsetCommitRequest_def dec_TxnOffsetCommitRequest_def
      wf_TxnOffsetCommitRequest_def)
    (rule codes_rules | (auto simp: codes_simps intro!: pom.codes pom.nonempty; fail))+

record TxnOffsetCommitResponse =
  tcr_Version :: int
  tcr_ThrottleTime :: int64
  tcr_Topics :: "(string \<times> PartitionError list) list"

definition enc_TxnOffsetCommitResponse :: "TxnOffsetCommitResponse \<Rightarrow> pe_op list" where
  "enc_TxnOffsetCommitResponse r =
     enc_millis32 (tcr_ThrottleTime r) @
     enc_array (\<lambda>(k, xs). putString k # enc_array enc_PartitionError xs) (tcr_Topics r)"

definition dec_TxnOffsetCommitResponse :: "int \<Rightarrow> TxnOffsetCommitResponse dec" where
  "dec_TxnOffsetCommitResponse version =
     dbind dec_millis32 (\<lambda>throttleTime.
     dbind (dec_map (dec_pair getString (dec_array dec_PartitionError))) (\<lambda>tops.
       dreturn \<lparr>tcr_Version = version, tcr_ThrottleTime = throttleTime, tcr_Topics = tops\<rparr>))"

definition wf_TxnOffsetCommitResponse :: "TxnOffsetCommitResponse \<Rightarrow> bool" where
  "wf_TxnOffsetCommitResponse r \<longleftrightarrow> wf_millis32 (tcr_ThrottleTime r) \<and>
     length (tcr_Topics r) \<le> 131070 \<and> distinct (map fst (tcr_Topics r)) \<and>
     list_all (\<lambda>(k, xs). length k \<le> 32767 \<and> length xs \<le> 131070) (tcr_Topics r)"

interpretation tcr: wire_codec enc_TxnOffsetCommitResponse dec_TxnOffsetCommitResponse tcr_Version
  wf_TxnOffsetCommitResponse
  by (rule wire_codecI, unfold enc_TxnOffsetCommitResponse_def dec_TxnOffsetCommitResponse_def
      wf_TxnOffsetCommitResponse_def)
    (rule codes_rules | (auto simp: codes_simps intro!: pte.codes pte.nonempty; fail))+

end
