(* ===== verification/Net_Address.thy ===== *)
theory Net_Address
  imports Wire_Steps
begin

text \<open>
  Broker addresses: what \<open>broker.go\<close> uses of the packages \<open>net\<close>, \<open>strconv\<close> and \<open>fmt\<close>
  (\<open>JoinHostPort\<close>, \<open>SplitHostPort\<close>, \<open>ParseInt\<close> with base 10 and 32 bits, \<open>Sprint\<close> of an int32), and
  the wire form of a broker, which several responses carry. A broker is known here by its id, its
  address and its rack; its connection is not modelled.

  The lemmas: a host that holds no bracket is split off again, so a broker that was decoded can be
  encoded and a broker with such an address survives the round trip.
\<close>

subsection \<open>Numbers\<close>

definition show_int :: "int \<Rightarrow> string" where
  "show_int n = (if n < 0 then CHR ''-'' # show_nat (nat (- n)) else show_nat (nat n))"

definition ParseInt32 :: "string \<Rightarrow> int32 res" where
  "ParseInt32 s =
     (let (neg, ds) = (case s of c # cs \<Rightarrow> if c = CHR ''-'' then (True, cs)
                                           else if c = CHR ''+'' then (False, cs) else (False, s)
                       | [] \<Rightarrow> (False, s))
      in if \<not> is_number ds then Err (OtherError ''strconv.ParseInt: invalid syntax'')
         else
           (let n = (if neg then - int (number_value ds) else int (number_value ds))
            in if - (2 ^ 31) \<le> n \<and> n < 2 ^ 31 then Ok (word_of_int n)
               else Err (OtherError ''strconv.ParseInt: value out of range'')))"

subsection \<open>Host and port\<close>

text \<open>The index of the first and of the last occurrence of a character.\<close>

fun index_of :: "char \<Rightarrow> string \<Rightarrow> nat option" where
  "index_of c [] = None"
| "index_of c (d # ds) = (if c = d then Some 0 else map_option Suc (index_of c ds))"

definition last_index_of :: "char \<Rightarrow> string \<Rightarrow> nat option" where
  "last_index_of c s = map_option (\<lambda>i. length s - 1 - i) (index_of c (rev s))"

definition JoinHostPort :: "string \<Rightarrow> string \<Rightarrow> string" where
  "JoinHostPort host port =
     (if CHR '':'' \<in> set host then ''['' @ host @ '']:'' @ port else host @ '':'' @ port)"

definition addrErr :: "string \<Rightarrow> 'a res" where
  "addrErr why = Err (OtherError why)"

definition SplitHostPort :: "string \<Rightarrow> (string \<times> string) res" where
  "SplitHostPort s =
     (case last_index_of CHR '':'' s of
        None \<Rightarrow> addrErr ''missing port in address''
      | Some i \<Rightarrow>
          res_bind
            (if hd s = CHR ''['' then
               (case index_of CHR '']'' s of
                  None \<Rightarrow> addrErr ''missing ] in address''
                | Some e \<Rightarrow>
                    if e + 1 = length s then addrErr ''missing port in address''
                    else if e + 1 = i then Ok (take (e - 1) (drop 1 s), 1, e + 1)
                    else if s ! (e + 1) = CHR '':'' then addrErr ''too many colons in address''
                    else addrErr ''missing port in address'')
             else
               (let host = take i s
                in if index_of CHR '':'' host \<noteq> None then addrErr ''too many colons in address''
                   else Ok (host, 0, 0)))
            (\<lambda>(host, j, k).
               if index_of CHR ''['' (drop j s) \<noteq> None then addrErr ''unexpected [ in address''
               else if index_of CHR '']'' (drop k s) \<noteq> None then addrErr ''unexpected ] in address''
               else Ok (host, drop (i + 1) s)))"

lemma index_of_None: "index_of c s = None \<longleftrightarrow> c \<notin> set s"
  by (induction s) auto

lemma index_of_append:
  "index_of c (xs @ ys) = (if c \<in> set xs then index_of c xs else map_option (\<lambda>i. length xs + i) (index_of c ys))"
  by (induction xs; cases "index_of c ys") (auto simp: option.map_comp o_def)

lemma last_index_of_join: "c \<notin> set port \<Longrightarrow> last_index_of c (host @ c # port) = Some (length host)"
  by (simp add: last_index_of_def index_of_append)

text \<open>A host without brackets and a port without colons and brackets.\<close>

definition plain_host :: "string \<Rightarrow> bool" where
  "plain_host host \<longleftrightarrow> CHR ''['' \<notin> set host \<and> CHR '']'' \<notin> set host"

definition plain_port :: "string \<Rightarrow> bool" where
  "plain_port port \<longleftrightarrow> CHR '':'' \<notin> set port \<and> CHR ''['' \<notin> set port \<and> CHR '']'' \<notin> set port"

lemma SplitHostPort_JoinHostPort:
  assumes "plain_host host" "plain_port port"
  shows "SplitHostPort (JoinHostPort host port) = Ok (host, port)"
proof (cases "CHR '':'' \<in> set host")
  case True
  have "JoinHostPort host port = (CHR ''['' # host @ '']'') @ CHR '':'' # port"
    using True by (simp add: JoinHostPort_def)
  moreover have "last_index_of CHR '':'' ((CHR ''['' # host @ '']'') @ CHR '':'' # port) = Some (length host + 2)"
    using assms by (subst last_index_of_join) (simp_all add: plain_port_def)
  ultimately show ?thesis
    using assms by (simp add: SplitHostPort_def index_of_append index_of_None plain_host_def plain_port_def)
next
  case False
  have j: "JoinHostPort host port = host @ CHR '':'' # port" using False by (simp add: JoinHostPort_def)
  have "last_index_of CHR '':'' (host @ CHR '':'' # port) = Some (length host)"
    using assms by (intro last_index_of_join) (simp add: plain_port_def)
  moreover have "hd (host @ CHR '':'' # port) \<noteq> CHR ''[''"
    using assms(1) by (cases host) (auto simp: plain_host_def)
  ultimately show ?thesis
    using assms False by (simp add: SplitHostPort_def j index_of_None plain_host_def plain_port_def)
qed

lemma show_nat_chars: "\<not> is_digit c \<Longrightarrow> c \<notin> set (show_nat n)"
  using is_number_show_nat [of n] by (auto simp: is_number_def list_all_iff)

lemma not_digits:
  "\<not> is_digit CHR '':''" "\<not> is_digit CHR ''[''" "\<not> is_digit CHR '']''" "\<not> is_digit CHR ''-''" "\<not> is_digit CHR ''+''"
  by (simp_all add: is_digit_def)

lemma plain_port_show_int: "plain_port (show_int n)"
  by (simp add: plain_port_def show_int_def show_nat_chars not_digits)

lemma show_nat_not_sign: "\<exists>c cs. show_nat n = c # cs \<and> c \<noteq> CHR ''-'' \<and> c \<noteq> CHR ''+''"
proof -
  obtain c cs where c: "show_nat n = c # cs"
    using is_number_show_nat [of n] by (cases "show_nat n") (simp_all add: is_number_def)
  then have "is_digit c" using is_number_show_nat [of n] by (simp add: is_number_def)
  then have "c \<noteq> CHR ''-''" "c \<noteq> CHR ''+''" using not_digits by blast+
  with c show ?thesis by blast
qed

lemma ParseInt32_show_int: "ParseInt32 (show_int (sint w)) = Ok w"
proof -
  have r: "- (2 ^ 31) \<le> sint w" "sint w < 2 ^ 31"
    using sint_greater_eq [of w] sint_less [of w] by simp_all
  obtain c cs where c: "show_nat (nat (sint w)) = c # cs" "c \<noteq> CHR ''-''" "c \<noteq> CHR ''+''"
    using show_nat_not_sign by blast
  have num: "is_number (c # cs)" "number_value (c # cs) = nat (sint w)"
    using is_number_show_nat [of "nat (sint w)"] number_value_show_nat [of "nat (sint w)"] by (simp_all add: c(1))
  show ?thesis
  proof (cases "sint w < 0")
    case True
    then show ?thesis using r by (simp add: show_int_def ParseInt32_def is_number_show_nat)
  next
    case False
    then show ?thesis using r c num by (simp add: show_int_def ParseInt32_def Let_def)
  qed
qed

subsection \<open>Brokers on the wire\<close>

record Broker =
  br_id :: int32
  br_addr :: string
  br_rack :: nstring

text \<open>The calls of an \<open>encode\<close> after a computation that may fail.\<close>

definition ops_of :: "'a res \<Rightarrow> ('a \<Rightarrow> pe_op list) \<Rightarrow> pe_op list" where
  "ops_of r f = (case r of Ok x \<Rightarrow> f x | Err e \<Rightarrow> [fail e] | _ \<Rightarrow> [fail (OtherError ''panic'')])"

definition enc_Broker :: "int \<Rightarrow> Broker \<Rightarrow> pe_op list" where
  "enc_Broker version b =
     ops_of (SplitHostPort (br_addr b)) (\<lambda>(host, portstr).
     ops_of (ParseInt32 portstr) (\<lambda>port.
       [putInt32 (br_id b)] @
       (if version < 9 then [putString host] else [putCompactString host]) @
       [putInt32 port] @
       (if version \<ge> 1
        then (if version < 9 then [putNullableString (br_rack b)] else [putNullableCompactString (br_rack b)])
        else []) @
       (if version \<ge> 9 then [putEmptyTaggedFieldArray] else [])))"

definition dec_Broker :: "int \<Rightarrow> Broker dec" where
  "dec_Broker version =
     dbind getInt32 (\<lambda>ident.
     dbind (if version < 9 then getString else getCompactString) (\<lambda>host.
     dbind getInt32 (\<lambda>port.
     dbind (if version \<ge> 1 then (if version < 9 then getNullableString else getCompactNullableString)
            else dreturn None) (\<lambda>rack.
     (let addr = JoinHostPort host (show_int (sint port))
      in dbind (dlift (SplitHostPort addr)) (\<lambda>_.
         dbind (if version \<ge> 9 then getEmptyTaggedFieldArray else dreturn 0) (\<lambda>_.
           dreturn \<lparr>br_id = ident, br_addr = addr, br_rack = rack\<rparr>)))))))"

text \<open>A broker whose address is a host without brackets and a port in the usual form.\<close>

definition wf_Broker :: "int \<Rightarrow> Broker \<Rightarrow> bool" where
  "wf_Broker version b \<longleftrightarrow>
     (case SplitHostPort (br_addr b) of
        Ok (host, portstr) \<Rightarrow>
          (case ParseInt32 portstr of
             Ok port \<Rightarrow> plain_host host \<and> length host \<le> 32767 \<and>
               br_addr b = JoinHostPort host (show_int (sint port))
           | _ \<Rightarrow> False)
      | _ \<Rightarrow> False) \<and>
     (if version \<ge> 1 then pred_option (\<lambda>s. length s \<le> 32767) (br_rack b) else br_rack b = None)"

lemma codes_lift: "codes (f x) ops y \<Longrightarrow> r = Ok x \<Longrightarrow> codes (dbind (dlift r) f) ops y"
  by (simp add: codes_def reads_def dbind_def dlift_def)

definition broker_ops :: "int \<Rightarrow> Broker \<Rightarrow> string \<Rightarrow> int32 \<Rightarrow> pe_op list" where
  "broker_ops version b host port =
     [putInt32 (br_id b)] @
     (if version < 9 then [putString host] else [putCompactString host]) @
     [putInt32 port] @
     (if version \<ge> 1
      then (if version < 9 then [putNullableString (br_rack b)] else [putNullableCompactString (br_rack b)])
      else []) @
     (if version \<ge> 9 then [putEmptyTaggedFieldArray] else [])"

lemma enc_Broker_wf:
  assumes "wf_Broker version b"
  shows "\<exists>host port. enc_Broker version b = broker_ops version b host port \<and> length host \<le> 32767 \<and>
    plain_host host \<and> br_addr b = JoinHostPort host (show_int (sint port))"
  using assms unfolding wf_Broker_def enc_Broker_def broker_ops_def [symmetric]
  by (fastforce simp: ops_of_def split: res.splits prod.splits)

lemma enc_Broker_nonempty: "wf_Broker version b \<Longrightarrow> ser_ops (enc_Broker version b) \<noteq> []"
  by (drule enc_Broker_wf) (auto simp: broker_ops_def ser_simps)

interpretation brk: wire_elem "enc_Broker v" dec_Broker "\<lambda>_. v" "wf_Broker v" for v
proof (rule wire_elemI [OF _ enc_Broker_nonempty])
  fix b assume wf: "wf_Broker v b"
  from enc_Broker_wf [OF this] obtain host port where e: "enc_Broker v b = broker_ops v b host port"
    and h: "length host \<le> 32767" "plain_host host" "br_addr b = JoinHostPort host (show_int (sint port))"
    by blast
  have r: "if v \<ge> 1 then pred_option (\<lambda>s. length s \<le> 32767) (br_rack b) else br_rack b = None"
    using wf by (simp add: wf_Broker_def)
  have s: "SplitHostPort (JoinHostPort host (show_int (sint port))) = Ok (host, show_int (sint port))"
    using h(2) plain_port_show_int by (rule SplitHostPort_JoinHostPort)
  show "codes (dec_Broker v) (enc_Broker v b) b"
    unfolding e broker_ops_def dec_Broker_def Let_def
    by (rule codes_rules codes_if codes_lift | use h r s in \<open>auto simp: codes_simps split: if_splits\<close>; fail)+
qed assumption

end
