(* ===== verification/Txn_Manager.thy ===== *)
theory Txn_Manager
  imports Txn_Messages Net_Address
begin

unbundle bit_operations_syntax

text \<open>
  \<open>transaction_manager.go\<close>: the state an idempotent or transactional producer keeps, its status
  flags with the table of allowed transitions, and every method. The broker is not part of the
  program: a request gets an answer that is a parameter of the operation, a function of the request
  and of the number of the attempt, so that every behaviour of the coordinator is covered. Backoffs
  and log lines are left out. Each method is one atomic step, which is what its locks are for; a Go
  map is an association list, and a loop over a map visits the entries in the order of the list.

  The theorems about it are in \<open>Txn_Safety\<close>.
\<close>

subsection \<open>Status flags\<close>

type_synonym ProducerTxnStatusFlag = "16 word"

abbreviation (input) FlagUninitialized :: ProducerTxnStatusFlag where "FlagUninitialized \<equiv> 1"
abbreviation (input) FlagInitializing :: ProducerTxnStatusFlag where "FlagInitializing \<equiv> 2"
abbreviation (input) FlagReady :: ProducerTxnStatusFlag where "FlagReady \<equiv> 4"
abbreviation (input) FlagInTransaction :: ProducerTxnStatusFlag where "FlagInTransaction \<equiv> 8"
abbreviation (input) FlagEndTransaction :: ProducerTxnStatusFlag where "FlagEndTransaction \<equiv> 16"
abbreviation (input) FlagInError :: ProducerTxnStatusFlag where "FlagInError \<equiv> 32"
abbreviation (input) FlagCommittingTransaction :: ProducerTxnStatusFlag where "FlagCommittingTransaction \<equiv> 64"
abbreviation (input) FlagAbortingTransaction :: ProducerTxnStatusFlag where "FlagAbortingTransaction \<equiv> 128"
abbreviation (input) FlagAbortableError :: ProducerTxnStatusFlag where "FlagAbortableError \<equiv> 256"
abbreviation (input) FlagFatalError :: ProducerTxnStatusFlag where "FlagFatalError \<equiv> 512"

definition producerTxnTransitions :: "(ProducerTxnStatusFlag \<times> ProducerTxnStatusFlag list) list" where
  "producerTxnTransitions =
     [(FlagUninitialized, [FlagReady, FlagInError]),
      (FlagInitializing, [FlagInitializing, FlagReady, FlagInError]),
      (FlagReady, [FlagInTransaction]),
      (FlagInTransaction, [FlagEndTransaction, FlagInError]),
      (FlagEndTransaction, [FlagInitializing, FlagReady, FlagInError]),
      (FlagAbortableError, [FlagAbortingTransaction, FlagInError]),
      (FlagFatalError, [FlagFatalError])]"

definition transition_valid :: "ProducerTxnStatusFlag \<Rightarrow> ProducerTxnStatusFlag \<Rightarrow> bool" where
  "transition_valid cur target =
     list_ex (\<lambda>(status, allowedTransitions).
       status AND cur \<noteq> 0 \<and> list_ex (\<lambda>allowed. allowed AND target \<noteq> 0) allowedTransitions)
       producerTxnTransitions"

subsection \<open>The state\<close>

type_synonym topicPartition = "string \<times> int32"
type_synonym topicPartitionOffsets = "(topicPartition \<times> PartitionOffsetMetadata option) list"

record TxnConf =
  tc_Version :: KafkaVersion
  tc_RetryMax :: int
  tc_Idempotent :: bool
  tc_ID :: string
  tc_Timeout :: int64

record transactionManager =
  tm_producerID :: int64
  tm_producerEpoch :: int16
  tm_sequenceNumbers :: "(string \<times> int32) list"
  tm_transactionalID :: string
  tm_transactionTimeout :: int64
  tm_coordinatorSupportsBumpingEpoch :: bool
  tm_epochBumpRequired :: bool
  tm_lastError :: "go_error option"
  tm_status :: ProducerTxnStatusFlag
  tm_pendingPartitions :: "topicPartition list"
  tm_partitions :: "topicPartition list"
  tm_offsets :: "(string \<times> topicPartitionOffsets) list"

abbreviation (input) noProducerID :: int64 where "noProducerID \<equiv> - 1"
abbreviation (input) noProducerEpoch :: int16 where "noProducerEpoch \<equiv> - 1"

text \<open>The two methods \<open>mapToRequest\<close>; a nil offset is dropped here, see \<open>run_TxnOffsetCommit\<close>.\<close>

definition append_to :: "string \<Rightarrow> 'a \<Rightarrow> (string \<times> 'a list) list \<Rightarrow> (string \<times> 'a list) list" where
  "append_to topic x m = AList.update topic ((case map_of m topic of None \<Rightarrow> [] | Some xs \<Rightarrow> xs) @ [x]) m"

definition partitions_to_request :: "topicPartition list \<Rightarrow> (string \<times> int32 list) list" where
  "partitions_to_request s = foldl (\<lambda>m (topic, prt). append_to topic prt m) [] s"

definition offsets_to_request :: "topicPartitionOffsets \<Rightarrow> (string \<times> PartitionOffsetMetadata list) list" where
  "offsets_to_request s =
     foldl (\<lambda>m ((topic, prt), offset). case offset of None \<Rightarrow> m | Some off \<Rightarrow> append_to topic off m) [] s"

definition isTransitionValid :: "transactionManager \<Rightarrow> ProducerTxnStatusFlag \<Rightarrow> bool" where
  "isTransitionValid t target = transition_valid (tm_status t) target"

text \<open>A method that returns an error returns it with the state.\<close>

definition transitionTo ::
    "ProducerTxnStatusFlag \<Rightarrow> go_error option \<Rightarrow> transactionManager \<Rightarrow> go_error option \<times> transactionManager" where
  "transitionTo target err t =
     (if \<not> isTransitionValid t target then (Some ErrTransitionNotAllowed, t)
      else if target AND FlagInError \<noteq> 0 then
        (case err of
           None \<Rightarrow> (Some ErrCannotTransitionNilError, t)
         | Some e \<Rightarrow> (Some e, t\<lparr>tm_lastError := Some e, tm_status := target\<rparr>))
      else (err, t\<lparr>tm_lastError := None, tm_status := target\<rparr>))"

definition abortableError :: "go_error \<Rightarrow> transactionManager \<Rightarrow> go_error option \<times> transactionManager" where
  "abortableError e = transitionTo (FlagInError OR FlagAbortableError) (Some e)"

definition fatalError :: "go_error \<Rightarrow> transactionManager \<Rightarrow> go_error option \<times> transactionManager" where
  "fatalError e = transitionTo (FlagInError OR FlagFatalError) (Some e)"

definition sequence_key :: "string \<Rightarrow> int32 \<Rightarrow> string" where
  "sequence_key topic prt = topic @ ''-'' @ show_int (sint prt)"

definition getAndIncrementSequenceNumber ::
    "string \<Rightarrow> int32 \<Rightarrow> transactionManager \<Rightarrow> (int32 \<times> int16) \<times> transactionManager" where
  "getAndIncrementSequenceNumber topic prt t =
     (let key = sequence_key topic prt;
          sequence = (case map_of (tm_sequenceNumbers t) key of None \<Rightarrow> 0 | Some n \<Rightarrow> n)
      in ((sequence, tm_producerEpoch t),
          t\<lparr>tm_sequenceNumbers := AList.update key (sequence + 1) (tm_sequenceNumbers t)\<rparr>))"

definition bumpEpoch :: "transactionManager \<Rightarrow> transactionManager" where
  "bumpEpoch t = t\<lparr>tm_producerEpoch := tm_producerEpoch t + 1,
     tm_sequenceNumbers := map (\<lambda>(k, n). (k, 0)) (tm_sequenceNumbers t)\<rparr>"

definition isTransactional :: "transactionManager \<Rightarrow> bool" where
  "isTransactional t \<longleftrightarrow> tm_transactionalID t \<noteq> []"

definition set_offset :: "string \<Rightarrow> PartitionOffsetMetadata \<Rightarrow> topicPartitionOffsets \<Rightarrow> topicPartitionOffsets" where
  "set_offset topic offset = AList.update (topic, pom_Partition offset) (Some offset)"

definition addOffsetsToTxn ::
    "(string \<times> PartitionOffsetMetadata list) list \<Rightarrow> string \<Rightarrow> transactionManager \<Rightarrow> go_error option \<times> transactionManager" where
  "addOffsetsToTxn offsetsToAdd groupId t =
     (if tm_status t AND FlagInTransaction = 0 then (Some ErrTransactionNotReady, t)
      else if tm_status t AND FlagFatalError \<noteq> 0 then (tm_lastError t, t)
      else
        (let offs = (case map_of (tm_offsets t) groupId of None \<Rightarrow> [] | Some m \<Rightarrow> m);
             offs = foldl (\<lambda>m (topic, offsets). foldl (\<lambda>m offset. set_offset topic offset m) m offsets) offs offsetsToAdd
         in (None, t\<lparr>tm_offsets := AList.update groupId offs (tm_offsets t)\<rparr>)))"

subsection \<open>Requests and retries\<close>

text \<open>
  What one attempt of a request meets: no coordinator, a nil broker (\<open>LeastLoadedBroker\<close> without
  brokers), an error of the network, no response, or a response.
\<close>

datatype 'r answer = NoCoordinator go_error | NilBroker | SendError go_error | NilAnswer | Answer 'r

text \<open>How an attempt ends: another one is due, the loop ends, or a nil pointer is dereferenced.\<close>

datatype 'a attempt = Again 'a go_error | Stop 'a "go_error option" | Crash

definition ask :: "'r answer \<Rightarrow> 'a \<Rightarrow> ('r \<Rightarrow> 's \<Rightarrow> 'a attempt \<times> 's) \<Rightarrow> 's \<Rightarrow> 'a attempt \<times> 's" where
  "ask answer dflt handle s =
     (case answer of
        NoCoordinator e \<Rightarrow> (Again dflt e, s)
      | NilBroker \<Rightarrow> (Crash, s)
      | SendError e \<Rightarrow> (Again dflt e, s)
      | NilAnswer \<Rightarrow> (Again dflt ErrTxnUnableToParseResponse, s)
      | Answer r \<Rightarrow> handle r s)"

text \<open>
  The closures \<open>exec\<close>: the number of attempts that are left, the attempt, its number, and what is
  returned when no attempt is made.
\<close>

primrec exec ::
    "nat \<Rightarrow> (nat \<Rightarrow> 's \<Rightarrow> 'a attempt \<times> 's) \<Rightarrow> nat \<Rightarrow> 'a \<Rightarrow> go_error option \<Rightarrow> 's \<Rightarrow> ('a \<times> go_error option) res \<times> 's" where
  "exec 0 run i v err s = (Ok (v, err), s)"
| "exec (Suc n) run i v err s =
     (case run i s of
        (Again v e, s) \<Rightarrow> exec n run (Suc i) v (Some e) s
      | (Stop v r, s) \<Rightarrow> (Ok (v, r), s)
      | (Crash, s) \<Rightarrow> (Panic, s))"

text \<open>\<open>for attemptsRemaining >= 0\<close>, starting at the configured maximum.\<close>

definition attempts :: "TxnConf \<Rightarrow> nat" where
  "attempts conf = nat (tc_RetryMax conf + 1)"

record Coordinators =
  on_AddOffsetsToTxn :: "AddOffsetsToTxnRequest \<Rightarrow> nat \<Rightarrow> AddOffsetsToTxnResponse answer"
  on_TxnOffsetCommit :: "TxnOffsetCommitRequest \<Rightarrow> nat \<Rightarrow> TxnOffsetCommitResponse answer"
  on_InitProducerID :: "InitProducerIDRequest \<Rightarrow> nat \<Rightarrow> InitProducerIDResponse answer"
  on_EndTxn :: "EndTxnRequest \<Rightarrow> nat \<Rightarrow> EndTxnResponse answer"
  on_AddPartitionsToTxn :: "AddPartitionsToTxnRequest \<Rightarrow> nat \<Rightarrow> AddPartitionsToTxnResponse answer"

definition txn_request_version :: "TxnConf \<Rightarrow> int" where
  "txn_request_version conf =
     (if IsAtLeast (tc_Version conf) V2_7_0_0 then 2 else if IsAtLeast (tc_Version conf) V2_0_0_0 then 1 else 0)"

definition abortableErrorIfPossible :: "go_error \<Rightarrow> transactionManager \<Rightarrow> go_error option \<times> transactionManager" where
  "abortableErrorIfPossible e t =
     (if tm_coordinatorSupportsBumpingEpoch t then abortableError e (t\<lparr>tm_epochBumpRequired := True\<rparr>)
      else fatalError e t)"

definition stop :: "'a \<Rightarrow> go_error option \<times> 's \<Rightarrow> 'a attempt \<times> 's" where
  "stop v = (\<lambda>(r, s). (Stop v r, s))"

subsection \<open>Offsets\<close>

definition run_AddOffsetsToTxn :: "TxnConf \<Rightarrow> Coordinators \<Rightarrow> string \<Rightarrow> nat \<Rightarrow> transactionManager \<Rightarrow> unit attempt \<times> transactionManager" where
  "run_AddOffsetsToTxn conf env groupId i t =
     ask (on_AddOffsetsToTxn env
            \<lparr>aoq_Version = txn_request_version conf, aoq_TransactionalID = tm_transactionalID t,
             aoq_ProducerID = tm_producerID t, aoq_ProducerEpoch = tm_producerEpoch t, aoq_GroupID = groupId\<rparr> i) ()
       (\<lambda>response t.
         let e = aor_Err response
         in if e = ErrNoError then (Stop () None, t)
            else if e \<in> {ErrConsumerCoordinatorNotAvailable, ErrNotCoordinatorForConsumer, ErrOffsetsLoadInProgress,
                ErrConcurrentTransactions} then (Again () (KErr e), t)
            else if e \<in> {ErrUnknownProducerID, ErrInvalidProducerIDMapping}
            then stop () (abortableErrorIfPossible (KErr e) t)
            else if e = ErrGroupAuthorizationFailed then stop () (abortableError (KErr e) t)
            else stop () (fatalError (KErr e) t)) t"

text \<open>
  The loop over the answers for the partitions, in a flat list: it stops at the first error that is
  not retriable, and otherwise collects the offsets that failed.
\<close>

definition flatten :: "(string \<times> PartitionError list) list \<Rightarrow> (string \<times> PartitionError) list" where
  "flatten m = concat (map (\<lambda>(topic, es). map (\<lambda>e. (topic, e)) es) m)"

fun scan_commit ::
    "topicPartitionOffsets \<Rightarrow> (string \<times> PartitionError) list \<Rightarrow> topicPartitionOffsets \<Rightarrow> go_error list \<Rightarrow>
     transactionManager \<Rightarrow> (go_error option + topicPartitionOffsets \<times> go_error list) \<times> transactionManager" where
  "scan_commit offsets [] failed errs t = (Inr (failed, errs), t)"
| "scan_commit offsets ((topic, pe) # rest) failed errs t =
     (let e = pte_Err pe; tp = (topic, pte_Partition pe)
      in if e = ErrNoError then scan_commit offsets rest failed errs t
         else if e \<in> {ErrRequestTimedOut, ErrConsumerCoordinatorNotAvailable, ErrNotCoordinatorForConsumer,
             ErrUnknownTopicOrPartition, ErrOffsetsLoadInProgress}
         then scan_commit offsets rest
           (AList.update tp (case map_of offsets tp of None \<Rightarrow> None | Some off \<Rightarrow> off) failed) (errs @ [KErr e]) t
         else if e \<in> {ErrIllegalGeneration, ErrUnknownMemberId, ErrFencedInstancedId, ErrGroupAuthorizationFailed}
         then (case abortableError (KErr e) t of (r, t) \<Rightarrow> (Inl r, t))
         else (case fatalError (KErr e) t of (r, t) \<Rightarrow> (Inl r, t)))"

definition commit_response ::
    "topicPartitionOffsets \<Rightarrow> TxnOffsetCommitResponse \<Rightarrow> transactionManager \<times> topicPartitionOffsets \<Rightarrow>
     topicPartitionOffsets attempt \<times> transactionManager \<times> topicPartitionOffsets" where
  "commit_response offsets responses = (\<lambda>(t, resultOffsets).
     case scan_commit offsets (flatten (tcr_Topics responses)) [] [] t of
       (Inl r, t) \<Rightarrow> (Stop resultOffsets r, (t, resultOffsets))
     | (Inr (failed, errs), t) \<Rightarrow>
         (if failed = [] then Stop [] None else Again failed (Wrap ErrTxnOffsetCommit errs), (t, failed)))"

text \<open>
  One attempt of TxnOffsetCommit; the second component of the state is \<open>resultOffsets\<close>. Every
  attempt sends all the offsets. A nil offset is dereferenced when the request is encoded.
\<close>

definition commit_request :: "TxnConf \<Rightarrow> topicPartitionOffsets \<Rightarrow> string \<Rightarrow> transactionManager \<Rightarrow> TxnOffsetCommitRequest" where
  "commit_request conf offsets groupId t =
     \<lparr>tcq_Version = (if IsAtLeast (tc_Version conf) V2_1_0_0 then 2
        else if IsAtLeast (tc_Version conf) V2_0_0_0 then 1 else 0),
      tcq_TransactionalID = tm_transactionalID t, tcq_GroupID = groupId,
      tcq_ProducerID = tm_producerID t, tcq_ProducerEpoch = tm_producerEpoch t,
      tcq_Topics = offsets_to_request offsets\<rparr>"

definition run_TxnOffsetCommit ::
    "TxnConf \<Rightarrow> Coordinators \<Rightarrow> topicPartitionOffsets \<Rightarrow> string \<Rightarrow> nat \<Rightarrow> transactionManager \<times> topicPartitionOffsets \<Rightarrow>
     topicPartitionOffsets attempt \<times> transactionManager \<times> topicPartitionOffsets" where
  "run_TxnOffsetCommit conf env offsets groupId i = (\<lambda>(t, resultOffsets).
     let answer = on_TxnOffsetCommit env (commit_request conf offsets groupId t) i;
         answer = (case answer of NoCoordinator e \<Rightarrow> NoCoordinator e
           | _ \<Rightarrow> if list_ex (\<lambda>(tp, off). off = None) offsets then NilBroker else answer)
     in ask answer resultOffsets (commit_response offsets) (t, resultOffsets))"

definition publishOffsetsToTxn ::
    "TxnConf \<Rightarrow> Coordinators \<Rightarrow> topicPartitionOffsets \<Rightarrow> string \<Rightarrow> transactionManager \<Rightarrow>
     (topicPartitionOffsets \<times> go_error option) res \<times> transactionManager" where
  "publishOffsetsToTxn conf env offsets groupId t =
     (case exec (attempts conf) (run_AddOffsetsToTxn conf env groupId) 0 () None t of
        (Ok (_, Some e), t) \<Rightarrow> (Ok (offsets, Some e), t)
      | (Ok (_, None), t) \<Rightarrow>
          (case exec (attempts conf) (run_TxnOffsetCommit conf env offsets groupId) 0 [] None (t, offsets) of
             (r, (t, _)) \<Rightarrow> (r, t))
      | (Err e, t) \<Rightarrow> (Err e, t)
      | (Panic, t) \<Rightarrow> (Panic, t)
      | (Diverge, t) \<Rightarrow> (Diverge, t))"

subsection \<open>The producer id\<close>

definition init_request :: "TxnConf \<Rightarrow> transactionManager \<Rightarrow> InitProducerIDRequest" where
  "init_request conf t =
     \<lparr>ipq_Version =
        (if IsAtLeast (tc_Version conf) V2_5_0_0 then (if IsAtLeast (tc_Version conf) V2_7_0_0 then 4 else 3)
         else if IsAtLeast (tc_Version conf) V2_4_0_0 then 2
         else if IsAtLeast (tc_Version conf) V2_0_0_0 then 1 else 0),
      ipq_TransactionalID = (if isTransactional t then Some (tm_transactionalID t) else None),
      ipq_TransactionTimeout = (if isTransactional t then tm_transactionTimeout t else 0),
      ipq_ProducerID = (if IsAtLeast (tc_Version conf) V2_5_0_0 then tm_producerID t else 0),
      ipq_ProducerEpoch = (if IsAtLeast (tc_Version conf) V2_5_0_0 then tm_producerEpoch t else 0)\<rparr>"

definition init_response ::
    "bool \<Rightarrow> InitProducerIDResponse \<Rightarrow> transactionManager \<Rightarrow> (int64 \<times> int16) attempt \<times> transactionManager" where
  "init_response isEpochBump response t =
     (let e = ipr_Err response
      in if e = ErrNoError then
           (let t = (if isEpochBump then t\<lparr>tm_sequenceNumbers := []\<rparr> else t)
            in case transitionTo FlagReady None t of
                 (Some e, t) \<Rightarrow> (Again (noProducerID, noProducerEpoch) e, t)
               | (None, t) \<Rightarrow> (Stop (ipr_ProducerID response, ipr_ProducerEpoch response) None, t))
         else if e \<in> {ErrConsumerCoordinatorNotAvailable, ErrNotCoordinatorForConsumer, ErrOffsetsLoadInProgress}
         then (Again (noProducerID, noProducerEpoch) (KErr e), t)
         else stop (noProducerID, noProducerEpoch) (fatalError (KErr e) t))"

definition run_InitProducerID ::
    "Coordinators \<Rightarrow> InitProducerIDRequest \<Rightarrow> bool \<Rightarrow> nat \<Rightarrow> transactionManager \<Rightarrow> (int64 \<times> int16) attempt \<times> transactionManager" where
  "run_InitProducerID env req isEpochBump i t =
     ask (on_InitProducerID env req i) (noProducerID, noProducerEpoch) (init_response isEpochBump) t"

definition epoch_bump :: "TxnConf \<Rightarrow> transactionManager \<Rightarrow> bool" where
  "epoch_bump conf t \<longleftrightarrow> IsAtLeast (tc_Version conf) V2_5_0_0 \<and>
     tm_producerID t \<noteq> noProducerID \<and> tm_producerEpoch t \<noteq> noProducerEpoch"

definition init_start :: "TxnConf \<Rightarrow> transactionManager \<Rightarrow> go_error option \<times> transactionManager" where
  "init_start conf t =
     (let u = (if IsAtLeast (tc_Version conf) V2_5_0_0 then t\<lparr>tm_coordinatorSupportsBumpingEpoch := True\<rparr> else t)
      in if epoch_bump conf t then transitionTo FlagInitializing None u else (None, u))"

definition initProducerId ::
    "TxnConf \<Rightarrow> Coordinators \<Rightarrow> transactionManager \<Rightarrow> ((int64 \<times> int16) \<times> go_error option) res \<times> transactionManager" where
  "initProducerId conf env t =
     (case init_start conf t of
        (Some e, u) \<Rightarrow> (Ok ((noProducerID, noProducerEpoch), Some e), u)
      | (None, u) \<Rightarrow>
          exec (attempts conf) (run_InitProducerID env (init_request conf t) (epoch_bump conf t)) 0
            (noProducerID, noProducerEpoch) None u)"

definition initializeTransactions ::
    "TxnConf \<Rightarrow> Coordinators \<Rightarrow> transactionManager \<Rightarrow> go_error option res \<times> transactionManager" where
  "initializeTransactions conf env t =
     (case initProducerId conf env t of
        (Ok ((pid, epoch), err), t) \<Rightarrow> (Ok err, t\<lparr>tm_producerID := pid, tm_producerEpoch := epoch\<rparr>)
      | (Err e, t) \<Rightarrow> (Err e, t)
      | (Panic, t) \<Rightarrow> (Panic, t)
      | (Diverge, t) \<Rightarrow> (Diverge, t))"

definition new_manager :: "TxnConf \<Rightarrow> transactionManager" where
  "new_manager conf =
     \<lparr>tm_producerID = noProducerID, tm_producerEpoch = noProducerEpoch, tm_sequenceNumbers = [],
      tm_transactionalID = (if tc_Idempotent conf then tc_ID conf else []),
      tm_transactionTimeout = (if tc_Idempotent conf then tc_Timeout conf else 0),
      tm_coordinatorSupportsBumpingEpoch = False, tm_epochBumpRequired = False, tm_lastError = None,
      tm_status = FlagUninitialized, tm_pendingPartitions = [], tm_partitions = [], tm_offsets = []\<rparr>"

definition newTransactionManager :: "TxnConf \<Rightarrow> Coordinators \<Rightarrow> transactionManager res" where
  "newTransactionManager conf env =
     (if tc_Idempotent conf then
        (case initializeTransactions conf env (new_manager conf) of
           (Ok None, t) \<Rightarrow> Ok t
         | (Ok (Some e), t) \<Rightarrow> Err e
         | (Err e, t) \<Rightarrow> Err e
         | (Panic, t) \<Rightarrow> Panic
         | (Diverge, t) \<Rightarrow> Diverge)
      else Ok (new_manager conf))"

subsection \<open>Ending a transaction\<close>

definition completeTransaction :: "transactionManager \<Rightarrow> go_error option \<times> transactionManager" where
  "completeTransaction t =
     (case transitionTo (if tm_epochBumpRequired t then FlagInitializing else FlagReady) None t of
        (Some e, t) \<Rightarrow> (Some e, t)
      | (None, t) \<Rightarrow>
          (None, t\<lparr>tm_lastError := None, tm_epochBumpRequired := False, tm_partitions := [],
             tm_pendingPartitions := [], tm_offsets := []\<rparr>))"

definition end_request :: "TxnConf \<Rightarrow> bool \<Rightarrow> transactionManager \<Rightarrow> EndTxnRequest" where
  "end_request conf commit t =
     \<lparr>etq_Version = txn_request_version conf, etq_TransactionalID = tm_transactionalID t,
      etq_ProducerID = tm_producerID t, etq_ProducerEpoch = tm_producerEpoch t, etq_TransactionResult = commit\<rparr>"

definition run_EndTxn :: "TxnConf \<Rightarrow> Coordinators \<Rightarrow> bool \<Rightarrow> nat \<Rightarrow> transactionManager \<Rightarrow> unit attempt \<times> transactionManager" where
  "run_EndTxn conf env commit i t =
     ask (on_EndTxn env (end_request conf commit t) i) ()
       (\<lambda>response t.
         let e = etr_Err response
         in if e = ErrNoError then stop () (completeTransaction t)
            else if e \<in> {ErrConsumerCoordinatorNotAvailable, ErrNotCoordinatorForConsumer, ErrOffsetsLoadInProgress,
                ErrConcurrentTransactions} then (Again () (KErr e), t)
            else if e \<in> {ErrUnknownProducerID, ErrInvalidProducerIDMapping}
            then stop () (abortableErrorIfPossible (KErr e) t)
            else stop () (fatalError (KErr e) t)) t"

definition endTxn :: "TxnConf \<Rightarrow> Coordinators \<Rightarrow> bool \<Rightarrow> transactionManager \<Rightarrow> (unit \<times> go_error option) res \<times> transactionManager" where
  "endTxn conf env commit t = exec (attempts conf) (run_EndTxn conf env commit) 0 () None t"

text \<open>The loop over the groups: what failed to be published stays, and what was published is removed.\<close>

fun publish_groups ::
    "TxnConf \<Rightarrow> Coordinators \<Rightarrow> (string \<times> topicPartitionOffsets) list \<Rightarrow> transactionManager \<Rightarrow> go_error option res \<times> transactionManager" where
  "publish_groups conf env [] t = (Ok None, t)"
| "publish_groups conf env ((grp, offsets) # rest) t =
     (case publishOffsetsToTxn conf env offsets grp t of
        (Ok (newOffsets, Some e), t) \<Rightarrow> (Ok (Some e), t\<lparr>tm_offsets := AList.update grp newOffsets (tm_offsets t)\<rparr>)
      | (Ok (_, None), t) \<Rightarrow> publish_groups conf env rest (t\<lparr>tm_offsets := AList.delete grp (tm_offsets t)\<rparr>)
      | (Err e, t) \<Rightarrow> (Err e, t)
      | (Panic, t) \<Rightarrow> (Panic, t)
      | (Diverge, t) \<Rightarrow> (Diverge, t))"

definition finish_end ::
    "TxnConf \<Rightarrow> Coordinators \<Rightarrow> bool \<Rightarrow> bool \<Rightarrow> transactionManager \<Rightarrow> go_error option res \<times> transactionManager" where
  "finish_end conf env commit epochBump t =
     (if tm_status t AND FlagFatalError \<noteq> 0 then (Ok (tm_lastError t), t)
      else if (case tm_lastError t of None \<Rightarrow> False | Some e \<Rightarrow> errors_Is e (KErr ErrInvalidProducerIDMapping))
      then initializeTransactions conf env t
      else
        (case endTxn conf env commit t of
           (Ok (_, Some e), t) \<Rightarrow> (Ok (Some e), t)
         | (Ok (_, None), t) \<Rightarrow> if epochBump then initializeTransactions conf env t else (Ok None, t)
         | (Err e, t) \<Rightarrow> (Err e, t)
         | (Panic, t) \<Rightarrow> (Panic, t)
         | (Diverge, t) \<Rightarrow> (Diverge, t)))"

definition finishTransaction ::
    "TxnConf \<Rightarrow> Coordinators \<Rightarrow> bool \<Rightarrow> transactionManager \<Rightarrow> go_error option res \<times> transactionManager" where
  "finishTransaction conf env commit t =
     (if commit \<and> tm_status t AND FlagInError \<noteq> 0 \<or> \<not> commit \<and> tm_status t AND FlagFatalError \<noteq> 0
      then (Ok (tm_lastError t), t)
      else if tm_partitions t = [] then (case completeTransaction t of (r, t) \<Rightarrow> (Ok r, t))
      else
        (case (if commit then publish_groups conf env (tm_offsets t) t else (Ok None, t)) of
           (Ok None, t') \<Rightarrow> finish_end conf env commit (tm_epochBumpRequired t) t'
         | (r, t') \<Rightarrow> (r, t')))"

subsection \<open>Partitions\<close>

definition maybeAddPartitionToCurrentTxn :: "string \<Rightarrow> int32 \<Rightarrow> transactionManager \<Rightarrow> transactionManager" where
  "maybeAddPartitionToCurrentTxn topic prt t =
     (if tm_status t AND FlagInError \<noteq> 0 then t
      else if (topic, prt) \<in> set (tm_partitions t) then t
      else t\<lparr>tm_pendingPartitions := List.insert (topic, prt) (tm_pendingPartitions t)\<rparr>)"

fun scan_added ::
    "(string \<times> PartitionError) list \<Rightarrow> go_error list \<Rightarrow> transactionManager \<Rightarrow> (go_error option + go_error list) \<times> transactionManager" where
  "scan_added [] errs t = (Inr errs, t)"
| "scan_added ((topic, pe) # rest) errs t =
     (let e = pte_Err pe; tp = (topic, pte_Partition pe); none = t\<lparr>tm_pendingPartitions := []\<rparr>
      in if e = ErrNoError
         then scan_added rest errs (t\<lparr>tm_partitions := List.insert tp (tm_partitions t),
           tm_pendingPartitions := removeAll tp (tm_pendingPartitions t)\<rparr>)
         else if e \<in> {ErrConsumerCoordinatorNotAvailable, ErrNotCoordinatorForConsumer, ErrUnknownTopicOrPartition,
             ErrOffsetsLoadInProgress, ErrConcurrentTransactions}
         then scan_added rest (errs @ [KErr e]) t
         else if e \<in> {ErrOperationNotAttempted, ErrTopicAuthorizationFailed}
         then (case abortableError (KErr e) none of (r, t) \<Rightarrow> (Inl r, t))
         else if e \<in> {ErrUnknownProducerID, ErrInvalidProducerIDMapping}
         then (case abortableErrorIfPossible (KErr e) none of (r, t) \<Rightarrow> (Inl r, t))
         else (case fatalError (KErr e) none of (r, t) \<Rightarrow> (Inl r, t)))"

definition added_response :: "AddPartitionsToTxnResponse \<Rightarrow> transactionManager \<Rightarrow> unit attempt \<times> transactionManager" where
  "added_response response t =
     (case scan_added (flatten (apr_Errors response)) [] t of
        (Inl r, t) \<Rightarrow> (Stop () r, t)
      | (Inr errs, t) \<Rightarrow>
          (if tm_pendingPartitions t = [] then Stop () None else Again () (Wrap ErrAddPartitionsToTxn errs), t))"

definition run_AddPartitionsToTxn :: "TxnConf \<Rightarrow> Coordinators \<Rightarrow> nat \<Rightarrow> transactionManager \<Rightarrow> unit attempt \<times> transactionManager" where
  "run_AddPartitionsToTxn conf env i t =
     ask (on_AddPartitionsToTxn env
            \<lparr>apq_Version = txn_request_version conf, apq_TransactionalID = tm_transactionalID t,
             apq_ProducerID = tm_producerID t, apq_ProducerEpoch = tm_producerEpoch t,
             apq_TopicPartitions = partitions_to_request (tm_pendingPartitions t)\<rparr> i) () added_response t"

definition publishTxnPartitions :: "TxnConf \<Rightarrow> Coordinators \<Rightarrow> transactionManager \<Rightarrow> (unit \<times> go_error option) res \<times> transactionManager" where
  "publishTxnPartitions conf env t =
     (if tm_status t AND FlagInError \<noteq> 0 then (Ok ((), tm_lastError t), t)
      else if tm_pendingPartitions t = [] then (Ok ((), None), t)
      else exec (attempts conf) (run_AddPartitionsToTxn conf env) 0 () None t)"

subsection \<open>The producer's entry points\<close>

text \<open>
  \<open>async_producer.go\<close>: \<open>BeginTxn\<close>, the mark that \<open>CommitTxn\<close> and \<open>AbortTxn\<close> send through the
  dispatcher, \<open>AddOffsetsToTxn\<close>, \<open>AddMessageToTxn\<close>, and what a failed message does to the status.
\<close>

definition BeginTxn :: "transactionManager \<Rightarrow> go_error option \<times> transactionManager" where
  "BeginTxn t =
     (if \<not> isTransactional t then (Some ErrNonTransactedProducer, t) else transitionTo FlagInTransaction None t)"

definition dispatch_endtxn :: "bool \<Rightarrow> transactionManager \<Rightarrow> transactionManager" where
  "dispatch_endtxn commit t =
     snd (transitionTo (FlagEndTransaction OR (if commit then FlagCommittingTransaction else FlagAbortingTransaction)) None t)"

definition end_transaction ::
    "TxnConf \<Rightarrow> Coordinators \<Rightarrow> bool \<Rightarrow> transactionManager \<Rightarrow> go_error option res \<times> transactionManager" where
  "end_transaction conf env commit t =
     (if \<not> isTransactional t then (Ok (Some ErrNonTransactedProducer), t)
      else finishTransaction conf env commit (dispatch_endtxn commit t))"

definition CommitTxn :: "TxnConf \<Rightarrow> Coordinators \<Rightarrow> transactionManager \<Rightarrow> go_error option res \<times> transactionManager" where
  "CommitTxn conf env = end_transaction conf env True"

definition AbortTxn :: "TxnConf \<Rightarrow> Coordinators \<Rightarrow> transactionManager \<Rightarrow> go_error option res \<times> transactionManager" where
  "AbortTxn conf env = end_transaction conf env False"

definition AddOffsetsToTxn ::
    "(string \<times> PartitionOffsetMetadata list) list \<Rightarrow> string \<Rightarrow> transactionManager \<Rightarrow> go_error option \<times> transactionManager" where
  "AddOffsetsToTxn offsets groupId t =
     (if \<not> isTransactional t then (Some ErrNonTransactedProducer, t) else addOffsetsToTxn offsets groupId t)"

definition AddMessageToTxn ::
    "string \<Rightarrow> int32 \<Rightarrow> int64 \<Rightarrow> string \<Rightarrow> nstring \<Rightarrow> transactionManager \<Rightarrow> go_error option \<times> transactionManager" where
  "AddMessageToTxn topic prt offset groupId metadata =
     AddOffsetsToTxn [(topic, [\<lparr>pom_Partition = prt, pom_Offset = offset + 1, pom_LeaderEpoch = 0,
       pom_Metadata = metadata\<rparr>])] groupId"

abbreviation (input) ErrClusterAuthorizationFailed :: KError where "ErrClusterAuthorizationFailed \<equiv> 31"
abbreviation (input) ErrUnsupportedVersion :: KError where "ErrUnsupportedVersion \<equiv> 35"
abbreviation (input) ErrTransactionalIDAuthorizationFailed :: KError where "ErrTransactionalIDAuthorizationFailed \<equiv> 53"
abbreviation (input) ErrProducerFenced :: KError where "ErrProducerFenced \<equiv> 90"

definition maybeTransitionToErrorState :: "go_error \<Rightarrow> transactionManager \<Rightarrow> go_error option \<times> transactionManager" where
  "maybeTransitionToErrorState err t =
     (if list_ex (\<lambda>k. errors_Is err (KErr k)) [ErrClusterAuthorizationFailed, ErrProducerFenced, ErrUnsupportedVersion,
        ErrTransactionalIDAuthorizationFailed]
      then fatalError err t
      else
        (let t = (if tm_coordinatorSupportsBumpingEpoch t \<and> tm_status t AND FlagEndTransaction = 0
                  then t\<lparr>tm_epochBumpRequired := True\<rparr> else t)
         in abortableError err t))"

definition bumpIdempotentProducerEpoch :: "TxnConf \<Rightarrow> Coordinators \<Rightarrow> transactionManager \<Rightarrow> transactionManager res" where
  "bumpIdempotentProducerEpoch conf env t =
     (if tm_producerEpoch t = 32767 then
        (case newTransactionManager conf env of Ok t' \<Rightarrow> Ok t' | Err e \<Rightarrow> Ok t | Panic \<Rightarrow> Panic | Diverge \<Rightarrow> Diverge)
      else Ok (bumpEpoch t))"

end
