(* ===== verification/Txn_Safety.thy ===== *)
theory Txn_Safety
  imports Txn_Manager
begin

unbundle bit_operations_syntax

text \<open>
  What holds of the transaction manager in every state that a sequence of its operations reaches,
  whatever the coordinators answer.
\<close>

subsection \<open>Statuses\<close>

definition txn_statuses :: "ProducerTxnStatusFlag list" where
  "txn_statuses =
     [FlagUninitialized, FlagInitializing, FlagReady, FlagInTransaction,
      FlagEndTransaction OR FlagCommittingTransaction, FlagEndTransaction OR FlagAbortingTransaction,
      FlagInError OR FlagAbortableError, FlagInError OR FlagFatalError]"

definition tm_inv :: "transactionManager \<Rightarrow> bool" where
  "tm_inv t \<longleftrightarrow> tm_status t \<in> set txn_statuses \<and>
     (tm_lastError t \<noteq> None \<longleftrightarrow> tm_status t AND FlagInError \<noteq> 0) \<and>
     set (tm_partitions t) \<inter> set (tm_pendingPartitions t) = {}"

definition fatal :: "transactionManager \<Rightarrow> bool" where
  "fatal t \<longleftrightarrow> tm_status t = FlagInError OR FlagFatalError"

text \<open>The transitions between the eight statuses, by evaluation of the table.\<close>

lemma valid_transitions:
  "[(s, u) \<leftarrow> List.product txn_statuses txn_statuses. transition_valid s u] =
     [(1, 4), (1, 288), (1, 544), (2, 2), (2, 4), (2, 288), (2, 544), (4, 8), (8, 80), (8, 144), (8, 288), (8, 544),
      (80, 2), (80, 4), (80, 288), (80, 544), (144, 2), (144, 4), (144, 288), (144, 544),
      (288, 144), (288, 288), (288, 544), (544, 544)]"
  by code_simp

lemma transition_fatal:
  "target \<in> set txn_statuses \<Longrightarrow> transition_valid (FlagInError OR FlagFatalError) target \<Longrightarrow>
   target = FlagInError OR FlagFatalError"
  by (auto simp: txn_statuses_def transition_valid_def producerTxnTransitions_def)

subsection \<open>Predicates that every operation keeps\<close>

lemma exec_keeps:
  assumes "\<And>i s. Q s \<Longrightarrow> Q (snd (run i s))"
  shows "Q s \<Longrightarrow> Q (snd (exec n run i v err s))"
proof (induction n arbitrary: i v err s)
  case (Suc n)
  then show ?case
    using assms [OF Suc.prems, of i] by (cases "run i s") (auto split: attempt.splits)
qed simp

lemma ask_keeps: "(\<And>r s. Q s \<Longrightarrow> Q (snd (handle r s))) \<Longrightarrow> Q s \<Longrightarrow> Q (snd (ask answer v handle s))"
  by (simp add: ask_def split: answer.splits)

lemma snd_stop [simp]: "snd (stop v rs) = snd rs"
  by (simp add: stop_def split: prod.splits)

text \<open>
  The laws a predicate needs, and the operations that keep it. It may look at the status, the error
  and the two sets of partitions.
\<close>

locale txn_predicate =
  fixes P :: "transactionManager \<Rightarrow> bool"
  assumes depends: "tm_status t = tm_status u \<Longrightarrow> tm_lastError t = tm_lastError u \<Longrightarrow>
      tm_partitions t = tm_partitions u \<Longrightarrow> tm_pendingPartitions t = tm_pendingPartitions u \<Longrightarrow> P t \<Longrightarrow> P u"
    and transition: "target \<in> set txn_statuses \<Longrightarrow> P t \<Longrightarrow> P (snd (transitionTo target err t))"
    and complete: "target = FlagInitializing \<or> target = FlagReady \<Longrightarrow> P t \<Longrightarrow>
      transitionTo target None t = (None, u) \<Longrightarrow>
      P (u\<lparr>tm_lastError := None, tm_partitions := [], tm_pendingPartitions := []\<rparr>)"
    and clear: "P t \<Longrightarrow> P (t\<lparr>tm_pendingPartitions := []\<rparr>)"
    and added: "P t \<Longrightarrow> P (t\<lparr>tm_partitions := List.insert tp (tm_partitions t),
      tm_pendingPartitions := removeAll tp (tm_pendingPartitions t)\<rparr>)"
    and pending: "P t \<Longrightarrow> tp \<notin> set (tm_partitions t) \<Longrightarrow>
      P (t\<lparr>tm_pendingPartitions := List.insert tp (tm_pendingPartitions t)\<rparr>)"
begin

lemma transition_or: "FlagInError OR FlagAbortableError = target \<or> FlagInError OR FlagFatalError = target \<Longrightarrow>
    P t \<Longrightarrow> P (snd (transitionTo target err t))"
  by (rule transition) (auto simp: txn_statuses_def)

lemma keeps_errors: "P t \<Longrightarrow> P (snd (abortableError e t))" "P t \<Longrightarrow> P (snd (fatalError e t))"
  "P t \<Longrightarrow> P (snd (abortableErrorIfPossible e t))"
  unfolding abortableErrorIfPossible_def abortableError_def fatalError_def
  by (auto intro!: transition_or intro: depends)

lemma keeps_cases: "P t \<Longrightarrow> abortableError e t = (r, u) \<Longrightarrow> P u" "P t \<Longrightarrow> fatalError e t = (r, u) \<Longrightarrow> P u"
  "P t \<Longrightarrow> abortableErrorIfPossible e t = (r, u) \<Longrightarrow> P u"
  using keeps_errors [of t e] by simp_all

lemma keeps_AddOffsets: "P t \<Longrightarrow> P (snd (run_AddOffsetsToTxn conf env groupId i t))"
  unfolding run_AddOffsetsToTxn_def by (rule ask_keeps) (simp_all add: Let_def keeps_errors)

lemma keeps_scan_commit: "P t \<Longrightarrow> P (snd (scan_commit offsets es failed errs t))"
proof (induction offsets es failed errs t rule: scan_commit.induct)
  case (2 offsets topic pe rest failed errs t)
  then show ?case
    by (simp add: Let_def keeps_errors case_prod_beta del: insert_iff)
qed simp

lemma keeps_TxnOffsetCommit: "P (fst s) \<Longrightarrow> P (fst (snd (run_TxnOffsetCommit conf env offsets groupId i s)))"
proof -
  have c: "P (fst (snd (commit_response offsets responses s)))" if "P (fst s)" for responses s
    using keeps_scan_commit [OF that, of offsets "flatten (tcr_Topics responses)" "[]" "[]"]
    by (auto simp: commit_response_def split: prod.splits sum.splits)
  assume "P (fst s)"
  then show ?thesis
    unfolding run_TxnOffsetCommit_def case_prod_beta Let_def
    by (intro ask_keeps [where Q = "\<lambda>s. P (fst s)"]) (simp_all add: c)
qed

lemma keeps_publishOffsets: "P t \<Longrightarrow> P (snd (publishOffsetsToTxn conf env offsets groupId t))"
proof -
  assume P: "P t"
  obtain r u where 1: "exec (attempts conf) (run_AddOffsetsToTxn conf env groupId) 0 () None t = (r, u)"
    by (rule prod.exhaust)
  have u: "P u" using exec_keeps [where Q = P and run = "run_AddOffsetsToTxn conf env groupId", OF keeps_AddOffsets P] 1
    by (metis snd_conv)
  obtain r' u' o' where 2: "exec (attempts conf) (run_TxnOffsetCommit conf env offsets groupId) 0 [] None (u, offsets) = (r', u', o')"
    by (rule prod_cases3)
  have "P u'"
    using exec_keeps [where Q = "\<lambda>s. P (fst s)" and run = "run_TxnOffsetCommit conf env offsets groupId"
      and s = "(u, offsets)", OF keeps_TxnOffsetCommit] u 2 by (metis fst_conv snd_conv)
  with u show ?thesis
    unfolding publishOffsetsToTxn_def 1 by (auto simp: 2 split: res.splits option.splits)
qed

lemma keeps_run_Init: "P t \<Longrightarrow> P (snd (run_InitProducerID env req isEpochBump i t))"
  unfolding run_InitProducerID_def
proof (rule ask_keeps)
  fix response t
  assume P: "P t"
  let ?t = "if isEpochBump then t\<lparr>tm_sequenceNumbers := []\<rparr> else t"
  have "P ?t" using P by (auto intro: depends)
  then have "P (snd (transitionTo FlagReady None ?t))" by (rule transition [rotated]) (simp add: txn_statuses_def)
  with P show "P (snd (init_response isEpochBump response t))"
    unfolding init_response_def Let_def
    by (auto simp: keeps_errors case_prod_beta simp del: insert_iff split: option.splits)
qed

lemma keeps_initProducerId: "P t \<Longrightarrow> P (snd (initProducerId conf env t))"
proof -
  assume P: "P t"
  let ?u = "if IsAtLeast (tc_Version conf) V2_5_0_0 then t\<lparr>tm_coordinatorSupportsBumpingEpoch := True\<rparr> else t"
  have u: "P ?u" using P by (auto intro: depends)
  then have "P (snd (transitionTo FlagInitializing None ?u))"
    by (rule transition [rotated]) (simp add: txn_statuses_def)
  with u have s: "P (snd (init_start conf t))" by (simp add: init_start_def Let_def)
  obtain r v where 1: "init_start conf t = (r, v)" by (rule prod.exhaust)
  show ?thesis
    using s unfolding initProducerId_def 1
    by (auto split: option.splits intro!: exec_keeps [where Q = P] keeps_run_Init)
qed

lemma keeps_initialize: "P t \<Longrightarrow> P (snd (initializeTransactions conf env t))"
  using keeps_initProducerId [of t conf env]
  by (auto simp: initializeTransactions_def split: prod.splits res.splits intro: depends)

lemma keeps_complete: "P t \<Longrightarrow> P (snd (completeTransaction t))"
proof -
  assume P: "P t"
  let ?target = "if tm_epochBumpRequired t then FlagInitializing else FlagReady :: ProducerTxnStatusFlag"
  obtain r u where 1: "transitionTo ?target None t = (r, u)" by (rule prod.exhaust)
  have "P u" using transition [of ?target t None] P 1 by (auto simp: txn_statuses_def split: if_splits)
  moreover have "P (u\<lparr>tm_lastError := None, tm_epochBumpRequired := False, tm_partitions := [],
      tm_pendingPartitions := [], tm_offsets := []\<rparr>)" if "r = None"
    by (rule depends [rotated 4], rule complete [OF _ P, of ?target u]) (use 1 that in auto)
  ultimately show ?thesis
    unfolding completeTransaction_def 1 by (simp split: option.splits)
qed

lemma keeps_EndTxn: "P t \<Longrightarrow> P (snd (endTxn conf env commit t))"
  unfolding endTxn_def
proof (rule exec_keeps [where Q = P])
  fix i t assume "P t"
  then show "P (snd (run_EndTxn conf env commit i t))"
    unfolding run_EndTxn_def by (rule ask_keeps [rotated]) (simp add: Let_def keeps_errors keeps_complete)
qed

lemma keeps_publish_groups: "P t \<Longrightarrow> P (snd (publish_groups conf env gs t))"
proof (induction gs arbitrary: t)
  case (Cons g gs)
  obtain grp offsets where g: "g = (grp, offsets)" by (rule prod.exhaust)
  obtain r u where 1: "publishOffsetsToTxn conf env offsets grp t = (r, u)" by (rule prod.exhaust)
  have u: "P u" using keeps_publishOffsets [OF Cons.prems, of conf env offsets grp] 1 by simp
  then have "P (u\<lparr>tm_offsets := m\<rparr>)" for m by (rule depends [rotated -1]) simp_all
  with u Cons.IH show ?case by (auto simp: g 1 split: res.splits option.splits)
qed simp

lemma keeps_finish: "P t \<Longrightarrow> P (snd (finishTransaction conf env commit t))"
proof -
  have e: "P (snd (finish_end conf env commit epochBump t))" if "P t" for epochBump t
    using keeps_EndTxn [OF that, of conf env commit] keeps_initialize [OF that, of conf env]
    by (cases "endTxn conf env commit t")
      (auto simp: finish_end_def keeps_initialize that split: prod.splits res.splits option.splits)
  assume P: "P t"
  obtain r u where 1: "(if commit then publish_groups conf env (tm_offsets t) t else (Ok None, t)) = (r, u)"
    by (rule prod.exhaust)
  have "P u" using keeps_publish_groups [OF P, of conf env "tm_offsets t"] P 1 by (auto split: if_splits)
  moreover have "P (snd (completeTransaction t))" by (rule keeps_complete [OF P])
  ultimately show ?thesis
    using P e [of u] unfolding finishTransaction_def 1
    by (auto split: prod.splits res.splits option.splits)
qed

lemma keeps_scan_added: "P t \<Longrightarrow> P (snd (scan_added es errs t))"
proof (induction es errs t rule: scan_added.induct)
  case (2 topic pe rest errs t)
  then show ?case
    by (simp add: Let_def keeps_errors added clear case_prod_beta del: insert_iff)
qed simp

lemma keeps_publishTxnPartitions: "P t \<Longrightarrow> P (snd (publishTxnPartitions conf env t))"
proof -
  have a: "P (snd (added_response response t))" if "P t" for response t
    using keeps_scan_added [OF that, of "flatten (apr_Errors response)" "[]"]
    by (auto simp: added_response_def split: prod.splits sum.splits)
  have r: "P (snd (run_AddPartitionsToTxn conf env i t))" if "P t" for i t
    unfolding run_AddPartitionsToTxn_def using that by (rule ask_keeps [where Q = P, rotated]) (rule a)
  assume "P t"
  with exec_keeps [where Q = P and run = "run_AddPartitionsToTxn conf env", OF r] show ?thesis
    by (auto simp: publishTxnPartitions_def)
qed

lemma keeps_bump_required: "P t \<Longrightarrow> P (snd (abortableError e (t\<lparr>tm_epochBumpRequired := b\<rparr>)))"
  by (intro keeps_errors) (auto intro: depends)

lemma keeps_others: "P t \<Longrightarrow> P (snd (BeginTxn t))" "P t \<Longrightarrow> P (dispatch_endtxn commit t)"
  "P t \<Longrightarrow> P (snd (AddOffsetsToTxn offsets groupId t))" "P t \<Longrightarrow> P (maybeAddPartitionToCurrentTxn topic prt t)"
  "P t \<Longrightarrow> P (snd (maybeTransitionToErrorState err t))" "P t \<Longrightarrow> P (snd (getAndIncrementSequenceNumber topic prt t))"
  by (auto simp: BeginTxn_def dispatch_endtxn_def AddOffsetsToTxn_def addOffsetsToTxn_def Let_def
      maybeAddPartitionToCurrentTxn_def maybeTransitionToErrorState_def getAndIncrementSequenceNumber_def
      txn_statuses_def pending keeps_errors keeps_bump_required intro!: transition intro: depends keeps_errors)

end

interpretation txn_inv: txn_predicate tm_inv
  by unfold_locales
    (auto simp: tm_inv_def transitionTo_def txn_statuses_def split: if_splits option.splits)

interpretation txn_fatal: txn_predicate fatal
  by unfold_locales
    (auto simp: fatal_def transitionTo_def isTransitionValid_def txn_statuses_def transition_valid_def
      producerTxnTransitions_def split: if_splits option.splits)

subsection \<open>Reachable states\<close>

text \<open>
  The operations in any order: the calls of the application, the dispatcher's end mark, the end of a
  transaction, and what the goroutines that send messages do in between.
\<close>

inductive txn_step :: "TxnConf \<Rightarrow> transactionManager \<Rightarrow> transactionManager \<Rightarrow> bool" for conf where
  begin_txn: "txn_step conf t (snd (BeginTxn t))"
| end_mark: "txn_step conf t (dispatch_endtxn commit t)"
| finish: "finishTransaction conf env commit t = (Ok r, u) \<Longrightarrow> txn_step conf t u"
| add_offsets: "txn_step conf t (snd (AddOffsetsToTxn offsets groupId t))"
| add_partition: "txn_step conf t (maybeAddPartitionToCurrentTxn topic prt t)"
| publish: "publishTxnPartitions conf env t = (Ok r, u) \<Longrightarrow> txn_step conf t u"
| message_failed: "txn_step conf t (snd (maybeTransitionToErrorState err t))"
| sequence: "txn_step conf t (snd (getAndIncrementSequenceNumber topic prt t))"

inductive txn_reachable :: "TxnConf \<Rightarrow> transactionManager \<Rightarrow> bool" for conf where
  new: "newTransactionManager conf env = Ok t \<Longrightarrow> txn_reachable conf t"
| step: "txn_reachable conf t \<Longrightarrow> txn_step conf t u \<Longrightarrow> txn_reachable conf u"

context txn_predicate
begin

lemma keeps_step: "txn_step conf t u \<Longrightarrow> P t \<Longrightarrow> P u"
proof (induction rule: txn_step.induct)
  case (finish env commit t r u)
  then show ?case using keeps_finish [of t conf env commit] by simp
next
  case (publish env t r u)
  then show ?case using keeps_publishTxnPartitions [of t conf env] by simp
qed (rule keeps_others, assumption)+

lemma keeps_steps: "(txn_step conf)\<^sup>*\<^sup>* t u \<Longrightarrow> P t \<Longrightarrow> P u"
  by (induction rule: rtranclp_induct) (auto intro: keeps_step)

end

lemma new_manager_inv: "tm_inv (new_manager conf)"
  by (simp add: tm_inv_def new_manager_def txn_statuses_def)

lemma txn_reachable_inv: "txn_reachable conf t \<Longrightarrow> tm_inv t"
proof (induction rule: txn_reachable.induct)
  case (new env t)
  then show ?case
    using txn_inv.keeps_initialize [of "new_manager conf" conf env] new_manager_inv [of conf]
    by (auto simp: newTransactionManager_def split: if_splits prod.splits res.splits option.splits)
next
  case (step t u)
  then show ?case by (blast intro: txn_inv.keeps_step)
qed

subsection \<open>A commit that reports success\<close>

text \<open>The attempt that ended the loop without an error, and the state it met.\<close>

lemma exec_success:
  assumes "exec n run i v err s = (Ok (w, None), u)" "err \<noteq> None \<or> 0 < n" "Q s"
    and "\<And>i v e s s'. Q s \<Longrightarrow> run i s = (Again v e, s') \<Longrightarrow> Q s'"
  shows "\<exists>j < i + n. \<exists>s'. Q s' \<and> run j s' = (Stop w None, u)"
  using assms(1-3)
proof (induction n arbitrary: i v err s)
  case (Suc n)
  show ?case
  proof (cases "run i s")
    case (Pair a s')
    show ?thesis
    proof (cases a)
      case (Again v' e)
      with Pair have "Q s'" using assms(4) Suc.prems(3) by blast
      with Suc.IH [of "Suc i" v' "Some e" s'] Suc.prems Pair Again show ?thesis by auto
    next
      case (Stop v' r)
      with Suc.prems Pair show ?thesis by (intro exI [of _ i]) auto
    qed (use Suc.prems Pair in simp)
  qed
qed auto

lemma error_returned:
  "fst (abortableError e t) \<noteq> None" "fst (fatalError e t) \<noteq> None" "fst (abortableErrorIfPossible e t) \<noteq> None"
  by (auto simp: abortableErrorIfPossible_def abortableError_def fatalError_def transitionTo_def)

lemma stop_None: "stop v rs = (Stop w None, u) \<longleftrightarrow> w = v \<and> rs = (None, u)" "stop v rs \<noteq> (Again w e, u)"
  by (cases rs; auto simp: stop_def)+

lemma error_never_None:
  "abortableError e t \<noteq> (None, u)" "fatalError e t \<noteq> (None, u)" "abortableErrorIfPossible e t \<noteq> (None, u)"
  using error_returned [of e t] by auto

lemmas attempt_simps = ask_def Let_def stop_None error_never_None

lemma AddOffsets_again: "run_AddOffsetsToTxn conf env groupId i t = (Again v e, u) \<Longrightarrow> u = t"
  unfolding run_AddOffsetsToTxn_def
  by (auto simp: attempt_simps simp del: insert_iff split: answer.splits if_splits)

lemma AddOffsets_done: "run_AddOffsetsToTxn conf env groupId i t = (Stop v None, u) \<Longrightarrow> u = t"
  unfolding run_AddOffsetsToTxn_def
  by (auto simp: attempt_simps simp del: insert_iff split: answer.splits if_splits)

lemma update_not_Nil: "AList.update k v m \<noteq> []"
  by (cases m) auto

lemma scan_commit_Inr:
  "scan_commit offsets es failed errs t = (Inr (failed', errs'), u) \<Longrightarrow>
   u = t \<and> (failed \<noteq> [] \<longrightarrow> failed' \<noteq> []) \<and> (failed' = [] \<longrightarrow> list_all (\<lambda>(topic, pe). pte_Err pe = ErrNoError) es)"
proof (induction offsets es failed errs t rule: scan_commit.induct)
  case (2 offsets topic pe rest failed errs t)
  then show ?case
    by (auto simp: Let_def update_not_Nil simp del: insert_iff split: if_splits prod.splits)
qed simp

lemma TxnOffsetCommit_again: "run_TxnOffsetCommit conf env offsets groupId i (t, ro) = (Again v e, (u, ro')) \<Longrightarrow> u = t"
  unfolding run_TxnOffsetCommit_def
  by (auto simp: attempt_simps commit_response_def dest: scan_commit_Inr
      split: answer.splits if_splits prod.splits sum.splits)

lemma TxnOffsetCommit_done:
  assumes "run_TxnOffsetCommit conf env offsets groupId i (t, ro) = (Stop v None, (u, ro'))"
  shows "u = t" "\<exists>r. on_TxnOffsetCommit env (commit_request conf offsets groupId t) i = Answer r \<and>
    list_all (\<lambda>(topic, pe). pte_Err pe = ErrNoError) (flatten (tcr_Topics r))"
proof -
  obtain r where a: "on_TxnOffsetCommit env (commit_request conf offsets groupId t) i = Answer r"
    and c: "commit_response offsets r (t, ro) = (Stop v None, (u, ro'))"
    using assms unfolding run_TxnOffsetCommit_def
    by (auto simp: ask_def Let_def split: answer.splits if_splits)
  have err: "r' \<noteq> None" if "scan_commit offsets es failed errs t = (Inl r', u')" for es failed errs r' u'
    using that
  proof (induction offsets es failed errs t rule: scan_commit.induct)
    case (2 offsets topic pe rest failed errs t)
    then show ?case
      by (auto simp: Let_def error_never_None simp del: insert_iff split: if_splits prod.splits)
  qed simp
  have "scan_commit offsets (flatten (tcr_Topics r)) [] [] t \<noteq> (Inl None, u)" using err by blast
  with c obtain errs where "scan_commit offsets (flatten (tcr_Topics r)) [] [] t = (Inr ([], errs), u)"
    by (auto simp: commit_response_def split: prod.splits sum.splits if_splits)
  from scan_commit_Inr [OF this] a show "u = t" "\<exists>r. on_TxnOffsetCommit env (commit_request conf offsets groupId t) i = Answer r \<and>
      list_all (\<lambda>(topic, pe). pte_Err pe = ErrNoError) (flatten (tcr_Topics r))" by auto
qed

text \<open>The offsets of one group were published: the group's coordinator reported no error for any of them.\<close>

definition offsets_confirmed :: "TxnConf \<Rightarrow> Coordinators \<Rightarrow> transactionManager \<Rightarrow> string \<times> topicPartitionOffsets \<Rightarrow> bool" where
  "offsets_confirmed conf env t = (\<lambda>(grp, offsets). \<exists>i < attempts conf. \<exists>r.
     on_TxnOffsetCommit env (commit_request conf offsets grp t) i = Answer r \<and>
     list_all (\<lambda>(topic, pe). pte_Err pe = ErrNoError) (flatten (tcr_Topics r)))"

definition end_confirmed :: "TxnConf \<Rightarrow> Coordinators \<Rightarrow> bool \<Rightarrow> transactionManager \<Rightarrow> bool" where
  "end_confirmed conf env commit t \<longleftrightarrow> (\<exists>i < attempts conf. \<exists>r.
     on_EndTxn env (end_request conf commit t) i = Answer r \<and> etr_Err r = ErrNoError)"

lemma publishOffsets_success:
  assumes "publishOffsetsToTxn conf env offsets grp t = (Ok (rest, None), u)" "0 < attempts conf"
  shows "u = t \<and> offsets_confirmed conf env t (grp, offsets)"
proof -
  obtain w t1 where 1: "exec (attempts conf) (run_AddOffsetsToTxn conf env grp) 0 () None t = (Ok (w, None), t1)"
    and 2: "\<exists>ro. exec (attempts conf) (run_TxnOffsetCommit conf env offsets grp) 0 [] None (t1, offsets) =
      (Ok (rest, None), (u, ro))"
    using assms(1) unfolding publishOffsetsToTxn_def
    by (auto split: prod.splits res.splits option.splits)
  from exec_success [where Q = "\<lambda>s. s = t", OF 1] assms(2) have t1: "t1 = t"
    using AddOffsets_again AddOffsets_done by (metis (no_types, lifting))
  from 2 t1 obtain ro where
    "exec (attempts conf) (run_TxnOffsetCommit conf env offsets grp) 0 [] None (t, offsets) = (Ok (rest, None), (u, ro))"
    by blast
  from exec_success [where Q = "\<lambda>s. fst s = t", OF this] assms(2) TxnOffsetCommit_again
  obtain j ro1 where "j < attempts conf"
    and "run_TxnOffsetCommit conf env offsets grp j (t, ro1) = (Stop rest None, (u, ro))"
    by (metis (no_types, lifting) add_0 fst_conv prod.collapse)
  from TxnOffsetCommit_done [OF this(2)] this(1) show ?thesis
    by (auto simp: offsets_confirmed_def)
qed

lemma commit_request_offsets [simp]: "commit_request conf offsets grp (t\<lparr>tm_offsets := m\<rparr>) = commit_request conf offsets grp t"
  by (simp add: commit_request_def)

lemma publish_groups_success:
  assumes "publish_groups conf env gs t = (Ok None, u)" "0 < attempts conf"
  shows "list_all (offsets_confirmed conf env t) gs \<and> (\<exists>m. u = t\<lparr>tm_offsets := m\<rparr>)"
  using assms(1)
proof (induction gs arbitrary: t)
  case Nil
  then show ?case by (auto intro: exI [of _ "tm_offsets t"])
next
  case (Cons g gs)
  obtain grp offsets where g: "g = (grp, offsets)" by (rule prod.exhaust)
  obtain rest t1 where p: "publishOffsetsToTxn conf env offsets grp t = (Ok (rest, None), t1)"
    and r: "publish_groups conf env gs (t1\<lparr>tm_offsets := AList.delete grp (tm_offsets t1)\<rparr>) = (Ok None, u)"
    using Cons.prems unfolding g by (auto split: prod.splits res.splits option.splits)
  from publishOffsets_success [OF p assms(2)] have 1: "t1 = t" "offsets_confirmed conf env t (grp, offsets)" by auto
  have "offsets_confirmed conf env (t\<lparr>tm_offsets := m\<rparr>) = offsets_confirmed conf env t" for m
    by (simp add: offsets_confirmed_def)
  with Cons.IH [OF r] 1 g show ?case by auto
qed

lemma EndTxn_success:
  assumes "endTxn conf env commit t = (Ok (w, None), u)" "0 < attempts conf"
  shows "end_confirmed conf env commit t \<and> completeTransaction t = (None, u)"
proof -
  have again: "u = t" if "run_EndTxn conf env commit i t = (Again v e, u)" for i v e t u
    using that unfolding run_EndTxn_def
    by (auto simp: attempt_simps simp del: insert_iff split: answer.splits if_splits)
  from exec_success [where Q = "\<lambda>s. s = t", OF assms(1) [unfolded endTxn_def]] assms(2) again
  obtain j where j: "j < attempts conf" "run_EndTxn conf env commit j t = (Stop w None, u)"
    by (metis (no_types, lifting) add_0)
  then show ?thesis
    unfolding run_EndTxn_def end_confirmed_def
    by (auto simp: attempt_simps simp del: insert_iff split: answer.splits if_splits)
qed

lemma completeTransaction_done:
  "completeTransaction t = (None, u) \<Longrightarrow>
   tm_partitions u = [] \<and> tm_offsets u = [] \<and> tm_pendingPartitions u = [] \<and> tm_lastError u = None \<and>
   tm_status u = (if tm_epochBumpRequired t then FlagInitializing else FlagReady)"
  by (auto simp: completeTransaction_def transitionTo_def split: if_splits prod.splits option.splits)

text \<open>A new producer id: the manager is ready again, with the id and the epoch of the answer.\<close>

definition same_work :: "transactionManager \<Rightarrow> transactionManager \<Rightarrow> bool" where
  "same_work t u \<longleftrightarrow> tm_partitions u = tm_partitions t \<and> tm_pendingPartitions u = tm_pendingPartitions t \<and>
     tm_offsets u = tm_offsets t"

lemma transitionTo_work: "transitionTo target err t = (r, u) \<Longrightarrow> same_work t u"
  by (auto simp: transitionTo_def same_work_def split: if_splits option.splits)

lemma init_again: "run_InitProducerID env req b i t = (Again v e, u) \<Longrightarrow> same_work t u"
  unfolding run_InitProducerID_def
  by (auto simp: ask_def init_response_def Let_def stop_None same_work_def simp del: insert_iff
      split: answer.splits if_splits prod.splits option.splits dest!: transitionTo_work)

lemma init_done:
  assumes "run_InitProducerID env req b i t = (Stop v None, u)"
  shows "same_work t u \<and> tm_status u = FlagReady \<and> tm_lastError u = None \<and>
    (\<exists>r. on_InitProducerID env req i = Answer r \<and> ipr_Err r = ErrNoError \<and> v = (ipr_ProducerID r, ipr_ProducerEpoch r))"
  using assms unfolding run_InitProducerID_def
  by (auto simp: ask_def init_response_def Let_def stop_None error_never_None same_work_def transitionTo_def
      simp del: insert_iff split: answer.splits if_splits prod.splits option.splits)

definition id_confirmed :: "TxnConf \<Rightarrow> Coordinators \<Rightarrow> transactionManager \<Rightarrow> transactionManager \<Rightarrow> bool" where
  "id_confirmed conf env t u \<longleftrightarrow> (\<exists>i < attempts conf. \<exists>r.
     on_InitProducerID env (init_request conf t) i = Answer r \<and> ipr_Err r = ErrNoError \<and>
     tm_producerID u = ipr_ProducerID r \<and> tm_producerEpoch u = ipr_ProducerEpoch r)"

lemma initialize_success:
  assumes "initializeTransactions conf env t = (Ok None, u)" "0 < attempts conf"
  shows "same_work t u \<and> tm_status u = FlagReady \<and> tm_lastError u = None \<and> id_confirmed conf env t u"
proof -
  obtain pid epoch t1 where i: "initProducerId conf env t = (Ok ((pid, epoch), None), t1)"
    and u: "u = t1\<lparr>tm_producerID := pid, tm_producerEpoch := epoch\<rparr>"
    using assms(1) by (auto simp: initializeTransactions_def split: prod.splits res.splits)
  obtain t0 where s: "init_start conf t = (None, t0)"
    and x: "exec (attempts conf) (run_InitProducerID env (init_request conf t) (epoch_bump conf t)) 0
      (noProducerID, noProducerEpoch) None t0 = (Ok ((pid, epoch), None), t1)"
    using i by (auto simp: initProducerId_def split: prod.splits option.splits)
  have w: "same_work t t0"
    using s transitionTo_work
    by (fastforce simp: init_start_def Let_def same_work_def split: if_splits)
  have again: "same_work t s'" if "same_work t s" "run_InitProducerID env (init_request conf t) (epoch_bump conf t) i s = (Again v e, s')"
    for i v e s s'
    using init_again [OF that(2)] that(1) by (simp add: same_work_def)
  have "\<exists>j < 0 + attempts conf. \<exists>s'. same_work t s' \<and>
      run_InitProducerID env (init_request conf t) (epoch_bump conf t) j s' = (Stop (pid, epoch) None, t1)"
    using assms(2) by (intro exec_success [where Q = "same_work t", OF x _ w]) (auto intro: again)
  then obtain j s' where "j < attempts conf" "same_work t s'"
    and "run_InitProducerID env (init_request conf t) (epoch_bump conf t) j s' = (Stop (pid, epoch) None, t1)" by auto
  with init_done [OF this(3)] u show ?thesis by (auto simp: same_work_def id_confirmed_def)
qed

lemma commit_confirmed:
  assumes fin: "finishTransaction conf env True t = (Ok None, u)"
    and inv: "tm_inv t" and parts: "tm_partitions t \<noteq> []" and retry: "0 < attempts conf"
  shows "list_all (offsets_confirmed conf env t) (tm_offsets t) \<and> end_confirmed conf env True t \<and>
    tm_status u = FlagReady \<and> tm_partitions u = [] \<and> tm_pendingPartitions u = [] \<and> tm_offsets u = []"
proof -
  have e: "tm_status t AND FlagInError = 0"
    using fin inv by (auto simp: finishTransaction_def tm_inv_def split: if_splits)
  with inv have l: "tm_lastError t = None" by (auto simp: tm_inv_def)
  obtain t1 where p: "publish_groups conf env (tm_offsets t) t = (Ok None, t1)"
    and f: "finish_end conf env True (tm_epochBumpRequired t) t1 = (Ok None, u)"
    using fin e parts by (auto simp: finishTransaction_def split: prod.splits res.splits option.splits)
  from publish_groups_success [OF p retry] obtain m
    where offs: "list_all (offsets_confirmed conf env t) (tm_offsets t)" and t1: "t1 = t\<lparr>tm_offsets := m\<rparr>" by blast
  have fatal0: "tm_status t AND FlagFatalError = 0"
    using e inv by (auto simp: tm_inv_def txn_statuses_def)
  obtain w t2 where x: "endTxn conf env True t1 = (Ok (w, None), t2)"
    and r: "if tm_epochBumpRequired t then initializeTransactions conf env t2 = (Ok None, u) else u = t2"
    using f l fatal0 t1 by (auto simp: finish_end_def split: prod.splits res.splits option.splits if_splits)
  from EndTxn_success [OF x retry] have c: "completeTransaction t1 = (None, t2)" and conf: "end_confirmed conf env True t"
    by (auto simp: end_confirmed_def end_request_def t1)
  note finished = completeTransaction_done [OF c]
  show ?thesis
  proof (cases "tm_epochBumpRequired t")
    case True
    with r initialize_success [of conf env t2 u] retry finished conf offs show ?thesis by (simp add: same_work_def)
  next
    case False
    with r finished conf offs t1 show ?thesis by simp
  qed
qed

subsection \<open>Where the promise fails\<close>

text \<open>
  With a negative maximum of retries, which \<open>Config.Validate\<close> accepts, no attempt is made and no
  error is returned: a commit reports success without a request, and the transaction stays open.
\<close>

lemma no_attempts: "tc_RetryMax conf < 0 \<Longrightarrow> attempts conf = 0"
  by (simp add: attempts_def)

lemma publish_groups_no_attempts:
  "tc_RetryMax conf < 0 \<Longrightarrow> \<exists>m. publish_groups conf env gs t = (Ok None, t\<lparr>tm_offsets := m\<rparr>)"
proof (induction gs arbitrary: t)
  case Nil
  then show ?case by (auto intro: exI [of _ "tm_offsets t"])
next
  case (Cons g gs)
  obtain grp offsets where g: "g = (grp, offsets)" by (rule prod.exhaust)
  from Cons.IH [OF Cons.prems, of "t\<lparr>tm_offsets := AList.delete grp (tm_offsets t)\<rparr>"] Cons.prems show ?case
    by (auto simp: g publishOffsetsToTxn_def no_attempts)
qed

lemma commit_without_request:
  assumes "tc_RetryMax conf < 0" "isTransactional t" "tm_status t = FlagInTransaction" "tm_partitions t \<noteq> []"
    "\<not> tm_epochBumpRequired t"
  shows "\<exists>u. CommitTxn conf env t = (Ok None, u) \<and> tm_status u = FlagEndTransaction OR FlagCommittingTransaction \<and>
    tm_partitions u = tm_partitions t"
proof -
  let ?t = "t\<lparr>tm_lastError := None, tm_status := 80\<rparr>"
  have d: "dispatch_endtxn True t = ?t"
    using assms(3) by (simp add: dispatch_endtxn_def transitionTo_def isTransitionValid_def transition_valid_def
        producerTxnTransitions_def)
  obtain m where "publish_groups conf env (tm_offsets ?t) ?t = (Ok None, ?t\<lparr>tm_offsets := m\<rparr>)"
    using publish_groups_no_attempts [OF assms(1)] by blast
  then show ?thesis
    using assms
    by (simp add: CommitTxn_def end_transaction_def d finishTransaction_def finish_end_def endTxn_def no_attempts)
qed

text \<open>
  After an abortable error the epoch is bumped when the transaction is aborted. If that fails, the
  manager has no producer id and keeps initializing; aborting once more makes it ready as it is, and
  the next transaction starts without a producer id.
\<close>

lemma exec_again:
  assumes "\<And>i s. run i s = (Again v e, s)"
  shows "exec (Suc n) run i v0 err s = (Ok (v, Some e), s)"
  by (induction n arbitrary: i v0 err) (simp_all add: assms)

lemma abort_loses_producer_id:
  assumes t: "isTransactional t" "tm_status t = FlagInError OR FlagAbortableError" "tm_epochBumpRequired t"
      "tm_partitions t \<noteq> []" "tm_producerID t \<noteq> noProducerID" "tm_producerEpoch t \<noteq> noProducerEpoch"
    and conf: "tc_RetryMax conf \<ge> 0" "IsAtLeast (tc_Version conf) V2_5_0_0"
    and env: "\<And>req. on_EndTxn env req 0 = Answer r" "etr_Err r = ErrNoError"
      "\<And>req i. on_InitProducerID env req i = NoCoordinator e"
  shows "\<exists>u. AbortTxn conf env t = (Ok (Some e), u) \<and> tm_status u = FlagInitializing \<and> \<not> tm_epochBumpRequired u \<and>
    tm_partitions u = [] \<and> tm_producerID u = noProducerID \<and> isTransactional u"
proof -
  obtain n where n: "attempts conf = Suc n"
    using conf(1) by (metis attempts_def nat_add_distrib nat_one_as_int Suc_eq_plus1 zero_le_one nat_int)
  let ?t = "t\<lparr>tm_lastError := None, tm_status := 144\<rparr>"
  let ?u = "?t\<lparr>tm_status := 2, tm_epochBumpRequired := False, tm_partitions := [], tm_pendingPartitions := [],
    tm_offsets := []\<rparr>"
  note valid = transitionTo_def isTransitionValid_def transition_valid_def producerTxnTransitions_def
  have d: "dispatch_endtxn False t = ?t" using t(2) by (simp add: dispatch_endtxn_def valid)
  have e: "endTxn conf env False ?t = (Ok ((), None), ?u)"
    using env(1,2) t(3) by (simp add: endTxn_def n run_EndTxn_def ask_def stop_def completeTransaction_def valid)
  have s: "init_start conf ?u = (None, ?u\<lparr>tm_coordinatorSupportsBumpingEpoch := True\<rparr>)"
    using t(5,6) conf(2) by (simp add: init_start_def epoch_bump_def valid)
  have "run_InitProducerID env req b i v = (Again (noProducerID, noProducerEpoch) e, v)" for req b i v
    by (simp add: run_InitProducerID_def ask_def env(3))
  then have "initProducerId conf env ?u =
      (Ok ((noProducerID, noProducerEpoch), Some e), ?u\<lparr>tm_coordinatorSupportsBumpingEpoch := True\<rparr>)"
    unfolding initProducerId_def s n by (simp add: exec_again del: exec.simps)
  with t e show ?thesis
    by (simp add: AbortTxn_def end_transaction_def d finishTransaction_def finish_end_def initializeTransactions_def
        isTransactional_def)
qed

lemma ready_without_producer_id:
  assumes "isTransactional u" "tm_status u = FlagInitializing" "\<not> tm_epochBumpRequired u" "tm_partitions u = []"
    "tm_producerID u = noProducerID"
  shows "\<exists>v w. AbortTxn conf env u = (Ok None, v) \<and> BeginTxn v = (None, w) \<and>
    tm_status w = FlagInTransaction \<and> tm_producerID w = noProducerID"
  using assms
  by (simp add: AbortTxn_def end_transaction_def dispatch_endtxn_def finishTransaction_def completeTransaction_def
      BeginTxn_def transitionTo_def isTransitionValid_def transition_valid_def producerTxnTransitions_def isTransactional_def)

subsection \<open>Sequence numbers\<close>

text \<open>
  The key of a partition in the map of sequence numbers is made by \<open>Sprintf\<close> and is unique for the
  partitions that exist, whose numbers are not negative.
\<close>

lemma last_dash:
  assumes "xs @ CHR ''-'' # ds = ys @ CHR ''-'' # es" "CHR ''-'' \<notin> set ds" "CHR ''-'' \<notin> set es"
  shows "xs = ys \<and> ds = es"
proof -
  have "takeWhile (\<lambda>c. c \<noteq> CHR ''-'') (rev zs @ CHR ''-'' # rev ws) = rev zs" if "CHR ''-'' \<notin> set zs" for zs ws
    using that by (subst takeWhile_append2) auto
  from this [OF assms(2), of xs] this [OF assms(3), of ys] arg_cong [OF assms(1), of rev]
  have "ds = es" by simp
  with assms(1) show ?thesis by simp
qed

lemma show_int_no_dash: "0 \<le> n \<Longrightarrow> CHR ''-'' \<notin> set (show_int n)"
  by (simp add: show_int_def show_nat_chars not_digits)

lemma sequence_key_inj:
  assumes "sequence_key topic p = sequence_key topic' p'" "0 \<le> sint p" "0 \<le> sint p'"
  shows "topic = topic' \<and> p = p'"
proof -
  have "topic = topic' \<and> show_int (sint p) = show_int (sint p')"
  proof (rule last_dash)
    show "topic @ CHR ''-'' # show_int (sint p) = topic' @ CHR ''-'' # show_int (sint p')"
      using assms(1) by (simp only: sequence_key_def append_Cons append_Nil)
  qed (rule show_int_no_dash, rule assms)+
  then show ?thesis by (metis ParseInt32_show_int res.inject(1))
qed

text \<open>The numbers handed out for a list of messages, and those of one partition among them.\<close>

fun take_numbers :: "topicPartition list \<Rightarrow> transactionManager \<Rightarrow> int32 list" where
  "take_numbers [] t = []"
| "take_numbers ((topic, prt) # tps) t =
     (case getAndIncrementSequenceNumber topic prt t of ((n, epoch), u) \<Rightarrow> n # take_numbers tps u)"

definition next_number :: "topicPartition \<Rightarrow> transactionManager \<Rightarrow> int32" where
  "next_number tp t = (case map_of (tm_sequenceNumbers t) (sequence_key (fst tp) (snd tp)) of None \<Rightarrow> 0 | Some n \<Rightarrow> n)"

definition numbers_of :: "topicPartition \<Rightarrow> topicPartition list \<Rightarrow> transactionManager \<Rightarrow> int32 list" where
  "numbers_of tp tps t = map snd (filter (\<lambda>(tp', n). tp' = tp) (zip tps (take_numbers tps t)))"

lemma numbers_consecutive:
  assumes "list_all (\<lambda>(topic, prt). 0 \<le> sint prt) (tp # tps)"
  shows "numbers_of tp tps t = map (\<lambda>i. next_number tp t + word_of_nat i) [0..<count_list tps tp]"
  using assms
proof (induction tps arbitrary: t)
  case (Cons a tps)
  obtain topic prt where a: "a = (topic, prt)" by (rule prod.exhaust)
  let ?u = "snd (getAndIncrementSequenceNumber topic prt t)"
  have u: "next_number tp ?u = (if tp = a then next_number tp t + 1 else next_number tp t)"
    using sequence_key_inj [of "fst tp" "snd tp" topic prt] Cons.prems
    by (cases tp) (auto simp: next_number_def getAndIncrementSequenceNumber_def Let_def a update_conv'
        split: option.splits)
  have n: "numbers_of tp (a # tps) t =
      (if tp = a then next_number tp t # numbers_of tp tps ?u else numbers_of tp tps ?u)"
    by (auto simp: numbers_of_def a next_number_def getAndIncrementSequenceNumber_def Let_def)
  have IH: "numbers_of tp tps ?u = map (\<lambda>i. next_number tp ?u + word_of_nat i) [0..<count_list tps tp]"
    using Cons.prems by (intro Cons.IH) simp
  show ?case
    unfolding n IH u
    by (auto simp: upt_conv_Cons map_Suc_upt [symmetric] algebra_simps simp del: upt_Suc)
qed (simp add: numbers_of_def)

lemma bumpEpoch_restarts: "next_number tp (bumpEpoch t) = 0" "tm_producerEpoch (bumpEpoch t) = tm_producerEpoch t + 1"
  by (auto simp: next_number_def bumpEpoch_def map_of_map case_prod_beta split: option.splits dest: map_of_SomeD)

end
