(* ===== verification/Group_Metadata.thy ===== *)
theory Group_Metadata
  imports Net_Address
begin

text \<open>
  The data that the members of a consumer group exchange inside the group messages:
  \<open>consumer_group_members.go\<close> (the subscription of a member and its assignment) and
  \<open>sticky_assignor_user_data.go\<close> (the previous assignment that the sticky strategy hands on). The
  subscription carries its version on the wire; a subscription that ends before its owned
  partitions is accepted.
\<close>

subsection \<open>Subscriptions\<close>

record OwnedPartition =
  own_Topic :: string
  own_Partitions :: "int32 list"

definition enc_OwnedPartition :: "OwnedPartition \<Rightarrow> pe_op list" where
  "enc_OwnedPartition m = [putString (own_Topic m), putInt32Array (own_Partitions m)]"

definition dec_OwnedPartition :: "OwnedPartition dec" where
  "dec_OwnedPartition =
     dbind getString (\<lambda>topic.
     dbind getInt32Array (\<lambda>prts.
       dreturn \<lparr>own_Topic = topic, own_Partitions = prts\<rparr>))"

definition wf_OwnedPartition :: "OwnedPartition \<Rightarrow> bool" where
  "wf_OwnedPartition m \<longleftrightarrow> length (own_Topic m) \<le> 32767 \<and> length (own_Partitions m) \<le> 2147483647"

lemma enc_OwnedPartition_nonempty: "ser_ops (enc_OwnedPartition r) \<noteq> []"
  by (simp add: enc_OwnedPartition_def ser_simps)

interpretation own: wire_elem enc_OwnedPartition "\<lambda>_. dec_OwnedPartition" "\<lambda>_. 0" wf_OwnedPartition
  by (rule wire_elemI [OF _ enc_OwnedPartition_nonempty],
      unfold enc_OwnedPartition_def dec_OwnedPartition_def wf_OwnedPartition_def)
    (rule codes_rules | auto simp: codes_simps; fail)+

record ConsumerGroupMemberMetadata =
  mmd_Version :: int16
  mmd_Topics :: "string list"
  mmd_UserData :: nbytes
  mmd_OwnedPartitions :: "OwnedPartition list"
  mmd_GenerationID :: int32
  mmd_RackID :: nstring

definition enc_ConsumerGroupMemberMetadata :: "ConsumerGroupMemberMetadata \<Rightarrow> pe_op list" where
  "enc_ConsumerGroupMemberMetadata m =
     [putInt16 (mmd_Version m), putStringArray (mmd_Topics m), putBytes (mmd_UserData m)] @
     (if sint (mmd_Version m) \<ge> 1 then enc_array enc_OwnedPartition (mmd_OwnedPartitions m) else []) @
     (if sint (mmd_Version m) \<ge> 2 then [putInt32 (mmd_GenerationID m)] else []) @
     (if sint (mmd_Version m) \<ge> 3 then [putNullableString (mmd_RackID m)] else [])"

definition dec_ConsumerGroupMemberMetadata :: "ConsumerGroupMemberMetadata dec" where
  "dec_ConsumerGroupMemberMetadata =
     dbind getInt16 (\<lambda>version.
     dbind getStringArray (\<lambda>tops.
     dbind getBytes (\<lambda>userData.
     dbind (if sint version \<ge> 1 then or_insufficient getArrayLength else dreturn (Some 0)) (\<lambda>n.
       case n of
         None \<Rightarrow>
           dreturn \<lparr>mmd_Version = version, mmd_Topics = tops, mmd_UserData = userData,
             mmd_OwnedPartitions = [], mmd_GenerationID = 0, mmd_RackID = None\<rparr>
       | Some n \<Rightarrow>
           dbind (dec_times (nat n) dec_OwnedPartition) (\<lambda>owned.
           dbind (if sint version \<ge> 2 then getInt32 else dreturn 0) (\<lambda>generation.
           dbind (if sint version \<ge> 3 then getNullableString else dreturn None) (\<lambda>rack.
             dreturn \<lparr>mmd_Version = version, mmd_Topics = tops, mmd_UserData = userData,
               mmd_OwnedPartitions = owned, mmd_GenerationID = generation, mmd_RackID = rack\<rparr>)))))))"

definition wf_ConsumerGroupMemberMetadata :: "ConsumerGroupMemberMetadata \<Rightarrow> bool" where
  "wf_ConsumerGroupMemberMetadata m \<longleftrightarrow>
     length (mmd_Topics m) \<le> 2147483647 \<and> list_all (\<lambda>s. length s \<le> 32767) (mmd_Topics m) \<and>
     pred_option (\<lambda>s. length s \<le> 2147483647) (mmd_UserData m) \<and>
     (if sint (mmd_Version m) \<ge> 1
      then length (mmd_OwnedPartitions m) \<le> 131070 \<and> list_all wf_OwnedPartition (mmd_OwnedPartitions m)
      else mmd_OwnedPartitions m = []) \<and>
     (sint (mmd_Version m) \<ge> 2 \<or> mmd_GenerationID m = 0) \<and>
     (if sint (mmd_Version m) \<ge> 3 then pred_option (\<lambda>s. length s \<le> 32767) (mmd_RackID m) else mmd_RackID m = None)"

text \<open>The empty object that a subscription is decoded into.\<close>

definition zero_metadata :: ConsumerGroupMemberMetadata where
  "zero_metadata = \<lparr>mmd_Version = 0, mmd_Topics = [], mmd_UserData = None, mmd_OwnedPartitions = [],
     mmd_GenerationID = 0, mmd_RackID = None\<rparr>"

lemma or_insufficient_Ok: "fst (d rd) = Ok x \<Longrightarrow> or_insufficient d rd = (Ok (Some x), snd (d rd))"
  by (cases "d rd") (simp add: or_insufficient_def dcatch_def dbind_def dreturn_def)

lemma codes_tolerant_loop:
  assumes "\<And>x. x \<in> set xs \<Longrightarrow> codes d (enc x) x" "\<And>x. x \<in> set xs \<Longrightarrow> ser_ops (enc x) \<noteq> []"
    and "length xs \<le> 131070" "codes (f xs) ops y"
  shows "codes (dbind (or_insufficient getArrayLength)
      (\<lambda>n. case n of None \<Rightarrow> g | Some n \<Rightarrow> dbind (dec_times (nat n) d) f)) (enc_array enc xs @ ops) y"
proof -
  let ?bs = "concat (map (\<lambda>x. ser_ops (enc x)) xs)"
  have t: "reads (dec_times (length xs) d) ?bs xs"
    using assms(1) by (intro reads_times) (simp add: codes_def)
  have l: "length xs \<le> length ?bs" using assms(2) by (rule length_le_concat_map)
  have "or_insufficient getArrayLength (dec_at pre (ser_array_length (int (length xs)) @ ?bs @ ser_ops ops @ post) st) =
      (Ok (Some (int (length xs))), dec_at (pre @ ser_array_length (int (length xs))) (?bs @ ser_ops ops @ post) st)"
    for pre post st
    using l assms(3) by (simp add: or_insufficient_Ok dec_steps)
  with t assms(1,3,4) show ?thesis
    by (auto simp: codes_def wire_ok ser_simps dec_steps reads_at intro!: readsI)
qed

lemma codes_then: "c \<Longrightarrow> codes (dbind d f) ops y \<Longrightarrow> codes (dbind (if c then d else d') f) ops y"
  by simp

interpretation mmd: wire_codec enc_ConsumerGroupMemberMetadata "\<lambda>_. dec_ConsumerGroupMemberMetadata" "\<lambda>_. 0"
  wf_ConsumerGroupMemberMetadata
proof (rule wire_codecI)
  fix m assume wf: "wf_ConsumerGroupMemberMetadata m"
  show "codes dec_ConsumerGroupMemberMetadata (enc_ConsumerGroupMemberMetadata m) m"
  proof (cases "sint (mmd_Version m) \<ge> 1")
    case True
    with wf show ?thesis
      unfolding enc_ConsumerGroupMemberMetadata_def dec_ConsumerGroupMemberMetadata_def wf_ConsumerGroupMemberMetadata_def
      by (simp only: if_True append.simps)
        (rule codes_rules codes_tolerant_loop codes_then | (auto simp: codes_simps intro!: own.codes own.nonempty; fail))+
  next
    case False
    with wf show ?thesis
      unfolding enc_ConsumerGroupMemberMetadata_def dec_ConsumerGroupMemberMetadata_def wf_ConsumerGroupMemberMetadata_def
      by (simp add: dbind_return) (rule codes_rules | (auto simp: codes_simps dbind_return intro!: codes_return; fail))+
  qed
qed

subsection \<open>Assignments\<close>

record ConsumerGroupMemberAssignment =
  mas_Version :: int16
  mas_Topics :: "(string \<times> int32 list) list"
  mas_UserData :: nbytes

definition enc_ConsumerGroupMemberAssignment :: "ConsumerGroupMemberAssignment \<Rightarrow> pe_op list" where
  "enc_ConsumerGroupMemberAssignment m =
     [putInt16 (mas_Version m)] @ enc_topic_partitions (mas_Topics m) @ [putBytes (mas_UserData m)]"

definition dec_ConsumerGroupMemberAssignment :: "ConsumerGroupMemberAssignment dec" where
  "dec_ConsumerGroupMemberAssignment =
     dbind getInt16 (\<lambda>version.
     dbind dec_topic_partitions (\<lambda>tops.
     dbind getBytes (\<lambda>userData.
       dreturn \<lparr>mas_Version = version, mas_Topics = tops, mas_UserData = userData\<rparr>)))"

definition wf_ConsumerGroupMemberAssignment :: "ConsumerGroupMemberAssignment \<Rightarrow> bool" where
  "wf_ConsumerGroupMemberAssignment m \<longleftrightarrow> wf_topic_partitions (mas_Topics m) \<and>
     pred_option (\<lambda>s. length s \<le> 2147483647) (mas_UserData m)"

interpretation mas: wire_codec enc_ConsumerGroupMemberAssignment "\<lambda>_. dec_ConsumerGroupMemberAssignment" "\<lambda>_. 0"
  wf_ConsumerGroupMemberAssignment
  by (rule wire_codecI, unfold enc_ConsumerGroupMemberAssignment_def dec_ConsumerGroupMemberAssignment_def
      wf_ConsumerGroupMemberAssignment_def)
    (rule codes_rules | auto simp: codes_simps; fail)+

subsection \<open>User data of the sticky strategy\<close>

record topicPartitionAssignment =
  tpa_Topic :: string
  tpa_Partition :: int32

definition populateTopicPartitions :: "(string \<times> int32 list) list \<Rightarrow> topicPartitionAssignment list" where
  "populateTopicPartitions tops =
     concat (map (\<lambda>(topic, prts). map (\<lambda>prt. \<lparr>tpa_Topic = topic, tpa_Partition = prt\<rparr>) prts) tops)"

record StickyAssignorUserDataV0 =
  su0_Topics :: "(string \<times> int32 list) list"
  su0_topicPartitions :: "topicPartitionAssignment list"

definition enc_StickyAssignorUserDataV0 :: "StickyAssignorUserDataV0 \<Rightarrow> pe_op list" where
  "enc_StickyAssignorUserDataV0 m = enc_topic_partitions (su0_Topics m)"

definition dec_StickyAssignorUserDataV0 :: "StickyAssignorUserDataV0 dec" where
  "dec_StickyAssignorUserDataV0 =
     dbind dec_topic_partitions (\<lambda>tops.
       dreturn \<lparr>su0_Topics = tops, su0_topicPartitions = populateTopicPartitions tops\<rparr>)"

definition wf_StickyAssignorUserDataV0 :: "StickyAssignorUserDataV0 \<Rightarrow> bool" where
  "wf_StickyAssignorUserDataV0 m \<longleftrightarrow> wf_topic_partitions (su0_Topics m) \<and>
     su0_topicPartitions m = populateTopicPartitions (su0_Topics m)"

interpretation su0: wire_codec enc_StickyAssignorUserDataV0 "\<lambda>_. dec_StickyAssignorUserDataV0" "\<lambda>_. 0"
  wf_StickyAssignorUserDataV0
  by (rule wire_codecI, unfold enc_StickyAssignorUserDataV0_def dec_StickyAssignorUserDataV0_def
      wf_StickyAssignorUserDataV0_def)
    (rule codes_rules | auto simp: codes_simps; fail)+

record StickyAssignorUserDataV1 =
  su1_Topics :: "(string \<times> int32 list) list"
  su1_Generation :: int32
  su1_topicPartitions :: "topicPartitionAssignment list"

definition enc_StickyAssignorUserDataV1 :: "StickyAssignorUserDataV1 \<Rightarrow> pe_op list" where
  "enc_StickyAssignorUserDataV1 m = enc_topic_partitions (su1_Topics m) @ [putInt32 (su1_Generation m)]"

definition dec_StickyAssignorUserDataV1 :: "StickyAssignorUserDataV1 dec" where
  "dec_StickyAssignorUserDataV1 =
     dbind dec_topic_partitions (\<lambda>tops.
     dbind getInt32 (\<lambda>generation.
       dreturn \<lparr>su1_Topics = tops, su1_Generation = generation,
         su1_topicPartitions = populateTopicPartitions tops\<rparr>))"

definition wf_StickyAssignorUserDataV1 :: "StickyAssignorUserDataV1 \<Rightarrow> bool" where
  "wf_StickyAssignorUserDataV1 m \<longleftrightarrow> wf_topic_partitions (su1_Topics m) \<and>
     su1_topicPartitions m = populateTopicPartitions (su1_Topics m)"

interpretation su1: wire_codec enc_StickyAssignorUserDataV1 "\<lambda>_. dec_StickyAssignorUserDataV1" "\<lambda>_. 0"
  wf_StickyAssignorUserDataV1
  by (rule wire_codecI, unfold enc_StickyAssignorUserDataV1_def dec_StickyAssignorUserDataV1_def
      wf_StickyAssignorUserDataV1_def)
    (rule codes_rules | auto simp: codes_simps; fail)+

end
