(* ===== verification/Group_Messages.thy ===== *)
theory Group_Messages
  imports Group_Metadata
begin

text \<open>
  The messages of consumer groups: \<open>find_coordinator_*.go\<close>, \<open>join_group_*.go\<close>,
  \<open>sync_group_*.go\<close>, \<open>heartbeat_*.go\<close>, \<open>leave_group_*.go\<close>, \<open>describe_groups_*.go\<close>,
  \<open>list_groups_request.go\<close>, \<open>delete_groups_*.go\<close>. The blocks of a DescribeGroups response keep the
  version they were encoded or decoded with.

  Every type interprets \<open>wire_codec\<close>, except the JoinGroup request, whose decoded form also holds
  the deprecated map of protocols.
\<close>

subsection \<open>FindCoordinator\<close>

record FindCoordinatorRequest =
  fcq_Version :: int
  fcq_CoordinatorKey :: string
  fcq_CoordinatorType :: int8

definition enc_FindCoordinatorRequest :: "FindCoordinatorRequest \<Rightarrow> pe_op list" where
  "enc_FindCoordinatorRequest r =
     [putString (fcq_CoordinatorKey r)] @
     (if fcq_Version r \<ge> 1 then [putInt8 (fcq_CoordinatorType r)] else [])"

definition dec_FindCoordinatorRequest :: "int \<Rightarrow> FindCoordinatorRequest dec" where
  "dec_FindCoordinatorRequest version =
     dbind getString (\<lambda>coordinatorKey.
     dbind (if version \<ge> 1 then getInt8 else dreturn 0) (\<lambda>coordinatorType.
       dreturn \<lparr>fcq_Version = version, fcq_CoordinatorKey = coordinatorKey,
         fcq_CoordinatorType = coordinatorType\<rparr>))"

definition wf_FindCoordinatorRequest :: "FindCoordinatorRequest \<Rightarrow> bool" where
  "wf_FindCoordinatorRequest r \<longleftrightarrow> length (fcq_CoordinatorKey r) \<le> 32767 \<and>
     (fcq_Version r \<ge> 1 \<or> fcq_CoordinatorType r = 0)"

interpretation fcq: wire_codec enc_FindCoordinatorRequest dec_FindCoordinatorRequest fcq_Version
  wf_FindCoordinatorRequest
  by (rule wire_codecI, unfold enc_FindCoordinatorRequest_def dec_FindCoordinatorRequest_def
      wf_FindCoordinatorRequest_def)
    (rule codes_rules | (auto simp: codes_simps; fail))+


text \<open>
  A response without a coordinator is sent with the address of \<open>NoNode\<close>; the decoder takes the
  address \<open>:0\<close> for a missing coordinator. The version is stored from version 1 on.
\<close>

definition NoNode :: Broker where
  "NoNode = \<lparr>br_id = - 1, br_addr = '':-1'', br_rack = None\<rparr>"

record FindCoordinatorResponse =
  fcr_Version :: int
  fcr_ThrottleTime :: int64
  fcr_Err :: KError
  fcr_ErrMsg :: nstring
  fcr_Coordinator :: "Broker option"

definition enc_FindCoordinatorResponse :: "FindCoordinatorResponse \<Rightarrow> pe_op list" where
  "enc_FindCoordinatorResponse r =
     (if fcr_Version r \<ge> 1 then enc_millis32 (fcr_ThrottleTime r) else []) @
     [putInt16 (fcr_Err r)] @
     (if fcr_Version r \<ge> 1 then [putNullableString (fcr_ErrMsg r)] else []) @
     enc_Broker 0 (case fcr_Coordinator r of None \<Rightarrow> NoNode | Some b \<Rightarrow> b)"

definition dec_FindCoordinatorResponse :: "int \<Rightarrow> FindCoordinatorResponse dec" where
  "dec_FindCoordinatorResponse version =
     dbind (if version \<ge> 1 then dec_millis32 else dreturn 0) (\<lambda>throttleTime.
     dbind getInt16 (\<lambda>err.
     dbind (if version \<ge> 1 then getNullableString else dreturn None) (\<lambda>errMsg.
     dbind (dec_Broker 0) (\<lambda>coordinator.
       dreturn \<lparr>fcr_Version = (if version \<ge> 1 then version else 0), fcr_ThrottleTime = throttleTime,
         fcr_Err = err, fcr_ErrMsg = errMsg,
         fcr_Coordinator = (if br_addr coordinator = '':0'' then None else Some coordinator)\<rparr>))))"

definition wf_FindCoordinatorResponse :: "FindCoordinatorResponse \<Rightarrow> bool" where
  "wf_FindCoordinatorResponse r \<longleftrightarrow> fcr_Version r \<ge> 0 \<and>
     (if fcr_Version r \<ge> 1 then wf_millis32 (fcr_ThrottleTime r) else fcr_ThrottleTime r = 0) \<and>
     (if fcr_Version r \<ge> 1 then pred_option (\<lambda>s. length s \<le> 32767) (fcr_ErrMsg r) else fcr_ErrMsg r = None) \<and>
     (case fcr_Coordinator r of None \<Rightarrow> False | Some b \<Rightarrow> wf_Broker 0 b \<and> br_addr b \<noteq> '':0'')"

interpretation fcr: wire_codec enc_FindCoordinatorResponse dec_FindCoordinatorResponse fcr_Version
  wf_FindCoordinatorResponse
proof (rule wire_codecI)
  fix r assume wf: "wf_FindCoordinatorResponse r"
  then obtain b where b: "fcr_Coordinator r = Some b" "wf_Broker 0 b" "br_addr b \<noteq> '':0''"
    by (auto simp: wf_FindCoordinatorResponse_def split: option.splits)
  from wf b show "codes (dec_FindCoordinatorResponse (fcr_Version r)) (enc_FindCoordinatorResponse r) r"
    unfolding enc_FindCoordinatorResponse_def dec_FindCoordinatorResponse_def wf_FindCoordinatorResponse_def
    by - (rule codes_rules codes_last [OF brk.codes] | (auto simp: codes_simps; fail))+
qed

text \<open>A missing coordinator does not come back as missing, but as \<open>NoNode\<close>.\<close>

lemma wf_NoNode: "wf_Broker 0 NoNode"
  by code_simp

lemma missing_coordinator:
  assumes "wf_FindCoordinatorResponse (r\<lparr>fcr_Coordinator := Some NoNode\<rparr>)" "fcr_Coordinator r = None"
  shows "reads (dec_FindCoordinatorResponse (fcr_Version r)) (ser_ops (enc_FindCoordinatorResponse r))
    (r\<lparr>fcr_Coordinator := Some NoNode\<rparr>)"
  using fcr.reads [OF assms(1)] assms(2)
  by (cases "fcr_Version r \<ge> 1") (simp_all add: enc_FindCoordinatorResponse_def)

subsection \<open>JoinGroup\<close>

record GroupProtocol =
  gpr_Name :: string
  gpr_Metadata :: nbytes

definition enc_GroupProtocol :: "GroupProtocol \<Rightarrow> pe_op list" where
  "enc_GroupProtocol r =
     [putString (gpr_Name r), putBytes (gpr_Metadata r)]"

definition dec_GroupProtocol :: "GroupProtocol dec" where
  "dec_GroupProtocol =
     dbind getString (\<lambda>nm.
     dbind getBytes (\<lambda>metadata.
       dreturn \<lparr>gpr_Name = nm, gpr_Metadata = metadata\<rparr>))"

definition wf_GroupProtocol :: "GroupProtocol \<Rightarrow> bool" where
  "wf_GroupProtocol r \<longleftrightarrow> length (gpr_Name r) \<le> 32767 \<and>
     pred_option (\<lambda>s. length s \<le> 2147483647) (gpr_Metadata r)"

lemma enc_GroupProtocol_nonempty: "ser_ops (enc_GroupProtocol r) \<noteq> []"
  by (simp add: enc_GroupProtocol_def ser_simps)

interpretation gpr: wire_elem enc_GroupProtocol "\<lambda>_. dec_GroupProtocol" "\<lambda>_. 0"
  wf_GroupProtocol
  by (rule wire_elemI [OF _ enc_GroupProtocol_nonempty], unfold enc_GroupProtocol_def dec_GroupProtocol_def
      wf_GroupProtocol_def)
    (rule codes_rules | (auto simp: codes_simps; fail))+


text \<open>
  The protocols are held as a map, which is deprecated, and as an ordered list; a request that has
  both is refused by \<open>encode\<close>. \<open>decode\<close> fills both.
\<close>

record JoinGroupRequest =
  jgq_Version :: int
  jgq_GroupId :: string
  jgq_SessionTimeout :: int32
  jgq_RebalanceTimeout :: int32
  jgq_MemberId :: string
  jgq_GroupInstanceId :: nstring
  jgq_ProtocolType :: string
  jgq_GroupProtocols :: "(string \<times> nbytes) list"
  jgq_OrderedGroupProtocols :: "GroupProtocol list"

definition enc_JoinGroupRequest :: "JoinGroupRequest \<Rightarrow> pe_op list" where
  "enc_JoinGroupRequest r =
     [putString (jgq_GroupId r), putInt32 (jgq_SessionTimeout r)] @
     (if jgq_Version r \<ge> 1 then [putInt32 (jgq_RebalanceTimeout r)] else []) @
     [putString (jgq_MemberId r)] @
     (if jgq_Version r \<ge> 5 then [putNullableString (jgq_GroupInstanceId r)] else []) @
     [putString (jgq_ProtocolType r)] @
     (if jgq_GroupProtocols r \<noteq> [] then
        (if jgq_OrderedGroupProtocols r \<noteq> []
         then [fail (PacketDecodingError ''cannot specify both GroupProtocols and OrderedGroupProtocols'')]
         else enc_array (\<lambda>(name, metadata). [putString name, putBytes metadata]) (jgq_GroupProtocols r))
      else enc_array enc_GroupProtocol (jgq_OrderedGroupProtocols r))"

definition dec_JoinGroupRequest :: "int \<Rightarrow> JoinGroupRequest dec" where
  "dec_JoinGroupRequest version =
     dbind getString (\<lambda>groupId.
     dbind getInt32 (\<lambda>sessionTimeout.
     dbind (if version \<ge> 1 then getInt32 else dreturn 0) (\<lambda>rebalanceTimeout.
     dbind getString (\<lambda>memberId.
     dbind (if version \<ge> 5 then getNullableString else dreturn None) (\<lambda>groupInstanceId.
     dbind getString (\<lambda>protocolType.
     dbind (dec_loop dec_GroupProtocol) (\<lambda>protocols.
       dreturn \<lparr>jgq_Version = version, jgq_GroupId = groupId, jgq_SessionTimeout = sessionTimeout,
         jgq_RebalanceTimeout = rebalanceTimeout, jgq_MemberId = memberId,
         jgq_GroupInstanceId = groupInstanceId, jgq_ProtocolType = protocolType,
         jgq_GroupProtocols = go_map (map (\<lambda>p. (gpr_Name p, gpr_Metadata p)) protocols),
         jgq_OrderedGroupProtocols = protocols\<rparr>)))))))"

definition AddGroupProtocol :: "string \<Rightarrow> nbytes \<Rightarrow> JoinGroupRequest \<Rightarrow> JoinGroupRequest" where
  "AddGroupProtocol name metadata r =
     r\<lparr>jgq_OrderedGroupProtocols :=
         jgq_OrderedGroupProtocols r @ [\<lparr>gpr_Name = name, gpr_Metadata = metadata\<rparr>]\<rparr>"

definition AddGroupProtocolMetadata ::
    "string \<Rightarrow> ConsumerGroupMemberMetadata \<Rightarrow> JoinGroupRequest \<Rightarrow> JoinGroupRequest res" where
  "AddGroupProtocolMetadata name metadata r =
     res_bind (encode (enc_ConsumerGroupMemberMetadata metadata)) (\<lambda>bin. Ok (AddGroupProtocol name (Some bin) r))"

definition wf_JoinGroupRequest :: "JoinGroupRequest \<Rightarrow> bool" where
  "wf_JoinGroupRequest r \<longleftrightarrow> length (jgq_GroupId r) \<le> 32767 \<and>
     (jgq_Version r \<ge> 1 \<or> jgq_RebalanceTimeout r = 0) \<and> length (jgq_MemberId r) \<le> 32767 \<and>
     (if jgq_Version r \<ge> 5 then pred_option (\<lambda>s. length s \<le> 32767) (jgq_GroupInstanceId r)
      else jgq_GroupInstanceId r = None) \<and>
     length (jgq_ProtocolType r) \<le> 32767 \<and> jgq_GroupProtocols r = [] \<and>
     length (jgq_OrderedGroupProtocols r) \<le> 131070 \<and> list_all wf_GroupProtocol (jgq_OrderedGroupProtocols r)"

definition JoinGroupRequest_on_wire :: "JoinGroupRequest \<Rightarrow> JoinGroupRequest" where
  "JoinGroupRequest_on_wire r =
     r\<lparr>jgq_GroupProtocols := go_map (map (\<lambda>p. (gpr_Name p, gpr_Metadata p)) (jgq_OrderedGroupProtocols r))\<rparr>"

lemma codes_JoinGroupRequest:
  assumes "wf_JoinGroupRequest r"
  shows "codes (dec_JoinGroupRequest (jgq_Version r)) (enc_JoinGroupRequest r) (JoinGroupRequest_on_wire r)"
proof -
  have "jgq_GroupProtocols r = []" using assms by (simp add: wf_JoinGroupRequest_def)
  then show ?thesis
    using assms
    unfolding enc_JoinGroupRequest_def dec_JoinGroupRequest_def wf_JoinGroupRequest_def JoinGroupRequest_on_wire_def
    by (simp only: not_True_eq_False if_False simp_thms)
      (rule codes_rules | (auto simp: codes_simps intro!: gpr.codes gpr.nonempty; fail))+
qed

text \<open>So a decoded request with protocols cannot be sent on.\<close>

lemma decoded_JoinGroupRequest_not_sendable:
  assumes "jgq_OrderedGroupProtocols r \<noteq> []"
  shows "\<exists>e. encode (enc_JoinGroupRequest (JoinGroupRequest_on_wire r)) = Err e"
proof (rule encode_ops_bad)
  have "go_map (map (\<lambda>p. (gpr_Name p, gpr_Metadata p)) (jgq_OrderedGroupProtocols r)) \<noteq> []"
    using assms by (intro go_map_nonempty) simp
  with assms show "\<not> ops_ok (enc_JoinGroupRequest (JoinGroupRequest_on_wire r))"
    by (simp add: enc_JoinGroupRequest_def JoinGroupRequest_on_wire_def)
qed

record GroupMember =
  gmm_MemberId :: string
  gmm_GroupInstanceId :: nstring
  gmm_Metadata :: nbytes

definition enc_GroupMember :: "int \<Rightarrow> GroupMember \<Rightarrow> pe_op list" where
  "enc_GroupMember version r =
     [putString (gmm_MemberId r)] @
     (if version \<ge> 5 then [putNullableString (gmm_GroupInstanceId r)] else []) @
     [putBytes (gmm_Metadata r)]"

definition dec_GroupMember :: "int \<Rightarrow> GroupMember dec" where
  "dec_GroupMember version =
     dbind getString (\<lambda>memberId.
     dbind (if version \<ge> 5 then getNullableString else dreturn None) (\<lambda>groupInstanceId.
     dbind getBytes (\<lambda>metadata.
       dreturn \<lparr>gmm_MemberId = memberId, gmm_GroupInstanceId = groupInstanceId, gmm_Metadata = metadata\<rparr>)))"

definition wf_GroupMember :: "int \<Rightarrow> GroupMember \<Rightarrow> bool" where
  "wf_GroupMember version r \<longleftrightarrow> length (gmm_MemberId r) \<le> 32767 \<and>
     (if version \<ge> 5 then pred_option (\<lambda>s. length s \<le> 32767) (gmm_GroupInstanceId r) else gmm_GroupInstanceId r = None) \<and>
     pred_option (\<lambda>s. length s \<le> 2147483647) (gmm_Metadata r)"

lemma enc_GroupMember_nonempty: "ser_ops (enc_GroupMember version r) \<noteq> []"
  by (simp add: enc_GroupMember_def ser_simps)

interpretation gmm: wire_elem "enc_GroupMember v" dec_GroupMember "\<lambda>_. v"
  "wf_GroupMember v" for v
  by (rule wire_elemI [OF _ enc_GroupMember_nonempty], unfold enc_GroupMember_def dec_GroupMember_def
      wf_GroupMember_def)
    (rule codes_rules | (auto simp: codes_simps; fail))+

record JoinGroupResponse =
  jgr_Version :: int
  jgr_ThrottleTime :: int32
  jgr_Err :: KError
  jgr_GenerationId :: int32
  jgr_GroupProtocol :: string
  jgr_LeaderId :: string
  jgr_MemberId :: string
  jgr_Members :: "GroupMember list"

definition enc_JoinGroupResponse :: "JoinGroupResponse \<Rightarrow> pe_op list" where
  "enc_JoinGroupResponse r =
     (if jgr_Version r \<ge> 2 then [putInt32 (jgr_ThrottleTime r)] else []) @
     [putInt16 (jgr_Err r), putInt32 (jgr_GenerationId r), putString (jgr_GroupProtocol r),
      putString (jgr_LeaderId r), putString (jgr_MemberId r)] @
     enc_array (enc_GroupMember (jgr_Version r)) (jgr_Members r)"

definition dec_JoinGroupResponse :: "int \<Rightarrow> JoinGroupResponse dec" where
  "dec_JoinGroupResponse version =
     dbind (if version \<ge> 2 then getInt32 else dreturn 0) (\<lambda>throttleTime.
     dbind getInt16 (\<lambda>err.
     dbind getInt32 (\<lambda>generationId.
     dbind getString (\<lambda>protocol.
     dbind getString (\<lambda>leaderId.
     dbind getString (\<lambda>memberId.
     dbind (dec_array (dec_GroupMember version)) (\<lambda>mems.
       dreturn \<lparr>jgr_Version = version, jgr_ThrottleTime = throttleTime, jgr_Err = err,
         jgr_GenerationId = generationId, jgr_GroupProtocol = protocol, jgr_LeaderId = leaderId,
         jgr_MemberId = memberId, jgr_Members = mems\<rparr>)))))))"

definition wf_JoinGroupResponse :: "JoinGroupResponse \<Rightarrow> bool" where
  "wf_JoinGroupResponse r \<longleftrightarrow> (jgr_Version r \<ge> 2 \<or> jgr_ThrottleTime r = 0) \<and>
     length (jgr_GroupProtocol r) \<le> 32767 \<and>
     length (jgr_LeaderId r) \<le> 32767 \<and>
     length (jgr_MemberId r) \<le> 32767 \<and>
     length (jgr_Members r) \<le> 131070 \<and> list_all (wf_GroupMember (jgr_Version r)) (jgr_Members r)"

interpretation jgr: wire_codec enc_JoinGroupResponse dec_JoinGroupResponse jgr_Version
  wf_JoinGroupResponse
  by (rule wire_codecI, unfold enc_JoinGroupResponse_def dec_JoinGroupResponse_def
      wf_JoinGroupResponse_def)
    (rule codes_rules | (auto simp: codes_simps intro!: gmm.codes gmm.nonempty; fail))+


definition GetMembers :: "JoinGroupResponse \<Rightarrow> (string \<times> ConsumerGroupMemberMetadata) list res" where
  "GetMembers r =
     fold (\<lambda>member acc. res_bind acc (\<lambda>m.
         res_bind (decode (gmm_Metadata member) zero_metadata dec_ConsumerGroupMemberMetadata) (\<lambda>meta.
           Ok (AList.update (gmm_MemberId member) meta m)))) (jgr_Members r) (Ok [])"

subsection \<open>SyncGroup\<close>

record SyncGroupRequestAssignment =
  sga_MemberId :: string
  sga_Assignment :: nbytes

definition enc_SyncGroupRequestAssignment :: "SyncGroupRequestAssignment \<Rightarrow> pe_op list" where
  "enc_SyncGroupRequestAssignment r =
     [putString (sga_MemberId r), putBytes (sga_Assignment r)]"

definition dec_SyncGroupRequestAssignment :: "SyncGroupRequestAssignment dec" where
  "dec_SyncGroupRequestAssignment =
     dbind getString (\<lambda>memberId.
     dbind getBytes (\<lambda>assignment.
       dreturn \<lparr>sga_MemberId = memberId, sga_Assignment = assignment\<rparr>))"

definition wf_SyncGroupRequestAssignment :: "SyncGroupRequestAssignment \<Rightarrow> bool" where
  "wf_SyncGroupRequestAssignment r \<longleftrightarrow> length (sga_MemberId r) \<le> 32767 \<and>
     pred_option (\<lambda>s. length s \<le> 2147483647) (sga_Assignment r)"

lemma enc_SyncGroupRequestAssignment_nonempty: "ser_ops (enc_SyncGroupRequestAssignment r) \<noteq> []"
  by (simp add: enc_SyncGroupRequestAssignment_def ser_simps)

interpretation sga: wire_elem enc_SyncGroupRequestAssignment "\<lambda>_. dec_SyncGroupRequestAssignment" "\<lambda>_. 0"
  wf_SyncGroupRequestAssignment
  by (rule wire_elemI [OF _ enc_SyncGroupRequestAssignment_nonempty], unfold enc_SyncGroupRequestAssignment_def dec_SyncGroupRequestAssignment_def
      wf_SyncGroupRequestAssignment_def)
    (rule codes_rules | (auto simp: codes_simps; fail))+

record SyncGroupRequest =
  sgq_Version :: int
  sgq_GroupId :: string
  sgq_GenerationId :: int32
  sgq_MemberId :: string
  sgq_GroupInstanceId :: nstring
  sgq_GroupAssignments :: "SyncGroupRequestAssignment list"

definition enc_SyncGroupRequest :: "SyncGroupRequest \<Rightarrow> pe_op list" where
  "enc_SyncGroupRequest r =
     [putString (sgq_GroupId r), putInt32 (sgq_GenerationId r), putString (sgq_MemberId r)] @
     (if sgq_Version r \<ge> 3 then [putNullableString (sgq_GroupInstanceId r)] else []) @
     enc_array enc_SyncGroupRequestAssignment (sgq_GroupAssignments r)"

definition dec_SyncGroupRequest :: "int \<Rightarrow> SyncGroupRequest dec" where
  "dec_SyncGroupRequest version =
     dbind getString (\<lambda>groupId.
     dbind getInt32 (\<lambda>generationId.
     dbind getString (\<lambda>memberId.
     dbind (if version \<ge> 3 then getNullableString else dreturn None) (\<lambda>groupInstanceId.
     dbind (dec_loop dec_SyncGroupRequestAssignment) (\<lambda>groupAssignments.
       dreturn \<lparr>sgq_Version = version, sgq_GroupId = groupId, sgq_GenerationId = generationId,
         sgq_MemberId = memberId, sgq_GroupInstanceId = groupInstanceId,
         sgq_GroupAssignments = groupAssignments\<rparr>)))))"

definition wf_SyncGroupRequest :: "SyncGroupRequest \<Rightarrow> bool" where
  "wf_SyncGroupRequest r \<longleftrightarrow> length (sgq_GroupId r) \<le> 32767 \<and>
     length (sgq_MemberId r) \<le> 32767 \<and>
     (if sgq_Version r \<ge> 3 then pred_option (\<lambda>s. length s \<le> 32767) (sgq_GroupInstanceId r) else sgq_GroupInstanceId r = None) \<and>
     length (sgq_GroupAssignments r) \<le> 131070 \<and> list_all wf_SyncGroupRequestAssignment (sgq_GroupAssignments r)"

interpretation sgq: wire_codec enc_SyncGroupRequest dec_SyncGroupRequest sgq_Version
  wf_SyncGroupRequest
  by (rule wire_codecI, unfold enc_SyncGroupRequest_def dec_SyncGroupRequest_def
      wf_SyncGroupRequest_def)
    (rule codes_rules | (auto simp: codes_simps intro!: sga.codes sga.nonempty; fail))+

record SyncGroupResponse =
  sgr_Version :: int
  sgr_ThrottleTime :: int32
  sgr_Err :: KError
  sgr_MemberAssignment :: nbytes

definition enc_SyncGroupResponse :: "SyncGroupResponse \<Rightarrow> pe_op list" where
  "enc_SyncGroupResponse r =
     (if sgr_Version r \<ge> 1 then [putInt32 (sgr_ThrottleTime r)] else []) @
     [putInt16 (sgr_Err r), putBytes (sgr_MemberAssignment r)]"

definition dec_SyncGroupResponse :: "int \<Rightarrow> SyncGroupResponse dec" where
  "dec_SyncGroupResponse version =
     dbind (if version \<ge> 1 then getInt32 else dreturn 0) (\<lambda>throttleTime.
     dbind getInt16 (\<lambda>err.
     dbind getBytes (\<lambda>memberAssignment.
       dreturn \<lparr>sgr_Version = version, sgr_ThrottleTime = throttleTime, sgr_Err = err,
         sgr_MemberAssignment = memberAssignment\<rparr>)))"

definition wf_SyncGroupResponse :: "SyncGroupResponse \<Rightarrow> bool" where
  "wf_SyncGroupResponse r \<longleftrightarrow> (sgr_Version r \<ge> 1 \<or> sgr_ThrottleTime r = 0) \<and>
     pred_option (\<lambda>s. length s \<le> 2147483647) (sgr_MemberAssignment r)"

interpretation sgr: wire_codec enc_SyncGroupResponse dec_SyncGroupResponse sgr_Version
  wf_SyncGroupResponse
  by (rule wire_codecI, unfold enc_SyncGroupResponse_def dec_SyncGroupResponse_def
      wf_SyncGroupResponse_def)
    (rule codes_rules | (auto simp: codes_simps; fail))+

subsection \<open>Heartbeat and LeaveGroup\<close>

record HeartbeatRequest =
  hbq_Version :: int
  hbq_GroupId :: string
  hbq_GenerationId :: int32
  hbq_MemberId :: string
  hbq_GroupInstanceId :: nstring

definition enc_HeartbeatRequest :: "HeartbeatRequest \<Rightarrow> pe_op list" where
  "enc_HeartbeatRequest r =
     [putString (hbq_GroupId r), putInt32 (hbq_GenerationId r), putString (hbq_MemberId r)] @
     (if hbq_Version r \<ge> 3 then [putNullableString (hbq_GroupInstanceId r)] else [])"

definition dec_HeartbeatRequest :: "int \<Rightarrow> HeartbeatRequest dec" where
  "dec_HeartbeatRequest version =
     dbind getString (\<lambda>groupId.
     dbind getInt32 (\<lambda>generationId.
     dbind getString (\<lambda>memberId.
     dbind (if version \<ge> 3 then getNullableString else dreturn None) (\<lambda>groupInstanceId.
       dreturn \<lparr>hbq_Version = version, hbq_GroupId = groupId, hbq_GenerationId = generationId,
         hbq_MemberId = memberId, hbq_GroupInstanceId = groupInstanceId\<rparr>))))"

definition wf_HeartbeatRequest :: "HeartbeatRequest \<Rightarrow> bool" where
  "wf_HeartbeatRequest r \<longleftrightarrow> length (hbq_GroupId r) \<le> 32767 \<and>
     length (hbq_MemberId r) \<le> 32767 \<and>
     (if hbq_Version r \<ge> 3 then pred_option (\<lambda>s. length s \<le> 32767) (hbq_GroupInstanceId r) else hbq_GroupInstanceId r = None)"

interpretation hbq: wire_codec enc_HeartbeatRequest dec_HeartbeatRequest hbq_Version
  wf_HeartbeatRequest
  by (rule wire_codecI, unfold enc_HeartbeatRequest_def dec_HeartbeatRequest_def
      wf_HeartbeatRequest_def)
    (rule codes_rules | (auto simp: codes_simps; fail))+

record HeartbeatResponse =
  hbr_Version :: int
  hbr_ThrottleTime :: int32
  hbr_Err :: KError

definition enc_HeartbeatResponse :: "HeartbeatResponse \<Rightarrow> pe_op list" where
  "enc_HeartbeatResponse r =
     (if hbr_Version r \<ge> 1 then [putInt32 (hbr_ThrottleTime r)] else []) @
     [putInt16 (hbr_Err r)]"

definition dec_HeartbeatResponse :: "int \<Rightarrow> HeartbeatResponse dec" where
  "dec_HeartbeatResponse version =
     dbind (if version \<ge> 1 then getInt32 else dreturn 0) (\<lambda>throttleTime.
     dbind getInt16 (\<lambda>err.
       dreturn \<lparr>hbr_Version = version, hbr_ThrottleTime = throttleTime, hbr_Err = err\<rparr>))"

definition wf_HeartbeatResponse :: "HeartbeatResponse \<Rightarrow> bool" where
  "wf_HeartbeatResponse r \<longleftrightarrow> (hbr_Version r \<ge> 1 \<or> hbr_ThrottleTime r = 0)"

interpretation hbr: wire_codec enc_HeartbeatResponse dec_HeartbeatResponse hbr_Version
  wf_HeartbeatResponse
  by (rule wire_codecI, unfold enc_HeartbeatResponse_def dec_HeartbeatResponse_def
      wf_HeartbeatResponse_def)
    (rule codes_rules | (auto simp: codes_simps; fail))+

record MemberIdentity =
  mid_MemberId :: string
  mid_GroupInstanceId :: nstring

definition enc_MemberIdentity :: "MemberIdentity \<Rightarrow> pe_op list" where
  "enc_MemberIdentity r =
     [putString (mid_MemberId r), putNullableString (mid_GroupInstanceId r)]"

definition dec_MemberIdentity :: "MemberIdentity dec" where
  "dec_MemberIdentity =
     dbind getString (\<lambda>memberId.
     dbind getNullableString (\<lambda>groupInstanceId.
       dreturn \<lparr>mid_MemberId = memberId, mid_GroupInstanceId = groupInstanceId\<rparr>))"

definition wf_MemberIdentity :: "MemberIdentity \<Rightarrow> bool" where
  "wf_MemberIdentity r \<longleftrightarrow> length (mid_MemberId r) \<le> 32767 \<and>
     pred_option (\<lambda>s. length s \<le> 32767) (mid_GroupInstanceId r)"

lemma enc_MemberIdentity_nonempty: "ser_ops (enc_MemberIdentity r) \<noteq> []"
  by (simp add: enc_MemberIdentity_def ser_simps)

interpretation mid: wire_elem enc_MemberIdentity "\<lambda>_. dec_MemberIdentity" "\<lambda>_. 0"
  wf_MemberIdentity
  by (rule wire_elemI [OF _ enc_MemberIdentity_nonempty], unfold enc_MemberIdentity_def dec_MemberIdentity_def
      wf_MemberIdentity_def)
    (rule codes_rules | (auto simp: codes_simps; fail))+

record LeaveGroupRequest =
  lgq_Version :: int
  lgq_GroupId :: string
  lgq_MemberId :: string
  lgq_Members :: "MemberIdentity list"

definition enc_LeaveGroupRequest :: "LeaveGroupRequest \<Rightarrow> pe_op list" where
  "enc_LeaveGroupRequest r =
     [putString (lgq_GroupId r)] @
     (if lgq_Version r < 3 then [putString (lgq_MemberId r)] else []) @
     (if lgq_Version r \<ge> 3 then enc_array enc_MemberIdentity (lgq_Members r) else [])"

definition dec_LeaveGroupRequest :: "int \<Rightarrow> LeaveGroupRequest dec" where
  "dec_LeaveGroupRequest version =
     dbind getString (\<lambda>groupId.
     dbind (if version < 3 then getString else dreturn []) (\<lambda>memberId.
     dbind (if version \<ge> 3 then dec_array dec_MemberIdentity else dreturn []) (\<lambda>mems.
       dreturn \<lparr>lgq_Version = version, lgq_GroupId = groupId, lgq_MemberId = memberId, lgq_Members = mems\<rparr>)))"

definition wf_LeaveGroupRequest :: "LeaveGroupRequest \<Rightarrow> bool" where
  "wf_LeaveGroupRequest r \<longleftrightarrow> length (lgq_GroupId r) \<le> 32767 \<and>
     (if lgq_Version r < 3 then length (lgq_MemberId r) \<le> 32767 else lgq_MemberId r = []) \<and>
     (if lgq_Version r \<ge> 3 then length (lgq_Members r) \<le> 131070 \<and> list_all wf_MemberIdentity (lgq_Members r) else lgq_Members r = [])"

interpretation lgq: wire_codec enc_LeaveGroupRequest dec_LeaveGroupRequest lgq_Version
  wf_LeaveGroupRequest
  by (rule wire_codecI, unfold enc_LeaveGroupRequest_def dec_LeaveGroupRequest_def
      wf_LeaveGroupRequest_def)
    (rule codes_rules | (auto simp: codes_simps intro!: mid.codes mid.nonempty; fail))+

record MemberResponse =
  mrs_MemberId :: string
  mrs_GroupInstanceId :: nstring
  mrs_Err :: KError

definition enc_MemberResponse :: "MemberResponse \<Rightarrow> pe_op list" where
  "enc_MemberResponse r =
     [putString (mrs_MemberId r), putNullableString (mrs_GroupInstanceId r),
      putInt16 (mrs_Err r)]"

definition dec_MemberResponse :: "MemberResponse dec" where
  "dec_MemberResponse =
     dbind getString (\<lambda>memberId.
     dbind getNullableString (\<lambda>groupInstanceId.
     dbind getInt16 (\<lambda>err.
       dreturn \<lparr>mrs_MemberId = memberId, mrs_GroupInstanceId = groupInstanceId, mrs_Err = err\<rparr>)))"

definition wf_MemberResponse :: "MemberResponse \<Rightarrow> bool" where
  "wf_MemberResponse r \<longleftrightarrow> length (mrs_MemberId r) \<le> 32767 \<and>
     pred_option (\<lambda>s. length s \<le> 32767) (mrs_GroupInstanceId r)"

lemma enc_MemberResponse_nonempty: "ser_ops (enc_MemberResponse r) \<noteq> []"
  by (simp add: enc_MemberResponse_def ser_simps)

interpretation mrs: wire_elem enc_MemberResponse "\<lambda>_. dec_MemberResponse" "\<lambda>_. 0"
  wf_MemberResponse
  by (rule wire_elemI [OF _ enc_MemberResponse_nonempty], unfold enc_MemberResponse_def dec_MemberResponse_def
      wf_MemberResponse_def)
    (rule codes_rules | (auto simp: codes_simps; fail))+

record LeaveGroupResponse =
  lgr_Version :: int
  lgr_ThrottleTime :: int32
  lgr_Err :: KError
  lgr_Members :: "MemberResponse list"

definition enc_LeaveGroupResponse :: "LeaveGroupResponse \<Rightarrow> pe_op list" where
  "enc_LeaveGroupResponse r =
     (if lgr_Version r \<ge> 1 then [putInt32 (lgr_ThrottleTime r)] else []) @
     [putInt16 (lgr_Err r)] @
     (if lgr_Version r \<ge> 3 then enc_array enc_MemberResponse (lgr_Members r) else [])"

definition dec_LeaveGroupResponse :: "int \<Rightarrow> LeaveGroupResponse dec" where
  "dec_LeaveGroupResponse version =
     dbind (if version \<ge> 1 then getInt32 else dreturn 0) (\<lambda>throttleTime.
     dbind getInt16 (\<lambda>err.
     dbind (if version \<ge> 3 then dec_array dec_MemberResponse else dreturn []) (\<lambda>mems.
       dreturn \<lparr>lgr_Version = version, lgr_ThrottleTime = throttleTime, lgr_Err = err, lgr_Members = mems\<rparr>)))"

definition wf_LeaveGroupResponse :: "LeaveGroupResponse \<Rightarrow> bool" where
  "wf_LeaveGroupResponse r \<longleftrightarrow> (lgr_Version r \<ge> 1 \<or> lgr_ThrottleTime r = 0) \<and>
     (if lgr_Version r \<ge> 3 then length (lgr_Members r) \<le> 131070 \<and> list_all wf_MemberResponse (lgr_Members r) else lgr_Members r = [])"

interpretation lgr: wire_codec enc_LeaveGroupResponse dec_LeaveGroupResponse lgr_Version
  wf_LeaveGroupResponse
  by (rule wire_codecI, unfold enc_LeaveGroupResponse_def dec_LeaveGroupResponse_def
      wf_LeaveGroupResponse_def)
    (rule codes_rules | (auto simp: codes_simps intro!: mrs.codes mrs.nonempty; fail))+

subsection \<open>DescribeGroups\<close>

record DescribeGroupsRequest =
  dgq_Version :: int
  dgq_Groups :: "string list"
  dgq_IncludeAuthorizedOperations :: bool

definition enc_DescribeGroupsRequest :: "DescribeGroupsRequest \<Rightarrow> pe_op list" where
  "enc_DescribeGroupsRequest r =
     [putStringArray (dgq_Groups r)] @
     (if dgq_Version r \<ge> 3 then [putBool (dgq_IncludeAuthorizedOperations r)] else [])"

definition dec_DescribeGroupsRequest :: "int \<Rightarrow> DescribeGroupsRequest dec" where
  "dec_DescribeGroupsRequest version =
     dbind getStringArray (\<lambda>groups.
     dbind (if version \<ge> 3 then getBool else dreturn False) (\<lambda>includeAuthorizedOperations.
       dreturn \<lparr>dgq_Version = version, dgq_Groups = groups,
         dgq_IncludeAuthorizedOperations = includeAuthorizedOperations\<rparr>))"

definition wf_DescribeGroupsRequest :: "DescribeGroupsRequest \<Rightarrow> bool" where
  "wf_DescribeGroupsRequest r \<longleftrightarrow> length (dgq_Groups r) \<le> 2147483647 \<and> list_all (\<lambda>s. length s \<le> 32767) (dgq_Groups r) \<and>
     (dgq_Version r \<ge> 3 \<or> \<not> dgq_IncludeAuthorizedOperations r)"

interpretation dgq: wire_codec enc_DescribeGroupsRequest dec_DescribeGroupsRequest dgq_Version
  wf_DescribeGroupsRequest
  by (rule wire_codecI, unfold enc_DescribeGroupsRequest_def dec_DescribeGroupsRequest_def
      wf_DescribeGroupsRequest_def)
    (rule codes_rules | (auto simp: codes_simps; fail))+

record GroupMemberDescription =
  gmd_Version :: int
  gmd_MemberId :: string
  gmd_GroupInstanceId :: nstring
  gmd_ClientId :: string
  gmd_ClientHost :: string
  gmd_MemberMetadata :: nbytes
  gmd_MemberAssignment :: nbytes

definition enc_GroupMemberDescription :: "int \<Rightarrow> GroupMemberDescription \<Rightarrow> pe_op list" where
  "enc_GroupMemberDescription version r =
     [putString (gmd_MemberId r)] @
     (if version \<ge> 4 then [putNullableString (gmd_GroupInstanceId r)] else []) @
     [putString (gmd_ClientId r), putString (gmd_ClientHost r), putBytes (gmd_MemberMetadata r),
      putBytes (gmd_MemberAssignment r)]"

definition dec_GroupMemberDescription :: "int \<Rightarrow> GroupMemberDescription dec" where
  "dec_GroupMemberDescription version =
     dbind getString (\<lambda>memberId.
     dbind (if version \<ge> 4 then getNullableString else dreturn None) (\<lambda>groupInstanceId.
     dbind getString (\<lambda>clientId.
     dbind getString (\<lambda>clientHost.
     dbind getBytes (\<lambda>memberMetadata.
     dbind getBytes (\<lambda>memberAssignment.
       dreturn \<lparr>gmd_Version = version, gmd_MemberId = memberId, gmd_GroupInstanceId = groupInstanceId,
         gmd_ClientId = clientId, gmd_ClientHost = clientHost, gmd_MemberMetadata = memberMetadata,
         gmd_MemberAssignment = memberAssignment\<rparr>))))))"

definition wf_GroupMemberDescription :: "int \<Rightarrow> GroupMemberDescription \<Rightarrow> bool" where
  "wf_GroupMemberDescription version r \<longleftrightarrow> gmd_Version r = version \<and>
     length (gmd_MemberId r) \<le> 32767 \<and>
     (if version \<ge> 4 then pred_option (\<lambda>s. length s \<le> 32767) (gmd_GroupInstanceId r) else gmd_GroupInstanceId r = None) \<and>
     length (gmd_ClientId r) \<le> 32767 \<and>
     length (gmd_ClientHost r) \<le> 32767 \<and>
     pred_option (\<lambda>s. length s \<le> 2147483647) (gmd_MemberMetadata r) \<and>
     pred_option (\<lambda>s. length s \<le> 2147483647) (gmd_MemberAssignment r)"

lemma enc_GroupMemberDescription_nonempty: "ser_ops (enc_GroupMemberDescription version r) \<noteq> []"
  by (simp add: enc_GroupMemberDescription_def ser_simps)

interpretation gmd: wire_elem "enc_GroupMemberDescription v" dec_GroupMemberDescription "\<lambda>_. v"
  "wf_GroupMemberDescription v" for v
  by (rule wire_elemI [OF _ enc_GroupMemberDescription_nonempty], unfold enc_GroupMemberDescription_def dec_GroupMemberDescription_def
      wf_GroupMemberDescription_def)
    (rule codes_rules | (auto simp: codes_simps; fail))+

record GroupDescription =
  gde_Version :: int
  gde_Err :: KError
  gde_ErrorCode :: int16
  gde_GroupId :: string
  gde_State :: string
  gde_ProtocolType :: string
  gde_Protocol :: string
  gde_Members :: "(string \<times> GroupMemberDescription) list"
  gde_AuthorizedOperations :: int32

definition enc_GroupDescription :: "int \<Rightarrow> GroupDescription \<Rightarrow> pe_op list" where
  "enc_GroupDescription version r =
     [putInt16 (gde_ErrorCode r), putString (gde_GroupId r), putString (gde_State r),
      putString (gde_ProtocolType r), putString (gde_Protocol r)] @
     enc_array (\<lambda>(_, x). enc_GroupMemberDescription version x) (gde_Members r) @
     (if version \<ge> 3 then [putInt32 (gde_AuthorizedOperations r)] else [])"

definition dec_GroupDescription :: "int \<Rightarrow> GroupDescription dec" where
  "dec_GroupDescription version =
     dbind getInt16 (\<lambda>errorCode.
     dbind getString (\<lambda>groupId.
     dbind getString (\<lambda>state.
     dbind getString (\<lambda>protocolType.
     dbind getString (\<lambda>protocol.
     dbind (dec_keyed gmd_MemberId (dec_GroupMemberDescription version)) (\<lambda>mems.
     dbind (if version \<ge> 3 then getInt32 else dreturn 0) (\<lambda>authorizedOperations.
       dreturn \<lparr>gde_Version = version, gde_Err = errorCode, gde_ErrorCode = errorCode,
         gde_GroupId = groupId, gde_State = state, gde_ProtocolType = protocolType,
         gde_Protocol = protocol, gde_Members = mems,
         gde_AuthorizedOperations = authorizedOperations\<rparr>)))))))"

definition wf_GroupDescription :: "int \<Rightarrow> GroupDescription \<Rightarrow> bool" where
  "wf_GroupDescription version r \<longleftrightarrow> gde_Version r = version \<and>
     gde_Err r = gde_ErrorCode r \<and>
     length (gde_GroupId r) \<le> 32767 \<and>
     length (gde_State r) \<le> 32767 \<and>
     length (gde_ProtocolType r) \<le> 32767 \<and>
     length (gde_Protocol r) \<le> 32767 \<and>
     length (gde_Members r) \<le> 131070 \<and> distinct (map fst (gde_Members r)) \<and>
     list_all (\<lambda>(k, x). k = gmd_MemberId x \<and> wf_GroupMemberDescription version x) (gde_Members r) \<and>
     (version \<ge> 3 \<or> gde_AuthorizedOperations r = 0)"

lemma enc_GroupDescription_nonempty: "ser_ops (enc_GroupDescription version r) \<noteq> []"
  by (simp add: enc_GroupDescription_def ser_simps)

interpretation gde: wire_elem "enc_GroupDescription v" dec_GroupDescription "\<lambda>_. v"
  "wf_GroupDescription v" for v
  by (rule wire_elemI [OF _ enc_GroupDescription_nonempty], unfold enc_GroupDescription_def dec_GroupDescription_def
      wf_GroupDescription_def)
    (rule codes_rules | (auto simp: codes_simps intro!: gmd.codes gmd.nonempty enc_GroupMemberDescription_nonempty; fail))+

record DescribeGroupsResponse =
  dgr_Version :: int
  dgr_ThrottleTimeMs :: int32
  dgr_Groups :: "GroupDescription list"

definition enc_DescribeGroupsResponse :: "DescribeGroupsResponse \<Rightarrow> pe_op list" where
  "enc_DescribeGroupsResponse r =
     (if dgr_Version r \<ge> 1 then [putInt32 (dgr_ThrottleTimeMs r)] else []) @
     enc_array (enc_GroupDescription (dgr_Version r)) (dgr_Groups r)"

definition dec_DescribeGroupsResponse :: "int \<Rightarrow> DescribeGroupsResponse dec" where
  "dec_DescribeGroupsResponse version =
     dbind (if version \<ge> 1 then getInt32 else dreturn 0) (\<lambda>throttleTimeMs.
     dbind (dec_loop (dec_GroupDescription version)) (\<lambda>groups.
       dreturn \<lparr>dgr_Version = version, dgr_ThrottleTimeMs = throttleTimeMs, dgr_Groups = groups\<rparr>))"

definition wf_DescribeGroupsResponse :: "DescribeGroupsResponse \<Rightarrow> bool" where
  "wf_DescribeGroupsResponse r \<longleftrightarrow> (dgr_Version r \<ge> 1 \<or> dgr_ThrottleTimeMs r = 0) \<and>
     length (dgr_Groups r) \<le> 131070 \<and> list_all (wf_GroupDescription (dgr_Version r)) (dgr_Groups r)"

interpretation dgr: wire_codec enc_DescribeGroupsResponse dec_DescribeGroupsResponse dgr_Version
  wf_DescribeGroupsResponse
  by (rule wire_codecI, unfold enc_DescribeGroupsResponse_def dec_DescribeGroupsResponse_def
      wf_DescribeGroupsResponse_def)
    (rule codes_rules | (auto simp: codes_simps intro!: gde.codes gde.nonempty; fail))+

subsection \<open>ListGroups and DeleteGroups\<close>

record ListGroupsRequest =
  lsq_Version :: int
  lsq_StatesFilter :: "string list"

definition enc_ListGroupsRequest :: "ListGroupsRequest \<Rightarrow> pe_op list" where
  "enc_ListGroupsRequest r =
     (if lsq_Version r \<ge> 4 then enc_carray (\<lambda>s. [putCompactString s]) (lsq_StatesFilter r) else []) @
     (if lsq_Version r \<ge> 3 then [putEmptyTaggedFieldArray] else [])"

definition dec_ListGroupsRequest :: "int \<Rightarrow> ListGroupsRequest dec" where
  "dec_ListGroupsRequest version =
     dbind (if version \<ge> 4 then dec_cloop getCompactString else dreturn []) (\<lambda>statesFilter.
     dbind (if version \<ge> 3 then getEmptyTaggedFieldArray else dreturn 0) (\<lambda>_.
       dreturn \<lparr>lsq_Version = version, lsq_StatesFilter = statesFilter\<rparr>))"

definition wf_ListGroupsRequest :: "ListGroupsRequest \<Rightarrow> bool" where
  "wf_ListGroupsRequest r \<longleftrightarrow> (if lsq_Version r \<ge> 4 then length (lsq_StatesFilter r) \<le> 2147483647 \<and> list_all (\<lambda>s. length s \<le> 32767) (lsq_StatesFilter r) else lsq_StatesFilter r = [])"

interpretation lsq: wire_codec enc_ListGroupsRequest dec_ListGroupsRequest lsq_Version
  wf_ListGroupsRequest
  by (rule wire_codecI, unfold enc_ListGroupsRequest_def dec_ListGroupsRequest_def
      wf_ListGroupsRequest_def)
    (rule codes_rules | (auto simp: codes_simps; fail))+

record DeleteGroupsRequest =
  delq_Version :: int
  delq_Groups :: "string list"

definition enc_DeleteGroupsRequest :: "DeleteGroupsRequest \<Rightarrow> pe_op list" where
  "enc_DeleteGroupsRequest r =
     [putStringArray (delq_Groups r)]"

definition dec_DeleteGroupsRequest :: "int \<Rightarrow> DeleteGroupsRequest dec" where
  "dec_DeleteGroupsRequest version =
     dbind getStringArray (\<lambda>groups.
       dreturn \<lparr>delq_Version = version, delq_Groups = groups\<rparr>)"

definition wf_DeleteGroupsRequest :: "DeleteGroupsRequest \<Rightarrow> bool" where
  "wf_DeleteGroupsRequest r \<longleftrightarrow> length (delq_Groups r) \<le> 2147483647 \<and> list_all (\<lambda>s. length s \<le> 32767) (delq_Groups r)"

interpretation delq: wire_codec enc_DeleteGroupsRequest dec_DeleteGroupsRequest delq_Version
  wf_DeleteGroupsRequest
  by (rule wire_codecI, unfold enc_DeleteGroupsRequest_def dec_DeleteGroupsRequest_def
      wf_DeleteGroupsRequest_def)
    (rule codes_rules | (auto simp: codes_simps; fail))+

record DeleteGroupsResponse =
  delr_Version :: int
  delr_ThrottleTime :: int64
  delr_GroupErrorCodes :: "(string \<times> KError) list"

definition enc_DeleteGroupsResponse :: "DeleteGroupsResponse \<Rightarrow> pe_op list" where
  "enc_DeleteGroupsResponse r =
     enc_millis32 (delr_ThrottleTime r) @
     enc_array (\<lambda>(groupID, errorCode). [putString groupID, putInt16 errorCode]) (delr_GroupErrorCodes r)"

definition dec_DeleteGroupsResponse :: "int \<Rightarrow> DeleteGroupsResponse dec" where
  "dec_DeleteGroupsResponse version =
     dbind dec_millis32 (\<lambda>throttleTime.
     dbind (dec_map (dec_pair getString getInt16)) (\<lambda>groupErrorCodes.
       dreturn \<lparr>delr_Version = 0, delr_ThrottleTime = throttleTime, delr_GroupErrorCodes = groupErrorCodes\<rparr>))"

definition wf_DeleteGroupsResponse :: "DeleteGroupsResponse \<Rightarrow> bool" where
  "wf_DeleteGroupsResponse r \<longleftrightarrow> delr_Version r = 0 \<and>
     wf_millis32 (delr_ThrottleTime r) \<and>
     length (delr_GroupErrorCodes r) \<le> 131070 \<and> distinct (map fst (delr_GroupErrorCodes r)) \<and> list_all (\<lambda>(g, _). length g \<le> 32767) (delr_GroupErrorCodes r)"

interpretation delr: wire_codec enc_DeleteGroupsResponse dec_DeleteGroupsResponse "\<lambda>_. v"
  wf_DeleteGroupsResponse for v
  by (rule wire_codecI, unfold enc_DeleteGroupsResponse_def dec_DeleteGroupsResponse_def
      wf_DeleteGroupsResponse_def)
    (rule codes_rules | (auto simp: codes_simps; fail))+

end
