(* ===== verification/Offset_Messages.thy ===== *)
theory Offset_Messages
  imports Group_Metadata
begin

text \<open>
  The messages that store and look up offsets: \<open>offset_commit_*.go\<close>, \<open>offset_fetch_*.go\<close>,
  \<open>offset_request.go\<close> and \<open>offset_response.go\<close> (ListOffsets), \<open>delete_offsets_*.go\<close>. Every type
  interprets \<open>wire_codec\<close>.
\<close>

subsection \<open>OffsetCommit\<close>

text \<open>A field a version does not carry is dropped; the code logs that it is not zero.\<close>

record offsetCommitRequestBlock =
  ocb_offset :: int64
  ocb_timestamp :: int64
  ocb_committedLeaderEpoch :: int32
  ocb_metadata :: string

definition enc_offsetCommitRequestBlock :: "int \<Rightarrow> offsetCommitRequestBlock \<Rightarrow> pe_op list" where
  "enc_offsetCommitRequestBlock version r =
     [putInt64 (ocb_offset r)] @
     (if version = 1 then [putInt64 (ocb_timestamp r)] else []) @
     (if version \<ge> 6 then [putInt32 (ocb_committedLeaderEpoch r)] else []) @
     [putString (ocb_metadata r)]"

definition dec_offsetCommitRequestBlock :: "int \<Rightarrow> offsetCommitRequestBlock dec" where
  "dec_offsetCommitRequestBlock version =
     dbind getInt64 (\<lambda>offset.
     dbind (if version = 1 then getInt64 else dreturn 0) (\<lambda>timestamp.
     dbind (if version \<ge> 6 then getInt32 else dreturn 0) (\<lambda>committedLeaderEpoch.
     dbind getString (\<lambda>metadata.
       dreturn \<lparr>ocb_offset = offset, ocb_timestamp = timestamp,
         ocb_committedLeaderEpoch = committedLeaderEpoch, ocb_metadata = metadata\<rparr>))))"

definition wf_offsetCommitRequestBlock :: "int \<Rightarrow> offsetCommitRequestBlock \<Rightarrow> bool" where
  "wf_offsetCommitRequestBlock version r \<longleftrightarrow> (version = 1 \<or> ocb_timestamp r = 0) \<and>
     (version \<ge> 6 \<or> ocb_committedLeaderEpoch r = 0) \<and>
     length (ocb_metadata r) \<le> 32767"

lemma enc_offsetCommitRequestBlock_nonempty: "ser_ops (enc_offsetCommitRequestBlock version r) \<noteq> []"
  by (simp add: enc_offsetCommitRequestBlock_def ser_simps)

interpretation ocb: wire_elem "enc_offsetCommitRequestBlock v" dec_offsetCommitRequestBlock "\<lambda>_. v"
  "wf_offsetCommitRequestBlock v" for v
  by (rule wire_elemI [OF _ enc_offsetCommitRequestBlock_nonempty], unfold enc_offsetCommitRequestBlock_def dec_offsetCommitRequestBlock_def
      wf_offsetCommitRequestBlock_def)
    (rule codes_rules | (auto simp: codes_simps; fail))+

record OffsetCommitRequest =
  ocq_Version :: int
  ocq_ConsumerGroup :: string
  ocq_ConsumerGroupGeneration :: int32
  ocq_ConsumerID :: string
  ocq_RetentionTime :: int64
  ocq_GroupInstanceId :: nstring
  ocq_blocks :: "offsetCommitRequestBlock topics"

definition enc_OffsetCommitRequest :: "OffsetCommitRequest \<Rightarrow> pe_op list" where
  "enc_OffsetCommitRequest r =
     enc_guard (ocq_Version r < 0 \<or> ocq_Version r > 7) (PacketEncodingError ''invalid or unsupported OffsetCommitRequest version field'') @
     [putString (ocq_ConsumerGroup r)] @
     (if ocq_Version r \<ge> 1 then [putInt32 (ocq_ConsumerGroupGeneration r)] else []) @
     (if ocq_Version r \<ge> 1 then [putString (ocq_ConsumerID r)] else []) @
     (if ocq_Version r \<ge> 2 \<and> ocq_Version r \<le> 4 then [putInt64 (ocq_RetentionTime r)] else []) @
     (if ocq_Version r \<ge> 7 then [putNullableString (ocq_GroupInstanceId r)] else []) @
     enc_topics (enc_offsetCommitRequestBlock (ocq_Version r)) (ocq_blocks r)"

definition dec_OffsetCommitRequest :: "int \<Rightarrow> OffsetCommitRequest dec" where
  "dec_OffsetCommitRequest version =
     dbind getString (\<lambda>consumerGroup.
     dbind (if version \<ge> 1 then getInt32 else dreturn 0) (\<lambda>consumerGroupGeneration.
     dbind (if version \<ge> 1 then getString else dreturn []) (\<lambda>consumerID.
     dbind (if version \<ge> 2 \<and> version \<le> 4 then getInt64 else dreturn 0) (\<lambda>retentionTime.
     dbind (if version \<ge> 7 then getNullableString else dreturn None) (\<lambda>groupInstanceId.
     dbind (dec_topics (dec_offsetCommitRequestBlock version)) (\<lambda>blocks.
       dreturn \<lparr>ocq_Version = version, ocq_ConsumerGroup = consumerGroup,
         ocq_ConsumerGroupGeneration = consumerGroupGeneration, ocq_ConsumerID = consumerID,
         ocq_RetentionTime = retentionTime, ocq_GroupInstanceId = groupInstanceId,
         ocq_blocks = blocks\<rparr>))))))"

definition wf_OffsetCommitRequest :: "OffsetCommitRequest \<Rightarrow> bool" where
  "wf_OffsetCommitRequest r \<longleftrightarrow> \<not> (ocq_Version r < 0 \<or> ocq_Version r > 7) \<and>
     length (ocq_ConsumerGroup r) \<le> 32767 \<and>
     (ocq_Version r \<ge> 1 \<or> ocq_ConsumerGroupGeneration r = 0) \<and>
     (if ocq_Version r \<ge> 1 then length (ocq_ConsumerID r) \<le> 32767 else ocq_ConsumerID r = []) \<and>
     (ocq_Version r \<ge> 2 \<and> ocq_Version r \<le> 4 \<or> ocq_RetentionTime r = 0) \<and>
     (if ocq_Version r \<ge> 7 then pred_option (\<lambda>s. length s \<le> 32767) (ocq_GroupInstanceId r) else ocq_GroupInstanceId r = None) \<and>
     wf_topics (wf_offsetCommitRequestBlock (ocq_Version r)) (ocq_blocks r)"

interpretation ocq: wire_codec enc_OffsetCommitRequest dec_OffsetCommitRequest ocq_Version
  wf_OffsetCommitRequest
  by (rule wire_codecI, unfold enc_OffsetCommitRequest_def dec_OffsetCommitRequest_def
      wf_OffsetCommitRequest_def)
    (rule codes_rules
      codes_bind [OF codes_topics [where P = "wf_offsetCommitRequestBlock (ocq_Version r)" for r]] codes_last [OF codes_topics [where P = "wf_offsetCommitRequestBlock (ocq_Version r)" for r]] | (auto simp: codes_simps intro!: ocb.codes ocb.nonempty; fail))+


definition AddBlockWithLeaderEpoch ::
    "string \<Rightarrow> int32 \<Rightarrow> int64 \<Rightarrow> int32 \<Rightarrow> int64 \<Rightarrow> string \<Rightarrow> OffsetCommitRequest \<Rightarrow> OffsetCommitRequest" where
  "AddBlockWithLeaderEpoch topic partitionID offset leaderEpoch timestamp metadata r =
     r\<lparr>ocq_blocks := set_block topic partitionID
         \<lparr>ocb_offset = offset, ocb_timestamp = timestamp, ocb_committedLeaderEpoch = leaderEpoch,
          ocb_metadata = metadata\<rparr> (ocq_blocks r)\<rparr>"

definition ocq_Offset :: "OffsetCommitRequest \<Rightarrow> string \<Rightarrow> int32 \<Rightarrow> (int64 \<times> string) res" where
  "ocq_Offset r topic partitionID =
     (case get_block (ocq_blocks r) topic partitionID of
        None \<Rightarrow> Err (OtherError ''no such offset'')
      | Some block \<Rightarrow> Ok (ocb_offset block, ocb_metadata block))"

lemma ocq_Offset_added:
  "ocq_Offset (AddBlockWithLeaderEpoch topic p offset epoch ts metadata r) topic' p' =
     (if topic' = topic \<and> p' = p then Ok (offset, metadata) else ocq_Offset r topic' p')"
  by (simp add: ocq_Offset_def AddBlockWithLeaderEpoch_def get_set_block)

record OffsetCommitResponse =
  ocr_Version :: int
  ocr_ThrottleTimeMs :: int32
  ocr_Errors :: "KError topics"

definition enc_OffsetCommitResponse :: "OffsetCommitResponse \<Rightarrow> pe_op list" where
  "enc_OffsetCommitResponse r =
     (if ocr_Version r \<ge> 3 then [putInt32 (ocr_ThrottleTimeMs r)] else []) @
     enc_topics (\<lambda>e. [putInt16 e]) (ocr_Errors r)"

definition dec_OffsetCommitResponse :: "int \<Rightarrow> OffsetCommitResponse dec" where
  "dec_OffsetCommitResponse version =
     dbind (if version \<ge> 3 then getInt32 else dreturn 0) (\<lambda>throttleTimeMs.
     dbind (dec_topics getInt16) (\<lambda>errors.
       dreturn \<lparr>ocr_Version = version, ocr_ThrottleTimeMs = throttleTimeMs, ocr_Errors = errors\<rparr>))"

definition wf_OffsetCommitResponse :: "OffsetCommitResponse \<Rightarrow> bool" where
  "wf_OffsetCommitResponse r \<longleftrightarrow> (ocr_Version r \<ge> 3 \<or> ocr_ThrottleTimeMs r = 0) \<and>
     wf_topics (\<lambda>_. True) (ocr_Errors r)"

interpretation ocr: wire_codec enc_OffsetCommitResponse dec_OffsetCommitResponse ocr_Version
  wf_OffsetCommitResponse
  by (rule wire_codecI, unfold enc_OffsetCommitResponse_def dec_OffsetCommitResponse_def
      wf_OffsetCommitResponse_def)
    (rule codes_rules
      codes_bind [OF codes_topics [where P = "\<lambda>_. True"]] codes_last [OF codes_topics [where P = "\<lambda>_. True"]] | (auto simp: codes_simps; fail))+


definition ocr_AddError :: "string \<Rightarrow> int32 \<Rightarrow> KError \<Rightarrow> OffsetCommitResponse \<Rightarrow> OffsetCommitResponse" where
  "ocr_AddError topic prt kerror r = r\<lparr>ocr_Errors := set_block topic prt kerror (ocr_Errors r)\<rparr>"

subsection \<open>OffsetFetch\<close>


text \<open>
  The map of partitions may be nil, which asks for all topics from version 2 on. Before version 6 it
  is sent as the length -1, and read back as nil; in the flexible versions it is sent as 0, which
  the decoder reads as an empty map. An empty map is read back as nil in versions 0 and 1.
\<close>

record OffsetFetchRequest =
  ofq_Version :: int
  ofq_ConsumerGroup :: string
  ofq_RequireStable :: bool
  ofq_partitions :: "(string \<times> int32 list option) list option"

definition NewOffsetFetchRequest ::
    "KafkaVersion \<Rightarrow> string \<Rightarrow> (string \<times> int32 list option) list option \<Rightarrow> OffsetFetchRequest" where
  "NewOffsetFetchRequest version grp prts =
     \<lparr>ofq_Version =
        (if IsAtLeast version V2_5_0_0 then 7
         else if IsAtLeast version V2_4_0_0 then 6
         else if IsAtLeast version V2_1_0_0 then 5
         else if IsAtLeast version V2_0_0_0 then 4
         else if IsAtLeast version V0_11_0_0 then 3
         else if IsAtLeast version V0_10_2_0 then 2
         else if IsAtLeast version V0_8_2_0 then 1 else 0),
      ofq_ConsumerGroup = grp, ofq_RequireStable = False, ofq_partitions = prts\<rparr>"

definition enc_fetch_topic :: "bool \<Rightarrow> string \<times> int32 list option \<Rightarrow> pe_op list" where
  "enc_fetch_topic isFlexible = (\<lambda>(topic, prts).
     (if isFlexible then [putCompactString topic] else [putString topic]) @
     enc_int32s isFlexible prts @
     (if isFlexible then [putEmptyTaggedFieldArray] else []))"

definition dec_fetch_topic :: "bool \<Rightarrow> (string \<times> int32 list option) dec" where
  "dec_fetch_topic isFlexible =
     dbind (if isFlexible then getCompactString else getString) (\<lambda>topic.
     dbind (dec_int32s isFlexible) (\<lambda>prts.
     dbind (if isFlexible then getEmptyTaggedFieldArray else dreturn 0) (\<lambda>_.
       dreturn (topic, prts))))"

definition enc_OffsetFetchRequest :: "OffsetFetchRequest \<Rightarrow> pe_op list" where
  "enc_OffsetFetchRequest r =
     enc_guard (ofq_Version r < 0 \<or> ofq_Version r > 7)
       (PacketEncodingError ''invalid or unsupported OffsetFetchRequest version field'') @
     (let isFlexible = (ofq_Version r \<ge> 6); topics = list_of (ofq_partitions r)
      in (if isFlexible then [putCompactString (ofq_ConsumerGroup r)] else [putString (ofq_ConsumerGroup r)]) @
         (if isFlexible
          then (if ofq_partitions r = None then [putUVarint 0] else [putCompactArrayLength (int (length topics))])
          else (if ofq_partitions r = None \<and> ofq_Version r \<ge> 2 then [putInt32 (- 1)]
                else [putArrayLength (int (length topics))])) @
         concat (map (enc_fetch_topic isFlexible) topics) @
         enc_guard (ofq_RequireStable r \<and> ofq_Version r < 7)
           (PacketEncodingError ''requireStable is not supported. use version 7 or later'') @
         (if ofq_Version r \<ge> 7 then [putBool (ofq_RequireStable r)] else []) @
         (if isFlexible then [putEmptyTaggedFieldArray] else []))"

definition dec_OffsetFetchRequest :: "int \<Rightarrow> OffsetFetchRequest dec" where
  "dec_OffsetFetchRequest version =
     (let isFlexible = (version \<ge> 6)
      in dbind (if isFlexible then getCompactString else getString) (\<lambda>grp.
         dbind (if isFlexible then getCompactArrayLength else getArrayLength) (\<lambda>n.
           if n = 0 \<and> version < 2 \<or> n < 0
           then dreturn \<lparr>ofq_Version = version, ofq_ConsumerGroup = grp, ofq_RequireStable = False,
             ofq_partitions = None\<rparr>
           else
             dbind (dec_times (nat n) (dec_fetch_topic isFlexible)) (\<lambda>topics.
             dbind (if version \<ge> 7 then getBool else dreturn False) (\<lambda>requireStable.
             dbind (if isFlexible then getEmptyTaggedFieldArray else dreturn 0) (\<lambda>_.
               dreturn \<lparr>ofq_Version = version, ofq_ConsumerGroup = grp, ofq_RequireStable = requireStable,
                 ofq_partitions = Some (go_map topics)\<rparr>))))))"

definition ZeroPartitions :: "OffsetFetchRequest \<Rightarrow> OffsetFetchRequest" where
  "ZeroPartitions r =
     (if ofq_partitions r = None \<and> ofq_Version r \<ge> 2 then r\<lparr>ofq_partitions := Some []\<rparr> else r)"

definition AddPartition :: "string \<Rightarrow> int32 \<Rightarrow> OffsetFetchRequest \<Rightarrow> OffsetFetchRequest" where
  "AddPartition topic partitionID r =
     (let m = list_of (ofq_partitions r);
          prts = (case map_of m topic of None \<Rightarrow> [] | Some v \<Rightarrow> list_of v)
      in r\<lparr>ofq_partitions := Some (AList.update topic (Some (prts @ [partitionID])) m)\<rparr>)"

definition wf_OffsetFetchRequest :: "OffsetFetchRequest \<Rightarrow> bool" where
  "wf_OffsetFetchRequest r \<longleftrightarrow> 0 \<le> ofq_Version r \<and> ofq_Version r \<le> 7 \<and>
     length (ofq_ConsumerGroup r) \<le> 32767 \<and> (ofq_Version r \<ge> 7 \<or> \<not> ofq_RequireStable r) \<and>
     (case ofq_partitions r of
        None \<Rightarrow> ofq_Version r < 6
      | Some m \<Rightarrow> (m \<noteq> [] \<or> ofq_Version r \<ge> 2) \<and> length m \<le> 131070 \<and> distinct (map fst m) \<and>
          list_all (\<lambda>(topic, prts). length topic \<le> 32767 \<and> wf_int32s (ofq_Version r \<ge> 6) prts) m)"

lemma codes_fetch_topic:
  "length (fst t) \<le> 32767 \<Longrightarrow> wf_int32s isFlexible (snd t) \<Longrightarrow>
   codes (dec_fetch_topic isFlexible) (enc_fetch_topic isFlexible t) t"
  unfolding dec_fetch_topic_def enc_fetch_topic_def
  by (rule codes_rules codes_bind [OF codes_int32s] | (auto simp: codes_simps; fail))+

lemma enc_fetch_topic_nonempty: "ser_ops (enc_fetch_topic isFlexible t) \<noteq> []"
  by (cases t) (simp add: enc_fetch_topic_def ser_simps enc_int32s_def ser_defs)

text \<open>The bytes behind the group: the count and the topics, and what is read from them.\<close>

lemma reads_fetch_topics:
  assumes m: "length m \<le> 131070" "list_all (\<lambda>(topic, prts). length topic \<le> 32767 \<and> wf_int32s isFlexible prts) m"
    and f: "reads (f m) bs y" and g: "\<And>n. n = int (length m) \<Longrightarrow> \<not> stop n"
  shows "reads (dbind (if isFlexible then getCompactArrayLength else getArrayLength) (\<lambda>n.
      if stop n then h else dbind (dec_times (nat n) (dec_fetch_topic isFlexible)) f))
    ((if isFlexible then ser_carray_length (int (length m)) else ser_array_length (int (length m))) @
     concat (map (\<lambda>t. ser_ops (enc_fetch_topic isFlexible t)) m) @ bs) y"
proof -
  let ?bs = "concat (map (\<lambda>t. ser_ops (enc_fetch_topic isFlexible t)) m)"
  have "codes (dec_fetch_topic isFlexible) (enc_fetch_topic isFlexible t) t" if "t \<in> set m" for t
    using m(2) that by (intro codes_fetch_topic) (auto simp: list_all_iff)
  then have t: "reads (dec_times (length m) (dec_fetch_topic isFlexible)) ?bs m"
    by (intro reads_times) (simp add: codes_def)
  have l: "length m \<le> length ?bs" by (rule length_le_concat_map) (rule enc_fetch_topic_nonempty)
  show ?thesis
    using l m(1) g [OF refl] reads_at [OF t] reads_at [OF f]
    by (intro readsI; cases isFlexible) (simp_all add: dec_steps)
qed

lemma codes_OffsetFetchRequest_Some:
  assumes wf: "wf_OffsetFetchRequest r" and m: "ofq_partitions r = Some m"
  shows "codes (dec_OffsetFetchRequest (ofq_Version r)) (enc_OffsetFetchRequest r) r"
proof -
  let ?flex = "ofq_Version r \<ge> 6"
  let ?rest = "(if ofq_Version r \<ge> 7 then [putBool (ofq_RequireStable r)] else []) @
    (if ?flex then [putEmptyTaggedFieldArray] else [])"
  have e: "enc_OffsetFetchRequest r =
      (if ?flex then [putCompactString (ofq_ConsumerGroup r)] else [putString (ofq_ConsumerGroup r)]) @
      ((if ?flex then [putCompactArrayLength (int (length m))] else [putArrayLength (int (length m))]) @
       concat (map (enc_fetch_topic ?flex) m) @ ?rest)"
    using wf m by (auto simp: enc_OffsetFetchRequest_def enc_guard_def wf_OffsetFetchRequest_def list_of_def Let_def)
  have t: "list_all (\<lambda>(topic, prts). length topic \<le> 32767 \<and> wf_int32s ?flex prts) m" "length m \<le> 131070"
    "distinct (map fst m)" "m \<noteq> [] \<or> ofq_Version r \<ge> 2"
    using wf m by (simp_all add: wf_OffsetFetchRequest_def)
  have ok: "ops_ok (concat (map (enc_fetch_topic ?flex) m))"
    using t(1) codes_fetch_topic [of _ ?flex] by (auto simp: wire_ok codes_def list_all_iff)
  have rest: "codes (dbind (if ofq_Version r \<ge> 7 then getBool else dreturn False) (\<lambda>requireStable.
      dbind (if ?flex then getEmptyTaggedFieldArray else dreturn 0) (\<lambda>_.
        dreturn \<lparr>ofq_Version = ofq_Version r, ofq_ConsumerGroup = ofq_ConsumerGroup r,
          ofq_RequireStable = requireStable, ofq_partitions = Some (go_map m)\<rparr>))) ?rest r"
    using wf m t(3) unfolding wf_OffsetFetchRequest_def
    by - (rule codes_rules | (auto simp: codes_simps; fail))+
  have s: "ser_ops ((if ?flex then [putCompactArrayLength (int (length m))] else [putArrayLength (int (length m))]) @
       concat (map (enc_fetch_topic ?flex) m) @ ?rest) =
     (if ?flex then ser_carray_length (int (length m)) else ser_array_length (int (length m))) @
     concat (map (\<lambda>t. ser_ops (enc_fetch_topic ?flex t)) m) @ ser_ops ?rest"
    by (simp add: ser_simps o_def)
  show ?thesis
    unfolding e dec_OffsetFetchRequest_def Let_def
  proof (rule codes_cond(1) [where x = "ofq_ConsumerGroup r"])
    show "codes (dbind (if ?flex then getCompactArrayLength else getArrayLength) (\<lambda>n.
        if n = 0 \<and> ofq_Version r < 2 \<or> n < 0
        then dreturn \<lparr>ofq_Version = ofq_Version r, ofq_ConsumerGroup = ofq_ConsumerGroup r,
          ofq_RequireStable = False, ofq_partitions = None\<rparr>
        else dbind (dec_times (nat n) (dec_fetch_topic ?flex)) (\<lambda>topics.
          dbind (if ofq_Version r \<ge> 7 then getBool else dreturn False) (\<lambda>requireStable.
          dbind (if ?flex then getEmptyTaggedFieldArray else dreturn 0) (\<lambda>_.
            dreturn \<lparr>ofq_Version = ofq_Version r, ofq_ConsumerGroup = ofq_ConsumerGroup r,
              ofq_RequireStable = requireStable, ofq_partitions = Some (go_map topics)\<rparr>)))))
      ((if ?flex then [putCompactArrayLength (int (length m))] else [putArrayLength (int (length m))]) @
       concat (map (enc_fetch_topic ?flex) m) @ ?rest) r"
      unfolding codes_def s
      using ok rest t(2,4) by (intro conjI reads_fetch_topics [OF t(2,1)]) (auto simp: codes_def)
  qed (use wf in \<open>auto simp: wf_OffsetFetchRequest_def intro!: codes_calls\<close>)
qed

lemma getArrayLength_nil:
  "getArrayLength (dec_at pre (be32 (- 1) @ post) st) = (Ok (- 1), dec_at (pre @ be32 (- 1)) post st)"
  by (simp add: getArrayLength_def advance_dec_at_eq Let_def)

lemma codes_OffsetFetchRequest_None:
  assumes wf: "wf_OffsetFetchRequest r" and m: "ofq_partitions r = None"
  shows "codes (dec_OffsetFetchRequest (ofq_Version r)) (enc_OffsetFetchRequest r) r"
proof -
  have v: "0 \<le> ofq_Version r" "ofq_Version r < 6" "\<not> ofq_RequireStable r" "length (ofq_ConsumerGroup r) \<le> 32767"
    using wf m by (auto simp: wf_OffsetFetchRequest_def)
  show ?thesis
    using v m
    by (cases r; cases "ofq_Version r \<ge> 2")
      (auto simp: codes_def enc_OffsetFetchRequest_def dec_OffsetFetchRequest_def enc_guard_def list_of_def
        ser_simps dec_steps getArrayLength_nil intro!: readsI)
qed

interpretation ofq: wire_codec enc_OffsetFetchRequest dec_OffsetFetchRequest ofq_Version wf_OffsetFetchRequest
proof (rule wire_codecI)
  fix r assume "wf_OffsetFetchRequest r"
  then show "codes (dec_OffsetFetchRequest (ofq_Version r)) (enc_OffsetFetchRequest r) r"
    using codes_OffsetFetchRequest_Some codes_OffsetFetchRequest_None by (cases "ofq_partitions r") blast+
qed

record OffsetFetchResponseBlock =
  ofb_Offset :: int64
  ofb_LeaderEpoch :: int32
  ofb_Metadata :: string
  ofb_Err :: KError

definition enc_OffsetFetchResponseBlock :: "int \<Rightarrow> OffsetFetchResponseBlock \<Rightarrow> pe_op list" where
  "enc_OffsetFetchResponseBlock version r =
     [putInt64 (ofb_Offset r)] @
     (if version \<ge> 5 then [putInt32 (ofb_LeaderEpoch r)] else []) @
     (if version < 6 then [putString (ofb_Metadata r)] else [putCompactString (ofb_Metadata r)]) @
     [putInt16 (ofb_Err r)] @
     (if version \<ge> 6 then [putEmptyTaggedFieldArray] else [])"

definition dec_OffsetFetchResponseBlock :: "int \<Rightarrow> OffsetFetchResponseBlock dec" where
  "dec_OffsetFetchResponseBlock version =
     dbind getInt64 (\<lambda>offset.
     dbind (if version \<ge> 5 then getInt32 else dreturn (- 1)) (\<lambda>leaderEpoch.
     dbind (if version < 6 then getString else getCompactString) (\<lambda>metadata.
     dbind getInt16 (\<lambda>err.
     dbind (if version \<ge> 6 then getEmptyTaggedFieldArray else dreturn 0) (\<lambda>_.
       dreturn \<lparr>ofb_Offset = offset, ofb_LeaderEpoch = leaderEpoch, ofb_Metadata = metadata, ofb_Err = err\<rparr>)))))"

definition wf_OffsetFetchResponseBlock :: "int \<Rightarrow> OffsetFetchResponseBlock \<Rightarrow> bool" where
  "wf_OffsetFetchResponseBlock version r \<longleftrightarrow> (version \<ge> 5 \<or> ofb_LeaderEpoch r = (- 1)) \<and>
     length (ofb_Metadata r) \<le> 32767"

lemma enc_OffsetFetchResponseBlock_nonempty: "ser_ops (enc_OffsetFetchResponseBlock version r) \<noteq> []"
  by (simp add: enc_OffsetFetchResponseBlock_def ser_simps)

interpretation ofb: wire_elem "enc_OffsetFetchResponseBlock v" dec_OffsetFetchResponseBlock "\<lambda>_. v"
  "wf_OffsetFetchResponseBlock v" for v
  by (rule wire_elemI [OF _ enc_OffsetFetchResponseBlock_nonempty], unfold enc_OffsetFetchResponseBlock_def dec_OffsetFetchResponseBlock_def
      wf_OffsetFetchResponseBlock_def)
    (rule codes_rules | (auto simp: codes_simps; fail))+

record OffsetFetchResponse =
  ofr_Version :: int
  ofr_ThrottleTimeMs :: int32
  ofr_Blocks :: "OffsetFetchResponseBlock topics"
  ofr_Err :: KError

definition enc_OffsetFetchResponse :: "OffsetFetchResponse \<Rightarrow> pe_op list" where
  "enc_OffsetFetchResponse r =
     (if ofr_Version r \<ge> 3 then [putInt32 (ofr_ThrottleTimeMs r)] else []) @
     (if ofr_Version r < 6 then enc_topics (enc_OffsetFetchResponseBlock (ofr_Version r)) (ofr_Blocks r) else enc_flex_topics (enc_OffsetFetchResponseBlock (ofr_Version r)) (ofr_Blocks r)) @
     (if ofr_Version r \<ge> 2 then [putInt16 (ofr_Err r)] else []) @
     (if ofr_Version r \<ge> 6 then [putEmptyTaggedFieldArray] else [])"

definition dec_OffsetFetchResponse :: "int \<Rightarrow> OffsetFetchResponse dec" where
  "dec_OffsetFetchResponse version =
     dbind (if version \<ge> 3 then getInt32 else dreturn 0) (\<lambda>throttleTimeMs.
     dbind (if version < 6 then dec_topics (dec_OffsetFetchResponseBlock version) else dec_flex_topics (dec_OffsetFetchResponseBlock version)) (\<lambda>blocks.
     dbind (if version \<ge> 2 then getInt16 else dreturn 0) (\<lambda>err.
     dbind (if version \<ge> 6 then getEmptyTaggedFieldArray else dreturn 0) (\<lambda>_.
       dreturn \<lparr>ofr_Version = version, ofr_ThrottleTimeMs = throttleTimeMs, ofr_Blocks = blocks,
         ofr_Err = err\<rparr>))))"

definition wf_OffsetFetchResponse :: "OffsetFetchResponse \<Rightarrow> bool" where
  "wf_OffsetFetchResponse r \<longleftrightarrow> (ofr_Version r \<ge> 3 \<or> ofr_ThrottleTimeMs r = 0) \<and>
     wf_topics (wf_OffsetFetchResponseBlock (ofr_Version r)) (ofr_Blocks r) \<and>
     (ofr_Version r \<ge> 2 \<or> ofr_Err r = 0)"

interpretation ofr: wire_codec enc_OffsetFetchResponse dec_OffsetFetchResponse ofr_Version
  wf_OffsetFetchResponse
  by (rule wire_codecI, unfold enc_OffsetFetchResponse_def dec_OffsetFetchResponse_def
      wf_OffsetFetchResponse_def)
    (rule codes_rules
      codes_bind [OF codes_topics [where P = "wf_OffsetFetchResponseBlock (ofr_Version r)" for r]] codes_last [OF codes_topics [where P = "wf_OffsetFetchResponseBlock (ofr_Version r)" for r]] codes_topics [where P = "wf_OffsetFetchResponseBlock (ofr_Version r)" for r]
      codes_bind [OF codes_flex_topics [where P = "wf_OffsetFetchResponseBlock (ofr_Version r)" for r]] codes_last [OF codes_flex_topics [where P = "wf_OffsetFetchResponseBlock (ofr_Version r)" for r]] codes_flex_topics [where P = "wf_OffsetFetchResponseBlock (ofr_Version r)" for r] | (auto simp: codes_simps intro!: ofb.codes ofb.nonempty; fail))+

subsection \<open>ListOffsets\<close>

text \<open>The decoder marks a missing leader epoch with -1; a negative replica id is not stored.\<close>

abbreviation (input) ReadUncommitted :: int8 where "ReadUncommitted \<equiv> 0"
abbreviation (input) ReadCommitted :: int8 where "ReadCommitted \<equiv> 1"

record offsetRequestBlock =
  orb_currentLeaderEpoch :: int32
  orb_timestamp :: int64
  orb_maxNumOffsets :: int32

definition enc_offsetRequestBlock :: "int \<Rightarrow> offsetRequestBlock \<Rightarrow> pe_op list" where
  "enc_offsetRequestBlock version r =
     (if version \<ge> 4 then [putInt32 (orb_currentLeaderEpoch r)] else []) @
     [putInt64 (orb_timestamp r)] @
     (if version = 0 then [putInt32 (orb_maxNumOffsets r)] else [])"

definition dec_offsetRequestBlock :: "int \<Rightarrow> offsetRequestBlock dec" where
  "dec_offsetRequestBlock version =
     dbind (if version \<ge> 4 then getInt32 else dreturn (- 1)) (\<lambda>currentLeaderEpoch.
     dbind getInt64 (\<lambda>timestamp.
     dbind (if version = 0 then getInt32 else dreturn 0) (\<lambda>maxNumOffsets.
       dreturn \<lparr>orb_currentLeaderEpoch = currentLeaderEpoch, orb_timestamp = timestamp,
         orb_maxNumOffsets = maxNumOffsets\<rparr>)))"

definition wf_offsetRequestBlock :: "int \<Rightarrow> offsetRequestBlock \<Rightarrow> bool" where
  "wf_offsetRequestBlock version r \<longleftrightarrow> (version \<ge> 4 \<or> orb_currentLeaderEpoch r = (- 1)) \<and>
     (version = 0 \<or> orb_maxNumOffsets r = 0)"

lemma enc_offsetRequestBlock_nonempty: "ser_ops (enc_offsetRequestBlock version r) \<noteq> []"
  by (simp add: enc_offsetRequestBlock_def ser_simps)

interpretation orb: wire_elem "enc_offsetRequestBlock v" dec_offsetRequestBlock "\<lambda>_. v"
  "wf_offsetRequestBlock v" for v
  by (rule wire_elemI [OF _ enc_offsetRequestBlock_nonempty], unfold enc_offsetRequestBlock_def dec_offsetRequestBlock_def
      wf_offsetRequestBlock_def)
    (rule codes_rules | (auto simp: codes_simps; fail))+


record OffsetRequest =
  orq_Version :: int
  orq_IsolationLevel :: int8
  orq_replicaID :: int32
  orq_isReplicaIDSet :: bool
  orq_blocks :: "offsetRequestBlock topics"

definition enc_OffsetRequest :: "OffsetRequest \<Rightarrow> pe_op list" where
  "enc_OffsetRequest r =
     [putInt32 (if orq_isReplicaIDSet r then orq_replicaID r else - 1)] @
     (if orq_Version r \<ge> 2 then [putBool (orq_IsolationLevel r = ReadCommitted)] else []) @
     enc_topics (enc_offsetRequestBlock (orq_Version r)) (orq_blocks r)"

definition SetReplicaID :: "int32 \<Rightarrow> OffsetRequest \<Rightarrow> OffsetRequest" where
  "SetReplicaID i r = r\<lparr>orq_replicaID := i, orq_isReplicaIDSet := True\<rparr>"

definition dec_OffsetRequest :: "int \<Rightarrow> OffsetRequest dec" where
  "dec_OffsetRequest version =
     dbind getInt32 (\<lambda>replicaID.
     dbind (if version \<ge> 2 then getBool else dreturn False) (\<lambda>committed.
     dbind (dec_topics (dec_offsetRequestBlock version)) (\<lambda>blocks.
       dreturn (let r = \<lparr>orq_Version = version,
             orq_IsolationLevel = (if committed then ReadCommitted else ReadUncommitted),
             orq_replicaID = 0, orq_isReplicaIDSet = False, orq_blocks = blocks\<rparr>
           in if sint replicaID \<ge> 0 then SetReplicaID replicaID r else r))))"

definition orq_AddBlock :: "string \<Rightarrow> int32 \<Rightarrow> int64 \<Rightarrow> int32 \<Rightarrow> OffsetRequest \<Rightarrow> OffsetRequest" where
  "orq_AddBlock topic partitionID timestamp maxOffsets r =
     r\<lparr>orq_blocks := set_block topic partitionID
         \<lparr>orb_currentLeaderEpoch = - 1, orb_timestamp = timestamp,
          orb_maxNumOffsets = (if orq_Version r = 0 then maxOffsets else 0)\<rparr> (orq_blocks r)\<rparr>"

definition wf_OffsetRequest :: "OffsetRequest \<Rightarrow> bool" where
  "wf_OffsetRequest r \<longleftrightarrow>
     (if orq_Version r \<ge> 2 then orq_IsolationLevel r = ReadUncommitted \<or> orq_IsolationLevel r = ReadCommitted
      else orq_IsolationLevel r = ReadUncommitted) \<and>
     (if orq_isReplicaIDSet r then sint (orq_replicaID r) \<ge> 0 else orq_replicaID r = 0) \<and>
     wf_topics (wf_offsetRequestBlock (orq_Version r)) (orq_blocks r)"

interpretation orq: wire_codec enc_OffsetRequest dec_OffsetRequest orq_Version wf_OffsetRequest
  by (rule wire_codecI, unfold enc_OffsetRequest_def dec_OffsetRequest_def wf_OffsetRequest_def)
    (rule codes_rules codes_last [OF codes_topics [where P = "wf_offsetRequestBlock (orq_Version r)" for r]] |
      (auto simp: codes_simps SetReplicaID_def Let_def intro!: orb.codes OffsetRequest.equality
        split: if_splits; fail) |
      (rule codes_cond [where x = "orq_IsolationLevel r = ReadCommitted" for r]))+

text \<open>A block of version 0 holds several offsets; later ones hold one, which is also stored as a list.\<close>

record OffsetResponseBlock =
  osb_Err :: KError
  osb_Offsets :: "int64 list"
  osb_Timestamp :: int64
  osb_Offset :: int64
  osb_LeaderEpoch :: int32

definition enc_OffsetResponseBlock :: "int \<Rightarrow> OffsetResponseBlock \<Rightarrow> pe_op list" where
  "enc_OffsetResponseBlock version b =
     [putInt16 (osb_Err b)] @
     (if version = 0 then [putInt64Array (osb_Offsets b)]
      else
        (if version \<ge> 1 then [putInt64 (osb_Timestamp b), putInt64 (osb_Offset b)] else []) @
        (if version \<ge> 4 then [putInt32 (osb_LeaderEpoch b)] else []))"

definition dec_OffsetResponseBlock :: "int \<Rightarrow> OffsetResponseBlock dec" where
  "dec_OffsetResponseBlock version =
     dbind getInt16 (\<lambda>err.
       if version = 0 then
         dbind getInt64Array (\<lambda>offsets.
           dreturn \<lparr>osb_Err = err, osb_Offsets = offsets, osb_Timestamp = 0, osb_Offset = 0, osb_LeaderEpoch = 0\<rparr>)
       else
         dbind (if version \<ge> 1 then getInt64 else dreturn 0) (\<lambda>timestamp.
         dbind (if version \<ge> 1 then getInt64 else dreturn 0) (\<lambda>offset.
         dbind (if version \<ge> 4 then getInt32 else dreturn 0) (\<lambda>leaderEpoch.
           dreturn \<lparr>osb_Err = err, osb_Offsets = (if version \<ge> 1 then [offset] else []),
             osb_Timestamp = timestamp, osb_Offset = offset, osb_LeaderEpoch = leaderEpoch\<rparr>))))"

definition wf_OffsetResponseBlock :: "int \<Rightarrow> OffsetResponseBlock \<Rightarrow> bool" where
  "wf_OffsetResponseBlock version b \<longleftrightarrow> 0 \<le> version \<and>
     (if version = 0
      then length (osb_Offsets b) \<le> 2147483647 \<and> osb_Timestamp b = 0 \<and> osb_Offset b = 0 \<and> osb_LeaderEpoch b = 0
      else osb_Offsets b = [osb_Offset b] \<and> (version \<ge> 4 \<or> osb_LeaderEpoch b = 0))"

interpretation osb: wire_elem "enc_OffsetResponseBlock v" dec_OffsetResponseBlock "\<lambda>_. v"
  "wf_OffsetResponseBlock v" for v
proof (rule wire_elemI)
  fix b assume wf: "wf_OffsetResponseBlock v b"
  show "ser_ops (enc_OffsetResponseBlock v b) \<noteq> []"
    by (simp add: enc_OffsetResponseBlock_def ser_simps)
  from wf show "codes (dec_OffsetResponseBlock v) (enc_OffsetResponseBlock v b) b"
    by (cases b; cases "v = 0"; cases "v \<ge> 4")
      (auto simp: codes_def enc_OffsetResponseBlock_def dec_OffsetResponseBlock_def wf_OffsetResponseBlock_def
        ser_simps dec_steps intro!: readsI)
qed

text \<open>The response does not store the version it was decoded with.\<close>

record OffsetResponse =
  osr_Version :: int
  osr_ThrottleTimeMs :: int32
  osr_Blocks :: "OffsetResponseBlock topics"

definition enc_OffsetResponse :: "OffsetResponse \<Rightarrow> pe_op list" where
  "enc_OffsetResponse r =
     (if osr_Version r \<ge> 2 then [putInt32 (osr_ThrottleTimeMs r)] else []) @
     enc_topics (enc_OffsetResponseBlock (osr_Version r)) (osr_Blocks r)"

definition dec_OffsetResponse :: "int \<Rightarrow> OffsetResponse dec" where
  "dec_OffsetResponse version =
     dbind (if version \<ge> 2 then getInt32 else dreturn 0) (\<lambda>throttleTimeMs.
     dbind (dec_topics (dec_OffsetResponseBlock version)) (\<lambda>blocks.
       dreturn \<lparr>osr_Version = 0, osr_ThrottleTimeMs = throttleTimeMs, osr_Blocks = blocks\<rparr>))"

definition wf_OffsetResponse :: "int \<Rightarrow> OffsetResponse \<Rightarrow> bool" where
  "wf_OffsetResponse version r \<longleftrightarrow> osr_Version r = 0 \<and>
     (version \<ge> 2 \<or> osr_ThrottleTimeMs r = 0) \<and>
     wf_topics (wf_OffsetResponseBlock version) (osr_Blocks r)"

lemma OffsetResponse_version:
  "osr_Version (r\<lparr>osr_Version := v\<rparr>) = v"
  "osr_ThrottleTimeMs (r\<lparr>osr_Version := v\<rparr>) = osr_ThrottleTimeMs r"
  "osr_Blocks (r\<lparr>osr_Version := v\<rparr>) = osr_Blocks r"
  by simp_all

interpretation osr: wire_codec "\<lambda>r. enc_OffsetResponse (r\<lparr>osr_Version := v\<rparr>)" dec_OffsetResponse "\<lambda>_. v"
  "wf_OffsetResponse v" for v
  by (rule wire_codecI, unfold enc_OffsetResponse_def dec_OffsetResponse_def
      wf_OffsetResponse_def
      OffsetResponse_version)
    (rule codes_rules
      codes_bind [OF codes_topics [where P = "wf_OffsetResponseBlock v"]] codes_last [OF codes_topics [where P = "wf_OffsetResponseBlock v"]] | (auto simp: codes_simps intro!: osb.codes osb.nonempty; fail))+

subsection \<open>DeleteOffsets\<close>

text \<open>A nil map and an empty one are both sent as 0, and read back as nil.\<close>

record DeleteOffsetsRequest =
  doq_Version :: int
  doq_Group :: string
  doq_partitions :: "(string \<times> int32 list) list"

definition enc_DeleteOffsetsRequest :: "DeleteOffsetsRequest \<Rightarrow> pe_op list" where
  "enc_DeleteOffsetsRequest r =
     [putString (doq_Group r)] @
     enc_topic_partitions (doq_partitions r)"

definition dec_DeleteOffsetsRequest :: "int \<Rightarrow> DeleteOffsetsRequest dec" where
  "dec_DeleteOffsetsRequest version =
     dbind getString (\<lambda>grp.
     dbind dec_topic_partitions (\<lambda>prts.
       dreturn \<lparr>doq_Version = version, doq_Group = grp, doq_partitions = prts\<rparr>))"

definition wf_DeleteOffsetsRequest :: "DeleteOffsetsRequest \<Rightarrow> bool" where
  "wf_DeleteOffsetsRequest r \<longleftrightarrow> length (doq_Group r) \<le> 32767 \<and>
     wf_topic_partitions (doq_partitions r)"

interpretation doq: wire_codec enc_DeleteOffsetsRequest dec_DeleteOffsetsRequest doq_Version
  wf_DeleteOffsetsRequest
  by (rule wire_codecI, unfold enc_DeleteOffsetsRequest_def dec_DeleteOffsetsRequest_def
      wf_DeleteOffsetsRequest_def)
    (rule codes_rules | (auto simp: codes_simps; fail))+

record DeleteOffsetsResponse =
  dor_Version :: int
  dor_ErrorCode :: KError
  dor_ThrottleTime :: int64
  dor_Errors :: "KError topics"

definition enc_DeleteOffsetsResponse :: "DeleteOffsetsResponse \<Rightarrow> pe_op list" where
  "enc_DeleteOffsetsResponse r =
     [putInt16 (dor_ErrorCode r)] @
     enc_millis32 (dor_ThrottleTime r) @
     enc_topics (\<lambda>e. [putInt16 e]) (dor_Errors r)"

definition dec_DeleteOffsetsResponse :: "int \<Rightarrow> DeleteOffsetsResponse dec" where
  "dec_DeleteOffsetsResponse version =
     dbind getInt16 (\<lambda>errorCode.
     dbind dec_millis32 (\<lambda>throttleTime.
     dbind (dec_topics getInt16) (\<lambda>errors.
       dreturn \<lparr>dor_Version = 0, dor_ErrorCode = errorCode, dor_ThrottleTime = throttleTime,
         dor_Errors = errors\<rparr>)))"

definition wf_DeleteOffsetsResponse :: "DeleteOffsetsResponse \<Rightarrow> bool" where
  "wf_DeleteOffsetsResponse r \<longleftrightarrow> dor_Version r = 0 \<and>
     wf_millis32 (dor_ThrottleTime r) \<and>
     wf_topics (\<lambda>_. True) (dor_Errors r)"

interpretation dor: wire_codec enc_DeleteOffsetsResponse dec_DeleteOffsetsResponse "\<lambda>_. v"
  wf_DeleteOffsetsResponse for v
  by (rule wire_codecI, unfold enc_DeleteOffsetsResponse_def dec_DeleteOffsetsResponse_def
      wf_DeleteOffsetsResponse_def)
    (rule codes_rules
      codes_bind [OF codes_topics [where P = "\<lambda>_. True"]] codes_last [OF codes_topics [where P = "\<lambda>_. True"]] | (auto simp: codes_simps; fail))+

end
