(* ===== verification/Metadata_Messages.thy ===== *)
theory Metadata_Messages
  imports Group_Messages
begin

text \<open>
  What a client learns of the cluster: \<open>api_versions_*.go\<close>, \<open>metadata_request.go\<close> and
  \<open>metadata_response.go\<close>, \<open>consumer_metadata_*.go\<close>, \<open>list_groups_response.go\<close>.
\<close>

subsection \<open>ApiVersions\<close>

record ApiVersionsRequest =
  avq_Version :: int
  avq_ClientSoftwareName :: string
  avq_ClientSoftwareVersion :: string

definition enc_ApiVersionsRequest :: "ApiVersionsRequest \<Rightarrow> pe_op list" where
  "enc_ApiVersionsRequest r =
     (if avq_Version r \<ge> 3 then [putCompactString (avq_ClientSoftwareName r)] else []) @
     (if avq_Version r \<ge> 3 then [putCompactString (avq_ClientSoftwareVersion r)] else []) @
     (if avq_Version r \<ge> 3 then [putEmptyTaggedFieldArray] else [])"

definition dec_ApiVersionsRequest :: "int \<Rightarrow> ApiVersionsRequest dec" where
  "dec_ApiVersionsRequest version =
     dbind (if version \<ge> 3 then getCompactString else dreturn []) (\<lambda>clientSoftwareName.
     dbind (if version \<ge> 3 then getCompactString else dreturn []) (\<lambda>clientSoftwareVersion.
     dbind (if version \<ge> 3 then getEmptyTaggedFieldArray else dreturn 0) (\<lambda>_.
       dreturn \<lparr>avq_Version = version, avq_ClientSoftwareName = clientSoftwareName,
         avq_ClientSoftwareVersion = clientSoftwareVersion\<rparr>)))"

definition wf_ApiVersionsRequest :: "ApiVersionsRequest \<Rightarrow> bool" where
  "wf_ApiVersionsRequest r \<longleftrightarrow> (if avq_Version r \<ge> 3 then length (avq_ClientSoftwareName r) \<le> 32767 else avq_ClientSoftwareName r = []) \<and>
     (if avq_Version r \<ge> 3 then length (avq_ClientSoftwareVersion r) \<le> 32767 else avq_ClientSoftwareVersion r = [])"

interpretation avq: wire_codec enc_ApiVersionsRequest dec_ApiVersionsRequest avq_Version
  wf_ApiVersionsRequest
  by (rule wire_codecI, unfold enc_ApiVersionsRequest_def dec_ApiVersionsRequest_def
      wf_ApiVersionsRequest_def)
    (rule codes_rules | (auto simp: codes_simps; fail))+

record ApiVersionsResponseKey =
  avk_Version :: int
  avk_ApiKey :: int16
  avk_MinVersion :: int16
  avk_MaxVersion :: int16

definition enc_ApiVersionsResponseKey :: "int \<Rightarrow> ApiVersionsResponseKey \<Rightarrow> pe_op list" where
  "enc_ApiVersionsResponseKey version r =
     [putInt16 (avk_ApiKey r), putInt16 (avk_MinVersion r), putInt16 (avk_MaxVersion r)] @
     (if version \<ge> 3 then [putEmptyTaggedFieldArray] else [])"

definition dec_ApiVersionsResponseKey :: "int \<Rightarrow> ApiVersionsResponseKey dec" where
  "dec_ApiVersionsResponseKey version =
     dbind getInt16 (\<lambda>apiKey.
     dbind getInt16 (\<lambda>minVersion.
     dbind getInt16 (\<lambda>maxVersion.
     dbind (if version \<ge> 3 then getEmptyTaggedFieldArray else dreturn 0) (\<lambda>_.
       dreturn \<lparr>avk_Version = version, avk_ApiKey = apiKey, avk_MinVersion = minVersion,
         avk_MaxVersion = maxVersion\<rparr>))))"

definition wf_ApiVersionsResponseKey :: "int \<Rightarrow> ApiVersionsResponseKey \<Rightarrow> bool" where
  "wf_ApiVersionsResponseKey version r \<longleftrightarrow> avk_Version r = version"

lemma enc_ApiVersionsResponseKey_nonempty: "ser_ops (enc_ApiVersionsResponseKey version r) \<noteq> []"
  by (simp add: enc_ApiVersionsResponseKey_def ser_simps)

interpretation avk: wire_elem "enc_ApiVersionsResponseKey v" dec_ApiVersionsResponseKey "\<lambda>_. v"
  "wf_ApiVersionsResponseKey v" for v
  by (rule wire_elemI [OF _ enc_ApiVersionsResponseKey_nonempty], unfold enc_ApiVersionsResponseKey_def dec_ApiVersionsResponseKey_def
      wf_ApiVersionsResponseKey_def)
    (rule codes_rules | (auto simp: codes_simps; fail))+

record ApiVersionsResponse =
  avr_Version :: int
  avr_ErrorCode :: int16
  avr_ApiKeys :: "ApiVersionsResponseKey list"
  avr_ThrottleTimeMs :: int32

definition enc_ApiVersionsResponse :: "ApiVersionsResponse \<Rightarrow> pe_op list" where
  "enc_ApiVersionsResponse r =
     [putInt16 (avr_ErrorCode r)] @
     (if avr_Version r < 3 then enc_array (enc_ApiVersionsResponseKey (avr_Version r)) (avr_ApiKeys r) else enc_carray (enc_ApiVersionsResponseKey (avr_Version r)) (avr_ApiKeys r)) @
     (if avr_Version r \<ge> 1 then [putInt32 (avr_ThrottleTimeMs r)] else []) @
     (if avr_Version r \<ge> 3 then [putEmptyTaggedFieldArray] else [])"

definition dec_ApiVersionsResponse :: "int \<Rightarrow> ApiVersionsResponse dec" where
  "dec_ApiVersionsResponse version =
     dbind getInt16 (\<lambda>errorCode.
     dbind (if version < 3 then dec_array (dec_ApiVersionsResponseKey version) else dec_carray (dec_ApiVersionsResponseKey version)) (\<lambda>apiKeys.
     dbind (if version \<ge> 1 then getInt32 else dreturn 0) (\<lambda>throttleTimeMs.
     dbind (if version \<ge> 3 then getEmptyTaggedFieldArray else dreturn 0) (\<lambda>_.
       dreturn \<lparr>avr_Version = version, avr_ErrorCode = errorCode, avr_ApiKeys = apiKeys,
         avr_ThrottleTimeMs = throttleTimeMs\<rparr>))))"

definition wf_ApiVersionsResponse :: "ApiVersionsResponse \<Rightarrow> bool" where
  "wf_ApiVersionsResponse r \<longleftrightarrow> length (avr_ApiKeys r) \<le> 131070 \<and> list_all (wf_ApiVersionsResponseKey (avr_Version r)) (avr_ApiKeys r) \<and>
     (avr_Version r \<ge> 1 \<or> avr_ThrottleTimeMs r = 0)"

interpretation avr: wire_codec enc_ApiVersionsResponse dec_ApiVersionsResponse avr_Version
  wf_ApiVersionsResponse
  by (rule wire_codecI, unfold enc_ApiVersionsResponse_def dec_ApiVersionsResponse_def
      wf_ApiVersionsResponse_def)
    (rule codes_rules | (auto simp: codes_simps intro!: avk.codes avk.nonempty; fail))+

subsection \<open>Metadata\<close>


text \<open>
  Without topics the request asks for all of them, which is sent as the length -1 but for version 0.
  From version 9 on the topics are a compact array whose elements end with their tagged fields, and
  from version 10 on every name follows an empty topic id.
\<close>

definition NullUUID :: "byte list" where
  "NullUUID = replicate 16 0"

record MetadataRequest =
  mdq_Version :: int
  mdq_Topics :: "string list"
  mdq_AllowAutoTopicCreation :: bool
  mdq_IncludeClusterAuthorizedOperations :: bool
  mdq_IncludeTopicAuthorizedOperations :: bool

definition NewMetadataRequest :: "KafkaVersion \<Rightarrow> string list \<Rightarrow> MetadataRequest" where
  "NewMetadataRequest version topics =
     \<lparr>mdq_Version =
        (if IsAtLeast version V2_8_0_0 then 10
         else if IsAtLeast version V2_4_0_0 then 9
         else if IsAtLeast version V2_4_0_0 then 8
         else if IsAtLeast version V2_1_0_0 then 7
         else if IsAtLeast version V2_0_0_0 then 6
         else if IsAtLeast version V1_0_0_0 then 5
         else if IsAtLeast version V0_11_0_0 then 4
         else if IsAtLeast version V0_10_1_0 then 2
         else if IsAtLeast version V0_10_0_0 then 1 else 0),
      mdq_Topics = topics, mdq_AllowAutoTopicCreation = False,
      mdq_IncludeClusterAuthorizedOperations = False, mdq_IncludeTopicAuthorizedOperations = False\<rparr>"

definition enc_metadata_topic :: "int \<Rightarrow> string \<Rightarrow> pe_op list" where
  "enc_metadata_topic version topic =
     (if version < 9 then [putString topic]
      else if version = 9 then [putCompactString topic, putEmptyTaggedFieldArray]
      else [putRawBytes NullUUID, putNullableCompactString (Some topic), putEmptyTaggedFieldArray])"

definition dec_metadata_topic :: "int \<Rightarrow> string dec" where
  "dec_metadata_topic version =
     (if version < 9 then getString
      else if version = 9 then
        dbind getCompactString (\<lambda>topic. dbind getEmptyTaggedFieldArray (\<lambda>_. dreturn topic))
      else
        dbind (getRawBytes 16) (\<lambda>_.
        dbind getCompactNullableString (\<lambda>topic.
        dbind getEmptyTaggedFieldArray (\<lambda>_.
          dreturn (case topic of None \<Rightarrow> [] | Some t \<Rightarrow> t)))))"

definition enc_metadata_topics :: "int \<Rightarrow> string list \<Rightarrow> pe_op list" where
  "enc_metadata_topics version topics =
     (if version = 0 \<or> topics \<noteq> []
      then (if version < 9 then [putArrayLength (int (length topics))]
            else [putCompactArrayLength (int (length topics))]) @
           concat (map (enc_metadata_topic version) topics)
      else if version < 9 then [putInt32 (- 1)] else [putCompactArrayLength (- 1)])"

definition dec_metadata_topics :: "int \<Rightarrow> string list dec" where
  "dec_metadata_topics version =
     dbind (if version < 9 then dbind getInt32 (\<lambda>n. dreturn (sint n)) else getCompactArrayLength) (\<lambda>n.
       dec_times (nat n) (dec_metadata_topic version))"

definition enc_MetadataRequest :: "MetadataRequest \<Rightarrow> pe_op list" where
  "enc_MetadataRequest r =
     enc_guard (mdq_Version r < 0 \<or> mdq_Version r > 10)
       (PacketEncodingError ''invalid or unsupported MetadataRequest version field'') @
     enc_metadata_topics (mdq_Version r) (mdq_Topics r) @
     (if mdq_Version r > 3 then [putBool (mdq_AllowAutoTopicCreation r)] else []) @
     (if mdq_Version r > 7 then [putBool (mdq_IncludeClusterAuthorizedOperations r)] else []) @
     (if mdq_Version r > 7 then [putBool (mdq_IncludeTopicAuthorizedOperations r)] else []) @
     (if mdq_Version r > 8 then [putEmptyTaggedFieldArray] else [])"

definition dec_MetadataRequest :: "int \<Rightarrow> MetadataRequest dec" where
  "dec_MetadataRequest version =
     dbind (dec_metadata_topics version) (\<lambda>topics.
     dbind (if version \<ge> 4 then getBool else dreturn False) (\<lambda>autoCreate.
     dbind (if version > 7 then getBool else dreturn False) (\<lambda>includeCluster.
     dbind (if version > 7 then getBool else dreturn False) (\<lambda>includeTopic.
     dbind (if version > 8 then getEmptyTaggedFieldArray else dreturn 0) (\<lambda>_.
       dreturn \<lparr>mdq_Version = version, mdq_Topics = topics, mdq_AllowAutoTopicCreation = autoCreate,
         mdq_IncludeClusterAuthorizedOperations = includeCluster,
         mdq_IncludeTopicAuthorizedOperations = includeTopic\<rparr>)))))"

definition wf_MetadataRequest :: "MetadataRequest \<Rightarrow> bool" where
  "wf_MetadataRequest r \<longleftrightarrow> 0 \<le> mdq_Version r \<and> mdq_Version r \<le> 10 \<and>
     length (mdq_Topics r) \<le> 2147483647 \<and> list_all (\<lambda>s. length s \<le> 32767) (mdq_Topics r) \<and>
     (mdq_Version r > 3 \<or> \<not> mdq_AllowAutoTopicCreation r) \<and>
     (mdq_Version r > 7 \<or> \<not> mdq_IncludeClusterAuthorizedOperations r \<and> \<not> mdq_IncludeTopicAuthorizedOperations r)"

lemma codes_raw: "n = int (length bs) \<Longrightarrow> length bs \<le> 2147483647 \<Longrightarrow> codes (getRawBytes n) [putRawBytes bs] bs"
  by (auto simp: codes_def ser_simps dec_steps intro!: readsI)

lemma codes_metadata_topic:
  "length t \<le> 32767 \<Longrightarrow> codes (dec_metadata_topic v) (enc_metadata_topic v t) t"
  unfolding dec_metadata_topic_def enc_metadata_topic_def
  by (rule codes_rules codes_if codes_step [OF codes_raw] | (auto simp: codes_simps NullUUID_def; fail))+

lemma getCompactArrayLength_nil:
  "getCompactArrayLength (dec_at pre (ser_carray_length (- 1) @ post) st) =
     (Ok 0, dec_at (pre @ ser_carray_length (- 1)) post st)"
  by (simp add: getCompactArrayLength_def ser_carray_length_def dec_steps)

lemma sint_int32_length: "n \<le> 2147483647 \<Longrightarrow> sint (word_of_int (int n) :: int32) = int n"
  by (rule sint_word_of_int_id) simp_all

lemma codes_metadata_topics:
  assumes "length ts \<le> 2147483647" "list_all (\<lambda>s. length s \<le> 32767) ts" "0 \<le> v"
  shows "codes (dec_metadata_topics v) (enc_metadata_topics v ts) ts"
proof -
  have t: "codes (dec_metadata_topic v) (enc_metadata_topic v t) t" if "t \<in> set ts" for t
    using assms(2) that by (intro codes_metadata_topic) (simp add: list_all_iff)
  then have "reads (dec_times (length ts) (dec_metadata_topic v))
      (concat (map (\<lambda>t. ser_ops (enc_metadata_topic v t)) ts)) ts"
    by (intro reads_times) (simp add: codes_def)
  note rd = reads_at [OF this]
  have ok: "ops_ok (concat (map (enc_metadata_topic v) ts))"
    using t by (auto simp: wire_ok codes_def)
  show ?thesis
  proof (cases "v < 9")
    case True
    have n: "sint (word_of_nat (length ts) :: int32) = int (length ts)"
      using assms(1) by (metis of_int_of_nat_eq sint_int32_length)
    from True rd ok assms n show ?thesis
      by (auto simp: codes_def enc_metadata_topics_def dec_metadata_topics_def ser_simps dec_steps
          ser_array_length_def sint_word_of_int_id o_def intro!: readsI)
  next
    case False
    with rd ok assms show ?thesis
      by (cases "ts = []")
        (auto simp: codes_def enc_metadata_topics_def dec_metadata_topics_def ser_simps dec_steps o_def
          getCompactArrayLength_nil intro!: readsI)
  qed
qed

lemma four_or_more: "(3::int) < v \<longleftrightarrow> 4 \<le> v"
  by auto

interpretation mdq: wire_codec enc_MetadataRequest dec_MetadataRequest mdq_Version wf_MetadataRequest
  by (rule wire_codecI, unfold enc_MetadataRequest_def dec_MetadataRequest_def wf_MetadataRequest_def
      four_or_more)
    (rule codes_rules codes_bind [OF codes_metadata_topics] | (auto simp: codes_simps; fail))+

text \<open>
  The objects of a response carry the version they were decoded with; \<open>encode\<close> sets it to the version
  of the response.
\<close>

record PartitionMetadata =
  pmd_Version :: int
  pmd_Err :: KError
  pmd_ID :: int32
  pmd_Leader :: int32
  pmd_LeaderEpoch :: int32
  pmd_Replicas :: "int32 list option"
  pmd_Isr :: "int32 list option"
  pmd_OfflineReplicas :: "int32 list option"

definition enc_PartitionMetadata :: "int \<Rightarrow> PartitionMetadata \<Rightarrow> pe_op list" where
  "enc_PartitionMetadata version r =
     [putInt16 (pmd_Err r), putInt32 (pmd_ID r), putInt32 (pmd_Leader r)] @
     (if version \<ge> 7 then [putInt32 (pmd_LeaderEpoch r)] else []) @
     enc_int32s (version \<ge> 9) (pmd_Replicas r) @
     enc_int32s (version \<ge> 9) (pmd_Isr r) @
     (if version \<ge> 5 then enc_int32s (version \<ge> 9) (pmd_OfflineReplicas r) else []) @
     (if version \<ge> 9 then [putEmptyTaggedFieldArray] else [])"

definition dec_PartitionMetadata :: "int \<Rightarrow> PartitionMetadata dec" where
  "dec_PartitionMetadata version =
     dbind getInt16 (\<lambda>err.
     dbind getInt32 (\<lambda>ident.
     dbind getInt32 (\<lambda>leader.
     dbind (if version \<ge> 7 then getInt32 else dreturn 0) (\<lambda>leaderEpoch.
     dbind (dec_int32s (version \<ge> 9)) (\<lambda>replicas.
     dbind (dec_int32s (version \<ge> 9)) (\<lambda>isr.
     dbind (if version \<ge> 5 then dec_int32s (version \<ge> 9) else dreturn None) (\<lambda>offlineReplicas.
     dbind (if version \<ge> 9 then getEmptyTaggedFieldArray else dreturn 0) (\<lambda>_.
       dreturn \<lparr>pmd_Version = version, pmd_Err = err, pmd_ID = ident, pmd_Leader = leader,
         pmd_LeaderEpoch = leaderEpoch, pmd_Replicas = replicas, pmd_Isr = isr,
         pmd_OfflineReplicas = offlineReplicas\<rparr>))))))))"

definition wf_PartitionMetadata :: "int \<Rightarrow> PartitionMetadata \<Rightarrow> bool" where
  "wf_PartitionMetadata version r \<longleftrightarrow> pmd_Version r = version \<and>
     (version \<ge> 7 \<or> pmd_LeaderEpoch r = 0) \<and>
     wf_int32s (version \<ge> 9) (pmd_Replicas r) \<and>
     wf_int32s (version \<ge> 9) (pmd_Isr r) \<and>
     (if version \<ge> 5 then wf_int32s (version \<ge> 9) (pmd_OfflineReplicas r) else pmd_OfflineReplicas r = None)"

lemma enc_PartitionMetadata_nonempty: "ser_ops (enc_PartitionMetadata version r) \<noteq> []"
  by (simp add: enc_PartitionMetadata_def ser_simps)

interpretation pmd: wire_elem "enc_PartitionMetadata v" dec_PartitionMetadata "\<lambda>_. v"
  "wf_PartitionMetadata v" for v
  by (rule wire_elemI [OF _ enc_PartitionMetadata_nonempty], unfold enc_PartitionMetadata_def dec_PartitionMetadata_def
      wf_PartitionMetadata_def)
    (rule codes_rules
      codes_bind [OF codes_int32s] codes_last [OF codes_int32s] codes_int32s | (auto simp: codes_simps; fail))+

record TopicMetadata =
  tmd_Version :: int
  tmd_Err :: KError
  tmd_Name :: string
  tmd_Uuid :: "byte list"
  tmd_IsInternal :: bool
  tmd_Partitions :: "PartitionMetadata list"
  tmd_TopicAuthorizedOperations :: int32

definition enc_TopicMetadata :: "int \<Rightarrow> TopicMetadata \<Rightarrow> pe_op list" where
  "enc_TopicMetadata version r =
     [putInt16 (tmd_Err r)] @
     (if version < 9 then [putString (tmd_Name r)] else [putCompactString (tmd_Name r)]) @
     (if version \<ge> 10 then [putRawBytes (tmd_Uuid r)] else []) @
     (if version \<ge> 1 then [putBool (tmd_IsInternal r)] else []) @
     (if version < 9 then enc_array (enc_PartitionMetadata version) (tmd_Partitions r) else enc_carray (enc_PartitionMetadata version) (tmd_Partitions r)) @
     (if version \<ge> 8 then [putInt32 (tmd_TopicAuthorizedOperations r)] else []) @
     (if version \<ge> 9 then [putEmptyTaggedFieldArray] else [])"

definition dec_TopicMetadata :: "int \<Rightarrow> TopicMetadata dec" where
  "dec_TopicMetadata version =
     dbind getInt16 (\<lambda>err.
     dbind (if version < 9 then getString else getCompactString) (\<lambda>nm.
     dbind (if version \<ge> 10 then getRawBytes 16 else dreturn NullUUID) (\<lambda>uuid.
     dbind (if version \<ge> 1 then getBool else dreturn False) (\<lambda>isInternal.
     dbind (if version < 9 then dec_array (dec_PartitionMetadata version) else dec_carray (dec_PartitionMetadata version)) (\<lambda>prts.
     dbind (if version \<ge> 8 then getInt32 else dreturn 0) (\<lambda>topicAuthorizedOperations.
     dbind (if version \<ge> 9 then getEmptyTaggedFieldArray else dreturn 0) (\<lambda>_.
       dreturn \<lparr>tmd_Version = version, tmd_Err = err, tmd_Name = nm, tmd_Uuid = uuid,
         tmd_IsInternal = isInternal, tmd_Partitions = prts,
         tmd_TopicAuthorizedOperations = topicAuthorizedOperations\<rparr>)))))))"

definition wf_TopicMetadata :: "int \<Rightarrow> TopicMetadata \<Rightarrow> bool" where
  "wf_TopicMetadata version r \<longleftrightarrow> tmd_Version r = version \<and>
     length (tmd_Name r) \<le> 32767 \<and>
     (if version \<ge> 10 then length (tmd_Uuid r) = 16 else tmd_Uuid r = NullUUID) \<and>
     (version \<ge> 1 \<or> \<not> tmd_IsInternal r) \<and>
     length (tmd_Partitions r) \<le> 131070 \<and> list_all (wf_PartitionMetadata version) (tmd_Partitions r) \<and>
     (version \<ge> 8 \<or> tmd_TopicAuthorizedOperations r = 0)"

lemma enc_TopicMetadata_nonempty: "ser_ops (enc_TopicMetadata version r) \<noteq> []"
  by (simp add: enc_TopicMetadata_def ser_simps)

interpretation tmd: wire_elem "enc_TopicMetadata v" dec_TopicMetadata "\<lambda>_. v"
  "wf_TopicMetadata v" for v
  by (rule wire_elemI [OF _ enc_TopicMetadata_nonempty], unfold enc_TopicMetadata_def dec_TopicMetadata_def
      wf_TopicMetadata_def)
    (rule codes_rules codes_raw | (auto simp: codes_simps intro!: pmd.codes pmd.nonempty; fail))+

record MetadataResponse =
  mdr_Version :: int
  mdr_ThrottleTimeMs :: int32
  mdr_Brokers :: "Broker list"
  mdr_ClusterID :: nstring
  mdr_ControllerID :: int32
  mdr_Topics :: "TopicMetadata list"
  mdr_ClusterAuthorizedOperations :: int32

definition enc_MetadataResponse :: "MetadataResponse \<Rightarrow> pe_op list" where
  "enc_MetadataResponse r =
     (if mdr_Version r \<ge> 3 then [putInt32 (mdr_ThrottleTimeMs r)] else []) @
     (if mdr_Version r < 9 then enc_array (enc_Broker (mdr_Version r)) (mdr_Brokers r) else enc_carray (enc_Broker (mdr_Version r)) (mdr_Brokers r)) @
     (if mdr_Version r \<ge> 2 then (if mdr_Version r < 9 then [putNullableString (mdr_ClusterID r)] else [putNullableCompactString (mdr_ClusterID r)]) else []) @
     (if mdr_Version r \<ge> 1 then [putInt32 (mdr_ControllerID r)] else []) @
     (if mdr_Version r < 9 then enc_array (enc_TopicMetadata (mdr_Version r)) (mdr_Topics r) else enc_carray (enc_TopicMetadata (mdr_Version r)) (mdr_Topics r)) @
     (if mdr_Version r \<ge> 8 then [putInt32 (mdr_ClusterAuthorizedOperations r)] else []) @
     (if mdr_Version r \<ge> 9 then [putEmptyTaggedFieldArray] else [])"

definition dec_MetadataResponse :: "int \<Rightarrow> MetadataResponse dec" where
  "dec_MetadataResponse version =
     dbind (if version \<ge> 3 then getInt32 else dreturn 0) (\<lambda>throttleTimeMs.
     dbind (if version < 9 then dec_array (dec_Broker version) else dec_carray (dec_Broker version)) (\<lambda>brokers.
     dbind (if version \<ge> 2 then if version < 9 then getNullableString else getCompactNullableString else dreturn None) (\<lambda>clusterID.
     dbind (if version \<ge> 1 then getInt32 else dreturn 0) (\<lambda>controllerID.
     dbind (if version < 9 then dec_array (dec_TopicMetadata version) else dec_carray (dec_TopicMetadata version)) (\<lambda>tops.
     dbind (if version \<ge> 8 then getInt32 else dreturn 0) (\<lambda>clusterAuthorizedOperations.
     dbind (if version \<ge> 9 then getEmptyTaggedFieldArray else dreturn 0) (\<lambda>_.
       dreturn \<lparr>mdr_Version = version, mdr_ThrottleTimeMs = throttleTimeMs, mdr_Brokers = brokers,
         mdr_ClusterID = clusterID, mdr_ControllerID = controllerID, mdr_Topics = tops,
         mdr_ClusterAuthorizedOperations = clusterAuthorizedOperations\<rparr>)))))))"

definition wf_MetadataResponse :: "MetadataResponse \<Rightarrow> bool" where
  "wf_MetadataResponse r \<longleftrightarrow> (mdr_Version r \<ge> 3 \<or> mdr_ThrottleTimeMs r = 0) \<and>
     length (mdr_Brokers r) \<le> 131070 \<and> list_all (wf_Broker (mdr_Version r)) (mdr_Brokers r) \<and>
     (if mdr_Version r \<ge> 2 then pred_option (\<lambda>s. length s \<le> 32767) (mdr_ClusterID r) else mdr_ClusterID r = None) \<and>
     (mdr_Version r \<ge> 1 \<or> mdr_ControllerID r = 0) \<and>
     length (mdr_Topics r) \<le> 131070 \<and> list_all (wf_TopicMetadata (mdr_Version r)) (mdr_Topics r) \<and>
     (mdr_Version r \<ge> 8 \<or> mdr_ClusterAuthorizedOperations r = 0)"

interpretation mdr: wire_codec enc_MetadataResponse dec_MetadataResponse mdr_Version
  wf_MetadataResponse
  by (rule wire_codecI, unfold enc_MetadataResponse_def dec_MetadataResponse_def
      wf_MetadataResponse_def)
    (rule codes_rules codes_if | (auto simp: codes_simps intro!: brk.codes brk.nonempty tmd.codes tmd.nonempty; fail))+


text \<open>\<open>AddTopic\<close> and \<open>AddTopicPartition\<close> update the first entry with the name, or append one.\<close>

fun upsert :: "('a \<Rightarrow> bool) \<Rightarrow> 'a \<Rightarrow> ('a \<Rightarrow> 'a) \<Rightarrow> 'a list \<Rightarrow> 'a list" where
  "upsert P new f [] = [f new]"
| "upsert P new f (x # xs) = (if P x then f x # xs else x # upsert P new f xs)"

definition AddBroker :: "string \<Rightarrow> int32 \<Rightarrow> MetadataResponse \<Rightarrow> MetadataResponse" where
  "AddBroker addr ident r = r\<lparr>mdr_Brokers := mdr_Brokers r @ [\<lparr>br_id = ident, br_addr = addr, br_rack = None\<rparr>]\<rparr>"

definition new_TopicMetadata :: "string \<Rightarrow> TopicMetadata" where
  "new_TopicMetadata topic =
     \<lparr>tmd_Version = 0, tmd_Err = 0, tmd_Name = topic, tmd_Uuid = NullUUID, tmd_IsInternal = False,
      tmd_Partitions = [], tmd_TopicAuthorizedOperations = 0\<rparr>"

definition AddTopic :: "string \<Rightarrow> KError \<Rightarrow> MetadataResponse \<Rightarrow> MetadataResponse" where
  "AddTopic topic err r =
     r\<lparr>mdr_Topics := upsert (\<lambda>tm. tmd_Name tm = topic) (new_TopicMetadata topic)
         (\<lambda>tm. tm\<lparr>tmd_Err := err\<rparr>) (mdr_Topics r)\<rparr>"

definition new_PartitionMetadata :: "int32 \<Rightarrow> PartitionMetadata" where
  "new_PartitionMetadata prt =
     \<lparr>pmd_Version = 0, pmd_Err = 0, pmd_ID = prt, pmd_Leader = 0, pmd_LeaderEpoch = 0, pmd_Replicas = None,
      pmd_Isr = None, pmd_OfflineReplicas = None\<rparr>"

definition AddTopicPartition ::
    "string \<Rightarrow> int32 \<Rightarrow> int32 \<Rightarrow> int32 list option \<Rightarrow> int32 list option \<Rightarrow> int32 list option \<Rightarrow> KError \<Rightarrow>
     MetadataResponse \<Rightarrow> MetadataResponse" where
  "AddTopicPartition topic prt brokerID replicas isr offline err r =
     (let r' = AddTopic topic 0 r
      in r'\<lparr>mdr_Topics := upsert (\<lambda>tm. tmd_Name tm = topic) (new_TopicMetadata topic)
           (\<lambda>tm. tm\<lparr>tmd_Partitions := upsert (\<lambda>pm. pmd_ID pm = prt) (new_PartitionMetadata prt)
              (\<lambda>pm. pm\<lparr>pmd_Leader := brokerID, pmd_Replicas := Some (list_of replicas),
                 pmd_Isr := Some (list_of isr), pmd_OfflineReplicas := Some (list_of offline), pmd_Err := err\<rparr>)
              (tmd_Partitions tm)\<rparr>) (mdr_Topics r')\<rparr>)"

lemma find_upsert:
  assumes "\<And>x. P x \<Longrightarrow> P (f x)" "P new"
  shows "find P (upsert P new f xs) = Some (f (case find P xs of None \<Rightarrow> new | Some x \<Rightarrow> x))"
  using assms by (induction xs) auto

lemma find_upsert_other:
  assumes "\<And>x. P x \<Longrightarrow> \<not> Q x" "\<And>x. P x \<Longrightarrow> \<not> Q (f x)" "\<not> Q (f new)"
  shows "find Q (upsert P new f xs) = find Q xs"
  using assms by (induction xs) auto

subsection \<open>ConsumerMetadata\<close>


text \<open>
  The old names of FindCoordinator: the request and the response are sent as those of \<open>FindCoordinator\<close>.
  Neither decoder stores the version.
\<close>

record ConsumerMetadataRequest =
  cmq_Version :: int
  cmq_ConsumerGroup :: string

definition enc_ConsumerMetadataRequest :: "ConsumerMetadataRequest \<Rightarrow> pe_op list" where
  "enc_ConsumerMetadataRequest r =
     enc_FindCoordinatorRequest \<lparr>fcq_Version = cmq_Version r, fcq_CoordinatorKey = cmq_ConsumerGroup r,
       fcq_CoordinatorType = 0\<rparr>"

definition dec_ConsumerMetadataRequest :: "int \<Rightarrow> ConsumerMetadataRequest dec" where
  "dec_ConsumerMetadataRequest version =
     dbind (dec_FindCoordinatorRequest version) (\<lambda>tmp.
       dreturn \<lparr>cmq_Version = 0, cmq_ConsumerGroup = fcq_CoordinatorKey tmp\<rparr>)"

lemma ConsumerMetadataRequest_codes:
  assumes "length (cmq_ConsumerGroup r) \<le> 32767"
  shows "codes (dec_ConsumerMetadataRequest (cmq_Version r)) (enc_ConsumerMetadataRequest r) (r\<lparr>cmq_Version := 0\<rparr>)"
  unfolding dec_ConsumerMetadataRequest_def enc_ConsumerMetadataRequest_def
  using assms by (intro codes_last [OF fcq.codes] codes_return) (simp_all add: wf_FindCoordinatorRequest_def)

record ConsumerMetadataResponse =
  cmr_Version :: int
  cmr_Err :: KError
  cmr_Coordinator :: "Broker option"
  cmr_CoordinatorID :: int32
  cmr_CoordinatorHost :: string
  cmr_CoordinatorPort :: int32

definition cmr_broker :: "ConsumerMetadataResponse \<Rightarrow> Broker" where
  "cmr_broker r =
     (case cmr_Coordinator r of
        None \<Rightarrow> \<lparr>br_id = cmr_CoordinatorID r,
          br_addr = JoinHostPort (cmr_CoordinatorHost r) (show_int (sint (cmr_CoordinatorPort r))), br_rack = None\<rparr>
      | Some b \<Rightarrow> b)"

definition enc_ConsumerMetadataResponse :: "ConsumerMetadataResponse \<Rightarrow> pe_op list" where
  "enc_ConsumerMetadataResponse r =
     enc_FindCoordinatorResponse \<lparr>fcr_Version = cmr_Version r, fcr_ThrottleTime = 0, fcr_Err = cmr_Err r,
       fcr_ErrMsg = None, fcr_Coordinator = Some (cmr_broker r)\<rparr>"

definition dec_ConsumerMetadataResponse :: "int \<Rightarrow> ConsumerMetadataResponse dec" where
  "dec_ConsumerMetadataResponse version =
     dbind (dec_FindCoordinatorResponse version) (\<lambda>tmp.
       case fcr_Coordinator tmp of
         None \<Rightarrow> dreturn \<lparr>cmr_Version = 0, cmr_Err = fcr_Err tmp, cmr_Coordinator = None, cmr_CoordinatorID = 0,
           cmr_CoordinatorHost = [], cmr_CoordinatorPort = 0\<rparr>
       | Some b \<Rightarrow>
           dbind (dlift (SplitHostPort (br_addr b))) (\<lambda>(host, portstr).
           dbind (dlift (ParseInt32 portstr)) (\<lambda>port.
             dreturn \<lparr>cmr_Version = 0, cmr_Err = fcr_Err tmp, cmr_Coordinator = Some b,
               cmr_CoordinatorID = br_id b, cmr_CoordinatorHost = host, cmr_CoordinatorPort = port\<rparr>)))"

text \<open>
  A response with only the deprecated fields, as older callers built it, comes back with a broker made
  from them and with the same deprecated fields.
\<close>

lemma deprecated_coordinator:
  assumes host: "plain_host (cmr_CoordinatorHost r)" "length (cmr_CoordinatorHost r) \<le> 32767"
    and v: "cmr_Version r \<ge> 0" and none: "cmr_Coordinator r = None"
    and zero: "br_addr (cmr_broker r) \<noteq> '':0''"
  shows "codes (dec_ConsumerMetadataResponse (cmr_Version r)) (enc_ConsumerMetadataResponse r)
    (r\<lparr>cmr_Version := 0, cmr_Coordinator := Some (cmr_broker r)\<rparr>)"
proof -
  let ?port = "show_int (sint (cmr_CoordinatorPort r))"
  let ?tmp = "\<lparr>fcr_Version = cmr_Version r, fcr_ThrottleTime = 0, fcr_Err = cmr_Err r, fcr_ErrMsg = None,
    fcr_Coordinator = Some (cmr_broker r)\<rparr>"
  have b: "cmr_broker r = \<lparr>br_id = cmr_CoordinatorID r, br_addr = JoinHostPort (cmr_CoordinatorHost r) ?port,
      br_rack = None\<rparr>"
    using none by (simp add: cmr_broker_def)
  have s: "SplitHostPort (br_addr (cmr_broker r)) = Ok (cmr_CoordinatorHost r, ?port)"
    using SplitHostPort_JoinHostPort [OF host(1) plain_port_show_int] by (simp add: b)
  have p: "ParseInt32 ?port = Ok (cmr_CoordinatorPort r)" by (rule ParseInt32_show_int)
  have "wf_FindCoordinatorResponse ?tmp"
    using v zero s p host b by (simp add: wf_FindCoordinatorResponse_def wf_Broker_def wf_millis32_def)
  from fcr.codes [OF this] have c: "codes (dec_FindCoordinatorResponse (cmr_Version r))
      (enc_ConsumerMetadataResponse r) ?tmp"
    by (simp add: enc_ConsumerMetadataResponse_def)
  show ?thesis
    unfolding dec_ConsumerMetadataResponse_def
    by (rule codes_last [OF c]) (use s p b in \<open>auto intro!: codes_lift [where x = "(cmr_CoordinatorHost r, ?port)"]
      codes_lift [where x = "cmr_CoordinatorPort r"] codes_return\<close>)
qed

subsection \<open>ListGroups\<close>


text \<open>
  The answer holds two maps over the same group ids, the second one from version 4 on. The encoder
  writes none of the tagged fields that the decoder expects from version 3 on.
\<close>

record ListGroupsResponse =
  lsr_Version :: int
  lsr_ThrottleTime :: int32
  lsr_Err :: KError
  lsr_Groups :: "(string \<times> string) list"
  lsr_GroupsData :: "(string \<times> string) list"

definition enc_ListGroupsResponse :: "ListGroupsResponse \<Rightarrow> pe_op list" where
  "enc_ListGroupsResponse r =
     (if lsr_Version r \<ge> 1 then [putInt32 (lsr_ThrottleTime r)] else []) @
     [putInt16 (lsr_Err r)] @
     (if lsr_Version r \<le> 2
      then enc_array (\<lambda>(groupId, protocolType). [putString groupId, putString protocolType]) (lsr_Groups r)
      else enc_carray (\<lambda>(groupId, protocolType). [putCompactString groupId, putCompactString protocolType] @
        (if lsr_Version r \<ge> 4
         then [putCompactString (case map_of (lsr_GroupsData r) groupId of None \<Rightarrow> [] | Some s \<Rightarrow> s)]
         else [])) (lsr_Groups r))"

definition dec_listed_group :: "int \<Rightarrow> (string \<times> string \<times> string) dec" where
  "dec_listed_group version =
     dbind (if version \<le> 2 then getString else getCompactString) (\<lambda>groupId.
     dbind (if version \<le> 2 then getString else getCompactString) (\<lambda>protocolType.
     dbind (if version \<ge> 4 then getCompactString else dreturn []) (\<lambda>groupState.
     dbind (if version \<ge> 3 then getEmptyTaggedFieldArray else dreturn 0) (\<lambda>_.
       dreturn (groupId, protocolType, groupState)))))"

definition dec_ListGroupsResponse :: "int \<Rightarrow> ListGroupsResponse dec" where
  "dec_ListGroupsResponse version =
     dbind (if version \<ge> 1 then getInt32 else dreturn 0) (\<lambda>throttleTime.
     dbind getInt16 (\<lambda>err.
     dbind (if version \<le> 2 then getArrayLength else getCompactArrayLength) (\<lambda>n.
     dbind (dec_times (nat n) (dec_listed_group version)) (\<lambda>gs.
     dbind (if version \<ge> 3 then getEmptyTaggedFieldArray else dreturn 0) (\<lambda>_.
       dreturn \<lparr>lsr_Version = version, lsr_ThrottleTime = throttleTime, lsr_Err = err,
         lsr_Groups = go_map (map (\<lambda>(g, p, s). (g, p)) gs),
         lsr_GroupsData = (if version \<ge> 4 then go_map (map (\<lambda>(g, p, s). (g, s)) gs) else [])\<rparr>)))))"

definition wf_ListGroupsResponse :: "ListGroupsResponse \<Rightarrow> bool" where
  "wf_ListGroupsResponse r \<longleftrightarrow> lsr_Version r \<le> 2 \<and> (lsr_Version r \<ge> 1 \<or> lsr_ThrottleTime r = 0) \<and>
     length (lsr_Groups r) \<le> 131070 \<and> distinct (map fst (lsr_Groups r)) \<and>
     list_all (\<lambda>(g, p). length g \<le> 32767 \<and> length p \<le> 32767) (lsr_Groups r) \<and> lsr_GroupsData r = []"

lemma codes_listed_group:
  "length (fst g) \<le> 32767 \<Longrightarrow> length (snd g) \<le> 32767 \<Longrightarrow> v \<le> 2 \<Longrightarrow>
   codes (dec_listed_group v) ((\<lambda>(groupId, protocolType). [putString groupId, putString protocolType]) g)
     (fst g, snd g, [])"
  by (cases g) (auto simp: codes_def dec_listed_group_def ser_simps dec_steps intro!: readsI)

interpretation lsr: wire_codec enc_ListGroupsResponse dec_ListGroupsResponse lsr_Version wf_ListGroupsResponse
proof (rule wire_codecI)
  fix r assume wf: "wf_ListGroupsResponse r"
  let ?enc = "\<lambda>(groupId, protocolType). [putString groupId, putString protocolType]"
  have c: "codes (dec_listed_group (lsr_Version r)) (?enc g) (fst g, snd g, [])" if "g \<in> set (lsr_Groups r)" for g
    using wf that by (intro codes_listed_group) (auto simp: wf_ListGroupsResponse_def list_all_iff)
  then have t: "reads (dec_times (length (lsr_Groups r)) (dec_listed_group (lsr_Version r)))
      (concat (map (\<lambda>g. ser_ops (?enc g)) (lsr_Groups r))) (map (\<lambda>g. (fst g, snd g, [])) (lsr_Groups r))"
    using reads_times_view [of "lsr_Groups r" "dec_listed_group (lsr_Version r)" "\<lambda>g. ser_ops (?enc g)"
      "\<lambda>g. (fst g, snd g, [])"] by (simp add: codes_def)
  have l: "length (lsr_Groups r) \<le> length (concat (map (\<lambda>g. ser_ops (?enc g)) (lsr_Groups r)))"
    by (rule length_le_concat_map) (auto simp: ser_simps ser_defs)
  have ok: "ops_ok (concat (map ?enc (lsr_Groups r)))"
    using c by (auto simp: wire_ok codes_def)
  show "codes (dec_ListGroupsResponse (lsr_Version r)) (enc_ListGroupsResponse r) r"
    using wf l ok reads_at [OF t]
    by (cases r; cases "lsr_Version r \<ge> 1")
      (auto simp: codes_def wf_ListGroupsResponse_def enc_ListGroupsResponse_def dec_ListGroupsResponse_def
        enc_array_def ser_simps dec_steps o_def case_prod_beta intro!: readsI)
qed

text \<open>An answer without groups already fails to decode from version 3 on.\<close>

lemma tagged_fields_at_end: "getEmptyTaggedFieldArray (dec_at pre [] st) = (Err ErrInsufficientData, dec_at pre [] st)"
  by (simp add: getEmptyTaggedFieldArray_def dbind_def getUVarint_def Uvarint_def insufficient_def)

lemma list_groups_v3_unreadable:
  assumes "lsr_Version r = 3 \<or> lsr_Version r = 4" "lsr_Groups r = []"
  shows "versionedDecode (Some (ser_ops (enc_ListGroupsResponse r))) x dec_ListGroupsResponse (lsr_Version r) =
    Err ErrInsufficientData"
  using assms
  by (auto simp: versionedDecode_def decode_buf_def new_decoder_eq tagged_fields_at_end
      getCompactArrayLength_at [where post = "[]", simplified] enc_ListGroupsResponse_def dec_ListGroupsResponse_def enc_carray_def ser_simps dec_steps)

end
