(* ===== verification/Fetch_Records.thy ===== *)
theory Fetch_Records
  imports Records_Union
begin

text \<open>
  The records of a fetched partition (\<open>fetch_response.go\<close>): a broker sends as many bytes as the
  request allows, so the last batch may be cut anywhere. \<open>fetch_loop\<close> is the loop of
  \<open>FetchResponseBlock.decode\<close>; its fuel bounds the number of batches and the number of bytes is
  enough (\<open>fetch_loop_returns\<close>).

  The predicate \<open>cuts\<close> says what a decoder does with a strict prefix of the bytes it expects. It
  composes along \<open>dbind\<close>, which gives \<open>RecordBatch.decode\<close> on a cut batch, and with it what the
  whole loop makes of a cut buffer.
\<close>

subsection \<open>The block and its loop\<close>

record AbortedTransaction =
  abt_ProducerID :: int64
  abt_FirstOffset :: int64

record FetchResponseBlock =
  frb_Err :: KError
  frb_HighWaterMarkOffset :: int64
  frb_LastStableOffset :: int64
  frb_LastRecordsBatchOffset :: "int64 option"
  frb_LogStartOffset :: int64
  frb_AbortedTransactions :: "AbortedTransaction list"
  frb_PreferredReadReplica :: int32
  frb_RecordsSet :: "Records list"
  frb_Partial :: bool
  frb_Records :: "Records option"

definition add_records :: "int64 option \<Rightarrow> bool \<Rightarrow> nat \<Rightarrow> Records \<Rightarrow> FetchResponseBlock \<Rightarrow> FetchResponseBlock" where
  "add_records offset partial n records b =
     (let b = b\<lparr>frb_LastRecordsBatchOffset := offset\<rparr>
      in if n > 0 \<or> partial \<and> frb_RecordsSet b = []
         then b\<lparr>frb_RecordsSet := frb_RecordsSet b @ [records],
                frb_Records := (case frb_Records b of None \<Rightarrow> Some records | Some r \<Rightarrow> Some r)\<rparr>
         else b)"

fun fetch_loop :: "nat \<Rightarrow> nat \<Rightarrow> codecs \<Rightarrow> FetchResponseBlock \<Rightarrow> realDecoder \<Rightarrow> FetchResponseBlock res" where
  "fetch_loop 0 depth cs b rd = Diverge"
| "fetch_loop (Suc k) depth cs b rd =
     (if remaining rd > 0 then
        (case dec_Records depth cs zeroRecords rd of
           (Err e, rd) \<Rightarrow>
             if errors_Is e ErrInsufficientData
             then Ok (if frb_RecordsSet b = [] then b\<lparr>frb_Partial := True\<rparr> else b)
             else Err e
         | (Ok records, rd) \<Rightarrow>
             res_bind (recordsOffset records) (\<lambda>offset.
             res_bind (fst (isPartial records)) (\<lambda>partial.
             res_bind (fst (numRecords records)) (\<lambda>n.
             res_bind (fst (isOverflow records)) (\<lambda>overflow.
               if partial \<or> overflow then Ok (add_records offset partial n records b)
               else fetch_loop k depth cs (add_records offset partial n records b) rd))))
         | (Panic, rd) \<Rightarrow> Panic
         | (Diverge, rd) \<Rightarrow> Diverge)
      else Ok b)"

definition fetch_records :: "nat \<Rightarrow> codecs \<Rightarrow> FetchResponseBlock \<Rightarrow> realDecoder \<Rightarrow> FetchResponseBlock res" where
  "fetch_records depth cs b rd = fetch_loop (Suc (length (rd_raw rd))) depth cs b rd"

primrec sum_records :: "Records list \<Rightarrow> nat res" where
  "sum_records [] = Ok 0"
| "sum_records (r # rs) = res_bind (fst (numRecords r)) (\<lambda>n. res_bind (sum_records rs) (\<lambda>m. Ok (n + m)))"

definition frb_numRecords :: "FetchResponseBlock \<Rightarrow> nat res" where
  "frb_numRecords b = sum_records (frb_RecordsSet b)"

definition frb_isPartial :: "FetchResponseBlock \<Rightarrow> bool res" where
  "frb_isPartial b =
     (if frb_Partial b then Ok True
      else case frb_RecordsSet b of [r] \<Rightarrow> fst (isPartial r) | _ \<Rightarrow> Ok False)"

definition getAbortedTransactions :: "FetchResponseBlock \<Rightarrow> AbortedTransaction list" where
  "getAbortedTransactions b = sort_key (\<lambda>t. sint (abt_FirstOffset t)) (frb_AbortedTransactions b)"

subsection \<open>Decoders on cut input\<close>

definition cuts :: "'a dec \<Rightarrow> byte list \<Rightarrow> ('a \<Rightarrow> bool) \<Rightarrow> bool" where
  "cuts d bs Q \<longleftrightarrow> (\<forall>pre st j. j < length bs \<longrightarrow>
     fst (d (dec_at pre (take j bs) st)) = Err ErrInsufficientData \<or>
     (\<exists>y. fst (d (dec_at pre (take j bs) st)) = Ok y \<and> Q y))"

definition cut_off :: "'a dec \<Rightarrow> byte list \<Rightarrow> bool" where
  "cut_off d bs \<longleftrightarrow> (\<forall>pre st j. j < length bs \<longrightarrow>
     fst (d (dec_at pre (take j bs) st)) = Err ErrInsufficientData)"

lemma dbind_Err: "fst (d rd) = Err e \<Longrightarrow> fst (dbind d f rd) = Err e"
  by (cases "d rd") (auto simp: dbind_def)

lemma cuts_bind:
  assumes "cut_off d bs" "reads d bs x" "cuts (f x) bs' Q"
  shows "cuts (dbind d f) (bs @ bs') Q"
  unfolding cuts_def
proof (intro allI impI)
  fix pre st j assume j: "j < length (bs @ bs')"
  let ?rd = "dec_at pre (take j (bs @ bs')) st"
  show "fst (dbind d f ?rd) = Err ErrInsufficientData \<or> (\<exists>y. fst (dbind d f ?rd) = Ok y \<and> Q y)"
  proof (cases "j < length bs")
    case True
    then have "fst (d ?rd) = Err ErrInsufficientData" using assms(1) by (simp add: cut_off_def)
    then show ?thesis by (simp add: dbind_Err)
  next
    case False
    then have t: "take j (bs @ bs') = bs @ take (j - length bs) bs'" by simp
    have "j - length bs < length bs'" using False j by auto
    with assms(3) show ?thesis
      unfolding t cuts_def by (simp add: dbind_def reads_at [OF assms(2)])
  qed
qed

lemma cut_off_ints:
  "cut_off getInt8 [v8]" "cut_off getInt16 (be16 v16)" "cut_off getInt32 (be32 v32)" "cut_off getInt64 (be64 v64)"
  by (auto simp: cut_off_def getInt8_def getInt16_def getInt32_def getInt64_def insufficient_def)

lemma reads_ints:
  "reads getInt8 [v8] v8" "reads getInt16 (be16 v16) v16" "reads getInt32 (be32 v32) v32" "reads getInt64 (be64 v64) v64"
  by (auto intro!: readsI simp: dec_steps)

lemma cut_off_Timestamp: "length bs = 8 \<Longrightarrow> cut_off dec_Timestamp bs"
  unfolding dec_Timestamp_def cut_off_def
  by (auto intro!: dbind_Err simp: getInt64_def insufficient_def)

lemma cuts_crc:
  assumes "cuts (f ()) bs Q"
  shows "cuts (dbind (rd_push (crc32Field 0 p)) f) (be32 w @ bs) Q"
  unfolding cuts_def
proof (intro allI impI)
  fix pre st j assume j: "j < length (be32 w @ bs)"
  show "fst (dbind (rd_push (crc32Field 0 p)) f (dec_at pre (take j (be32 w @ bs)) st)) = Err ErrInsufficientData \<or>
    (\<exists>y. fst (dbind (rd_push (crc32Field 0 p)) f (dec_at pre (take j (be32 w @ bs)) st)) = Ok y \<and> Q y)"
  proof (cases "j < 4")
    case True
    then show ?thesis by (simp add: dbind_def insufficient_def)
  next
    case False
    with j assms show ?thesis
      by (simp add: cuts_def dbind_def rd_push_crc_at del: rd_push.simps)
  qed
qed

lemma getRawBytes_short:
  "int (length post) < m \<Longrightarrow> fst (getRawBytes m (dec_at pre post st)) = Err ErrInsufficientData"
  by (simp add: getRawBytes_def insufficient_def)

lemma or_insufficient_short:
  "fst (d rd) = Err ErrInsufficientData \<Longrightarrow> fst (dbind (or_insufficient d) f rd) = fst (f None (snd (d rd)))"
  by (cases "d rd") (simp add: or_insufficient_def dbind_def dcatch_def dreturn_def)

lemma cuts_counted:
  assumes c: "int (length c) = m" and n: "n \<le> 131070" and Q: "Q (b (int n))"
  shows "cuts (dbind getArrayLength (\<lambda>k. dbind (or_insufficient (getRawBytes m)) (\<lambda>buf.
      case buf of None \<Rightarrow> dreturn (b k) | Some x \<Rightarrow> g k x))) (ser_array_length (int n) @ c) Q"
    (is "cuts ?d _ _")
  unfolding cuts_def
proof (intro allI impI)
  fix pre st j assume j: "j < length (ser_array_length (int n) @ c)"
  let ?t = "take (j - 4) c"
  consider "j < 4" | "j \<ge> 4" "n > length ?t" | "j \<ge> 4" "n \<le> length ?t" by linarith
  then show "fst (?d (dec_at pre (take j (ser_array_length (int n) @ c)) st)) = Err ErrInsufficientData \<or>
    (\<exists>y. fst (?d (dec_at pre (take j (ser_array_length (int n) @ c)) st)) = Ok y \<and> Q y)"
  proof cases
    case 1
    then show ?thesis by (simp add: dbind_Err getArrayLength_def insufficient_def)
  next
    case 2
    then show ?thesis using n by (simp add: dbind_Err getArrayLength_short)
  next
    case 3
    have "int (length ?t) < m" using 3 j c by auto
    note short = or_insufficient_short [where d = "getRawBytes m", OF getRawBytes_short [OF this]]
    have "getArrayLength (dec_at pre (ser_array_length (int n) @ ?t) st) =
        (Ok (int n), dec_at (pre @ ser_array_length (int n)) ?t st)"
      using 3 n by (intro getArrayLength_at) simp_all
    with 3 Q show ?thesis by (simp add: dbind_def [of getArrayLength] short dreturn_def)
  qed
qed

text \<open>A cut batch is reported as insufficient data, or as a batch without records that is marked as partial.\<close>

definition partial_batch :: "RecordBatch \<Rightarrow> bool" where
  "partial_batch b \<longleftrightarrow> rb_PartialTrailingRecord b \<and> rb_Records b = []"

lemma ser_batch:
  assumes "sendable_batch cs b"
  shows "\<exists>w. ser_ops (fst (enc_RecordBatch cs b)) =
    be64 (rb_FirstOffset b) @ be32 (word_of_nat (49 + length (batch_payload cs b))) @
    be32 (rb_PartitionLeaderEpoch b) @ [2] @ be32 w @ be16 (computeAttributes b) @
    be32 (rb_LastOffsetDelta b) @ ser_ops (enc_Timestamp (rb_FirstTimestamp b)) @
    ser_ops (enc_Timestamp (rb_MaxTimestamp b)) @ be64 (rb_ProducerID b) @ be16 (rb_ProducerEpoch b) @
    be32 (rb_FirstSequence b) @ ser_array_length (int (length (rb_Records b))) @ batch_payload cs b"
  using assms by (simp add: enc_RecordBatch_wf batch_header_def ser_simps sendable_batch_def) blast

lemma cuts_RecordBatch:
  assumes s: "sendable_batch cs b"
  shows "cuts (dec_RecordBatch cs) (ser_ops (fst (enc_RecordBatch cs b))) partial_batch"
proof -
  obtain w where w: "ser_ops (fst (enc_RecordBatch cs b)) =
      be64 (rb_FirstOffset b) @ be32 (word_of_nat (49 + length (batch_payload cs b))) @
      be32 (rb_PartitionLeaderEpoch b) @ [2] @ be32 w @ be16 (computeAttributes b) @
      be32 (rb_LastOffsetDelta b) @ ser_ops (enc_Timestamp (rb_FirstTimestamp b)) @
      ser_ops (enc_Timestamp (rb_MaxTimestamp b)) @ be64 (rb_ProducerID b) @ be16 (rb_ProducerEpoch b) @
      be32 (rb_FirstSequence b) @ ser_array_length (int (length (rb_Records b))) @ batch_payload cs b"
    using ser_batch [OF s] by blast
  have t: "wf_time (rb_FirstTimestamp b)" "wf_time (rb_MaxTimestamp b)"
    and n: "length (rb_Records b) \<le> 131070" and l: "length (batch_payload cs b) \<le> 2147483647 - 49"
    using s by (simp_all add: sendable_batch_def)
  have ts: "reads dec_Timestamp (ser_ops (enc_Timestamp x)) x" "cut_off dec_Timestamp (ser_ops (enc_Timestamp x))"
    if "wf_time x" for x
    using that by (auto intro!: readsI cut_off_Timestamp simp: dec_steps)
  have m: "int (length (batch_payload cs b)) =
      sint (word_of_nat (49 + length (batch_payload cs b)) :: int32) - recordBatchOverhead"
    using sint_batchLen [OF l] by (simp add: recordBatchOverhead_def)
  show ?thesis
    unfolding w dec_RecordBatch_def Let_def
    by (rule cuts_bind cut_off_ints reads_ints cuts_crc ts t cuts_counted m n | simp add: partial_batch_def; fail)+
qed

subsection \<open>The loop ends\<close>

definition forward :: "realDecoder \<Rightarrow> realDecoder \<Rightarrow> bool" where
  "forward rd rd' \<longleftrightarrow> in_buffer rd' \<and> rd_raw rd' = rd_raw rd \<and> rd_off rd \<le> rd_off rd'"

lemma forward_trans: "forward a b \<Longrightarrow> forward b c \<Longrightarrow> forward a c"
  by (auto simp: forward_def)

lemma forward_safe: "dec_safe d \<Longrightarrow> in_buffer rd \<Longrightarrow> d rd = (r, rd') \<Longrightarrow> forward rd rd'"
  unfolding forward_def by (rule dec_safeD)

lemma progress_bind:
  assumes "dbind getInt64 f rd = (Ok r, rd')" "\<And>x. dec_safe (f x)" "in_buffer rd"
  shows "forward rd rd' \<and> rd_off rd < rd_off rd'"
proof -
  from assms(1) obtain x rd1 where 1: "getInt64 rd = (Ok x, rd1)" and 2: "f x rd1 = (Ok r, rd')"
    by (auto simp: dbind_def split: prod.splits res.splits)
  from 1 have "rd_off rd < rd_off rd1"
    by (auto simp: getInt64_def insufficient_def advance_def split: if_splits)
  moreover have "forward rd rd1" using forward_safe [OF dec_safe_ints(4) assms(3) 1] .
  moreover have "forward rd1 rd'"
    using forward_safe [OF assms(2) _ 2] \<open>forward rd rd1\<close> by (simp add: forward_def)
  ultimately show ?thesis by (auto simp: forward_def)
qed

lemma RecordBatch_progress:
  assumes "dec_RecordBatch cs rd = (Ok b, rd')" "in_buffer rd"
  shows "forward rd rd' \<and> rd_off rd < rd_off rd'"
  using assms unfolding dec_RecordBatch_def Let_def or_insufficient_def dec_Timestamp_def
  by (elim progress_bind) (intro safe_intros | assumption)+

lemma magicValue_same: "magicValue rd = (q, rd') \<Longrightarrow> rd' = rd"
  by (auto simp: magicValue_def peekInt8_def split: if_splits)

lemma msgset_loop_forward:
  assumes blk: "\<And>rd off r rd'. in_buffer rd \<Longrightarrow> blk rd = (off, r, rd') \<Longrightarrow> forward rd rd'"
  shows "in_buffer rd \<Longrightarrow> msgset_loop k blk ms rd = (q, rd') \<Longrightarrow> forward rd rd'"
proof (induction k arbitrary: ms rd)
  case 0
  then show ?case by (simp add: forward_def)
next
  case (Suc k)
  have step: "forward rd rd'" if "blk rd = (off, Ok msb, rd1)" "msgset_loop k blk (ms_append ms msb) rd1 = (q, rd')"
    for off msb rd1
  proof -
    have "forward rd rd1" using blk [OF Suc.prems(1) that(1)] .
    moreover have "forward rd1 rd'" using Suc.IH [OF _ that(2)] calculation by (simp add: forward_def)
    ultimately show ?thesis by (rule forward_trans)
  qed
  have same: "forward rd rd" using Suc.prems(1) by (simp add: forward_def)
  show ?case
    using Suc.prems(2) step blk [OF Suc.prems(1)] same
    by (auto split: if_splits prod.splits res.splits dest!: magicValue_same)
qed

lemma MessageSet_progress:
  assumes "dec_MessageSet depth cs rd = (Ok ms, rd')" "in_buffer rd" "0 < remaining rd"
    "magicValue rd = (Ok magic, rd)" "sint magic < 2" "\<not> ms_PartialTrailingMessage ms" "\<not> ms_OverflowMessage ms"
  shows "forward rd rd' \<and> rd_off rd < rd_off rd'"
proof (cases depth)
  case 0
  with assms(1) show ?thesis by simp
next
  case (Suc depth')
  let ?blk = "dec_MessageBlock_with cs (dec_MessageSet depth' cs)"
  have blk: "forward rd rd'" if "in_buffer rd" "?blk rd = (off, r, rd')" for rd off r rd'
    using block_progress [OF that] by (simp add: forward_def)
  obtain off r rd1 where b: "?blk rd = (off, r, rd1)" by (metis prod_cases3)
  have "\<exists>msb. r = Ok msb \<and>
      msgset_loop (length (rd_raw rd)) ?blk (ms_append (MessageSet False False []) msb) rd1 = (Ok ms, rd')"
    using assms b Suc by (auto split: res.splits if_splits)
  then obtain msb where r: "r = Ok msb"
    and l: "msgset_loop (length (rd_raw rd)) ?blk (ms_append (MessageSet False False []) msb) rd1 = (Ok ms, rd')"
    by blast
  have "forward rd rd1" "rd_off rd < rd_off rd1"
    using block_progress [OF assms(2) b] r by (auto simp: forward_def)
  moreover have "forward rd1 rd'"
    using msgset_loop_forward [OF blk _ l] calculation by (simp add: forward_def)
  ultimately show ?thesis by (auto simp: forward_def)
qed

lemma Records_progress:
  assumes "dec_Records depth cs zeroRecords rd = (Ok r, rd')" "in_buffer rd" "0 < remaining rd"
    "fst (isPartial r) = Ok False" "fst (isOverflow r) = Ok False"
  shows "forward rd rd' \<and> rd_off rd < rd_off rd'"
proof -
  from assms(1) obtain magic where m: "magicValue rd = (Ok magic, rd)"
    by (auto simp: dec_Records_def zeroRecords_def setTypeFromMagic_def dbind_def dest: magicValue_same
        split: prod.splits res.splits)
  show ?thesis
  proof (cases "sint magic < 2")
    case True
    with assms(1) m obtain ms where "dec_MessageSet depth cs rd = (Ok ms, rd')"
      and "r = \<lparr>recordsType = legacyRecords, rs_MsgSet = Some ms, rs_RecordBatch = None\<rparr>"
      by (auto simp: dec_Records_def zeroRecords_def setTypeFromMagic_def dbind_def dreturn_def recordsType_defs
          split: prod.splits res.splits)
    then show ?thesis
      using assms m True
      by (intro MessageSet_progress)
        (auto simp: isPartial_def isOverflow_def with_type_def recordsType_defs)
  next
    case False
    with assms(1) m obtain b where "dec_RecordBatch cs rd = (Ok b, rd')"
      by (auto simp: dec_Records_def zeroRecords_def setTypeFromMagic_def dbind_def dreturn_def recordsType_defs
          split: prod.splits res.splits)
    then show ?thesis using assms(2) by (rule RecordBatch_progress)
  qed
qed

lemma res_bind_Diverge_iff: "res_bind r f = Diverge \<longleftrightarrow> r = Diverge \<or> (\<exists>x. r = Ok x \<and> f x = Diverge)"
  by (cases r) auto

text \<open>
  The bytes of the buffer bound the number of rounds: the loop only fails to return when a decoder
  it calls does, which for nested message sets is a depth that was chosen too small.
\<close>

lemma fetch_loop_returns:
  assumes "in_buffer rd" "remaining rd < int k"
    and "\<And>rd. fst (dec_Records depth cs zeroRecords rd) \<noteq> Diverge"
  shows "fetch_loop k depth cs b rd \<noteq> Diverge"
  using assms(1,2)
proof (induction k arbitrary: b rd)
  case 0
  then show ?case by (simp add: in_buffer_def remaining_def)
next
  case (Suc k)
  have IH: "fetch_loop k depth cs b' rd' \<noteq> Diverge"
    if "dec_Records depth cs zeroRecords rd = (Ok r, rd')" "0 < remaining rd"
      "fst (isPartial r) = Ok False" "fst (isOverflow r) = Ok False" for b' r rd'
    using Records_progress [OF that(1) Suc.prems(1) that(2-)] Suc.prems
    by (intro Suc.IH) (auto simp: forward_def remaining_def)
  have q: "recordsOffset r \<noteq> Diverge" "fst (isPartial r) \<noteq> Diverge" "fst (numRecords r) \<noteq> Diverge"
    "fst (isOverflow r) \<noteq> Diverge" for r
    by (auto simp: recordsOffset_def isPartial_def numRecords_def isOverflow_def with_type_def setTypeFromFields_def
        split: option.splits)
  show ?case
    using assms(3) [of rd] q IH
    by (cases "dec_Records depth cs zeroRecords rd") (auto split: res.splits if_splits simp: res_bind_Diverge_iff)
qed

subsection \<open>A fetched buffer, whole or cut\<close>

definition batch_bytes :: "codecs \<Rightarrow> RecordBatch \<Rightarrow> byte list" where
  "batch_bytes cs b = ser_ops (fst (enc_RecordBatch cs b))"

text \<open>The batches that are complete in the first \<open>j\<close> bytes, and how many bytes they leave.\<close>

fun whole_batches :: "codecs \<Rightarrow> nat \<Rightarrow> RecordBatch list \<Rightarrow> RecordBatch list" where
  "whole_batches cs j [] = []"
| "whole_batches cs j (b # bs) =
     (if length (batch_bytes cs b) \<le> j then b # whole_batches cs (j - length (batch_bytes cs b)) bs else [])"

definition left_over :: "codecs \<Rightarrow> nat \<Rightarrow> RecordBatch list \<Rightarrow> nat" where
  "left_over cs j bs =
     min j (length (concat (map (batch_bytes cs) bs))) - length (concat (map (batch_bytes cs) (whole_batches cs j bs)))"

definition batch_records_of :: "RecordBatch \<Rightarrow> Records" where
  "batch_records_of w = newDefaultRecords (batch_on_wire w)"

definition add_batch :: "FetchResponseBlock \<Rightarrow> RecordBatch \<Rightarrow> FetchResponseBlock" where
  "add_batch b w = add_records (Some (rb_FirstOffset w)) False (length (rb_Records w)) (batch_records_of w) b"

text \<open>What the loop does with a batch that is cut: nothing, or it records that nothing was complete.\<close>

definition ended :: "FetchResponseBlock \<Rightarrow> FetchResponseBlock \<Rightarrow> bool" where
  "ended b b' \<longleftrightarrow> b' = (if frb_RecordsSet b = [] then b\<lparr>frb_Partial := True\<rparr> else b) \<or>
     (\<exists>p off. partial_batch p \<and> b' = add_records off True 0 (newDefaultRecords p) b)"

lemma default_queries:
  "recordsOffset (newDefaultRecords p) = Ok (Some (rb_FirstOffset p))"
  "fst (isPartial (newDefaultRecords p)) = Ok (rb_PartialTrailingRecord p)"
  "fst (isOverflow (newDefaultRecords p)) = Ok False"
  "fst (numRecords (newDefaultRecords p)) = Ok (length (rb_Records p))"
  by (simp_all add: recordsOffset_def isPartial_def isOverflow_def numRecords_def with_type_def
      newDefaultRecords_def recordsType_defs)

lemma dec_Records_cut:
  assumes s: "sendable_batch cs w" and j: "j < length (batch_bytes cs w)"
  shows "(\<exists>rd. dec_Records depth cs zeroRecords (dec_at pre (take j (batch_bytes cs w)) st) =
      (Err ErrInsufficientData, rd)) \<or>
    (\<exists>p rd. dec_Records depth cs zeroRecords (dec_at pre (take j (batch_bytes cs w)) st) =
      (Ok (newDefaultRecords p), rd) \<and> partial_batch p)"
proof (cases "j \<le> 16")
  case True
  then have "magicValue (dec_at pre (take j (batch_bytes cs w)) st) =
      (Err ErrInsufficientData, dec_at pre (take j (batch_bytes cs w)) st)"
    by (simp add: magicValue_def peekInt8_def)
  then show ?thesis by (simp add: dec_Records_def zeroRecords_def setTypeFromMagic_def dbind_def)
next
  case False
  let ?rd = "dec_at pre (take j (batch_bytes cs w)) st"
  have m: "magicValue ?rd = (Ok 2, ?rd)"
    using False j batch_magic(2) [OF s] by (simp add: magicValue_at batch_bytes_def)
  have c: "fst (dec_RecordBatch cs ?rd) = Err ErrInsufficientData \<or>
      (\<exists>p. fst (dec_RecordBatch cs ?rd) = Ok p \<and> partial_batch p)"
    using cuts_RecordBatch [OF s] j by (simp add: cuts_def batch_bytes_def)
  have d: "dec_Records depth cs zeroRecords ?rd =
      dbind (dec_RecordBatch cs) (\<lambda>p. dreturn (newDefaultRecords p)) ?rd"
    by (simp add: dec_Records_def zeroRecords_def setTypeFromMagic_def dbind_def dreturn_def m recordsType_defs
        newDefaultRecords_def)
  show ?thesis
    unfolding d using c by (cases "dec_RecordBatch cs ?rd") (auto simp: dbind_def dreturn_def)
qed

lemma fetch_loop_cut_batch:
  assumes "sendable_batch cs w" "0 < j" "j < length (batch_bytes cs w)" "0 < k"
  shows "\<exists>b'. fetch_loop k depth cs b (dec_at pre (take j (batch_bytes cs w)) st) = Ok b' \<and> ended b b'"
proof -
  obtain k' where k: "k = Suc k'" using assms(4) gr0_implies_Suc by blast
  show ?thesis
    using dec_Records_cut [OF assms(1,3), of depth pre st] assms(2,3) unfolding k ended_def
    by (fastforce simp: default_queries partial_batch_def)
qed

lemma dec_Records_whole:
  assumes "wf_RecordBatch cs w" "lossless cs"
  shows "dec_Records depth cs zeroRecords (dec_at pre (batch_bytes cs w @ post) st) =
    (Ok (batch_records_of w), dec_at (pre @ batch_bytes cs w) post st)"
proof -
  have e: "ser_ops (fst (enc_Records cs (newDefaultRecords w))) = batch_bytes cs w"
    by (simp add: enc_Records_def enc_Records_typed_def newDefaultRecords_def recordsType_defs batch_bytes_def
        split: prod.splits)
  show ?thesis
    using reads_at [OF dec_Records_default [OF assms]] by (simp add: e batch_records_of_def)
qed

lemma fetch_loop_step:
  assumes "wf_RecordBatch cs w" "lossless cs"
  shows "fetch_loop (Suc k) depth cs b (dec_at pre (batch_bytes cs w @ post) st) =
    fetch_loop k depth cs (add_batch b w) (dec_at (pre @ batch_bytes cs w) post st)"
proof -
  have "0 < int (length (batch_bytes cs w)) + int (length post)" "\<not> rb_PartialTrailingRecord w"
    using assms(1) by (auto simp: batch_bytes_def length_ser_RecordBatch wf_RecordBatch_def sendable_batch_def)
  then show ?thesis
    by (simp add: dec_Records_whole [OF assms] batch_records_of_def [of w] default_queries batch_on_wire_def
        add_batch_def)
qed

lemma fetch_loop_cut:
  assumes "\<And>w. w \<in> set bs \<Longrightarrow> wf_RecordBatch cs w" "lossless cs" "length (whole_batches cs j bs) < k"
  shows "\<exists>b'. fetch_loop k depth cs b (dec_at pre (take j (concat (map (batch_bytes cs) bs))) st) = Ok b' \<and>
    (if left_over cs j bs = 0 then b' = foldl add_batch b (whole_batches cs j bs)
     else ended (foldl add_batch b (whole_batches cs j bs)) b')"
  using assms
proof (induction bs arbitrary: j b pre k)
  case Nil
  then show ?case by (cases k) (simp_all add: left_over_def)
next
  case (Cons w bs)
  let ?B = "batch_bytes cs w" and ?rest = "concat (map (batch_bytes cs) bs)"
  have w: "wf_RecordBatch cs w" using Cons.prems(1) by simp
  obtain k' where k: "k = Suc k'" using Cons.prems(3) by (cases k) auto
  show ?case
  proof (cases "length ?B \<le> j")
    case True
    then have "take j (?B @ ?rest) = ?B @ take (j - length ?B) ?rest" by simp
    moreover have "left_over cs j (w # bs) = left_over cs (j - length ?B) bs"
      using True by (simp add: left_over_def)
    moreover have "whole_batches cs j (w # bs) = w # whole_batches cs (j - length ?B) bs"
      using True by simp
    ultimately show ?thesis
      using Cons.IH [of "j - length ?B" k' "add_batch b w" "pre @ ?B"] Cons.prems True k
      by (simp add: fetch_loop_step [OF w Cons.prems(2)] cong: if_cong del: fetch_loop.simps whole_batches.simps split del: if_split)
  next
    case False
    then have t: "take j (?B @ ?rest) = take j ?B" and l: "left_over cs j (w # bs) = j"
      by (auto simp: left_over_def)
    show ?thesis
    proof (cases "j = 0")
      case True
      with False k show ?thesis by (simp add: left_over_def)
    next
      case j: False
      from w have s: "sendable_batch cs w" by (simp add: wf_RecordBatch_def)
      from fetch_loop_cut_batch [OF s, of j k depth b pre st] j False k show ?thesis
        by (simp add: t l del: fetch_loop.simps)
    qed
  qed
qed

text \<open>The records of a block after all batches, each of which has records.\<close>

lemma foldl_add_batch:
  assumes "\<And>w. w \<in> set ws \<Longrightarrow> rb_Records w \<noteq> []"
  shows "foldl add_batch b ws = b\<lparr>
    frb_LastRecordsBatchOffset := (if ws = [] then frb_LastRecordsBatchOffset b else Some (rb_FirstOffset (last ws))),
    frb_RecordsSet := frb_RecordsSet b @ map batch_records_of ws,
    frb_Records := (case frb_Records b of Some r \<Rightarrow> Some r
      | None \<Rightarrow> if ws = [] then None else Some (batch_records_of (hd ws)))\<rparr>"
  using assms
proof (induction ws arbitrary: b)
  case (Cons w ws)
  then show ?case by (auto simp: add_batch_def add_records_def Let_def split: option.splits)
qed (simp split: option.splits)

lemma whole_batches_subset: "set (whole_batches cs j bs) \<subseteq> set bs"
  by (induction cs j bs rule: whole_batches.induct) auto

lemma whole_batches_all: "length (concat (map (batch_bytes cs) bs)) \<le> j \<Longrightarrow> whole_batches cs j bs = bs"
  by (induction bs arbitrary: j) auto

lemma ended_some:
  "ended b b' \<Longrightarrow> frb_RecordsSet b \<noteq> [] \<Longrightarrow> frb_RecordsSet b' = frb_RecordsSet b \<and> frb_Partial b' = frb_Partial b"
  by (auto simp: ended_def add_records_def)

lemma ended_none:
  "ended b b' \<Longrightarrow> frb_RecordsSet b = [] \<Longrightarrow> frb_numRecords b' = Ok 0 \<and> frb_isPartial b' = Ok True"
  by (auto simp: ended_def add_records_def frb_numRecords_def frb_isPartial_def default_queries partial_batch_def)

lemma whole_batches_count:
  assumes "\<And>w. w \<in> set bs \<Longrightarrow> sendable_batch cs w"
  shows "length (whole_batches cs j bs) \<le> length (take j (concat (map (batch_bytes cs) bs)))"
  using assms
proof (induction bs arbitrary: j)
  case (Cons w bs)
  have "1 \<le> length (batch_bytes cs w)"
    using Cons.prems by (simp add: batch_bytes_def length_ser_RecordBatch)
  with Cons.IH [of "j - length (batch_bytes cs w)"] Cons.prems show ?case by auto
qed simp

lemma fetch_records_cut:
  assumes "\<And>w. w \<in> set bs \<Longrightarrow> wf_RecordBatch cs w" "lossless cs"
  shows "\<exists>b'. fetch_records depth cs b (new_decoder (take j (concat (map (batch_bytes cs) bs)))) = Ok b' \<and>
    (if left_over cs j bs = 0 then b' = foldl add_batch b (whole_batches cs j bs)
     else ended (foldl add_batch b (whole_batches cs j bs)) b')"
proof -
  have "length (whole_batches cs j bs) < Suc (length (take j (concat (map (batch_bytes cs) bs))))"
    using whole_batches_count [of bs cs j] assms(1) by (simp add: wf_RecordBatch_def less_Suc_eq_le del: length_take)
  from fetch_loop_cut [OF assms this, of depth b "[]" "[]"] show ?thesis
    unfolding fetch_records_def new_decoder_eq
    by (simp add: dec_at_def del: fetch_loop.simps length_take split del: if_split)
qed

end
