(* ===== verification/Producer_Message.thy ===== *)
theory Producer_Message
  imports Record_Format
begin

text \<open>
  The message a user hands to the producer (\<open>ProducerMessage\<close> of \<open>async_producer.go\<close>) with its
  keys and values, which are anything that implements the interface \<open>Encoder\<close> of \<open>utils.go\<close>. The
  channel of a message (\<open>expectation\<close>) and its pass-through metadata are left out.
\<close>

text \<open>An implementation of \<open>Encoder\<close> is known by what its two methods return.\<close>

record Encoder =
  Encode :: "nbytes res"
  Length :: int

definition StringEncoder :: "string \<Rightarrow> Encoder" where
  "StringEncoder s = \<lparr>Encode = Ok (Some (bytes_of s)), Length = int (length s)\<rparr>"

definition ByteEncoder :: "nbytes \<Rightarrow> Encoder" where
  "ByteEncoder b = \<lparr>Encode = Ok b, Length = int (nlen b)\<rparr>"

text \<open>What the interface asks of an implementation.\<close>

definition encoder_ok :: "Encoder \<Rightarrow> bool" where
  "encoder_ok e = (case Encode e of Ok b \<Rightarrow> Length e = int (nlen b) | Err _ \<Rightarrow> True | _ \<Rightarrow> False)"

lemma encoder_ok_provided [simp]: "encoder_ok (StringEncoder s)" "encoder_ok (ByteEncoder b)"
  by (simp_all add: encoder_ok_def StringEncoder_def ByteEncoder_def nlen_def)

record ProducerMessage =
  pm_Topic :: string
  pm_Key :: "Encoder option"
  pm_Value :: "Encoder option"
  pm_Headers :: "RecordHeader list"
  pm_Offset :: int64
  pm_Partition :: int32
  pm_Timestamp :: time
  pm_retries :: int
  pm_flags :: int8
  pm_sequenceNumber :: int32
  pm_producerEpoch :: int16
  pm_hasSequence :: bool

definition producerMessageOverhead :: int where
  "producerMessageOverhead = 26"

definition encoder_length :: "Encoder option \<Rightarrow> int" where
  "encoder_length e = (case e of None \<Rightarrow> 0 | Some e \<Rightarrow> Length e)"

definition ByteSize :: "int \<Rightarrow> ProducerMessage \<Rightarrow> int" where
  "ByteSize version m =
     (if version \<ge> 2
      then int maximumRecordOverhead + (\<Sum>h \<leftarrow> pm_Headers m. int (nlen (hdr_Key h)) + int (nlen (hdr_Value h)) + 2 * 5)
      else producerMessageOverhead)
     + encoder_length (pm_Key m) + encoder_length (pm_Value m)"

definition pm_clear :: "ProducerMessage \<Rightarrow> ProducerMessage" where
  "pm_clear m = m\<lparr>pm_flags := 0, pm_retries := 0, pm_sequenceNumber := 0, pm_producerEpoch := 0,
     pm_hasSequence := False\<rparr>"

lemma sum_header_bytes:
  "(\<Sum>h \<leftarrow> hs. int (nlen (hdr_Key h)) + int (nlen (hdr_Value h)) + 10) = int (sum_list (map header_bytes hs))"
  by (induction hs) (simp_all add: header_bytes_def)

end
