(* ===== verification/Fetch_Messages.thy ===== *)
theory Fetch_Messages
  imports Wire_Steps Fetch_Records Producer_Message
begin

text \<open>
  \<open>fetch_request.go\<close> and \<open>fetch_response.go\<close>. A request is read back unless it has no topics, which
  the decoder takes for the end of the message (\<open>empty_fetch_request_rejected\<close>). A response is read back
  with its batches as they are on the wire, and one whose batches are cut yields the complete ones
  (\<open>cut_block_read\<close>). The metrics are not modelled.
\<close>

subsection \<open>FetchRequest\<close>

record fetchRequestBlock =
  fqb_Version :: int
  fqb_currentLeaderEpoch :: int32
  fqb_fetchOffset :: int64
  fqb_logStartOffset :: int64
  fqb_maxBytes :: int32

definition enc_fetchRequestBlock :: "int \<Rightarrow> fetchRequestBlock \<Rightarrow> pe_op list" where
  "enc_fetchRequestBlock version r =
     (if version \<ge> 9 then [putInt32 (fqb_currentLeaderEpoch r)] else []) @
     [putInt64 (fqb_fetchOffset r)] @
     (if version \<ge> 5 then [putInt64 (fqb_logStartOffset r)] else []) @
     [putInt32 (fqb_maxBytes r)]"

definition dec_fetchRequestBlock :: "int \<Rightarrow> fetchRequestBlock dec" where
  "dec_fetchRequestBlock version =
     dbind (if version \<ge> 9 then getInt32 else dreturn 0) (\<lambda>currentLeaderEpoch.
     dbind getInt64 (\<lambda>fetchOffset.
     dbind (if version \<ge> 5 then getInt64 else dreturn 0) (\<lambda>logStartOffset.
     dbind getInt32 (\<lambda>maxBytes.
       dreturn \<lparr>fqb_Version = version, fqb_currentLeaderEpoch = currentLeaderEpoch,
         fqb_fetchOffset = fetchOffset, fqb_logStartOffset = logStartOffset,
         fqb_maxBytes = maxBytes\<rparr>))))"

definition wf_fetchRequestBlock :: "int \<Rightarrow> fetchRequestBlock \<Rightarrow> bool" where
  "wf_fetchRequestBlock version r \<longleftrightarrow> fqb_Version r = version \<and>
     (version \<ge> 9 \<or> fqb_currentLeaderEpoch r = 0) \<and>
     (version \<ge> 5 \<or> fqb_logStartOffset r = 0)"

lemma enc_fetchRequestBlock_nonempty: "ser_ops (enc_fetchRequestBlock version r) \<noteq> []"
  by (simp add: enc_fetchRequestBlock_def ser_simps)

interpretation fqb: wire_elem "enc_fetchRequestBlock v" dec_fetchRequestBlock "\<lambda>_. v"
  "wf_fetchRequestBlock v" for v
  by (rule wire_elemI [OF _ enc_fetchRequestBlock_nonempty], unfold enc_fetchRequestBlock_def dec_fetchRequestBlock_def
      wf_fetchRequestBlock_def)
    (rule codes_rules | (auto simp: codes_simps; fail))+


record FetchRequest =
  frq_Version :: int
  frq_MaxWaitTime :: int32
  frq_MinBytes :: int32
  frq_MaxBytes :: int32
  frq_Isolation :: int8
  frq_SessionID :: int32
  frq_SessionEpoch :: int32
  frq_blocks :: "fetchRequestBlock topics"
  frq_forgotten :: "(string \<times> int32 list) list"
  frq_RackID :: string

definition enc_forgotten :: "(string \<times> int32 list) list \<Rightarrow> pe_op list" where
  "enc_forgotten = enc_array (\<lambda>(topic, prts). putString topic # enc_array (\<lambda>p. [putInt32 p]) prts)"

definition dec_forgotten :: "(string \<times> int32 list) list dec" where
  "dec_forgotten = dec_map (dec_pair getString (dbind getArrayLength (\<lambda>partitionCount.
     if partitionCount < 0 then derror (OtherError ''partitionCount is invalid'')
     else dec_times (nat partitionCount) getInt32)))"

definition enc_FetchRequest :: "FetchRequest \<Rightarrow> pe_op list" where
  "enc_FetchRequest r =
     [putInt32 (- 1), putInt32 (frq_MaxWaitTime r), putInt32 (frq_MinBytes r)] @
     (if frq_Version r \<ge> 3 then [putInt32 (frq_MaxBytes r)] else []) @
     (if frq_Version r \<ge> 4 then [putInt8 (frq_Isolation r)] else []) @
     (if frq_Version r \<ge> 7 then [putInt32 (frq_SessionID r), putInt32 (frq_SessionEpoch r)] else []) @
     enc_topics (enc_fetchRequestBlock (frq_Version r)) (frq_blocks r) @
     (if frq_Version r \<ge> 7 then enc_forgotten (frq_forgotten r) else []) @
     (if frq_Version r \<ge> 11 then [putString (frq_RackID r)] else [])"

text \<open>The decoder returns at once when there are no topics, before the fields that follow them.\<close>

definition dec_FetchRequest_head :: "int \<Rightarrow> FetchRequest dec" where
  "dec_FetchRequest_head version =
     dbind getInt32 (\<lambda>_.
     dbind getInt32 (\<lambda>maxWaitTime.
     dbind getInt32 (\<lambda>minBytes.
     dbind (if version \<ge> 3 then getInt32 else dreturn 0) (\<lambda>maxBytes.
     dbind (if version \<ge> 4 then getInt8 else dreturn 0) (\<lambda>isolation.
     dbind (if version \<ge> 7 then dec_pair getInt32 getInt32 else dreturn (0, 0)) (\<lambda>session.
       dreturn \<lparr>frq_Version = version, frq_MaxWaitTime = maxWaitTime, frq_MinBytes = minBytes,
         frq_MaxBytes = maxBytes, frq_Isolation = isolation, frq_SessionID = fst session,
         frq_SessionEpoch = snd session, frq_blocks = [], frq_forgotten = [], frq_RackID = []\<rparr>))))))"

definition dec_FetchRequest_tail :: "int \<Rightarrow> FetchRequest \<Rightarrow> FetchRequest dec" where
  "dec_FetchRequest_tail version r =
     dbind (if version \<ge> 7 then dec_forgotten else dreturn []) (\<lambda>forgotten.
     dbind (if version \<ge> 11 then getString else dreturn []) (\<lambda>rackID.
       dreturn (r\<lparr>frq_forgotten := forgotten, frq_RackID := rackID\<rparr>)))"

definition dec_FetchRequest :: "int \<Rightarrow> FetchRequest dec" where
  "dec_FetchRequest version =
     dbind (dec_FetchRequest_head version) (\<lambda>r.
     dbind getArrayLength (\<lambda>topicCount.
       if topicCount = 0 then dreturn r
       else
         dbind (dec_times (nat topicCount) (dec_pair getString (dec_partitions (dec_fetchRequestBlock version))))
           (\<lambda>topics. dec_FetchRequest_tail version (r\<lparr>frq_blocks := go_map topics\<rparr>))))"

definition frq_AddBlock ::
    "string \<Rightarrow> int32 \<Rightarrow> int64 \<Rightarrow> int32 \<Rightarrow> int32 \<Rightarrow> FetchRequest \<Rightarrow> FetchRequest" where
  "frq_AddBlock topic partitionID fetchOffset maxBytes leaderEpoch r =
     r\<lparr>frq_blocks := set_block topic partitionID
         \<lparr>fqb_Version = frq_Version r,
          fqb_currentLeaderEpoch = (if frq_Version r \<ge> 9 then leaderEpoch else 0),
          fqb_fetchOffset = fetchOffset, fqb_logStartOffset = 0, fqb_maxBytes = maxBytes\<rparr> (frq_blocks r)\<rparr>"

definition wf_FetchRequest :: "FetchRequest \<Rightarrow> bool" where
  "wf_FetchRequest r \<longleftrightarrow>
     (frq_Version r \<ge> 3 \<or> frq_MaxBytes r = 0) \<and> (frq_Version r \<ge> 4 \<or> frq_Isolation r = 0) \<and>
     (frq_Version r \<ge> 7 \<or> frq_SessionID r = 0 \<and> frq_SessionEpoch r = 0) \<and>
     frq_blocks r \<noteq> [] \<and> wf_topics (wf_fetchRequestBlock (frq_Version r)) (frq_blocks r) \<and>
     (if frq_Version r \<ge> 7
      then length (frq_forgotten r) \<le> 131070 \<and> distinct (map fst (frq_forgotten r)) \<and>
        list_all (\<lambda>(t, ps). length t \<le> 32767 \<and> length ps \<le> 131070) (frq_forgotten r)
      else frq_forgotten r = []) \<and>
     (if frq_Version r \<ge> 11 then length (frq_RackID r) \<le> 32767 else frq_RackID r = [])"

text \<open>A count that is read, tested and then used.\<close>

lemma codes_counted:
  assumes "\<not> stop (int (length xs))" "length xs \<le> 131070" "\<And>x. x \<in> set xs \<Longrightarrow> codes d (enc x) x"
    and "\<And>x. x \<in> set xs \<Longrightarrow> ser_ops (enc x) \<noteq> []" "codes (f xs) rest y"
  shows "codes (dbind getArrayLength (\<lambda>n. if stop n then h else dbind (dec_times (nat n) d) f))
    (enc_array enc xs @ rest) y"
proof -
  have ok: "ops_ok (enc_array enc xs)" using assms(2,3) by (auto simp: codes_def enc_array_def wire_ok)
  have t: "reads (dec_times (length xs) d) (concat (map (\<lambda>x. ser_ops (enc x)) xs)) xs"
    using assms(3) by (intro reads_times) (simp add: codes_def)
  have l: "length xs \<le> length (concat (map (\<lambda>x. ser_ops (enc x)) xs))"
    using assms(4) by (intro length_le_concat_map) simp
  show ?thesis
    using assms(1,2,5) ok l reads_at [OF t]
    by (auto simp: codes_def enc_array_def ser_simps dec_steps o_def reads_at intro!: readsI)
qed

lemma dbind_dreturn: "dbind d dreturn = d"
  by (rule ext) (auto simp: dbind_def dreturn_def split: prod.splits res.splits)

lemma codes_forgotten:
  assumes "length m \<le> 131070" "distinct (map fst m)" "list_all (\<lambda>(t, ps). length t \<le> 32767 \<and> length ps \<le> 131070) m"
  shows "codes dec_forgotten (enc_forgotten m) m"
proof -
  have p: "codes (dbind getArrayLength (\<lambda>n. if n < 0 then derror e else dec_times (nat n) getInt32))
      (enc_array (\<lambda>p. [putInt32 p]) ps) ps" if "length ps \<le> 131070" for ps e
    using codes_counted [where stop = "\<lambda>n. n < 0" and f = dreturn and rest = "[]" and d = getInt32
        and enc = "\<lambda>p. [putInt32 p]" and xs = ps and y = ps and h = "derror e"] that
    by (simp add: dbind_dreturn codes_calls codes_return ser_simps cong: if_cong)
  show ?thesis
    unfolding dec_forgotten_def enc_forgotten_def
    using assms
    by (intro codes_map) (auto simp: list_all_iff ser_simps intro!: codes_dec_pair codes_return
      codes_step [OF codes_calls(10)] codes_last [OF p])
qed

lemma codes_partitions:
  assumes "wf_partitions P ps" "\<And>x. P x \<Longrightarrow> codes d (enc x) x"
  shows "codes (dec_partitions d) (enc_partitions enc ps) ps"
  unfolding dec_partitions_def enc_partitions_def
  using assms
  by (intro codes_map) (auto simp: wf_partitions_def list_all_iff ser_simps intro!: codes_dec_pair codes_return
    codes_step [OF codes_calls(3)] codes_last [of d])

lemma codes_fetch_topic_blocks:
  assumes "wf_topics (wf_fetchRequestBlock v) m" "t \<in> set m"
  shows "codes (dec_pair getString (dec_partitions (dec_fetchRequestBlock v)))
    ((\<lambda>(topic, prts). putString topic # enc_partitions (enc_fetchRequestBlock v) prts) t) t"
proof -
  obtain topic ps where t: "t = (topic, ps)" by (cases t)
  with assms have "length topic \<le> 32767" "wf_partitions (wf_fetchRequestBlock v) ps"
    by (auto simp: wf_topics_def list_all_iff)
  then show ?thesis
    unfolding t
    by (auto intro!: codes_dec_pair codes_return codes_step [OF codes_calls(10)]
      codes_last [OF codes_partitions [of "wf_fetchRequestBlock v"]] fqb.codes)
qed

interpretation frq: wire_codec enc_FetchRequest dec_FetchRequest frq_Version wf_FetchRequest
proof (rule wire_codecI)
  fix r assume wf: "wf_FetchRequest r"
  let ?r = "r\<lparr>frq_blocks := [], frq_forgotten := [], frq_RackID := []\<rparr>"
  let ?head = "[putInt32 (- 1), putInt32 (frq_MaxWaitTime r), putInt32 (frq_MinBytes r)] @
     (if frq_Version r \<ge> 3 then [putInt32 (frq_MaxBytes r)] else []) @
     (if frq_Version r \<ge> 4 then [putInt8 (frq_Isolation r)] else []) @
     (if frq_Version r \<ge> 7 then [putInt32 (frq_SessionID r), putInt32 (frq_SessionEpoch r)] else [])"
  let ?tail = "(if frq_Version r \<ge> 7 then enc_forgotten (frq_forgotten r) else []) @
     (if frq_Version r \<ge> 11 then [putString (frq_RackID r)] else [])"
  have head: "codes (dec_FetchRequest_head (frq_Version r)) ?head ?r"
    unfolding dec_FetchRequest_head_def
    using wf [unfolded wf_FetchRequest_def]
    by - (rule codes_rules codes_cond [where x = "(frq_SessionID r, frq_SessionEpoch r)"] codes_dec_pair |
      (auto simp: codes_simps; fail))+
  have tail: "codes (dec_FetchRequest_tail (frq_Version r) (?r\<lparr>frq_blocks := go_map (frq_blocks r)\<rparr>)) ?tail r"
    unfolding dec_FetchRequest_tail_def
    using wf [unfolded wf_FetchRequest_def]
    by - (rule codes_rules codes_forgotten | (auto simp: codes_simps wf_topics_def; fail))+
  have m: "wf_topics (wf_fetchRequestBlock (frq_Version r)) (frq_blocks r)" "frq_blocks r \<noteq> []"
    using wf by (simp_all add: wf_FetchRequest_def)
  have body: "codes (dbind getArrayLength (\<lambda>n. if n = 0 then dreturn ?r
      else dbind (dec_times (nat n) (dec_pair getString (dec_partitions (dec_fetchRequestBlock (frq_Version r)))))
        (\<lambda>topics. dec_FetchRequest_tail (frq_Version r) (?r\<lparr>frq_blocks := go_map topics\<rparr>))))
      (enc_topics (enc_fetchRequestBlock (frq_Version r)) (frq_blocks r) @ ?tail) r"
    unfolding enc_topics_def
    using m tail by (intro codes_counted codes_fetch_topic_blocks) (auto simp: wf_topics_def ser_simps)
  have e: "enc_FetchRequest r =
      ?head @ enc_topics (enc_fetchRequestBlock (frq_Version r)) (frq_blocks r) @ ?tail"
    by (simp add: enc_FetchRequest_def)
  show "codes (dec_FetchRequest (frq_Version r)) (enc_FetchRequest r) r"
    unfolding e dec_FetchRequest_def by (rule codes_bind [OF head]) (rule body)
qed

text \<open>
  A request without topics, as an incremental fetch session sends it when nothing changed, cannot be
  decoded from version 7 on: the bytes behind the topics are left over.
\<close>

lemma empty_fetch_request_rejected:
  assumes "frq_blocks r = []" "7 \<le> frq_Version r" "frq_Version r < 11" "frq_forgotten r = []"
  shows "versionedDecode (Some (ser_ops (enc_FetchRequest r))) x dec_FetchRequest (frq_Version r) =
    Err (PacketDecodingError ''invalid length'')"
  using assms
  by (simp add: versionedDecode_def decode_buf_def new_decoder_eq enc_FetchRequest_def dec_FetchRequest_def
      dec_FetchRequest_head_def dec_pair_def enc_topics_def enc_forgotten_def enc_array_def ser_simps dec_steps)

subsection \<open>FetchResponse\<close>

definition enc_AbortedTransaction :: "AbortedTransaction \<Rightarrow> pe_op list" where
  "enc_AbortedTransaction t = [putInt64 (abt_ProducerID t), putInt64 (abt_FirstOffset t)]"

definition dec_AbortedTransaction :: "AbortedTransaction dec" where
  "dec_AbortedTransaction =
     dbind getInt64 (\<lambda>producerID. dbind getInt64 (\<lambda>firstOffset.
       dreturn \<lparr>abt_ProducerID = producerID, abt_FirstOffset = firstOffset\<rparr>))"

interpretation abt: wire_elem enc_AbortedTransaction "\<lambda>_. dec_AbortedTransaction" "\<lambda>_. 0" "\<lambda>_. True"
  by (rule wire_elemI, unfold enc_AbortedTransaction_def dec_AbortedTransaction_def)
    (rule codes_rules | (auto simp: codes_simps ser_simps; fail))+

text \<open>The calls of \<open>FetchResponseBlock.encode\<close>; it also leaves compressed data in the record batches.\<close>

definition enc_FetchResponseBlock :: "codecs \<Rightarrow> int \<Rightarrow> FetchResponseBlock \<Rightarrow> pe_op list" where
  "enc_FetchResponseBlock cs version b =
     [putInt16 (frb_Err b), putInt64 (frb_HighWaterMarkOffset b)] @
     (if version \<ge> 4 then [putInt64 (frb_LastStableOffset b)] else []) @
     (if version \<ge> 5 then [putInt64 (frb_LogStartOffset b)] else []) @
     (if version \<ge> 4 then enc_array enc_AbortedTransaction (frb_AbortedTransactions b) else []) @
     (if version \<ge> 11 then [putInt32 (frb_PreferredReadReplica b)] else []) @
     [pushPop (lengthField 0 0) (concat (map (\<lambda>r. fst (enc_Records cs r)) (frb_RecordsSet b)))]"

definition dec_FetchResponseBlock :: "nat \<Rightarrow> codecs \<Rightarrow> int \<Rightarrow> FetchResponseBlock dec" where
  "dec_FetchResponseBlock depth cs version =
     dbind getInt16 (\<lambda>err.
     dbind getInt64 (\<lambda>highWaterMarkOffset.
     dbind (if version \<ge> 4 then getInt64 else dreturn 0) (\<lambda>lastStableOffset.
     dbind (if version \<ge> 5 then getInt64 else dreturn 0) (\<lambda>logStartOffset.
     dbind (if version \<ge> 4 then dec_loop dec_AbortedTransaction else dreturn []) (\<lambda>abortedTransactions.
     dbind (if version \<ge> 11 then getInt32 else dreturn (- 1)) (\<lambda>preferredReadReplica.
     dbind getInt32 (\<lambda>recordsSize.
     dbind (getSubset (sint recordsSize)) (\<lambda>recordsDecoder.
       dlift (fetch_records depth cs
         \<lparr>frb_Err = err, frb_HighWaterMarkOffset = highWaterMarkOffset, frb_LastStableOffset = lastStableOffset,
          frb_LastRecordsBatchOffset = None, frb_LogStartOffset = logStartOffset,
          frb_AbortedTransactions = abortedTransactions, frb_PreferredReadReplica = preferredReadReplica,
          frb_RecordsSet = [], frb_Partial = False, frb_Records = None\<rparr> recordsDecoder)))))))))"

record FetchResponse =
  frs_Version :: int
  frs_ThrottleTime :: int64
  frs_ErrorCode :: int16
  frs_SessionID :: int32
  frs_Blocks :: "FetchResponseBlock topics"
  frs_LogAppendTime :: bool
  frs_Timestamp :: time

definition enc_FetchResponse :: "codecs \<Rightarrow> FetchResponse \<Rightarrow> pe_op list" where
  "enc_FetchResponse cs r =
     (if frs_Version r \<ge> 1 then enc_millis32 (frs_ThrottleTime r) else []) @
     (if frs_Version r \<ge> 7 then [putInt16 (frs_ErrorCode r)] else []) @
     (if frs_Version r \<ge> 7 then [putInt32 (frs_SessionID r)] else []) @
     enc_topics (enc_FetchResponseBlock cs (frs_Version r)) (frs_Blocks r)"

definition dec_FetchResponse :: "nat \<Rightarrow> codecs \<Rightarrow> int \<Rightarrow> FetchResponse dec" where
  "dec_FetchResponse depth cs version =
     dbind (if version \<ge> 1 then dec_millis32 else dreturn 0) (\<lambda>throttleTime.
     dbind (if version \<ge> 7 then getInt16 else dreturn 0) (\<lambda>errorCode.
     dbind (if version \<ge> 7 then getInt32 else dreturn 0) (\<lambda>sessionID.
     dbind (dec_topics (dec_FetchResponseBlock depth cs version)) (\<lambda>blocks.
       dreturn \<lparr>frs_Version = version, frs_ThrottleTime = throttleTime, frs_ErrorCode = errorCode,
         frs_SessionID = sessionID, frs_Blocks = blocks, frs_LogAppendTime = False, frs_Timestamp = zeroTime\<rparr>))))"

definition frs_GetBlock :: "FetchResponse \<Rightarrow> string \<Rightarrow> int32 \<Rightarrow> FetchResponseBlock option" where
  "frs_GetBlock r = get_block (frs_Blocks r)"

definition new_FetchResponseBlock :: FetchResponseBlock where
  "new_FetchResponseBlock =
     \<lparr>frb_Err = 0, frb_HighWaterMarkOffset = 0, frb_LastStableOffset = 0, frb_LastRecordsBatchOffset = None,
      frb_LogStartOffset = 0, frb_AbortedTransactions = [], frb_PreferredReadReplica = 0, frb_RecordsSet = [],
      frb_Partial = False, frb_Records = None\<rparr>"

text \<open>\<open>getOrCreateBlock\<close>, followed by a change of the block.\<close>

definition update_block :: "string \<Rightarrow> int32 \<Rightarrow> (FetchResponseBlock \<Rightarrow> FetchResponseBlock) \<Rightarrow> FetchResponse \<Rightarrow> FetchResponse" where
  "update_block topic prt f r =
     r\<lparr>frs_Blocks := set_block topic prt
        (f (case get_block (frs_Blocks r) topic prt of None \<Rightarrow> new_FetchResponseBlock | Some b \<Rightarrow> b)) (frs_Blocks r)\<rparr>"

definition frs_AddError :: "string \<Rightarrow> int32 \<Rightarrow> KError \<Rightarrow> FetchResponse \<Rightarrow> FetchResponse" where
  "frs_AddError topic prt err = update_block topic prt (\<lambda>b. b\<lparr>frb_Err := err\<rparr>)"

definition SetLastStableOffset :: "string \<Rightarrow> int32 \<Rightarrow> int64 \<Rightarrow> FetchResponse \<Rightarrow> FetchResponse" where
  "SetLastStableOffset topic prt offset = update_block topic prt (\<lambda>b. b\<lparr>frb_LastStableOffset := offset\<rparr>)"

subsubsection \<open>The bytes of a block, whole or cut\<close>

text \<open>
  A broker's answer for one partition: the head of the block, the number of bytes and the first \<open>j\<close>
  bytes of its batches.
\<close>

definition block_head :: "int \<Rightarrow> FetchResponseBlock \<Rightarrow> pe_op list" where
  "block_head version b =
     [putInt16 (frb_Err b), putInt64 (frb_HighWaterMarkOffset b)] @
     (if version \<ge> 4 then [putInt64 (frb_LastStableOffset b)] else []) @
     (if version \<ge> 5 then [putInt64 (frb_LogStartOffset b)] else []) @
     (if version \<ge> 4 then enc_array enc_AbortedTransaction (frb_AbortedTransactions b) else []) @
     (if version \<ge> 11 then [putInt32 (frb_PreferredReadReplica b)] else [])"

definition wf_block_head :: "int \<Rightarrow> FetchResponseBlock \<Rightarrow> bool" where
  "wf_block_head version b \<longleftrightarrow>
     (version \<ge> 4 \<or> frb_LastStableOffset b = 0) \<and> (version \<ge> 5 \<or> frb_LogStartOffset b = 0) \<and>
     (if version \<ge> 4 then length (frb_AbortedTransactions b) \<le> 131070 else frb_AbortedTransactions b = []) \<and>
     (version \<ge> 11 \<or> frb_PreferredReadReplica b = - 1)"

definition no_records :: "FetchResponseBlock \<Rightarrow> FetchResponseBlock" where
  "no_records b = b\<lparr>frb_LastRecordsBatchOffset := None, frb_RecordsSet := [], frb_Partial := False, frb_Records := None\<rparr>"

definition cut_block :: "codecs \<Rightarrow> int \<Rightarrow> nat \<Rightarrow> FetchResponseBlock \<Rightarrow> RecordBatch list \<Rightarrow> pe_op list" where
  "cut_block cs version j b bs =
     (let recs = take j (concat (map (batch_bytes cs) bs))
      in block_head version b @ [putInt32 (word_of_nat (length recs)), putRawBytes recs])"

lemma codes_records_subset:
  assumes "length recs \<le> 2147483647" "fetch_records depth cs b (new_decoder recs) = Ok b'"
  shows "codes (dbind getInt32 (\<lambda>n. dbind (getSubset (sint n)) (\<lambda>rd. dlift (fetch_records depth cs b rd))))
    [putInt32 (word_of_nat (length recs)), putRawBytes recs] b'"
  using assms
  by (auto simp: codes_def ser_simps dec_steps getSubset_def sint_len32 dlift_def new_decoder_def [symmetric]
      intro!: readsI)

lemma codes_FetchResponseBlock:
  assumes "wf_block_head v b" "length recs \<le> 2147483647"
    "fetch_records depth cs (no_records b) (new_decoder recs) = Ok b'"
  shows "codes (dec_FetchResponseBlock depth cs v)
    (block_head v b @ [putInt32 (word_of_nat (length recs)), putRawBytes recs]) b'"
proof -
  have n: "no_records b = \<lparr>frb_Err = frb_Err b, frb_HighWaterMarkOffset = frb_HighWaterMarkOffset b,
      frb_LastStableOffset = frb_LastStableOffset b, frb_LastRecordsBatchOffset = None,
      frb_LogStartOffset = frb_LogStartOffset b, frb_AbortedTransactions = frb_AbortedTransactions b,
      frb_PreferredReadReplica = frb_PreferredReadReplica b, frb_RecordsSet = [], frb_Partial = False,
      frb_Records = None\<rparr>"
    by (cases b) (simp add: no_records_def)
  note recs = codes_records_subset [OF assms(2,3) [unfolded n]]
  show ?thesis
    unfolding dec_FetchResponseBlock_def block_head_def
    using assms(1) [unfolded wf_block_head_def] recs
    by - (rule codes_rules recs | (auto simp: codes_simps intro!: abt.codes abt.nonempty; fail))+
qed

text \<open>
  A block whose batches are cut after \<open>j\<close> bytes. When a batch is complete, the block holds the
  complete ones and nothing of the rest; otherwise it holds no records and says that it is partial.
\<close>

lemma cut_block_read:
  assumes wf: "wf_block_head v b" "\<And>w. w \<in> set bs \<Longrightarrow> wf_RecordBatch cs w \<and> rb_Records w \<noteq> []"
    and cs: "lossless cs" and j: "j \<le> 2147483647"
  shows "\<exists>b'. codes (dec_FetchResponseBlock depth cs v) (cut_block cs v j b bs) b' \<and>
    (if whole_batches cs j bs \<noteq> []
     then frb_RecordsSet b' = map batch_records_of (whole_batches cs j bs) \<and> \<not> frb_Partial b'
     else frb_numRecords b' = Ok 0 \<and> frb_isPartial b' = Ok (0 < left_over cs j bs))"
proof -
  let ?recs = "take j (concat (map (batch_bytes cs) bs))"
  let ?ws = "whole_batches cs j bs"
  let ?c = "foldl add_batch (no_records b) ?ws"
  obtain b' where f: "fetch_records depth cs (no_records b) (new_decoder ?recs) = Ok b'"
    and e: "if left_over cs j bs = 0 then b' = ?c else ended ?c b'"
    using fetch_records_cut [of bs cs depth "no_records b" j] wf(2) cs by blast
  have l: "length ?recs \<le> 2147483647" using j by simp
  have n: "\<And>w. w \<in> set ?ws \<Longrightarrow> rb_Records w \<noteq> []" using whole_batches_subset [of cs j bs] wf(2) by blast
  have c: "frb_RecordsSet ?c = map batch_records_of ?ws" "\<not> frb_Partial ?c"
    by (simp_all add: foldl_add_batch [OF n] no_records_def)
  have "codes (dec_FetchResponseBlock depth cs v) (cut_block cs v j b bs) b'"
    using codes_FetchResponseBlock [OF wf(1) l f] by (simp add: cut_block_def Let_def)
  moreover have "if ?ws \<noteq> [] then frb_RecordsSet b' = map batch_records_of ?ws \<and> \<not> frb_Partial b'
     else frb_numRecords b' = Ok 0 \<and> frb_isPartial b' = Ok (0 < left_over cs j bs)"
    using e c ended_some [of ?c b'] ended_none [of ?c b']
    by (auto simp: frb_numRecords_def frb_isPartial_def split: if_splits)
  ultimately show ?thesis by blast
qed

text \<open>A complete block comes back with its records as they are on the wire.\<close>

definition batches_of :: "FetchResponseBlock \<Rightarrow> RecordBatch list" where
  "batches_of b = map (\<lambda>r. the (rs_RecordBatch r)) (frb_RecordsSet b)"

definition wf_FetchResponseBlock :: "codecs \<Rightarrow> int \<Rightarrow> FetchResponseBlock \<Rightarrow> bool" where
  "wf_FetchResponseBlock cs v b \<longleftrightarrow> wf_block_head v b \<and>
     frb_RecordsSet b = map newDefaultRecords (batches_of b) \<and>
     list_all (\<lambda>w. wf_RecordBatch cs w \<and> rb_Records w \<noteq> []) (batches_of b) \<and>
     length (concat (map (batch_bytes cs) (batches_of b))) \<le> 2147483647"

definition frb_on_wire :: "FetchResponseBlock \<Rightarrow> FetchResponseBlock" where
  "frb_on_wire b = foldl add_batch (no_records b) (batches_of b)"

lemma enc_default: "fst (enc_Records cs (newDefaultRecords w)) = fst (enc_RecordBatch cs w)"
  by (simp add: enc_Records_def enc_Records_typed_def newDefaultRecords_def recordsType_defs split: prod.splits)

lemma FetchResponseBlock_whole:
  assumes wf: "wf_FetchResponseBlock cs v b" and cs: "lossless cs"
  shows "codes (dec_FetchResponseBlock depth cs v) (enc_FetchResponseBlock cs v b) (frb_on_wire b)"
proof -
  let ?bs = "batches_of b" and ?all = "concat (map (batch_bytes cs) (batches_of b))"
  have h: "wf_block_head v b" and r: "frb_RecordsSet b = map newDefaultRecords ?bs"
    and w: "\<And>w. w \<in> set ?bs \<Longrightarrow> wf_RecordBatch cs w" and l: "length ?all \<le> 2147483647"
    using wf by (auto simp: wf_FetchResponseBlock_def list_all_iff)
  have whole: "whole_batches cs (length ?all) ?bs = ?bs" by (rule whole_batches_all) simp
  then have "left_over cs (length ?all) ?bs = 0" by (simp add: left_over_def)
  with fetch_records_cut [of ?bs cs depth "no_records b" "length ?all"] w cs whole
  have f: "fetch_records depth cs (no_records b) (new_decoder ?all) = Ok (frb_on_wire b)"
    by (simp add: frb_on_wire_def)
  have e: "enc_FetchResponseBlock cs v b =
      block_head v b @ [pushPop (lengthField 0 0) (concat (map (\<lambda>w. fst (enc_RecordBatch cs w)) ?bs))]"
    by (simp add: enc_FetchResponseBlock_def block_head_def r o_def enc_default)
  have ok: "ops_ok (concat (map (\<lambda>w. fst (enc_RecordBatch cs w)) ?bs))"
    using w by (auto simp: wire_ok wf_RecordBatch_def intro!: enc_RecordBatch_ok)
  have bytes: "ser_ops (concat (map (\<lambda>w. fst (enc_RecordBatch cs w)) ?bs)) = ?all"
    by (simp add: ser_simps o_def batch_bytes_def [abs_def])
  show ?thesis
    using codes_FetchResponseBlock [OF h l f] ok bytes
    by (simp add: codes_def e ser_simps wire_ok)
qed

definition wf_FetchResponse :: "codecs \<Rightarrow> FetchResponse \<Rightarrow> bool" where
  "wf_FetchResponse cs r \<longleftrightarrow>
     (if frs_Version r \<ge> 1 then wf_millis32 (frs_ThrottleTime r) else frs_ThrottleTime r = 0) \<and>
     (frs_Version r \<ge> 7 \<or> frs_ErrorCode r = 0 \<and> frs_SessionID r = 0) \<and>
     wf_topics (wf_FetchResponseBlock cs (frs_Version r)) (frs_Blocks r)"

definition frs_on_wire :: "FetchResponse \<Rightarrow> FetchResponse" where
  "frs_on_wire r =
     r\<lparr>frs_Blocks := view_topics frb_on_wire (frs_Blocks r), frs_LogAppendTime := False, frs_Timestamp := zeroTime\<rparr>"

lemma codes_FetchResponse:
  assumes wf: "wf_FetchResponse cs r" and cs: "lossless cs"
  shows "codes (dec_FetchResponse depth cs (frs_Version r)) (enc_FetchResponse cs r) (frs_on_wire r)"
proof -
  let ?v = "frs_Version r"
  have t: "wf_topics (wf_FetchResponseBlock cs ?v) (frs_Blocks r)" using wf by (simp add: wf_FetchResponse_def)
  note b = FetchResponseBlock_whole [OF _ cs, unfolded codes_def]
  have "codes (dec_topics (dec_FetchResponseBlock depth cs ?v)) (enc_topics (enc_FetchResponseBlock cs ?v) (frs_Blocks r))
      (view_topics frb_on_wire (frs_Blocks r))"
    unfolding codes_def using b by (intro conjI reads_topics_view [OF t] enc_topics_ok [OF t]) blast+
  note blocks = codes_last [OF this]
  show ?thesis
    unfolding dec_FetchResponse_def enc_FetchResponse_def
    using wf [unfolded wf_FetchResponse_def]
    by - (rule codes_rules blocks | (auto simp: codes_simps frs_on_wire_def; fail))+
qed

subsubsection \<open>Building responses\<close>

text \<open>An encoder that fails leaves the key or the value nil.\<close>

definition encodeKV :: "Encoder option \<Rightarrow> Encoder option \<Rightarrow> nbytes \<times> nbytes" where
  "encodeKV key val =
     (let enc = (\<lambda>e. case e of None \<Rightarrow> None | Some e \<Rightarrow> (case Encode e of Ok b \<Rightarrow> b | _ \<Rightarrow> None))
      in (enc key, enc val))"

definition new_batch :: "FetchResponse \<Rightarrow> int64 \<Rightarrow> int64 \<Rightarrow> bool \<Rightarrow> bool \<Rightarrow> time \<Rightarrow> RecordBatch" where
  "new_batch r offset producerID isTransactional control timestamp =
     \<lparr>rb_FirstOffset = offset, rb_PartitionLeaderEpoch = 0, rb_Version = 2, rb_Codec = CompressionNone,
      rb_CompressionLevel = 0, rb_Control = control, rb_LogAppendTime = frs_LogAppendTime r,
      rb_LastOffsetDelta = 0, rb_FirstTimestamp = timestamp, rb_MaxTimestamp = frs_Timestamp r,
      rb_ProducerID = producerID, rb_ProducerEpoch = 0, rb_FirstSequence = 0, rb_Records = [],
      rb_PartialTrailingRecord = False, rb_IsTransactional = isTransactional, rb_compressedRecords = None,
      rb_recordsLen = 0\<rparr>"

definition new_record :: "nbytes \<Rightarrow> nbytes \<Rightarrow> Record" where
  "new_record key val =
     \<lparr>rec_Headers = [], rec_Attributes = 0, rec_TimestampDelta = 0, rec_OffsetDelta = 0, rec_Key = key,
      rec_Value = val\<rparr>"

definition append_records :: "Records \<Rightarrow> FetchResponseBlock \<Rightarrow> FetchResponseBlock" where
  "append_records recs b = b\<lparr>frb_RecordsSet := frb_RecordsSet b @ [recs]\<rparr>"

definition AddRecordBatchWithTimestamp ::
    "string \<Rightarrow> int32 \<Rightarrow> Encoder option \<Rightarrow> Encoder option \<Rightarrow> int64 \<Rightarrow> int64 \<Rightarrow> bool \<Rightarrow> time \<Rightarrow> FetchResponse \<Rightarrow> FetchResponse"
where
  "AddRecordBatchWithTimestamp topic prt key val offset producerID isTransactional timestamp r =
     (case encodeKV key val of (kb, vb) \<Rightarrow>
        update_block topic prt (append_records (newDefaultRecords
          (addRecord (new_record kb vb) (new_batch r offset producerID isTransactional False timestamp)))) r)"

text \<open>The key and the value of a control record are written into buffers of 4 and 6 bytes.\<close>

definition control_bytes :: "nat \<Rightarrow> pe_op list \<Rightarrow> byte list" where
  "control_bytes n ops = ser_ops ops @ replicate (n - length (ser_ops ops)) 0"

definition control_record :: "ControlRecordType \<Rightarrow> Record" where
  "control_record recordType =
     (case enc_ControlRecord \<lparr>cr_Version = 0, cr_CoordinatorEpoch = 0, cr_Type = recordType\<rparr> of (kops, vops) \<Rightarrow>
        new_record (Some (control_bytes 4 kops)) (Some (control_bytes 6 vops)))"

definition AddControlRecordWithTimestamp ::
    "string \<Rightarrow> int32 \<Rightarrow> int64 \<Rightarrow> int64 \<Rightarrow> ControlRecordType \<Rightarrow> time \<Rightarrow> FetchResponse \<Rightarrow> FetchResponse" where
  "AddControlRecordWithTimestamp topic prt offset producerID recordType timestamp r =
     update_block topic prt (append_records (newDefaultRecords
       (addRecord (control_record recordType) (new_batch r offset producerID True True timestamp)))) r"

lemma get_update_block:
  "frs_GetBlock (update_block topic prt f r) topic' prt' =
     (if topic' = topic \<and> prt' = prt
      then Some (f (case frs_GetBlock r topic prt of None \<Rightarrow> new_FetchResponseBlock | Some b \<Rightarrow> b))
      else frs_GetBlock r topic' prt')"
  by (simp add: frs_GetBlock_def update_block_def get_set_block)

text \<open>The control record that was added is the one a consumer finds in the last batch of the block.\<close>

lemma control_record_found:
  assumes "recordType \<noteq> ControlRecordUnknown"
    "frs_GetBlock (AddControlRecordWithTimestamp topic prt offset producerID recordType timestamp r) topic prt = Some b"
  shows "frb_RecordsSet b \<noteq> []"
    and "fst (isControl (last (frb_RecordsSet b))) = Ok True"
    and "getControlRecord (last (frb_RecordsSet b)) =
      Ok \<lparr>cr_Version = 0, cr_CoordinatorEpoch = 0, cr_Type = recordType\<rparr>"
proof -
  have b: "\<exists>b0. b = append_records (newDefaultRecords
      (addRecord (control_record recordType) (new_batch r offset producerID True True timestamp))) b0"
    using assms(2) by (auto simp: AddControlRecordWithTimestamp_def get_update_block)
  then show "frb_RecordsSet b \<noteq> []" by (auto simp: append_records_def)
  show "fst (isControl (last (frb_RecordsSet b))) = Ok True"
    using b by (auto simp: append_records_def isControl_def with_type_def newDefaultRecords_def recordsType_defs
        addRecord_def new_batch_def)
  let ?cr = "\<lparr>cr_Version = 0, cr_CoordinatorEpoch = 0, cr_Type = recordType\<rparr>"
  obtain kops vops where e: "enc_ControlRecord ?cr = (kops, vops)" by fastforce
  have "control_bytes 4 kops = ser_ops kops" "control_bytes 6 vops = ser_ops vops"
    using e assms(1) by (auto simp: enc_ControlRecord_def control_bytes_def ser_simps split: ControlRecordType.splits)
  with control_record_reads [OF _ e] assms(1) e b
  show "getControlRecord (last (frb_RecordsSet b)) = Ok ?cr"
    by (auto simp: append_records_def getControlRecord_def newDefaultRecords_def addRecord_def control_record_def
        new_record_def new_batch_def)
qed

end
