(* ===== verification/Produce_Messages.thy ===== *)
theory Produce_Messages
  imports Protocol_Common
begin

text \<open>
  The produce request and response (\<open>produce_request.go\<close>, \<open>produce_response.go\<close>), apart from the
  metrics that encoding a request records. Encoding a request encodes the records it holds, which
  caches compressed data in them, so it returns the request as well.
\<close>

subsection \<open>ProduceRequest\<close>

type_synonym RequiredAcks = int16

abbreviation (input) NoResponse :: RequiredAcks where "NoResponse \<equiv> 0"
abbreviation (input) WaitForLocal :: RequiredAcks where "WaitForLocal \<equiv> 1"
abbreviation (input) WaitForAll :: RequiredAcks where "WaitForAll \<equiv> - 1"

record ProduceRequest =
  preq_TransactionalID :: nstring
  preq_RequiredAcks :: RequiredAcks
  preq_Timeout :: int32
  preq_Version :: int
  preq_records :: "Records topics"

definition enc_partition_records :: "codecs \<Rightarrow> Records \<Rightarrow> pe_op list" where
  "enc_partition_records cs recs = [pushPop (lengthField 0 0) (fst (enc_Records cs recs))]"

definition enc_ProduceRequest :: "codecs \<Rightarrow> ProduceRequest \<Rightarrow> pe_op list \<times> ProduceRequest" where
  "enc_ProduceRequest cs r =
     ((if preq_Version r \<ge> 3 then [putNullableString (preq_TransactionalID r)] else []) @
      [putInt16 (preq_RequiredAcks r), putInt32 (preq_Timeout r)] @
      enc_topics (enc_partition_records cs) (preq_records r),
      r\<lparr>preq_records :=
        map (\<lambda>(t, ps). (t, map (\<lambda>(i, recs).
          (i, (snd (enc_Records cs recs))\<lparr>recordsType := recordsType recs\<rparr>)) ps)) (preq_records r)\<rparr>)"

definition dec_partition_records :: "nat \<Rightarrow> codecs \<Rightarrow> Records dec" where
  "dec_partition_records depth cs =
     dbind getInt32 (\<lambda>size.
     dbind (getSubset (sint size)) (\<lambda>recordsDecoder.
       dlift (fst (dec_Records depth cs zeroRecords recordsDecoder))))"

definition dec_ProduceRequest :: "nat \<Rightarrow> codecs \<Rightarrow> int \<Rightarrow> ProduceRequest dec" where
  "dec_ProduceRequest depth cs version =
     dbind (if version \<ge> 3 then getNullableString else dreturn None) (\<lambda>tid.
     dbind getInt16 (\<lambda>acks.
     dbind getInt32 (\<lambda>timeout.
     dbind (dec_topics (dec_partition_records depth cs)) (\<lambda>records.
       dreturn \<lparr>preq_TransactionalID = tid, preq_RequiredAcks = acks, preq_Timeout = timeout,
         preq_Version = version, preq_records = records\<rparr>))))"

definition ProduceRequest_isValidVersion :: "ProduceRequest \<Rightarrow> bool" where
  "ProduceRequest_isValidVersion r \<longleftrightarrow> preq_Version r \<ge> 0 \<and> preq_Version r \<le> 7"

definition produce_requiredVersion :: "int \<Rightarrow> KafkaVersion" where
  "produce_requiredVersion version =
     (if version = 7 then V2_1_0_0
      else if version = 6 then V2_0_0_0
      else if version = 4 \<or> version = 5 then V1_0_0_0
      else if version = 3 then V0_11_0_0
      else if version = 2 then V0_10_0_0
      else if version = 1 then V0_9_0_0
      else if version = 0 then V0_8_2_0
      else V2_1_0_0)"

definition ensureRecords :: "string \<Rightarrow> Records topics \<Rightarrow> Records topics" where
  "ensureRecords topic m = (case map_of m topic of None \<Rightarrow> AList.update topic [] m | Some _ \<Rightarrow> m)"

definition set_records :: "string \<Rightarrow> int32 \<Rightarrow> Records \<Rightarrow> Records topics \<Rightarrow> Records topics" where
  "set_records topic prt recs m =
     (let m = ensureRecords topic m
      in AList.update topic (AList.update prt recs (the (map_of m topic))) m)"

definition AddMessage :: "string \<Rightarrow> int32 \<Rightarrow> Message \<Rightarrow> ProduceRequest \<Rightarrow> ProduceRequest" where
  "AddMessage topic prt msg r =
     (let m = ensureRecords topic (preq_records r);
          s = (case map_of (the (map_of m topic)) prt of
                 None \<Rightarrow> MessageSet False False []
               | Some recs \<Rightarrow> (case rs_MsgSet recs of None \<Rightarrow> MessageSet False False [] | Some s \<Rightarrow> s));
          recs = (case map_of (the (map_of m topic)) prt of
                 None \<Rightarrow> newLegacyRecords (addMessage msg s)
               | Some recs \<Rightarrow>
                   (case rs_MsgSet recs of
                      None \<Rightarrow> newLegacyRecords (addMessage msg s)
                    | Some _ \<Rightarrow> recs\<lparr>rs_MsgSet := Some (addMessage msg s)\<rparr>))
      in r\<lparr>preq_records := set_records topic prt recs m\<rparr>)"

definition AddSet :: "string \<Rightarrow> int32 \<Rightarrow> MessageSet \<Rightarrow> ProduceRequest \<Rightarrow> ProduceRequest" where
  "AddSet topic prt s r =
     r\<lparr>preq_records := set_records topic prt (newLegacyRecords s) (preq_records r)\<rparr>"

definition AddBatch :: "string \<Rightarrow> int32 \<Rightarrow> RecordBatch \<Rightarrow> ProduceRequest \<Rightarrow> ProduceRequest" where
  "AddBatch topic prt batch r =
     r\<lparr>preq_records := set_records topic prt (newDefaultRecords batch) (preq_records r)\<rparr>"

subsection \<open>ProduceResponse\<close>

record ProduceResponseBlock =
  prb_Err :: KError
  prb_Offset :: int64
  prb_Timestamp :: time
  prb_StartOffset :: int64

definition enc_ProduceResponseBlock :: "int \<Rightarrow> ProduceResponseBlock \<Rightarrow> pe_op list" where
  "enc_ProduceResponseBlock version b =
     [putInt16 (prb_Err b), putInt64 (prb_Offset b)] @
     (if version \<ge> 2 then enc_Timestamp (prb_Timestamp b) else []) @
     (if version \<ge> 5 then [putInt64 (prb_StartOffset b)] else [])"

definition dec_ProduceResponseBlock :: "int \<Rightarrow> ProduceResponseBlock dec" where
  "dec_ProduceResponseBlock version =
     dbind getInt16 (\<lambda>err.
     dbind getInt64 (\<lambda>offset.
     dbind (if version \<ge> 2 then
              dbind getInt64 (\<lambda>millis.
                if millis \<noteq> - 1
                then dreturn (sint millis sdiv 1000 * 1000000000 + sint millis smod 1000 * 1000000)
                else dreturn zeroTime)
            else dreturn zeroTime) (\<lambda>timestamp.
     dbind (if version \<ge> 5 then getInt64 else dreturn 0) (\<lambda>startOffset.
       dreturn \<lparr>prb_Err = err, prb_Offset = offset, prb_Timestamp = timestamp,
         prb_StartOffset = startOffset\<rparr>))))"

record ProduceResponse =
  prsp_Blocks :: "ProduceResponseBlock topics"
  prsp_Version :: int
  prsp_ThrottleTime :: int64

definition enc_ProduceResponse :: "ProduceResponse \<Rightarrow> pe_op list" where
  "enc_ProduceResponse r =
     enc_topics (enc_ProduceResponseBlock (prsp_Version r)) (prsp_Blocks r) @
     (if prsp_Version r \<ge> 1 then enc_millis32 (prsp_ThrottleTime r) else [])"

definition dec_ProduceResponse :: "int \<Rightarrow> ProduceResponse dec" where
  "dec_ProduceResponse version =
     dbind (dec_topics (dec_ProduceResponseBlock version)) (\<lambda>blocks.
     dbind (if version \<ge> 1 then dec_millis32 else dreturn 0) (\<lambda>throttle.
       dreturn \<lparr>prsp_Blocks = blocks, prsp_Version = version, prsp_ThrottleTime = throttle\<rparr>))"

definition GetBlock :: "ProduceResponse \<Rightarrow> string \<Rightarrow> int32 \<Rightarrow> ProduceResponseBlock option" where
  "GetBlock r topic prt =
     (case map_of (prsp_Blocks r) topic of None \<Rightarrow> None | Some ps \<Rightarrow> map_of ps prt)"

subsection \<open>Round trip of the response\<close>

definition wf_ProduceResponseBlock :: "int \<Rightarrow> ProduceResponseBlock \<Rightarrow> bool" where
  "wf_ProduceResponseBlock version b \<longleftrightarrow>
     (if version \<ge> 2 then wf_time (prb_Timestamp b) else prb_Timestamp b = zeroTime) \<and>
     (version < 5 \<longrightarrow> prb_StartOffset b = 0)"

definition wf_ProduceResponse :: "ProduceResponse \<Rightarrow> bool" where
  "wf_ProduceResponse r \<longleftrightarrow> wf_topics (wf_ProduceResponseBlock (prsp_Version r)) (prsp_Blocks r) \<and>
     (if prsp_Version r \<ge> 1 then wf_millis32 (prsp_ThrottleTime r) else prsp_ThrottleTime r = 0)"

lemma sdiv_smod: "(m :: int) sdiv 1000 * 1000000000 + m smod 1000 * 1000000 = m * 1000000"
  using sdiv_mult_smod_eq [of m 1000] by linarith

lemma reads_response_timestamp:
  assumes "wf_time t"
  shows "reads (dbind getInt64 (\<lambda>millis.
      if millis \<noteq> - 1 then dreturn (sint millis sdiv 1000 * 1000000000 + sint millis smod 1000 * 1000000)
      else dreturn zeroTime)) (ser_ops (enc_Timestamp t)) t"
proof (cases "t = zeroTime")
  case True
  then show ?thesis by (intro readsI) (simp add: enc_Timestamp_def ser_simps dec_steps zeroTime_neg)
next
  case False
  with assms obtain k where t: "0 \<le> t" "t < 2 ^ 63" "t = 1000000 * k" by (auto simp: wf_time_def)
  then have k: "0 \<le> k" "k < 2 ^ 63" by auto
  have "sint (UnixNano t) = t" using t(1,2) by (simp add: UnixNano_def sint_word64)
  then have q: "sint (UnixNano t) sdiv 1000000 = k" by (simp only: t(3) sdiv_mult)
  have s: "sint (word_of_int k :: int64) = k" using k by (simp add: sint_word64)
  then have "(word_of_int k :: int64) \<noteq> - 1" using k by (metis sint_n1 neg_0_le_iff_le not_one_le_zero)
  with t k q s show ?thesis
    by (intro readsI) (simp add: enc_Timestamp_def ser_simps dec_steps sdiv_smod)
qed

interpretation prb: wire_elem "enc_ProduceResponseBlock v" dec_ProduceResponseBlock "\<lambda>_. v"
  "wf_ProduceResponseBlock v" for v
proof
  fix b assume wf: "wf_ProduceResponseBlock v b"
  then show "ops_ok (enc_ProduceResponseBlock v b)"
    by (simp add: enc_ProduceResponseBlock_def wf_ProduceResponseBlock_def wire_ok split: if_splits)
  show "ser_ops (enc_ProduceResponseBlock v b) \<noteq> []"
    by (simp add: enc_ProduceResponseBlock_def ser_simps)
  show "reads (dec_ProduceResponseBlock v) (ser_ops (enc_ProduceResponseBlock v b)) b"
    using wf reads_at [OF reads_response_timestamp]
    by (intro readsI; cases b; cases "v \<ge> 2"; cases "v \<ge> 5")
      (auto simp: dec_ProduceResponseBlock_def enc_ProduceResponseBlock_def wf_ProduceResponseBlock_def
        ser_simps dec_steps)
qed

interpretation prsp: wire_elem enc_ProduceResponse dec_ProduceResponse prsp_Version wf_ProduceResponse
proof
  fix r assume wf: "wf_ProduceResponse r"
  then show "ops_ok (enc_ProduceResponse r)"
    by (auto simp: enc_ProduceResponse_def wf_ProduceResponse_def wire_ok intro!: enc_topics_ok prb.ok)
  show "ser_ops (enc_ProduceResponse r) \<noteq> []"
    by (simp add: enc_ProduceResponse_def enc_topics_def ser_simps)
  show "reads (dec_ProduceResponse (prsp_Version r)) (ser_ops (enc_ProduceResponse r)) r"
    using wf topics_at [OF _ prb.reads]
    by (intro readsI; cases r)
      (auto simp: dec_ProduceResponse_def enc_ProduceResponse_def wf_ProduceResponse_def ser_simps dec_steps
        split: if_splits)
qed

subsection \<open>Round trip of the request\<close>

text \<open>Requests from version 3 on carry record batches, and the older ones message sets.\<close>

definition wf_batch_records :: "codecs \<Rightarrow> Records \<Rightarrow> bool" where
  "wf_batch_records cs recs =
     (case rs_RecordBatch recs of
        None \<Rightarrow> False
      | Some b \<Rightarrow> recs = newDefaultRecords b \<and> wf_RecordBatch cs b \<and>
          length (ser_ops (fst (enc_RecordBatch cs b))) \<le> 2147483647)"

definition records_on_wire :: "Records \<Rightarrow> Records" where
  "records_on_wire recs =
     (case rs_RecordBatch recs of None \<Rightarrow> recs | Some b \<Rightarrow> newDefaultRecords (batch_on_wire b))"

definition wf_ProduceRequest :: "codecs \<Rightarrow> ProduceRequest \<Rightarrow> bool" where
  "wf_ProduceRequest cs r \<longleftrightarrow> preq_Version r \<ge> 3 \<and>
     pred_option (\<lambda>s. length s \<le> 32767) (preq_TransactionalID r) \<and>
     wf_topics (wf_batch_records cs) (preq_records r)"

definition ProduceRequest_on_wire :: "ProduceRequest \<Rightarrow> ProduceRequest" where
  "ProduceRequest_on_wire r = r\<lparr>preq_records := view_topics records_on_wire (preq_records r)\<rparr>"

lemma enc_RecordBatch_ops_ok: "sendable_batch cs b \<Longrightarrow> ops_ok (fst (enc_RecordBatch cs b))"
  using enc_RecordBatch_wf [of cs b]
  by (auto simp: batch_header_def sendable_batch_def wire_ok)

lemma partition_records:
  assumes "wf_batch_records cs recs" "lossless cs"
  shows "ops_ok (enc_partition_records cs recs)"
    and "reads (dec_partition_records depth cs) (ser_ops (enc_partition_records cs recs)) (records_on_wire recs)"
proof -
  from assms(1) obtain b where b: "recs = newDefaultRecords b" "wf_RecordBatch cs b"
      "length (ser_ops (fst (enc_RecordBatch cs b))) \<le> 2147483647"
    by (auto simp: wf_batch_records_def split: option.splits)
  have e: "fst (enc_Records cs recs) = fst (enc_RecordBatch cs b)"
    by (simp add: b(1) enc_Records_def enc_Records_typed_def newDefaultRecords_def recordsType_defs split: prod.splits)
  then show "ops_ok (enc_partition_records cs recs)"
    using b(2) by (simp add: enc_partition_records_def wf_RecordBatch_def enc_RecordBatch_ops_ok)
  let ?bs = "ser_ops (fst (enc_RecordBatch cs b))"
  have "fst (dec_Records depth cs zeroRecords (dec_at [] ?bs [])) = Ok (newDefaultRecords (batch_on_wire b))"
    using reads_at_end [OF dec_Records_default [OF b(2) assms(2)], of depth "[]" "[]"] e b(1) by simp
  then show "reads (dec_partition_records depth cs) (ser_ops (enc_partition_records cs recs)) (records_on_wire recs)"
    using b(3) e
    by (intro readsI) (simp add: dec_partition_records_def enc_partition_records_def ser_simps dec_steps
      getSubset_def sint_len32 dlift_def records_on_wire_def newDefaultRecords_def b(1) new_decoder_def [symmetric]
      new_decoder_eq)
qed

lemma reads_ProduceRequest:
  assumes "wf_ProduceRequest cs r" "lossless cs"
  shows "ops_ok (fst (enc_ProduceRequest cs r))"
    and "reads (dec_ProduceRequest depth cs (preq_Version r)) (ser_ops (fst (enc_ProduceRequest cs r)))
      (ProduceRequest_on_wire r)"
proof -
  from assms(1) have t: "wf_topics (wf_batch_records cs) (preq_records r)" by (simp add: wf_ProduceRequest_def)
  show "ops_ok (fst (enc_ProduceRequest cs r))"
    using assms(1) enc_topics_ok [OF t partition_records(1) [OF _ assms(2)]]
    by (auto simp: enc_ProduceRequest_def wf_ProduceRequest_def split: option.splits)
  show "reads (dec_ProduceRequest depth cs (preq_Version r)) (ser_ops (fst (enc_ProduceRequest cs r)))
      (ProduceRequest_on_wire r)"
    using assms(1) reads_at [OF reads_topics_view [OF t partition_records(2) [OF _ assms(2)]]]
    by (intro readsI; cases r) (simp add: dec_ProduceRequest_def enc_ProduceRequest_def wf_ProduceRequest_def
      ProduceRequest_on_wire_def ser_simps dec_steps)
qed

end
