(* ===== verification/Produce_Set.thy ===== *)
theory Produce_Set
  imports Produce_Messages Producer_Message
begin

text \<open>
  The set of messages that the producer collects for one broker (\<open>produce_set.go\<close>): adding a
  message, dropping a partition, the overflow and flush conditions, and building the request.

  The fields of the configuration that this code reads are the record \<open>ProducerConf\<close>; the clock is
  an argument of \<open>ps_add\<close>. Building the request assigns offsets inside the batches, so it returns
  the set as well. The counters are Go ints, taken to be unbounded.

  The lemmas: the counters agree with the contents in every reachable set (\<open>ps_inv\<close>, kept by every
  operation); the byte count of a partition bounds the size of its batch on the wire; offsets are
  numbered from zero; the request version fits the configured broker version.
\<close>

subsection \<open>Data\<close>

record ProducerConf =
  conf_Version :: KafkaVersion
  conf_Compression :: CompressionCodec
  conf_CompressionLevel :: int
  conf_Idempotent :: bool
  conf_RequiredAcks :: RequiredAcks
  conf_Timeout :: int64
  conf_MaxMessageBytes :: int
  conf_TransactionID :: string
  conf_Flush_Bytes :: int
  conf_Flush_Messages :: int
  conf_Flush_Frequency :: int64
  conf_Flush_MaxMessages :: int

definition IsTransactional :: "ProducerConf \<Rightarrow> bool" where
  "IsTransactional conf \<longleftrightarrow> conf_TransactionID conf \<noteq> []"

record partitionSet =
  pset_msgs :: "ProducerMessage list"
  pset_recordsToSend :: Records
  pset_bufferBytes :: int

record produceSet =
  ps_msgs :: "partitionSet topics"
  ps_producerID :: int64
  ps_producerEpoch :: int16
  ps_bufferBytes :: int
  ps_bufferCount :: int

definition newProduceSet :: "int64 \<Rightarrow> int16 \<Rightarrow> produceSet" where
  "newProduceSet pid epoch =
     \<lparr>ps_msgs = [], ps_producerID = pid, ps_producerEpoch = epoch, ps_bufferBytes = 0, ps_bufferCount = 0\<rparr>"

definition topic_partitions :: "produceSet \<Rightarrow> string \<Rightarrow> (int32 \<times> partitionSet) list" where
  "topic_partitions ps topic = (case map_of (ps_msgs ps) topic of None \<Rightarrow> [] | Some m \<Rightarrow> m)"

subsection \<open>Adding a message\<close>

definition encode_field :: "Encoder option \<Rightarrow> nbytes res" where
  "encode_field e = (case e of None \<Rightarrow> Ok None | Some e \<Rightarrow> Encode e)"

definition Truncate_ms :: "time \<Rightarrow> time" where
  "Truncate_ms t = t - t mod 1000000"

text \<open>\<open>Time.Sub\<close> saturates.\<close>

definition Sub :: "time \<Rightarrow> time \<Rightarrow> int64" where
  "Sub t u = word_of_int (min (max (t - u) (- (2 ^ 63))) (2 ^ 63 - 1))"

definition new_partitionSet :: "ProducerConf \<Rightarrow> time \<Rightarrow> ProducerMessage \<Rightarrow> produceSet \<Rightarrow> partitionSet \<times> int" where
  "new_partitionSet conf timestamp msg ps =
     (if IsAtLeast (conf_Version conf) V0_11_0_0 then
        (\<lparr>pset_msgs = [],
          pset_recordsToSend = newDefaultRecords
            \<lparr>rb_FirstOffset = 0, rb_PartitionLeaderEpoch = 0, rb_Version = 2,
             rb_Codec = conf_Compression conf, rb_CompressionLevel = conf_CompressionLevel conf,
             rb_Control = False, rb_LogAppendTime = False, rb_LastOffsetDelta = 0,
             rb_FirstTimestamp = timestamp, rb_MaxTimestamp = zeroTime,
             rb_ProducerID = ps_producerID ps, rb_ProducerEpoch = ps_producerEpoch ps,
             rb_FirstSequence = (if conf_Idempotent conf then pm_sequenceNumber msg else 0),
             rb_Records = [], rb_PartialTrailingRecord = False, rb_IsTransactional = False,
             rb_compressedRecords = None, rb_recordsLen = 0\<rparr>,
          pset_bufferBytes = 0\<rparr>, recordBatchOverhead)
      else
        (\<lparr>pset_msgs = [], pset_recordsToSend = newLegacyRecords (MessageSet False False []),
          pset_bufferBytes = 0\<rparr>, 0))"

definition record_of :: "ProducerMessage \<Rightarrow> nbytes \<Rightarrow> nbytes \<Rightarrow> int64 \<Rightarrow> Record" where
  "record_of msg key val delta =
     \<lparr>rec_Headers = pm_Headers msg, rec_Attributes = 0, rec_TimestampDelta = delta,
      rec_OffsetDelta = 0, rec_Key = key, rec_Value = val\<rparr>"

definition message_of :: "ProducerConf \<Rightarrow> time \<Rightarrow> nbytes \<Rightarrow> nbytes \<Rightarrow> Message" where
  "message_of conf timestamp key val =
     (if IsAtLeast (conf_Version conf) V0_10_0_0
      then Message CompressionNone 0 False key val None 1 timestamp None 0
      else Message CompressionNone 0 False key val None 0 zeroTime None 0)"

definition headers_bytes :: "RecordHeader list \<Rightarrow> int" where
  "headers_bytes hs = (\<Sum>h \<leftarrow> hs. int (nlen (hdr_Key h)) + int (nlen (hdr_Value h)) + 2 * 5)"

text \<open>
  The part of \<open>add\<close> that works on the partition's set; \<open>size0\<close> is the overhead of a new batch. The
  result is the set and the bytes added. A default set without a batch would be a nil dereference.
\<close>

definition add_to_set ::
    "ProducerConf \<Rightarrow> ProducerMessage \<Rightarrow> nbytes \<Rightarrow> nbytes \<Rightarrow> time \<Rightarrow> int \<Rightarrow> partitionSet \<Rightarrow> (partitionSet \<times> int) res" where
  "add_to_set conf msg key val timestamp size0 s =
     (if IsAtLeast (conf_Version conf) V0_11_0_0 then
        (case rs_RecordBatch (pset_recordsToSend s) of
           None \<Rightarrow> Panic
         | Some b \<Rightarrow>
             if conf_Idempotent conf \<and> sint (pm_sequenceNumber msg) < sint (rb_FirstSequence b)
             then Err (OtherError ''assertion failed: message out of sequence added to a batch'')
             else
               (let r = record_of msg key val (Sub timestamp (rb_FirstTimestamp b));
                    sz = size0 + int maximumRecordOverhead + (int (nlen key) + int (nlen val)) +
                      headers_bytes (pm_Headers msg)
                in Ok (s\<lparr>pset_msgs := pset_msgs s @ [msg],
                     pset_recordsToSend := (pset_recordsToSend s)\<lparr>rs_RecordBatch := Some (addRecord r b)\<rparr>,
                     pset_bufferBytes := pset_bufferBytes s + sz\<rparr>, sz)))
      else
        (case rs_MsgSet (pset_recordsToSend s) of
           None \<Rightarrow> Panic
         | Some ms \<Rightarrow>
             (let m = message_of conf timestamp key val;
                  sz = producerMessageOverhead + int (nlen key) + int (nlen val)
              in Ok (s\<lparr>pset_msgs := pset_msgs s @ [msg],
                   pset_recordsToSend := (pset_recordsToSend s)\<lparr>rs_MsgSet := Some (addMessage m ms)\<rparr>,
                   pset_bufferBytes := pset_bufferBytes s + sz\<rparr>, sz))))"

definition put_set :: "string \<Rightarrow> int32 \<Rightarrow> partitionSet \<Rightarrow> produceSet \<Rightarrow> produceSet" where
  "put_set topic prt s ps =
     ps\<lparr>ps_msgs := AList.update topic (AList.update prt s (topic_partitions ps topic)) (ps_msgs ps)\<rparr>"

definition ps_add :: "ProducerConf \<Rightarrow> time \<Rightarrow> ProducerMessage \<Rightarrow> produceSet \<Rightarrow> unit res \<times> produceSet" where
  "ps_add conf now msg ps =
     (case res_bind (encode_field (pm_Key msg)) (\<lambda>key.
           res_bind (encode_field (pm_Value msg)) (\<lambda>val. Ok (key, val))) of
        Ok (key, val) \<Rightarrow>
          (let timestamp = Truncate_ms (if pm_Timestamp msg = zeroTime then now else pm_Timestamp msg);
               old = map_of (topic_partitions ps (pm_Topic msg)) (pm_Partition msg);
               (s, size0) = (case old of Some s \<Rightarrow> (s, 0) | None \<Rightarrow> new_partitionSet conf timestamp msg ps);
               ps1 = put_set (pm_Topic msg) (pm_Partition msg) s ps
           in case add_to_set conf msg key val timestamp size0 s of
                Ok (s', sz) \<Rightarrow>
                  (Ok (), (put_set (pm_Topic msg) (pm_Partition msg) s' ps)
                     \<lparr>ps_bufferBytes := ps_bufferBytes ps + sz, ps_bufferCount := ps_bufferCount ps + 1\<rparr>)
              | Err e \<Rightarrow> (Err e, ps1)
              | Panic \<Rightarrow> (Panic, ps1)
              | Diverge \<Rightarrow> (Diverge, ps1))
      | Err e \<Rightarrow> (Err e, ps) | Panic \<Rightarrow> (Panic, ps) | Diverge \<Rightarrow> (Diverge, ps))"

subsection \<open>Dropping, overflow and flushing\<close>

definition dropPartition :: "string \<Rightarrow> int32 \<Rightarrow> produceSet \<Rightarrow> ProducerMessage list option \<times> produceSet" where
  "dropPartition topic prt ps =
     (case map_of (topic_partitions ps topic) prt of
        None \<Rightarrow> (None, ps)
      | Some s \<Rightarrow>
          (Some (pset_msgs s),
           ps\<lparr>ps_bufferBytes := ps_bufferBytes ps - pset_bufferBytes s,
              ps_bufferCount := ps_bufferCount ps - int (length (pset_msgs s)),
              ps_msgs := AList.update topic (AList.delete prt (topic_partitions ps topic)) (ps_msgs ps)\<rparr>))"

definition eachPartition :: "(string \<Rightarrow> int32 \<Rightarrow> partitionSet \<Rightarrow> 'a) \<Rightarrow> produceSet \<Rightarrow> 'a list" where
  "eachPartition cb ps = concat (map (\<lambda>(topic, m). map (\<lambda>(prt, s). cb topic prt s) m) (ps_msgs ps))"

definition wouldOverflow :: "ProducerConf \<Rightarrow> ProducerMessage \<Rightarrow> produceSet \<Rightarrow> bool" where
  "wouldOverflow conf msg ps =
     (let version = (if IsAtLeast (conf_Version conf) V0_11_0_0 then 2 else 1)
      in if ps_bufferBytes ps + ByteSize version msg \<ge> int MaxRequestSize - 10 * 1024 then True
         else if (case map_of (topic_partitions ps (pm_Topic msg)) (pm_Partition msg) of
                    None \<Rightarrow> False
                  | Some s \<Rightarrow> pset_bufferBytes s + ByteSize version msg \<ge> conf_MaxMessageBytes conf) then True
         else conf_Flush_MaxMessages conf > 0 \<and> ps_bufferCount ps \<ge> conf_Flush_MaxMessages conf)"

definition ps_empty :: "produceSet \<Rightarrow> bool" where
  "ps_empty ps \<longleftrightarrow> ps_bufferCount ps = 0"

definition readyToFlush :: "ProducerConf \<Rightarrow> produceSet \<Rightarrow> bool" where
  "readyToFlush conf ps =
     (if ps_empty ps then False
      else if conf_Flush_Frequency conf = 0 \<and> conf_Flush_Bytes conf = 0 \<and> conf_Flush_Messages conf = 0 then True
      else if conf_Flush_Messages conf > 0 \<and> ps_bufferCount ps \<ge> conf_Flush_Messages conf then True
      else conf_Flush_Bytes conf > 0 \<and> ps_bufferBytes ps \<ge> conf_Flush_Bytes conf)"

subsection \<open>Building the request\<close>

definition request_version :: "KafkaVersion \<Rightarrow> int" where
  "request_version v =
     (let n = 0;
          n = (if IsAtLeast v V0_10_0_0 then 2 else n);
          n = (if IsAtLeast v V0_11_0_0 then 3 else n);
          n = (if IsAtLeast v V1_0_0_0 then 5 else n);
          n = (if IsAtLeast v V2_0_0_0 then 6 else n)
      in if IsAtLeast v V2_1_0_0 then 7 else n)"

fun number_records :: "nat \<Rightarrow> Record list \<Rightarrow> Record list" where
  "number_records i [] = []"
| "number_records i (r # rs) = r\<lparr>rec_OffsetDelta := word_of_nat i\<rparr> # number_records (Suc i) rs"

definition finish_batch :: "ProducerConf \<Rightarrow> RecordBatch \<Rightarrow> RecordBatch" where
  "finish_batch conf rb =
     (let rb = (if rb_Records rb \<noteq> []
                then rb\<lparr>rb_LastOffsetDelta := word_of_nat (length (rb_Records rb) - 1),
                        rb_Records := number_records 0 (rb_Records rb)\<rparr>
                else rb)
      in rb\<lparr>rb_IsTransactional := IsTransactional conf\<rparr>)"

fun number_messages :: "nat \<Rightarrow> MessageBlock list \<Rightarrow> MessageBlock list" where
  "number_messages i [] = []"
| "number_messages i (msb # msbs) = MessageBlock (word_of_nat i) (msb_Msg msb) # number_messages (Suc i) msbs"

text \<open>
  The set after the two passes of \<open>encode\<close> over it, and the message that wraps it. \<open>encode\<close> failing
  here makes the code panic.
\<close>

definition wrap_set :: "codecs \<Rightarrow> ProducerConf \<Rightarrow> MessageSet \<Rightarrow> (Message \<times> MessageSet) res" where
  "wrap_set cs conf ms =
     (let ms = (if IsAtLeast (conf_Version conf) V0_10_0_0
                then MessageSet (ms_PartialTrailingMessage ms) (ms_OverflowMessage ms)
                       (number_messages 0 (ms_Messages ms))
                else ms)
      in case encode (fst (enc_MessageSet cs ms)) of
           Ok payload \<Rightarrow>
             (let ms' = snd (enc_MessageSet cs (snd (enc_MessageSet cs ms)))
              in if IsAtLeast (conf_Version conf) V0_10_0_0 then
                   (case ms_Messages ms' of
                      [] \<Rightarrow> Panic
                    | msb # _ \<Rightarrow>
                        Ok (Message (conf_Compression conf) (conf_CompressionLevel conf) False None (Some payload)
                          (Some ms') 1 (msg_Timestamp (msb_Msg msb)) None 0, ms'))
                 else
                   Ok (Message (conf_Compression conf) (conf_CompressionLevel conf) False None (Some payload)
                     (Some ms') 0 zeroTime None 0, ms'))
         | _ \<Rightarrow> Panic)"

definition add_set_to_request ::
    "codecs \<Rightarrow> ProducerConf \<Rightarrow> string \<Rightarrow> int32 \<Rightarrow> partitionSet \<Rightarrow> ProduceRequest \<Rightarrow> (ProduceRequest \<times> partitionSet) res" where
  "add_set_to_request cs conf topic prt s req =
     (if preq_Version req \<ge> 3 then
        (case rs_RecordBatch (pset_recordsToSend s) of
           None \<Rightarrow> Panic
         | Some rb \<Rightarrow>
             (let rb = finish_batch conf rb
              in Ok (AddBatch topic prt rb req,
                   s\<lparr>pset_recordsToSend := (pset_recordsToSend s)\<lparr>rs_RecordBatch := Some rb\<rparr>\<rparr>)))
      else
        (case rs_MsgSet (pset_recordsToSend s) of
           None \<Rightarrow> Panic
         | Some ms \<Rightarrow>
             if conf_Compression conf = CompressionNone then Ok (AddSet topic prt ms req, s)
             else
               res_bind (wrap_set cs conf ms) (\<lambda>(compMsg, ms).
                 Ok (AddMessage topic prt compMsg req,
                   s\<lparr>pset_recordsToSend := (pset_recordsToSend s)\<lparr>rs_MsgSet := Some ms\<rparr>\<rparr>))))"

fun add_partitions_to_request ::
    "codecs \<Rightarrow> ProducerConf \<Rightarrow> string \<Rightarrow> (int32 \<times> partitionSet) list \<Rightarrow> ProduceRequest \<Rightarrow>
     (ProduceRequest \<times> (int32 \<times> partitionSet) list) res" where
  "add_partitions_to_request cs conf topic [] req = Ok (req, [])"
| "add_partitions_to_request cs conf topic ((prt, s) # sets) req =
     res_bind (add_set_to_request cs conf topic prt s req) (\<lambda>(req, s).
     res_bind (add_partitions_to_request cs conf topic sets req) (\<lambda>(req, sets). Ok (req, (prt, s) # sets)))"

fun add_topics_to_request ::
    "codecs \<Rightarrow> ProducerConf \<Rightarrow> partitionSet topics \<Rightarrow> ProduceRequest \<Rightarrow> (ProduceRequest \<times> partitionSet topics) res" where
  "add_topics_to_request cs conf [] req = Ok (req, [])"
| "add_topics_to_request cs conf ((topic, sets) # ts) req =
     res_bind (add_partitions_to_request cs conf topic sets req) (\<lambda>(req, sets).
     res_bind (add_topics_to_request cs conf ts req) (\<lambda>(req, ts). Ok (req, (topic, sets) # ts)))"

definition buildRequest :: "codecs \<Rightarrow> ProducerConf \<Rightarrow> produceSet \<Rightarrow> (ProduceRequest \<times> produceSet) res" where
  "buildRequest cs conf ps =
     (let req = \<lparr>preq_TransactionalID =
                   (if IsAtLeast (conf_Version conf) V0_11_0_0 \<and> IsTransactional conf
                    then Some (conf_TransactionID conf) else None),
                 preq_RequiredAcks = conf_RequiredAcks conf,
                 preq_Timeout = word_of_int (sint (conf_Timeout conf) sdiv 1000000),
                 preq_Version = request_version (conf_Version conf), preq_records = []\<rparr>
      in res_bind (add_topics_to_request cs conf (ps_msgs ps) req) (\<lambda>(req, ts).
           Ok (req, ps\<lparr>ps_msgs := ts\<rparr>)))"

subsection \<open>The counters agree with the contents\<close>

definition sum_alist :: "('v \<Rightarrow> int) \<Rightarrow> ('k \<times> 'v) list \<Rightarrow> int" where
  "sum_alist f m = (\<Sum>kv \<leftarrow> m. f (snd kv))"

definition at_key :: "('v \<Rightarrow> int) \<Rightarrow> 'v option \<Rightarrow> int" where
  "at_key f v = (case v of None \<Rightarrow> 0 | Some v \<Rightarrow> f v)"

lemma at_key_simps [simp]: "at_key f None = 0" "at_key f (Some v) = f v"
  by (simp_all add: at_key_def)

lemma map_of_eq_None_not_in: "k \<notin> fst ` set m \<Longrightarrow> map_of m k = None"
  by (simp add: map_of_eq_None_iff)

lemma sum_alist_update:
  "distinct (map fst m) \<Longrightarrow> sum_alist f (AList.update k v m) = sum_alist f m - at_key f (map_of m k) + f v"
  by (induction m) (auto simp: sum_alist_def map_of_eq_None_not_in)

lemma sum_alist_delete:
  "distinct (map fst m) \<Longrightarrow> sum_alist f (AList.delete k m) = sum_alist f m - at_key f (map_of m k)"
  by (induction m) (auto simp: sum_alist_def map_of_eq_None_not_in AList.delete_id)

definition ps_total :: "(partitionSet \<Rightarrow> int) \<Rightarrow> produceSet \<Rightarrow> int" where
  "ps_total f ps = sum_alist (sum_alist f) (ps_msgs ps)"

definition distinct_keys :: "'v topics \<Rightarrow> bool" where
  "distinct_keys m \<longleftrightarrow> distinct (map fst m) \<and> list_all (\<lambda>t. distinct (map fst (snd t))) m"

text \<open>The bytes the producer counts for a set, and the shape of the records of a set.\<close>

definition message_bytes_counted :: "MessageBlock \<Rightarrow> int" where
  "message_bytes_counted msb =
     producerMessageOverhead + int (nlen (msg_Key (msb_Msg msb))) + int (nlen (msg_Value (msb_Msg msb)))"

definition records_bytes :: "Record list \<Rightarrow> int" where
  "records_bytes rs = (\<Sum>r \<leftarrow> rs. int (record_bytes r))"

definition set_inv :: "ProducerConf \<Rightarrow> partitionSet \<Rightarrow> bool" where
  "set_inv conf s =
     (if IsAtLeast (conf_Version conf) V0_11_0_0 then
        (case rs_RecordBatch (pset_recordsToSend s) of
           None \<Rightarrow> False
         | Some b \<Rightarrow> pset_recordsToSend s = newDefaultRecords b \<and>
             length (rb_Records b) = length (pset_msgs s) \<and>
             pset_bufferBytes s = recordBatchOverhead + records_bytes (rb_Records b))
      else
        (case rs_MsgSet (pset_recordsToSend s) of
           None \<Rightarrow> False
         | Some ms \<Rightarrow> pset_recordsToSend s = newLegacyRecords ms \<and>
             length (ms_Messages ms) = length (pset_msgs s) \<and>
             pset_bufferBytes s = (\<Sum>msb \<leftarrow> ms_Messages ms. message_bytes_counted msb)))"

definition all_sets :: "(partitionSet \<Rightarrow> bool) \<Rightarrow> partitionSet topics \<Rightarrow> bool" where
  "all_sets P m = list_all (\<lambda>t. list_all (\<lambda>p. P (snd p)) (snd t)) m"

definition ps_inv :: "ProducerConf \<Rightarrow> produceSet \<Rightarrow> bool" where
  "ps_inv conf ps \<longleftrightarrow> distinct_keys (ps_msgs ps) \<and> all_sets (set_inv conf) (ps_msgs ps) \<and>
     ps_bufferBytes ps = ps_total pset_bufferBytes ps \<and>
     ps_bufferCount ps = ps_total (\<lambda>s. int (length (pset_msgs s))) ps"

lemma newProduceSet_inv: "ps_inv conf (newProduceSet pid epoch)"
  by (simp add: ps_inv_def newProduceSet_def distinct_keys_def all_sets_def ps_total_def sum_alist_def)

lemma topic_partitions_distinct:
  "distinct_keys (ps_msgs ps) \<Longrightarrow> distinct (map fst (topic_partitions ps t))"
  by (cases "map_of (ps_msgs ps) t")
    (auto simp: distinct_keys_def topic_partitions_def list_all_iff dest!: map_of_SomeD)

lemma topic_partitions_all:
  assumes "all_sets P (ps_msgs ps)"
  shows "list_all (\<lambda>p. P (snd p)) (topic_partitions ps t)"
proof (cases "map_of (ps_msgs ps) t")
  case (Some m)
  then have "(t, m) \<in> set (ps_msgs ps)" by (rule map_of_SomeD)
  with assms have "list_all (\<lambda>p. P (snd p)) m" unfolding all_sets_def list_all_iff by fastforce
  with Some show ?thesis by (simp add: topic_partitions_def)
qed (simp add: topic_partitions_def)

lemma list_all_update:
  "list_all (\<lambda>p. P (snd p)) m \<Longrightarrow> P v \<Longrightarrow> list_all (\<lambda>p. P (snd p)) (AList.update k v m)"
  by (induction m) auto

lemma list_all_delete: "list_all P m \<Longrightarrow> list_all P (AList.delete k m)"
  by (auto simp: list_all_iff AList.delete_eq)

lemma sum_topic: "at_key (sum_alist f) (map_of (ps_msgs ps) t) = sum_alist f (topic_partitions ps t)"
  by (simp add: topic_partitions_def at_key_def sum_alist_def split: option.splits)

lemma ps_total_update_topic:
  "distinct_keys (ps_msgs ps) \<Longrightarrow>
   sum_alist (sum_alist f) (AList.update t m (ps_msgs ps)) =
     ps_total f ps - sum_alist f (topic_partitions ps t) + sum_alist f m"
  by (simp add: distinct_keys_def sum_alist_update ps_total_def sum_topic)

lemma distinct_keys_update:
  "distinct_keys m \<Longrightarrow> distinct (map fst ps) \<Longrightarrow> distinct_keys (AList.update t ps m)"
  by (auto simp: distinct_keys_def distinct_update
      intro!: list_all_update [where P = "\<lambda>ps. distinct (map fst ps)"])

lemma put_set_keys: "distinct_keys (ps_msgs ps) \<Longrightarrow> distinct_keys (ps_msgs (put_set t p s ps))"
  by (simp add: put_set_def distinct_keys_update distinct_update topic_partitions_distinct)

lemma put_set_all:
  "all_sets P (ps_msgs ps) \<Longrightarrow> P s \<Longrightarrow> all_sets P (ps_msgs (put_set t p s ps))"
  using topic_partitions_all [of P ps t]
  by (auto simp: put_set_def all_sets_def
      intro!: list_all_update [where P = "\<lambda>m. list_all (\<lambda>p. P (snd p)) m"] list_all_update)

lemma put_set_total:
  "distinct_keys (ps_msgs ps) \<Longrightarrow>
   ps_total f (put_set t p s ps) = ps_total f ps - at_key f (map_of (topic_partitions ps t) p) + f s"
  using ps_total_update_topic [of ps f t] topic_partitions_distinct [of ps t]
  unfolding ps_total_def [of f "put_set t p s ps"] by (simp add: put_set_def sum_alist_update)

lemma headers_bytes_eq: "headers_bytes hs = int (sum_list (map header_bytes hs))"
  by (simp add: headers_bytes_def sum_header_bytes)

lemma add_to_set_inv:
  assumes "set_inv conf s \<and> size0 = 0 \<or> new_partitionSet conf timestamp msg ps = (s, size0)"
    and "add_to_set conf msg key val timestamp size0 s = Ok (s', sz)"
  shows "set_inv conf s'" "pset_bufferBytes s' = pset_bufferBytes s + sz"
    "pset_msgs s' = pset_msgs s @ [msg]"
  using assms
  by (auto simp: set_inv_def new_partitionSet_def add_to_set_def Let_def newDefaultRecords_def
      newLegacyRecords_def addRecord_def record_of_def records_bytes_def record_bytes_def headers_bytes_eq
      message_bytes_counted_def message_of_def addMessage_def
      split: if_splits option.splits)

lemma ps_add_inv:
  assumes inv: "ps_inv conf ps" and add: "ps_add conf now msg ps = (Ok (), ps')"
  shows "ps_inv conf ps'"
proof -
  let ?t = "pm_Topic msg" and ?p = "pm_Partition msg"
  let ?ts = "Truncate_ms (if pm_Timestamp msg = zeroTime then now else pm_Timestamp msg)"
  let ?old = "map_of (topic_partitions ps ?t) ?p"
  from inv have keys: "distinct_keys (ps_msgs ps)" and all: "all_sets (set_inv conf) (ps_msgs ps)"
    by (simp_all add: ps_inv_def)
  obtain s size0 where s: "(case ?old of Some s \<Rightarrow> (s, 0) | None \<Rightarrow> new_partitionSet conf ?ts msg ps) = (s, size0)"
    by fastforce
  from add s obtain key val s' sz where a: "add_to_set conf msg key val ?ts size0 s = Ok (s', sz)"
    and ps': "ps' = (put_set ?t ?p s' ps)
      \<lparr>ps_bufferBytes := ps_bufferBytes ps + sz, ps_bufferCount := ps_bufferCount ps + 1\<rparr>"
    by (auto simp: ps_add_def Let_def split: res.splits prod.splits)
  have old: "set_inv conf s \<and> size0 = 0 \<or> new_partitionSet conf ?ts msg ps = (s, size0)"
    using s topic_partitions_all [OF all, of ?t]
    by (auto simp: list_all_iff split: option.splits dest!: map_of_SomeD)
  note s' = add_to_set_inv [OF old a]
  have "at_key pset_bufferBytes ?old = pset_bufferBytes s" "at_key (\<lambda>s. int (length (pset_msgs s))) ?old = int (length (pset_msgs s))"
    using s by (auto simp: new_partitionSet_def split: option.splits if_splits)
  then show ?thesis
    using inv s' put_set_keys [OF keys] put_set_all [OF all s'(1)] put_set_total [OF keys]
    by (simp add: ps_inv_def ps' ps_total_def)
qed

lemma dropPartition_inv:
  assumes inv: "ps_inv conf ps" and drop: "dropPartition t p ps = (r, ps')"
  shows "ps_inv conf ps'"
proof (cases "map_of (topic_partitions ps t) p")
  case (Some s)
  let ?m = "AList.delete p (topic_partitions ps t)"
  from inv have keys: "distinct_keys (ps_msgs ps)" and all: "all_sets (set_inv conf) (ps_msgs ps)"
    by (simp_all add: ps_inv_def)
  note d = topic_partitions_distinct [OF keys, of t]
  have m: "distinct (map fst ?m)" "list_all (\<lambda>p. set_inv conf (snd p)) ?m"
    using d topic_partitions_all [OF all] by (simp_all add: distinct_delete list_all_delete)
  have "all_sets (set_inv conf) (AList.update t ?m (ps_msgs ps))"
    using all m(2) unfolding all_sets_def
    by (intro list_all_update [where P = "\<lambda>m. list_all (\<lambda>p. set_inv conf (snd p)) m"])
  then show ?thesis
    using inv drop Some m d distinct_keys_update [OF keys m(1), of t] ps_total_update_topic [OF keys, of _ t ?m]
    by (auto simp: dropPartition_def ps_inv_def ps_total_def sum_alist_delete)
qed (use assms in \<open>simp add: dropPartition_def\<close>)

text \<open>
  An \<open>add\<close> that fails leaves the set with the messages it had: a key or a value that does not
  encode is found before the set is touched, and a message out of sequence after its partition was
  found.
\<close>

lemma put_set_same:
  assumes "ps_inv conf ps" "map_of (topic_partitions ps t) p = Some s"
  shows "ps_inv conf (put_set t p s ps)"
proof -
  from assms(1) have keys: "distinct_keys (ps_msgs ps)" and all: "all_sets (set_inv conf) (ps_msgs ps)"
    by (simp_all add: ps_inv_def)
  have "set_inv conf s"
    using assms(2) topic_partitions_all [OF all, of t] by (auto simp: list_all_iff dest!: map_of_SomeD)
  with keys all show ?thesis
    using assms put_set_keys [OF keys] put_set_all [OF all] put_set_total [OF keys]
    by (simp add: ps_inv_def put_set_def)
qed

lemma new_set_accepts:
  assumes "new_partitionSet conf timestamp msg ps = (s, size0)"
  shows "is_Ok (add_to_set conf msg key val timestamp size0 s)"
  using assms
  by (auto simp: new_partitionSet_def add_to_set_def Let_def newDefaultRecords_def newLegacyRecords_def
      split: if_splits)

lemma ps_add_failed:
  assumes "ps_add conf now msg ps = (r, ps')" "\<not> is_Ok r"
  shows "ps' = ps \<or> (\<exists>s. map_of (topic_partitions ps (pm_Topic msg)) (pm_Partition msg) = Some s \<and>
    ps' = put_set (pm_Topic msg) (pm_Partition msg) s ps)"
proof (cases "map_of (topic_partitions ps (pm_Topic msg)) (pm_Partition msg)")
  case None
  define ts where "ts = Truncate_ms (if pm_Timestamp msg = zeroTime then now else pm_Timestamp msg)"
  obtain s size0 where s: "new_partitionSet conf ts msg ps = (s, size0)" by fastforce
  have "add_to_set conf msg key val ts size0 s \<noteq> Err e" "add_to_set conf msg key val ts size0 s \<noteq> Panic"
    "add_to_set conf msg key val ts size0 s \<noteq> Diverge" for key val e
    using new_set_accepts [OF s, of key val] by (auto simp: is_Ok_def)
  with None s assms show ?thesis
    by (auto simp: ps_add_def Let_def ts_def [symmetric] split: res.splits prod.splits)
next
  case (Some s)
  with assms show ?thesis by (auto simp: ps_add_def Let_def split: res.splits prod.splits)
qed

lemma ps_add_failed_inv:
  "ps_inv conf ps \<Longrightarrow> ps_add conf now msg ps = (r, ps') \<Longrightarrow> \<not> is_Ok r \<Longrightarrow> ps_inv conf ps'"
  using ps_add_failed put_set_same by blast

text \<open>The sets that the broker producer can hold: the new one, and what \<open>add\<close> and \<open>dropPartition\<close> make of it.\<close>

inductive set_reachable :: "ProducerConf \<Rightarrow> produceSet \<Rightarrow> bool" for conf where
  new: "set_reachable conf (newProduceSet pid epoch)"
| add: "set_reachable conf ps \<Longrightarrow> ps_add conf now msg ps = (r, ps') \<Longrightarrow> set_reachable conf ps'"
| drop: "set_reachable conf ps \<Longrightarrow> dropPartition t p ps = (r, ps') \<Longrightarrow> set_reachable conf ps'"

lemma set_reachable_inv: "set_reachable conf ps \<Longrightarrow> ps_inv conf ps"
proof (induction rule: set_reachable.induct)
  case (new pid epoch)
  show ?case by (rule newProduceSet_inv)
next
  case (add ps now msg r ps')
  then show ?case
    using ps_add_inv [of conf ps now msg ps'] ps_add_failed_inv [of conf ps now msg r ps'] by (cases r) auto
next
  case (drop ps t p r ps')
  then show ?case by (blast intro: dropPartition_inv)
qed

subsection \<open>The byte count bounds the batch on the wire\<close>

lemma number_records_nth:
  "i < length rs \<Longrightarrow> number_records k rs ! i = (rs ! i)\<lparr>rec_OffsetDelta := word_of_nat (k + i)\<rparr>"
  by (induction k rs arbitrary: i rule: number_records.induct) (auto simp: nth_Cons split: nat.splits)

lemma length_number_records [simp]: "length (number_records k rs) = length rs"
  by (induction k rs rule: number_records.induct) simp_all

lemma records_bytes_numbered [simp]: "records_bytes (number_records k rs) = records_bytes rs"
  by (induction k rs rule: number_records.induct) (simp_all add: records_bytes_def record_bytes_def)

lemma finish_batch_sel [simp]:
  "rb_Records (finish_batch conf b) = number_records 0 (rb_Records b)"
  "rb_Codec (finish_batch conf b) = rb_Codec b"
  "rb_CompressionLevel (finish_batch conf b) = rb_CompressionLevel b"
  by (simp_all add: finish_batch_def Let_def)

lemma records_bytes_nat: "records_bytes rs = int (\<Sum>r \<leftarrow> rs. record_bytes r)"
  unfolding records_bytes_def by (induction rs) simp_all

lemma record_bytes_le: "r \<in> set rs \<Longrightarrow> int (record_bytes r) \<le> records_bytes rs"
  unfolding records_bytes_nat using member_le_sum_list [of "record_bytes r" "map record_bytes rs"] by simp

lemma length_recordsArray:
  assumes "records_bytes rs < 2 ^ 31"
    and "\<And>r. r \<in> set rs \<Longrightarrow> 0 \<le> sint (rec_OffsetDelta r) \<and> sint (rec_OffsetDelta r) < 2 ^ 31"
  shows "int (length (ser_ops (enc_recordsArray rs))) \<le> records_bytes rs"
proof -
  have "length (ser_ops (enc_Record r)) \<le> record_bytes r" if "r \<in> set rs" for r
    using that assms record_bytes_le [OF that] by (intro record_size_bound) auto
  then have "(\<Sum>r \<leftarrow> rs. length (ser_ops (enc_Record r))) \<le> (\<Sum>r \<leftarrow> rs. record_bytes r)"
    by (rule sum_list_mono)
  moreover have "length (ser_ops (enc_recordsArray rs)) = (\<Sum>r \<leftarrow> rs. length (ser_ops (enc_Record r)))"
    by (simp add: enc_recordsArray_def ser_simps length_concat o_def)
  ultimately show ?thesis by (simp add: records_bytes_nat)
qed

lemma numbered_offsets:
  assumes "r \<in> set (number_records 0 rs)" "length rs \<le> 2147483647"
  shows "0 \<le> sint (rec_OffsetDelta r) \<and> sint (rec_OffsetDelta r) < 2 ^ 31"
proof -
  from assms(1) obtain i where i: "i < length rs" "r = number_records 0 rs ! i"
    by (metis in_set_conv_nth length_number_records)
  then have "rec_OffsetDelta r = word_of_nat i" by (simp add: number_records_nth)
  moreover have "sint (word_of_nat i :: int64) = int i"
    using i(1) assms(2) by (intro sint_word_of_nat_id) simp
  ultimately show ?thesis using i(1) assms(2) by simp
qed

lemma batch_bytes_counted:
  assumes inv: "set_inv conf s" and v: "IsAtLeast (conf_Version conf) V0_11_0_0"
    and b: "rs_RecordBatch (pset_recordsToSend s) = Some b"
    and send: "sendable_batch cs (finish_batch conf b)" and codec: "rb_Codec b = CompressionNone"
    and size: "pset_bufferBytes s < 2 ^ 31"
  shows "int (length (ser_ops (fst (enc_RecordBatch cs (finish_batch conf b))))) \<le> pset_bufferBytes s + 12"
proof -
  let ?rs = "number_records 0 (rb_Records b)"
  from inv v b have eq: "pset_bufferBytes s = recordBatchOverhead + records_bytes ?rs"
    by (simp add: set_inv_def)
  have "length (rb_Records b) \<le> 2147483647" using send by (simp add: sendable_batch_def)
  then have "int (length (ser_ops (enc_recordsArray ?rs))) \<le> records_bytes ?rs"
    using eq size numbered_offsets by (intro length_recordsArray) (auto simp: recordBatchOverhead_def)
  moreover have "batch_payload cs (finish_batch conf b) = ser_ops (enc_recordsArray ?rs)"
    by (simp add: batch_payload_def records_raw_def codec compress_None)
  ultimately show ?thesis
    using length_ser_RecordBatch [OF send] eq by (simp add: recordBatchOverhead_def)
qed

subsection \<open>The request\<close>

lemma add_set_version:
  "add_set_to_request cs conf t p s req = Ok (req', s') \<Longrightarrow> preq_Version req' = preq_Version req"
  by (auto simp: add_set_to_request_def AddBatch_def AddSet_def AddMessage_def Let_def res_bind_Ok_iff
      split: if_splits option.splits)

lemma add_partitions_version:
  "add_partitions_to_request cs conf t sets req = Ok (req', sets') \<Longrightarrow> preq_Version req' = preq_Version req"
  by (induction cs conf t sets req arbitrary: req' sets' rule: add_partitions_to_request.induct)
    (auto simp: res_bind_Ok_iff dest!: add_set_version)

lemma add_topics_version:
  "add_topics_to_request cs conf ts req = Ok (req', ts') \<Longrightarrow> preq_Version req' = preq_Version req"
  by (induction cs conf ts req arbitrary: req' ts' rule: add_topics_to_request.induct)
    (auto simp: res_bind_Ok_iff dest!: add_partitions_version)

lemma request_version_required: "IsAtLeast v MinVersion \<Longrightarrow> IsAtLeast v (produce_requiredVersion (request_version v))"
  by (simp add: request_version_def produce_requiredVersion_def MinVersion_def)

lemma buildRequest_version:
  "buildRequest cs conf ps = Ok (req, ps') \<Longrightarrow> preq_Version req = request_version (conf_Version conf)"
  by (auto simp: buildRequest_def Let_def res_bind_Ok_iff dest!: add_topics_version)

end
