(* ===== verification/Partitioners.thy ===== *)
theory Partitioners
  imports Producer_Message
begin

text \<open>
  The partitioners (\<open>partitioner.go\<close>) and the way the producer uses them
  (\<open>topicProducer.partitionMessage\<close> of \<open>async_producer.go\<close>).

  A partitioner is a value of the datatype \<open>Partitioner\<close>, one constructor per struct; \<open>Partition\<close>
  returns the partitioner as well, since it advances a counter or a random generator. A generator
  is the sequence of its future draws. A hasher is the function from the bytes written after a
  \<open>Reset\<close> to the sum; writing to a hash never fails.

  The interface \<open>Partitioner\<close> is the locale \<open>partitioner\<close>: its law is that a choice lies among the
  partitions offered. The locale's lemmas are about a sequence of messages. The random, round-robin
  and hash partitioners satisfy it; the manual one does not, which is why the producer checks.
\<close>

subsection \<open>Arithmetic of int32\<close>

text \<open>The operator \<open>%\<close>, which panics on a zero divisor and takes the sign of the dividend.\<close>

definition rem_int32 :: "int32 \<Rightarrow> int32 \<Rightarrow> int32 res" where
  "rem_int32 a b = (if b = 0 then Panic else Ok (word_of_int (sint a smod sint b)))"

definition rem_uint32 :: "uint32 \<Rightarrow> uint32 \<Rightarrow> uint32 res" where
  "rem_uint32 a b = (if b = 0 then Panic else Ok (a mod b))"

subsection \<open>Partitioners\<close>

type_synonym generator = "nat \<Rightarrow> nat"

definition Intn :: "generator \<Rightarrow> int \<Rightarrow> int res \<times> generator" where
  "Intn g n = (if n \<le> 0 then (Panic, g) else (Ok (int (g 0) mod n), \<lambda>i. g (Suc i)))"

type_synonym Hash32 = "byte list \<Rightarrow> uint32"

datatype Partitioner =
    manualPartitioner
  | randomPartitioner generator
  | roundRobinPartitioner int32
  | hashPartitioner (hp_random: Partitioner) (hp_hasher: Hash32) (hp_referenceAbs: bool) (hp_hashUnsigned: bool)

type_synonym HashPartitionerOption = "Partitioner \<Rightarrow> Partitioner"

fun WithAbsFirst :: HashPartitionerOption where
  "WithAbsFirst (hashPartitioner r h a u) = hashPartitioner r h True u"
| "WithAbsFirst p = p"

fun WithHashUnsigned :: HashPartitionerOption where
  "WithHashUnsigned (hashPartitioner r h a u) = hashPartitioner r h a True"
| "WithHashUnsigned p = p"

fun WithCustomHashFunction :: "Hash32 \<Rightarrow> HashPartitionerOption" where
  "WithCustomHashFunction h' (hashPartitioner r h a u) = hashPartitioner r h' a u"
| "WithCustomHashFunction h' p = p"

fun WithCustomFallbackPartitioner :: "Partitioner \<Rightarrow> HashPartitionerOption" where
  "WithCustomFallbackPartitioner r' (hashPartitioner r h a u) = hashPartitioner r' h a u"
| "WithCustomFallbackPartitioner r' p = p"

text \<open>The constructors of the package; the generator they seed from the clock is an argument.\<close>

definition NewManualPartitioner :: Partitioner where
  "NewManualPartitioner = manualPartitioner"
definition NewRandomPartitioner :: "generator \<Rightarrow> Partitioner" where
  "NewRandomPartitioner g = randomPartitioner g"
definition NewRoundRobinPartitioner :: Partitioner where
  "NewRoundRobinPartitioner = roundRobinPartitioner 0"
definition NewCustomHashPartitioner :: "Hash32 \<Rightarrow> generator \<Rightarrow> Partitioner" where
  "NewCustomHashPartitioner hasher g = hashPartitioner (NewRandomPartitioner g) hasher False False"
definition NewCustomPartitioner :: "HashPartitionerOption list \<Rightarrow> generator \<Rightarrow> Partitioner" where
  "NewCustomPartitioner options g =
     foldl (\<lambda>p option. option p) (hashPartitioner (NewRandomPartitioner g) fnv1a_32 False False) options"
definition NewHashPartitioner :: "generator \<Rightarrow> Partitioner" where
  "NewHashPartitioner g = hashPartitioner (NewRandomPartitioner g) fnv1a_32 False False"
definition NewReferenceHashPartitioner :: "generator \<Rightarrow> Partitioner" where
  "NewReferenceHashPartitioner g = hashPartitioner (NewRandomPartitioner g) fnv1a_32 True False"
definition NewConsistentCRCHashPartitioner :: "generator \<Rightarrow> Partitioner" where
  "NewConsistentCRCHashPartitioner g =
     hashPartitioner (NewRandomPartitioner g) (crc32_Checksum crc32_IEEE) False True"

definition hash_choice :: "bool \<Rightarrow> bool \<Rightarrow> uint32 \<Rightarrow> int32 \<Rightarrow> int32 res" where
  "hash_choice referenceAbs hashUnsigned sum32 numPartitions =
     (if referenceAbs then rem_int32 (sum32 AND 0x7fffffff) numPartitions
      else if hashUnsigned then rem_uint32 sum32 numPartitions
      else
        res_bind (rem_int32 sum32 numPartitions) (\<lambda>partition.
          if sint partition < 0 then Ok (- partition) else Ok partition))"

fun Partition :: "Partitioner \<Rightarrow> ProducerMessage \<Rightarrow> int32 \<Rightarrow> int32 res \<times> Partitioner" where
  "Partition manualPartitioner m n = (Ok (pm_Partition m), manualPartitioner)"
| "Partition (randomPartitioner g) m n =
     (case Intn g (sint n) of (r, g') \<Rightarrow> (res_bind r (\<lambda>i. Ok (word_of_int i)), randomPartitioner g'))"
| "Partition (roundRobinPartitioner p) m n =
     (let p = (if sint p \<ge> sint n then 0 else p) in (Ok p, roundRobinPartitioner (p + 1)))"
| "Partition (hashPartitioner rnd h refAbs uns) m n =
     (case pm_Key m of
        None \<Rightarrow> (case Partition rnd m n of (r, rnd') \<Rightarrow> (r, hashPartitioner rnd' h refAbs uns))
      | Some key \<Rightarrow>
          (res_bind (Encode key) (\<lambda>bytes.
             hash_choice refAbs uns (h (case bytes of None \<Rightarrow> [] | Some bs \<Rightarrow> bs)) n),
           hashPartitioner rnd h refAbs uns))"

fun RequiresConsistency :: "Partitioner \<Rightarrow> bool" where
  "RequiresConsistency manualPartitioner = True"
| "RequiresConsistency (randomPartitioner _) = False"
| "RequiresConsistency (roundRobinPartitioner _) = False"
| "RequiresConsistency (hashPartitioner _ _ _ _) = True"

definition MessageRequiresConsistency :: "ProducerMessage \<Rightarrow> bool" where
  "MessageRequiresConsistency m \<longleftrightarrow> pm_Key m \<noteq> None"

text \<open>
  \<open>partitionMessage\<close>. Of the partitioners only the hash partitioner implements
  \<open>DynamicConsistencyPartitioner\<close>. The partitions and the writable partitions are what the client
  reports for the topic; the circuit breaker around that lookup passes its error on.
\<close>

definition partitionMessage ::
    "int32 list res \<Rightarrow> int32 list res \<Rightarrow> Partitioner \<Rightarrow> ProducerMessage \<Rightarrow>
     go_error option res \<times> Partitioner \<times> ProducerMessage" where
  "partitionMessage allPartitions writablePartitions p m =
     (let consistent =
        (case p of hashPartitioner _ _ _ _ \<Rightarrow> MessageRequiresConsistency m | _ \<Rightarrow> RequiresConsistency p)
      in case (if consistent then allPartitions else writablePartitions) of
           Err e \<Rightarrow> (Ok (Some e), p, m)
         | Panic \<Rightarrow> (Panic, p, m)
         | Diverge \<Rightarrow> (Diverge, p, m)
         | Ok partitions \<Rightarrow>
             (let numPartitions = word_of_nat (length partitions) :: int32
              in if numPartitions = 0 then (Ok (Some (KErr ErrLeaderNotAvailable)), p, m)
                 else
                   (case Partition p m numPartitions of
                      (Err e, p') \<Rightarrow> (Ok (Some e), p', m)
                    | (Panic, p') \<Rightarrow> (Panic, p', m)
                    | (Diverge, p') \<Rightarrow> (Diverge, p', m)
                    | (Ok choice, p') \<Rightarrow>
                        if sint choice < 0 \<or> sint choice \<ge> sint numPartitions
                        then (Ok (Some ErrInvalidPartition), p', m)
                        else (Ok None, p', m\<lparr>pm_Partition := partitions ! nat (sint choice)\<rparr>))))"

subsection \<open>The interface and its law\<close>

text \<open>A sequence of messages, each partitioned in the state the one before left.\<close>

primrec pick_all :: "('s \<Rightarrow> 'm \<Rightarrow> int32 \<Rightarrow> int32 res \<times> 's) \<Rightarrow> 's \<Rightarrow> 'm list \<Rightarrow> int32 \<Rightarrow> int32 res list \<times> 's" where
  "pick_all pick s [] n = ([], s)"
| "pick_all pick s (m # ms) n =
     (case pick s m n of (r, s') \<Rightarrow> (case pick_all pick s' ms n of (rs, s'') \<Rightarrow> (r # rs, s'')))"

definition in_range :: "int32 \<Rightarrow> int32 res \<Rightarrow> bool" where
  "in_range n r = (case r of Ok p \<Rightarrow> 0 \<le> sint p \<and> sint p < sint n | _ \<Rightarrow> False)"

locale partitioner =
  fixes pick :: "'s \<Rightarrow> 'm \<Rightarrow> int32 \<Rightarrow> int32 res \<times> 's"
    and inv :: "'s \<Rightarrow> bool"
    and admissible :: "'m \<Rightarrow> bool"
  assumes choice: "inv s \<Longrightarrow> admissible m \<Longrightarrow> 0 < sint n \<Longrightarrow> pick s m n = (r, s') \<Longrightarrow>
    inv s' \<and> in_range n r"
begin

lemma pick_all_range:
  "inv s \<Longrightarrow> list_all admissible ms \<Longrightarrow> 0 < sint n \<Longrightarrow> pick_all pick s ms n = (rs, s') \<Longrightarrow>
   inv s' \<and> length rs = length ms \<and> list_all (in_range n) rs"
proof (induction ms arbitrary: s rs s')
  case (Cons m ms)
  obtain r s1 where 1: "pick s m n = (r, s1)" by fastforce
  obtain rs1 s2 where 2: "pick_all pick s1 ms n = (rs1, s2)" by fastforce
  have r: "inv s1 \<and> in_range n r"
    using choice [OF Cons.prems(1) _ Cons.prems(3) 1] Cons.prems(2) by simp
  moreover have "inv s2 \<and> length rs1 = length ms \<and> list_all (in_range n) rs1"
    using r Cons.IH [OF _ _ _ 2] Cons.prems by simp
  ultimately show ?case using 1 2 Cons.prems(4) by auto
qed simp

end

subsection \<open>The choices\<close>

lemma sint_smod_nonneg:
  assumes "0 \<le> (a :: int)" "0 < b"
  shows "a smod b = a mod b"
  using assms by (cases "a = 0") (simp_all add: signed_modulo_int_def signed_divide_int_def minus_div_mult_eq_mod)

lemma abs_smod_less: "0 < (b :: int) \<Longrightarrow> \<bar>a smod b\<bar> < b"
  using smod_int_range [of b a] by (auto simp: abs_if split: if_splits)

lemma sint_word32: "- (2 ^ 31) \<le> i \<Longrightarrow> i < 2 ^ 31 \<Longrightarrow> sint (word_of_int i :: int32) = i"
  by (rule sint_word_of_int_id) simp_all

lemma sint_int32_range: "- (2 ^ 31) \<le> sint (w :: int32)" "sint (w :: int32) < 2 ^ 31"
  using sint_greater_eq [of w] sint_less [of w] by simp_all

lemma sint_and_positive: "sint (w AND 0x7fffffff :: int32) = uint w mod 2 ^ 31"
proof -
  have "w AND 0x7fffffff = take_bit 31 w"
    by (simp add: take_bit_eq_mask mask_eq_exp_minus_1)
  also have "\<dots> = word_of_int (uint (take_bit 31 w))" by simp
  also have "uint (take_bit 31 w) = uint w mod 2 ^ 31" by (subst unsigned_take_bit_eq) (rule take_bit_eq_mod)
  finally have "w AND 0x7fffffff = word_of_int (uint w mod 2 ^ 31)" .
  moreover have "0 \<le> uint w mod 2 ^ 31" "uint w mod 2 ^ 31 < 2 ^ 31" by simp_all
  ultimately show ?thesis using sint_word32 [of "uint w mod 2 ^ 31"] by simp
qed

lemma uint_eq_sint:
  assumes "0 \<le> sint (w :: int32)"
  shows "uint w = sint w"
proof -
  have "uint w = uint (word_of_int (sint w) :: int32)" by simp
  also have "\<dots> = sint w"
    unfolding uint_word_of_int using assms sint_int32_range [of w] by simp
  finally show ?thesis .
qed

lemma hash_choice_value:
  assumes n: "0 < sint n"
  shows "hash_choice True uns h n = Ok (word_of_int (uint h mod 2 ^ 31 mod sint n))"
    "hash_choice False True h n = Ok (word_of_int (uint h mod sint n))"
    "hash_choice False False h n = Ok (word_of_int \<bar>sint h smod sint n\<bar>)"
proof -
  from n have "n \<noteq> 0" by auto
  then show "hash_choice True uns h n = Ok (word_of_int (uint h mod 2 ^ 31 mod sint n))"
    using n by (simp add: hash_choice_def rem_int32_def sint_and_positive sint_smod_nonneg)
  have "h mod n = word_of_int (uint h mod uint n)" by (simp add: word_mod_def)
  then show "hash_choice False True h n = Ok (word_of_int (uint h mod sint n))"
    using \<open>n \<noteq> 0\<close> n by (simp add: hash_choice_def rem_uint32_def uint_eq_sint)
  have "\<bar>sint h smod sint n\<bar> < sint n" using n by (rule abs_smod_less)
  then have "sint (word_of_int (sint h smod sint n) :: int32) = sint h smod sint n"
    using sint_int32_range [of n] by (intro sint_word32) auto
  then show "hash_choice False False h n = Ok (word_of_int \<bar>sint h smod sint n\<bar>)"
    using \<open>n \<noteq> 0\<close> by (auto simp: hash_choice_def rem_int32_def)
qed

lemma in_range_word: "0 \<le> i \<Longrightarrow> i < sint n \<Longrightarrow> in_range n (Ok (word_of_int i))"
  using sint_int32_range [of n] by (auto simp: in_range_def sint_word32)

lemma hash_choice_range: "0 < sint n \<Longrightarrow> in_range n (hash_choice refAbs uns h n)"
  by (cases refAbs; cases uns) (auto simp: hash_choice_value abs_smod_less intro!: in_range_word)

subsection \<open>The partitioners of the package\<close>

text \<open>A partitioner that chooses by itself, with a counter that has not run backwards.\<close>

fun wf_partitioner :: "Partitioner \<Rightarrow> bool" where
  "wf_partitioner manualPartitioner = False"
| "wf_partitioner (randomPartitioner g) = True"
| "wf_partitioner (roundRobinPartitioner p) = (0 \<le> sint p)"
| "wf_partitioner (hashPartitioner rnd h refAbs uns) = wf_partitioner rnd"

definition encodable_key :: "ProducerMessage \<Rightarrow> bool" where
  "encodable_key m = (case pm_Key m of None \<Rightarrow> True | Some k \<Rightarrow> is_Ok (Encode k))"

lemma round_robin_next:
  assumes "0 \<le> sint (p :: int32)" "sint p < sint (n :: int32)"
  shows "sint (p + 1) = sint p + 1"
proof -
  have "sint (word_of_int (sint p + 1) :: int32) = sint p + 1"
    using assms sint_int32_range [of n] by (intro sint_word32) simp_all
  then show ?thesis by simp
qed

lemma Partition_choice:
  "wf_partitioner p \<Longrightarrow> encodable_key m \<Longrightarrow> 0 < sint n \<Longrightarrow> Partition p m n = (r, p') \<Longrightarrow>
   wf_partitioner p' \<and> in_range n r"
proof (induction p m n arbitrary: r p' rule: Partition.induct)
  case (2 g m n)
  then show ?case by (auto simp: Intn_def intro!: in_range_word)
next
  case (3 p m n)
  then show ?case
    using round_robin_next [of p n] round_robin_next [of 0 n]
    by (auto simp: Let_def in_range_def split: if_splits)
next
  case (4 rnd h refAbs uns m n)
  show ?case
  proof (cases "pm_Key m")
    case None
    with 4 show ?thesis by (auto split: prod.splits)
  next
    case (Some key)
    with 4 obtain b where "Encode key = Ok b" by (auto simp: encodable_key_def is_Ok_def split: res.splits)
    with 4 Some show ?thesis by (auto simp: hash_choice_range)
  qed
qed simp

interpretation part: partitioner Partition wf_partitioner encodable_key
  by unfold_locales (rule Partition_choice)

subsection \<open>Round robin\<close>

lemma round_robin_step:
  assumes "0 \<le> sint p" "sint p \<le> sint n" "0 < sint n"
  obtains p' where "Partition (roundRobinPartitioner p) m n =
      (Ok (word_of_int (sint p mod sint n)), roundRobinPartitioner p')"
    "0 \<le> sint p'" "sint p' \<le> sint n" "sint p' = sint p mod sint n + 1"
proof -
  define q where "q = (if sint p \<ge> sint n then 0 else p)"
  have q: "sint q = sint p mod sint n" "0 \<le> sint q" "sint q < sint n" using assms by (auto simp: q_def)
  have "word_of_int (sint q) = q" by simp
  then have "Partition (roundRobinPartitioner p) m n =
      (Ok (word_of_int (sint p mod sint n)), roundRobinPartitioner (q + 1))"
    unfolding q(1) by (simp add: q_def [symmetric])
  with q round_robin_next [of q n] show ?thesis by (intro that [of "q + 1"]) simp_all
qed

lemma round_robin_all:
  assumes "0 \<le> sint p" "sint p \<le> sint n" "0 < sint n"
  shows "fst (pick_all Partition (roundRobinPartitioner p) ms n) =
    map (\<lambda>i. Ok (word_of_int ((sint p + int i) mod sint n))) [0..<length ms]"
  using assms
proof (induction ms arbitrary: p)
  case (Cons m ms)
  from Cons.prems obtain p' where p': "Partition (roundRobinPartitioner p) m n =
      (Ok (word_of_int (sint p mod sint n)), roundRobinPartitioner p')"
    "0 \<le> sint p'" "sint p' \<le> sint n" "sint p' = sint p mod sint n + 1"
    by (rule round_robin_step)
  have "(sint p' + int i) mod sint n = (sint p + int (Suc i)) mod sint n" for i
    using mod_add_left_eq [of "sint p" "sint n" "1 + int i"] by (simp only: p'(4) of_nat_Suc add.assoc)
  then have "fst (pick_all Partition (roundRobinPartitioner p') ms n) =
      map (\<lambda>i. Ok (word_of_int ((sint p + int (Suc i)) mod sint n))) [0..<length ms]"
    using Cons.IH [OF p'(2,3) Cons.prems(3)] by simp
  then show ?case
    using p'(1) by (auto simp: map_upt_Suc simp del: upt_Suc Partition.simps split: prod.splits)
qed simp

subsection \<open>The producer's use of a partitioner\<close>

lemma partitionMessage_ok:
  assumes "partitionMessage all writable p m = (Ok None, p', m')"
    and "\<And>ps. all = Ok ps \<or> writable = Ok ps \<Longrightarrow> length ps \<le> 2147483647"
  shows "\<exists>ps. (all = Ok ps \<or> writable = Ok ps) \<and> pm_Partition m' \<in> set ps \<and>
    m' = m\<lparr>pm_Partition := pm_Partition m'\<rparr>"
proof -
  let ?c = "case p of hashPartitioner _ _ _ _ \<Rightarrow> MessageRequiresConsistency m | _ \<Rightarrow> RequiresConsistency p"
  obtain ps where ps: "(if ?c then all else writable) = Ok ps"
    using assms(1) by (auto simp: partitionMessage_def Let_def split: res.splits)
  then have src: "all = Ok ps \<or> writable = Ok ps" by (auto split: if_splits)
  note len = sint_len32 [OF assms(2) [OF src]]
  obtain q p1 where q: "Partition p m (word_of_nat (length ps)) = (q, p1)" by fastforce
  from assms(1) ps q obtain c where "q = Ok c" "0 \<le> sint c" "sint c < int (length ps)"
      "m' = m\<lparr>pm_Partition := ps ! nat (sint c)\<rparr>"
    by (cases q) (auto simp: partitionMessage_def len Let_def split: if_splits)
  with src show ?thesis by (auto intro!: exI [of _ ps])
qed

end
