(* ===== verification/Admin_Common.thy ===== *)
theory Admin_Common
  imports Wire_Steps
begin

text \<open>
  Pieces that the administration messages share: named constants of the Go type \<open>int\<close> that the wire
  carries in a byte, arrays that are sent as null when they are empty, maps that are sent in the order
  of their keys, and an error that is returned one call late.
\<close>

subsection \<open>Values\<close>

text \<open>The Go type \<open>int\<close> behind a named constant: the wire carries its low byte.\<close>

definition enc_small :: "int64 \<Rightarrow> pe_op list" where
  "enc_small x = [putInt8 (ucast x)]"

definition dec_small :: "int64 dec" where
  "dec_small = dbind getInt8 (\<lambda>b. dreturn (scast b))"

definition wf_small :: "int64 \<Rightarrow> bool" where
  "wf_small x \<longleftrightarrow> scast (ucast x :: int8) = x"

lemma codes_small: "wf_small x \<Longrightarrow> codes dec_small (enc_small x) x"
  by (auto simp: codes_def enc_small_def dec_small_def wf_small_def ser_simps dec_steps intro!: readsI)

text \<open>A string that is written as such and read as a nullable one.\<close>

lemma codes_string_nullable: "length s \<le> 32767 \<Longrightarrow> codes getNullableString [putString s] (Some s)"
  using codes_calls(11) [of "Some s"] by (simp add: codes_def ser_simps ser_nstring_def)

text \<open>
  An error that is returned only after the next call: the call runs, and an error of its own wins.
\<close>

definition dec_deferred :: "'a dec \<Rightarrow> 'b dec \<Rightarrow> 'a dec" where
  "dec_deferred d after =
     dbind (dcatch (dbind d (\<lambda>x. dreturn (Inr x))) (\<lambda>e. dreturn (Inl e))) (\<lambda>r.
     dbind after (\<lambda>_. case r of Inl e \<Rightarrow> derror e | Inr x \<Rightarrow> dreturn x))"

lemma codes_deferred:
  "codes d ops x \<Longrightarrow> codes after ops' y \<Longrightarrow> codes (dec_deferred d after) (ops @ ops') x"
  by (auto simp: codes_def dec_deferred_def ser_simps dec_steps reads_at intro!: readsI)

subsection \<open>Arrays that are null when empty\<close>

text \<open>
  Three ways to send them: a length of -1 that the decoder takes for 0, an int32 of -1 that it skips,
  and an int32 of -1 where it skips every length that is not positive.
\<close>

definition enc_null_array :: "('a \<Rightarrow> pe_op list) \<Rightarrow> 'a list \<Rightarrow> pe_op list" where
  "enc_null_array enc xs =
     putArrayLength (if xs = [] then -1 else int (length xs)) # concat (map enc xs)"

definition dec_null_array :: "'a dec \<Rightarrow> 'a list dec" where
  "dec_null_array d =
     dbind getArrayLength (\<lambda>n. let n = (if n = -1 then 0 else n) in
       dbind (dmake n) (\<lambda>_. dec_times (nat n) d))"

definition enc_null_strings :: "string list \<Rightarrow> pe_op list" where
  "enc_null_strings xs = (if xs = [] then [putInt32 (-1)] else [putStringArray xs])"

definition dec_null_strings :: "string list dec" where
  "dec_null_strings =
     dbind getArrayLength (\<lambda>n.
       if n = -1 then dreturn []
       else dbind (dmake n) (\<lambda>_. dec_times (nat n) getString))"

definition enc_positive_array :: "('a \<Rightarrow> pe_op list) \<Rightarrow> 'a list \<Rightarrow> pe_op list" where
  "enc_positive_array enc xs = (if xs = [] then [putInt32 (-1)] else enc_array enc xs)"

definition dec_positive_array :: "'a dec \<Rightarrow> 'a list dec" where
  "dec_positive_array d =
     dbind getInt32 (\<lambda>n.
       if sint n \<le> 0 then dreturn []
       else dbind (dmake (sint n)) (\<lambda>_. dec_times (nat (sint n)) d))"

lemma codes_null_array:
  assumes "\<And>x. x \<in> set xs \<Longrightarrow> codes d (enc x) x" "\<And>x. x \<in> set xs \<Longrightarrow> ser_ops (enc x) \<noteq> []"
    and "length xs \<le> 131070"
  shows "codes (dec_null_array d) (enc_null_array enc xs) xs"
proof -
  let ?b = "concat (map (\<lambda>x. ser_ops (enc x)) xs)"
  have t: "reads (dec_times (length xs) d) ?b xs"
    using assms(1) by (intro reads_times) (simp add: codes_def)
  have "length xs \<le> length ?b" using assms(2) by (rule length_le_concat_map)
  then have "reads (dec_null_array d) (ser_array_length (if xs = [] then -1 else int (length xs)) @ ?b) xs"
    using assms(3) reads_at [OF t]
    by (intro readsI) (cases "xs = []"; simp add: dec_null_array_def dec_steps Let_def)
  then show ?thesis
    using assms by (auto simp: codes_def enc_null_array_def ser_simps wire_ok o_def)
qed

lemma codes_null_strings:
  assumes "length xs \<le> 131070" "list_all (\<lambda>s. length s \<le> 32767) xs"
  shows "codes dec_null_strings (enc_null_strings xs) xs"
proof -
  let ?b = "concat (map ser_string xs)"
  have t: "reads (dec_times (length xs) getString) ?b xs"
    using assms(2) by (intro reads_times) (simp add: list_all_iff reads_prims)
  have "length xs \<le> length ?b" by (rule length_le_concat_map) simp
  then have "reads dec_null_strings (ser_array_length (if xs = [] then -1 else int (length xs)) @ ?b) xs"
    using assms(1) reads_at [OF t]
    by (intro readsI) (cases "xs = []"; simp add: dec_null_strings_def dec_steps)
  then show ?thesis
    using assms
    by (auto simp: codes_def enc_null_strings_def ser_simps wire_ok o_def list_all_iff
        ser_array_length_def ser_strings_def split: if_splits)
qed

lemma codes_positive_array:
  assumes "\<And>x. x \<in> set xs \<Longrightarrow> codes d (enc x) x" "length xs \<le> 2147483647"
  shows "codes (dec_positive_array d) (enc_positive_array enc xs) xs"
proof -
  let ?b = "concat (map (\<lambda>x. ser_ops (enc x)) xs)"
  have t: "reads (dec_times (length xs) d) ?b xs"
    using assms(1) by (intro reads_times) (simp add: codes_def)
  have n: "sint (word_of_int (int (length xs)) :: int32) = int (length xs)"
    using assms(2) by (intro sint_word_of_int_id) simp_all
  have "reads (dec_positive_array d) (be32 (if xs = [] then -1 else word_of_int (int (length xs))) @ ?b) xs"
    using n reads_at [OF t]
    by (intro readsI) (cases "xs = []"; simp add: dec_positive_array_def dec_steps)
  then show ?thesis
    using assms
    by (auto simp: codes_def enc_positive_array_def enc_array_def ser_simps wire_ok o_def
        ser_array_length_def split: if_splits)
qed

text \<open>The compact form: a length of -1, which the decoder would take for 0, is never read.\<close>

definition dec_null_carray :: "'a dec \<Rightarrow> 'a list dec" where
  "dec_null_carray d =
     dbind getCompactArrayLength (\<lambda>n. let n = (if n = -1 then 0 else n) in
       dbind (dmake n) (\<lambda>_. dec_times (nat n) d))"

lemma codes_null_carray:
  assumes "\<And>x. x \<in> set xs \<Longrightarrow> codes d (enc x) x" "length xs \<le> 2147483647"
  shows "codes (dec_null_carray d) (enc_carray enc xs) xs"
proof -
  have t: "reads (dec_times (length xs) d) (concat (map (\<lambda>x. ser_ops (enc x)) xs)) xs"
    using assms(1) by (intro reads_times) (simp add: codes_def)
  have "ops_ok (enc_carray enc xs)"
    using assms(1) by (simp add: enc_carray_def ops_ok_concat codes_def)
  then show ?thesis
    unfolding codes_def ser_ops_enc_carray
    using assms(2) reads_at [OF t] by (auto intro!: readsI simp: dec_null_carray_def dec_steps Let_def)
qed

subsection \<open>Maps in the order of their keys\<close>

text \<open>
  The keys are collected and sorted before they are written. Strings are compared byte by byte, and
  partitions as signed numbers.
\<close>

definition enc_sorted_map :: "('k \<Rightarrow> 'o :: linorder) \<Rightarrow> ('k \<Rightarrow> pe_op) \<Rightarrow> ('v \<Rightarrow> pe_op list) \<Rightarrow> ('k \<times> 'v) list \<Rightarrow> pe_op list" where
  "enc_sorted_map key put enc m =
     putArrayLength (int (length m)) # concat (map (\<lambda>(k, v). put k # enc v) (sort_key (\<lambda>kv. key (fst kv)) m))"

lemma enc_sorted_map_nonempty [simp]: "ser_ops (enc_sorted_map key put enc m) \<noteq> []"
  by (simp add: enc_sorted_map_def ser_simps)

lemma codes_sorted_map:
  assumes "\<And>k v. (k, v) \<in> set m \<Longrightarrow> codes getK [put k] k" "\<And>k v. (k, v) \<in> set m \<Longrightarrow> codes d (enc v) v"
    and "\<And>k v. (k, v) \<in> set m \<Longrightarrow> ser_ops [put k] \<noteq> []"
    and "length m \<le> 131070" "distinct (map fst m)" "sorted (map (\<lambda>kv. key (fst kv)) m)"
  shows "codes (dec_map (dec_pair getK d)) (enc_sorted_map key put enc m) m"
proof -
  have "sort_key (\<lambda>kv. key (fst kv)) m = m" using assms(6) by (rule sort_key_id_if_sorted)
  then have e: "enc_sorted_map key put enc m = enc_array (\<lambda>(k, v). put k # enc v) m"
    by (simp add: enc_sorted_map_def enc_array_def)
  have "codes (dec_pair getK d) (put k # enc v) (k, v)" if "(k, v) \<in> set m" for k v
    unfolding dec_pair_def using assms(1,2) [OF that]
    by (auto intro!: codes_step codes_last [of d "enc v" v] codes_return)
  moreover have "ser_ops (put k # enc v) \<noteq> []" if "(k, v) \<in> set m" for k v
    using assms(3) [OF that] by (simp add: ser_simps)
  ultimately show ?thesis
    unfolding e using assms(4,5) by (intro codes_map) auto
qed

end
