(* ===== verification/Acl_Messages.thy ===== *)
theory Acl_Messages
  imports Admin_Common
begin

text \<open>
  Access control: \<open>acl_types.go\<close>, \<open>acl_bindings.go\<close>, \<open>acl_filter.go\<close>, \<open>acl_create_*.go\<close>,
  \<open>acl_delete_*.go\<close>, \<open>acl_describe_*.go\<close>. The constants are of the Go type \<open>int\<close> and are sent as
  one byte. Every message type interprets \<open>wire_codec\<close>; the names of the constants are read back as
  the constants.
\<close>

subsection \<open>Names of the constants (acl\_types.go)\<close>


text \<open>
  \<open>strings.ToLower\<close>: a string of ASCII characters is lowered byte by byte, any other one by the case
  tables of Unicode, which are a parameter.
\<close>

definition ToLower_char :: "char \<Rightarrow> char" where
  "ToLower_char c = (if CHR ''A'' \<le> c \<and> c \<le> CHR ''Z'' then char_of (of_char c + 32 :: nat) else c)"

definition strings_ToLower :: "(string \<Rightarrow> string) \<Rightarrow> string \<Rightarrow> string" where
  "strings_ToLower unicode s =
     (if list_all (\<lambda>c. of_char c < (128 :: nat)) s then map ToLower_char s else unicode s)"

lemma ToLower_names:
  "strings_ToLower u ''All'' = ''all''"
  "strings_ToLower u ''Allow'' = ''allow''"
  "strings_ToLower u ''Alter'' = ''alter''"
  "strings_ToLower u ''AlterConfigs'' = ''alterconfigs''"
  "strings_ToLower u ''Any'' = ''any''"
  "strings_ToLower u ''Cluster'' = ''cluster''"
  "strings_ToLower u ''ClusterAction'' = ''clusteraction''"
  "strings_ToLower u ''Create'' = ''create''"
  "strings_ToLower u ''DelegationToken'' = ''delegationtoken''"
  "strings_ToLower u ''Delete'' = ''delete''"
  "strings_ToLower u ''Deny'' = ''deny''"
  "strings_ToLower u ''Describe'' = ''describe''"
  "strings_ToLower u ''DescribeConfigs'' = ''describeconfigs''"
  "strings_ToLower u ''Group'' = ''group''"
  "strings_ToLower u ''IdempotentWrite'' = ''idempotentwrite''"
  "strings_ToLower u ''Literal'' = ''literal''"
  "strings_ToLower u ''Match'' = ''match''"
  "strings_ToLower u ''Prefixed'' = ''prefixed''"
  "strings_ToLower u ''Read'' = ''read''"
  "strings_ToLower u ''Topic'' = ''topic''"
  "strings_ToLower u ''TransactionalID'' = ''transactionalid''"
  "strings_ToLower u ''Unknown'' = ''unknown''"
  "strings_ToLower u ''Write'' = ''write''"
  by code_simp+

type_synonym AclOperation = int64

abbreviation (input) AclOperationUnknown :: AclOperation where "AclOperationUnknown \<equiv> 0"
abbreviation (input) AclOperationAny :: AclOperation where "AclOperationAny \<equiv> 1"
abbreviation (input) AclOperationAll :: AclOperation where "AclOperationAll \<equiv> 2"
abbreviation (input) AclOperationRead :: AclOperation where "AclOperationRead \<equiv> 3"
abbreviation (input) AclOperationWrite :: AclOperation where "AclOperationWrite \<equiv> 4"
abbreviation (input) AclOperationCreate :: AclOperation where "AclOperationCreate \<equiv> 5"
abbreviation (input) AclOperationDelete :: AclOperation where "AclOperationDelete \<equiv> 6"
abbreviation (input) AclOperationAlter :: AclOperation where "AclOperationAlter \<equiv> 7"
abbreviation (input) AclOperationDescribe :: AclOperation where "AclOperationDescribe \<equiv> 8"
abbreviation (input) AclOperationClusterAction :: AclOperation where "AclOperationClusterAction \<equiv> 9"
abbreviation (input) AclOperationDescribeConfigs :: AclOperation where "AclOperationDescribeConfigs \<equiv> 10"
abbreviation (input) AclOperationAlterConfigs :: AclOperation where "AclOperationAlterConfigs \<equiv> 11"
abbreviation (input) AclOperationIdempotentWrite :: AclOperation where "AclOperationIdempotentWrite \<equiv> 12"

definition AclOperation_names :: "(AclOperation \<times> string) list" where
  "AclOperation_names =
     [(AclOperationUnknown, ''Unknown''), (AclOperationAny, ''Any''), (AclOperationAll, ''All''),
      (AclOperationRead, ''Read''), (AclOperationWrite, ''Write''),
      (AclOperationCreate, ''Create''), (AclOperationDelete, ''Delete''),
      (AclOperationAlter, ''Alter''), (AclOperationDescribe, ''Describe''),
      (AclOperationClusterAction, ''ClusterAction''),
      (AclOperationDescribeConfigs, ''DescribeConfigs''),
      (AclOperationAlterConfigs, ''AlterConfigs''),
      (AclOperationIdempotentWrite, ''IdempotentWrite'')]"

definition AclOperation_String :: "AclOperation \<Rightarrow> string" where
  "AclOperation_String a = (case map_of AclOperation_names a of None \<Rightarrow> ''Unknown'' | Some s \<Rightarrow> s)"

definition AclOperation_MarshalText :: "AclOperation \<Rightarrow> string" where
  "AclOperation_MarshalText a = AclOperation_String a"

definition AclOperation_UnmarshalText :: "(string \<Rightarrow> string) \<Rightarrow> string \<Rightarrow> AclOperation \<times> go_error option" where
  "AclOperation_UnmarshalText unicode text =
     (let normalized = strings_ToLower unicode text;
          mapping = [(''unknown'', AclOperationUnknown), (''any'', AclOperationAny), (''all'', AclOperationAll),
           (''read'', AclOperationRead), (''write'', AclOperationWrite),
           (''create'', AclOperationCreate), (''delete'', AclOperationDelete),
           (''alter'', AclOperationAlter), (''describe'', AclOperationDescribe),
           (''clusteraction'', AclOperationClusterAction),
           (''describeconfigs'', AclOperationDescribeConfigs),
           (''alterconfigs'', AclOperationAlterConfigs),
           (''idempotentwrite'', AclOperationIdempotentWrite)] in
      case map_of mapping normalized of
        None \<Rightarrow> (AclOperationUnknown, Some (OtherError (''no acl operation with name '' @ normalized)))
      | Some x \<Rightarrow> (x, None))"

lemma AclOperation_text:
  "AclOperation_UnmarshalText unicode (AclOperation_MarshalText a) = (if a \<in> fst ` set AclOperation_names then a else 0, None)"
  by (simp add: AclOperation_UnmarshalText_def AclOperation_MarshalText_def AclOperation_String_def AclOperation_names_def
      ToLower_names Let_def)

type_synonym AclPermissionType = int64

abbreviation (input) AclPermissionUnknown :: AclPermissionType where "AclPermissionUnknown \<equiv> 0"
abbreviation (input) AclPermissionAny :: AclPermissionType where "AclPermissionAny \<equiv> 1"
abbreviation (input) AclPermissionDeny :: AclPermissionType where "AclPermissionDeny \<equiv> 2"
abbreviation (input) AclPermissionAllow :: AclPermissionType where "AclPermissionAllow \<equiv> 3"

definition AclPermissionType_names :: "(AclPermissionType \<times> string) list" where
  "AclPermissionType_names =
     [(AclPermissionUnknown, ''Unknown''), (AclPermissionAny, ''Any''),
      (AclPermissionDeny, ''Deny''), (AclPermissionAllow, ''Allow'')]"

definition AclPermissionType_String :: "AclPermissionType \<Rightarrow> string" where
  "AclPermissionType_String a = (case map_of AclPermissionType_names a of None \<Rightarrow> ''Unknown'' | Some s \<Rightarrow> s)"

definition AclPermissionType_MarshalText :: "AclPermissionType \<Rightarrow> string" where
  "AclPermissionType_MarshalText a = AclPermissionType_String a"

definition AclPermissionType_UnmarshalText :: "(string \<Rightarrow> string) \<Rightarrow> string \<Rightarrow> AclPermissionType \<times> go_error option" where
  "AclPermissionType_UnmarshalText unicode text =
     (let normalized = strings_ToLower unicode text;
          mapping = [(''unknown'', AclPermissionUnknown), (''any'', AclPermissionAny),
           (''deny'', AclPermissionDeny), (''allow'', AclPermissionAllow)] in
      case map_of mapping normalized of
        None \<Rightarrow> (AclPermissionUnknown, Some (OtherError (''no acl permission with name '' @ normalized)))
      | Some x \<Rightarrow> (x, None))"

lemma AclPermissionType_text:
  "AclPermissionType_UnmarshalText unicode (AclPermissionType_MarshalText a) = (if a \<in> fst ` set AclPermissionType_names then a else 0, None)"
  by (simp add: AclPermissionType_UnmarshalText_def AclPermissionType_MarshalText_def AclPermissionType_String_def AclPermissionType_names_def
      ToLower_names Let_def)

type_synonym AclResourceType = int64

abbreviation (input) AclResourceUnknown :: AclResourceType where "AclResourceUnknown \<equiv> 0"
abbreviation (input) AclResourceAny :: AclResourceType where "AclResourceAny \<equiv> 1"
abbreviation (input) AclResourceTopic :: AclResourceType where "AclResourceTopic \<equiv> 2"
abbreviation (input) AclResourceGroup :: AclResourceType where "AclResourceGroup \<equiv> 3"
abbreviation (input) AclResourceCluster :: AclResourceType where "AclResourceCluster \<equiv> 4"
abbreviation (input) AclResourceTransactionalID :: AclResourceType where "AclResourceTransactionalID \<equiv> 5"
abbreviation (input) AclResourceDelegationToken :: AclResourceType where "AclResourceDelegationToken \<equiv> 6"

definition AclResourceType_names :: "(AclResourceType \<times> string) list" where
  "AclResourceType_names =
     [(AclResourceUnknown, ''Unknown''), (AclResourceAny, ''Any''),
      (AclResourceTopic, ''Topic''), (AclResourceGroup, ''Group''),
      (AclResourceCluster, ''Cluster''), (AclResourceTransactionalID, ''TransactionalID''),
      (AclResourceDelegationToken, ''DelegationToken'')]"

definition AclResourceType_String :: "AclResourceType \<Rightarrow> string" where
  "AclResourceType_String a = (case map_of AclResourceType_names a of None \<Rightarrow> ''Unknown'' | Some s \<Rightarrow> s)"

definition AclResourceType_MarshalText :: "AclResourceType \<Rightarrow> string" where
  "AclResourceType_MarshalText a = AclResourceType_String a"

definition AclResourceType_UnmarshalText :: "(string \<Rightarrow> string) \<Rightarrow> string \<Rightarrow> AclResourceType \<times> go_error option" where
  "AclResourceType_UnmarshalText unicode text =
     (let normalized = strings_ToLower unicode text;
          mapping = [(''unknown'', AclResourceUnknown), (''any'', AclResourceAny),
           (''topic'', AclResourceTopic), (''group'', AclResourceGroup),
           (''cluster'', AclResourceCluster), (''transactionalid'', AclResourceTransactionalID),
           (''delegationtoken'', AclResourceDelegationToken)] in
      case map_of mapping normalized of
        None \<Rightarrow> (AclResourceUnknown, Some (OtherError (''no acl resource with name '' @ normalized)))
      | Some x \<Rightarrow> (x, None))"

lemma AclResourceType_text:
  "AclResourceType_UnmarshalText unicode (AclResourceType_MarshalText a) = (if a \<in> fst ` set AclResourceType_names then a else 0, None)"
  by (simp add: AclResourceType_UnmarshalText_def AclResourceType_MarshalText_def AclResourceType_String_def AclResourceType_names_def
      ToLower_names Let_def)

type_synonym AclResourcePatternType = int64

abbreviation (input) AclPatternUnknown :: AclResourcePatternType where "AclPatternUnknown \<equiv> 0"
abbreviation (input) AclPatternAny :: AclResourcePatternType where "AclPatternAny \<equiv> 1"
abbreviation (input) AclPatternMatch :: AclResourcePatternType where "AclPatternMatch \<equiv> 2"
abbreviation (input) AclPatternLiteral :: AclResourcePatternType where "AclPatternLiteral \<equiv> 3"
abbreviation (input) AclPatternPrefixed :: AclResourcePatternType where "AclPatternPrefixed \<equiv> 4"

definition AclResourcePatternType_names :: "(AclResourcePatternType \<times> string) list" where
  "AclResourcePatternType_names =
     [(AclPatternUnknown, ''Unknown''), (AclPatternAny, ''Any''), (AclPatternMatch, ''Match''),
      (AclPatternLiteral, ''Literal''), (AclPatternPrefixed, ''Prefixed'')]"

definition AclResourcePatternType_String :: "AclResourcePatternType \<Rightarrow> string" where
  "AclResourcePatternType_String a = (case map_of AclResourcePatternType_names a of None \<Rightarrow> ''Unknown'' | Some s \<Rightarrow> s)"

definition AclResourcePatternType_MarshalText :: "AclResourcePatternType \<Rightarrow> string" where
  "AclResourcePatternType_MarshalText a = AclResourcePatternType_String a"

definition AclResourcePatternType_UnmarshalText :: "(string \<Rightarrow> string) \<Rightarrow> string \<Rightarrow> AclResourcePatternType \<times> go_error option" where
  "AclResourcePatternType_UnmarshalText unicode text =
     (let normalized = strings_ToLower unicode text;
          mapping = [(''unknown'', AclPatternUnknown), (''any'', AclPatternAny), (''match'', AclPatternMatch),
           (''literal'', AclPatternLiteral), (''prefixed'', AclPatternPrefixed)] in
      case map_of mapping normalized of
        None \<Rightarrow> (AclPatternUnknown, Some (OtherError (''no acl resource pattern with name '' @ normalized)))
      | Some x \<Rightarrow> (x, None))"

lemma AclResourcePatternType_text:
  "AclResourcePatternType_UnmarshalText unicode (AclResourcePatternType_MarshalText a) = (if a \<in> fst ` set AclResourcePatternType_names then a else 0, None)"
  by (simp add: AclResourcePatternType_UnmarshalText_def AclResourcePatternType_MarshalText_def AclResourcePatternType_String_def AclResourcePatternType_names_def
      ToLower_names Let_def)

subsection \<open>Bindings (acl\_bindings.go)\<close>


text \<open>
  The pattern type is part of version 1 only. An unknown one is sent, and from then on held by the
  resource, as the literal one.
\<close>

record Resource =
  rsc_ResourceType :: AclResourceType
  rsc_ResourceName :: string
  rsc_ResourcePatternType :: AclResourcePatternType

definition Resource_encoded :: "int \<Rightarrow> Resource \<Rightarrow> Resource" where
  "Resource_encoded version r =
     (if version = 1 \<and> rsc_ResourcePatternType r = AclPatternUnknown
      then r\<lparr>rsc_ResourcePatternType := AclPatternLiteral\<rparr> else r)"

definition enc_Resource :: "int \<Rightarrow> Resource \<Rightarrow> pe_op list" where
  "enc_Resource version r =
     enc_small (rsc_ResourceType r) @
     [putString (rsc_ResourceName r)] @
     (if version = 1 then enc_small (rsc_ResourcePatternType (Resource_encoded version r)) else [])"

definition dec_Resource :: "int \<Rightarrow> Resource dec" where
  "dec_Resource version =
     dbind dec_small (\<lambda>resourceType.
     dbind getString (\<lambda>resourceName.
     dbind (if version = 1 then dec_small else dreturn 0) (\<lambda>pattern.
       dreturn \<lparr>rsc_ResourceType = resourceType, rsc_ResourceName = resourceName,
         rsc_ResourcePatternType = pattern\<rparr>)))"

definition wf_Resource :: "int \<Rightarrow> Resource \<Rightarrow> bool" where
  "wf_Resource version r \<longleftrightarrow> wf_small (rsc_ResourceType r) \<and> length (rsc_ResourceName r) \<le> 32767 \<and>
     (if version = 1 then wf_small (rsc_ResourcePatternType r) \<and> rsc_ResourcePatternType r \<noteq> AclPatternUnknown
      else rsc_ResourcePatternType r = 0)"

lemma enc_Resource_nonempty: "ser_ops (enc_Resource version r) \<noteq> []"
  by (simp add: enc_Resource_def enc_small_def ser_simps)

interpretation rsc: wire_elem "enc_Resource v" dec_Resource "\<lambda>_. v" "wf_Resource v" for v
  by (rule wire_elemI [OF _ enc_Resource_nonempty], unfold enc_Resource_def dec_Resource_def wf_Resource_def
      Resource_encoded_def)
    (rule codes_rules codes_bind [OF codes_small] codes_last [OF codes_small] codes_small |
      (auto simp: codes_simps; fail))+

text \<open>Encoding a resource twice gives the same bytes, although the first time may change it.\<close>

lemma Resource_encode_again: "enc_Resource version (Resource_encoded version r) = enc_Resource version r"
  by (simp add: enc_Resource_def Resource_encoded_def)

record Acl =
  acl_Principal :: string
  acl_Host :: string
  acl_Operation :: int64
  acl_PermissionType :: int64

definition enc_Acl :: "Acl \<Rightarrow> pe_op list" where
  "enc_Acl r =
     [putString (acl_Principal r), putString (acl_Host r)] @
     enc_small (acl_Operation r) @
     enc_small (acl_PermissionType r)"

definition dec_Acl :: "Acl dec" where
  "dec_Acl =
     dbind getString (\<lambda>principal.
     dbind getString (\<lambda>host.
     dbind dec_small (\<lambda>operation.
     dbind dec_small (\<lambda>permissionType.
       dreturn \<lparr>acl_Principal = principal, acl_Host = host, acl_Operation = operation,
         acl_PermissionType = permissionType\<rparr>))))"

definition wf_Acl :: "Acl \<Rightarrow> bool" where
  "wf_Acl r \<longleftrightarrow> length (acl_Principal r) \<le> 32767 \<and>
     length (acl_Host r) \<le> 32767 \<and>
     wf_small (acl_Operation r) \<and>
     wf_small (acl_PermissionType r)"

lemma enc_Acl_nonempty: "ser_ops (enc_Acl r) \<noteq> []"
  by (simp add: enc_Acl_def ser_simps enc_small_def)

interpretation acl: wire_elem enc_Acl "\<lambda>_. dec_Acl" "\<lambda>_. 0"
  wf_Acl
  by (rule wire_elemI [OF _ enc_Acl_nonempty], unfold enc_Acl_def dec_Acl_def
      wf_Acl_def)
    (rule codes_rules
      codes_bind [OF codes_small] codes_last [OF codes_small] codes_small | (auto simp: codes_simps; fail))+

record ResourceAcls =
  rac_Resource :: Resource
  rac_Acls :: "Acl list"

definition enc_ResourceAcls :: "int \<Rightarrow> ResourceAcls \<Rightarrow> pe_op list" where
  "enc_ResourceAcls version r =
     enc_Resource version (rac_Resource r) @
     enc_array enc_Acl (rac_Acls r)"

definition dec_ResourceAcls :: "int \<Rightarrow> ResourceAcls dec" where
  "dec_ResourceAcls version =
     dbind (dec_Resource version) (\<lambda>resource.
     dbind (dec_array dec_Acl) (\<lambda>acls.
       dreturn \<lparr>rac_Resource = resource, rac_Acls = acls\<rparr>))"

definition wf_ResourceAcls :: "int \<Rightarrow> ResourceAcls \<Rightarrow> bool" where
  "wf_ResourceAcls version r \<longleftrightarrow> wf_Resource version (rac_Resource r) \<and>
     length (rac_Acls r) \<le> 131070 \<and> list_all wf_Acl (rac_Acls r)"

lemma enc_ResourceAcls_nonempty: "ser_ops (enc_ResourceAcls version r) \<noteq> []"
  by (simp add: enc_ResourceAcls_def ser_simps enc_Resource_nonempty)

interpretation rac: wire_elem "enc_ResourceAcls v" dec_ResourceAcls "\<lambda>_. v"
  "wf_ResourceAcls v" for v
  by (rule wire_elemI [OF _ enc_ResourceAcls_nonempty], unfold enc_ResourceAcls_def dec_ResourceAcls_def
      wf_ResourceAcls_def)
    (rule codes_rules
      codes_bind [OF rsc.codes] codes_last [OF rsc.codes] | (auto simp: codes_simps intro!: acl.codes acl.nonempty rsc.codes rsc.nonempty; fail))+

subsection \<open>Filters (acl\_filter.go)\<close>

text \<open>The request that holds a filter sets its version, before it is encoded and before it is decoded.\<close>

record AclFilter =
  flt_Version :: int
  flt_ResourceType :: int64
  flt_ResourceName :: nstring
  flt_ResourcePatternTypeFilter :: int64
  flt_Principal :: nstring
  flt_Host :: nstring
  flt_Operation :: int64
  flt_PermissionType :: int64

definition enc_AclFilter :: "int \<Rightarrow> AclFilter \<Rightarrow> pe_op list" where
  "enc_AclFilter version r =
     enc_small (flt_ResourceType r) @
     [putNullableString (flt_ResourceName r)] @
     (if version = 1 then enc_small (flt_ResourcePatternTypeFilter r) else []) @
     [putNullableString (flt_Principal r), putNullableString (flt_Host r)] @
     enc_small (flt_Operation r) @
     enc_small (flt_PermissionType r)"

definition dec_AclFilter :: "int \<Rightarrow> AclFilter dec" where
  "dec_AclFilter version =
     dbind dec_small (\<lambda>resourceType.
     dbind getNullableString (\<lambda>resourceName.
     dbind (if version = 1 then dec_small else dreturn 0) (\<lambda>resourcePatternTypeFilter.
     dbind getNullableString (\<lambda>principal.
     dbind getNullableString (\<lambda>host.
     dbind dec_small (\<lambda>operation.
     dbind dec_small (\<lambda>permissionType.
       dreturn \<lparr>flt_Version = version, flt_ResourceType = resourceType, flt_ResourceName = resourceName,
         flt_ResourcePatternTypeFilter = resourcePatternTypeFilter, flt_Principal = principal,
         flt_Host = host, flt_Operation = operation, flt_PermissionType = permissionType\<rparr>)))))))"

definition wf_AclFilter :: "int \<Rightarrow> AclFilter \<Rightarrow> bool" where
  "wf_AclFilter version r \<longleftrightarrow> flt_Version r = version \<and>
     wf_small (flt_ResourceType r) \<and>
     pred_option (\<lambda>s. length s \<le> 32767) (flt_ResourceName r) \<and>
     (if version = 1 then wf_small (flt_ResourcePatternTypeFilter r) else flt_ResourcePatternTypeFilter r = 0) \<and>
     pred_option (\<lambda>s. length s \<le> 32767) (flt_Principal r) \<and>
     pred_option (\<lambda>s. length s \<le> 32767) (flt_Host r) \<and>
     wf_small (flt_Operation r) \<and>
     wf_small (flt_PermissionType r)"

lemma enc_AclFilter_nonempty: "ser_ops (enc_AclFilter version r) \<noteq> []"
  by (simp add: enc_AclFilter_def ser_simps enc_small_def)

interpretation flt: wire_elem "enc_AclFilter v" dec_AclFilter "\<lambda>_. v"
  "wf_AclFilter v" for v
  by (rule wire_elemI [OF _ enc_AclFilter_nonempty], unfold enc_AclFilter_def dec_AclFilter_def
      wf_AclFilter_def)
    (rule codes_rules
      codes_bind [OF codes_small] codes_last [OF codes_small] codes_small | (auto simp: codes_simps; fail))+

subsection \<open>CreateAcls\<close>

record AclCreation =
  acr_Resource :: Resource
  acr_Acl :: Acl

definition enc_AclCreation :: "int \<Rightarrow> AclCreation \<Rightarrow> pe_op list" where
  "enc_AclCreation version r =
     enc_Resource version (acr_Resource r) @
     enc_Acl (acr_Acl r)"

definition dec_AclCreation :: "int \<Rightarrow> AclCreation dec" where
  "dec_AclCreation version =
     dbind (dec_Resource version) (\<lambda>resource.
     dbind dec_Acl (\<lambda>acl.
       dreturn \<lparr>acr_Resource = resource, acr_Acl = acl\<rparr>))"

definition wf_AclCreation :: "int \<Rightarrow> AclCreation \<Rightarrow> bool" where
  "wf_AclCreation version r \<longleftrightarrow> wf_Resource version (acr_Resource r) \<and>
     wf_Acl (acr_Acl r)"

lemma enc_AclCreation_nonempty: "ser_ops (enc_AclCreation version r) \<noteq> []"
  by (simp add: enc_AclCreation_def ser_simps enc_Resource_nonempty)

interpretation acr: wire_elem "enc_AclCreation v" dec_AclCreation "\<lambda>_. v"
  "wf_AclCreation v" for v
  by (rule wire_elemI [OF _ enc_AclCreation_nonempty], unfold enc_AclCreation_def dec_AclCreation_def
      wf_AclCreation_def)
    (rule codes_rules
      codes_bind [OF rsc.codes] codes_last [OF rsc.codes]
      codes_bind [OF acl.codes] codes_last [OF acl.codes] | (auto simp: codes_simps intro!: acl.codes acl.nonempty rsc.codes rsc.nonempty; fail))+

record CreateAclsRequest =
  caq_Version :: int
  caq_AclCreations :: "AclCreation list"

definition enc_CreateAclsRequest :: "CreateAclsRequest \<Rightarrow> pe_op list" where
  "enc_CreateAclsRequest r =
     enc_array (enc_AclCreation (caq_Version r)) (caq_AclCreations r)"

definition dec_CreateAclsRequest :: "int \<Rightarrow> CreateAclsRequest dec" where
  "dec_CreateAclsRequest version =
     dbind (dec_array (dec_AclCreation version)) (\<lambda>aclCreations.
       dreturn \<lparr>caq_Version = version, caq_AclCreations = aclCreations\<rparr>)"

definition wf_CreateAclsRequest :: "CreateAclsRequest \<Rightarrow> bool" where
  "wf_CreateAclsRequest r \<longleftrightarrow> length (caq_AclCreations r) \<le> 131070 \<and> list_all (wf_AclCreation (caq_Version r)) (caq_AclCreations r)"

interpretation caq: wire_codec enc_CreateAclsRequest dec_CreateAclsRequest caq_Version
  wf_CreateAclsRequest
  by (rule wire_codecI, unfold enc_CreateAclsRequest_def dec_CreateAclsRequest_def
      wf_CreateAclsRequest_def)
    (rule codes_rules | (auto simp: codes_simps intro!: acr.codes acr.nonempty; fail))+

record AclCreationResponse =
  acp_Err :: KError
  acp_ErrMsg :: nstring

definition enc_AclCreationResponse :: "AclCreationResponse \<Rightarrow> pe_op list" where
  "enc_AclCreationResponse r =
     [putInt16 (acp_Err r), putNullableString (acp_ErrMsg r)]"

definition dec_AclCreationResponse :: "AclCreationResponse dec" where
  "dec_AclCreationResponse =
     dbind getInt16 (\<lambda>err.
     dbind getNullableString (\<lambda>errMsg.
       dreturn \<lparr>acp_Err = err, acp_ErrMsg = errMsg\<rparr>))"

definition wf_AclCreationResponse :: "AclCreationResponse \<Rightarrow> bool" where
  "wf_AclCreationResponse r \<longleftrightarrow> pred_option (\<lambda>s. length s \<le> 32767) (acp_ErrMsg r)"

lemma enc_AclCreationResponse_nonempty: "ser_ops (enc_AclCreationResponse r) \<noteq> []"
  by (simp add: enc_AclCreationResponse_def ser_simps)

interpretation acp: wire_elem enc_AclCreationResponse "\<lambda>_. dec_AclCreationResponse" "\<lambda>_. 0"
  wf_AclCreationResponse
  by (rule wire_elemI [OF _ enc_AclCreationResponse_nonempty], unfold enc_AclCreationResponse_def dec_AclCreationResponse_def
      wf_AclCreationResponse_def)
    (rule codes_rules | (auto simp: codes_simps; fail))+

record CreateAclsResponse =
  car_Version :: int
  car_ThrottleTime :: int64
  car_AclCreationResponses :: "AclCreationResponse list"

definition enc_CreateAclsResponse :: "CreateAclsResponse \<Rightarrow> pe_op list" where
  "enc_CreateAclsResponse r =
     enc_millis32 (car_ThrottleTime r) @
     enc_array enc_AclCreationResponse (car_AclCreationResponses r)"

definition dec_CreateAclsResponse :: "int \<Rightarrow> CreateAclsResponse dec" where
  "dec_CreateAclsResponse version =
     dbind dec_millis32 (\<lambda>throttleTime.
     dbind (dec_array dec_AclCreationResponse) (\<lambda>aclCreationResponses.
       dreturn \<lparr>car_Version = 0, car_ThrottleTime = throttleTime,
         car_AclCreationResponses = aclCreationResponses\<rparr>))"

definition wf_CreateAclsResponse :: "CreateAclsResponse \<Rightarrow> bool" where
  "wf_CreateAclsResponse r \<longleftrightarrow> car_Version r = 0 \<and>
     wf_millis32 (car_ThrottleTime r) \<and>
     length (car_AclCreationResponses r) \<le> 131070 \<and> list_all wf_AclCreationResponse (car_AclCreationResponses r)"

interpretation car: wire_codec enc_CreateAclsResponse dec_CreateAclsResponse "\<lambda>_. v"
  wf_CreateAclsResponse for v
  by (rule wire_codecI, unfold enc_CreateAclsResponse_def dec_CreateAclsResponse_def
      wf_CreateAclsResponse_def)
    (rule codes_rules | (auto simp: codes_simps intro!: acp.codes acp.nonempty; fail))+

subsection \<open>DeleteAcls\<close>

record DeleteAclsRequest =
  daq_Version :: int
  daq_Filters :: "AclFilter list"

definition enc_DeleteAclsRequest :: "DeleteAclsRequest \<Rightarrow> pe_op list" where
  "enc_DeleteAclsRequest r =
     enc_array (enc_AclFilter (daq_Version r)) (daq_Filters r)"

definition dec_DeleteAclsRequest :: "int \<Rightarrow> DeleteAclsRequest dec" where
  "dec_DeleteAclsRequest version =
     dbind (dec_array (dec_AclFilter version)) (\<lambda>filters.
       dreturn \<lparr>daq_Version = version, daq_Filters = filters\<rparr>)"

definition wf_DeleteAclsRequest :: "DeleteAclsRequest \<Rightarrow> bool" where
  "wf_DeleteAclsRequest r \<longleftrightarrow> length (daq_Filters r) \<le> 131070 \<and> list_all (wf_AclFilter (daq_Version r)) (daq_Filters r)"

interpretation daq: wire_codec enc_DeleteAclsRequest dec_DeleteAclsRequest daq_Version
  wf_DeleteAclsRequest
  by (rule wire_codecI, unfold enc_DeleteAclsRequest_def dec_DeleteAclsRequest_def
      wf_DeleteAclsRequest_def)
    (rule codes_rules | (auto simp: codes_simps intro!: flt.codes flt.nonempty; fail))+

record MatchingAcl =
  mac_Err :: KError
  mac_ErrMsg :: nstring
  mac_Resource :: Resource
  mac_Acl :: Acl

definition enc_MatchingAcl :: "int \<Rightarrow> MatchingAcl \<Rightarrow> pe_op list" where
  "enc_MatchingAcl version r =
     [putInt16 (mac_Err r), putNullableString (mac_ErrMsg r)] @
     enc_Resource version (mac_Resource r) @
     enc_Acl (mac_Acl r)"

definition dec_MatchingAcl :: "int \<Rightarrow> MatchingAcl dec" where
  "dec_MatchingAcl version =
     dbind getInt16 (\<lambda>err.
     dbind getNullableString (\<lambda>errMsg.
     dbind (dec_Resource version) (\<lambda>resource.
     dbind dec_Acl (\<lambda>acl.
       dreturn \<lparr>mac_Err = err, mac_ErrMsg = errMsg, mac_Resource = resource, mac_Acl = acl\<rparr>))))"

definition wf_MatchingAcl :: "int \<Rightarrow> MatchingAcl \<Rightarrow> bool" where
  "wf_MatchingAcl version r \<longleftrightarrow> pred_option (\<lambda>s. length s \<le> 32767) (mac_ErrMsg r) \<and>
     wf_Resource version (mac_Resource r) \<and>
     wf_Acl (mac_Acl r)"

lemma enc_MatchingAcl_nonempty: "ser_ops (enc_MatchingAcl version r) \<noteq> []"
  by (simp add: enc_MatchingAcl_def ser_simps)

interpretation mac: wire_elem "enc_MatchingAcl v" dec_MatchingAcl "\<lambda>_. v"
  "wf_MatchingAcl v" for v
  by (rule wire_elemI [OF _ enc_MatchingAcl_nonempty], unfold enc_MatchingAcl_def dec_MatchingAcl_def
      wf_MatchingAcl_def)
    (rule codes_rules
      codes_bind [OF rsc.codes] codes_last [OF rsc.codes]
      codes_bind [OF acl.codes] codes_last [OF acl.codes] | (auto simp: codes_simps intro!: acl.codes acl.nonempty rsc.codes rsc.nonempty; fail))+

record FilterResponse =
  flr_Err :: KError
  flr_ErrMsg :: nstring
  flr_MatchingAcls :: "MatchingAcl list"

definition enc_FilterResponse :: "int \<Rightarrow> FilterResponse \<Rightarrow> pe_op list" where
  "enc_FilterResponse version r =
     [putInt16 (flr_Err r), putNullableString (flr_ErrMsg r)] @
     enc_array (enc_MatchingAcl version) (flr_MatchingAcls r)"

definition dec_FilterResponse :: "int \<Rightarrow> FilterResponse dec" where
  "dec_FilterResponse version =
     dbind getInt16 (\<lambda>err.
     dbind getNullableString (\<lambda>errMsg.
     dbind (dec_array (dec_MatchingAcl version)) (\<lambda>matchingAcls.
       dreturn \<lparr>flr_Err = err, flr_ErrMsg = errMsg, flr_MatchingAcls = matchingAcls\<rparr>)))"

definition wf_FilterResponse :: "int \<Rightarrow> FilterResponse \<Rightarrow> bool" where
  "wf_FilterResponse version r \<longleftrightarrow> pred_option (\<lambda>s. length s \<le> 32767) (flr_ErrMsg r) \<and>
     length (flr_MatchingAcls r) \<le> 131070 \<and> list_all (wf_MatchingAcl version) (flr_MatchingAcls r)"

lemma enc_FilterResponse_nonempty: "ser_ops (enc_FilterResponse version r) \<noteq> []"
  by (simp add: enc_FilterResponse_def ser_simps)

interpretation flr: wire_elem "enc_FilterResponse v" dec_FilterResponse "\<lambda>_. v"
  "wf_FilterResponse v" for v
  by (rule wire_elemI [OF _ enc_FilterResponse_nonempty], unfold enc_FilterResponse_def dec_FilterResponse_def
      wf_FilterResponse_def)
    (rule codes_rules | (auto simp: codes_simps intro!: mac.codes mac.nonempty; fail))+

record DeleteAclsResponse =
  dar_Version :: int
  dar_ThrottleTime :: int64
  dar_FilterResponses :: "FilterResponse list"

definition enc_DeleteAclsResponse :: "DeleteAclsResponse \<Rightarrow> pe_op list" where
  "enc_DeleteAclsResponse r =
     enc_millis32 (dar_ThrottleTime r) @
     enc_array (enc_FilterResponse (dar_Version r)) (dar_FilterResponses r)"

definition dec_DeleteAclsResponse :: "int \<Rightarrow> DeleteAclsResponse dec" where
  "dec_DeleteAclsResponse version =
     dbind dec_millis32 (\<lambda>throttleTime.
     dbind (dec_array (dec_FilterResponse version)) (\<lambda>filterResponses.
       dreturn \<lparr>dar_Version = 0, dar_ThrottleTime = throttleTime, dar_FilterResponses = filterResponses\<rparr>))"

definition wf_DeleteAclsResponse :: "int \<Rightarrow> DeleteAclsResponse \<Rightarrow> bool" where
  "wf_DeleteAclsResponse version r \<longleftrightarrow> dar_Version r = 0 \<and>
     wf_millis32 (dar_ThrottleTime r) \<and>
     length (dar_FilterResponses r) \<le> 131070 \<and> list_all (wf_FilterResponse version) (dar_FilterResponses r)"

lemma DeleteAclsResponse_version:
  "dar_Version (r\<lparr>dar_Version := v\<rparr>) = v"
  "dar_ThrottleTime (r\<lparr>dar_Version := v\<rparr>) = dar_ThrottleTime r"
  "dar_FilterResponses (r\<lparr>dar_Version := v\<rparr>) = dar_FilterResponses r"
  by simp_all

interpretation dar: wire_codec "\<lambda>r. enc_DeleteAclsResponse (r\<lparr>dar_Version := v\<rparr>)" dec_DeleteAclsResponse "\<lambda>_. v"
  "wf_DeleteAclsResponse v" for v
  by (rule wire_codecI, unfold enc_DeleteAclsResponse_def dec_DeleteAclsResponse_def
      wf_DeleteAclsResponse_def
      DeleteAclsResponse_version)
    (rule codes_rules | (auto simp: codes_simps intro!: flr.codes flr.nonempty; fail))+

subsection \<open>DescribeAcls\<close>

record DescribeAclsRequest =
  dsq_Version :: int
  dsq_AclFilter :: AclFilter

definition enc_DescribeAclsRequest :: "DescribeAclsRequest \<Rightarrow> pe_op list" where
  "enc_DescribeAclsRequest r =
     enc_AclFilter (dsq_Version r) (dsq_AclFilter r)"

definition dec_DescribeAclsRequest :: "int \<Rightarrow> DescribeAclsRequest dec" where
  "dec_DescribeAclsRequest version =
     dbind (dec_AclFilter version) (\<lambda>aclFilter.
       dreturn \<lparr>dsq_Version = version, dsq_AclFilter = aclFilter\<rparr>)"

definition wf_DescribeAclsRequest :: "DescribeAclsRequest \<Rightarrow> bool" where
  "wf_DescribeAclsRequest r \<longleftrightarrow> wf_AclFilter (dsq_Version r) (dsq_AclFilter r)"

interpretation dsq: wire_codec enc_DescribeAclsRequest dec_DescribeAclsRequest dsq_Version
  wf_DescribeAclsRequest
  by (rule wire_codecI, unfold enc_DescribeAclsRequest_def dec_DescribeAclsRequest_def
      wf_DescribeAclsRequest_def)
    (rule codes_rules
      codes_bind [OF flt.codes] codes_last [OF flt.codes] | (auto simp: codes_simps intro!: flt.codes flt.nonempty; fail))+

text \<open>
  The message is written as a nullable string and read as a plain one, in which null is the empty
  string; an empty message is dropped.
\<close>

definition dec_ErrMsg :: "nstring dec" where
  "dec_ErrMsg = dbind getString (\<lambda>errmsg. dreturn (if errmsg \<noteq> [] then Some errmsg else None))"

lemma getString_null: "getString (dec_at pre (be16 (-1) @ post) st) = (Ok [], dec_at (pre @ be16 (-1)) post st)"
  by (simp add: getString_def getStringLength_def dec_steps)

lemma codes_ErrMsg:
  "pred_option (\<lambda>s. s \<noteq> [] \<and> length s \<le> 32767) m \<Longrightarrow> codes dec_ErrMsg [putNullableString m] m"
  by (cases m)
    (auto simp: codes_def dec_ErrMsg_def ser_simps ser_nstring_def dec_steps getString_null intro!: readsI)

record DescribeAclsResponse =
  dsr_Version :: int
  dsr_ThrottleTime :: int64
  dsr_Err :: KError
  dsr_ErrMsg :: nstring
  dsr_ResourceAcls :: "ResourceAcls list"

definition enc_DescribeAclsResponse :: "DescribeAclsResponse \<Rightarrow> pe_op list" where
  "enc_DescribeAclsResponse r =
     enc_millis32 (dsr_ThrottleTime r) @
     [putInt16 (dsr_Err r)] @
     [putNullableString (dsr_ErrMsg r)] @
     enc_array (enc_ResourceAcls (dsr_Version r)) (dsr_ResourceAcls r)"

definition dec_DescribeAclsResponse :: "int \<Rightarrow> DescribeAclsResponse dec" where
  "dec_DescribeAclsResponse version =
     dbind dec_millis32 (\<lambda>throttleTime.
     dbind getInt16 (\<lambda>err.
     dbind dec_ErrMsg (\<lambda>errMsg.
     dbind (dec_array (dec_ResourceAcls version)) (\<lambda>resourceAcls.
       dreturn \<lparr>dsr_Version = 0, dsr_ThrottleTime = throttleTime, dsr_Err = err, dsr_ErrMsg = errMsg,
         dsr_ResourceAcls = resourceAcls\<rparr>))))"

definition wf_DescribeAclsResponse :: "int \<Rightarrow> DescribeAclsResponse \<Rightarrow> bool" where
  "wf_DescribeAclsResponse version r \<longleftrightarrow> dsr_Version r = 0 \<and>
     wf_millis32 (dsr_ThrottleTime r) \<and>
     pred_option (\<lambda>s. s \<noteq> [] \<and> length s \<le> 32767) (dsr_ErrMsg r) \<and>
     length (dsr_ResourceAcls r) \<le> 131070 \<and> list_all (wf_ResourceAcls version) (dsr_ResourceAcls r)"

lemma DescribeAclsResponse_version:
  "dsr_Version (r\<lparr>dsr_Version := v\<rparr>) = v"
  "dsr_ThrottleTime (r\<lparr>dsr_Version := v\<rparr>) = dsr_ThrottleTime r"
  "dsr_Err (r\<lparr>dsr_Version := v\<rparr>) = dsr_Err r"
  "dsr_ErrMsg (r\<lparr>dsr_Version := v\<rparr>) = dsr_ErrMsg r"
  "dsr_ResourceAcls (r\<lparr>dsr_Version := v\<rparr>) = dsr_ResourceAcls r"
  by simp_all

interpretation dsr: wire_codec "\<lambda>r. enc_DescribeAclsResponse (r\<lparr>dsr_Version := v\<rparr>)" dec_DescribeAclsResponse "\<lambda>_. v"
  "wf_DescribeAclsResponse v" for v
  by (rule wire_codecI, unfold enc_DescribeAclsResponse_def dec_DescribeAclsResponse_def
      wf_DescribeAclsResponse_def
      DescribeAclsResponse_version)
    (rule codes_rules codes_step [OF codes_ErrMsg] codes_bind [OF codes_ErrMsg] | (auto simp: codes_simps intro!: rac.codes rac.nonempty; fail))+

end
