(* ===== verification/Admin_Messages.thy ===== *)
theory Admin_Messages
  imports Admin_Common
begin

text \<open>
  The messages that administer topics, configurations, records and replicas: \<open>create_topics_*.go\<close>,
  \<open>create_partitions_*.go\<close>, \<open>delete_topics_*.go\<close>, \<open>delete_records_*.go\<close>, \<open>alter_configs_*.go\<close>,
  \<open>incremental_alter_configs_*.go\<close>, \<open>describe_configs_*.go\<close>, \<open>describe_log_dirs_*.go\<close>,
  \<open>alter_partition_reassignments_*.go\<close>, \<open>list_partition_reassignments_*.go\<close>. Every message type
  interprets \<open>wire_codec\<close>.
\<close>

subsection \<open>CreateTopics\<close>

record TopicDetail =
  tpd_NumPartitions :: int32
  tpd_ReplicationFactor :: int16
  tpd_ReplicaAssignment :: "(int32 \<times> int32 list) list"
  tpd_ConfigEntries :: "(string \<times> nstring) list"

definition enc_TopicDetail :: "TopicDetail \<Rightarrow> pe_op list" where
  "enc_TopicDetail r =
     [putInt32 (tpd_NumPartitions r), putInt16 (tpd_ReplicationFactor r)] @
     enc_array (\<lambda>(k, x). [putInt32 k, putInt32Array x]) (tpd_ReplicaAssignment r) @
     enc_array (\<lambda>(k, x). [putString k, putNullableString x]) (tpd_ConfigEntries r)"

definition dec_TopicDetail :: "TopicDetail dec" where
  "dec_TopicDetail =
     dbind getInt32 (\<lambda>numPartitions.
     dbind getInt16 (\<lambda>replicationFactor.
     dbind (dec_map (dec_pair getInt32 getInt32Array)) (\<lambda>replicaAssignment.
     dbind (dec_map (dec_pair getString getNullableString)) (\<lambda>configEntries.
       dreturn \<lparr>tpd_NumPartitions = numPartitions, tpd_ReplicationFactor = replicationFactor,
         tpd_ReplicaAssignment = replicaAssignment, tpd_ConfigEntries = configEntries\<rparr>))))"

definition wf_TopicDetail :: "TopicDetail \<Rightarrow> bool" where
  "wf_TopicDetail r \<longleftrightarrow> length (tpd_ReplicaAssignment r) \<le> 131070 \<and> distinct (map fst (tpd_ReplicaAssignment r)) \<and>
     list_all (\<lambda>(k, x). length x \<le> 2147483647) (tpd_ReplicaAssignment r) \<and>
     length (tpd_ConfigEntries r) \<le> 131070 \<and> distinct (map fst (tpd_ConfigEntries r)) \<and>
     list_all (\<lambda>(k, x). length k \<le> 32767 \<and> pred_option (\<lambda>s. length s \<le> 32767) x) (tpd_ConfigEntries r)"

lemma enc_TopicDetail_nonempty: "ser_ops (enc_TopicDetail r) \<noteq> []"
  by (simp add: enc_TopicDetail_def ser_simps)

interpretation tpd: wire_elem enc_TopicDetail "\<lambda>_. dec_TopicDetail" "\<lambda>_. 0"
  wf_TopicDetail
  by (rule wire_elemI [OF _ enc_TopicDetail_nonempty], unfold enc_TopicDetail_def dec_TopicDetail_def
      wf_TopicDetail_def)
    (rule codes_rules | (auto simp: codes_simps; fail))+

record CreateTopicsRequest =
  ctq_Version :: int
  ctq_TopicDetails :: "(string \<times> TopicDetail) list"
  ctq_Timeout :: int64
  ctq_ValidateOnly :: bool

definition enc_CreateTopicsRequest :: "CreateTopicsRequest \<Rightarrow> pe_op list" where
  "enc_CreateTopicsRequest r =
     enc_array (\<lambda>(k, x). putString k # enc_TopicDetail x) (ctq_TopicDetails r) @
     enc_millis32 (ctq_Timeout r) @
     (if ctq_Version r \<ge> 1 then [putBool (ctq_ValidateOnly r)] else [])"

definition dec_CreateTopicsRequest :: "int \<Rightarrow> CreateTopicsRequest dec" where
  "dec_CreateTopicsRequest version =
     dbind (dec_map (dec_pair getString dec_TopicDetail)) (\<lambda>topicDetails.
     dbind dec_millis32 (\<lambda>timeout.
     dbind (if version \<ge> 1 then getBool else dreturn False) (\<lambda>validateOnly.
       dreturn \<lparr>ctq_Version = version, ctq_TopicDetails = topicDetails, ctq_Timeout = timeout,
         ctq_ValidateOnly = validateOnly\<rparr>)))"

definition wf_CreateTopicsRequest :: "CreateTopicsRequest \<Rightarrow> bool" where
  "wf_CreateTopicsRequest r \<longleftrightarrow> length (ctq_TopicDetails r) \<le> 131070 \<and> distinct (map fst (ctq_TopicDetails r)) \<and>
     list_all (\<lambda>(k, x). length k \<le> 32767 \<and> wf_TopicDetail x) (ctq_TopicDetails r) \<and>
     wf_millis32 (ctq_Timeout r) \<and>
     (ctq_Version r \<ge> 1 \<or> \<not> ctq_ValidateOnly r)"

interpretation ctq: wire_codec enc_CreateTopicsRequest dec_CreateTopicsRequest ctq_Version
  wf_CreateTopicsRequest
  by (rule wire_codecI, unfold enc_CreateTopicsRequest_def dec_CreateTopicsRequest_def
      wf_CreateTopicsRequest_def)
    (rule codes_rules
      codes_last [OF tpd.codes] | (auto simp: codes_simps intro!: tpd.codes tpd.nonempty; fail))+

record TopicError =
  tpe_Err :: KError
  tpe_ErrMsg :: nstring

definition enc_TopicError :: "int \<Rightarrow> TopicError \<Rightarrow> pe_op list" where
  "enc_TopicError version r =
     [putInt16 (tpe_Err r)] @
     (if version \<ge> 1 then [putNullableString (tpe_ErrMsg r)] else [])"

definition dec_TopicError :: "int \<Rightarrow> TopicError dec" where
  "dec_TopicError version =
     dbind getInt16 (\<lambda>err.
     dbind (if version \<ge> 1 then getNullableString else dreturn None) (\<lambda>errMsg.
       dreturn \<lparr>tpe_Err = err, tpe_ErrMsg = errMsg\<rparr>))"

definition wf_TopicError :: "int \<Rightarrow> TopicError \<Rightarrow> bool" where
  "wf_TopicError version r \<longleftrightarrow> (if version \<ge> 1 then pred_option (\<lambda>s. length s \<le> 32767) (tpe_ErrMsg r) else tpe_ErrMsg r = None)"

lemma enc_TopicError_nonempty: "ser_ops (enc_TopicError version r) \<noteq> []"
  by (simp add: enc_TopicError_def ser_simps)

interpretation tpe: wire_elem "enc_TopicError v" dec_TopicError "\<lambda>_. v"
  "wf_TopicError v" for v
  by (rule wire_elemI [OF _ enc_TopicError_nonempty], unfold enc_TopicError_def dec_TopicError_def
      wf_TopicError_def)
    (rule codes_rules | (auto simp: codes_simps; fail))+

record CreateTopicsResponse =
  ctr_Version :: int
  ctr_ThrottleTime :: int64
  ctr_TopicErrors :: "(string \<times> TopicError) list"

definition enc_CreateTopicsResponse :: "CreateTopicsResponse \<Rightarrow> pe_op list" where
  "enc_CreateTopicsResponse r =
     (if ctr_Version r \<ge> 2 then enc_millis32 (ctr_ThrottleTime r) else []) @
     enc_array (\<lambda>(k, x). putString k # enc_TopicError (ctr_Version r) x) (ctr_TopicErrors r)"

definition dec_CreateTopicsResponse :: "int \<Rightarrow> CreateTopicsResponse dec" where
  "dec_CreateTopicsResponse version =
     dbind (if version \<ge> 2 then dec_millis32 else dreturn 0) (\<lambda>throttleTime.
     dbind (dec_map (dec_pair getString (dec_TopicError version))) (\<lambda>topicErrors.
       dreturn \<lparr>ctr_Version = version, ctr_ThrottleTime = throttleTime, ctr_TopicErrors = topicErrors\<rparr>))"

definition wf_CreateTopicsResponse :: "CreateTopicsResponse \<Rightarrow> bool" where
  "wf_CreateTopicsResponse r \<longleftrightarrow> (if ctr_Version r \<ge> 2 then wf_millis32 (ctr_ThrottleTime r) else ctr_ThrottleTime r = 0) \<and>
     length (ctr_TopicErrors r) \<le> 131070 \<and> distinct (map fst (ctr_TopicErrors r)) \<and>
     list_all (\<lambda>(k, x). length k \<le> 32767 \<and> wf_TopicError (ctr_Version r) x) (ctr_TopicErrors r)"

interpretation ctr: wire_codec enc_CreateTopicsResponse dec_CreateTopicsResponse ctr_Version
  wf_CreateTopicsResponse
  by (rule wire_codecI, unfold enc_CreateTopicsResponse_def dec_CreateTopicsResponse_def
      wf_CreateTopicsResponse_def)
    (rule codes_rules
      codes_last [OF tpe.codes] | (auto simp: codes_simps intro!: tpe.codes tpe.nonempty; fail))+

subsection \<open>CreatePartitions\<close>

record TopicPartition =
  tpp_Count :: int32
  tpp_Assignment :: "int32 list list"

definition enc_TopicPartition :: "TopicPartition \<Rightarrow> pe_op list" where
  "enc_TopicPartition r =
     [putInt32 (tpp_Count r)] @
     enc_positive_array (\<lambda>assign. [putInt32Array assign]) (tpp_Assignment r)"

definition dec_TopicPartition :: "TopicPartition dec" where
  "dec_TopicPartition =
     dbind getInt32 (\<lambda>cnt.
     dbind (dec_positive_array getInt32Array) (\<lambda>assignment.
       dreturn \<lparr>tpp_Count = cnt, tpp_Assignment = assignment\<rparr>))"

definition wf_TopicPartition :: "TopicPartition \<Rightarrow> bool" where
  "wf_TopicPartition r \<longleftrightarrow> length (tpp_Assignment r) \<le> 2147483647 \<and> list_all (\<lambda>assign. length assign \<le> 2147483647) (tpp_Assignment r)"

lemma enc_TopicPartition_nonempty: "ser_ops (enc_TopicPartition r) \<noteq> []"
  by (simp add: enc_TopicPartition_def ser_simps)

interpretation tpp: wire_elem enc_TopicPartition "\<lambda>_. dec_TopicPartition" "\<lambda>_. 0"
  wf_TopicPartition
  by (rule wire_elemI [OF _ enc_TopicPartition_nonempty], unfold enc_TopicPartition_def dec_TopicPartition_def
      wf_TopicPartition_def)
    (rule codes_rules codes_last [OF codes_positive_array] | (auto simp: codes_simps; fail))+

record CreatePartitionsRequest =
  cpq_Version :: int
  cpq_TopicPartitions :: "(string \<times> TopicPartition) list"
  cpq_Timeout :: int64
  cpq_ValidateOnly :: bool

definition enc_CreatePartitionsRequest :: "CreatePartitionsRequest \<Rightarrow> pe_op list" where
  "enc_CreatePartitionsRequest r =
     enc_array (\<lambda>(k, x). putString k # enc_TopicPartition x) (cpq_TopicPartitions r) @
     enc_millis32 (cpq_Timeout r) @
     [putBool (cpq_ValidateOnly r)]"

definition dec_CreatePartitionsRequest :: "int \<Rightarrow> CreatePartitionsRequest dec" where
  "dec_CreatePartitionsRequest version =
     dbind (dec_map (dec_pair getString dec_TopicPartition)) (\<lambda>topicPartitions.
     dbind dec_millis32 (\<lambda>timeout.
     dbind getBool (\<lambda>validateOnly.
       dreturn \<lparr>cpq_Version = version, cpq_TopicPartitions = topicPartitions, cpq_Timeout = timeout,
         cpq_ValidateOnly = validateOnly\<rparr>)))"

definition wf_CreatePartitionsRequest :: "CreatePartitionsRequest \<Rightarrow> bool" where
  "wf_CreatePartitionsRequest r \<longleftrightarrow> length (cpq_TopicPartitions r) \<le> 131070 \<and> distinct (map fst (cpq_TopicPartitions r)) \<and>
     list_all (\<lambda>(k, x). length k \<le> 32767 \<and> wf_TopicPartition x) (cpq_TopicPartitions r) \<and>
     wf_millis32 (cpq_Timeout r)"

interpretation cpq: wire_codec enc_CreatePartitionsRequest dec_CreatePartitionsRequest cpq_Version
  wf_CreatePartitionsRequest
  by (rule wire_codecI, unfold enc_CreatePartitionsRequest_def dec_CreatePartitionsRequest_def
      wf_CreatePartitionsRequest_def)
    (rule codes_rules
      codes_last [OF tpp.codes] | (auto simp: codes_simps intro!: tpp.codes tpp.nonempty; fail))+

record TopicPartitionError =
  tpr_Err :: KError
  tpr_ErrMsg :: nstring

definition enc_TopicPartitionError :: "TopicPartitionError \<Rightarrow> pe_op list" where
  "enc_TopicPartitionError r =
     [putInt16 (tpr_Err r), putNullableString (tpr_ErrMsg r)]"

definition dec_TopicPartitionError :: "TopicPartitionError dec" where
  "dec_TopicPartitionError =
     dbind getInt16 (\<lambda>err.
     dbind getNullableString (\<lambda>errMsg.
       dreturn \<lparr>tpr_Err = err, tpr_ErrMsg = errMsg\<rparr>))"

definition wf_TopicPartitionError :: "TopicPartitionError \<Rightarrow> bool" where
  "wf_TopicPartitionError r \<longleftrightarrow> pred_option (\<lambda>s. length s \<le> 32767) (tpr_ErrMsg r)"

lemma enc_TopicPartitionError_nonempty: "ser_ops (enc_TopicPartitionError r) \<noteq> []"
  by (simp add: enc_TopicPartitionError_def ser_simps)

interpretation tpr: wire_elem enc_TopicPartitionError "\<lambda>_. dec_TopicPartitionError" "\<lambda>_. 0"
  wf_TopicPartitionError
  by (rule wire_elemI [OF _ enc_TopicPartitionError_nonempty], unfold enc_TopicPartitionError_def dec_TopicPartitionError_def
      wf_TopicPartitionError_def)
    (rule codes_rules | (auto simp: codes_simps; fail))+

record CreatePartitionsResponse =
  cpr_Version :: int
  cpr_ThrottleTime :: int64
  cpr_TopicPartitionErrors :: "(string \<times> TopicPartitionError) list"

definition enc_CreatePartitionsResponse :: "CreatePartitionsResponse \<Rightarrow> pe_op list" where
  "enc_CreatePartitionsResponse r =
     enc_millis32 (cpr_ThrottleTime r) @
     enc_array (\<lambda>(k, x). putString k # enc_TopicPartitionError x) (cpr_TopicPartitionErrors r)"

definition dec_CreatePartitionsResponse :: "int \<Rightarrow> CreatePartitionsResponse dec" where
  "dec_CreatePartitionsResponse version =
     dbind dec_millis32 (\<lambda>throttleTime.
     dbind (dec_map (dec_pair getString dec_TopicPartitionError)) (\<lambda>topicPartitionErrors.
       dreturn \<lparr>cpr_Version = 0, cpr_ThrottleTime = throttleTime,
         cpr_TopicPartitionErrors = topicPartitionErrors\<rparr>))"

definition wf_CreatePartitionsResponse :: "CreatePartitionsResponse \<Rightarrow> bool" where
  "wf_CreatePartitionsResponse r \<longleftrightarrow> cpr_Version r = 0 \<and>
     wf_millis32 (cpr_ThrottleTime r) \<and>
     length (cpr_TopicPartitionErrors r) \<le> 131070 \<and> distinct (map fst (cpr_TopicPartitionErrors r)) \<and>
     list_all (\<lambda>(k, x). length k \<le> 32767 \<and> wf_TopicPartitionError x) (cpr_TopicPartitionErrors r)"

interpretation cpr: wire_codec enc_CreatePartitionsResponse dec_CreatePartitionsResponse "\<lambda>_. v"
  wf_CreatePartitionsResponse for v
  by (rule wire_codecI, unfold enc_CreatePartitionsResponse_def dec_CreatePartitionsResponse_def
      wf_CreatePartitionsResponse_def)
    (rule codes_rules
      codes_last [OF tpr.codes] | (auto simp: codes_simps intro!: tpr.codes tpr.nonempty; fail))+

subsection \<open>DeleteTopics\<close>

record DeleteTopicsRequest =
  dtq_Version :: int
  dtq_Topics :: "string list"
  dtq_Timeout :: int64

definition enc_DeleteTopicsRequest :: "DeleteTopicsRequest \<Rightarrow> pe_op list" where
  "enc_DeleteTopicsRequest r =
     [putStringArray (dtq_Topics r)] @
     enc_millis32 (dtq_Timeout r)"

definition dec_DeleteTopicsRequest :: "int \<Rightarrow> DeleteTopicsRequest dec" where
  "dec_DeleteTopicsRequest version =
     dbind getStringArray (\<lambda>tops.
     dbind dec_millis32 (\<lambda>timeout.
       dreturn \<lparr>dtq_Version = version, dtq_Topics = tops, dtq_Timeout = timeout\<rparr>))"

definition wf_DeleteTopicsRequest :: "DeleteTopicsRequest \<Rightarrow> bool" where
  "wf_DeleteTopicsRequest r \<longleftrightarrow> length (dtq_Topics r) \<le> 2147483647 \<and> list_all (\<lambda>s. length s \<le> 32767) (dtq_Topics r) \<and>
     wf_millis32 (dtq_Timeout r)"

interpretation dtq: wire_codec enc_DeleteTopicsRequest dec_DeleteTopicsRequest dtq_Version
  wf_DeleteTopicsRequest
  by (rule wire_codecI, unfold enc_DeleteTopicsRequest_def dec_DeleteTopicsRequest_def
      wf_DeleteTopicsRequest_def)
    (rule codes_rules | (auto simp: codes_simps; fail))+

text \<open>The version is stored from version 1 on only.\<close>

record DeleteTopicsResponse =
  dtr_Version :: int
  dtr_ThrottleTime :: int64
  dtr_TopicErrorCodes :: "(string \<times> KError) list"

definition enc_DeleteTopicsResponse :: "DeleteTopicsResponse \<Rightarrow> pe_op list" where
  "enc_DeleteTopicsResponse r =
     (if dtr_Version r \<ge> 1 then enc_millis32 (dtr_ThrottleTime r) else []) @
     enc_array (\<lambda>(k, x). [putString k, putInt16 x]) (dtr_TopicErrorCodes r)"

definition dec_DeleteTopicsResponse :: "int \<Rightarrow> DeleteTopicsResponse dec" where
  "dec_DeleteTopicsResponse version =
     dbind (if version \<ge> 1 then dec_millis32 else dreturn 0) (\<lambda>throttleTime.
     dbind (dec_map (dec_pair getString getInt16)) (\<lambda>topicErrorCodes.
       dreturn \<lparr>dtr_Version = (if version \<ge> 1 then version else 0), dtr_ThrottleTime = throttleTime,
         dtr_TopicErrorCodes = topicErrorCodes\<rparr>))"

definition wf_DeleteTopicsResponse :: "DeleteTopicsResponse \<Rightarrow> bool" where
  "wf_DeleteTopicsResponse r \<longleftrightarrow> 0 \<le> dtr_Version r \<and>
     (if dtr_Version r \<ge> 1 then wf_millis32 (dtr_ThrottleTime r) else dtr_ThrottleTime r = 0) \<and>
     length (dtr_TopicErrorCodes r) \<le> 131070 \<and> distinct (map fst (dtr_TopicErrorCodes r)) \<and>
     list_all (\<lambda>(k, x). length k \<le> 32767) (dtr_TopicErrorCodes r)"

interpretation dtr: wire_codec enc_DeleteTopicsResponse dec_DeleteTopicsResponse dtr_Version
  wf_DeleteTopicsResponse
  by (rule wire_codecI, unfold enc_DeleteTopicsResponse_def dec_DeleteTopicsResponse_def
      wf_DeleteTopicsResponse_def)
    (rule codes_rules | (auto simp: codes_simps; fail))+

subsection \<open>DeleteRecords\<close>

text \<open>
  The topics and the partitions are written in the order of their keys; a map is given here by its
  entries in that order.
\<close>

record DeleteRecordsRequestTopic =
  dqt_PartitionOffsets :: "(int32 \<times> int64) list"

definition enc_DeleteRecordsRequestTopic :: "DeleteRecordsRequestTopic \<Rightarrow> pe_op list" where
  "enc_DeleteRecordsRequestTopic r =
     enc_sorted_map sint putInt32 (\<lambda>offset. [putInt64 offset]) (dqt_PartitionOffsets r)"

definition dec_DeleteRecordsRequestTopic :: "DeleteRecordsRequestTopic dec" where
  "dec_DeleteRecordsRequestTopic =
     dbind (dec_map (dec_pair getInt32 getInt64)) (\<lambda>partitionOffsets.
       dreturn \<lparr>dqt_PartitionOffsets = partitionOffsets\<rparr>)"

definition wf_DeleteRecordsRequestTopic :: "DeleteRecordsRequestTopic \<Rightarrow> bool" where
  "wf_DeleteRecordsRequestTopic r \<longleftrightarrow> length (dqt_PartitionOffsets r) \<le> 131070 \<and> distinct (map fst (dqt_PartitionOffsets r)) \<and>
     sorted (map (\<lambda>kv. sint (fst kv)) (dqt_PartitionOffsets r))"

lemma enc_DeleteRecordsRequestTopic_nonempty: "ser_ops (enc_DeleteRecordsRequestTopic r) \<noteq> []"
  by (simp add: enc_DeleteRecordsRequestTopic_def ser_simps)

interpretation dqt: wire_elem enc_DeleteRecordsRequestTopic "\<lambda>_. dec_DeleteRecordsRequestTopic" "\<lambda>_. 0"
  wf_DeleteRecordsRequestTopic
  by (rule wire_elemI [OF _ enc_DeleteRecordsRequestTopic_nonempty], unfold enc_DeleteRecordsRequestTopic_def dec_DeleteRecordsRequestTopic_def
      wf_DeleteRecordsRequestTopic_def)
    (rule codes_rules codes_last [OF codes_sorted_map] | (auto simp: codes_simps; fail))+

record DeleteRecordsRequest =
  drq_Version :: int
  drq_Topics :: "(string \<times> DeleteRecordsRequestTopic) list"
  drq_Timeout :: int64

definition enc_DeleteRecordsRequest :: "DeleteRecordsRequest \<Rightarrow> pe_op list" where
  "enc_DeleteRecordsRequest r =
     enc_sorted_map (\<lambda>k. k) putString enc_DeleteRecordsRequestTopic (drq_Topics r) @
     enc_millis32 (drq_Timeout r)"

definition dec_DeleteRecordsRequest :: "int \<Rightarrow> DeleteRecordsRequest dec" where
  "dec_DeleteRecordsRequest version =
     dbind (dec_map (dec_pair getString dec_DeleteRecordsRequestTopic)) (\<lambda>tops.
     dbind dec_millis32 (\<lambda>timeout.
       dreturn \<lparr>drq_Version = version, drq_Topics = tops, drq_Timeout = timeout\<rparr>))"

definition wf_DeleteRecordsRequest :: "DeleteRecordsRequest \<Rightarrow> bool" where
  "wf_DeleteRecordsRequest r \<longleftrightarrow> length (drq_Topics r) \<le> 131070 \<and> distinct (map fst (drq_Topics r)) \<and> sorted (map fst (drq_Topics r)) \<and>
     list_all (\<lambda>(k, x). length k \<le> 32767 \<and> wf_DeleteRecordsRequestTopic x) (drq_Topics r) \<and>
     wf_millis32 (drq_Timeout r)"

interpretation drq: wire_codec enc_DeleteRecordsRequest dec_DeleteRecordsRequest drq_Version
  wf_DeleteRecordsRequest
  by (rule wire_codecI, unfold enc_DeleteRecordsRequest_def dec_DeleteRecordsRequest_def
      wf_DeleteRecordsRequest_def)
    (rule codes_rules codes_bind [OF codes_sorted_map] | (auto simp: codes_simps intro!: dqt.codes; fail))+

record DeleteRecordsResponsePartition =
  drp_LowWatermark :: int64
  drp_Err :: KError

definition enc_DeleteRecordsResponsePartition :: "DeleteRecordsResponsePartition \<Rightarrow> pe_op list" where
  "enc_DeleteRecordsResponsePartition r =
     [putInt64 (drp_LowWatermark r), putInt16 (drp_Err r)]"

definition dec_DeleteRecordsResponsePartition :: "DeleteRecordsResponsePartition dec" where
  "dec_DeleteRecordsResponsePartition =
     dbind getInt64 (\<lambda>lowWatermark.
     dbind getInt16 (\<lambda>err.
       dreturn \<lparr>drp_LowWatermark = lowWatermark, drp_Err = err\<rparr>))"

lemma enc_DeleteRecordsResponsePartition_nonempty: "ser_ops (enc_DeleteRecordsResponsePartition r) \<noteq> []"
  by (simp add: enc_DeleteRecordsResponsePartition_def ser_simps)

interpretation drp: wire_elem enc_DeleteRecordsResponsePartition "\<lambda>_. dec_DeleteRecordsResponsePartition" "\<lambda>_. 0"
  "\<lambda>_. True"
  by (rule wire_elemI [OF _ enc_DeleteRecordsResponsePartition_nonempty], unfold enc_DeleteRecordsResponsePartition_def dec_DeleteRecordsResponsePartition_def)
    (rule codes_rules | (auto simp: codes_simps; fail))+

record DeleteRecordsResponseTopic =
  drt_Partitions :: "(int32 \<times> DeleteRecordsResponsePartition) list"

definition enc_DeleteRecordsResponseTopic :: "DeleteRecordsResponseTopic \<Rightarrow> pe_op list" where
  "enc_DeleteRecordsResponseTopic r =
     enc_sorted_map sint putInt32 enc_DeleteRecordsResponsePartition (drt_Partitions r)"

definition dec_DeleteRecordsResponseTopic :: "DeleteRecordsResponseTopic dec" where
  "dec_DeleteRecordsResponseTopic =
     dbind (dec_map (dec_pair getInt32 dec_DeleteRecordsResponsePartition)) (\<lambda>prts.
       dreturn \<lparr>drt_Partitions = prts\<rparr>)"

definition wf_DeleteRecordsResponseTopic :: "DeleteRecordsResponseTopic \<Rightarrow> bool" where
  "wf_DeleteRecordsResponseTopic r \<longleftrightarrow> length (drt_Partitions r) \<le> 131070 \<and> distinct (map fst (drt_Partitions r)) \<and>
     sorted (map (\<lambda>kv. sint (fst kv)) (drt_Partitions r))"

lemma enc_DeleteRecordsResponseTopic_nonempty: "ser_ops (enc_DeleteRecordsResponseTopic r) \<noteq> []"
  by (simp add: enc_DeleteRecordsResponseTopic_def ser_simps)

interpretation drt: wire_elem enc_DeleteRecordsResponseTopic "\<lambda>_. dec_DeleteRecordsResponseTopic" "\<lambda>_. 0"
  wf_DeleteRecordsResponseTopic
  by (rule wire_elemI [OF _ enc_DeleteRecordsResponseTopic_nonempty], unfold enc_DeleteRecordsResponseTopic_def dec_DeleteRecordsResponseTopic_def
      wf_DeleteRecordsResponseTopic_def)
    (rule codes_rules codes_last [OF codes_sorted_map] | (auto simp: codes_simps intro!: drp.codes; fail))+

record DeleteRecordsResponse =
  drr_Version :: int
  drr_ThrottleTime :: int64
  drr_Topics :: "(string \<times> DeleteRecordsResponseTopic) list"

definition enc_DeleteRecordsResponse :: "DeleteRecordsResponse \<Rightarrow> pe_op list" where
  "enc_DeleteRecordsResponse r =
     enc_millis32 (drr_ThrottleTime r) @
     enc_sorted_map (\<lambda>k. k) putString enc_DeleteRecordsResponseTopic (drr_Topics r)"

definition dec_DeleteRecordsResponse :: "int \<Rightarrow> DeleteRecordsResponse dec" where
  "dec_DeleteRecordsResponse version =
     dbind dec_millis32 (\<lambda>throttleTime.
     dbind (dec_map (dec_pair getString dec_DeleteRecordsResponseTopic)) (\<lambda>tops.
       dreturn \<lparr>drr_Version = version, drr_ThrottleTime = throttleTime, drr_Topics = tops\<rparr>))"

definition wf_DeleteRecordsResponse :: "DeleteRecordsResponse \<Rightarrow> bool" where
  "wf_DeleteRecordsResponse r \<longleftrightarrow> wf_millis32 (drr_ThrottleTime r) \<and>
     length (drr_Topics r) \<le> 131070 \<and> distinct (map fst (drr_Topics r)) \<and> sorted (map fst (drr_Topics r)) \<and>
     list_all (\<lambda>(k, x). length k \<le> 32767 \<and> wf_DeleteRecordsResponseTopic x) (drr_Topics r)"

interpretation drr: wire_codec enc_DeleteRecordsResponse dec_DeleteRecordsResponse drr_Version
  wf_DeleteRecordsResponse
  by (rule wire_codecI, unfold enc_DeleteRecordsResponse_def dec_DeleteRecordsResponse_def
      wf_DeleteRecordsResponse_def)
    (rule codes_rules codes_last [OF codes_sorted_map] | (auto simp: codes_simps intro!: drt.codes; fail))+

subsection \<open>AlterConfigs and IncrementalAlterConfigs\<close>

record AlterConfigsResource =
  acs_Type :: int8
  acs_Name :: string
  acs_ConfigEntries :: "(string \<times> nstring) list"

definition enc_AlterConfigsResource :: "AlterConfigsResource \<Rightarrow> pe_op list" where
  "enc_AlterConfigsResource r =
     [putInt8 (acs_Type r), putString (acs_Name r)] @
     enc_array (\<lambda>(k, x). [putString k, putNullableString x]) (acs_ConfigEntries r)"

definition dec_AlterConfigsResource :: "AlterConfigsResource dec" where
  "dec_AlterConfigsResource =
     dbind getInt8 (\<lambda>typ.
     dbind getString (\<lambda>nm.
     dbind (dec_map (dec_pair getString getNullableString)) (\<lambda>configEntries.
       dreturn \<lparr>acs_Type = typ, acs_Name = nm, acs_ConfigEntries = configEntries\<rparr>)))"

definition wf_AlterConfigsResource :: "AlterConfigsResource \<Rightarrow> bool" where
  "wf_AlterConfigsResource r \<longleftrightarrow> length (acs_Name r) \<le> 32767 \<and>
     length (acs_ConfigEntries r) \<le> 131070 \<and> distinct (map fst (acs_ConfigEntries r)) \<and>
     list_all (\<lambda>(k, x). length k \<le> 32767 \<and> pred_option (\<lambda>s. length s \<le> 32767) x) (acs_ConfigEntries r)"

lemma enc_AlterConfigsResource_nonempty: "ser_ops (enc_AlterConfigsResource r) \<noteq> []"
  by (simp add: enc_AlterConfigsResource_def ser_simps)

interpretation acs: wire_elem enc_AlterConfigsResource "\<lambda>_. dec_AlterConfigsResource" "\<lambda>_. 0"
  wf_AlterConfigsResource
  by (rule wire_elemI [OF _ enc_AlterConfigsResource_nonempty], unfold enc_AlterConfigsResource_def dec_AlterConfigsResource_def
      wf_AlterConfigsResource_def)
    (rule codes_rules | (auto simp: codes_simps; fail))+

record AlterConfigsRequest =
  acq_Version :: int
  acq_Resources :: "AlterConfigsResource list"
  acq_ValidateOnly :: bool

definition enc_AlterConfigsRequest :: "AlterConfigsRequest \<Rightarrow> pe_op list" where
  "enc_AlterConfigsRequest r =
     enc_array enc_AlterConfigsResource (acq_Resources r) @
     [putBool (acq_ValidateOnly r)]"

definition dec_AlterConfigsRequest :: "int \<Rightarrow> AlterConfigsRequest dec" where
  "dec_AlterConfigsRequest version =
     dbind (dec_array dec_AlterConfigsResource) (\<lambda>resources.
     dbind getBool (\<lambda>validateOnly.
       dreturn \<lparr>acq_Version = version, acq_Resources = resources, acq_ValidateOnly = validateOnly\<rparr>))"

definition wf_AlterConfigsRequest :: "AlterConfigsRequest \<Rightarrow> bool" where
  "wf_AlterConfigsRequest r \<longleftrightarrow> length (acq_Resources r) \<le> 131070 \<and> list_all wf_AlterConfigsResource (acq_Resources r)"

interpretation acq: wire_codec enc_AlterConfigsRequest dec_AlterConfigsRequest acq_Version
  wf_AlterConfigsRequest
  by (rule wire_codecI, unfold enc_AlterConfigsRequest_def dec_AlterConfigsRequest_def
      wf_AlterConfigsRequest_def)
    (rule codes_rules | (auto simp: codes_simps intro!: acs.codes acs.nonempty; fail))+

record AlterConfigsResourceResponse =
  ars_ErrorCode :: int16
  ars_ErrorMsg :: string
  ars_Type :: int8
  ars_Name :: string

definition enc_AlterConfigsResourceResponse :: "AlterConfigsResourceResponse \<Rightarrow> pe_op list" where
  "enc_AlterConfigsResourceResponse r =
     [putInt16 (ars_ErrorCode r), putString (ars_ErrorMsg r), putInt8 (ars_Type r),
      putString (ars_Name r)]"

definition dec_AlterConfigsResourceResponse :: "AlterConfigsResourceResponse dec" where
  "dec_AlterConfigsResourceResponse =
     dbind getInt16 (\<lambda>errorCode.
     dbind getString (\<lambda>errorMsg.
     dbind getInt8 (\<lambda>typ.
     dbind getString (\<lambda>nm.
       dreturn \<lparr>ars_ErrorCode = errorCode, ars_ErrorMsg = errorMsg, ars_Type = typ, ars_Name = nm\<rparr>))))"

definition wf_AlterConfigsResourceResponse :: "AlterConfigsResourceResponse \<Rightarrow> bool" where
  "wf_AlterConfigsResourceResponse r \<longleftrightarrow> length (ars_ErrorMsg r) \<le> 32767 \<and>
     length (ars_Name r) \<le> 32767"

lemma enc_AlterConfigsResourceResponse_nonempty: "ser_ops (enc_AlterConfigsResourceResponse r) \<noteq> []"
  by (simp add: enc_AlterConfigsResourceResponse_def ser_simps)

interpretation ars: wire_elem enc_AlterConfigsResourceResponse "\<lambda>_. dec_AlterConfigsResourceResponse" "\<lambda>_. 0"
  wf_AlterConfigsResourceResponse
  by (rule wire_elemI [OF _ enc_AlterConfigsResourceResponse_nonempty], unfold enc_AlterConfigsResourceResponse_def dec_AlterConfigsResourceResponse_def
      wf_AlterConfigsResourceResponse_def)
    (rule codes_rules | (auto simp: codes_simps; fail))+

record AlterConfigsResponse =
  arp_Version :: int
  arp_ThrottleTime :: int64
  arp_Resources :: "AlterConfigsResourceResponse list"

definition enc_AlterConfigsResponse :: "AlterConfigsResponse \<Rightarrow> pe_op list" where
  "enc_AlterConfigsResponse r =
     enc_millis32 (arp_ThrottleTime r) @
     enc_array enc_AlterConfigsResourceResponse (arp_Resources r)"

definition dec_AlterConfigsResponse :: "int \<Rightarrow> AlterConfigsResponse dec" where
  "dec_AlterConfigsResponse version =
     dbind dec_millis32 (\<lambda>throttleTime.
     dbind (dec_array dec_AlterConfigsResourceResponse) (\<lambda>resources.
       dreturn \<lparr>arp_Version = 0, arp_ThrottleTime = throttleTime, arp_Resources = resources\<rparr>))"

definition wf_AlterConfigsResponse :: "AlterConfigsResponse \<Rightarrow> bool" where
  "wf_AlterConfigsResponse r \<longleftrightarrow> arp_Version r = 0 \<and>
     wf_millis32 (arp_ThrottleTime r) \<and>
     length (arp_Resources r) \<le> 131070 \<and> list_all wf_AlterConfigsResourceResponse (arp_Resources r)"

interpretation arp: wire_codec enc_AlterConfigsResponse dec_AlterConfigsResponse "\<lambda>_. v"
  wf_AlterConfigsResponse for v
  by (rule wire_codecI, unfold enc_AlterConfigsResponse_def dec_AlterConfigsResponse_def
      wf_AlterConfigsResponse_def)
    (rule codes_rules | (auto simp: codes_simps intro!: ars.codes ars.nonempty; fail))+

record IncrementalAlterConfigsEntry =
  ice_Operation :: int8
  ice_Value :: nstring

definition enc_IncrementalAlterConfigsEntry :: "IncrementalAlterConfigsEntry \<Rightarrow> pe_op list" where
  "enc_IncrementalAlterConfigsEntry r =
     [putInt8 (ice_Operation r), putNullableString (ice_Value r)]"

definition dec_IncrementalAlterConfigsEntry :: "IncrementalAlterConfigsEntry dec" where
  "dec_IncrementalAlterConfigsEntry =
     dbind getInt8 (\<lambda>operation.
     dbind getNullableString (\<lambda>val.
       dreturn \<lparr>ice_Operation = operation, ice_Value = val\<rparr>))"

definition wf_IncrementalAlterConfigsEntry :: "IncrementalAlterConfigsEntry \<Rightarrow> bool" where
  "wf_IncrementalAlterConfigsEntry r \<longleftrightarrow> pred_option (\<lambda>s. length s \<le> 32767) (ice_Value r)"

lemma enc_IncrementalAlterConfigsEntry_nonempty: "ser_ops (enc_IncrementalAlterConfigsEntry r) \<noteq> []"
  by (simp add: enc_IncrementalAlterConfigsEntry_def ser_simps)

interpretation ice: wire_elem enc_IncrementalAlterConfigsEntry "\<lambda>_. dec_IncrementalAlterConfigsEntry" "\<lambda>_. 0"
  wf_IncrementalAlterConfigsEntry
  by (rule wire_elemI [OF _ enc_IncrementalAlterConfigsEntry_nonempty], unfold enc_IncrementalAlterConfigsEntry_def dec_IncrementalAlterConfigsEntry_def
      wf_IncrementalAlterConfigsEntry_def)
    (rule codes_rules | (auto simp: codes_simps; fail))+

record IncrementalAlterConfigsResource =
  ics_Type :: int8
  ics_Name :: string
  ics_ConfigEntries :: "(string \<times> IncrementalAlterConfigsEntry) list"

definition enc_IncrementalAlterConfigsResource :: "IncrementalAlterConfigsResource \<Rightarrow> pe_op list" where
  "enc_IncrementalAlterConfigsResource r =
     [putInt8 (ics_Type r), putString (ics_Name r)] @
     enc_array (\<lambda>(k, x). putString k # enc_IncrementalAlterConfigsEntry x) (ics_ConfigEntries r)"

definition dec_IncrementalAlterConfigsResource :: "IncrementalAlterConfigsResource dec" where
  "dec_IncrementalAlterConfigsResource =
     dbind getInt8 (\<lambda>typ.
     dbind getString (\<lambda>nm.
     dbind (dec_map (dec_pair getString dec_IncrementalAlterConfigsEntry)) (\<lambda>configEntries.
       dreturn \<lparr>ics_Type = typ, ics_Name = nm, ics_ConfigEntries = configEntries\<rparr>)))"

definition wf_IncrementalAlterConfigsResource :: "IncrementalAlterConfigsResource \<Rightarrow> bool" where
  "wf_IncrementalAlterConfigsResource r \<longleftrightarrow> length (ics_Name r) \<le> 32767 \<and>
     length (ics_ConfigEntries r) \<le> 131070 \<and> distinct (map fst (ics_ConfigEntries r)) \<and>
     list_all (\<lambda>(k, x). length k \<le> 32767 \<and> wf_IncrementalAlterConfigsEntry x) (ics_ConfigEntries r)"

lemma enc_IncrementalAlterConfigsResource_nonempty: "ser_ops (enc_IncrementalAlterConfigsResource r) \<noteq> []"
  by (simp add: enc_IncrementalAlterConfigsResource_def ser_simps)

interpretation ics: wire_elem enc_IncrementalAlterConfigsResource "\<lambda>_. dec_IncrementalAlterConfigsResource" "\<lambda>_. 0"
  wf_IncrementalAlterConfigsResource
  by (rule wire_elemI [OF _ enc_IncrementalAlterConfigsResource_nonempty], unfold enc_IncrementalAlterConfigsResource_def dec_IncrementalAlterConfigsResource_def
      wf_IncrementalAlterConfigsResource_def)
    (rule codes_rules
      codes_last [OF ice.codes] | (auto simp: codes_simps intro!: ice.codes ice.nonempty; fail))+

record IncrementalAlterConfigsRequest =
  icq_Version :: int
  icq_Resources :: "IncrementalAlterConfigsResource list"
  icq_ValidateOnly :: bool

definition enc_IncrementalAlterConfigsRequest :: "IncrementalAlterConfigsRequest \<Rightarrow> pe_op list" where
  "enc_IncrementalAlterConfigsRequest r =
     enc_array enc_IncrementalAlterConfigsResource (icq_Resources r) @
     [putBool (icq_ValidateOnly r)]"

definition dec_IncrementalAlterConfigsRequest :: "int \<Rightarrow> IncrementalAlterConfigsRequest dec" where
  "dec_IncrementalAlterConfigsRequest version =
     dbind (dec_array dec_IncrementalAlterConfigsResource) (\<lambda>resources.
     dbind getBool (\<lambda>validateOnly.
       dreturn \<lparr>icq_Version = version, icq_Resources = resources, icq_ValidateOnly = validateOnly\<rparr>))"

definition wf_IncrementalAlterConfigsRequest :: "IncrementalAlterConfigsRequest \<Rightarrow> bool" where
  "wf_IncrementalAlterConfigsRequest r \<longleftrightarrow> length (icq_Resources r) \<le> 131070 \<and> list_all wf_IncrementalAlterConfigsResource (icq_Resources r)"

interpretation icq: wire_codec enc_IncrementalAlterConfigsRequest dec_IncrementalAlterConfigsRequest icq_Version
  wf_IncrementalAlterConfigsRequest
  by (rule wire_codecI, unfold enc_IncrementalAlterConfigsRequest_def dec_IncrementalAlterConfigsRequest_def
      wf_IncrementalAlterConfigsRequest_def)
    (rule codes_rules | (auto simp: codes_simps intro!: ics.codes ics.nonempty; fail))+

record IncrementalAlterConfigsResponse =
  icr_Version :: int
  icr_ThrottleTime :: int64
  icr_Resources :: "AlterConfigsResourceResponse list"

definition enc_IncrementalAlterConfigsResponse :: "IncrementalAlterConfigsResponse \<Rightarrow> pe_op list" where
  "enc_IncrementalAlterConfigsResponse r =
     enc_millis32 (icr_ThrottleTime r) @
     enc_array enc_AlterConfigsResourceResponse (icr_Resources r)"

definition dec_IncrementalAlterConfigsResponse :: "int \<Rightarrow> IncrementalAlterConfigsResponse dec" where
  "dec_IncrementalAlterConfigsResponse version =
     dbind dec_millis32 (\<lambda>throttleTime.
     dbind (dec_array dec_AlterConfigsResourceResponse) (\<lambda>resources.
       dreturn \<lparr>icr_Version = 0, icr_ThrottleTime = throttleTime, icr_Resources = resources\<rparr>))"

definition wf_IncrementalAlterConfigsResponse :: "IncrementalAlterConfigsResponse \<Rightarrow> bool" where
  "wf_IncrementalAlterConfigsResponse r \<longleftrightarrow> icr_Version r = 0 \<and>
     wf_millis32 (icr_ThrottleTime r) \<and>
     length (icr_Resources r) \<le> 131070 \<and> list_all wf_AlterConfigsResourceResponse (icr_Resources r)"

interpretation icr: wire_codec enc_IncrementalAlterConfigsResponse dec_IncrementalAlterConfigsResponse "\<lambda>_. v"
  wf_IncrementalAlterConfigsResponse for v
  by (rule wire_codecI, unfold enc_IncrementalAlterConfigsResponse_def dec_IncrementalAlterConfigsResponse_def
      wf_IncrementalAlterConfigsResponse_def)
    (rule codes_rules | (auto simp: codes_simps intro!: ars.codes ars.nonempty; fail))+

subsection \<open>DescribeConfigs\<close>

record ConfigResource =
  cfr_Type :: int8
  cfr_Name :: string
  cfr_ConfigNames :: "string list"

definition enc_ConfigResource :: "ConfigResource \<Rightarrow> pe_op list" where
  "enc_ConfigResource r =
     [putInt8 (cfr_Type r), putString (cfr_Name r)] @
     enc_null_strings (cfr_ConfigNames r)"

definition dec_ConfigResource :: "ConfigResource dec" where
  "dec_ConfigResource =
     dbind getInt8 (\<lambda>typ.
     dbind getString (\<lambda>nm.
     dbind dec_null_strings (\<lambda>configNames.
       dreturn \<lparr>cfr_Type = typ, cfr_Name = nm, cfr_ConfigNames = configNames\<rparr>)))"

definition wf_ConfigResource :: "ConfigResource \<Rightarrow> bool" where
  "wf_ConfigResource r \<longleftrightarrow> length (cfr_Name r) \<le> 32767 \<and>
     length (cfr_ConfigNames r) \<le> 131070 \<and> list_all (\<lambda>s. length s \<le> 32767) (cfr_ConfigNames r)"

lemma enc_ConfigResource_nonempty: "ser_ops (enc_ConfigResource r) \<noteq> []"
  by (simp add: enc_ConfigResource_def ser_simps)

interpretation cfr: wire_elem enc_ConfigResource "\<lambda>_. dec_ConfigResource" "\<lambda>_. 0"
  wf_ConfigResource
  by (rule wire_elemI [OF _ enc_ConfigResource_nonempty], unfold enc_ConfigResource_def dec_ConfigResource_def
      wf_ConfigResource_def)
    (rule codes_rules codes_last [OF codes_null_strings] | (auto simp: codes_simps; fail))+

record DescribeConfigsRequest =
  dcq_Version :: int
  dcq_Resources :: "ConfigResource list"
  dcq_IncludeSynonyms :: bool

definition enc_DescribeConfigsRequest :: "DescribeConfigsRequest \<Rightarrow> pe_op list" where
  "enc_DescribeConfigsRequest r =
     enc_array enc_ConfigResource (dcq_Resources r) @
     (if dcq_Version r \<ge> 1 then [putBool (dcq_IncludeSynonyms r)] else [])"

definition dec_DescribeConfigsRequest :: "int \<Rightarrow> DescribeConfigsRequest dec" where
  "dec_DescribeConfigsRequest version =
     dbind (dec_array dec_ConfigResource) (\<lambda>resources.
     dbind (if version \<ge> 1 then getBool else dreturn False) (\<lambda>includeSynonyms.
       dreturn \<lparr>dcq_Version = version, dcq_Resources = resources, dcq_IncludeSynonyms = includeSynonyms\<rparr>))"

definition wf_DescribeConfigsRequest :: "DescribeConfigsRequest \<Rightarrow> bool" where
  "wf_DescribeConfigsRequest r \<longleftrightarrow> length (dcq_Resources r) \<le> 131070 \<and> list_all wf_ConfigResource (dcq_Resources r) \<and>
     (dcq_Version r \<ge> 1 \<or> \<not> dcq_IncludeSynonyms r)"

interpretation dcq: wire_codec enc_DescribeConfigsRequest dec_DescribeConfigsRequest dcq_Version
  wf_DescribeConfigsRequest
  by (rule wire_codecI, unfold enc_DescribeConfigsRequest_def dec_DescribeConfigsRequest_def
      wf_DescribeConfigsRequest_def)
    (rule codes_rules | (auto simp: codes_simps intro!: cfr.codes cfr.nonempty; fail))+

abbreviation (input) SourceUnknown :: int8 where "SourceUnknown \<equiv> 0"
abbreviation (input) SourceTopic :: int8 where "SourceTopic \<equiv> 1"
abbreviation (input) SourceDynamicBroker :: int8 where "SourceDynamicBroker \<equiv> 2"
abbreviation (input) SourceDynamicDefaultBroker :: int8 where "SourceDynamicDefaultBroker \<equiv> 3"
abbreviation (input) SourceStaticBroker :: int8 where "SourceStaticBroker \<equiv> 4"
abbreviation (input) SourceDefault :: int8 where "SourceDefault \<equiv> 5"

record ConfigSynonym =
  csy_ConfigName :: string
  csy_ConfigValue :: string
  csy_Source :: int8

definition enc_ConfigSynonym :: "ConfigSynonym \<Rightarrow> pe_op list" where
  "enc_ConfigSynonym r =
     [putString (csy_ConfigName r), putString (csy_ConfigValue r), putInt8 (csy_Source r)]"

definition dec_ConfigSynonym :: "ConfigSynonym dec" where
  "dec_ConfigSynonym =
     dbind getString (\<lambda>configName.
     dbind getString (\<lambda>configValue.
     dbind getInt8 (\<lambda>source.
       dreturn \<lparr>csy_ConfigName = configName, csy_ConfigValue = configValue, csy_Source = source\<rparr>)))"

definition wf_ConfigSynonym :: "ConfigSynonym \<Rightarrow> bool" where
  "wf_ConfigSynonym r \<longleftrightarrow> length (csy_ConfigName r) \<le> 32767 \<and>
     length (csy_ConfigValue r) \<le> 32767"

lemma enc_ConfigSynonym_nonempty: "ser_ops (enc_ConfigSynonym r) \<noteq> []"
  by (simp add: enc_ConfigSynonym_def ser_simps)

interpretation csy: wire_elem enc_ConfigSynonym "\<lambda>_. dec_ConfigSynonym" "\<lambda>_. 0"
  wf_ConfigSynonym
  by (rule wire_elemI [OF _ enc_ConfigSynonym_nonempty], unfold enc_ConfigSynonym_def dec_ConfigSynonym_def
      wf_ConfigSynonym_def)
    (rule codes_rules | (auto simp: codes_simps; fail))+


text \<open>
  Version 0 sends whether a value is the default one, the later versions where it comes from; the
  decoder derives the other of the two.
\<close>

record ConfigEntry =
  cfe_Name :: string
  cfe_Value :: string
  cfe_ReadOnly :: bool
  cfe_Default :: bool
  cfe_Source :: int8
  cfe_Sensitive :: bool
  cfe_Synonyms :: "ConfigSynonym list"

definition enc_ConfigEntry :: "int \<Rightarrow> ConfigEntry \<Rightarrow> pe_op list" where
  "enc_ConfigEntry version r =
     [putString (cfe_Name r), putString (cfe_Value r), putBool (cfe_ReadOnly r)] @
     (if version \<le> 0 then [putBool (cfe_Default r), putBool (cfe_Sensitive r)]
      else [putInt8 (cfe_Source r), putBool (cfe_Sensitive r)] @
        enc_array enc_ConfigSynonym (cfe_Synonyms r))"

definition dec_ConfigEntry :: "int \<Rightarrow> ConfigEntry dec" where
  "dec_ConfigEntry version =
     dbind getString (\<lambda>nm.
     dbind getString (\<lambda>val.
     dbind getBool (\<lambda>read.
     dbind (if version = 0 then
              dbind getBool (\<lambda>defaultB. dreturn (defaultB, if defaultB then SourceDefault else SourceUnknown))
            else dbind getInt8 (\<lambda>source. dreturn (source = SourceDefault, source))) (\<lambda>(default, source).
     dbind getBool (\<lambda>sensitive.
     dbind (if version > 0 then dec_array dec_ConfigSynonym else dreturn []) (\<lambda>synonyms.
       dreturn \<lparr>cfe_Name = nm, cfe_Value = val, cfe_ReadOnly = read, cfe_Default = default,
         cfe_Source = source, cfe_Sensitive = sensitive, cfe_Synonyms = synonyms\<rparr>))))))"

definition wf_ConfigEntry :: "int \<Rightarrow> ConfigEntry \<Rightarrow> bool" where
  "wf_ConfigEntry version r \<longleftrightarrow> 0 \<le> version \<and>
     length (cfe_Name r) \<le> 32767 \<and> length (cfe_Value r) \<le> 32767 \<and>
     (if version = 0
      then cfe_Source r = (if cfe_Default r then SourceDefault else SourceUnknown) \<and> cfe_Synonyms r = []
      else cfe_Default r = (cfe_Source r = SourceDefault) \<and>
        length (cfe_Synonyms r) \<le> 131070 \<and> list_all wf_ConfigSynonym (cfe_Synonyms r))"

interpretation cfe: wire_elem "enc_ConfigEntry v" dec_ConfigEntry "\<lambda>_. v" "wf_ConfigEntry v" for v
proof (rule wire_elemI)
  fix r assume wf: "wf_ConfigEntry v r"
  show "ser_ops (enc_ConfigEntry v r) \<noteq> []" by (simp add: enc_ConfigEntry_def ser_simps)
  show "codes (dec_ConfigEntry v) (enc_ConfigEntry v r) r"
  proof (cases "v = 0")
    case True
    with wf show ?thesis
      by (cases r) (auto simp: codes_def enc_ConfigEntry_def dec_ConfigEntry_def wf_ConfigEntry_def
          ser_simps dec_steps intro!: readsI)
  next
    case False
    with wf have "codes (dec_array dec_ConfigSynonym) (enc_array enc_ConfigSynonym (cfe_Synonyms r)) (cfe_Synonyms r)"
      by (intro codes_array(1)) (auto simp: wf_ConfigEntry_def list_all_iff intro!: csy.codes csy.nonempty)
    then have "reads (dec_array dec_ConfigSynonym) (ser_ops (enc_array enc_ConfigSynonym (cfe_Synonyms r))) (cfe_Synonyms r)"
      and "ops_ok (enc_array enc_ConfigSynonym (cfe_Synonyms r))"
      by (simp_all add: codes_def)
    with False wf reads_at [OF this(1)] show ?thesis
      by (cases r) (auto simp: codes_def enc_ConfigEntry_def dec_ConfigEntry_def wf_ConfigEntry_def
          ser_simps dec_steps intro!: readsI)
  qed
qed

record ResourceResponse =
  rsp_ErrorCode :: int16
  rsp_ErrorMsg :: string
  rsp_Type :: int8
  rsp_Name :: string
  rsp_Configs :: "ConfigEntry list"

definition enc_ResourceResponse :: "int \<Rightarrow> ResourceResponse \<Rightarrow> pe_op list" where
  "enc_ResourceResponse version r =
     [putInt16 (rsp_ErrorCode r), putString (rsp_ErrorMsg r), putInt8 (rsp_Type r),
      putString (rsp_Name r)] @
     enc_array (enc_ConfigEntry version) (rsp_Configs r)"

definition dec_ResourceResponse :: "int \<Rightarrow> ResourceResponse dec" where
  "dec_ResourceResponse version =
     dbind getInt16 (\<lambda>errorCode.
     dbind getString (\<lambda>errorMsg.
     dbind getInt8 (\<lambda>typ.
     dbind getString (\<lambda>nm.
     dbind (dec_array (dec_ConfigEntry version)) (\<lambda>configs.
       dreturn \<lparr>rsp_ErrorCode = errorCode, rsp_ErrorMsg = errorMsg, rsp_Type = typ, rsp_Name = nm,
         rsp_Configs = configs\<rparr>)))))"

definition wf_ResourceResponse :: "int \<Rightarrow> ResourceResponse \<Rightarrow> bool" where
  "wf_ResourceResponse version r \<longleftrightarrow> length (rsp_ErrorMsg r) \<le> 32767 \<and>
     length (rsp_Name r) \<le> 32767 \<and>
     length (rsp_Configs r) \<le> 131070 \<and> list_all (wf_ConfigEntry version) (rsp_Configs r)"

lemma enc_ResourceResponse_nonempty: "ser_ops (enc_ResourceResponse version r) \<noteq> []"
  by (simp add: enc_ResourceResponse_def ser_simps)

interpretation rsp: wire_elem "enc_ResourceResponse v" dec_ResourceResponse "\<lambda>_. v"
  "wf_ResourceResponse v" for v
  by (rule wire_elemI [OF _ enc_ResourceResponse_nonempty], unfold enc_ResourceResponse_def dec_ResourceResponse_def
      wf_ResourceResponse_def)
    (rule codes_rules | (auto simp: codes_simps intro!: cfe.codes cfe.nonempty; fail))+

record DescribeConfigsResponse =
  dcr_Version :: int
  dcr_ThrottleTime :: int64
  dcr_Resources :: "ResourceResponse list"

definition enc_DescribeConfigsResponse :: "DescribeConfigsResponse \<Rightarrow> pe_op list" where
  "enc_DescribeConfigsResponse r =
     enc_millis32 (dcr_ThrottleTime r) @
     enc_array (enc_ResourceResponse (dcr_Version r)) (dcr_Resources r)"

definition dec_DescribeConfigsResponse :: "int \<Rightarrow> DescribeConfigsResponse dec" where
  "dec_DescribeConfigsResponse version =
     dbind dec_millis32 (\<lambda>throttleTime.
     dbind (dec_array (dec_ResourceResponse version)) (\<lambda>resources.
       dreturn \<lparr>dcr_Version = version, dcr_ThrottleTime = throttleTime, dcr_Resources = resources\<rparr>))"

definition wf_DescribeConfigsResponse :: "DescribeConfigsResponse \<Rightarrow> bool" where
  "wf_DescribeConfigsResponse r \<longleftrightarrow> wf_millis32 (dcr_ThrottleTime r) \<and>
     length (dcr_Resources r) \<le> 131070 \<and> list_all (wf_ResourceResponse (dcr_Version r)) (dcr_Resources r)"

interpretation dcr: wire_codec enc_DescribeConfigsResponse dec_DescribeConfigsResponse dcr_Version
  wf_DescribeConfigsResponse
  by (rule wire_codecI, unfold enc_DescribeConfigsResponse_def dec_DescribeConfigsResponse_def
      wf_DescribeConfigsResponse_def)
    (rule codes_rules | (auto simp: codes_simps intro!: rsp.codes rsp.nonempty; fail))+

subsection \<open>DescribeLogDirs\<close>

record DescribeLogDirsRequestTopic =
  dlt_Topic :: string
  dlt_PartitionIDs :: "int32 list"

definition enc_DescribeLogDirsRequestTopic :: "DescribeLogDirsRequestTopic \<Rightarrow> pe_op list" where
  "enc_DescribeLogDirsRequestTopic r =
     [putString (dlt_Topic r), putInt32Array (dlt_PartitionIDs r)]"

definition dec_DescribeLogDirsRequestTopic :: "DescribeLogDirsRequestTopic dec" where
  "dec_DescribeLogDirsRequestTopic =
     dbind getString (\<lambda>topic.
     dbind getInt32Array (\<lambda>partitionIDs.
       dreturn \<lparr>dlt_Topic = topic, dlt_PartitionIDs = partitionIDs\<rparr>))"

definition wf_DescribeLogDirsRequestTopic :: "DescribeLogDirsRequestTopic \<Rightarrow> bool" where
  "wf_DescribeLogDirsRequestTopic r \<longleftrightarrow> length (dlt_Topic r) \<le> 32767 \<and>
     length (dlt_PartitionIDs r) \<le> 2147483647"

lemma enc_DescribeLogDirsRequestTopic_nonempty: "ser_ops (enc_DescribeLogDirsRequestTopic r) \<noteq> []"
  by (simp add: enc_DescribeLogDirsRequestTopic_def ser_simps)

interpretation dlt: wire_elem enc_DescribeLogDirsRequestTopic "\<lambda>_. dec_DescribeLogDirsRequestTopic" "\<lambda>_. 0"
  wf_DescribeLogDirsRequestTopic
  by (rule wire_elemI [OF _ enc_DescribeLogDirsRequestTopic_nonempty], unfold enc_DescribeLogDirsRequestTopic_def dec_DescribeLogDirsRequestTopic_def
      wf_DescribeLogDirsRequestTopic_def)
    (rule codes_rules | (auto simp: codes_simps; fail))+

record DescribeLogDirsRequest =
  dlq_Version :: int
  dlq_DescribeTopics :: "DescribeLogDirsRequestTopic list"

definition enc_DescribeLogDirsRequest :: "DescribeLogDirsRequest \<Rightarrow> pe_op list" where
  "enc_DescribeLogDirsRequest r =
     enc_null_array enc_DescribeLogDirsRequestTopic (dlq_DescribeTopics r)"

definition dec_DescribeLogDirsRequest :: "int \<Rightarrow> DescribeLogDirsRequest dec" where
  "dec_DescribeLogDirsRequest version =
     dbind (dec_null_array dec_DescribeLogDirsRequestTopic) (\<lambda>describeTopics.
       dreturn \<lparr>dlq_Version = version, dlq_DescribeTopics = describeTopics\<rparr>)"

definition wf_DescribeLogDirsRequest :: "DescribeLogDirsRequest \<Rightarrow> bool" where
  "wf_DescribeLogDirsRequest r \<longleftrightarrow> length (dlq_DescribeTopics r) \<le> 131070 \<and> list_all wf_DescribeLogDirsRequestTopic (dlq_DescribeTopics r)"

interpretation dlq: wire_codec enc_DescribeLogDirsRequest dec_DescribeLogDirsRequest dlq_Version
  wf_DescribeLogDirsRequest
  by (rule wire_codecI, unfold enc_DescribeLogDirsRequest_def dec_DescribeLogDirsRequest_def
      wf_DescribeLogDirsRequest_def)
    (rule codes_rules codes_last [OF codes_null_array] | (auto simp: codes_simps intro!: dlt.codes dlt.nonempty; fail))+

record DescribeLogDirsResponsePartition =
  dlp_PartitionID :: int32
  dlp_Size :: int64
  dlp_OffsetLag :: int64
  dlp_IsTemporary :: bool

definition enc_DescribeLogDirsResponsePartition :: "DescribeLogDirsResponsePartition \<Rightarrow> pe_op list" where
  "enc_DescribeLogDirsResponsePartition r =
     [putInt32 (dlp_PartitionID r), putInt64 (dlp_Size r), putInt64 (dlp_OffsetLag r),
      putBool (dlp_IsTemporary r)]"

definition dec_DescribeLogDirsResponsePartition :: "DescribeLogDirsResponsePartition dec" where
  "dec_DescribeLogDirsResponsePartition =
     dbind getInt32 (\<lambda>partitionID.
     dbind getInt64 (\<lambda>sz.
     dbind getInt64 (\<lambda>offsetLag.
     dbind getBool (\<lambda>isTemporary.
       dreturn \<lparr>dlp_PartitionID = partitionID, dlp_Size = sz, dlp_OffsetLag = offsetLag,
         dlp_IsTemporary = isTemporary\<rparr>))))"

lemma enc_DescribeLogDirsResponsePartition_nonempty: "ser_ops (enc_DescribeLogDirsResponsePartition r) \<noteq> []"
  by (simp add: enc_DescribeLogDirsResponsePartition_def ser_simps)

interpretation dlp: wire_elem enc_DescribeLogDirsResponsePartition "\<lambda>_. dec_DescribeLogDirsResponsePartition" "\<lambda>_. 0"
  "\<lambda>_. True"
  by (rule wire_elemI [OF _ enc_DescribeLogDirsResponsePartition_nonempty], unfold enc_DescribeLogDirsResponsePartition_def dec_DescribeLogDirsResponsePartition_def)
    (rule codes_rules | (auto simp: codes_simps; fail))+

record DescribeLogDirsResponseTopic =
  dls_Topic :: string
  dls_Partitions :: "DescribeLogDirsResponsePartition list"

definition enc_DescribeLogDirsResponseTopic :: "DescribeLogDirsResponseTopic \<Rightarrow> pe_op list" where
  "enc_DescribeLogDirsResponseTopic r =
     [putString (dls_Topic r)] @
     enc_array enc_DescribeLogDirsResponsePartition (dls_Partitions r)"

definition dec_DescribeLogDirsResponseTopic :: "DescribeLogDirsResponseTopic dec" where
  "dec_DescribeLogDirsResponseTopic =
     dbind getString (\<lambda>topic.
     dbind (dec_array dec_DescribeLogDirsResponsePartition) (\<lambda>prts.
       dreturn \<lparr>dls_Topic = topic, dls_Partitions = prts\<rparr>))"

definition wf_DescribeLogDirsResponseTopic :: "DescribeLogDirsResponseTopic \<Rightarrow> bool" where
  "wf_DescribeLogDirsResponseTopic r \<longleftrightarrow> length (dls_Topic r) \<le> 32767 \<and>
     length (dls_Partitions r) \<le> 131070"

lemma enc_DescribeLogDirsResponseTopic_nonempty: "ser_ops (enc_DescribeLogDirsResponseTopic r) \<noteq> []"
  by (simp add: enc_DescribeLogDirsResponseTopic_def ser_simps)

interpretation dls: wire_elem enc_DescribeLogDirsResponseTopic "\<lambda>_. dec_DescribeLogDirsResponseTopic" "\<lambda>_. 0"
  wf_DescribeLogDirsResponseTopic
  by (rule wire_elemI [OF _ enc_DescribeLogDirsResponseTopic_nonempty], unfold enc_DescribeLogDirsResponseTopic_def dec_DescribeLogDirsResponseTopic_def
      wf_DescribeLogDirsResponseTopic_def)
    (rule codes_rules | (auto simp: codes_simps intro!: dlp.codes dlp.nonempty; fail))+

record DescribeLogDirsResponseDirMetadata =
  dlm_ErrorCode :: KError
  dlm_Path :: string
  dlm_Topics :: "DescribeLogDirsResponseTopic list"

definition enc_DescribeLogDirsResponseDirMetadata :: "DescribeLogDirsResponseDirMetadata \<Rightarrow> pe_op list" where
  "enc_DescribeLogDirsResponseDirMetadata r =
     [putInt16 (dlm_ErrorCode r), putString (dlm_Path r)] @
     enc_array enc_DescribeLogDirsResponseTopic (dlm_Topics r)"

definition dec_DescribeLogDirsResponseDirMetadata :: "DescribeLogDirsResponseDirMetadata dec" where
  "dec_DescribeLogDirsResponseDirMetadata =
     dbind getInt16 (\<lambda>errorCode.
     dbind getString (\<lambda>path.
     dbind (dec_array dec_DescribeLogDirsResponseTopic) (\<lambda>tops.
       dreturn \<lparr>dlm_ErrorCode = errorCode, dlm_Path = path, dlm_Topics = tops\<rparr>)))"

definition wf_DescribeLogDirsResponseDirMetadata :: "DescribeLogDirsResponseDirMetadata \<Rightarrow> bool" where
  "wf_DescribeLogDirsResponseDirMetadata r \<longleftrightarrow> length (dlm_Path r) \<le> 32767 \<and>
     length (dlm_Topics r) \<le> 131070 \<and> list_all wf_DescribeLogDirsResponseTopic (dlm_Topics r)"

lemma enc_DescribeLogDirsResponseDirMetadata_nonempty: "ser_ops (enc_DescribeLogDirsResponseDirMetadata r) \<noteq> []"
  by (simp add: enc_DescribeLogDirsResponseDirMetadata_def ser_simps)

interpretation dlm: wire_elem enc_DescribeLogDirsResponseDirMetadata "\<lambda>_. dec_DescribeLogDirsResponseDirMetadata" "\<lambda>_. 0"
  wf_DescribeLogDirsResponseDirMetadata
  by (rule wire_elemI [OF _ enc_DescribeLogDirsResponseDirMetadata_nonempty], unfold enc_DescribeLogDirsResponseDirMetadata_def dec_DescribeLogDirsResponseDirMetadata_def
      wf_DescribeLogDirsResponseDirMetadata_def)
    (rule codes_rules | (auto simp: codes_simps intro!: dls.codes dls.nonempty; fail))+

record DescribeLogDirsResponse =
  dlr_Version :: int
  dlr_ThrottleTime :: int64
  dlr_LogDirs :: "DescribeLogDirsResponseDirMetadata list"

definition enc_DescribeLogDirsResponse :: "DescribeLogDirsResponse \<Rightarrow> pe_op list" where
  "enc_DescribeLogDirsResponse r =
     enc_millis32 (dlr_ThrottleTime r) @
     enc_array enc_DescribeLogDirsResponseDirMetadata (dlr_LogDirs r)"

definition dec_DescribeLogDirsResponse :: "int \<Rightarrow> DescribeLogDirsResponse dec" where
  "dec_DescribeLogDirsResponse version =
     dbind dec_millis32 (\<lambda>throttleTime.
     dbind (dec_array dec_DescribeLogDirsResponseDirMetadata) (\<lambda>logDirs.
       dreturn \<lparr>dlr_Version = 0, dlr_ThrottleTime = throttleTime, dlr_LogDirs = logDirs\<rparr>))"

definition wf_DescribeLogDirsResponse :: "DescribeLogDirsResponse \<Rightarrow> bool" where
  "wf_DescribeLogDirsResponse r \<longleftrightarrow> dlr_Version r = 0 \<and>
     wf_millis32 (dlr_ThrottleTime r) \<and>
     length (dlr_LogDirs r) \<le> 131070 \<and> list_all wf_DescribeLogDirsResponseDirMetadata (dlr_LogDirs r)"

interpretation dlr: wire_codec enc_DescribeLogDirsResponse dec_DescribeLogDirsResponse "\<lambda>_. v"
  wf_DescribeLogDirsResponse for v
  by (rule wire_codecI, unfold enc_DescribeLogDirsResponse_def dec_DescribeLogDirsResponse_def
      wf_DescribeLogDirsResponse_def)
    (rule codes_rules | (auto simp: codes_simps intro!: dlm.codes dlm.nonempty; fail))+

subsection \<open>AlterPartitionReassignments\<close>


text \<open>The tagged fields after a block are written by the block and read by the request.\<close>

record alterPartitionReassignmentsBlock =
  apb_replicas :: "int32 list option"

definition enc_alterPartitionReassignmentsBlock :: "alterPartitionReassignmentsBlock \<Rightarrow> pe_op list" where
  "enc_alterPartitionReassignmentsBlock b =
     [putNullableCompactInt32Array (apb_replicas b), putEmptyTaggedFieldArray]"

definition dec_alterPartitionReassignmentsBlock :: "alterPartitionReassignmentsBlock dec" where
  "dec_alterPartitionReassignmentsBlock =
     dbind getCompactInt32Array (\<lambda>replicas. dreturn \<lparr>apb_replicas = replicas\<rparr>)"

definition dec_reassignment_blocks :: "alterPartitionReassignmentsBlock topics dec" where
  "dec_reassignment_blocks =
     dec_flex_topics (dbind dec_alterPartitionReassignmentsBlock (\<lambda>block.
       dbind getEmptyTaggedFieldArray (\<lambda>_. dreturn block)))"

definition wf_alterPartitionReassignmentsBlock :: "alterPartitionReassignmentsBlock \<Rightarrow> bool" where
  "wf_alterPartitionReassignmentsBlock b \<longleftrightarrow>
     pred_option (\<lambda>xs. length xs \<le> 2147483647) (apb_replicas b)"

lemma codes_reassignment_blocks:
  assumes "wf_topics wf_alterPartitionReassignmentsBlock m"
  shows "codes dec_reassignment_blocks (enc_flex_topics enc_alterPartitionReassignmentsBlock m) m"
  unfolding dec_reassignment_blocks_def using assms
proof (rule codes_flex_topics)
  fix b assume "wf_alterPartitionReassignmentsBlock b"
  then show "codes (dbind dec_alterPartitionReassignmentsBlock (\<lambda>block. dbind getEmptyTaggedFieldArray (\<lambda>_. dreturn block)))
      (enc_alterPartitionReassignmentsBlock b) b"
    by (auto simp: codes_def enc_alterPartitionReassignmentsBlock_def dec_alterPartitionReassignmentsBlock_def
        wf_alterPartitionReassignmentsBlock_def ser_simps dec_steps intro!: readsI)
qed

record AlterPartitionReassignmentsRequest =
  raq_Version :: int
  raq_TimeoutMs :: int32
  raq_blocks :: "alterPartitionReassignmentsBlock topics"

definition enc_AlterPartitionReassignmentsRequest :: "AlterPartitionReassignmentsRequest \<Rightarrow> pe_op list" where
  "enc_AlterPartitionReassignmentsRequest r =
     [putInt32 (raq_TimeoutMs r)] @
     enc_flex_topics enc_alterPartitionReassignmentsBlock (raq_blocks r) @
     [putEmptyTaggedFieldArray]"

definition dec_AlterPartitionReassignmentsRequest :: "int \<Rightarrow> AlterPartitionReassignmentsRequest dec" where
  "dec_AlterPartitionReassignmentsRequest version =
     dbind getInt32 (\<lambda>timeoutMs.
     dbind dec_reassignment_blocks (\<lambda>blocks.
     dbind getEmptyTaggedFieldArray (\<lambda>_.
       dreturn \<lparr>raq_Version = version, raq_TimeoutMs = timeoutMs, raq_blocks = blocks\<rparr>)))"

definition wf_AlterPartitionReassignmentsRequest :: "AlterPartitionReassignmentsRequest \<Rightarrow> bool" where
  "wf_AlterPartitionReassignmentsRequest r \<longleftrightarrow> wf_topics wf_alterPartitionReassignmentsBlock (raq_blocks r)"

interpretation raq: wire_codec enc_AlterPartitionReassignmentsRequest dec_AlterPartitionReassignmentsRequest raq_Version
  wf_AlterPartitionReassignmentsRequest
  by (rule wire_codecI, unfold enc_AlterPartitionReassignmentsRequest_def dec_AlterPartitionReassignmentsRequest_def
      wf_AlterPartitionReassignmentsRequest_def)
    (rule codes_rules codes_bind [OF codes_reassignment_blocks] | (auto simp: codes_simps; fail))+

definition AlterPartitionReassignmentsRequest_AddBlock ::
  "AlterPartitionReassignmentsRequest \<Rightarrow> string \<Rightarrow> int32 \<Rightarrow> int32 list option \<Rightarrow> AlterPartitionReassignmentsRequest" where
  "AlterPartitionReassignmentsRequest_AddBlock r topic partitionID replicas =
     r\<lparr>raq_blocks := set_block topic partitionID \<lparr>apb_replicas = replicas\<rparr> (raq_blocks r)\<rparr>"

text \<open>An error of the message is returned after the tagged fields were read.\<close>

record alterPartitionReassignmentsErrorBlock =
  aeb_errorCode :: KError
  aeb_errorMessage :: nstring

definition enc_alterPartitionReassignmentsErrorBlock :: "alterPartitionReassignmentsErrorBlock \<Rightarrow> pe_op list" where
  "enc_alterPartitionReassignmentsErrorBlock b =
     [putInt16 (aeb_errorCode b), putNullableCompactString (aeb_errorMessage b), putEmptyTaggedFieldArray]"

definition dec_alterPartitionReassignmentsErrorBlock :: "alterPartitionReassignmentsErrorBlock dec" where
  "dec_alterPartitionReassignmentsErrorBlock =
     dbind getInt16 (\<lambda>errorCode.
     dbind (dec_deferred getCompactNullableString getEmptyTaggedFieldArray) (\<lambda>errorMessage.
       dreturn \<lparr>aeb_errorCode = errorCode, aeb_errorMessage = errorMessage\<rparr>))"

definition wf_alterPartitionReassignmentsErrorBlock :: "alterPartitionReassignmentsErrorBlock \<Rightarrow> bool" where
  "wf_alterPartitionReassignmentsErrorBlock b \<longleftrightarrow>
     pred_option (\<lambda>s. length s \<le> 32767) (aeb_errorMessage b)"

lemma codes_ErrorBlock:
  "wf_alterPartitionReassignmentsErrorBlock b \<Longrightarrow>
   codes dec_alterPartitionReassignmentsErrorBlock (enc_alterPartitionReassignmentsErrorBlock b) b"
  using codes_deferred [OF codes_calls(13) codes_calls(9), of "aeb_errorMessage b"] nstring_compact [of "aeb_errorMessage b"]
  unfolding enc_alterPartitionReassignmentsErrorBlock_def dec_alterPartitionReassignmentsErrorBlock_def
    wf_alterPartitionReassignmentsErrorBlock_def
  by (intro codes_step [OF codes_calls(2)] codes_last [of "dec_deferred _ _" _ "aeb_errorMessage b"] codes_return) auto

record AlterPartitionReassignmentsResponse =
  rar_Version :: int
  rar_ThrottleTimeMs :: int32
  rar_ErrorCode :: KError
  rar_ErrorMessage :: nstring
  rar_Errors :: "alterPartitionReassignmentsErrorBlock topics"

definition enc_AlterPartitionReassignmentsResponse :: "AlterPartitionReassignmentsResponse \<Rightarrow> pe_op list" where
  "enc_AlterPartitionReassignmentsResponse r =
     [putInt32 (rar_ThrottleTimeMs r), putInt16 (rar_ErrorCode r),
      putNullableCompactString (rar_ErrorMessage r)] @
     enc_flex_topics enc_alterPartitionReassignmentsErrorBlock (rar_Errors r) @
     [putEmptyTaggedFieldArray]"

definition dec_AlterPartitionReassignmentsResponse :: "int \<Rightarrow> AlterPartitionReassignmentsResponse dec" where
  "dec_AlterPartitionReassignmentsResponse version =
     dbind getInt32 (\<lambda>throttleTimeMs.
     dbind getInt16 (\<lambda>errorCode.
     dbind getCompactNullableString (\<lambda>errorMessage.
     dbind (dec_flex_topics dec_alterPartitionReassignmentsErrorBlock) (\<lambda>errors.
     dbind getEmptyTaggedFieldArray (\<lambda>_.
       dreturn \<lparr>rar_Version = version, rar_ThrottleTimeMs = throttleTimeMs, rar_ErrorCode = errorCode,
         rar_ErrorMessage = errorMessage, rar_Errors = errors\<rparr>)))))"

definition wf_AlterPartitionReassignmentsResponse :: "AlterPartitionReassignmentsResponse \<Rightarrow> bool" where
  "wf_AlterPartitionReassignmentsResponse r \<longleftrightarrow> pred_option (\<lambda>s. length s \<le> 32767) (rar_ErrorMessage r) \<and>
     wf_topics wf_alterPartitionReassignmentsErrorBlock (rar_Errors r)"

interpretation rar: wire_codec enc_AlterPartitionReassignmentsResponse dec_AlterPartitionReassignmentsResponse rar_Version
  wf_AlterPartitionReassignmentsResponse
  by (rule wire_codecI, unfold enc_AlterPartitionReassignmentsResponse_def dec_AlterPartitionReassignmentsResponse_def
      wf_AlterPartitionReassignmentsResponse_def)
    (rule codes_rules 
      codes_bind [OF codes_flex_topics [OF _ codes_ErrorBlock]] | (auto simp: codes_simps; fail))+

definition AlterPartitionReassignmentsResponse_AddError ::
  "AlterPartitionReassignmentsResponse \<Rightarrow> string \<Rightarrow> int32 \<Rightarrow> KError \<Rightarrow> nstring \<Rightarrow> AlterPartitionReassignmentsResponse" where
  "AlterPartitionReassignmentsResponse_AddError r topic prt kerror message =
     r\<lparr>rar_Errors := set_block topic prt \<lparr>aeb_errorCode = kerror, aeb_errorMessage = message\<rparr> (rar_Errors r)\<rparr>"

subsection \<open>ListPartitionReassignments\<close>


definition enc_reassignment_topics :: "(string \<times> int32 list option) list \<Rightarrow> pe_op list" where
  "enc_reassignment_topics m =
     enc_carray (\<lambda>(topic, prts). [putCompactString topic, putCompactInt32Array prts, putEmptyTaggedFieldArray]) m"

definition dec_reassignment_topics :: "(string \<times> int32 list option) list dec" where
  "dec_reassignment_topics =
     dec_cmap (dbind getCompactString (\<lambda>topic.
       dbind (dec_carray getInt32) (\<lambda>prts.
       dbind getEmptyTaggedFieldArray (\<lambda>_. dreturn (topic, Some prts)))))"

definition wf_reassignment_topics :: "(string \<times> int32 list option) list \<Rightarrow> bool" where
  "wf_reassignment_topics m \<longleftrightarrow> length m \<le> 2147483647 \<and> distinct (map fst m) \<and>
     list_all (\<lambda>(topic, prts). length topic \<le> 32767 \<and> (\<exists>xs. prts = Some xs \<and> length xs \<le> 2147483647)) m"

lemma codes_compact_int32s:
  assumes "length xs \<le> 2147483647"
  shows "codes (dec_carray getInt32) [putCompactInt32Array (Some xs)] xs"
proof -
  have "codes (dec_carray getInt32) (enc_carray (\<lambda>x. [putInt32 x]) xs) xs"
    using assms by (intro codes_carray codes_calls)
  moreover have "ser_ops (enc_carray (\<lambda>x. [putInt32 x]) xs) = ser_ops [putCompactInt32Array (Some xs)]"
    by (simp add: ser_simps ser_cint32s_def ser_carray_length_def)
  ultimately show ?thesis using assms by (simp add: codes_def)
qed

lemma codes_reassignment_topics:
  "wf_reassignment_topics m \<Longrightarrow> codes dec_reassignment_topics (enc_reassignment_topics m) m"
  unfolding dec_reassignment_topics_def enc_reassignment_topics_def wf_reassignment_topics_def
  by (rule codes_cmap)
    (auto simp: list_all_iff intro!: codes_step [OF codes_calls(12)] codes_step [OF codes_compact_int32s]
      codes_step [OF codes_calls(9)] codes_return)

record ListPartitionReassignmentsRequest =
  lrq_Version :: int
  lrq_TimeoutMs :: int32
  lrq_blocks :: "(string \<times> int32 list option) list"

definition enc_ListPartitionReassignmentsRequest :: "ListPartitionReassignmentsRequest \<Rightarrow> pe_op list" where
  "enc_ListPartitionReassignmentsRequest r =
     [putInt32 (lrq_TimeoutMs r)] @
     enc_reassignment_topics (lrq_blocks r) @
     [putEmptyTaggedFieldArray]"

definition dec_ListPartitionReassignmentsRequest :: "int \<Rightarrow> ListPartitionReassignmentsRequest dec" where
  "dec_ListPartitionReassignmentsRequest version =
     dbind getInt32 (\<lambda>timeoutMs.
     dbind dec_reassignment_topics (\<lambda>blocks.
     dbind getEmptyTaggedFieldArray (\<lambda>_.
       dreturn \<lparr>lrq_Version = version, lrq_TimeoutMs = timeoutMs, lrq_blocks = blocks\<rparr>)))"

definition wf_ListPartitionReassignmentsRequest :: "ListPartitionReassignmentsRequest \<Rightarrow> bool" where
  "wf_ListPartitionReassignmentsRequest r \<longleftrightarrow> wf_reassignment_topics (lrq_blocks r)"

interpretation lrq: wire_codec enc_ListPartitionReassignmentsRequest dec_ListPartitionReassignmentsRequest lrq_Version
  wf_ListPartitionReassignmentsRequest
  by (rule wire_codecI, unfold enc_ListPartitionReassignmentsRequest_def dec_ListPartitionReassignmentsRequest_def
      wf_ListPartitionReassignmentsRequest_def)
    (rule codes_rules codes_bind [OF codes_reassignment_topics] | (auto simp: codes_simps; fail))+

text \<open>Partitions that are added for a topic which has some already are ignored.\<close>

definition ListPartitionReassignmentsRequest_AddBlock ::
  "ListPartitionReassignmentsRequest \<Rightarrow> string \<Rightarrow> int32 list option \<Rightarrow> ListPartitionReassignmentsRequest" where
  "ListPartitionReassignmentsRequest_AddBlock r topic partitionIDs =
     (case map_of (lrq_blocks r) topic of
        Some (Some _) \<Rightarrow> r
      | _ \<Rightarrow> r\<lparr>lrq_blocks := AList.update topic partitionIDs (lrq_blocks r)\<rparr>)"

record PartitionReplicaReassignmentsStatus =
  prs_Replicas :: "int32 list option"
  prs_AddingReplicas :: "int32 list option"
  prs_RemovingReplicas :: "int32 list option"

definition enc_PartitionReplicaReassignmentsStatus :: "PartitionReplicaReassignmentsStatus \<Rightarrow> pe_op list" where
  "enc_PartitionReplicaReassignmentsStatus r =
     enc_int32s (True) (prs_Replicas r) @
     enc_int32s (True) (prs_AddingReplicas r) @
     enc_int32s (True) (prs_RemovingReplicas r) @
     [putEmptyTaggedFieldArray]"

definition dec_PartitionReplicaReassignmentsStatus :: "PartitionReplicaReassignmentsStatus dec" where
  "dec_PartitionReplicaReassignmentsStatus =
     dbind (dec_int32s (True)) (\<lambda>replicas.
     dbind (dec_int32s (True)) (\<lambda>addingReplicas.
     dbind (dec_int32s (True)) (\<lambda>removingReplicas.
     dbind getEmptyTaggedFieldArray (\<lambda>_.
       dreturn \<lparr>prs_Replicas = replicas, prs_AddingReplicas = addingReplicas,
         prs_RemovingReplicas = removingReplicas\<rparr>))))"

definition wf_PartitionReplicaReassignmentsStatus :: "PartitionReplicaReassignmentsStatus \<Rightarrow> bool" where
  "wf_PartitionReplicaReassignmentsStatus r \<longleftrightarrow> wf_int32s (True) (prs_Replicas r) \<and>
     wf_int32s (True) (prs_AddingReplicas r) \<and>
     wf_int32s (True) (prs_RemovingReplicas r)"

lemma enc_PartitionReplicaReassignmentsStatus_nonempty: "ser_ops (enc_PartitionReplicaReassignmentsStatus r) \<noteq> []"
  by (simp add: enc_PartitionReplicaReassignmentsStatus_def ser_simps enc_int32s_def)

interpretation prs: wire_elem enc_PartitionReplicaReassignmentsStatus "\<lambda>_. dec_PartitionReplicaReassignmentsStatus" "\<lambda>_. 0"
  wf_PartitionReplicaReassignmentsStatus
  by (rule wire_elemI [OF _ enc_PartitionReplicaReassignmentsStatus_nonempty], unfold enc_PartitionReplicaReassignmentsStatus_def dec_PartitionReplicaReassignmentsStatus_def
      wf_PartitionReplicaReassignmentsStatus_def)
    (rule codes_rules
      codes_bind [OF codes_int32s] codes_last [OF codes_int32s] codes_int32s | (auto simp: codes_simps; fail))+

record ListPartitionReassignmentsResponse =
  lrr_Version :: int
  lrr_ThrottleTimeMs :: int32
  lrr_ErrorCode :: KError
  lrr_ErrorMessage :: nstring
  lrr_TopicStatus :: "PartitionReplicaReassignmentsStatus topics"

definition enc_ListPartitionReassignmentsResponse :: "ListPartitionReassignmentsResponse \<Rightarrow> pe_op list" where
  "enc_ListPartitionReassignmentsResponse r =
     [putInt32 (lrr_ThrottleTimeMs r), putInt16 (lrr_ErrorCode r),
      putNullableCompactString (lrr_ErrorMessage r)] @
     enc_flex_topics enc_PartitionReplicaReassignmentsStatus (lrr_TopicStatus r) @
     [putEmptyTaggedFieldArray]"

definition dec_ListPartitionReassignmentsResponse :: "int \<Rightarrow> ListPartitionReassignmentsResponse dec" where
  "dec_ListPartitionReassignmentsResponse version =
     dbind getInt32 (\<lambda>throttleTimeMs.
     dbind getInt16 (\<lambda>errorCode.
     dbind getCompactNullableString (\<lambda>errorMessage.
     dbind (dec_flex_topics dec_PartitionReplicaReassignmentsStatus) (\<lambda>topicStatus.
     dbind getEmptyTaggedFieldArray (\<lambda>_.
       dreturn \<lparr>lrr_Version = version, lrr_ThrottleTimeMs = throttleTimeMs, lrr_ErrorCode = errorCode,
         lrr_ErrorMessage = errorMessage, lrr_TopicStatus = topicStatus\<rparr>)))))"

definition wf_ListPartitionReassignmentsResponse :: "ListPartitionReassignmentsResponse \<Rightarrow> bool" where
  "wf_ListPartitionReassignmentsResponse r \<longleftrightarrow> pred_option (\<lambda>s. length s \<le> 32767) (lrr_ErrorMessage r) \<and>
     wf_topics wf_PartitionReplicaReassignmentsStatus (lrr_TopicStatus r)"

interpretation lrr: wire_codec enc_ListPartitionReassignmentsResponse dec_ListPartitionReassignmentsResponse lrr_Version
  wf_ListPartitionReassignmentsResponse
  by (rule wire_codecI, unfold enc_ListPartitionReassignmentsResponse_def dec_ListPartitionReassignmentsResponse_def
      wf_ListPartitionReassignmentsResponse_def)
    (rule codes_rules 
      codes_bind [OF codes_flex_topics [OF _ prs.codes [OF _ refl]]] | (auto simp: codes_simps; fail))+

definition ListPartitionReassignmentsResponse_AddBlock ::
  "ListPartitionReassignmentsResponse \<Rightarrow> string \<Rightarrow> int32 \<Rightarrow> int32 list option \<Rightarrow> int32 list option \<Rightarrow>
   int32 list option \<Rightarrow> ListPartitionReassignmentsResponse" where
  "ListPartitionReassignmentsResponse_AddBlock r topic prt replicas addingReplicas removingReplicas =
     r\<lparr>lrr_TopicStatus := set_block topic prt
        \<lparr>prs_Replicas = replicas, prs_AddingReplicas = addingReplicas, prs_RemovingReplicas = removingReplicas\<rparr>
        (lrr_TopicStatus r)\<rparr>"

end
