(* ===== verification/Auth_Messages.thy ===== *)
theory Auth_Messages
  imports Admin_Common
begin

text \<open>
  Quotas and authentication: \<open>quota_types.go\<close>, \<open>describe_client_quotas_*.go\<close>,
  \<open>alter_client_quotas_*.go\<close>, \<open>sasl_handshake_*.go\<close>, \<open>sasl_authenticate_*.go\<close>,
  \<open>describe_user_scram_credentials_*.go\<close>, \<open>alter_user_scram_credentials_*.go\<close> and
  \<open>scram_formatter.go\<close>. Every message type but the request that sets SCRAM credentials interprets
  \<open>wire_codec\<close>; that one is read back with the salted passwords in place of the passwords, and the
  salted password is the function \<open>Hi\<close> of RFC 5802.
\<close>

subsection \<open>Quotas (quota\_types.go, describe\_client\_quotas, alter\_client\_quotas)\<close>


type_synonym QuotaEntityType = string
type_synonym QuotaMatchType = int64

abbreviation (input) QuotaMatchExact :: QuotaMatchType where "QuotaMatchExact \<equiv> 0"
abbreviation (input) QuotaMatchDefault :: QuotaMatchType where "QuotaMatchDefault \<equiv> 1"
abbreviation (input) QuotaMatchAny :: QuotaMatchType where "QuotaMatchAny \<equiv> 2"

text \<open>What a filter component matches is null for any match and empty for the default one.\<close>

record QuotaFilterComponent =
  qfc_EntityType :: QuotaEntityType
  qfc_MatchType :: QuotaMatchType
  qfc_Match :: string

definition enc_QuotaFilterComponent :: "QuotaFilterComponent \<Rightarrow> pe_op list" where
  "enc_QuotaFilterComponent d =
     [putString (qfc_EntityType d)] @ enc_small (qfc_MatchType d) @
     (if qfc_MatchType d = QuotaMatchAny then [putNullableString None]
      else if qfc_MatchType d = QuotaMatchDefault then [putString []]
      else [putString (qfc_Match d)])"

definition dec_QuotaFilterComponent :: "QuotaFilterComponent dec" where
  "dec_QuotaFilterComponent =
     dbind getString (\<lambda>entityType.
     dbind dec_small (\<lambda>matchType.
     dbind getNullableString (\<lambda>mtch.
       dreturn \<lparr>qfc_EntityType = entityType, qfc_MatchType = matchType,
         qfc_Match = (case mtch of None \<Rightarrow> [] | Some m \<Rightarrow> m)\<rparr>)))"

definition wf_QuotaFilterComponent :: "QuotaFilterComponent \<Rightarrow> bool" where
  "wf_QuotaFilterComponent d \<longleftrightarrow> length (qfc_EntityType d) \<le> 32767 \<and> wf_small (qfc_MatchType d) \<and>
     length (qfc_Match d) \<le> 32767 \<and>
     (qfc_MatchType d = QuotaMatchAny \<or> qfc_MatchType d = QuotaMatchDefault \<longrightarrow> qfc_Match d = [])"

lemma codes_match:
  "length s \<le> 32767 \<Longrightarrow>
   codes getNullableString (if m = QuotaMatchAny then [putNullableString None]
      else if m = QuotaMatchDefault then [putString []] else [putString s])
     (if m = QuotaMatchAny then None else if m = QuotaMatchDefault then Some [] else Some s)"
  using codes_string_nullable [of "[]"] codes_string_nullable [of s] codes_calls(11) [of None] by simp

interpretation qfc: wire_elem enc_QuotaFilterComponent "\<lambda>_. dec_QuotaFilterComponent" "\<lambda>_. 0"
  wf_QuotaFilterComponent
proof (rule wire_elemI)
  fix d assume wf: "wf_QuotaFilterComponent d"
  show "ser_ops (enc_QuotaFilterComponent d) \<noteq> []"
    by (simp add: enc_QuotaFilterComponent_def ser_simps)
  show "codes dec_QuotaFilterComponent (enc_QuotaFilterComponent d) d"
    unfolding enc_QuotaFilterComponent_def dec_QuotaFilterComponent_def append_Cons append_Nil
    using wf unfolding wf_QuotaFilterComponent_def
    by (intro codes_step [OF codes_calls(10)] codes_bind [OF codes_small] codes_last [OF codes_match] codes_return) auto
qed

record DescribeClientQuotasRequest =
  dqq_Version :: int
  dqq_Components :: "QuotaFilterComponent list"
  dqq_Strict :: bool

definition enc_DescribeClientQuotasRequest :: "DescribeClientQuotasRequest \<Rightarrow> pe_op list" where
  "enc_DescribeClientQuotasRequest r =
     enc_array enc_QuotaFilterComponent (dqq_Components r) @
     [putBool (dqq_Strict r)]"

definition dec_DescribeClientQuotasRequest :: "int \<Rightarrow> DescribeClientQuotasRequest dec" where
  "dec_DescribeClientQuotasRequest version =
     dbind (dec_loop dec_QuotaFilterComponent) (\<lambda>components.
     dbind getBool (\<lambda>strict.
       dreturn \<lparr>dqq_Version = version, dqq_Components = components, dqq_Strict = strict\<rparr>))"

definition wf_DescribeClientQuotasRequest :: "DescribeClientQuotasRequest \<Rightarrow> bool" where
  "wf_DescribeClientQuotasRequest r \<longleftrightarrow> length (dqq_Components r) \<le> 131070 \<and> list_all wf_QuotaFilterComponent (dqq_Components r)"

interpretation dqq: wire_codec enc_DescribeClientQuotasRequest dec_DescribeClientQuotasRequest dqq_Version
  wf_DescribeClientQuotasRequest
  by (rule wire_codecI, unfold enc_DescribeClientQuotasRequest_def dec_DescribeClientQuotasRequest_def
      wf_DescribeClientQuotasRequest_def)
    (rule codes_rules | (auto simp: codes_simps intro!: qfc.codes qfc.nonempty; fail))+


text \<open>The default entity is sent as a null name; a name that is read is an exact match.\<close>

record QuotaEntityComponent =
  qec_EntityType :: QuotaEntityType
  qec_MatchType :: QuotaMatchType
  qec_Name :: string

definition enc_QuotaEntityComponent :: "QuotaEntityComponent \<Rightarrow> pe_op list" where
  "enc_QuotaEntityComponent c =
     [putString (qec_EntityType c)] @
     (if qec_MatchType c = QuotaMatchDefault then [putNullableString None] else [putString (qec_Name c)])"

definition dec_QuotaEntityComponent :: "QuotaEntityComponent dec" where
  "dec_QuotaEntityComponent =
     dbind getString (\<lambda>entityType.
     dbind getNullableString (\<lambda>entityName.
       dreturn (case entityName of
           None \<Rightarrow> \<lparr>qec_EntityType = entityType, qec_MatchType = QuotaMatchDefault, qec_Name = []\<rparr>
         | Some nm \<Rightarrow> \<lparr>qec_EntityType = entityType, qec_MatchType = QuotaMatchExact, qec_Name = nm\<rparr>)))"

definition wf_QuotaEntityComponent :: "QuotaEntityComponent \<Rightarrow> bool" where
  "wf_QuotaEntityComponent c \<longleftrightarrow> length (qec_EntityType c) \<le> 32767 \<and> length (qec_Name c) \<le> 32767 \<and>
     (qec_MatchType c = QuotaMatchDefault \<and> qec_Name c = [] \<or> qec_MatchType c = QuotaMatchExact)"

lemma enc_QuotaEntityComponent_nonempty: "ser_ops (enc_QuotaEntityComponent c) \<noteq> []"
  by (simp add: enc_QuotaEntityComponent_def ser_simps)

interpretation qec: wire_elem enc_QuotaEntityComponent "\<lambda>_. dec_QuotaEntityComponent" "\<lambda>_. 0"
  wf_QuotaEntityComponent
proof (rule wire_elemI [OF _ enc_QuotaEntityComponent_nonempty])
  fix c assume wf: "wf_QuotaEntityComponent c"
  let ?nm = "if qec_MatchType c = QuotaMatchDefault then None else Some (qec_Name c)"
  have "codes getNullableString
      (if qec_MatchType c = QuotaMatchDefault then [putNullableString None] else [putString (qec_Name c)]) ?nm"
    using wf codes_string_nullable [of "qec_Name c"] codes_calls(11) [of None]
    by (simp add: wf_QuotaEntityComponent_def)
  then show "codes dec_QuotaEntityComponent (enc_QuotaEntityComponent c) c"
    unfolding enc_QuotaEntityComponent_def dec_QuotaEntityComponent_def append_Cons append_Nil
    using wf unfolding wf_QuotaEntityComponent_def
    by (intro codes_step [OF codes_calls(10)] codes_last [of getNullableString _ ?nm] codes_return) auto
qed

record DescribeClientQuotasEntry =
  dqe_Entity :: "QuotaEntityComponent list"
  dqe_Values :: "(string \<times> 64 word) list"

definition enc_DescribeClientQuotasEntry :: "DescribeClientQuotasEntry \<Rightarrow> pe_op list" where
  "enc_DescribeClientQuotasEntry r =
     enc_array enc_QuotaEntityComponent (dqe_Entity r) @
     enc_array (\<lambda>(k, x). [putString k, putFloat64 x]) (dqe_Values r)"

definition dec_DescribeClientQuotasEntry :: "DescribeClientQuotasEntry dec" where
  "dec_DescribeClientQuotasEntry =
     dbind (dec_loop dec_QuotaEntityComponent) (\<lambda>entity.
     dbind (dec_map (dec_pair getString getFloat64)) (\<lambda>values.
       dreturn \<lparr>dqe_Entity = entity, dqe_Values = values\<rparr>))"

definition wf_DescribeClientQuotasEntry :: "DescribeClientQuotasEntry \<Rightarrow> bool" where
  "wf_DescribeClientQuotasEntry r \<longleftrightarrow> length (dqe_Entity r) \<le> 131070 \<and> list_all wf_QuotaEntityComponent (dqe_Entity r) \<and>
     length (dqe_Values r) \<le> 131070 \<and> distinct (map fst (dqe_Values r)) \<and>
     list_all (\<lambda>(k, x). length k \<le> 32767) (dqe_Values r)"

lemma enc_DescribeClientQuotasEntry_nonempty: "ser_ops (enc_DescribeClientQuotasEntry r) \<noteq> []"
  by (simp add: enc_DescribeClientQuotasEntry_def ser_simps)

interpretation dqe: wire_elem enc_DescribeClientQuotasEntry "\<lambda>_. dec_DescribeClientQuotasEntry" "\<lambda>_. 0"
  wf_DescribeClientQuotasEntry
  by (rule wire_elemI [OF _ enc_DescribeClientQuotasEntry_nonempty], unfold enc_DescribeClientQuotasEntry_def dec_DescribeClientQuotasEntry_def
      wf_DescribeClientQuotasEntry_def)
    (rule codes_rules | (auto simp: codes_simps intro!: qec.codes qec.nonempty; fail))+

record DescribeClientQuotasResponse =
  dqr_Version :: int
  dqr_ThrottleTime :: int64
  dqr_ErrorCode :: KError
  dqr_ErrorMsg :: nstring
  dqr_Entries :: "DescribeClientQuotasEntry list"

definition enc_DescribeClientQuotasResponse :: "DescribeClientQuotasResponse \<Rightarrow> pe_op list" where
  "enc_DescribeClientQuotasResponse r =
     enc_millis32 (dqr_ThrottleTime r) @
     [putInt16 (dqr_ErrorCode r), putNullableString (dqr_ErrorMsg r)] @
     enc_array enc_DescribeClientQuotasEntry (dqr_Entries r)"

definition dec_DescribeClientQuotasResponse :: "int \<Rightarrow> DescribeClientQuotasResponse dec" where
  "dec_DescribeClientQuotasResponse version =
     dbind dec_millis32 (\<lambda>throttleTime.
     dbind getInt16 (\<lambda>errorCode.
     dbind getNullableString (\<lambda>errorMsg.
     dbind (dec_loop dec_DescribeClientQuotasEntry) (\<lambda>entries.
       dreturn \<lparr>dqr_Version = 0, dqr_ThrottleTime = throttleTime, dqr_ErrorCode = errorCode,
         dqr_ErrorMsg = errorMsg, dqr_Entries = entries\<rparr>))))"

definition wf_DescribeClientQuotasResponse :: "DescribeClientQuotasResponse \<Rightarrow> bool" where
  "wf_DescribeClientQuotasResponse r \<longleftrightarrow> dqr_Version r = 0 \<and>
     wf_millis32 (dqr_ThrottleTime r) \<and>
     pred_option (\<lambda>s. length s \<le> 32767) (dqr_ErrorMsg r) \<and>
     length (dqr_Entries r) \<le> 131070 \<and> list_all wf_DescribeClientQuotasEntry (dqr_Entries r)"

interpretation dqr: wire_codec enc_DescribeClientQuotasResponse dec_DescribeClientQuotasResponse "\<lambda>_. v"
  wf_DescribeClientQuotasResponse for v
  by (rule wire_codecI, unfold enc_DescribeClientQuotasResponse_def dec_DescribeClientQuotasResponse_def
      wf_DescribeClientQuotasResponse_def)
    (rule codes_rules | (auto simp: codes_simps intro!: dqe.codes dqe.nonempty; fail))+

record ClientQuotasOp =
  cqo_Key :: string
  cqo_Value :: "64 word"
  cqo_Remove :: bool

definition enc_ClientQuotasOp :: "ClientQuotasOp \<Rightarrow> pe_op list" where
  "enc_ClientQuotasOp r =
     [putString (cqo_Key r), putFloat64 (cqo_Value r), putBool (cqo_Remove r)]"

definition dec_ClientQuotasOp :: "ClientQuotasOp dec" where
  "dec_ClientQuotasOp =
     dbind getString (\<lambda>key.
     dbind getFloat64 (\<lambda>val.
     dbind getBool (\<lambda>remove.
       dreturn \<lparr>cqo_Key = key, cqo_Value = val, cqo_Remove = remove\<rparr>)))"

definition wf_ClientQuotasOp :: "ClientQuotasOp \<Rightarrow> bool" where
  "wf_ClientQuotasOp r \<longleftrightarrow> length (cqo_Key r) \<le> 32767"

lemma enc_ClientQuotasOp_nonempty: "ser_ops (enc_ClientQuotasOp r) \<noteq> []"
  by (simp add: enc_ClientQuotasOp_def ser_simps)

interpretation cqo: wire_elem enc_ClientQuotasOp "\<lambda>_. dec_ClientQuotasOp" "\<lambda>_. 0"
  wf_ClientQuotasOp
  by (rule wire_elemI [OF _ enc_ClientQuotasOp_nonempty], unfold enc_ClientQuotasOp_def dec_ClientQuotasOp_def
      wf_ClientQuotasOp_def)
    (rule codes_rules | (auto simp: codes_simps; fail))+

record AlterClientQuotasEntry =
  aqe_Entity :: "QuotaEntityComponent list"
  aqe_Ops :: "ClientQuotasOp list"

definition enc_AlterClientQuotasEntry :: "AlterClientQuotasEntry \<Rightarrow> pe_op list" where
  "enc_AlterClientQuotasEntry r =
     enc_array enc_QuotaEntityComponent (aqe_Entity r) @
     enc_array enc_ClientQuotasOp (aqe_Ops r)"

definition dec_AlterClientQuotasEntry :: "AlterClientQuotasEntry dec" where
  "dec_AlterClientQuotasEntry =
     dbind (dec_loop dec_QuotaEntityComponent) (\<lambda>entity.
     dbind (dec_loop dec_ClientQuotasOp) (\<lambda>ops.
       dreturn \<lparr>aqe_Entity = entity, aqe_Ops = ops\<rparr>))"

definition wf_AlterClientQuotasEntry :: "AlterClientQuotasEntry \<Rightarrow> bool" where
  "wf_AlterClientQuotasEntry r \<longleftrightarrow> length (aqe_Entity r) \<le> 131070 \<and> list_all wf_QuotaEntityComponent (aqe_Entity r) \<and>
     length (aqe_Ops r) \<le> 131070 \<and> list_all wf_ClientQuotasOp (aqe_Ops r)"

lemma enc_AlterClientQuotasEntry_nonempty: "ser_ops (enc_AlterClientQuotasEntry r) \<noteq> []"
  by (simp add: enc_AlterClientQuotasEntry_def ser_simps)

interpretation aqe: wire_elem enc_AlterClientQuotasEntry "\<lambda>_. dec_AlterClientQuotasEntry" "\<lambda>_. 0"
  wf_AlterClientQuotasEntry
  by (rule wire_elemI [OF _ enc_AlterClientQuotasEntry_nonempty], unfold enc_AlterClientQuotasEntry_def dec_AlterClientQuotasEntry_def
      wf_AlterClientQuotasEntry_def)
    (rule codes_rules | (auto simp: codes_simps intro!: cqo.codes cqo.nonempty qec.codes qec.nonempty; fail))+

record AlterClientQuotasRequest =
  aqq_Version :: int
  aqq_Entries :: "AlterClientQuotasEntry list"
  aqq_ValidateOnly :: bool

definition enc_AlterClientQuotasRequest :: "AlterClientQuotasRequest \<Rightarrow> pe_op list" where
  "enc_AlterClientQuotasRequest r =
     enc_array enc_AlterClientQuotasEntry (aqq_Entries r) @
     [putBool (aqq_ValidateOnly r)]"

definition dec_AlterClientQuotasRequest :: "int \<Rightarrow> AlterClientQuotasRequest dec" where
  "dec_AlterClientQuotasRequest version =
     dbind (dec_loop dec_AlterClientQuotasEntry) (\<lambda>entries.
     dbind getBool (\<lambda>validateOnly.
       dreturn \<lparr>aqq_Version = version, aqq_Entries = entries, aqq_ValidateOnly = validateOnly\<rparr>))"

definition wf_AlterClientQuotasRequest :: "AlterClientQuotasRequest \<Rightarrow> bool" where
  "wf_AlterClientQuotasRequest r \<longleftrightarrow> length (aqq_Entries r) \<le> 131070 \<and> list_all wf_AlterClientQuotasEntry (aqq_Entries r)"

interpretation aqq: wire_codec enc_AlterClientQuotasRequest dec_AlterClientQuotasRequest aqq_Version
  wf_AlterClientQuotasRequest
  by (rule wire_codecI, unfold enc_AlterClientQuotasRequest_def dec_AlterClientQuotasRequest_def
      wf_AlterClientQuotasRequest_def)
    (rule codes_rules | (auto simp: codes_simps intro!: aqe.codes aqe.nonempty; fail))+

record AlterClientQuotasEntryResponse =
  aqs_ErrorCode :: KError
  aqs_ErrorMsg :: nstring
  aqs_Entity :: "QuotaEntityComponent list"

definition enc_AlterClientQuotasEntryResponse :: "AlterClientQuotasEntryResponse \<Rightarrow> pe_op list" where
  "enc_AlterClientQuotasEntryResponse r =
     [putInt16 (aqs_ErrorCode r), putNullableString (aqs_ErrorMsg r)] @
     enc_array enc_QuotaEntityComponent (aqs_Entity r)"

definition dec_AlterClientQuotasEntryResponse :: "AlterClientQuotasEntryResponse dec" where
  "dec_AlterClientQuotasEntryResponse =
     dbind getInt16 (\<lambda>errorCode.
     dbind getNullableString (\<lambda>errorMsg.
     dbind (dec_loop dec_QuotaEntityComponent) (\<lambda>entity.
       dreturn \<lparr>aqs_ErrorCode = errorCode, aqs_ErrorMsg = errorMsg, aqs_Entity = entity\<rparr>)))"

definition wf_AlterClientQuotasEntryResponse :: "AlterClientQuotasEntryResponse \<Rightarrow> bool" where
  "wf_AlterClientQuotasEntryResponse r \<longleftrightarrow> pred_option (\<lambda>s. length s \<le> 32767) (aqs_ErrorMsg r) \<and>
     length (aqs_Entity r) \<le> 131070 \<and> list_all wf_QuotaEntityComponent (aqs_Entity r)"

lemma enc_AlterClientQuotasEntryResponse_nonempty: "ser_ops (enc_AlterClientQuotasEntryResponse r) \<noteq> []"
  by (simp add: enc_AlterClientQuotasEntryResponse_def ser_simps)

interpretation aqs: wire_elem enc_AlterClientQuotasEntryResponse "\<lambda>_. dec_AlterClientQuotasEntryResponse" "\<lambda>_. 0"
  wf_AlterClientQuotasEntryResponse
  by (rule wire_elemI [OF _ enc_AlterClientQuotasEntryResponse_nonempty], unfold enc_AlterClientQuotasEntryResponse_def dec_AlterClientQuotasEntryResponse_def
      wf_AlterClientQuotasEntryResponse_def)
    (rule codes_rules | (auto simp: codes_simps intro!: qec.codes qec.nonempty; fail))+

record AlterClientQuotasResponse =
  aqr_Version :: int
  aqr_ThrottleTime :: int64
  aqr_Entries :: "AlterClientQuotasEntryResponse list"

definition enc_AlterClientQuotasResponse :: "AlterClientQuotasResponse \<Rightarrow> pe_op list" where
  "enc_AlterClientQuotasResponse r =
     enc_millis32 (aqr_ThrottleTime r) @
     enc_array enc_AlterClientQuotasEntryResponse (aqr_Entries r)"

definition dec_AlterClientQuotasResponse :: "int \<Rightarrow> AlterClientQuotasResponse dec" where
  "dec_AlterClientQuotasResponse version =
     dbind dec_millis32 (\<lambda>throttleTime.
     dbind (dec_loop dec_AlterClientQuotasEntryResponse) (\<lambda>entries.
       dreturn \<lparr>aqr_Version = 0, aqr_ThrottleTime = throttleTime, aqr_Entries = entries\<rparr>))"

definition wf_AlterClientQuotasResponse :: "AlterClientQuotasResponse \<Rightarrow> bool" where
  "wf_AlterClientQuotasResponse r \<longleftrightarrow> aqr_Version r = 0 \<and>
     wf_millis32 (aqr_ThrottleTime r) \<and>
     length (aqr_Entries r) \<le> 131070 \<and> list_all wf_AlterClientQuotasEntryResponse (aqr_Entries r)"

interpretation aqr: wire_codec enc_AlterClientQuotasResponse dec_AlterClientQuotasResponse "\<lambda>_. v"
  wf_AlterClientQuotasResponse for v
  by (rule wire_codecI, unfold enc_AlterClientQuotasResponse_def dec_AlterClientQuotasResponse_def
      wf_AlterClientQuotasResponse_def)
    (rule codes_rules | (auto simp: codes_simps intro!: aqs.codes aqs.nonempty; fail))+

subsection \<open>SASL\<close>

record SaslHandshakeRequest =
  shq_Version :: int
  shq_Mechanism :: string

definition enc_SaslHandshakeRequest :: "SaslHandshakeRequest \<Rightarrow> pe_op list" where
  "enc_SaslHandshakeRequest r =
     [putString (shq_Mechanism r)]"

definition dec_SaslHandshakeRequest :: "int \<Rightarrow> SaslHandshakeRequest dec" where
  "dec_SaslHandshakeRequest version =
     dbind getString (\<lambda>mechanism.
       dreturn \<lparr>shq_Version = version, shq_Mechanism = mechanism\<rparr>)"

definition wf_SaslHandshakeRequest :: "SaslHandshakeRequest \<Rightarrow> bool" where
  "wf_SaslHandshakeRequest r \<longleftrightarrow> length (shq_Mechanism r) \<le> 32767"

interpretation shq: wire_codec enc_SaslHandshakeRequest dec_SaslHandshakeRequest shq_Version
  wf_SaslHandshakeRequest
  by (rule wire_codecI, unfold enc_SaslHandshakeRequest_def dec_SaslHandshakeRequest_def
      wf_SaslHandshakeRequest_def)
    (rule codes_rules | (auto simp: codes_simps; fail))+

record SaslHandshakeResponse =
  shr_Version :: int
  shr_Err :: KError
  shr_EnabledMechanisms :: "string list"

definition enc_SaslHandshakeResponse :: "SaslHandshakeResponse \<Rightarrow> pe_op list" where
  "enc_SaslHandshakeResponse r =
     [putInt16 (shr_Err r), putStringArray (shr_EnabledMechanisms r)]"

definition dec_SaslHandshakeResponse :: "int \<Rightarrow> SaslHandshakeResponse dec" where
  "dec_SaslHandshakeResponse version =
     dbind getInt16 (\<lambda>err.
     dbind getStringArray (\<lambda>enabledMechanisms.
       dreturn \<lparr>shr_Version = 0, shr_Err = err, shr_EnabledMechanisms = enabledMechanisms\<rparr>))"

definition wf_SaslHandshakeResponse :: "SaslHandshakeResponse \<Rightarrow> bool" where
  "wf_SaslHandshakeResponse r \<longleftrightarrow> shr_Version r = 0 \<and>
     length (shr_EnabledMechanisms r) \<le> 2147483647 \<and> list_all (\<lambda>s. length s \<le> 32767) (shr_EnabledMechanisms r)"

interpretation shr: wire_codec enc_SaslHandshakeResponse dec_SaslHandshakeResponse "\<lambda>_. v"
  wf_SaslHandshakeResponse for v
  by (rule wire_codecI, unfold enc_SaslHandshakeResponse_def dec_SaslHandshakeResponse_def
      wf_SaslHandshakeResponse_def)
    (rule codes_rules | (auto simp: codes_simps; fail))+

record SaslAuthenticateRequest =
  saq_Version :: int
  saq_SaslAuthBytes :: nbytes

definition enc_SaslAuthenticateRequest :: "SaslAuthenticateRequest \<Rightarrow> pe_op list" where
  "enc_SaslAuthenticateRequest r =
     [putBytes (saq_SaslAuthBytes r)]"

definition dec_SaslAuthenticateRequest :: "int \<Rightarrow> SaslAuthenticateRequest dec" where
  "dec_SaslAuthenticateRequest version =
     dbind getBytes (\<lambda>saslAuthBytes.
       dreturn \<lparr>saq_Version = version, saq_SaslAuthBytes = saslAuthBytes\<rparr>)"

definition wf_SaslAuthenticateRequest :: "SaslAuthenticateRequest \<Rightarrow> bool" where
  "wf_SaslAuthenticateRequest r \<longleftrightarrow> pred_option (\<lambda>s. length s \<le> 2147483647) (saq_SaslAuthBytes r)"

interpretation saq: wire_codec enc_SaslAuthenticateRequest dec_SaslAuthenticateRequest saq_Version
  wf_SaslAuthenticateRequest
  by (rule wire_codecI, unfold enc_SaslAuthenticateRequest_def dec_SaslAuthenticateRequest_def
      wf_SaslAuthenticateRequest_def)
    (rule codes_rules | (auto simp: codes_simps; fail))+

record SaslAuthenticateResponse =
  sar_Version :: int
  sar_Err :: KError
  sar_ErrorMessage :: nstring
  sar_SaslAuthBytes :: nbytes
  sar_SessionLifetimeMs :: int64

definition enc_SaslAuthenticateResponse :: "SaslAuthenticateResponse \<Rightarrow> pe_op list" where
  "enc_SaslAuthenticateResponse r =
     [putInt16 (sar_Err r), putNullableString (sar_ErrorMessage r),
      putBytes (sar_SaslAuthBytes r)] @
     (if sar_Version r > 0 then [putInt64 (sar_SessionLifetimeMs r)] else [])"

definition dec_SaslAuthenticateResponse :: "int \<Rightarrow> SaslAuthenticateResponse dec" where
  "dec_SaslAuthenticateResponse version =
     dbind getInt16 (\<lambda>err.
     dbind getNullableString (\<lambda>errorMessage.
     dbind getBytes (\<lambda>saslAuthBytes.
     dbind (if version > 0 then getInt64 else dreturn 0) (\<lambda>sessionLifetimeMs.
       dreturn \<lparr>sar_Version = version, sar_Err = err, sar_ErrorMessage = errorMessage,
         sar_SaslAuthBytes = saslAuthBytes, sar_SessionLifetimeMs = sessionLifetimeMs\<rparr>))))"

definition wf_SaslAuthenticateResponse :: "SaslAuthenticateResponse \<Rightarrow> bool" where
  "wf_SaslAuthenticateResponse r \<longleftrightarrow> pred_option (\<lambda>s. length s \<le> 32767) (sar_ErrorMessage r) \<and>
     pred_option (\<lambda>s. length s \<le> 2147483647) (sar_SaslAuthBytes r) \<and>
     (sar_Version r > 0 \<or> sar_SessionLifetimeMs r = 0)"

interpretation sar: wire_codec enc_SaslAuthenticateResponse dec_SaslAuthenticateResponse sar_Version
  wf_SaslAuthenticateResponse
  by (rule wire_codecI, unfold enc_SaslAuthenticateResponse_def dec_SaslAuthenticateResponse_def
      wf_SaslAuthenticateResponse_def)
    (rule codes_rules | (auto simp: codes_simps; fail))+

subsection \<open>Salted passwords (scram\_formatter.go)\<close>


text \<open>
  The two HMACs are parameters. A hash object that is written to and then summed is the HMAC of what
  was written.
\<close>

type_synonym ScramMechanismType = int8

abbreviation (input) SCRAM_MECHANISM_UNKNOWN :: ScramMechanismType where "SCRAM_MECHANISM_UNKNOWN \<equiv> 0"
abbreviation (input) SCRAM_MECHANISM_SHA_256 :: ScramMechanismType where "SCRAM_MECHANISM_SHA_256 \<equiv> 1"
abbreviation (input) SCRAM_MECHANISM_SHA_512 :: ScramMechanismType where "SCRAM_MECHANISM_SHA_512 \<equiv> 2"

record hashes =
  hmac_sha256 :: "byte list \<Rightarrow> byte list \<Rightarrow> byte list"
  hmac_sha512 :: "byte list \<Rightarrow> byte list \<Rightarrow> byte list"

definition scram_mac :: "hashes \<Rightarrow> ScramMechanismType \<Rightarrow> byte list \<Rightarrow> go_error + (byte list \<Rightarrow> byte list)" where
  "scram_mac hs mechanism key =
     (if mechanism = SCRAM_MECHANISM_SHA_256 then Inr (hmac_sha256 hs key)
      else if mechanism = SCRAM_MECHANISM_SHA_512 then Inr (hmac_sha512 hs key)
      else Inl ErrUnknownScramMechanism)"

definition scram_hmac :: "hashes \<Rightarrow> ScramMechanismType \<Rightarrow> byte list \<Rightarrow> byte list \<Rightarrow> go_error + byte list" where
  "scram_hmac hs mechanism key extra =
     (case scram_mac hs mechanism key of Inl e \<Rightarrow> Inl e | Inr mac \<Rightarrow> Inr (mac extra))"

text \<open>The loop of \<open>xor\<close>; both arguments are digests of one hash, so that the index is in range.\<close>

definition scram_xor :: "byte list \<Rightarrow> byte list \<Rightarrow> byte list" where
  "scram_xor result second = map (\<lambda>i. result ! i XOR second ! i) [0..<length result]"

primrec saltedPassword_loop ::
  "nat \<Rightarrow> hashes \<Rightarrow> ScramMechanismType \<Rightarrow> byte list \<Rightarrow> byte list \<Rightarrow> byte list \<Rightarrow> go_error + byte list" where
  "saltedPassword_loop 0 hs mechanism password prev result = Inr result"
| "saltedPassword_loop (Suc n) hs mechanism password prev result =
     (case scram_hmac hs mechanism password prev of
        Inl e \<Rightarrow> Inl e
      | Inr ui \<Rightarrow> saltedPassword_loop n hs mechanism password ui (scram_xor result ui))"

definition saltedPassword ::
  "hashes \<Rightarrow> ScramMechanismType \<Rightarrow> byte list \<Rightarrow> byte list \<Rightarrow> int \<Rightarrow> go_error + byte list" where
  "saltedPassword hs mechanism password salt iterations =
     (case scram_mac hs mechanism password of
        Inl e \<Rightarrow> Inl e
      | Inr mac \<Rightarrow>
          let u1 = mac (salt @ [0, 0, 0, 1])
          in saltedPassword_loop (nat (iterations - 1)) hs mechanism password u1 u1)"

text \<open>
  The function \<open>Hi\<close> of RFC 5802: the exclusive or of \<open>U1\<close>, ..., \<open>Ui\<close>, where \<open>U1\<close> is the HMAC of the
  salt followed by 1 in four bytes, and each later one the HMAC of the one before.
\<close>

definition Hi :: "(byte list \<Rightarrow> byte list) \<Rightarrow> byte list \<Rightarrow> nat \<Rightarrow> byte list" where
  "Hi mac salt i = foldl (map2 (XOR)) (mac (salt @ [0, 0, 0, 1]))
     (map (\<lambda>k. (mac ^^ k) (mac (salt @ [0, 0, 0, 1]))) [1..<i])"

lemma scram_xor_map2: "length a \<le> length b \<Longrightarrow> scram_xor a b = map2 (XOR) a b"
  by (intro nth_equalityI) (simp_all add: scram_xor_def)

lemma saltedPassword_loop_Hi:
  assumes "scram_mac hs mechanism password = Inr mac" "\<And>x. length (mac x) = len" "length result = len"
  shows "saltedPassword_loop n hs mechanism password prev result =
    Inr (foldl (map2 (XOR)) result (map (\<lambda>k. (mac ^^ k) prev) [1..<Suc n]))"
  using assms(3)
proof (induction n arbitrary: prev result)
  case (Suc n)
  let ?r = "scram_xor result (mac prev)"
  have "map (\<lambda>k. (mac ^^ k) prev) [1..<Suc (Suc n)] =
      mac prev # map (\<lambda>k. (mac ^^ k) (mac prev)) [1..<Suc n]"
  proof (rule nth_equalityI)
    fix i assume "i < length (map (\<lambda>k. (mac ^^ k) prev) [1..<Suc (Suc n)])"
    then show "map (\<lambda>k. (mac ^^ k) prev) [1..<Suc (Suc n)] ! i =
        (mac prev # map (\<lambda>k. (mac ^^ k) (mac prev)) [1..<Suc n]) ! i"
      by (cases i) (simp_all add: funpow_swap1 del: upt_Suc)
  qed simp
  moreover have "?r = map2 (XOR) result (mac prev)" "length ?r = len"
    using Suc.prems assms(2) by (simp_all add: scram_xor_map2)
  ultimately show ?case
    using Suc.IH [of ?r "mac prev"] assms(1) by (simp add: scram_hmac_def del: upt_Suc)
qed simp

lemma saltedPassword_Hi:
  assumes "scram_mac hs mechanism password = Inr mac" "\<And>x. length (mac x) = len"
  shows "saltedPassword hs mechanism password salt iterations = Inr (Hi mac salt (nat iterations))"
proof -
  have "[1..<Suc (nat (iterations - 1))] = [1..<nat iterations]"
    by (cases "iterations \<le> 1") (auto simp: nat_diff_distrib)
  then show ?thesis
    using saltedPassword_loop_Hi [OF assms, of "mac (salt @ [0, 0, 0, 1])"] assms
    by (simp add: saltedPassword_def Hi_def Let_def del: upt_Suc)
qed

subsection \<open>SCRAM credentials\<close>

record DescribeUserScramCredentialsRequestUser =
  duu_Name :: string

definition enc_DescribeUserScramCredentialsRequestUser :: "DescribeUserScramCredentialsRequestUser \<Rightarrow> pe_op list" where
  "enc_DescribeUserScramCredentialsRequestUser r =
     [putCompactString (duu_Name r), putEmptyTaggedFieldArray]"

definition dec_DescribeUserScramCredentialsRequestUser :: "DescribeUserScramCredentialsRequestUser dec" where
  "dec_DescribeUserScramCredentialsRequestUser =
     dbind getCompactString (\<lambda>nm.
     dbind getEmptyTaggedFieldArray (\<lambda>_.
       dreturn \<lparr>duu_Name = nm\<rparr>))"

definition wf_DescribeUserScramCredentialsRequestUser :: "DescribeUserScramCredentialsRequestUser \<Rightarrow> bool" where
  "wf_DescribeUserScramCredentialsRequestUser r \<longleftrightarrow> length (duu_Name r) \<le> 32767"

lemma enc_DescribeUserScramCredentialsRequestUser_nonempty: "ser_ops (enc_DescribeUserScramCredentialsRequestUser r) \<noteq> []"
  by (simp add: enc_DescribeUserScramCredentialsRequestUser_def ser_simps)

interpretation duu: wire_elem enc_DescribeUserScramCredentialsRequestUser "\<lambda>_. dec_DescribeUserScramCredentialsRequestUser" "\<lambda>_. 0"
  wf_DescribeUserScramCredentialsRequestUser
  by (rule wire_elemI [OF _ enc_DescribeUserScramCredentialsRequestUser_nonempty], unfold enc_DescribeUserScramCredentialsRequestUser_def dec_DescribeUserScramCredentialsRequestUser_def
      wf_DescribeUserScramCredentialsRequestUser_def)
    (rule codes_rules | (auto simp: codes_simps; fail))+

record DescribeUserScramCredentialsRequest =
  duq_Version :: int
  duq_DescribeUsers :: "DescribeUserScramCredentialsRequestUser list"

definition enc_DescribeUserScramCredentialsRequest :: "DescribeUserScramCredentialsRequest \<Rightarrow> pe_op list" where
  "enc_DescribeUserScramCredentialsRequest r =
     enc_carray enc_DescribeUserScramCredentialsRequestUser (duq_DescribeUsers r) @
     [putEmptyTaggedFieldArray]"

definition dec_DescribeUserScramCredentialsRequest :: "int \<Rightarrow> DescribeUserScramCredentialsRequest dec" where
  "dec_DescribeUserScramCredentialsRequest version =
     dbind (dec_null_carray dec_DescribeUserScramCredentialsRequestUser) (\<lambda>describeUsers.
     dbind getEmptyTaggedFieldArray (\<lambda>_.
       dreturn \<lparr>duq_Version = version, duq_DescribeUsers = describeUsers\<rparr>))"

definition wf_DescribeUserScramCredentialsRequest :: "DescribeUserScramCredentialsRequest \<Rightarrow> bool" where
  "wf_DescribeUserScramCredentialsRequest r \<longleftrightarrow> length (duq_DescribeUsers r) \<le> 2147483647 \<and> list_all wf_DescribeUserScramCredentialsRequestUser (duq_DescribeUsers r)"

interpretation duq: wire_codec enc_DescribeUserScramCredentialsRequest dec_DescribeUserScramCredentialsRequest duq_Version
  wf_DescribeUserScramCredentialsRequest
  by (rule wire_codecI, unfold enc_DescribeUserScramCredentialsRequest_def dec_DescribeUserScramCredentialsRequest_def
      wf_DescribeUserScramCredentialsRequest_def)
    (rule codes_rules codes_bind [OF codes_null_carray] | (auto simp: codes_simps intro!: duu.codes; fail))+

record UserScramCredentialsResponseInfo =
  usi_Mechanism :: int8
  usi_Iterations :: int32

definition enc_UserScramCredentialsResponseInfo :: "UserScramCredentialsResponseInfo \<Rightarrow> pe_op list" where
  "enc_UserScramCredentialsResponseInfo r =
     [putInt8 (usi_Mechanism r), putInt32 (usi_Iterations r), putEmptyTaggedFieldArray]"

definition dec_UserScramCredentialsResponseInfo :: "UserScramCredentialsResponseInfo dec" where
  "dec_UserScramCredentialsResponseInfo =
     dbind getInt8 (\<lambda>mechanism.
     dbind getInt32 (\<lambda>iterations.
     dbind getEmptyTaggedFieldArray (\<lambda>_.
       dreturn \<lparr>usi_Mechanism = mechanism, usi_Iterations = iterations\<rparr>)))"

lemma enc_UserScramCredentialsResponseInfo_nonempty: "ser_ops (enc_UserScramCredentialsResponseInfo r) \<noteq> []"
  by (simp add: enc_UserScramCredentialsResponseInfo_def ser_simps)

interpretation usi: wire_elem enc_UserScramCredentialsResponseInfo "\<lambda>_. dec_UserScramCredentialsResponseInfo" "\<lambda>_. 0"
  "\<lambda>_. True"
  by (rule wire_elemI [OF _ enc_UserScramCredentialsResponseInfo_nonempty], unfold enc_UserScramCredentialsResponseInfo_def dec_UserScramCredentialsResponseInfo_def)
    (rule codes_rules | (auto simp: codes_simps; fail))+

record DescribeUserScramCredentialsResult =
  dus_User :: string
  dus_ErrorCode :: KError
  dus_ErrorMessage :: nstring
  dus_CredentialInfos :: "UserScramCredentialsResponseInfo list"

definition enc_DescribeUserScramCredentialsResult :: "DescribeUserScramCredentialsResult \<Rightarrow> pe_op list" where
  "enc_DescribeUserScramCredentialsResult r =
     [putCompactString (dus_User r), putInt16 (dus_ErrorCode r),
      putNullableCompactString (dus_ErrorMessage r)] @
     enc_carray enc_UserScramCredentialsResponseInfo (dus_CredentialInfos r) @
     [putEmptyTaggedFieldArray]"

definition dec_DescribeUserScramCredentialsResult :: "DescribeUserScramCredentialsResult dec" where
  "dec_DescribeUserScramCredentialsResult =
     dbind getCompactString (\<lambda>user.
     dbind getInt16 (\<lambda>errorCode.
     dbind getCompactNullableString (\<lambda>errorMessage.
     dbind (dec_carray dec_UserScramCredentialsResponseInfo) (\<lambda>credentialInfos.
     dbind getEmptyTaggedFieldArray (\<lambda>_.
       dreturn \<lparr>dus_User = user, dus_ErrorCode = errorCode, dus_ErrorMessage = errorMessage,
         dus_CredentialInfos = credentialInfos\<rparr>)))))"

definition wf_DescribeUserScramCredentialsResult :: "DescribeUserScramCredentialsResult \<Rightarrow> bool" where
  "wf_DescribeUserScramCredentialsResult r \<longleftrightarrow> length (dus_User r) \<le> 32767 \<and>
     pred_option (\<lambda>s. length s \<le> 32767) (dus_ErrorMessage r) \<and>
     length (dus_CredentialInfos r) \<le> 2147483647"

lemma enc_DescribeUserScramCredentialsResult_nonempty: "ser_ops (enc_DescribeUserScramCredentialsResult r) \<noteq> []"
  by (simp add: enc_DescribeUserScramCredentialsResult_def ser_simps)

interpretation dus: wire_elem enc_DescribeUserScramCredentialsResult "\<lambda>_. dec_DescribeUserScramCredentialsResult" "\<lambda>_. 0"
  wf_DescribeUserScramCredentialsResult
  by (rule wire_elemI [OF _ enc_DescribeUserScramCredentialsResult_nonempty], unfold enc_DescribeUserScramCredentialsResult_def dec_DescribeUserScramCredentialsResult_def
      wf_DescribeUserScramCredentialsResult_def)
    (rule codes_rules | (auto simp: codes_simps intro!: usi.codes usi.nonempty; fail))+

record DescribeUserScramCredentialsResponse =
  dur_Version :: int
  dur_ThrottleTime :: int64
  dur_ErrorCode :: KError
  dur_ErrorMessage :: nstring
  dur_Results :: "DescribeUserScramCredentialsResult list"

definition enc_DescribeUserScramCredentialsResponse :: "DescribeUserScramCredentialsResponse \<Rightarrow> pe_op list" where
  "enc_DescribeUserScramCredentialsResponse r =
     enc_millis32 (dur_ThrottleTime r) @
     [putInt16 (dur_ErrorCode r), putNullableCompactString (dur_ErrorMessage r)] @
     enc_carray enc_DescribeUserScramCredentialsResult (dur_Results r) @
     [putEmptyTaggedFieldArray]"

definition dec_DescribeUserScramCredentialsResponse :: "int \<Rightarrow> DescribeUserScramCredentialsResponse dec" where
  "dec_DescribeUserScramCredentialsResponse version =
     dbind dec_millis32 (\<lambda>throttleTime.
     dbind getInt16 (\<lambda>errorCode.
     dbind getCompactNullableString (\<lambda>errorMessage.
     dbind (dec_cloop dec_DescribeUserScramCredentialsResult) (\<lambda>results.
     dbind getEmptyTaggedFieldArray (\<lambda>_.
       dreturn \<lparr>dur_Version = 0, dur_ThrottleTime = throttleTime, dur_ErrorCode = errorCode,
         dur_ErrorMessage = errorMessage, dur_Results = results\<rparr>)))))"

definition wf_DescribeUserScramCredentialsResponse :: "DescribeUserScramCredentialsResponse \<Rightarrow> bool" where
  "wf_DescribeUserScramCredentialsResponse r \<longleftrightarrow> dur_Version r = 0 \<and>
     wf_millis32 (dur_ThrottleTime r) \<and>
     pred_option (\<lambda>s. length s \<le> 32767) (dur_ErrorMessage r) \<and>
     length (dur_Results r) \<le> 2147483647 \<and> list_all wf_DescribeUserScramCredentialsResult (dur_Results r)"

interpretation dur: wire_codec enc_DescribeUserScramCredentialsResponse dec_DescribeUserScramCredentialsResponse "\<lambda>_. v"
  wf_DescribeUserScramCredentialsResponse for v
  by (rule wire_codecI, unfold enc_DescribeUserScramCredentialsResponse_def dec_DescribeUserScramCredentialsResponse_def
      wf_DescribeUserScramCredentialsResponse_def)
    (rule codes_rules | (auto simp: codes_simps intro!: dus.codes dus.nonempty; fail))+

record AlterUserScramCredentialsDelete =
  aud_Name :: string
  aud_Mechanism :: int8

definition enc_AlterUserScramCredentialsDelete :: "AlterUserScramCredentialsDelete \<Rightarrow> pe_op list" where
  "enc_AlterUserScramCredentialsDelete r =
     [putCompactString (aud_Name r), putInt8 (aud_Mechanism r), putEmptyTaggedFieldArray]"

definition dec_AlterUserScramCredentialsDelete :: "AlterUserScramCredentialsDelete dec" where
  "dec_AlterUserScramCredentialsDelete =
     dbind getCompactString (\<lambda>nm.
     dbind getInt8 (\<lambda>mechanism.
     dbind getEmptyTaggedFieldArray (\<lambda>_.
       dreturn \<lparr>aud_Name = nm, aud_Mechanism = mechanism\<rparr>)))"

definition wf_AlterUserScramCredentialsDelete :: "AlterUserScramCredentialsDelete \<Rightarrow> bool" where
  "wf_AlterUserScramCredentialsDelete r \<longleftrightarrow> length (aud_Name r) \<le> 32767"

lemma enc_AlterUserScramCredentialsDelete_nonempty: "ser_ops (enc_AlterUserScramCredentialsDelete r) \<noteq> []"
  by (simp add: enc_AlterUserScramCredentialsDelete_def ser_simps)

interpretation aud: wire_elem enc_AlterUserScramCredentialsDelete "\<lambda>_. dec_AlterUserScramCredentialsDelete" "\<lambda>_. 0"
  wf_AlterUserScramCredentialsDelete
  by (rule wire_elemI [OF _ enc_AlterUserScramCredentialsDelete_nonempty], unfold enc_AlterUserScramCredentialsDelete_def dec_AlterUserScramCredentialsDelete_def
      wf_AlterUserScramCredentialsDelete_def)
    (rule codes_rules | (auto simp: codes_simps; fail))+


text \<open>
  The password is not sent: what is read back is the salted password that was computed from it. An
  unknown mechanism refuses the request.
\<close>

record AlterUserScramCredentialsUpsert =
  auu_Name :: string
  auu_Mechanism :: ScramMechanismType
  auu_Iterations :: int32
  auu_Salt :: "byte list"
  auu_saltedPassword :: "byte list"
  auu_Password :: "byte list"

definition enc_AlterUserScramCredentialsUpsert :: "hashes \<Rightarrow> AlterUserScramCredentialsUpsert \<Rightarrow> pe_op list" where
  "enc_AlterUserScramCredentialsUpsert hs u =
     [putCompactString (auu_Name u), putInt8 (auu_Mechanism u), putInt32 (auu_Iterations u),
      putCompactBytes (auu_Salt u)] @
     (case saltedPassword hs (auu_Mechanism u) (auu_Password u) (auu_Salt u) (sint (auu_Iterations u)) of
        Inl e \<Rightarrow> [fail e]
      | Inr salted \<Rightarrow> [putCompactBytes salted, putEmptyTaggedFieldArray])"

definition dec_AlterUserScramCredentialsUpsert :: "AlterUserScramCredentialsUpsert dec" where
  "dec_AlterUserScramCredentialsUpsert =
     dbind getCompactString (\<lambda>nm.
     dbind getInt8 (\<lambda>mechanism.
     dbind getInt32 (\<lambda>iterations.
     dbind getCompactBytes (\<lambda>salt.
     dbind getCompactBytes (\<lambda>salted.
     dbind getEmptyTaggedFieldArray (\<lambda>_.
       dreturn \<lparr>auu_Name = nm, auu_Mechanism = mechanism, auu_Iterations = iterations, auu_Salt = salt,
         auu_saltedPassword = salted, auu_Password = []\<rparr>))))))"

definition salted_Upsert :: "hashes \<Rightarrow> AlterUserScramCredentialsUpsert \<Rightarrow> AlterUserScramCredentialsUpsert" where
  "salted_Upsert hs u = u\<lparr>auu_Password := [], auu_saltedPassword :=
     projr (saltedPassword hs (auu_Mechanism u) (auu_Password u) (auu_Salt u) (sint (auu_Iterations u)))\<rparr>"

definition wf_AlterUserScramCredentialsUpsert :: "hashes \<Rightarrow> AlterUserScramCredentialsUpsert \<Rightarrow> bool" where
  "wf_AlterUserScramCredentialsUpsert hs u \<longleftrightarrow> length (auu_Name u) \<le> 32767 \<and> length (auu_Salt u) \<le> 2147483647 \<and>
     (case saltedPassword hs (auu_Mechanism u) (auu_Password u) (auu_Salt u) (sint (auu_Iterations u)) of
        Inl e \<Rightarrow> False | Inr salted \<Rightarrow> length salted \<le> 2147483647)"

lemma codes_Upsert:
  assumes "wf_AlterUserScramCredentialsUpsert hs u"
  shows "codes dec_AlterUserScramCredentialsUpsert (enc_AlterUserScramCredentialsUpsert hs u) (salted_Upsert hs u)"
  using assms unfolding enc_AlterUserScramCredentialsUpsert_def dec_AlterUserScramCredentialsUpsert_def
    wf_AlterUserScramCredentialsUpsert_def salted_Upsert_def
  by (cases u) (auto simp: codes_def ser_simps dec_steps intro!: readsI split: sum.splits)

record AlterUserScramCredentialsRequest =
  auq_Version :: int
  auq_Deletions :: "AlterUserScramCredentialsDelete list"
  auq_Upsertions :: "AlterUserScramCredentialsUpsert list"

definition enc_AlterUserScramCredentialsRequest :: "hashes \<Rightarrow> AlterUserScramCredentialsRequest \<Rightarrow> pe_op list" where
  "enc_AlterUserScramCredentialsRequest hs r =
     enc_carray enc_AlterUserScramCredentialsDelete (auq_Deletions r) @
     enc_carray (enc_AlterUserScramCredentialsUpsert hs) (auq_Upsertions r) @
     [putEmptyTaggedFieldArray]"

definition dec_AlterUserScramCredentialsRequest :: "int \<Rightarrow> AlterUserScramCredentialsRequest dec" where
  "dec_AlterUserScramCredentialsRequest version =
     dbind (dec_carray dec_AlterUserScramCredentialsDelete) (\<lambda>deletions.
     dbind (dec_carray dec_AlterUserScramCredentialsUpsert) (\<lambda>upsertions.
     dbind getEmptyTaggedFieldArray (\<lambda>_.
       dreturn \<lparr>auq_Version = version, auq_Deletions = deletions, auq_Upsertions = upsertions\<rparr>)))"

definition salted_request :: "hashes \<Rightarrow> AlterUserScramCredentialsRequest \<Rightarrow> AlterUserScramCredentialsRequest" where
  "salted_request hs r = r\<lparr>auq_Upsertions := map (salted_Upsert hs) (auq_Upsertions r)\<rparr>"

definition wf_AlterUserScramCredentialsRequest :: "hashes \<Rightarrow> AlterUserScramCredentialsRequest \<Rightarrow> bool" where
  "wf_AlterUserScramCredentialsRequest hs r \<longleftrightarrow>
     length (auq_Deletions r) \<le> 2147483647 \<and> list_all wf_AlterUserScramCredentialsDelete (auq_Deletions r) \<and>
     length (auq_Upsertions r) \<le> 2147483647 \<and> list_all (wf_AlterUserScramCredentialsUpsert hs) (auq_Upsertions r)"

lemma codes_Upsertions:
  assumes "list_all (wf_AlterUserScramCredentialsUpsert hs) us" "length us \<le> 2147483647"
  shows "codes (dec_carray dec_AlterUserScramCredentialsUpsert) (enc_carray (enc_AlterUserScramCredentialsUpsert hs) us)
    (map (salted_Upsert hs) us)"
proof -
  have c: "codes dec_AlterUserScramCredentialsUpsert (enc_AlterUserScramCredentialsUpsert hs u) (salted_Upsert hs u)"
    if "u \<in> set us" for u using that assms(1) by (auto simp: list_all_iff intro: codes_Upsert)
  then have t: "reads (dec_times (length us) dec_AlterUserScramCredentialsUpsert)
      (concat (map (\<lambda>u. ser_ops (enc_AlterUserScramCredentialsUpsert hs u)) us)) (map (salted_Upsert hs) us)"
    by (intro reads_times_view) (simp add: codes_def)
  moreover have "ops_ok (enc_carray (enc_AlterUserScramCredentialsUpsert hs) us)"
    using c by (simp add: enc_carray_def ops_ok_concat codes_def)
  ultimately show ?thesis
    unfolding codes_def ser_ops_enc_carray
    using assms(2) reads_at [OF t] by (auto intro!: readsI simp: dec_carray_def dec_steps)
qed

lemma codes_scram_request:
  "wf_AlterUserScramCredentialsRequest hs r \<Longrightarrow>
   codes (dec_AlterUserScramCredentialsRequest (auq_Version r)) (enc_AlterUserScramCredentialsRequest hs r)
     (salted_request hs r)"
  unfolding enc_AlterUserScramCredentialsRequest_def dec_AlterUserScramCredentialsRequest_def
    wf_AlterUserScramCredentialsRequest_def salted_request_def
  by (rule codes_bind [OF codes_carray(1)] codes_bind [OF codes_Upsertions] codes_step [OF codes_calls(9)] codes_return |
      (auto simp: list_all_iff intro!: aud.codes; fail))+

lemma scram_request_refused:
  assumes "u \<in> set (auq_Upsertions r)" "auu_Mechanism u \<notin> {SCRAM_MECHANISM_SHA_256, SCRAM_MECHANISM_SHA_512}"
  shows "fail ErrUnknownScramMechanism \<in> set (enc_AlterUserScramCredentialsRequest hs r)"
  using assms
  by (auto simp: enc_AlterUserScramCredentialsRequest_def enc_carray_def enc_AlterUserScramCredentialsUpsert_def
      saltedPassword_def scram_mac_def intro!: bexI [of _ u])

record AlterUserScramCredentialsResult =
  aus_User :: string
  aus_ErrorCode :: KError
  aus_ErrorMessage :: nstring

definition enc_AlterUserScramCredentialsResult :: "AlterUserScramCredentialsResult \<Rightarrow> pe_op list" where
  "enc_AlterUserScramCredentialsResult r =
     [putCompactString (aus_User r), putInt16 (aus_ErrorCode r),
      putNullableCompactString (aus_ErrorMessage r), putEmptyTaggedFieldArray]"

definition dec_AlterUserScramCredentialsResult :: "AlterUserScramCredentialsResult dec" where
  "dec_AlterUserScramCredentialsResult =
     dbind getCompactString (\<lambda>user.
     dbind getInt16 (\<lambda>errorCode.
     dbind getCompactNullableString (\<lambda>errorMessage.
     dbind getEmptyTaggedFieldArray (\<lambda>_.
       dreturn \<lparr>aus_User = user, aus_ErrorCode = errorCode, aus_ErrorMessage = errorMessage\<rparr>))))"

definition wf_AlterUserScramCredentialsResult :: "AlterUserScramCredentialsResult \<Rightarrow> bool" where
  "wf_AlterUserScramCredentialsResult r \<longleftrightarrow> length (aus_User r) \<le> 32767 \<and>
     pred_option (\<lambda>s. length s \<le> 32767) (aus_ErrorMessage r)"

lemma enc_AlterUserScramCredentialsResult_nonempty: "ser_ops (enc_AlterUserScramCredentialsResult r) \<noteq> []"
  by (simp add: enc_AlterUserScramCredentialsResult_def ser_simps)

interpretation aus: wire_elem enc_AlterUserScramCredentialsResult "\<lambda>_. dec_AlterUserScramCredentialsResult" "\<lambda>_. 0"
  wf_AlterUserScramCredentialsResult
  by (rule wire_elemI [OF _ enc_AlterUserScramCredentialsResult_nonempty], unfold enc_AlterUserScramCredentialsResult_def dec_AlterUserScramCredentialsResult_def
      wf_AlterUserScramCredentialsResult_def)
    (rule codes_rules | (auto simp: codes_simps; fail))+

record AlterUserScramCredentialsResponse =
  aur_Version :: int
  aur_ThrottleTime :: int64
  aur_Results :: "AlterUserScramCredentialsResult list"

definition enc_AlterUserScramCredentialsResponse :: "AlterUserScramCredentialsResponse \<Rightarrow> pe_op list" where
  "enc_AlterUserScramCredentialsResponse r =
     enc_millis32 (aur_ThrottleTime r) @
     enc_carray enc_AlterUserScramCredentialsResult (aur_Results r) @
     [putEmptyTaggedFieldArray]"

definition dec_AlterUserScramCredentialsResponse :: "int \<Rightarrow> AlterUserScramCredentialsResponse dec" where
  "dec_AlterUserScramCredentialsResponse version =
     dbind dec_millis32 (\<lambda>throttleTime.
     dbind (dec_cloop dec_AlterUserScramCredentialsResult) (\<lambda>results.
     dbind getEmptyTaggedFieldArray (\<lambda>_.
       dreturn \<lparr>aur_Version = 0, aur_ThrottleTime = throttleTime, aur_Results = results\<rparr>)))"

definition wf_AlterUserScramCredentialsResponse :: "AlterUserScramCredentialsResponse \<Rightarrow> bool" where
  "wf_AlterUserScramCredentialsResponse r \<longleftrightarrow> aur_Version r = 0 \<and>
     wf_millis32 (aur_ThrottleTime r) \<and>
     length (aur_Results r) \<le> 2147483647 \<and> list_all wf_AlterUserScramCredentialsResult (aur_Results r)"

interpretation aur: wire_codec enc_AlterUserScramCredentialsResponse dec_AlterUserScramCredentialsResponse "\<lambda>_. v"
  wf_AlterUserScramCredentialsResponse for v
  by (rule wire_codecI, unfold enc_AlterUserScramCredentialsResponse_def dec_AlterUserScramCredentialsResponse_def
      wf_AlterUserScramCredentialsResponse_def)
    (rule codes_rules | (auto simp: codes_simps intro!: aus.codes aus.nonempty; fail))+

end
