(* ===== verification/Protocol_Table.thy ===== *)
theory Protocol_Table
  imports Kafka_Version
begin

text \<open>
  The methods \<open>key\<close>, \<open>headerVersion\<close>, \<open>isValidVersion\<close> and \<open>requiredVersion\<close> that every request and
  response type implements (the interface \<open>protocolBody\<close> of \<open>request.go\<close>). They depend on the version
  of the message only, which is what the method \<open>version\<close> returns: a type is given by the functions
  from that version. The lemmas compare the two types of every API.
\<close>

record protocolMethods =
  pm_key :: int
  pm_headerVersion :: "int \<Rightarrow> int"
  pm_isValidVersion :: "int \<Rightarrow> bool"
  pm_requiredVersion :: "int \<Rightarrow> KafkaVersion"

subsection \<open>The types\<close>

definition CreateAclsRequest_methods :: protocolMethods where
  "CreateAclsRequest_methods =
     \<lparr>pm_key = 30, pm_headerVersion = (\<lambda>_. 1),
      pm_isValidVersion = (\<lambda>v. v \<ge> 0 \<and> v \<le> 1),
      pm_requiredVersion = (\<lambda>v. if v = 1 then V2_0_0_0 else V0_11_0_0)\<rparr>"

definition CreateAclsResponse_methods :: protocolMethods where
  "CreateAclsResponse_methods =
     \<lparr>pm_key = 30, pm_headerVersion = (\<lambda>_. 0),
      pm_isValidVersion = (\<lambda>v. v \<ge> 0 \<and> v \<le> 1),
      pm_requiredVersion = (\<lambda>v. if v = 1 then V2_0_0_0 else V0_11_0_0)\<rparr>"

definition DeleteAclsRequest_methods :: protocolMethods where
  "DeleteAclsRequest_methods =
     \<lparr>pm_key = 31, pm_headerVersion = (\<lambda>_. 1),
      pm_isValidVersion = (\<lambda>v. v \<ge> 0 \<and> v \<le> 1),
      pm_requiredVersion = (\<lambda>v. if v = 1 then V2_0_0_0 else V0_11_0_0)\<rparr>"

definition DeleteAclsResponse_methods :: protocolMethods where
  "DeleteAclsResponse_methods =
     \<lparr>pm_key = 31, pm_headerVersion = (\<lambda>_. 0),
      pm_isValidVersion = (\<lambda>v. v \<ge> 0 \<and> v \<le> 1),
      pm_requiredVersion = (\<lambda>v. if v = 1 then V2_0_0_0 else V0_11_0_0)\<rparr>"

definition DescribeAclsRequest_methods :: protocolMethods where
  "DescribeAclsRequest_methods =
     \<lparr>pm_key = 29, pm_headerVersion = (\<lambda>_. 1),
      pm_isValidVersion = (\<lambda>v. v \<ge> 0 \<and> v \<le> 1),
      pm_requiredVersion = (\<lambda>v. if v = 1 then V2_0_0_0 else V0_11_0_0)\<rparr>"

definition DescribeAclsResponse_methods :: protocolMethods where
  "DescribeAclsResponse_methods =
     \<lparr>pm_key = 29, pm_headerVersion = (\<lambda>_. 0),
      pm_isValidVersion = (\<lambda>v. v \<ge> 0 \<and> v \<le> 1),
      pm_requiredVersion = (\<lambda>v. if v = 1 then V2_0_0_0 else V0_11_0_0)\<rparr>"

definition AddOffsetsToTxnRequest_methods :: protocolMethods where
  "AddOffsetsToTxnRequest_methods =
     \<lparr>pm_key = 25, pm_headerVersion = (\<lambda>_. 1),
      pm_isValidVersion = (\<lambda>v. v \<ge> 0 \<and> v \<le> 2),
      pm_requiredVersion = (\<lambda>v. if v = 2 then V2_7_0_0 else if v = 1 then V2_0_0_0
        else if v = 0 then V0_11_0_0 else V2_7_0_0)\<rparr>"

definition AddOffsetsToTxnResponse_methods :: protocolMethods where
  "AddOffsetsToTxnResponse_methods =
     \<lparr>pm_key = 25, pm_headerVersion = (\<lambda>_. 0),
      pm_isValidVersion = (\<lambda>v. v \<ge> 0 \<and> v \<le> 2),
      pm_requiredVersion = (\<lambda>v. if v = 2 then V2_7_0_0 else if v = 1 then V2_0_0_0
        else if v = 0 then V0_11_0_0 else V2_7_0_0)\<rparr>"

definition AddPartitionsToTxnRequest_methods :: protocolMethods where
  "AddPartitionsToTxnRequest_methods =
     \<lparr>pm_key = 24, pm_headerVersion = (\<lambda>_. 1),
      pm_isValidVersion = (\<lambda>v. v \<ge> 0 \<and> v \<le> 2),
      pm_requiredVersion = (\<lambda>v. if v = 2 then V2_7_0_0 else if v = 1 then V2_0_0_0 else V0_11_0_0)\<rparr>"

definition AddPartitionsToTxnResponse_methods :: protocolMethods where
  "AddPartitionsToTxnResponse_methods =
     \<lparr>pm_key = 24, pm_headerVersion = (\<lambda>_. 0),
      pm_isValidVersion = (\<lambda>v. v \<ge> 0 \<and> v \<le> 2),
      pm_requiredVersion = (\<lambda>v. if v = 2 then V2_7_0_0 else if v = 1 then V2_0_0_0 else V0_11_0_0)\<rparr>"

definition AlterClientQuotasRequest_methods :: protocolMethods where
  "AlterClientQuotasRequest_methods =
     \<lparr>pm_key = 49, pm_headerVersion = (\<lambda>_. 1),
      pm_isValidVersion = (\<lambda>v. v = 0),
      pm_requiredVersion = (\<lambda>_. V2_6_0_0)\<rparr>"

definition AlterClientQuotasResponse_methods :: protocolMethods where
  "AlterClientQuotasResponse_methods =
     \<lparr>pm_key = 49, pm_headerVersion = (\<lambda>_. 0),
      pm_isValidVersion = (\<lambda>v. v = 0),
      pm_requiredVersion = (\<lambda>_. V2_6_0_0)\<rparr>"

definition AlterConfigsRequest_methods :: protocolMethods where
  "AlterConfigsRequest_methods =
     \<lparr>pm_key = 33, pm_headerVersion = (\<lambda>_. 1),
      pm_isValidVersion = (\<lambda>v. v \<ge> 0 \<and> v \<le> 1),
      pm_requiredVersion = (\<lambda>v. if v = 1 then V2_0_0_0 else if v = 0 then V0_11_0_0 else V2_0_0_0)\<rparr>"

definition AlterConfigsResponse_methods :: protocolMethods where
  "AlterConfigsResponse_methods =
     \<lparr>pm_key = 33, pm_headerVersion = (\<lambda>_. 0),
      pm_isValidVersion = (\<lambda>v. v \<ge> 0 \<and> v \<le> 1),
      pm_requiredVersion = (\<lambda>v. if v = 1 then V2_0_0_0 else if v = 0 then V0_11_0_0 else V2_0_0_0)\<rparr>"

definition AlterPartitionReassignmentsRequest_methods :: protocolMethods where
  "AlterPartitionReassignmentsRequest_methods =
     \<lparr>pm_key = 45, pm_headerVersion = (\<lambda>_. 2),
      pm_isValidVersion = (\<lambda>v. v = 0),
      pm_requiredVersion = (\<lambda>_. V2_4_0_0)\<rparr>"

definition AlterPartitionReassignmentsResponse_methods :: protocolMethods where
  "AlterPartitionReassignmentsResponse_methods =
     \<lparr>pm_key = 45, pm_headerVersion = (\<lambda>_. 1),
      pm_isValidVersion = (\<lambda>v. v = 0),
      pm_requiredVersion = (\<lambda>_. V2_4_0_0)\<rparr>"

definition AlterUserScramCredentialsRequest_methods :: protocolMethods where
  "AlterUserScramCredentialsRequest_methods =
     \<lparr>pm_key = 51, pm_headerVersion = (\<lambda>_. 2),
      pm_isValidVersion = (\<lambda>v. v = 0),
      pm_requiredVersion = (\<lambda>_. V2_7_0_0)\<rparr>"

definition AlterUserScramCredentialsResponse_methods :: protocolMethods where
  "AlterUserScramCredentialsResponse_methods =
     \<lparr>pm_key = 51, pm_headerVersion = (\<lambda>_. 2),
      pm_isValidVersion = (\<lambda>v. v = 0),
      pm_requiredVersion = (\<lambda>_. V2_7_0_0)\<rparr>"

definition ApiVersionsRequest_methods :: protocolMethods where
  "ApiVersionsRequest_methods =
     \<lparr>pm_key = 18, pm_headerVersion = (\<lambda>v. if v \<ge> 3 then 2 else 1),
      pm_isValidVersion = (\<lambda>v. v \<ge> 0 \<and> v \<le> 3),
      pm_requiredVersion = (\<lambda>v. if v = 3 then V2_4_0_0 else if v = 2 then V2_0_0_0
        else if v = 1 then V0_11_0_0 else if v = 0 then V0_10_0_0 else V2_4_0_0)\<rparr>"

definition ApiVersionsResponse_methods :: protocolMethods where
  "ApiVersionsResponse_methods =
     \<lparr>pm_key = 18, pm_headerVersion = (\<lambda>_. 0),
      pm_isValidVersion = (\<lambda>v. v \<ge> 0 \<and> v \<le> 3),
      pm_requiredVersion = (\<lambda>v. if v = 3 then V2_4_0_0 else if v = 2 then V2_0_0_0
        else if v = 1 then V0_11_0_0 else if v = 0 then V0_10_0_0 else V2_4_0_0)\<rparr>"

definition ConsumerMetadataRequest_methods :: protocolMethods where
  "ConsumerMetadataRequest_methods =
     \<lparr>pm_key = 10, pm_headerVersion = (\<lambda>_. 1),
      pm_isValidVersion = (\<lambda>v. v \<ge> 0 \<and> v \<le> 2),
      pm_requiredVersion = (\<lambda>v. if v = 2 then V2_0_0_0 else if v = 1 then V0_11_0_0 else V0_8_2_0)\<rparr>"

definition ConsumerMetadataResponse_methods :: protocolMethods where
  "ConsumerMetadataResponse_methods =
     \<lparr>pm_key = 10, pm_headerVersion = (\<lambda>_. 0),
      pm_isValidVersion = (\<lambda>v. v \<ge> 0 \<and> v \<le> 2),
      pm_requiredVersion = (\<lambda>v. if v = 2 then V2_0_0_0 else if v = 1 then V0_11_0_0 else V0_8_2_0)\<rparr>"

definition CreatePartitionsRequest_methods :: protocolMethods where
  "CreatePartitionsRequest_methods =
     \<lparr>pm_key = 37, pm_headerVersion = (\<lambda>_. 1),
      pm_isValidVersion = (\<lambda>v. v \<ge> 0 \<and> v \<le> 1),
      pm_requiredVersion = (\<lambda>v. if v = 1 then V2_0_0_0 else if v = 0 then V1_0_0_0 else V2_0_0_0)\<rparr>"

definition CreatePartitionsResponse_methods :: protocolMethods where
  "CreatePartitionsResponse_methods =
     \<lparr>pm_key = 37, pm_headerVersion = (\<lambda>_. 0),
      pm_isValidVersion = (\<lambda>v. v \<ge> 0 \<and> v \<le> 1),
      pm_requiredVersion = (\<lambda>v. if v = 1 then V2_0_0_0 else if v = 0 then V1_0_0_0 else V2_0_0_0)\<rparr>"

definition CreateTopicsRequest_methods :: protocolMethods where
  "CreateTopicsRequest_methods =
     \<lparr>pm_key = 19, pm_headerVersion = (\<lambda>_. 1),
      pm_isValidVersion = (\<lambda>v. v \<ge> 0 \<and> v \<le> 3),
      pm_requiredVersion = (\<lambda>v. if v = 3 then V2_0_0_0 else if v = 2 then V0_11_0_0
        else if v = 1 then V0_10_2_0 else if v = 0 then V0_10_1_0 else V2_8_0_0)\<rparr>"

definition CreateTopicsResponse_methods :: protocolMethods where
  "CreateTopicsResponse_methods =
     \<lparr>pm_key = 19, pm_headerVersion = (\<lambda>_. 0),
      pm_isValidVersion = (\<lambda>v. v \<ge> 0 \<and> v \<le> 3),
      pm_requiredVersion = (\<lambda>v. if v = 3 then V2_0_0_0 else if v = 2 then V0_11_0_0
        else if v = 1 then V0_10_2_0 else if v = 0 then V0_10_1_0 else V2_8_0_0)\<rparr>"

definition DeleteGroupsRequest_methods :: protocolMethods where
  "DeleteGroupsRequest_methods =
     \<lparr>pm_key = 42, pm_headerVersion = (\<lambda>_. 1),
      pm_isValidVersion = (\<lambda>v. v \<ge> 0 \<and> v \<le> 1),
      pm_requiredVersion = (\<lambda>v. if v = 1 then V2_0_0_0 else if v = 0 then V1_1_0_0 else V2_0_0_0)\<rparr>"

definition DeleteGroupsResponse_methods :: protocolMethods where
  "DeleteGroupsResponse_methods =
     \<lparr>pm_key = 42, pm_headerVersion = (\<lambda>_. 0),
      pm_isValidVersion = (\<lambda>v. v \<ge> 0 \<and> v \<le> 1),
      pm_requiredVersion = (\<lambda>v. if v = 1 then V2_0_0_0 else if v = 0 then V1_1_0_0 else V2_0_0_0)\<rparr>"

definition DeleteOffsetsRequest_methods :: protocolMethods where
  "DeleteOffsetsRequest_methods =
     \<lparr>pm_key = 47, pm_headerVersion = (\<lambda>_. 1),
      pm_isValidVersion = (\<lambda>v. v = 0),
      pm_requiredVersion = (\<lambda>_. V2_4_0_0)\<rparr>"

definition DeleteOffsetsResponse_methods :: protocolMethods where
  "DeleteOffsetsResponse_methods =
     \<lparr>pm_key = 47, pm_headerVersion = (\<lambda>_. 0),
      pm_isValidVersion = (\<lambda>v. v = 0),
      pm_requiredVersion = (\<lambda>_. V2_4_0_0)\<rparr>"

definition DeleteRecordsRequest_methods :: protocolMethods where
  "DeleteRecordsRequest_methods =
     \<lparr>pm_key = 21, pm_headerVersion = (\<lambda>_. 1),
      pm_isValidVersion = (\<lambda>v. v \<ge> 0 \<and> v \<le> 1),
      pm_requiredVersion = (\<lambda>v. if v = 1 then V2_0_0_0 else V0_11_0_0)\<rparr>"

definition DeleteRecordsResponse_methods :: protocolMethods where
  "DeleteRecordsResponse_methods =
     \<lparr>pm_key = 21, pm_headerVersion = (\<lambda>_. 0),
      pm_isValidVersion = (\<lambda>v. v \<ge> 0 \<and> v \<le> 1),
      pm_requiredVersion = (\<lambda>v. if v = 1 then V2_0_0_0 else V0_11_0_0)\<rparr>"

definition DeleteTopicsRequest_methods :: protocolMethods where
  "DeleteTopicsRequest_methods =
     \<lparr>pm_key = 20, pm_headerVersion = (\<lambda>_. 1),
      pm_isValidVersion = (\<lambda>v. v \<ge> 0 \<and> v \<le> 3),
      pm_requiredVersion = (\<lambda>v. if v = 3 then V2_1_0_0 else if v = 2 then V2_0_0_0
        else if v = 1 then V0_11_0_0 else if v = 0 then V0_10_1_0 else V2_2_0_0)\<rparr>"

definition DeleteTopicsResponse_methods :: protocolMethods where
  "DeleteTopicsResponse_methods =
     \<lparr>pm_key = 20, pm_headerVersion = (\<lambda>_. 0),
      pm_isValidVersion = (\<lambda>v. v \<ge> 0 \<and> v \<le> 3),
      pm_requiredVersion = (\<lambda>v. if v = 3 then V2_1_0_0 else if v = 2 then V2_0_0_0
        else if v = 1 then V0_11_0_0 else if v = 0 then V0_10_1_0 else V2_2_0_0)\<rparr>"

definition DescribeClientQuotasRequest_methods :: protocolMethods where
  "DescribeClientQuotasRequest_methods =
     \<lparr>pm_key = 48, pm_headerVersion = (\<lambda>_. 1),
      pm_isValidVersion = (\<lambda>v. v = 0),
      pm_requiredVersion = (\<lambda>_. V2_6_0_0)\<rparr>"

definition DescribeClientQuotasResponse_methods :: protocolMethods where
  "DescribeClientQuotasResponse_methods =
     \<lparr>pm_key = 48, pm_headerVersion = (\<lambda>_. 0),
      pm_isValidVersion = (\<lambda>v. v = 0),
      pm_requiredVersion = (\<lambda>_. V2_6_0_0)\<rparr>"

definition DescribeConfigsRequest_methods :: protocolMethods where
  "DescribeConfigsRequest_methods =
     \<lparr>pm_key = 32, pm_headerVersion = (\<lambda>_. 1),
      pm_isValidVersion = (\<lambda>v. v \<ge> 0 \<and> v \<le> 2),
      pm_requiredVersion = (\<lambda>v. if v = 2 then V2_0_0_0 else if v = 1 then V1_1_0_0
        else if v = 0 then V0_11_0_0 else V2_0_0_0)\<rparr>"

definition DescribeConfigsResponse_methods :: protocolMethods where
  "DescribeConfigsResponse_methods =
     \<lparr>pm_key = 32, pm_headerVersion = (\<lambda>_. 0),
      pm_isValidVersion = (\<lambda>v. v \<ge> 0 \<and> v \<le> 2),
      pm_requiredVersion = (\<lambda>v. if v = 2 then V2_0_0_0 else if v = 1 then V1_1_0_0
        else if v = 0 then V0_11_0_0 else V2_0_0_0)\<rparr>"

definition DescribeGroupsRequest_methods :: protocolMethods where
  "DescribeGroupsRequest_methods =
     \<lparr>pm_key = 15, pm_headerVersion = (\<lambda>_. 1),
      pm_isValidVersion = (\<lambda>v. v \<ge> 0 \<and> v \<le> 4),
      pm_requiredVersion = (\<lambda>v. if v = 4 then V2_4_0_0 else if v = 3 then V2_3_0_0
        else if v = 2 then V2_0_0_0 else if v = 1 then V0_11_0_0
        else if v = 0 then V0_9_0_0 else V2_4_0_0)\<rparr>"

definition DescribeGroupsResponse_methods :: protocolMethods where
  "DescribeGroupsResponse_methods =
     \<lparr>pm_key = 15, pm_headerVersion = (\<lambda>_. 0),
      pm_isValidVersion = (\<lambda>v. v \<ge> 0 \<and> v \<le> 4),
      pm_requiredVersion = (\<lambda>v. if v = 4 then V2_4_0_0 else if v = 3 then V2_3_0_0
        else if v = 2 then V2_0_0_0 else if v = 1 then V0_11_0_0
        else if v = 0 then V0_9_0_0 else V2_4_0_0)\<rparr>"

definition DescribeLogDirsRequest_methods :: protocolMethods where
  "DescribeLogDirsRequest_methods =
     \<lparr>pm_key = 35, pm_headerVersion = (\<lambda>_. 1),
      pm_isValidVersion = (\<lambda>v. v \<ge> 0 \<and> v \<le> 1),
      pm_requiredVersion = (\<lambda>v. if v > 0 then V2_0_0_0 else V1_0_0_0)\<rparr>"

definition DescribeLogDirsResponse_methods :: protocolMethods where
  "DescribeLogDirsResponse_methods =
     \<lparr>pm_key = 35, pm_headerVersion = (\<lambda>_. 0),
      pm_isValidVersion = (\<lambda>v. v \<ge> 0 \<and> v \<le> 1),
      pm_requiredVersion = (\<lambda>v. if v > 0 then V2_0_0_0 else V1_0_0_0)\<rparr>"

definition DescribeUserScramCredentialsRequest_methods :: protocolMethods where
  "DescribeUserScramCredentialsRequest_methods =
     \<lparr>pm_key = 50, pm_headerVersion = (\<lambda>_. 2),
      pm_isValidVersion = (\<lambda>v. v = 0),
      pm_requiredVersion = (\<lambda>_. V2_7_0_0)\<rparr>"

definition DescribeUserScramCredentialsResponse_methods :: protocolMethods where
  "DescribeUserScramCredentialsResponse_methods =
     \<lparr>pm_key = 50, pm_headerVersion = (\<lambda>_. 2),
      pm_isValidVersion = (\<lambda>v. v = 0),
      pm_requiredVersion = (\<lambda>_. V2_7_0_0)\<rparr>"

definition EndTxnRequest_methods :: protocolMethods where
  "EndTxnRequest_methods =
     \<lparr>pm_key = 26, pm_headerVersion = (\<lambda>_. 1),
      pm_isValidVersion = (\<lambda>v. v \<ge> 0 \<and> v \<le> 2),
      pm_requiredVersion = (\<lambda>v. if v = 2 then V2_7_0_0 else if v = 1 then V2_0_0_0 else V0_11_0_0)\<rparr>"

definition EndTxnResponse_methods :: protocolMethods where
  "EndTxnResponse_methods =
     \<lparr>pm_key = 26, pm_headerVersion = (\<lambda>_. 0),
      pm_isValidVersion = (\<lambda>v. v \<ge> 0 \<and> v \<le> 2),
      pm_requiredVersion = (\<lambda>v. if v = 2 then V2_7_0_0 else if v = 1 then V2_0_0_0 else V0_11_0_0)\<rparr>"

definition FetchRequest_methods :: protocolMethods where
  "FetchRequest_methods =
     \<lparr>pm_key = 1, pm_headerVersion = (\<lambda>_. 1),
      pm_isValidVersion = (\<lambda>v. v \<ge> 0 \<and> v \<le> 11),
      pm_requiredVersion = (\<lambda>v. if v = 11 then V2_3_0_0 else if v = 9 \<or> v = 10 then V2_1_0_0
        else if v = 8 then V2_0_0_0 else if v = 7 then V1_1_0_0
        else if v = 6 then V1_0_0_0 else if v = 4 \<or> v = 5 then V0_11_0_0
        else if v = 3 then V0_10_1_0 else if v = 2 then V0_10_0_0
        else if v = 1 then V0_9_0_0 else if v = 0 then V0_8_2_0 else V2_3_0_0)\<rparr>"

definition FetchResponse_methods :: protocolMethods where
  "FetchResponse_methods =
     \<lparr>pm_key = 1, pm_headerVersion = (\<lambda>_. 0),
      pm_isValidVersion = (\<lambda>v. v \<ge> 0 \<and> v \<le> 11),
      pm_requiredVersion = (\<lambda>v. if v = 11 then V2_3_0_0 else if v = 9 \<or> v = 10 then V2_1_0_0
        else if v = 8 then V2_0_0_0 else if v = 7 then V1_1_0_0
        else if v = 6 then V1_0_0_0 else if v = 4 \<or> v = 5 then V0_11_0_0
        else if v = 3 then V0_10_1_0 else if v = 2 then V0_10_0_0
        else if v = 1 then V0_9_0_0 else if v = 0 then V0_8_2_0 else V2_3_0_0)\<rparr>"

definition FindCoordinatorRequest_methods :: protocolMethods where
  "FindCoordinatorRequest_methods =
     \<lparr>pm_key = 10, pm_headerVersion = (\<lambda>_. 1),
      pm_isValidVersion = (\<lambda>v. v \<ge> 0 \<and> v \<le> 2),
      pm_requiredVersion = (\<lambda>v. if v = 2 then V2_0_0_0 else if v = 1 then V0_11_0_0 else V0_8_2_0)\<rparr>"

definition FindCoordinatorResponse_methods :: protocolMethods where
  "FindCoordinatorResponse_methods =
     \<lparr>pm_key = 10, pm_headerVersion = (\<lambda>_. 0),
      pm_isValidVersion = (\<lambda>v. v \<ge> 0 \<and> v \<le> 2),
      pm_requiredVersion = (\<lambda>v. if v = 2 then V2_0_0_0 else if v = 1 then V0_11_0_0 else V0_8_2_0)\<rparr>"

definition HeartbeatRequest_methods :: protocolMethods where
  "HeartbeatRequest_methods =
     \<lparr>pm_key = 12, pm_headerVersion = (\<lambda>_. 1),
      pm_isValidVersion = (\<lambda>v. v \<ge> 0 \<and> v \<le> 3),
      pm_requiredVersion = (\<lambda>v. if v = 3 then V2_3_0_0 else if v = 2 then V2_0_0_0
        else if v = 1 then V0_11_0_0 else if v = 0 then V0_8_2_0 else V2_3_0_0)\<rparr>"

definition HeartbeatResponse_methods :: protocolMethods where
  "HeartbeatResponse_methods =
     \<lparr>pm_key = 12, pm_headerVersion = (\<lambda>_. 0),
      pm_isValidVersion = (\<lambda>v. v \<ge> 0 \<and> v \<le> 3),
      pm_requiredVersion = (\<lambda>v. if v = 3 then V2_3_0_0 else if v = 2 then V2_0_0_0
        else if v = 1 then V0_11_0_0 else if v = 0 then V0_8_2_0 else V2_3_0_0)\<rparr>"

definition IncrementalAlterConfigsRequest_methods :: protocolMethods where
  "IncrementalAlterConfigsRequest_methods =
     \<lparr>pm_key = 44, pm_headerVersion = (\<lambda>_. 1),
      pm_isValidVersion = (\<lambda>v. v = 0),
      pm_requiredVersion = (\<lambda>_. V2_3_0_0)\<rparr>"

definition IncrementalAlterConfigsResponse_methods :: protocolMethods where
  "IncrementalAlterConfigsResponse_methods =
     \<lparr>pm_key = 44, pm_headerVersion = (\<lambda>_. 0),
      pm_isValidVersion = (\<lambda>v. v = 0),
      pm_requiredVersion = (\<lambda>_. V2_3_0_0)\<rparr>"

definition InitProducerIDRequest_methods :: protocolMethods where
  "InitProducerIDRequest_methods =
     \<lparr>pm_key = 22, pm_headerVersion = (\<lambda>v. if v \<ge> 2 then 2 else 1),
      pm_isValidVersion = (\<lambda>v. v \<ge> 0 \<and> v \<le> 4),
      pm_requiredVersion = (\<lambda>v. if v = 4 then V2_7_0_0 else if v = 3 then V2_5_0_0
        else if v = 2 then V2_4_0_0 else if v = 1 then V2_0_0_0
        else if v = 0 then V0_11_0_0 else V2_7_0_0)\<rparr>"

definition InitProducerIDResponse_methods :: protocolMethods where
  "InitProducerIDResponse_methods =
     \<lparr>pm_key = 22, pm_headerVersion = (\<lambda>v. if v \<ge> 2 then 1 else 0),
      pm_isValidVersion = (\<lambda>v. v \<ge> 0 \<and> v \<le> 4),
      pm_requiredVersion = (\<lambda>v. if v = 4 then V2_7_0_0 else if v = 3 then V2_5_0_0
        else if v = 2 then V2_4_0_0 else if v = 1 then V2_0_0_0 else V0_11_0_0)\<rparr>"

definition JoinGroupRequest_methods :: protocolMethods where
  "JoinGroupRequest_methods =
     \<lparr>pm_key = 11, pm_headerVersion = (\<lambda>_. 1),
      pm_isValidVersion = (\<lambda>v. v \<ge> 0 \<and> v \<le> 5),
      pm_requiredVersion = (\<lambda>v. if v = 5 then V2_3_0_0 else if v = 4 then V2_2_0_0
        else if v = 3 then V2_0_0_0 else if v = 2 then V0_11_0_0
        else if v = 1 then V0_10_1_0 else if v = 0 then V0_10_0_0 else V2_3_0_0)\<rparr>"

definition JoinGroupResponse_methods :: protocolMethods where
  "JoinGroupResponse_methods =
     \<lparr>pm_key = 11, pm_headerVersion = (\<lambda>_. 0),
      pm_isValidVersion = (\<lambda>v. v \<ge> 0 \<and> v \<le> 5),
      pm_requiredVersion = (\<lambda>v. if v = 5 then V2_3_0_0 else if v = 4 then V2_2_0_0
        else if v = 3 then V2_0_0_0 else if v = 2 then V0_11_0_0
        else if v = 1 then V0_10_1_0 else if v = 0 then V0_10_0_0 else V2_3_0_0)\<rparr>"

definition LeaveGroupRequest_methods :: protocolMethods where
  "LeaveGroupRequest_methods =
     \<lparr>pm_key = 13, pm_headerVersion = (\<lambda>_. 1),
      pm_isValidVersion = (\<lambda>v. v \<ge> 0 \<and> v \<le> 3),
      pm_requiredVersion = (\<lambda>v. if v = 3 then V2_4_0_0 else if v = 2 then V2_0_0_0
        else if v = 1 then V0_11_0_0 else if v = 0 then V0_9_0_0 else V2_4_0_0)\<rparr>"

definition LeaveGroupResponse_methods :: protocolMethods where
  "LeaveGroupResponse_methods =
     \<lparr>pm_key = 13, pm_headerVersion = (\<lambda>_. 0),
      pm_isValidVersion = (\<lambda>v. v \<ge> 0 \<and> v \<le> 3),
      pm_requiredVersion = (\<lambda>v. if v = 3 then V2_4_0_0 else if v = 2 then V2_0_0_0
        else if v = 1 then V0_11_0_0 else if v = 0 then V0_9_0_0 else V2_4_0_0)\<rparr>"

definition ListGroupsRequest_methods :: protocolMethods where
  "ListGroupsRequest_methods =
     \<lparr>pm_key = 16, pm_headerVersion = (\<lambda>v. if v \<ge> 3 then 2 else 1),
      pm_isValidVersion = (\<lambda>v. v \<ge> 0 \<and> v \<le> 4),
      pm_requiredVersion = (\<lambda>v. if v = 4 then V2_6_0_0 else if v = 3 then V2_4_0_0
        else if v = 2 then V2_0_0_0 else if v = 1 then V0_11_0_0
        else if v = 0 then V0_9_0_0 else V2_6_0_0)\<rparr>"

definition ListGroupsResponse_methods :: protocolMethods where
  "ListGroupsResponse_methods =
     \<lparr>pm_key = 16, pm_headerVersion = (\<lambda>v. if v \<ge> 3 then 1 else 0),
      pm_isValidVersion = (\<lambda>v. v \<ge> 0 \<and> v \<le> 4),
      pm_requiredVersion = (\<lambda>v. if v = 4 then V2_6_0_0 else if v = 3 then V2_4_0_0
        else if v = 2 then V2_0_0_0 else if v = 1 then V0_11_0_0
        else if v = 0 then V0_9_0_0 else V2_6_0_0)\<rparr>"

definition ListPartitionReassignmentsRequest_methods :: protocolMethods where
  "ListPartitionReassignmentsRequest_methods =
     \<lparr>pm_key = 46, pm_headerVersion = (\<lambda>_. 2),
      pm_isValidVersion = (\<lambda>v. v = 0),
      pm_requiredVersion = (\<lambda>_. V2_4_0_0)\<rparr>"

definition ListPartitionReassignmentsResponse_methods :: protocolMethods where
  "ListPartitionReassignmentsResponse_methods =
     \<lparr>pm_key = 46, pm_headerVersion = (\<lambda>_. 1),
      pm_isValidVersion = (\<lambda>v. v = 0),
      pm_requiredVersion = (\<lambda>_. V2_4_0_0)\<rparr>"

definition MetadataRequest_methods :: protocolMethods where
  "MetadataRequest_methods =
     \<lparr>pm_key = 3, pm_headerVersion = (\<lambda>v. if v \<ge> 9 then 2 else 1),
      pm_isValidVersion = (\<lambda>v. v \<ge> 0 \<and> v \<le> 10),
      pm_requiredVersion = (\<lambda>v. if v = 10 then V2_8_0_0 else if v = 9 then V2_4_0_0
        else if v = 8 then V2_3_0_0 else if v = 7 then V2_1_0_0
        else if v = 6 then V2_0_0_0 else if v = 5 then V1_0_0_0
        else if v = 3 \<or> v = 4 then V0_11_0_0 else if v = 2 then V0_10_1_0
        else if v = 1 then V0_10_0_0 else if v = 0 then V0_8_2_0 else V2_8_0_0)\<rparr>"

definition MetadataResponse_methods :: protocolMethods where
  "MetadataResponse_methods =
     \<lparr>pm_key = 3, pm_headerVersion = (\<lambda>v. if v < 9 then 0 else 1),
      pm_isValidVersion = (\<lambda>v. v \<ge> 0 \<and> v \<le> 7),
      pm_requiredVersion = (\<lambda>v. if v = 10 then V2_8_0_0 else if v = 9 then V2_4_0_0
        else if v = 8 then V2_3_0_0 else if v = 7 then V2_1_0_0
        else if v = 6 then V2_0_0_0 else if v = 5 then V1_0_0_0
        else if v = 3 \<or> v = 4 then V0_11_0_0 else if v = 2 then V0_10_1_0
        else if v = 1 then V0_10_0_0 else if v = 0 then V0_8_2_0 else V2_8_0_0)\<rparr>"

definition OffsetCommitRequest_methods :: protocolMethods where
  "OffsetCommitRequest_methods =
     \<lparr>pm_key = 8, pm_headerVersion = (\<lambda>_. 1),
      pm_isValidVersion = (\<lambda>v. v \<ge> 0 \<and> v \<le> 7),
      pm_requiredVersion = (\<lambda>v. if v = 7 then V2_3_0_0 else if v = 5 \<or> v = 6 then V2_1_0_0
        else if v = 4 then V2_0_0_0 else if v = 3 then V0_11_0_0
        else if v = 2 then V0_9_0_0 else if v = 0 \<or> v = 1 then V0_8_2_0
        else V2_4_0_0)\<rparr>"

definition OffsetCommitResponse_methods :: protocolMethods where
  "OffsetCommitResponse_methods =
     \<lparr>pm_key = 8, pm_headerVersion = (\<lambda>_. 0),
      pm_isValidVersion = (\<lambda>v. v \<ge> 0 \<and> v \<le> 7),
      pm_requiredVersion = (\<lambda>v. if v = 7 then V2_3_0_0 else if v = 5 \<or> v = 6 then V2_1_0_0
        else if v = 4 then V2_0_0_0 else if v = 3 then V0_11_0_0
        else if v = 2 then V0_9_0_0 else if v = 0 \<or> v = 1 then V0_8_2_0
        else V2_4_0_0)\<rparr>"

definition OffsetFetchRequest_methods :: protocolMethods where
  "OffsetFetchRequest_methods =
     \<lparr>pm_key = 9, pm_headerVersion = (\<lambda>v. if v \<ge> 6 then 2 else 1),
      pm_isValidVersion = (\<lambda>v. v \<ge> 0 \<and> v \<le> 7),
      pm_requiredVersion = (\<lambda>v. if v = 7 then V2_5_0_0 else if v = 6 then V2_4_0_0
        else if v = 5 then V2_1_0_0 else if v = 4 then V2_0_0_0
        else if v = 3 then V0_11_0_0 else if v = 2 then V0_10_2_0
        else if v = 1 then V0_8_2_0 else if v = 0 then V0_8_2_0 else V2_5_0_0)\<rparr>"

definition OffsetFetchResponse_methods :: protocolMethods where
  "OffsetFetchResponse_methods =
     \<lparr>pm_key = 9, pm_headerVersion = (\<lambda>v. if v \<ge> 6 then 1 else 0),
      pm_isValidVersion = (\<lambda>v. v \<ge> 0 \<and> v \<le> 7),
      pm_requiredVersion = (\<lambda>v. if v = 7 then V2_5_0_0 else if v = 6 then V2_4_0_0
        else if v = 5 then V2_1_0_0 else if v = 4 then V2_0_0_0
        else if v = 3 then V0_11_0_0 else if v = 2 then V0_10_2_0
        else if v = 1 then V0_8_2_0 else if v = 0 then V0_8_2_0 else V2_5_0_0)\<rparr>"

definition OffsetRequest_methods :: protocolMethods where
  "OffsetRequest_methods =
     \<lparr>pm_key = 2, pm_headerVersion = (\<lambda>_. 1),
      pm_isValidVersion = (\<lambda>v. v \<ge> 0 \<and> v \<le> 4),
      pm_requiredVersion = (\<lambda>v. if v = 4 then V2_1_0_0 else if v = 3 then V2_0_0_0
        else if v = 2 then V0_11_0_0 else if v = 1 then V0_10_1_0
        else if v = 0 then V0_8_2_0 else V2_0_0_0)\<rparr>"

definition OffsetResponse_methods :: protocolMethods where
  "OffsetResponse_methods =
     \<lparr>pm_key = 2, pm_headerVersion = (\<lambda>_. 0),
      pm_isValidVersion = (\<lambda>v. v \<ge> 0 \<and> v \<le> 4),
      pm_requiredVersion = (\<lambda>v. if v = 4 then V2_1_0_0 else if v = 3 then V2_0_0_0
        else if v = 2 then V0_11_0_0 else if v = 1 then V0_10_1_0
        else if v = 0 then V0_8_2_0 else V2_0_0_0)\<rparr>"

definition ProduceRequest_methods :: protocolMethods where
  "ProduceRequest_methods =
     \<lparr>pm_key = 0, pm_headerVersion = (\<lambda>_. 1),
      pm_isValidVersion = (\<lambda>v. v \<ge> 0 \<and> v \<le> 7),
      pm_requiredVersion = (\<lambda>v. if v = 7 then V2_1_0_0 else if v = 6 then V2_0_0_0
        else if v = 4 \<or> v = 5 then V1_0_0_0 else if v = 3 then V0_11_0_0
        else if v = 2 then V0_10_0_0 else if v = 1 then V0_9_0_0
        else if v = 0 then V0_8_2_0 else V2_1_0_0)\<rparr>"

definition ProduceResponse_methods :: protocolMethods where
  "ProduceResponse_methods =
     \<lparr>pm_key = 0, pm_headerVersion = (\<lambda>_. 0),
      pm_isValidVersion = (\<lambda>v. v \<ge> 0 \<and> v \<le> 7),
      pm_requiredVersion = (\<lambda>v. if v = 7 then V2_1_0_0 else if v = 6 then V2_0_0_0
        else if v = 4 \<or> v = 5 then V1_0_0_0 else if v = 3 then V0_11_0_0
        else if v = 2 then V0_10_0_0 else if v = 1 then V0_9_0_0
        else if v = 0 then V0_8_2_0 else V2_1_0_0)\<rparr>"

definition SaslAuthenticateRequest_methods :: protocolMethods where
  "SaslAuthenticateRequest_methods =
     \<lparr>pm_key = 36, pm_headerVersion = (\<lambda>_. 1),
      pm_isValidVersion = (\<lambda>v. v \<ge> 0 \<and> v \<le> 1),
      pm_requiredVersion = (\<lambda>v. if v = 1 then V2_2_0_0 else V1_0_0_0)\<rparr>"

definition SaslAuthenticateResponse_methods :: protocolMethods where
  "SaslAuthenticateResponse_methods =
     \<lparr>pm_key = 36, pm_headerVersion = (\<lambda>_. 0),
      pm_isValidVersion = (\<lambda>v. v \<ge> 0 \<and> v \<le> 1),
      pm_requiredVersion = (\<lambda>v. if v = 1 then V2_2_0_0 else V1_0_0_0)\<rparr>"

definition SaslHandshakeRequest_methods :: protocolMethods where
  "SaslHandshakeRequest_methods =
     \<lparr>pm_key = 17, pm_headerVersion = (\<lambda>_. 1),
      pm_isValidVersion = (\<lambda>v. v \<ge> 0 \<and> v \<le> 1),
      pm_requiredVersion = (\<lambda>v. if v = 1 then V1_0_0_0 else V0_10_0_0)\<rparr>"

definition SaslHandshakeResponse_methods :: protocolMethods where
  "SaslHandshakeResponse_methods =
     \<lparr>pm_key = 17, pm_headerVersion = (\<lambda>_. 0),
      pm_isValidVersion = (\<lambda>v. v \<ge> 0 \<and> v \<le> 1),
      pm_requiredVersion = (\<lambda>v. if v = 1 then V1_0_0_0 else V0_10_0_0)\<rparr>"

definition SyncGroupRequest_methods :: protocolMethods where
  "SyncGroupRequest_methods =
     \<lparr>pm_key = 14, pm_headerVersion = (\<lambda>_. 1),
      pm_isValidVersion = (\<lambda>v. v \<ge> 0 \<and> v \<le> 3),
      pm_requiredVersion = (\<lambda>v. if v = 3 then V2_3_0_0 else if v = 2 then V2_0_0_0
        else if v = 1 then V0_11_0_0 else if v = 0 then V0_9_0_0 else V2_3_0_0)\<rparr>"

definition SyncGroupResponse_methods :: protocolMethods where
  "SyncGroupResponse_methods =
     \<lparr>pm_key = 14, pm_headerVersion = (\<lambda>_. 0),
      pm_isValidVersion = (\<lambda>v. v \<ge> 0 \<and> v \<le> 3),
      pm_requiredVersion = (\<lambda>v. if v = 3 then V2_3_0_0 else if v = 2 then V2_0_0_0
        else if v = 1 then V0_11_0_0 else if v = 0 then V0_9_0_0 else V2_3_0_0)\<rparr>"

definition TxnOffsetCommitRequest_methods :: protocolMethods where
  "TxnOffsetCommitRequest_methods =
     \<lparr>pm_key = 28, pm_headerVersion = (\<lambda>_. 1),
      pm_isValidVersion = (\<lambda>v. v \<ge> 0 \<and> v \<le> 2),
      pm_requiredVersion = (\<lambda>v. if v = 2 then V2_1_0_0 else if v = 1 then V2_0_0_0
        else if v = 0 then V0_11_0_0 else V2_1_0_0)\<rparr>"

definition TxnOffsetCommitResponse_methods :: protocolMethods where
  "TxnOffsetCommitResponse_methods =
     \<lparr>pm_key = 28, pm_headerVersion = (\<lambda>_. 0),
      pm_isValidVersion = (\<lambda>v. v \<ge> 0 \<and> v \<le> 2),
      pm_requiredVersion = (\<lambda>v. if v = 2 then V2_1_0_0 else if v = 1 then V2_0_0_0
        else if v = 0 then V0_11_0_0 else V2_1_0_0)\<rparr>"

subsection \<open>The APIs\<close>

definition api_table :: "(string \<times> protocolMethods \<times> protocolMethods) list" where
  "api_table =
    [(''CreateAcls'', CreateAclsRequest_methods, CreateAclsResponse_methods),
     (''DeleteAcls'', DeleteAclsRequest_methods, DeleteAclsResponse_methods),
     (''DescribeAcls'', DescribeAclsRequest_methods, DescribeAclsResponse_methods),
     (''AddOffsetsToTxn'', AddOffsetsToTxnRequest_methods, AddOffsetsToTxnResponse_methods),
     (''AddPartitionsToTxn'', AddPartitionsToTxnRequest_methods, AddPartitionsToTxnResponse_methods),
     (''AlterClientQuotas'', AlterClientQuotasRequest_methods, AlterClientQuotasResponse_methods),
     (''AlterConfigs'', AlterConfigsRequest_methods, AlterConfigsResponse_methods),
     (''AlterPartitionReassignments'', AlterPartitionReassignmentsRequest_methods, AlterPartitionReassignmentsResponse_methods),
     (''AlterUserScramCredentials'', AlterUserScramCredentialsRequest_methods, AlterUserScramCredentialsResponse_methods),
     (''ApiVersions'', ApiVersionsRequest_methods, ApiVersionsResponse_methods),
     (''ConsumerMetadata'', ConsumerMetadataRequest_methods, ConsumerMetadataResponse_methods),
     (''CreatePartitions'', CreatePartitionsRequest_methods, CreatePartitionsResponse_methods),
     (''CreateTopics'', CreateTopicsRequest_methods, CreateTopicsResponse_methods),
     (''DeleteGroups'', DeleteGroupsRequest_methods, DeleteGroupsResponse_methods),
     (''DeleteOffsets'', DeleteOffsetsRequest_methods, DeleteOffsetsResponse_methods),
     (''DeleteRecords'', DeleteRecordsRequest_methods, DeleteRecordsResponse_methods),
     (''DeleteTopics'', DeleteTopicsRequest_methods, DeleteTopicsResponse_methods),
     (''DescribeClientQuotas'', DescribeClientQuotasRequest_methods, DescribeClientQuotasResponse_methods),
     (''DescribeConfigs'', DescribeConfigsRequest_methods, DescribeConfigsResponse_methods),
     (''DescribeGroups'', DescribeGroupsRequest_methods, DescribeGroupsResponse_methods),
     (''DescribeLogDirs'', DescribeLogDirsRequest_methods, DescribeLogDirsResponse_methods),
     (''DescribeUserScramCredentials'', DescribeUserScramCredentialsRequest_methods, DescribeUserScramCredentialsResponse_methods),
     (''EndTxn'', EndTxnRequest_methods, EndTxnResponse_methods),
     (''Fetch'', FetchRequest_methods, FetchResponse_methods),
     (''FindCoordinator'', FindCoordinatorRequest_methods, FindCoordinatorResponse_methods),
     (''Heartbeat'', HeartbeatRequest_methods, HeartbeatResponse_methods),
     (''IncrementalAlterConfigs'', IncrementalAlterConfigsRequest_methods, IncrementalAlterConfigsResponse_methods),
     (''InitProducerID'', InitProducerIDRequest_methods, InitProducerIDResponse_methods),
     (''JoinGroup'', JoinGroupRequest_methods, JoinGroupResponse_methods),
     (''LeaveGroup'', LeaveGroupRequest_methods, LeaveGroupResponse_methods),
     (''ListGroups'', ListGroupsRequest_methods, ListGroupsResponse_methods),
     (''ListPartitionReassignments'', ListPartitionReassignmentsRequest_methods, ListPartitionReassignmentsResponse_methods),
     (''Metadata'', MetadataRequest_methods, MetadataResponse_methods),
     (''OffsetCommit'', OffsetCommitRequest_methods, OffsetCommitResponse_methods),
     (''OffsetFetch'', OffsetFetchRequest_methods, OffsetFetchResponse_methods),
     (''Offset'', OffsetRequest_methods, OffsetResponse_methods),
     (''Produce'', ProduceRequest_methods, ProduceResponse_methods),
     (''SaslAuthenticate'', SaslAuthenticateRequest_methods, SaslAuthenticateResponse_methods),
     (''SaslHandshake'', SaslHandshakeRequest_methods, SaslHandshakeResponse_methods),
     (''SyncGroup'', SyncGroupRequest_methods, SyncGroupResponse_methods),
     (''TxnOffsetCommit'', TxnOffsetCommitRequest_methods, TxnOffsetCommitResponse_methods)]"

lemmas methods_defs =
  CreateAclsRequest_methods_def CreateAclsResponse_methods_def DeleteAclsRequest_methods_def
  DeleteAclsResponse_methods_def DescribeAclsRequest_methods_def DescribeAclsResponse_methods_def
  AddOffsetsToTxnRequest_methods_def AddOffsetsToTxnResponse_methods_def
  AddPartitionsToTxnRequest_methods_def AddPartitionsToTxnResponse_methods_def
  AlterClientQuotasRequest_methods_def AlterClientQuotasResponse_methods_def
  AlterConfigsRequest_methods_def AlterConfigsResponse_methods_def
  AlterPartitionReassignmentsRequest_methods_def AlterPartitionReassignmentsResponse_methods_def
  AlterUserScramCredentialsRequest_methods_def AlterUserScramCredentialsResponse_methods_def
  ApiVersionsRequest_methods_def ApiVersionsResponse_methods_def
  ConsumerMetadataRequest_methods_def ConsumerMetadataResponse_methods_def
  CreatePartitionsRequest_methods_def CreatePartitionsResponse_methods_def
  CreateTopicsRequest_methods_def CreateTopicsResponse_methods_def DeleteGroupsRequest_methods_def
  DeleteGroupsResponse_methods_def DeleteOffsetsRequest_methods_def
  DeleteOffsetsResponse_methods_def DeleteRecordsRequest_methods_def
  DeleteRecordsResponse_methods_def DeleteTopicsRequest_methods_def
  DeleteTopicsResponse_methods_def DescribeClientQuotasRequest_methods_def
  DescribeClientQuotasResponse_methods_def DescribeConfigsRequest_methods_def
  DescribeConfigsResponse_methods_def DescribeGroupsRequest_methods_def
  DescribeGroupsResponse_methods_def DescribeLogDirsRequest_methods_def
  DescribeLogDirsResponse_methods_def DescribeUserScramCredentialsRequest_methods_def
  DescribeUserScramCredentialsResponse_methods_def EndTxnRequest_methods_def
  EndTxnResponse_methods_def FetchRequest_methods_def FetchResponse_methods_def
  FindCoordinatorRequest_methods_def FindCoordinatorResponse_methods_def
  HeartbeatRequest_methods_def HeartbeatResponse_methods_def
  IncrementalAlterConfigsRequest_methods_def IncrementalAlterConfigsResponse_methods_def
  InitProducerIDRequest_methods_def InitProducerIDResponse_methods_def JoinGroupRequest_methods_def
  JoinGroupResponse_methods_def LeaveGroupRequest_methods_def LeaveGroupResponse_methods_def
  ListGroupsRequest_methods_def ListGroupsResponse_methods_def
  ListPartitionReassignmentsRequest_methods_def ListPartitionReassignmentsResponse_methods_def
  MetadataRequest_methods_def MetadataResponse_methods_def OffsetCommitRequest_methods_def
  OffsetCommitResponse_methods_def OffsetFetchRequest_methods_def OffsetFetchResponse_methods_def
  OffsetRequest_methods_def OffsetResponse_methods_def ProduceRequest_methods_def
  ProduceResponse_methods_def SaslAuthenticateRequest_methods_def
  SaslAuthenticateResponse_methods_def SaslHandshakeRequest_methods_def
  SaslHandshakeResponse_methods_def SyncGroupRequest_methods_def SyncGroupResponse_methods_def
  TxnOffsetCommitRequest_methods_def TxnOffsetCommitResponse_methods_def

text \<open>
  One row of the table: a request and its response have the same key; on the versions the request
  knows, both need the same broker version, which does not decrease with the version of the message;
  every request carries a client id, and its response header has tagged fields exactly if its own has,
  but for the ApiVersions response, whose header never has them.
\<close>

definition api_consistent :: "string \<times> protocolMethods \<times> protocolMethods \<Rightarrow> bool" where
  "api_consistent api = (case api of (nm, req, res) \<Rightarrow>
     pm_key req = pm_key res \<and>
     list_all (\<lambda>v. pm_isValidVersion req v \<longrightarrow>
       pm_requiredVersion res v = pm_requiredVersion req v \<and>
       (pm_isValidVersion req (v + 1) \<longrightarrow> IsAtLeast (pm_requiredVersion req (v + 1)) (pm_requiredVersion req v)) \<and>
       1 \<le> pm_headerVersion req v \<and>
       (if nm = ''ApiVersions'' then pm_headerVersion res v = 0
        else (1 \<le> pm_headerVersion res v) = (2 \<le> pm_headerVersion req v))) [0..11])"

lemma api_table_consistent: "list_all api_consistent api_table"
  by code_simp

lemma api_valid_range:
  "(nm, req, res) \<in> set api_table \<Longrightarrow> pm_isValidVersion req v \<Longrightarrow> 0 \<le> v \<and> v \<le> 11"
  by (auto simp: api_table_def methods_defs)

end
