(* ===== verification/Request_Framing.thy ===== *)
theory Request_Framing
  imports Protocol_Table Acl_Messages Admin_Messages Auth_Messages Fetch_Messages Group_Messages Metadata_Messages Offset_Messages Produce_Messages Txn_Messages
begin

text \<open>
  Requests as they are sent (\<open>request.go\<close>): a length, the key and the version of the body, the
  correlation id, the client id and, in the flexible versions, empty tagged fields, followed by the
  body. \<open>allocateBody\<close> chooses the type of the body from its key. A body is one of the request types
  of the library. The result is the round trip of the whole frame, from the round trips of the types.

  The header of a response (\<open>response_header.go\<close>) is decoded only; \<open>ser_response\<close> is the frame a
  broker sends.
\<close>

subsection \<open>Bodies\<close>

datatype request_body =
    Body_Produce ProduceRequest
  | Body_Fetch FetchRequest
  | Body_Offset OffsetRequest
  | Body_Metadata MetadataRequest
  | Body_OffsetCommit OffsetCommitRequest
  | Body_OffsetFetch OffsetFetchRequest
  | Body_FindCoordinator FindCoordinatorRequest
  | Body_JoinGroup JoinGroupRequest
  | Body_Heartbeat HeartbeatRequest
  | Body_LeaveGroup LeaveGroupRequest
  | Body_SyncGroup SyncGroupRequest
  | Body_DescribeGroups DescribeGroupsRequest
  | Body_ListGroups ListGroupsRequest
  | Body_SaslHandshake SaslHandshakeRequest
  | Body_ApiVersions ApiVersionsRequest
  | Body_CreateTopics CreateTopicsRequest
  | Body_DeleteTopics DeleteTopicsRequest
  | Body_DeleteRecords DeleteRecordsRequest
  | Body_InitProducerID InitProducerIDRequest
  | Body_AddPartitionsToTxn AddPartitionsToTxnRequest
  | Body_AddOffsetsToTxn AddOffsetsToTxnRequest
  | Body_EndTxn EndTxnRequest
  | Body_TxnOffsetCommit TxnOffsetCommitRequest
  | Body_DescribeAcls DescribeAclsRequest
  | Body_CreateAcls CreateAclsRequest
  | Body_DeleteAcls DeleteAclsRequest
  | Body_DescribeConfigs DescribeConfigsRequest
  | Body_AlterConfigs AlterConfigsRequest
  | Body_DescribeLogDirs DescribeLogDirsRequest
  | Body_SaslAuthenticate SaslAuthenticateRequest
  | Body_CreatePartitions CreatePartitionsRequest
  | Body_DeleteGroups DeleteGroupsRequest
  | Body_IncrementalAlterConfigs IncrementalAlterConfigsRequest
  | Body_AlterPartitionReassignments AlterPartitionReassignmentsRequest
  | Body_ListPartitionReassignments ListPartitionReassignmentsRequest
  | Body_DeleteOffsets DeleteOffsetsRequest
  | Body_DescribeClientQuotas DescribeClientQuotasRequest
  | Body_AlterClientQuotas AlterClientQuotasRequest
  | Body_DescribeUserScramCredentials DescribeUserScramCredentialsRequest
  | Body_AlterUserScramCredentials AlterUserScramCredentialsRequest

primrec body_version :: "request_body \<Rightarrow> int" where
  "body_version (Body_Produce r) = preq_Version r"
| "body_version (Body_Fetch r) = frq_Version r"
| "body_version (Body_Offset r) = orq_Version r"
| "body_version (Body_Metadata r) = mdq_Version r"
| "body_version (Body_OffsetCommit r) = ocq_Version r"
| "body_version (Body_OffsetFetch r) = ofq_Version r"
| "body_version (Body_FindCoordinator r) = fcq_Version r"
| "body_version (Body_JoinGroup r) = jgq_Version r"
| "body_version (Body_Heartbeat r) = hbq_Version r"
| "body_version (Body_LeaveGroup r) = lgq_Version r"
| "body_version (Body_SyncGroup r) = sgq_Version r"
| "body_version (Body_DescribeGroups r) = dgq_Version r"
| "body_version (Body_ListGroups r) = lsq_Version r"
| "body_version (Body_SaslHandshake r) = shq_Version r"
| "body_version (Body_ApiVersions r) = avq_Version r"
| "body_version (Body_CreateTopics r) = ctq_Version r"
| "body_version (Body_DeleteTopics r) = dtq_Version r"
| "body_version (Body_DeleteRecords r) = drq_Version r"
| "body_version (Body_InitProducerID r) = ipq_Version r"
| "body_version (Body_AddPartitionsToTxn r) = apq_Version r"
| "body_version (Body_AddOffsetsToTxn r) = aoq_Version r"
| "body_version (Body_EndTxn r) = etq_Version r"
| "body_version (Body_TxnOffsetCommit r) = tcq_Version r"
| "body_version (Body_DescribeAcls r) = dsq_Version r"
| "body_version (Body_CreateAcls r) = caq_Version r"
| "body_version (Body_DeleteAcls r) = daq_Version r"
| "body_version (Body_DescribeConfigs r) = dcq_Version r"
| "body_version (Body_AlterConfigs r) = acq_Version r"
| "body_version (Body_DescribeLogDirs r) = dlq_Version r"
| "body_version (Body_SaslAuthenticate r) = saq_Version r"
| "body_version (Body_CreatePartitions r) = cpq_Version r"
| "body_version (Body_DeleteGroups r) = delq_Version r"
| "body_version (Body_IncrementalAlterConfigs r) = icq_Version r"
| "body_version (Body_AlterPartitionReassignments r) = raq_Version r"
| "body_version (Body_ListPartitionReassignments r) = lrq_Version r"
| "body_version (Body_DeleteOffsets r) = doq_Version r"
| "body_version (Body_DescribeClientQuotas r) = dqq_Version r"
| "body_version (Body_AlterClientQuotas r) = aqq_Version r"
| "body_version (Body_DescribeUserScramCredentials r) = duq_Version r"
| "body_version (Body_AlterUserScramCredentials r) = auq_Version r"

primrec body_methods :: "request_body \<Rightarrow> protocolMethods" where
  "body_methods (Body_Produce r) = ProduceRequest_methods"
| "body_methods (Body_Fetch r) = FetchRequest_methods"
| "body_methods (Body_Offset r) = OffsetRequest_methods"
| "body_methods (Body_Metadata r) = MetadataRequest_methods"
| "body_methods (Body_OffsetCommit r) = OffsetCommitRequest_methods"
| "body_methods (Body_OffsetFetch r) = OffsetFetchRequest_methods"
| "body_methods (Body_FindCoordinator r) = FindCoordinatorRequest_methods"
| "body_methods (Body_JoinGroup r) = JoinGroupRequest_methods"
| "body_methods (Body_Heartbeat r) = HeartbeatRequest_methods"
| "body_methods (Body_LeaveGroup r) = LeaveGroupRequest_methods"
| "body_methods (Body_SyncGroup r) = SyncGroupRequest_methods"
| "body_methods (Body_DescribeGroups r) = DescribeGroupsRequest_methods"
| "body_methods (Body_ListGroups r) = ListGroupsRequest_methods"
| "body_methods (Body_SaslHandshake r) = SaslHandshakeRequest_methods"
| "body_methods (Body_ApiVersions r) = ApiVersionsRequest_methods"
| "body_methods (Body_CreateTopics r) = CreateTopicsRequest_methods"
| "body_methods (Body_DeleteTopics r) = DeleteTopicsRequest_methods"
| "body_methods (Body_DeleteRecords r) = DeleteRecordsRequest_methods"
| "body_methods (Body_InitProducerID r) = InitProducerIDRequest_methods"
| "body_methods (Body_AddPartitionsToTxn r) = AddPartitionsToTxnRequest_methods"
| "body_methods (Body_AddOffsetsToTxn r) = AddOffsetsToTxnRequest_methods"
| "body_methods (Body_EndTxn r) = EndTxnRequest_methods"
| "body_methods (Body_TxnOffsetCommit r) = TxnOffsetCommitRequest_methods"
| "body_methods (Body_DescribeAcls r) = DescribeAclsRequest_methods"
| "body_methods (Body_CreateAcls r) = CreateAclsRequest_methods"
| "body_methods (Body_DeleteAcls r) = DeleteAclsRequest_methods"
| "body_methods (Body_DescribeConfigs r) = DescribeConfigsRequest_methods"
| "body_methods (Body_AlterConfigs r) = AlterConfigsRequest_methods"
| "body_methods (Body_DescribeLogDirs r) = DescribeLogDirsRequest_methods"
| "body_methods (Body_SaslAuthenticate r) = SaslAuthenticateRequest_methods"
| "body_methods (Body_CreatePartitions r) = CreatePartitionsRequest_methods"
| "body_methods (Body_DeleteGroups r) = DeleteGroupsRequest_methods"
| "body_methods (Body_IncrementalAlterConfigs r) = IncrementalAlterConfigsRequest_methods"
| "body_methods (Body_AlterPartitionReassignments r) = AlterPartitionReassignmentsRequest_methods"
| "body_methods (Body_ListPartitionReassignments r) = ListPartitionReassignmentsRequest_methods"
| "body_methods (Body_DeleteOffsets r) = DeleteOffsetsRequest_methods"
| "body_methods (Body_DescribeClientQuotas r) = DescribeClientQuotasRequest_methods"
| "body_methods (Body_AlterClientQuotas r) = AlterClientQuotasRequest_methods"
| "body_methods (Body_DescribeUserScramCredentials r) = DescribeUserScramCredentialsRequest_methods"
| "body_methods (Body_AlterUserScramCredentials r) = AlterUserScramCredentialsRequest_methods"

primrec body_ops :: "codecs \<Rightarrow> hashes \<Rightarrow> request_body \<Rightarrow> pe_op list" where
  "body_ops cs hs (Body_Produce r) = fst (enc_ProduceRequest cs r)"
| "body_ops cs hs (Body_Fetch r) = enc_FetchRequest r"
| "body_ops cs hs (Body_Offset r) = enc_OffsetRequest r"
| "body_ops cs hs (Body_Metadata r) = enc_MetadataRequest r"
| "body_ops cs hs (Body_OffsetCommit r) = enc_OffsetCommitRequest r"
| "body_ops cs hs (Body_OffsetFetch r) = enc_OffsetFetchRequest r"
| "body_ops cs hs (Body_FindCoordinator r) = enc_FindCoordinatorRequest r"
| "body_ops cs hs (Body_JoinGroup r) = enc_JoinGroupRequest r"
| "body_ops cs hs (Body_Heartbeat r) = enc_HeartbeatRequest r"
| "body_ops cs hs (Body_LeaveGroup r) = enc_LeaveGroupRequest r"
| "body_ops cs hs (Body_SyncGroup r) = enc_SyncGroupRequest r"
| "body_ops cs hs (Body_DescribeGroups r) = enc_DescribeGroupsRequest r"
| "body_ops cs hs (Body_ListGroups r) = enc_ListGroupsRequest r"
| "body_ops cs hs (Body_SaslHandshake r) = enc_SaslHandshakeRequest r"
| "body_ops cs hs (Body_ApiVersions r) = enc_ApiVersionsRequest r"
| "body_ops cs hs (Body_CreateTopics r) = enc_CreateTopicsRequest r"
| "body_ops cs hs (Body_DeleteTopics r) = enc_DeleteTopicsRequest r"
| "body_ops cs hs (Body_DeleteRecords r) = enc_DeleteRecordsRequest r"
| "body_ops cs hs (Body_InitProducerID r) = enc_InitProducerIDRequest r"
| "body_ops cs hs (Body_AddPartitionsToTxn r) = enc_AddPartitionsToTxnRequest r"
| "body_ops cs hs (Body_AddOffsetsToTxn r) = enc_AddOffsetsToTxnRequest r"
| "body_ops cs hs (Body_EndTxn r) = enc_EndTxnRequest r"
| "body_ops cs hs (Body_TxnOffsetCommit r) = enc_TxnOffsetCommitRequest r"
| "body_ops cs hs (Body_DescribeAcls r) = enc_DescribeAclsRequest r"
| "body_ops cs hs (Body_CreateAcls r) = enc_CreateAclsRequest r"
| "body_ops cs hs (Body_DeleteAcls r) = enc_DeleteAclsRequest r"
| "body_ops cs hs (Body_DescribeConfigs r) = enc_DescribeConfigsRequest r"
| "body_ops cs hs (Body_AlterConfigs r) = enc_AlterConfigsRequest r"
| "body_ops cs hs (Body_DescribeLogDirs r) = enc_DescribeLogDirsRequest r"
| "body_ops cs hs (Body_SaslAuthenticate r) = enc_SaslAuthenticateRequest r"
| "body_ops cs hs (Body_CreatePartitions r) = enc_CreatePartitionsRequest r"
| "body_ops cs hs (Body_DeleteGroups r) = enc_DeleteGroupsRequest r"
| "body_ops cs hs (Body_IncrementalAlterConfigs r) = enc_IncrementalAlterConfigsRequest r"
| "body_ops cs hs (Body_AlterPartitionReassignments r) = enc_AlterPartitionReassignmentsRequest r"
| "body_ops cs hs (Body_ListPartitionReassignments r) = enc_ListPartitionReassignmentsRequest r"
| "body_ops cs hs (Body_DeleteOffsets r) = enc_DeleteOffsetsRequest r"
| "body_ops cs hs (Body_DescribeClientQuotas r) = enc_DescribeClientQuotasRequest r"
| "body_ops cs hs (Body_AlterClientQuotas r) = enc_AlterClientQuotasRequest r"
| "body_ops cs hs (Body_DescribeUserScramCredentials r) = enc_DescribeUserScramCredentialsRequest r"
| "body_ops cs hs (Body_AlterUserScramCredentials r) = enc_AlterUserScramCredentialsRequest hs r"

text \<open>The bodies that the version can represent, and what the other end makes of one.\<close>

primrec body_wf :: "codecs \<Rightarrow> hashes \<Rightarrow> request_body \<Rightarrow> bool" where
  "body_wf cs hs (Body_Produce r) = wf_ProduceRequest cs r"
| "body_wf cs hs (Body_Fetch r) = wf_FetchRequest r"
| "body_wf cs hs (Body_Offset r) = wf_OffsetRequest r"
| "body_wf cs hs (Body_Metadata r) = wf_MetadataRequest r"
| "body_wf cs hs (Body_OffsetCommit r) = wf_OffsetCommitRequest r"
| "body_wf cs hs (Body_OffsetFetch r) = wf_OffsetFetchRequest r"
| "body_wf cs hs (Body_FindCoordinator r) = wf_FindCoordinatorRequest r"
| "body_wf cs hs (Body_JoinGroup r) = wf_JoinGroupRequest r"
| "body_wf cs hs (Body_Heartbeat r) = wf_HeartbeatRequest r"
| "body_wf cs hs (Body_LeaveGroup r) = wf_LeaveGroupRequest r"
| "body_wf cs hs (Body_SyncGroup r) = wf_SyncGroupRequest r"
| "body_wf cs hs (Body_DescribeGroups r) = wf_DescribeGroupsRequest r"
| "body_wf cs hs (Body_ListGroups r) = wf_ListGroupsRequest r"
| "body_wf cs hs (Body_SaslHandshake r) = wf_SaslHandshakeRequest r"
| "body_wf cs hs (Body_ApiVersions r) = wf_ApiVersionsRequest r"
| "body_wf cs hs (Body_CreateTopics r) = wf_CreateTopicsRequest r"
| "body_wf cs hs (Body_DeleteTopics r) = wf_DeleteTopicsRequest r"
| "body_wf cs hs (Body_DeleteRecords r) = wf_DeleteRecordsRequest r"
| "body_wf cs hs (Body_InitProducerID r) = wf_InitProducerIDRequest r"
| "body_wf cs hs (Body_AddPartitionsToTxn r) = wf_AddPartitionsToTxnRequest r"
| "body_wf cs hs (Body_AddOffsetsToTxn r) = wf_AddOffsetsToTxnRequest r"
| "body_wf cs hs (Body_EndTxn r) = wf_EndTxnRequest r"
| "body_wf cs hs (Body_TxnOffsetCommit r) = wf_TxnOffsetCommitRequest r"
| "body_wf cs hs (Body_DescribeAcls r) = wf_DescribeAclsRequest r"
| "body_wf cs hs (Body_CreateAcls r) = wf_CreateAclsRequest r"
| "body_wf cs hs (Body_DeleteAcls r) = wf_DeleteAclsRequest r"
| "body_wf cs hs (Body_DescribeConfigs r) = wf_DescribeConfigsRequest r"
| "body_wf cs hs (Body_AlterConfigs r) = wf_AlterConfigsRequest r"
| "body_wf cs hs (Body_DescribeLogDirs r) = wf_DescribeLogDirsRequest r"
| "body_wf cs hs (Body_SaslAuthenticate r) = wf_SaslAuthenticateRequest r"
| "body_wf cs hs (Body_CreatePartitions r) = wf_CreatePartitionsRequest r"
| "body_wf cs hs (Body_DeleteGroups r) = wf_DeleteGroupsRequest r"
| "body_wf cs hs (Body_IncrementalAlterConfigs r) = wf_IncrementalAlterConfigsRequest r"
| "body_wf cs hs (Body_AlterPartitionReassignments r) = wf_AlterPartitionReassignmentsRequest r"
| "body_wf cs hs (Body_ListPartitionReassignments r) = wf_ListPartitionReassignmentsRequest r"
| "body_wf cs hs (Body_DeleteOffsets r) = wf_DeleteOffsetsRequest r"
| "body_wf cs hs (Body_DescribeClientQuotas r) = wf_DescribeClientQuotasRequest r"
| "body_wf cs hs (Body_AlterClientQuotas r) = wf_AlterClientQuotasRequest r"
| "body_wf cs hs (Body_DescribeUserScramCredentials r) = wf_DescribeUserScramCredentialsRequest r"
| "body_wf cs hs (Body_AlterUserScramCredentials r) = wf_AlterUserScramCredentialsRequest hs r"

definition body_on_wire :: "hashes \<Rightarrow> request_body \<Rightarrow> request_body" where
  "body_on_wire hs b = (case b of
       Body_Produce r \<Rightarrow> Body_Produce (ProduceRequest_on_wire r)
     | Body_JoinGroup r \<Rightarrow> Body_JoinGroup (JoinGroupRequest_on_wire r)
     | Body_AlterUserScramCredentials r \<Rightarrow> Body_AlterUserScramCredentials (salted_request hs r)
     | _ \<Rightarrow> b)"

text \<open>
  \<open>allocateBody\<close>, together with the methods of the type that it chooses and the \<open>decode\<close> of the object
  that it makes.
\<close>

definition dec_body :: "'a dec \<Rightarrow> ('a \<Rightarrow> request_body) \<Rightarrow> request_body dec" where
  "dec_body d c = dbind d (\<lambda>r. dreturn (c r))"

definition allocateBody :: "nat \<Rightarrow> codecs \<Rightarrow> int \<Rightarrow> int \<Rightarrow> (protocolMethods \<times> request_body dec) option" where
  "allocateBody depth cs key version =
     (if key = 0 then Some (ProduceRequest_methods, dec_body (dec_ProduceRequest depth cs version) Body_Produce)
      else if key = 1 then Some (FetchRequest_methods, dec_body (dec_FetchRequest version) Body_Fetch)
      else if key = 2 then Some (OffsetRequest_methods, dec_body (dec_OffsetRequest version) Body_Offset)
      else if key = 3 then Some (MetadataRequest_methods, dec_body (dec_MetadataRequest version) Body_Metadata)
      else if key = 8 then Some (OffsetCommitRequest_methods, dec_body (dec_OffsetCommitRequest version) Body_OffsetCommit)
      else if key = 9 then Some (OffsetFetchRequest_methods, dec_body (dec_OffsetFetchRequest version) Body_OffsetFetch)
      else if key = 10 then Some (FindCoordinatorRequest_methods, dec_body (dec_FindCoordinatorRequest version) Body_FindCoordinator)
      else if key = 11 then Some (JoinGroupRequest_methods, dec_body (dec_JoinGroupRequest version) Body_JoinGroup)
      else if key = 12 then Some (HeartbeatRequest_methods, dec_body (dec_HeartbeatRequest version) Body_Heartbeat)
      else if key = 13 then Some (LeaveGroupRequest_methods, dec_body (dec_LeaveGroupRequest version) Body_LeaveGroup)
      else if key = 14 then Some (SyncGroupRequest_methods, dec_body (dec_SyncGroupRequest version) Body_SyncGroup)
      else if key = 15 then Some (DescribeGroupsRequest_methods, dec_body (dec_DescribeGroupsRequest version) Body_DescribeGroups)
      else if key = 16 then Some (ListGroupsRequest_methods, dec_body (dec_ListGroupsRequest version) Body_ListGroups)
      else if key = 17 then Some (SaslHandshakeRequest_methods, dec_body (dec_SaslHandshakeRequest version) Body_SaslHandshake)
      else if key = 18 then Some (ApiVersionsRequest_methods, dec_body (dec_ApiVersionsRequest version) Body_ApiVersions)
      else if key = 19 then Some (CreateTopicsRequest_methods, dec_body (dec_CreateTopicsRequest version) Body_CreateTopics)
      else if key = 20 then Some (DeleteTopicsRequest_methods, dec_body (dec_DeleteTopicsRequest version) Body_DeleteTopics)
      else if key = 21 then Some (DeleteRecordsRequest_methods, dec_body (dec_DeleteRecordsRequest version) Body_DeleteRecords)
      else if key = 22 then Some (InitProducerIDRequest_methods, dec_body (dec_InitProducerIDRequest version) Body_InitProducerID)
      else if key = 24 then Some (AddPartitionsToTxnRequest_methods, dec_body (dec_AddPartitionsToTxnRequest version) Body_AddPartitionsToTxn)
      else if key = 25 then Some (AddOffsetsToTxnRequest_methods, dec_body (dec_AddOffsetsToTxnRequest version) Body_AddOffsetsToTxn)
      else if key = 26 then Some (EndTxnRequest_methods, dec_body (dec_EndTxnRequest version) Body_EndTxn)
      else if key = 28 then Some (TxnOffsetCommitRequest_methods, dec_body (dec_TxnOffsetCommitRequest version) Body_TxnOffsetCommit)
      else if key = 29 then Some (DescribeAclsRequest_methods, dec_body (dec_DescribeAclsRequest version) Body_DescribeAcls)
      else if key = 30 then Some (CreateAclsRequest_methods, dec_body (dec_CreateAclsRequest version) Body_CreateAcls)
      else if key = 31 then Some (DeleteAclsRequest_methods, dec_body (dec_DeleteAclsRequest version) Body_DeleteAcls)
      else if key = 32 then Some (DescribeConfigsRequest_methods, dec_body (dec_DescribeConfigsRequest version) Body_DescribeConfigs)
      else if key = 33 then Some (AlterConfigsRequest_methods, dec_body (dec_AlterConfigsRequest version) Body_AlterConfigs)
      else if key = 35 then Some (DescribeLogDirsRequest_methods, dec_body (dec_DescribeLogDirsRequest version) Body_DescribeLogDirs)
      else if key = 36 then Some (SaslAuthenticateRequest_methods, dec_body (dec_SaslAuthenticateRequest version) Body_SaslAuthenticate)
      else if key = 37 then Some (CreatePartitionsRequest_methods, dec_body (dec_CreatePartitionsRequest version) Body_CreatePartitions)
      else if key = 42 then Some (DeleteGroupsRequest_methods, dec_body (dec_DeleteGroupsRequest version) Body_DeleteGroups)
      else if key = 44 then Some (IncrementalAlterConfigsRequest_methods, dec_body (dec_IncrementalAlterConfigsRequest version) Body_IncrementalAlterConfigs)
      else if key = 45 then Some (AlterPartitionReassignmentsRequest_methods, dec_body (dec_AlterPartitionReassignmentsRequest version) Body_AlterPartitionReassignments)
      else if key = 46 then Some (ListPartitionReassignmentsRequest_methods, dec_body (dec_ListPartitionReassignmentsRequest version) Body_ListPartitionReassignments)
      else if key = 47 then Some (DeleteOffsetsRequest_methods, dec_body (dec_DeleteOffsetsRequest version) Body_DeleteOffsets)
      else if key = 48 then Some (DescribeClientQuotasRequest_methods, dec_body (dec_DescribeClientQuotasRequest version) Body_DescribeClientQuotas)
      else if key = 49 then Some (AlterClientQuotasRequest_methods, dec_body (dec_AlterClientQuotasRequest version) Body_AlterClientQuotas)
      else if key = 50 then Some (DescribeUserScramCredentialsRequest_methods, dec_body (dec_DescribeUserScramCredentialsRequest version) Body_DescribeUserScramCredentials)
      else if key = 51 then Some (AlterUserScramCredentialsRequest_methods, dec_body (dec_AlterUserScramCredentialsRequest version) Body_AlterUserScramCredentials)
      else None)"

lemma codes_dec_body: "codes d ops x \<Longrightarrow> codes (dec_body d c) ops (c x)"
  unfolding dec_body_def by (rule codes_last, assumption, rule codes_return) simp

lemma codes_Produce_body:
  "wf_ProduceRequest cs r \<Longrightarrow> lossless cs \<Longrightarrow>
   codes (dec_ProduceRequest depth cs (preq_Version r)) (fst (enc_ProduceRequest cs r)) (ProduceRequest_on_wire r)"
  by (simp add: codes_def reads_ProduceRequest)

text \<open>The object that is made for the key and the version of a body reads the body.\<close>

lemma allocateBody_codes:
  assumes "body_wf cs hs b" "lossless cs"
  shows "\<exists>d. allocateBody depth cs (pm_key (body_methods b)) (body_version b) = Some (body_methods b, d) \<and>
    codes d (body_ops cs hs b) (body_on_wire hs b)"
proof (cases b)
  case (Body_Produce r)
  then show ?thesis using assms(1) codes_dec_body [OF codes_Produce_body [OF _ assms(2), of r]]
    by (simp add: allocateBody_def body_on_wire_def ProduceRequest_methods_def)
next
  case (Body_Fetch r)
  then show ?thesis using assms(1) codes_dec_body [OF frq.codes [OF _ refl, of r]]
    by (simp add: allocateBody_def body_on_wire_def FetchRequest_methods_def)
next
  case (Body_Offset r)
  then show ?thesis using assms(1) codes_dec_body [OF orq.codes [OF _ refl, of r]]
    by (simp add: allocateBody_def body_on_wire_def OffsetRequest_methods_def)
next
  case (Body_Metadata r)
  then show ?thesis using assms(1) codes_dec_body [OF mdq.codes [OF _ refl, of r]]
    by (simp add: allocateBody_def body_on_wire_def MetadataRequest_methods_def)
next
  case (Body_OffsetCommit r)
  then show ?thesis using assms(1) codes_dec_body [OF ocq.codes [OF _ refl, of r]]
    by (simp add: allocateBody_def body_on_wire_def OffsetCommitRequest_methods_def)
next
  case (Body_OffsetFetch r)
  then show ?thesis using assms(1) codes_dec_body [OF ofq.codes [OF _ refl, of r]]
    by (simp add: allocateBody_def body_on_wire_def OffsetFetchRequest_methods_def)
next
  case (Body_FindCoordinator r)
  then show ?thesis using assms(1) codes_dec_body [OF fcq.codes [OF _ refl, of r]]
    by (simp add: allocateBody_def body_on_wire_def FindCoordinatorRequest_methods_def)
next
  case (Body_JoinGroup r)
  then show ?thesis using assms(1) codes_dec_body [OF codes_JoinGroupRequest [of r]]
    by (simp add: allocateBody_def body_on_wire_def JoinGroupRequest_methods_def)
next
  case (Body_Heartbeat r)
  then show ?thesis using assms(1) codes_dec_body [OF hbq.codes [OF _ refl, of r]]
    by (simp add: allocateBody_def body_on_wire_def HeartbeatRequest_methods_def)
next
  case (Body_LeaveGroup r)
  then show ?thesis using assms(1) codes_dec_body [OF lgq.codes [OF _ refl, of r]]
    by (simp add: allocateBody_def body_on_wire_def LeaveGroupRequest_methods_def)
next
  case (Body_SyncGroup r)
  then show ?thesis using assms(1) codes_dec_body [OF sgq.codes [OF _ refl, of r]]
    by (simp add: allocateBody_def body_on_wire_def SyncGroupRequest_methods_def)
next
  case (Body_DescribeGroups r)
  then show ?thesis using assms(1) codes_dec_body [OF dgq.codes [OF _ refl, of r]]
    by (simp add: allocateBody_def body_on_wire_def DescribeGroupsRequest_methods_def)
next
  case (Body_ListGroups r)
  then show ?thesis using assms(1) codes_dec_body [OF lsq.codes [OF _ refl, of r]]
    by (simp add: allocateBody_def body_on_wire_def ListGroupsRequest_methods_def)
next
  case (Body_SaslHandshake r)
  then show ?thesis using assms(1) codes_dec_body [OF shq.codes [OF _ refl, of r]]
    by (simp add: allocateBody_def body_on_wire_def SaslHandshakeRequest_methods_def)
next
  case (Body_ApiVersions r)
  then show ?thesis using assms(1) codes_dec_body [OF avq.codes [OF _ refl, of r]]
    by (simp add: allocateBody_def body_on_wire_def ApiVersionsRequest_methods_def)
next
  case (Body_CreateTopics r)
  then show ?thesis using assms(1) codes_dec_body [OF ctq.codes [OF _ refl, of r]]
    by (simp add: allocateBody_def body_on_wire_def CreateTopicsRequest_methods_def)
next
  case (Body_DeleteTopics r)
  then show ?thesis using assms(1) codes_dec_body [OF dtq.codes [OF _ refl, of r]]
    by (simp add: allocateBody_def body_on_wire_def DeleteTopicsRequest_methods_def)
next
  case (Body_DeleteRecords r)
  then show ?thesis using assms(1) codes_dec_body [OF drq.codes [OF _ refl, of r]]
    by (simp add: allocateBody_def body_on_wire_def DeleteRecordsRequest_methods_def)
next
  case (Body_InitProducerID r)
  then show ?thesis using assms(1) codes_dec_body [OF ipq.codes [OF _ refl, of r]]
    by (simp add: allocateBody_def body_on_wire_def InitProducerIDRequest_methods_def)
next
  case (Body_AddPartitionsToTxn r)
  then show ?thesis using assms(1) codes_dec_body [OF apq.codes [OF _ refl, of r]]
    by (simp add: allocateBody_def body_on_wire_def AddPartitionsToTxnRequest_methods_def)
next
  case (Body_AddOffsetsToTxn r)
  then show ?thesis using assms(1) codes_dec_body [OF aoq.codes [OF _ refl, of r]]
    by (simp add: allocateBody_def body_on_wire_def AddOffsetsToTxnRequest_methods_def)
next
  case (Body_EndTxn r)
  then show ?thesis using assms(1) codes_dec_body [OF etq.codes [OF _ refl, of r]]
    by (simp add: allocateBody_def body_on_wire_def EndTxnRequest_methods_def)
next
  case (Body_TxnOffsetCommit r)
  then show ?thesis using assms(1) codes_dec_body [OF tcq.codes [OF _ refl, of r]]
    by (simp add: allocateBody_def body_on_wire_def TxnOffsetCommitRequest_methods_def)
next
  case (Body_DescribeAcls r)
  then show ?thesis using assms(1) codes_dec_body [OF dsq.codes [OF _ refl, of r]]
    by (simp add: allocateBody_def body_on_wire_def DescribeAclsRequest_methods_def)
next
  case (Body_CreateAcls r)
  then show ?thesis using assms(1) codes_dec_body [OF caq.codes [OF _ refl, of r]]
    by (simp add: allocateBody_def body_on_wire_def CreateAclsRequest_methods_def)
next
  case (Body_DeleteAcls r)
  then show ?thesis using assms(1) codes_dec_body [OF daq.codes [OF _ refl, of r]]
    by (simp add: allocateBody_def body_on_wire_def DeleteAclsRequest_methods_def)
next
  case (Body_DescribeConfigs r)
  then show ?thesis using assms(1) codes_dec_body [OF dcq.codes [OF _ refl, of r]]
    by (simp add: allocateBody_def body_on_wire_def DescribeConfigsRequest_methods_def)
next
  case (Body_AlterConfigs r)
  then show ?thesis using assms(1) codes_dec_body [OF acq.codes [OF _ refl, of r]]
    by (simp add: allocateBody_def body_on_wire_def AlterConfigsRequest_methods_def)
next
  case (Body_DescribeLogDirs r)
  then show ?thesis using assms(1) codes_dec_body [OF dlq.codes [OF _ refl, of r]]
    by (simp add: allocateBody_def body_on_wire_def DescribeLogDirsRequest_methods_def)
next
  case (Body_SaslAuthenticate r)
  then show ?thesis using assms(1) codes_dec_body [OF saq.codes [OF _ refl, of r]]
    by (simp add: allocateBody_def body_on_wire_def SaslAuthenticateRequest_methods_def)
next
  case (Body_CreatePartitions r)
  then show ?thesis using assms(1) codes_dec_body [OF cpq.codes [OF _ refl, of r]]
    by (simp add: allocateBody_def body_on_wire_def CreatePartitionsRequest_methods_def)
next
  case (Body_DeleteGroups r)
  then show ?thesis using assms(1) codes_dec_body [OF delq.codes [OF _ refl, of r]]
    by (simp add: allocateBody_def body_on_wire_def DeleteGroupsRequest_methods_def)
next
  case (Body_IncrementalAlterConfigs r)
  then show ?thesis using assms(1) codes_dec_body [OF icq.codes [OF _ refl, of r]]
    by (simp add: allocateBody_def body_on_wire_def IncrementalAlterConfigsRequest_methods_def)
next
  case (Body_AlterPartitionReassignments r)
  then show ?thesis using assms(1) codes_dec_body [OF raq.codes [OF _ refl, of r]]
    by (simp add: allocateBody_def body_on_wire_def AlterPartitionReassignmentsRequest_methods_def)
next
  case (Body_ListPartitionReassignments r)
  then show ?thesis using assms(1) codes_dec_body [OF lrq.codes [OF _ refl, of r]]
    by (simp add: allocateBody_def body_on_wire_def ListPartitionReassignmentsRequest_methods_def)
next
  case (Body_DeleteOffsets r)
  then show ?thesis using assms(1) codes_dec_body [OF doq.codes [OF _ refl, of r]]
    by (simp add: allocateBody_def body_on_wire_def DeleteOffsetsRequest_methods_def)
next
  case (Body_DescribeClientQuotas r)
  then show ?thesis using assms(1) codes_dec_body [OF dqq.codes [OF _ refl, of r]]
    by (simp add: allocateBody_def body_on_wire_def DescribeClientQuotasRequest_methods_def)
next
  case (Body_AlterClientQuotas r)
  then show ?thesis using assms(1) codes_dec_body [OF aqq.codes [OF _ refl, of r]]
    by (simp add: allocateBody_def body_on_wire_def AlterClientQuotasRequest_methods_def)
next
  case (Body_DescribeUserScramCredentials r)
  then show ?thesis using assms(1) codes_dec_body [OF duq.codes [OF _ refl, of r]]
    by (simp add: allocateBody_def body_on_wire_def DescribeUserScramCredentialsRequest_methods_def)
next
  case (Body_AlterUserScramCredentials r)
  then show ?thesis using assms(1) codes_dec_body [OF codes_scram_request [of hs r]]
    by (simp add: allocateBody_def body_on_wire_def AlterUserScramCredentialsRequest_methods_def)
qed

subsection \<open>The frame of a request\<close>

record request =
  req_correlationID :: int32
  req_clientID :: string
  req_body :: request_body

definition enc_request :: "codecs \<Rightarrow> hashes \<Rightarrow> request \<Rightarrow> pe_op list" where
  "enc_request cs hs r =
     (let b = req_body r; headerVersion = pm_headerVersion (body_methods b) (body_version b) in
      [pushPop (lengthField 0 0)
        ([putInt16 (word_of_int (pm_key (body_methods b))), putInt16 (word_of_int (body_version b)),
          putInt32 (req_correlationID r)] @
         (if headerVersion \<ge> 1 then [putString (req_clientID r)] else []) @
         (if headerVersion \<ge> 2 then [putUVarint 0] else []) @
         body_ops cs hs b)])"

definition dec_request :: "nat \<Rightarrow> codecs \<Rightarrow> request dec" where
  "dec_request depth cs =
     dbind getInt16 (\<lambda>key.
     dbind getInt16 (\<lambda>version.
     dbind getInt32 (\<lambda>correlationID.
     dbind getString (\<lambda>clientID.
       case allocateBody depth cs (sint key) (sint version) of
         None \<Rightarrow> derror (PacketDecodingError ''unknown request key'')
       | Some (methods, decode_body) \<Rightarrow>
           dbind (if pm_headerVersion methods (sint version) \<ge> 2 then getUVarint else dreturn 0) (\<lambda>_.
           dbind decode_body (\<lambda>body.
             dreturn \<lparr>req_correlationID = correlationID, req_clientID = clientID, req_body = body\<rparr>))))))"

text \<open>\<open>io.ReadFull\<close> on the bytes that will come before the stream ends.\<close>

definition ReadFull :: "nat \<Rightarrow> byte list \<Rightarrow> (byte list \<times> byte list) res" where
  "ReadFull n stream =
     (if n \<le> length stream then Ok (take n stream, drop n stream)
      else Err (OtherError (if stream = [] then ''EOF'' else ''unexpected EOF'')))"

text \<open>\<open>decodeRequest\<close>: the request, or the error, and how many bytes were counted as read.\<close>

definition decodeRequest :: "nat \<Rightarrow> codecs \<Rightarrow> byte list \<Rightarrow> request res \<times> nat" where
  "decodeRequest depth cs stream =
     (case ReadFull 4 stream of
        Ok (lengthBytes, stream') \<Rightarrow>
          let len = sint (be_get lengthBytes :: int32) in
          if len \<le> 4 \<or> len > int MaxRequestSize
          then (Err (PacketDecodingError ''message of length too large or too small''), 4)
          else (case ReadFull (nat len) stream' of
              Ok (encodedReq, _) \<Rightarrow> (decode_buf encodedReq (dec_request depth cs), 4 + nat len)
            | Err e \<Rightarrow> (Err e, 4)
            | Panic \<Rightarrow> (Panic, 4) | Diverge \<Rightarrow> (Diverge, 4))
      | Err e \<Rightarrow> (Err e, 0)
      | Panic \<Rightarrow> (Panic, 0) | Diverge \<Rightarrow> (Diverge, 0))"

text \<open>The requests that can be sent: the body fits its version, which its type knows.\<close>

definition wf_request :: "codecs \<Rightarrow> hashes \<Rightarrow> request \<Rightarrow> bool" where
  "wf_request cs hs r \<longleftrightarrow> length (req_clientID r) \<le> 32767 \<and> body_wf cs hs (req_body r) \<and>
     pm_isValidVersion (body_methods (req_body r)) (body_version (req_body r))"

definition request_on_wire :: "hashes \<Rightarrow> request \<Rightarrow> request" where
  "request_on_wire hs r = r\<lparr>req_body := body_on_wire hs (req_body r)\<rparr>"

lemma body_methods_table: "body_methods b \<in> set (map (\<lambda>(nm, req, res). req) api_table)"
  by (cases b) (simp_all add: api_table_def)

lemma body_methods_key: "0 \<le> pm_key (body_methods b) \<and> pm_key (body_methods b) \<le> 51"
  by (cases b) (simp_all add: methods_defs)

lemma body_header:
  assumes "pm_isValidVersion (body_methods b) v"
  shows "1 \<le> pm_headerVersion (body_methods b) v" "0 \<le> v" "v \<le> 11"
proof -
  obtain nm res where t: "(nm, body_methods b, res) \<in> set api_table" using body_methods_table [of b] by auto
  from api_valid_range [OF t assms] show "0 \<le> v" "v \<le> 11" by simp_all
  then show "1 \<le> pm_headerVersion (body_methods b) v"
    using api_table_consistent t assms by (auto simp: list_all_iff api_consistent_def)
qed

lemma dec_request_reads:
  assumes wf: "wf_request cs hs r" and cs: "lossless cs"
  shows "\<exists>body. enc_request cs hs r = [pushPop (lengthField 0 0) body] \<and>
    codes (dec_request depth cs) body (request_on_wire hs r) \<and> 4 < length (ser_ops body)"
proof -
  let ?b = "req_body r"
  let ?m = "body_methods ?b" and ?v = "body_version ?b"
  let ?h = "pm_headerVersion ?m ?v"
  from wf have valid: "pm_isValidVersion ?m ?v" and bwf: "body_wf cs hs ?b"
    and id: "length (req_clientID r) \<le> 32767" by (simp_all add: wf_request_def)
  note h = body_header [OF valid]
  obtain d where d: "allocateBody depth cs (pm_key ?m) ?v = Some (?m, d)" "codes d (body_ops cs hs ?b) (body_on_wire hs ?b)"
    using allocateBody_codes [OF bwf cs] by blast
  have k: "sint (word_of_int (pm_key ?m) :: int16) = pm_key ?m" "sint (word_of_int ?v :: int16) = ?v"
    using body_methods_key [of ?b] h by (auto intro!: sint_word_of_int_id)
  have t: "codes (if ?h \<ge> 2 then getUVarint else dreturn 0) (if ?h \<ge> 2 then [putUVarint 0] else []) 0"
    by (simp add: codes_calls(7) codes_return)
  let ?ops = "[putInt16 (word_of_int (pm_key ?m)), putInt16 (word_of_int ?v), putInt32 (req_correlationID r),
    putString (req_clientID r)] @ (if ?h \<ge> 2 then [putUVarint 0] else []) @ body_ops cs hs ?b"
  have "codes (dec_request depth cs) ?ops (request_on_wire hs r)"
    unfolding dec_request_def append_Cons append_Nil
    by (intro codes_step [OF codes_calls(2)] codes_step [OF codes_calls(3)] codes_step [OF codes_calls(10) [OF id]],
        unfold k d(1) option.case prod.case, intro codes_bind [OF t] codes_last [OF d(2)] codes_return)
      (simp add: request_on_wire_def)
  moreover have "enc_request cs hs r = [pushPop (lengthField 0 0) ?ops]"
    using h by (simp add: enc_request_def Let_def)
  moreover have "4 < length (ser_ops ?ops)" by (simp add: ser_simps)
  ultimately show ?thesis by blast
qed

text \<open>
  A request that is written to a connection is what the other end decodes, whatever follows it in the
  stream; the only other outcome is that it exceeds \<open>MaxRequestSize\<close>.
\<close>

lemma decodeRequest_encode:
  assumes "wf_request cs hs r" "lossless cs"
  shows "case encode (enc_request cs hs r) of
      Ok bs \<Rightarrow> decodeRequest depth cs (bs @ rest) = (Ok (request_on_wire hs r), length bs)
    | Err e \<Rightarrow> MaxRequestSize < length (ser_ops (enc_request cs hs r))
    | _ \<Rightarrow> False"
proof -
  obtain body where b: "enc_request cs hs r = [pushPop (lengthField 0 0) body]"
    and c: "codes (dec_request depth cs) body (request_on_wire hs r)" and len: "4 < length (ser_ops body)"
    using dec_request_reads [OF assms] by blast
  let ?bs = "ser_ops body"
  have s: "ser_ops (enc_request cs hs r) = be32 (word_of_nat (length ?bs)) @ ?bs"
    by (simp add: b ser_simps)
  have ok: "ops_ok (enc_request cs hs r)" using c by (simp add: b codes_def)
  have d: "decode_buf ?bs (dec_request depth cs) = Ok (request_on_wire hs r)"
    using c by (simp add: codes_def reads_decode_buf)
  show ?thesis
  proof (cases "length (ser_ops (enc_request cs hs r)) > MaxRequestSize")
    case False
    then have "length ?bs + 4 \<le> MaxRequestSize" by (simp add: s)
    then have "sint (word_of_nat (length ?bs) :: int32) = int (length ?bs)"
      by (intro sint_word_of_nat_id) (simp add: MaxRequestSize_def)
    with False ok d len show ?thesis
      using encode_ops_ok [OF ok]
      by (auto simp: decodeRequest_def ReadFull_def s Let_def)
  qed (use encode_ops_ok [OF ok] in auto)
qed

end
