(* ===== verification/Broker_Connection.thy ===== *)
theory Broker_Connection
  imports Request_Framing
begin

text \<open>
  One connection to a broker (\<open>broker.go\<close>, \<open>response_header.go\<close>): \<open>sendInternal\<close> writes a request and
  puts a promise for its response into the channel \<open>responses\<close>; the goroutine \<open>responseReceiver\<close> takes
  the promises out one by one and reads a response for each. The two run concurrently: \<open>pipeline_step\<close>
  has one rule for every point where they can be interleaved.

  The peer is a function from the request it reads to the bytes it sends in return. The results: the
  pipeline is a first-in first-out queue whatever the interleaving; a peer that answers in order has
  every answer handed to the promise of its request; the first failure fails all later promises with
  the same error; every promise is handled in the end; and how many requests can be in flight.
\<close>

subsection \<open>Responses\<close>

definition MaxResponseSize :: int where
  "MaxResponseSize = 100 * 1024 * 1024"

record responseHeader =
  rh_length :: int32
  rh_correlationID :: int32

definition dec_responseHeader :: "int \<Rightarrow> responseHeader dec" where
  "dec_responseHeader version =
     dbind getInt32 (\<lambda>len.
       if sint len \<le> 4 \<or> sint len > MaxResponseSize
       then derror (PacketDecodingError ''message of length too large or too small'')
       else
         dbind (dec_deferred getInt32 (if version \<ge> 1 then getEmptyTaggedFieldArray else dreturn 0)) (\<lambda>correlationID.
           dreturn \<lparr>rh_length = len, rh_correlationID = correlationID\<rparr>))"

definition getHeaderLength :: "int \<Rightarrow> nat" where
  "getHeaderLength headerVersion = (if headerVersion < 1 then 8 else 9)"

text \<open>The response to a request as a broker frames it.\<close>

definition ser_response :: "int \<Rightarrow> int32 \<Rightarrow> byte list \<Rightarrow> byte list" where
  "ser_response headerVersion correlationID body =
     be32 (word_of_nat (4 + (if headerVersion \<ge> 1 then 1 else 0) + length body)) @ be32 correlationID @
     (if headerVersion \<ge> 1 then [0] else []) @ body"

text \<open>A promise, with the request that its creator keeps for decoding the response.\<close>

record responsePromise =
  pr_request :: request
  pr_correlationID :: int32
  pr_headerVersion :: int

definition correlation_mismatch :: go_error where
  "correlation_mismatch = PacketDecodingError ''correlation ID did not match''"

text \<open>
  The body of the loop of \<open>responseReceiver\<close>: what the promise is handled with, and the bytes that
  are left. The length of the buffer is computed in 32 bits.
\<close>

definition receiveResponse :: "responsePromise \<Rightarrow> byte list \<Rightarrow> byte list res \<times> byte list" where
  "receiveResponse p stream =
     (let headerLength = getHeaderLength (pr_headerVersion p) in
      case ReadFull headerLength stream of
        Ok (header, stream') \<Rightarrow>
          (case decode_buf header (dec_responseHeader (pr_headerVersion p)) of
             Ok decodedHeader \<Rightarrow>
               if rh_correlationID decodedHeader \<noteq> pr_correlationID p then (Err correlation_mismatch, stream')
               else
                 let n = sint (rh_length decodedHeader - word_of_nat headerLength + 4) in
                 if n < 0 then (Panic, stream')
                 else (case ReadFull (nat n) stream' of
                     Ok (buf, stream'') \<Rightarrow> (Ok buf, stream'')
                   | Err e \<Rightarrow> (Err e, [])
                   | Panic \<Rightarrow> (Panic, []) | Diverge \<Rightarrow> (Diverge, []))
           | Err e \<Rightarrow> (Err e, stream')
           | Panic \<Rightarrow> (Panic, stream') | Diverge \<Rightarrow> (Diverge, stream'))
      | Err e \<Rightarrow> (Err e, [])
      | Panic \<Rightarrow> (Panic, []) | Diverge \<Rightarrow> (Diverge, []))"

lemma dec_responseHeader_at:
  assumes "4 < sint len" "sint len \<le> MaxResponseSize"
  shows "reads (dec_responseHeader v) (be32 len @ be32 c @ (if v \<ge> 1 then [0] else []))
    \<lparr>rh_length = len, rh_correlationID = c\<rparr>"
  using assms by (intro readsI) (auto simp: dec_responseHeader_def dec_deferred_def dec_steps)

text \<open>A response that fits the promise is read as its body, and nothing of what follows it is touched.\<close>

lemma receiveResponse_answer:
  assumes "0 < length body" "int (length body) + 5 \<le> MaxResponseSize"
  shows "receiveResponse p (ser_response (pr_headerVersion p) (pr_correlationID p) body @ rest) = (Ok body, rest)"
proof -
  let ?v = "pr_headerVersion p" and ?c = "pr_correlationID p"
  let ?t = "if ?v \<ge> 1 then [0] else [] :: byte list"
  let ?n = "4 + (if ?v \<ge> 1 then 1 else 0) + length body"
  let ?len = "word_of_nat ?n :: int32"
  let ?h = "be32 ?len @ be32 ?c @ ?t"
  have n: "sint ?len = int ?n"
    using assms by (intro sint_word_of_nat_id) (auto simp: MaxResponseSize_def)
  have hl: "length ?h = getHeaderLength ?v" by (simp add: getHeaderLength_def)
  have d: "decode_buf ?h (dec_responseHeader ?v) = Ok \<lparr>rh_length = ?len, rh_correlationID = ?c\<rparr>"
    using assms by (intro reads_decode_buf dec_responseHeader_at; unfold n) auto
  have "?len - word_of_nat (getHeaderLength ?v) + 4 = word_of_nat (length body)"
    by (simp add: getHeaderLength_def)
  then have b: "sint (?len - word_of_nat (getHeaderLength ?v) + 4) = int (length body)"
    using assms by (auto intro!: sint_word_of_nat_id simp: MaxResponseSize_def)
  have s: "ser_response ?v ?c body @ rest = ?h @ body @ rest" by (simp add: ser_response_def)
  show ?thesis
    unfolding receiveResponse_def s Let_def
    using hl d b by (simp add: ReadFull_def)
qed

text \<open>Whatever comes in, the receiver does not panic.\<close>

lemma decode_header_length:
  assumes "decode_buf bs (dec_responseHeader v) = Ok h"
  shows "4 < sint (rh_length h) \<and> sint (rh_length h) \<le> MaxResponseSize"
  using assms
  by (auto simp: decode_buf_def dec_responseHeader_def dec_deferred_def dbind_def dcatch_def dreturn_def derror_def
      res_bind_Ok_iff split: prod.splits res.splits if_splits sum.splits)

lemma dec_total_responseHeader: "dec_total (dec_responseHeader v)"
  unfolding dec_responseHeader_def dec_deferred_def
  by (intro total_intros) (auto intro!: total_intros split: sum.splits)

lemma decode_buf_returns:
  assumes "dec_total d"
  shows "returns (decode_buf bs d)"
proof -
  obtain r rd where r: "d (new_decoder bs) = (r, rd)" by fastforce
  have "in_buffer (new_decoder bs)" by (simp add: in_buffer_def new_decoder_def)
  then have "returns r" using assms r unfolding dec_total_def by (metis fst_conv)
  then show ?thesis by (cases r) (auto simp: decode_buf_def r)
qed

lemma receiveResponse_returns: "returns (fst (receiveResponse p stream))"
proof (cases "ReadFull (getHeaderLength (pr_headerVersion p)) stream")
  case (Ok hs)
  obtain header rest where hs: "hs = (header, rest)" by fastforce
  let ?d = "decode_buf header (dec_responseHeader (pr_headerVersion p))"
  have "returns ?d" by (rule decode_buf_returns) (rule dec_total_responseHeader)
  moreover have "0 \<le> sint (rh_length h - word_of_nat (getHeaderLength (pr_headerVersion p)) + 4)"
    if "?d = Ok h" for h
  proof -
    note l = decode_header_length [OF that]
    let ?k = "int (getHeaderLength (pr_headerVersion p)) - 4"
    have k: "4 \<le> ?k" "?k \<le> 5" by (auto simp: getHeaderLength_def)
    have "rh_length h - word_of_nat (getHeaderLength (pr_headerVersion p)) + 4 = word_of_int (sint (rh_length h) - ?k)"
      by simp
    also have "sint \<dots> = sint (rh_length h) - ?k"
      using l k by (intro sint_word_of_int_id) (simp_all add: MaxResponseSize_def)
    finally show ?thesis using l k by simp
  qed
  ultimately show ?thesis
    using Ok hs
    by (auto simp: receiveResponse_def Let_def ReadFull_def split: res.splits if_splits)
qed (auto simp: receiveResponse_def Let_def ReadFull_def split: if_splits)

subsection \<open>The promise of a call\<close>

text \<open>
  Every call of the broker makes an empty response object and takes the header version from it. The
  calls whose response header depends on the version set the version of the object first. A produce
  request that wants no acknowledgement has no promise.
\<close>

primrec response_methods :: "request_body \<Rightarrow> protocolMethods" where
  "response_methods (Body_Produce r) = ProduceResponse_methods"
| "response_methods (Body_Fetch r) = FetchResponse_methods"
| "response_methods (Body_Offset r) = OffsetResponse_methods"
| "response_methods (Body_Metadata r) = MetadataResponse_methods"
| "response_methods (Body_OffsetCommit r) = OffsetCommitResponse_methods"
| "response_methods (Body_OffsetFetch r) = OffsetFetchResponse_methods"
| "response_methods (Body_FindCoordinator r) = FindCoordinatorResponse_methods"
| "response_methods (Body_JoinGroup r) = JoinGroupResponse_methods"
| "response_methods (Body_Heartbeat r) = HeartbeatResponse_methods"
| "response_methods (Body_LeaveGroup r) = LeaveGroupResponse_methods"
| "response_methods (Body_SyncGroup r) = SyncGroupResponse_methods"
| "response_methods (Body_DescribeGroups r) = DescribeGroupsResponse_methods"
| "response_methods (Body_ListGroups r) = ListGroupsResponse_methods"
| "response_methods (Body_SaslHandshake r) = SaslHandshakeResponse_methods"
| "response_methods (Body_ApiVersions r) = ApiVersionsResponse_methods"
| "response_methods (Body_CreateTopics r) = CreateTopicsResponse_methods"
| "response_methods (Body_DeleteTopics r) = DeleteTopicsResponse_methods"
| "response_methods (Body_DeleteRecords r) = DeleteRecordsResponse_methods"
| "response_methods (Body_InitProducerID r) = InitProducerIDResponse_methods"
| "response_methods (Body_AddPartitionsToTxn r) = AddPartitionsToTxnResponse_methods"
| "response_methods (Body_AddOffsetsToTxn r) = AddOffsetsToTxnResponse_methods"
| "response_methods (Body_EndTxn r) = EndTxnResponse_methods"
| "response_methods (Body_TxnOffsetCommit r) = TxnOffsetCommitResponse_methods"
| "response_methods (Body_DescribeAcls r) = DescribeAclsResponse_methods"
| "response_methods (Body_CreateAcls r) = CreateAclsResponse_methods"
| "response_methods (Body_DeleteAcls r) = DeleteAclsResponse_methods"
| "response_methods (Body_DescribeConfigs r) = DescribeConfigsResponse_methods"
| "response_methods (Body_AlterConfigs r) = AlterConfigsResponse_methods"
| "response_methods (Body_DescribeLogDirs r) = DescribeLogDirsResponse_methods"
| "response_methods (Body_SaslAuthenticate r) = SaslAuthenticateResponse_methods"
| "response_methods (Body_CreatePartitions r) = CreatePartitionsResponse_methods"
| "response_methods (Body_DeleteGroups r) = DeleteGroupsResponse_methods"
| "response_methods (Body_IncrementalAlterConfigs r) = IncrementalAlterConfigsResponse_methods"
| "response_methods (Body_AlterPartitionReassignments r) = AlterPartitionReassignmentsResponse_methods"
| "response_methods (Body_ListPartitionReassignments r) = ListPartitionReassignmentsResponse_methods"
| "response_methods (Body_DeleteOffsets r) = DeleteOffsetsResponse_methods"
| "response_methods (Body_DescribeClientQuotas r) = DescribeClientQuotasResponse_methods"
| "response_methods (Body_AlterClientQuotas r) = AlterClientQuotasResponse_methods"
| "response_methods (Body_DescribeUserScramCredentials r) = DescribeUserScramCredentialsResponse_methods"
| "response_methods (Body_AlterUserScramCredentials r) = AlterUserScramCredentialsResponse_methods"
definition response_version :: "request_body \<Rightarrow> int" where
  "response_version b = (case b of
       Body_Metadata r \<Rightarrow> mdq_Version r
     | Body_OffsetFetch r \<Rightarrow> ofq_Version r
     | Body_ListGroups r \<Rightarrow> lsq_Version r
     | Body_InitProducerID r \<Rightarrow> ipq_Version r
     | _ \<Rightarrow> 0)"

definition needs_response :: "request_body \<Rightarrow> bool" where
  "needs_response b = (case b of Body_Produce r \<Rightarrow> preq_RequiredAcks r \<noteq> NoResponse | _ \<Rightarrow> True)"

definition promise_header :: "request_body \<Rightarrow> int option" where
  "promise_header b =
     (if needs_response b then Some (pm_headerVersion (response_methods b) (response_version b)) else None)"

text \<open>Whether a broker answers with tagged fields in the header: as the request has them, but never for ApiVersions.\<close>

definition flexible_response :: "request_body \<Rightarrow> bool" where
  "flexible_response b \<longleftrightarrow> 2 \<le> pm_headerVersion (body_methods b) (body_version b) \<and>
     (case b of Body_ApiVersions _ \<Rightarrow> False | _ \<Rightarrow> True)"

lemma response_header_flexible:
  "(1 \<le> pm_headerVersion (response_methods b) (response_version b)) = flexible_response b"
  by (cases b) (simp_all add: flexible_response_def response_version_def methods_defs)

lemma promise_header_flexible: "promise_header b = Some hv \<Longrightarrow> (1 \<le> hv) = flexible_response b"
  using response_header_flexible [of b] by (auto simp: promise_header_def split: if_splits)

subsection \<open>The connection\<close>

text \<open>
  The state that the sending goroutines and the receiver share: the next correlation id, what was
  written, how much was read, the promise whose sender is blocked on the channel, the channel, the
  promise the receiver works on, and the error after which it gives up. The requests that were
  written, their promises, and what these were handled with are kept for the statements.
\<close>

record connection =
  cn_correlationID :: int32
  cn_written :: "byte list"
  cn_read :: nat
  cn_sending :: "responsePromise option"
  cn_channel :: "responsePromise list"
  cn_receiving :: "responsePromise option"
  cn_dead :: "go_error option"
  cn_requests :: "request list"
  cn_promised :: "responsePromise list"
  cn_handled :: "(responsePromise \<times> byte list res) list"

record broker_conf =
  bc_Version :: KafkaVersion
  bc_ClientID :: string
  bc_MaxOpenRequests :: nat

definition new_connection :: connection where
  "new_connection =
     \<lparr>cn_correlationID = 0, cn_written = [], cn_read = 0, cn_sending = None, cn_channel = [],
      cn_receiving = None, cn_dead = None, cn_requests = [], cn_promised = [], cn_handled = []\<rparr>"

abbreviation (input) ErrUnsupportedVersion :: KError where "ErrUnsupportedVersion \<equiv> 35"

text \<open>
  \<open>sendInternal\<close> up to the point where the promise is put into the channel. A write may fail after
  some of the bytes; the correlation id is then not used up.
\<close>

definition sendInternal ::
  "codecs \<Rightarrow> hashes \<Rightarrow> broker_conf \<Rightarrow> (nat \<times> go_error) option \<Rightarrow> request_body \<Rightarrow> connection \<Rightarrow>
   unit res \<times> connection" where
  "sendInternal cs hs conf failure rb c =
     (if \<not> IsAtLeast (bc_Version conf) (pm_requiredVersion (body_methods rb) (body_version rb))
      then (Err (KErr ErrUnsupportedVersion), c)
      else
        let req = \<lparr>req_correlationID = cn_correlationID c, req_clientID = bc_ClientID conf, req_body = rb\<rparr> in
        case encode (enc_request cs hs req) of
          Ok buf \<Rightarrow>
            (case failure of
               Some (n, e) \<Rightarrow> (Err e, c\<lparr>cn_written := cn_written c @ take n buf\<rparr>)
             | None \<Rightarrow>
                 let c' = c\<lparr>cn_written := cn_written c @ buf, cn_correlationID := cn_correlationID c + 1,
                   cn_requests := cn_requests c @ [req]\<rparr> in
                 (case promise_header rb of
                    None \<Rightarrow> (Ok (), c')
                  | Some headerVersion \<Rightarrow>
                      let p = \<lparr>pr_request = req, pr_correlationID = req_correlationID req,
                        pr_headerVersion = headerVersion\<rparr>
                      in (Ok (), c'\<lparr>cn_sending := Some p, cn_promised := cn_promised c @ [p]\<rparr>)))
        | Err e \<Rightarrow> (Err e, c)
        | Panic \<Rightarrow> (Panic, c)
        | Diverge \<Rightarrow> (Diverge, c))"

text \<open>
  One turn of the receiver on the promise it has taken out of the channel. The peer is a function from
  all it was sent to all it sends.
\<close>

definition receive_turn :: "(byte list \<Rightarrow> byte list) \<Rightarrow> responsePromise \<Rightarrow> connection \<Rightarrow> connection" where
  "receive_turn peer p c =
     (case cn_dead c of
        Some e \<Rightarrow> c\<lparr>cn_receiving := None, cn_handled := cn_handled c @ [(p, Err e)]\<rparr>
      | None \<Rightarrow>
          let stream = drop (cn_read c) (peer (cn_written c)) in
          (case receiveResponse p stream of (r, rest) \<Rightarrow>
             c\<lparr>cn_receiving := None, cn_read := cn_read c + (length stream - length rest),
               cn_handled := cn_handled c @ [(p, r)],
               cn_dead := (case r of Err e \<Rightarrow> Some e | _ \<Rightarrow> None)\<rparr>))"

text \<open>
  The interleavings. The channel holds one promise less than \<open>MaxOpenRequests\<close>; a sender whose promise
  does not fit is blocked with the lock of the broker held, so that nothing else is sent. A promise
  can also go straight from its sender to a receiver that waits.
\<close>

inductive receiver_step :: "(byte list \<Rightarrow> byte list) \<Rightarrow> broker_conf \<Rightarrow> connection \<Rightarrow> connection \<Rightarrow> bool"
  for peer conf where
  put: "cn_sending c = Some p \<Longrightarrow> length (cn_channel c) < bc_MaxOpenRequests conf - 1 \<Longrightarrow>
    receiver_step peer conf c (c\<lparr>cn_sending := None, cn_channel := cn_channel c @ [p]\<rparr>)"
| hand: "cn_sending c = Some p \<Longrightarrow> cn_channel c = [] \<Longrightarrow> cn_receiving c = None \<Longrightarrow>
    receiver_step peer conf c (c\<lparr>cn_sending := None, cn_receiving := Some p\<rparr>)"
| take: "cn_receiving c = None \<Longrightarrow> cn_channel c = p # ps \<Longrightarrow>
    receiver_step peer conf c (c\<lparr>cn_channel := ps, cn_receiving := Some p\<rparr>)"
| turn: "cn_receiving c = Some p \<Longrightarrow> receiver_step peer conf c (receive_turn peer p c)"

inductive pipeline_step ::
  "codecs \<Rightarrow> hashes \<Rightarrow> (byte list \<Rightarrow> byte list) \<Rightarrow> broker_conf \<Rightarrow> bool \<Rightarrow> connection \<Rightarrow> connection \<Rightarrow> bool"
  for cs hs peer conf faults where
  send: "cn_sending c = None \<Longrightarrow> failure = None \<or> faults \<Longrightarrow>
    sendInternal cs hs conf failure rb c = (r, c') \<Longrightarrow> pipeline_step cs hs peer conf faults c c'"
| receiver: "receiver_step peer conf c c' \<Longrightarrow> pipeline_step cs hs peer conf faults c c'"

inductive_cases receiver_stepE: "receiver_step peer conf c c'"
inductive_cases pipeline_stepE: "pipeline_step cs hs peer conf faults c c'"

abbreviation pipeline ::
  "codecs \<Rightarrow> hashes \<Rightarrow> (byte list \<Rightarrow> byte list) \<Rightarrow> broker_conf \<Rightarrow> bool \<Rightarrow> connection \<Rightarrow> connection \<Rightarrow> bool" where
  "pipeline cs hs peer conf faults \<equiv> (pipeline_step cs hs peer conf faults)\<^sup>*\<^sup>*"

definition the_list :: "'a option \<Rightarrow> 'a list" where
  "the_list x = (case x of None \<Rightarrow> [] | Some y \<Rightarrow> [y])"

lemma the_list_simps [simp]: "the_list None = []" "the_list (Some x) = [x]"
  by (simp_all add: the_list_def)

text \<open>The promises that are not handled yet, in the order of their requests.\<close>

definition pending :: "connection \<Rightarrow> responsePromise list" where
  "pending c = the_list (cn_receiving c) @ cn_channel c @ the_list (cn_sending c)"

subsection \<open>The pipeline is a queue\<close>

text \<open>
  The abstract connection: a queue of promises and the list of those that were handled. A step adds a
  promise at the end, handles the first one, or changes nothing.
\<close>

definition queue_step :: "'p list \<times> ('p \<times> 'r) list \<Rightarrow> 'p list \<times> ('p \<times> 'r) list \<Rightarrow> bool" where
  "queue_step s s' \<longleftrightarrow> s' = s \<or> (\<exists>p. s' = (fst s @ [p], snd s)) \<or>
     (\<exists>p ps r. s = (p # ps, snd s) \<and> s' = (ps, snd s @ [(p, r)]))"

definition abstract_queue :: "connection \<Rightarrow> responsePromise list \<times> (responsePromise \<times> byte list res) list" where
  "abstract_queue c = (pending c, cn_handled c)"

lemma sendInternal_effect:
  assumes "sendInternal cs hs conf failure rb c = (r, c')"
  shows "cn_receiving c' = cn_receiving c" "cn_channel c' = cn_channel c" "cn_handled c' = cn_handled c"
    "cn_dead c' = cn_dead c" "cn_read c' = cn_read c"
    "(cn_sending c' = cn_sending c \<and> cn_promised c' = cn_promised c) \<or>
     (\<exists>p. cn_sending c' = Some p \<and> cn_promised c' = cn_promised c @ [p])"
  using assms
  by (auto simp: sendInternal_def Let_def split: if_splits res.splits option.splits prod.splits)

lemma receive_turn_effect:
  "\<exists>r. cn_handled (receive_turn peer p c) = cn_handled c @ [(p, r)]" "cn_receiving (receive_turn peer p c) = None"
  "cn_channel (receive_turn peer p c) = cn_channel c" "cn_sending (receive_turn peer p c) = cn_sending c"
  "cn_promised (receive_turn peer p c) = cn_promised c" "cn_requests (receive_turn peer p c) = cn_requests c"
  "cn_written (receive_turn peer p c) = cn_written c"
  by (simp_all add: receive_turn_def Let_def split: option.splits prod.splits)

lemma receiver_step_queue:
  assumes "receiver_step peer conf c c'"
  shows "queue_step (abstract_queue c) (abstract_queue c')"
    "map fst (cn_handled c') @ pending c' = map fst (cn_handled c) @ pending c"
    "cn_promised c' = cn_promised c" "cn_requests c' = cn_requests c" "cn_written c' = cn_written c"
proof -
  have "queue_step (abstract_queue c) (abstract_queue c') \<and>
    map fst (cn_handled c') @ pending c' = map fst (cn_handled c) @ pending c \<and>
    cn_promised c' = cn_promised c \<and> cn_requests c' = cn_requests c \<and> cn_written c' = cn_written c"
    using assms
  proof cases
    case (turn p)
    obtain r where "cn_handled c' = cn_handled c @ [(p, r)]" using receive_turn_effect(1) turn(1) by blast
    with turn show ?thesis
      by (auto simp: queue_step_def abstract_queue_def pending_def receive_turn_effect(2-7))
  qed (auto simp: queue_step_def abstract_queue_def pending_def)
  then show "queue_step (abstract_queue c) (abstract_queue c')"
    "map fst (cn_handled c') @ pending c' = map fst (cn_handled c) @ pending c"
    "cn_promised c' = cn_promised c" "cn_requests c' = cn_requests c" "cn_written c' = cn_written c"
    by blast+
qed

lemma send_queue:
  assumes "sendInternal cs hs conf failure rb c = (r, c')" "cn_sending c = None"
  shows "queue_step (abstract_queue c) (abstract_queue c')"
    "map fst (cn_handled c) @ pending c = cn_promised c \<Longrightarrow> map fst (cn_handled c') @ pending c' = cn_promised c'"
  using sendInternal_effect(6) [OF assms(1)] assms(2)
  by (auto simp: queue_step_def abstract_queue_def pending_def sendInternal_effect(1-3) [OF assms(1)])

lemma pipeline_refines_queue:
  "pipeline_step cs hs peer conf faults c c' \<Longrightarrow> queue_step (abstract_queue c) (abstract_queue c')"
  by (auto elim!: pipeline_stepE intro: receiver_step_queue send_queue)

text \<open>No promise is lost, handled twice or overtaken.\<close>

lemma pipeline_fifo:
  "pipeline cs hs peer conf faults new_connection c \<Longrightarrow> map fst (cn_handled c) @ pending c = cn_promised c"
proof (induction rule: rtranclp_induct)
  case (step c c')
  from step(2,3) show ?case
    by (auto elim!: pipeline_stepE intro: send_queue simp: receiver_step_queue(2,3))
qed (simp add: new_connection_def pending_def)

text \<open>The receiver stops only when nothing is pending, and does stop when nothing more is sent.\<close>

definition receiver_measure :: "connection \<Rightarrow> nat" where
  "receiver_measure c =
     length (the_list (cn_receiving c)) + 2 * length (cn_channel c) + 3 * length (the_list (cn_sending c))"

lemma receiver_step_measure: "receiver_step peer conf c c' \<Longrightarrow> receiver_measure c' < receiver_measure c"
  by (auto elim!: receiver_stepE simp: receiver_measure_def receive_turn_effect)

lemma receiver_terminates: "wfP (\<lambda>c' c. receiver_step peer conf c c')"
  by (rule wfp_if_convertible_to_nat [of _ receiver_measure]) (rule receiver_step_measure)

lemma receiver_progress: "pending c \<noteq> [] \<Longrightarrow> \<exists>c'. receiver_step peer conf c c'"
proof (cases "cn_receiving c")
  case None
  assume "pending c \<noteq> []"
  with None show ?thesis
    by (cases "cn_channel c"; cases "cn_sending c")
      (auto simp: pending_def intro: receiver_step.take receiver_step.hand)
qed (auto intro: receiver_step.turn)

lemma receiver_drains:
  "\<exists>c'. (receiver_step peer conf)\<^sup>*\<^sup>* c c' \<and> pending c' = [] \<and> map fst (cn_handled c') = map fst (cn_handled c) @ pending c"
proof (induction "receiver_measure c" arbitrary: c rule: less_induct)
  case less
  show ?case
  proof (cases "pending c = []")
    case False
    then obtain d where d: "receiver_step peer conf c d" using receiver_progress by blast
    from less [OF receiver_step_measure [OF d]] obtain c' where
      "(receiver_step peer conf)\<^sup>*\<^sup>* d c'" "pending c' = []" "map fst (cn_handled c') = map fst (cn_handled d) @ pending d"
      by blast
    with d receiver_step_queue(2) [OF d] show ?thesis by (metis converse_rtranclp_into_rtranclp)
  qed auto
qed

subsection \<open>Failures\<close>

text \<open>
  After the first error the receiver reads nothing more: the promises before it were handled with what
  was read, all from it on with the error.
\<close>

definition handled_shape :: "connection \<Rightarrow> bool" where
  "handled_shape c =
     (case cn_dead c of
        None \<Rightarrow> list_all (\<lambda>pr. is_Ok (snd pr)) (cn_handled c)
      | Some e \<Rightarrow> \<exists>oks errs. cn_handled c = oks @ errs \<and> list_all (\<lambda>pr. is_Ok (snd pr)) oks \<and>
          list_all (\<lambda>pr. snd pr = Err e) errs)"

lemma handled_shape_same:
  "cn_dead c' = cn_dead c \<Longrightarrow> cn_handled c' = cn_handled c \<Longrightarrow> handled_shape c \<Longrightarrow> handled_shape c'"
  unfolding handled_shape_def by (cases "cn_dead c") simp_all

lemma receive_turn_shape:
  assumes "handled_shape c"
  shows "handled_shape (receive_turn peer p c)"
proof (cases "cn_dead c")
  case None
  obtain r rest where r: "receiveResponse p (drop (cn_read c) (peer (cn_written c))) = (r, rest)" by fastforce
  have "returns r" using receiveResponse_returns [of p "drop (cn_read c) (peer (cn_written c))"] r by simp
  moreover have "\<exists>oks errs. cn_handled c @ [(p, Err e)] = oks @ errs \<and> list_all (\<lambda>pr. is_Ok (snd pr)) oks \<and>
      list_all (\<lambda>pr. snd pr = Err e) errs" for e
    using assms None by (intro exI [of _ "cn_handled c"] exI [of _ "[(p, Err e)]"]) (simp add: handled_shape_def)
  ultimately show ?thesis
    using None r assms by (cases r) (auto simp: receive_turn_def handled_shape_def Let_def)
next
  case (Some e)
  with assms obtain oks errs where "cn_handled c = oks @ errs" "list_all (\<lambda>pr. is_Ok (snd pr)) oks"
    "list_all (\<lambda>pr. snd pr = Err e) errs" by (auto simp: handled_shape_def)
  then have "\<exists>oks errs. cn_handled c @ [(p, Err e)] = oks @ errs \<and> list_all (\<lambda>pr. is_Ok (snd pr)) oks \<and>
      list_all (\<lambda>pr. snd pr = Err e) errs"
    by (intro exI [of _ oks] exI [of _ "errs @ [(p, Err e)]"]) simp
  with Some show ?thesis by (simp add: receive_turn_def handled_shape_def)
qed

lemma pipeline_shape: "pipeline cs hs peer conf faults new_connection c \<Longrightarrow> handled_shape c"
proof (induction rule: rtranclp_induct)
  case (step c c')
  from step(2) show ?case
  proof cases
    case (send failure rb r)
    then show ?thesis
      using step.IH unfolding handled_shape_def sendInternal_effect(3,4) [OF send(3)] by simp
  next
    case receiver
    from receiver step.IH show ?thesis
      by cases (auto simp: receive_turn_shape intro: handled_shape_same)
  qed
qed (simp add: handled_shape_def new_connection_def)

subsection \<open>Requests in flight\<close>

lemma channel_bound:
  "pipeline cs hs peer conf faults new_connection c \<Longrightarrow> length (cn_channel c) \<le> bc_MaxOpenRequests conf - 1"
proof (induction rule: rtranclp_induct)
  case (step c c')
  from step(2) show ?case
  proof cases
    case (send failure rb r)
    with step.IH show ?thesis using sendInternal_effect(2) [OF send(3)] by simp
  next
    case receiver
    from receiver step.IH show ?thesis
      by cases (auto simp: receive_turn_effect)
  qed
qed (simp add: new_connection_def)

lemma in_flight_bound:
  assumes "pipeline cs hs peer conf faults new_connection c" "0 < bc_MaxOpenRequests conf"
  shows "length (pending c) \<le> bc_MaxOpenRequests conf + 1"
  using channel_bound [OF assms(1)] assms(2)
  by (auto simp: pending_def the_list_def split: option.splits)

subsection \<open>A broker that answers in order\<close>

definition request_bytes :: "codecs \<Rightarrow> hashes \<Rightarrow> request \<Rightarrow> byte list" where
  "request_bytes cs hs r = ser_ops (enc_request cs hs r)"

definition answer_frame :: "(request \<Rightarrow> byte list) \<Rightarrow> request \<Rightarrow> byte list" where
  "answer_frame answer r =
     (if needs_response (req_body r)
      then ser_response (if flexible_response (req_body r) then 1 else 0) (req_correlationID r) (answer r)
      else [])"

text \<open>
  The peer gives every request it was sent its answer, in the order of the requests, in a frame with
  the correlation id of the request; an answer is neither empty nor beyond \<open>MaxResponseSize\<close>.
\<close>

definition answers_in_order ::
  "codecs \<Rightarrow> hashes \<Rightarrow> (byte list \<Rightarrow> byte list) \<Rightarrow> (request \<Rightarrow> byte list) \<Rightarrow> bool" where
  "answers_in_order cs hs peer answer \<longleftrightarrow>
     (\<forall>rs. list_all (\<lambda>r. wf_request cs hs r \<and> length (request_bytes cs hs r) \<le> MaxRequestSize) rs \<longrightarrow>
        peer (concat (map (request_bytes cs hs) rs)) = concat (map (answer_frame answer) rs)) \<and>
     (\<forall>r. 0 < length (answer r) \<and> int (length (answer r)) + 5 \<le> MaxResponseSize)"

definition pipeline_inv :: "codecs \<Rightarrow> hashes \<Rightarrow> (request \<Rightarrow> byte list) \<Rightarrow> connection \<Rightarrow> bool" where
  "pipeline_inv cs hs answer c \<longleftrightarrow>
     cn_written c = concat (map (request_bytes cs hs) (cn_requests c)) \<and>
     list_all (\<lambda>r. length (request_bytes cs hs r) \<le> MaxRequestSize) (cn_requests c) \<and>
     map pr_request (cn_promised c) = filter (\<lambda>r. needs_response (req_body r)) (cn_requests c) \<and>
     map fst (cn_handled c) @ pending c = cn_promised c \<and>
     cn_dead c = None \<and>
     cn_read c = length (concat (map (\<lambda>pr. answer_frame answer (pr_request (fst pr))) (cn_handled c))) \<and>
     list_all (\<lambda>(p, r). r = Ok (answer (pr_request p))) (cn_handled c) \<and>
     list_all (\<lambda>p. pr_correlationID p = req_correlationID (pr_request p) \<and>
       promise_header (req_body (pr_request p)) = Some (pr_headerVersion p)) (cn_promised c)"

lemma concat_map_filter_nil: "(\<And>x. \<not> P x \<Longrightarrow> f x = []) \<Longrightarrow> concat (map f (filter P xs)) = concat (map f xs)"
  by (induction xs) auto

text \<open>What the receiver has still to read is the answers to the pending promises.\<close>

lemma pipeline_stream:
  assumes "pipeline_inv cs hs answer c" "answers_in_order cs hs peer answer"
    and "list_all (wf_request cs hs) (cn_requests c)"
  shows "drop (cn_read c) (peer (cn_written c)) = concat (map (\<lambda>p. answer_frame answer (pr_request p)) (pending c))"
proof -
  let ?f = "answer_frame answer"
  have "peer (cn_written c) = concat (map ?f (cn_requests c))"
    using assms unfolding pipeline_inv_def answers_in_order_def by (simp add: list_all_iff)
  also have "\<dots> = concat (map ?f (filter (\<lambda>r. needs_response (req_body r)) (cn_requests c)))"
    by (rule concat_map_filter_nil [symmetric]) (simp add: answer_frame_def)
  also have "\<dots> = concat (map ?f (map pr_request (map fst (cn_handled c) @ pending c)))"
    using assms(1) unfolding pipeline_inv_def by metis
  finally have "peer (cn_written c) = concat (map (\<lambda>pr. ?f (pr_request (fst pr))) (cn_handled c)) @
      concat (map (\<lambda>p. ?f (pr_request p)) (pending c))" by (simp add: o_def)
  moreover have "cn_read c = length (concat (map (\<lambda>pr. ?f (pr_request (fst pr))) (cn_handled c)))"
    using assms(1) by (simp add: pipeline_inv_def)
  ultimately show ?thesis by simp
qed

lemma sendInternal_sent:
  assumes "sendInternal cs hs conf None rb c = (r, c')" and "cn_requests c' \<noteq> cn_requests c"
  shows "\<exists>req buf. cn_requests c' = cn_requests c @ [req] \<and> cn_written c' = cn_written c @ buf \<and>
    encode (enc_request cs hs req) = Ok buf \<and> req_body req = rb \<and>
    (case promise_header rb of
       None \<Rightarrow> cn_sending c' = cn_sending c \<and> cn_promised c' = cn_promised c
     | Some hv \<Rightarrow> (let p = \<lparr>pr_request = req, pr_correlationID = req_correlationID req, pr_headerVersion = hv\<rparr> in
         cn_sending c' = Some p \<and> cn_promised c' = cn_promised c @ [p]))"
  using assms
  by (auto simp: sendInternal_def Let_def split: if_splits res.splits option.splits prod.splits)

lemma sendInternal_unsent:
  "sendInternal cs hs conf None rb c = (r, c') \<Longrightarrow> cn_requests c' = cn_requests c \<Longrightarrow> c' = c"
  by (auto simp: sendInternal_def Let_def split: if_splits res.splits option.splits prod.splits)

lemma encode_request_bytes:
  assumes "wf_request cs hs r" "lossless cs" "encode (enc_request cs hs r) = Ok buf"
  shows "buf = request_bytes cs hs r" "length (request_bytes cs hs r) \<le> MaxRequestSize"
proof -
  obtain body where "enc_request cs hs r = [pushPop (lengthField 0 0) body]"
    "codes (dec_request 0 cs) body (request_on_wire hs r)"
    using dec_request_reads [OF assms(1,2)] by blast
  then have "ops_ok (enc_request cs hs r)" by (simp add: codes_def)
  with assms(3) show "buf = request_bytes cs hs r" "length (request_bytes cs hs r) \<le> MaxRequestSize"
    using encode_ops_ok [of "enc_request cs hs r"] by (simp_all add: request_bytes_def split: if_splits)
qed

lemma pipeline_inv_send:
  assumes inv: "pipeline_inv cs hs answer c" and s: "sendInternal cs hs conf None rb c = (r, c')"
    and free: "cn_sending c = None" and wf: "list_all (wf_request cs hs) (cn_requests c')" and cs: "lossless cs"
  shows "pipeline_inv cs hs answer c'"
proof (cases "cn_requests c' = cn_requests c")
  case True
  with s have "c' = c" by (rule sendInternal_unsent)
  with inv show ?thesis by simp
next
  case False
  note e = sendInternal_effect [OF s]
  from sendInternal_sent [OF s False] obtain req buf where
    q: "cn_requests c' = cn_requests c @ [req]" "cn_written c' = cn_written c @ buf"
    "encode (enc_request cs hs req) = Ok buf" "req_body req = rb"
    and p: "case promise_header rb of
       None \<Rightarrow> cn_sending c' = cn_sending c \<and> cn_promised c' = cn_promised c
     | Some hv \<Rightarrow> (let p = \<lparr>pr_request = req, pr_correlationID = req_correlationID req, pr_headerVersion = hv\<rparr> in
         cn_sending c' = Some p \<and> cn_promised c' = cn_promised c @ [p])"
    by blast
  have "buf = request_bytes cs hs req" "length (request_bytes cs hs req) \<le> MaxRequestSize"
    using wf q(1) by (simp_all add: encode_request_bytes [OF _ cs q(3)])
  moreover have "needs_response rb = (promise_header rb \<noteq> None)" by (simp add: promise_header_def)
  ultimately show ?thesis
    using inv q p free by (cases "promise_header rb") (auto simp: pipeline_inv_def pending_def Let_def e(1-5))
qed

lemma pipeline_inv_turn:
  assumes inv: "pipeline_inv cs hs answer c" and rc: "cn_receiving c = Some p"
    and peer: "answers_in_order cs hs peer answer" and wf: "list_all (wf_request cs hs) (cn_requests c)"
  shows "pipeline_inv cs hs answer (receive_turn peer p c)"
proof -
  let ?r = "pr_request p"
  let ?rest = "concat (map (\<lambda>p. answer_frame answer (pr_request p)) (cn_channel c @ the_list (cn_sending c)))"
  have "p \<in> set (cn_promised c)" and "pending c = p # cn_channel c @ the_list (cn_sending c)"
    using inv rc by (auto simp: pipeline_inv_def pending_def dest: sym)
  then have s: "drop (cn_read c) (peer (cn_written c)) = answer_frame answer ?r @ ?rest"
    and id: "pr_correlationID p = req_correlationID ?r" and h: "promise_header (req_body ?r) = Some (pr_headerVersion p)"
    using pipeline_stream [OF inv peer wf] inv by (auto simp: pipeline_inv_def list_all_iff)
  from h have "needs_response (req_body ?r)" by (simp add: promise_header_def split: if_splits)
  then have f: "answer_frame answer ?r = ser_response (pr_headerVersion p) (pr_correlationID p) (answer ?r)"
    using promise_header_flexible [OF h] by (simp add: answer_frame_def ser_response_def id)
  have "receiveResponse p (answer_frame answer ?r @ ?rest) = (Ok (answer ?r), ?rest)"
    unfolding f using peer by (intro receiveResponse_answer) (simp_all add: answers_in_order_def)
  with s inv rc show ?thesis
    by (auto simp: receive_turn_def pipeline_inv_def pending_def Let_def)
qed

lemma pipeline_requests_mono:
  "pipeline_step cs hs peer conf faults c c' \<Longrightarrow> \<exists>rs. cn_requests c' = cn_requests c @ rs"
  by (erule pipeline_stepE)
    (auto simp: receiver_step_queue(4) sendInternal_def Let_def split: if_splits res.splits option.splits prod.splits)

lemma pipeline_inv_reachable:
  assumes "pipeline cs hs peer conf False new_connection c" and peer: "answers_in_order cs hs peer answer"
    and cs: "lossless cs" and wf: "list_all (wf_request cs hs) (cn_requests c)"
  shows "pipeline_inv cs hs answer c"
  using assms(1) wf
proof (induction rule: rtranclp_induct)
  case base
  show ?case by (simp add: pipeline_inv_def new_connection_def pending_def)
next
  case (step c c')
  from pipeline_requests_mono [OF step(2)] step.prems have wf: "list_all (wf_request cs hs) (cn_requests c)"
    by auto
  then have inv: "pipeline_inv cs hs answer c" by (rule step.IH)
  from step(2) show ?case
  proof cases
    case (send failure rb r)
    then show ?thesis using pipeline_inv_send [OF inv] step.prems cs by auto
  next
    case receiver
    from receiver inv pipeline_inv_turn [OF inv _ peer wf] show ?thesis
      by cases (auto simp: pipeline_inv_def pending_def)
  qed
qed

subsection \<open>Such a broker\<close>

text \<open>A server that decodes its requests with \<open>decodeRequest\<close>, as the mock broker does, is one.\<close>

fun serve :: "nat \<Rightarrow> codecs \<Rightarrow> (request \<Rightarrow> byte list) \<Rightarrow> byte list \<Rightarrow> byte list" where
  "serve 0 cs answer stream = []"
| "serve (Suc n) cs answer stream =
     (case decodeRequest 1 cs stream of
        (Ok r, k) \<Rightarrow> answer_frame answer r @ serve n cs answer (drop k stream)
      | _ \<Rightarrow> [])"

lemma body_on_wire_same:
  "body_methods (body_on_wire hs b) = body_methods b" "body_version (body_on_wire hs b) = body_version b"
  "needs_response (body_on_wire hs b) = needs_response b" "flexible_response (body_on_wire hs b) = flexible_response b"
proof -
  show m: "body_methods (body_on_wire hs b) = body_methods b"
    by (cases b) (simp_all add: body_on_wire_def)
  show v: "body_version (body_on_wire hs b) = body_version b"
    by (cases b) (simp_all add: body_on_wire_def ProduceRequest_on_wire_def JoinGroupRequest_on_wire_def salted_request_def)
  show "needs_response (body_on_wire hs b) = needs_response b"
    by (cases b) (simp_all add: needs_response_def body_on_wire_def ProduceRequest_on_wire_def)
  show "flexible_response (body_on_wire hs b) = flexible_response b"
    unfolding flexible_response_def m v by (cases b) (simp_all add: body_on_wire_def)
qed

lemma answer_frame_on_wire:
  "answer_frame answer (request_on_wire hs r) = answer_frame (\<lambda>r. answer (request_on_wire hs r)) r"
  by (simp add: answer_frame_def request_on_wire_def body_on_wire_same)

lemma serve_requests:
  assumes "lossless cs" "list_all (\<lambda>r. wf_request cs hs r \<and> length (request_bytes cs hs r) \<le> MaxRequestSize) rs"
    and "length rs \<le> n"
  shows "serve n cs answer (concat (map (request_bytes cs hs) rs)) =
    concat (map (answer_frame (\<lambda>r. answer (request_on_wire hs r))) rs)"
  using assms(2,3)
proof (induction rs arbitrary: n)
  case Nil
  then show ?case by (cases n) (simp_all add: decodeRequest_def ReadFull_def)
next
  case (Cons r rs)
  then obtain m where m: "n = Suc m" "length rs \<le> m" by (cases n) auto
  let ?rest = "concat (map (request_bytes cs hs) rs)"
  from Cons.prems have wf: "wf_request cs hs r" and len: "length (request_bytes cs hs r) \<le> MaxRequestSize" by simp_all
  obtain body where "enc_request cs hs r = [pushPop (lengthField 0 0) body]"
    "codes (dec_request 1 cs) body (request_on_wire hs r)"
    using dec_request_reads [OF wf assms(1)] by blast
  then have "ops_ok (enc_request cs hs r)" by (simp add: codes_def)
  from encode_ops_ok [OF this] len have "encode (enc_request cs hs r) = Ok (request_bytes cs hs r)"
    by (simp add: request_bytes_def)
  with decodeRequest_encode [OF wf assms(1), where depth = 1 and rest = ?rest]
  have "decodeRequest 1 cs (request_bytes cs hs r @ ?rest) = (Ok (request_on_wire hs r), length (request_bytes cs hs r))"
    by simp
  with Cons m show ?case by (simp add: answer_frame_on_wire)
qed

lemma request_bytes_length:
  assumes "wf_request cs hs r" "lossless cs"
  shows "0 < length (request_bytes cs hs r)"
proof -
  obtain body where "enc_request cs hs r = [pushPop (lengthField 0 0) body]"
    using dec_request_reads [OF assms] by blast
  then show ?thesis by (simp add: request_bytes_def ser_simps)
qed

lemma serve_answers_in_order:
  assumes "lossless cs" "\<And>r. 0 < length (answer r) \<and> int (length (answer r)) + 5 \<le> MaxResponseSize"
  shows "answers_in_order cs hs (\<lambda>stream. serve (length stream) cs answer stream) (\<lambda>r. answer (request_on_wire hs r))"
  unfolding answers_in_order_def
proof (intro conjI allI impI)
  fix rs assume rs: "list_all (\<lambda>r. wf_request cs hs r \<and> length (request_bytes cs hs r) \<le> MaxRequestSize) rs"
  have "length rs \<le> length (concat (map (request_bytes cs hs) rs))"
    using rs request_bytes_length [OF _ assms(1)] by (intro length_le_concat_map) (fastforce simp: list_all_iff)
  then show "serve (length (concat (map (request_bytes cs hs) rs))) cs answer (concat (map (request_bytes cs hs) rs)) =
      concat (map (answer_frame (\<lambda>r. answer (request_on_wire hs r))) rs)"
    by (intro serve_requests assms(1) rs)
qed (use assms(2) in auto)

end
