(* ===== verification/Broker_Calls.thy ===== *)
theory Broker_Calls
  imports Broker_Connection
begin

text \<open>
  The calls of a broker (\<open>broker.go\<close>): every one makes an empty response object, in some calls with
  the version of the request, sends the request, waits for the response and decodes it with the version
  of the request. The connection is a parameter: a function from a request and the version of the
  response header to the body of the response. The lemmas show that a call returns the response that
  the broker sent, and that the response header it expects is the one the pipeline reads.
\<close>

type_synonym transport = "request_body \<Rightarrow> int option \<Rightarrow> byte list res"

text \<open>
  \<open>sendAndReceive\<close> and \<open>handleResponsePromise\<close> with a response object; without one the call ends when
  the request is sent.
\<close>

definition sendAndReceive :: "transport \<Rightarrow> request_body \<Rightarrow> protocolMethods \<Rightarrow> int \<Rightarrow> (int \<Rightarrow> 'r dec) \<Rightarrow> 'r res" where
  "sendAndReceive send req res version decode_response =
     res_bind (send req (Some (pm_headerVersion res version))) (\<lambda>buf.
       decode_buf buf (decode_response (body_version req)))"

lemma sendAndReceive_answer:
  assumes "send req (Some (pm_headerVersion res version)) = Ok (ser_ops ops)" "codes (d (body_version req)) ops x"
  shows "sendAndReceive send req res version d = Ok x"
  using assms by (simp add: sendAndReceive_def codes_def reads_decode_buf)

subsection \<open>The calls\<close>

definition Broker_GetMetadata :: "transport \<Rightarrow> MetadataRequest \<Rightarrow> MetadataResponse res" where
  "Broker_GetMetadata send request =
     sendAndReceive send (Body_Metadata request) MetadataResponse_methods (mdq_Version request) dec_MetadataResponse"

definition Broker_FindCoordinator :: "transport \<Rightarrow> FindCoordinatorRequest \<Rightarrow> FindCoordinatorResponse res" where
  "Broker_FindCoordinator send request =
     sendAndReceive send (Body_FindCoordinator request) FindCoordinatorResponse_methods 0 dec_FindCoordinatorResponse"

definition Broker_GetAvailableOffsets :: "transport \<Rightarrow> OffsetRequest \<Rightarrow> OffsetResponse res" where
  "Broker_GetAvailableOffsets send request =
     sendAndReceive send (Body_Offset request) OffsetResponse_methods 0 dec_OffsetResponse"

definition Broker_Produce :: "transport \<Rightarrow> ProduceRequest \<Rightarrow> ProduceResponse option res" where
  "Broker_Produce send request =
     (if preq_RequiredAcks request = NoResponse
      then res_bind (send (Body_Produce request) None) (\<lambda>_. Ok None)
      else res_bind (sendAndReceive send (Body_Produce request) ProduceResponse_methods 0 dec_ProduceResponse)
        (\<lambda>response. Ok (Some response)))"

definition Broker_Fetch :: "nat \<Rightarrow> codecs \<Rightarrow> transport \<Rightarrow> FetchRequest \<Rightarrow> FetchResponse res" where
  "Broker_Fetch depth cs send request =
     sendAndReceive send (Body_Fetch request) FetchResponse_methods 0 (dec_FetchResponse depth cs)"

definition Broker_CommitOffset :: "transport \<Rightarrow> OffsetCommitRequest \<Rightarrow> OffsetCommitResponse res" where
  "Broker_CommitOffset send request =
     sendAndReceive send (Body_OffsetCommit request) OffsetCommitResponse_methods 0 dec_OffsetCommitResponse"

definition Broker_FetchOffset :: "transport \<Rightarrow> OffsetFetchRequest \<Rightarrow> OffsetFetchResponse res" where
  "Broker_FetchOffset send request =
     sendAndReceive send (Body_OffsetFetch request) OffsetFetchResponse_methods (ofq_Version request) dec_OffsetFetchResponse"

definition Broker_JoinGroup :: "transport \<Rightarrow> JoinGroupRequest \<Rightarrow> JoinGroupResponse res" where
  "Broker_JoinGroup send request =
     sendAndReceive send (Body_JoinGroup request) JoinGroupResponse_methods 0 dec_JoinGroupResponse"

definition Broker_SyncGroup :: "transport \<Rightarrow> SyncGroupRequest \<Rightarrow> SyncGroupResponse res" where
  "Broker_SyncGroup send request =
     sendAndReceive send (Body_SyncGroup request) SyncGroupResponse_methods 0 dec_SyncGroupResponse"

definition Broker_LeaveGroup :: "transport \<Rightarrow> LeaveGroupRequest \<Rightarrow> LeaveGroupResponse res" where
  "Broker_LeaveGroup send request =
     sendAndReceive send (Body_LeaveGroup request) LeaveGroupResponse_methods 0 dec_LeaveGroupResponse"

definition Broker_Heartbeat :: "transport \<Rightarrow> HeartbeatRequest \<Rightarrow> HeartbeatResponse res" where
  "Broker_Heartbeat send request =
     sendAndReceive send (Body_Heartbeat request) HeartbeatResponse_methods 0 dec_HeartbeatResponse"

definition Broker_ListGroups :: "transport \<Rightarrow> ListGroupsRequest \<Rightarrow> ListGroupsResponse res" where
  "Broker_ListGroups send request =
     sendAndReceive send (Body_ListGroups request) ListGroupsResponse_methods (lsq_Version request) dec_ListGroupsResponse"

definition Broker_DescribeGroups :: "transport \<Rightarrow> DescribeGroupsRequest \<Rightarrow> DescribeGroupsResponse res" where
  "Broker_DescribeGroups send request =
     sendAndReceive send (Body_DescribeGroups request) DescribeGroupsResponse_methods 0 dec_DescribeGroupsResponse"

definition Broker_ApiVersions :: "transport \<Rightarrow> ApiVersionsRequest \<Rightarrow> ApiVersionsResponse res" where
  "Broker_ApiVersions send request =
     sendAndReceive send (Body_ApiVersions request) ApiVersionsResponse_methods 0 dec_ApiVersionsResponse"

definition Broker_CreateTopics :: "transport \<Rightarrow> CreateTopicsRequest \<Rightarrow> CreateTopicsResponse res" where
  "Broker_CreateTopics send request =
     sendAndReceive send (Body_CreateTopics request) CreateTopicsResponse_methods 0 dec_CreateTopicsResponse"

definition Broker_DeleteTopics :: "transport \<Rightarrow> DeleteTopicsRequest \<Rightarrow> DeleteTopicsResponse res" where
  "Broker_DeleteTopics send request =
     sendAndReceive send (Body_DeleteTopics request) DeleteTopicsResponse_methods 0 dec_DeleteTopicsResponse"

definition Broker_CreatePartitions :: "transport \<Rightarrow> CreatePartitionsRequest \<Rightarrow> CreatePartitionsResponse res" where
  "Broker_CreatePartitions send request =
     sendAndReceive send (Body_CreatePartitions request) CreatePartitionsResponse_methods 0 dec_CreatePartitionsResponse"

definition Broker_AlterPartitionReassignments :: "transport \<Rightarrow> AlterPartitionReassignmentsRequest \<Rightarrow> AlterPartitionReassignmentsResponse res" where
  "Broker_AlterPartitionReassignments send request =
     sendAndReceive send (Body_AlterPartitionReassignments request) AlterPartitionReassignmentsResponse_methods 0 dec_AlterPartitionReassignmentsResponse"

definition Broker_ListPartitionReassignments :: "transport \<Rightarrow> ListPartitionReassignmentsRequest \<Rightarrow> ListPartitionReassignmentsResponse res" where
  "Broker_ListPartitionReassignments send request =
     sendAndReceive send (Body_ListPartitionReassignments request) ListPartitionReassignmentsResponse_methods 0 dec_ListPartitionReassignmentsResponse"

definition Broker_DeleteRecords :: "transport \<Rightarrow> DeleteRecordsRequest \<Rightarrow> DeleteRecordsResponse res" where
  "Broker_DeleteRecords send request =
     sendAndReceive send (Body_DeleteRecords request) DeleteRecordsResponse_methods 0 dec_DeleteRecordsResponse"

definition Broker_DescribeAcls :: "transport \<Rightarrow> DescribeAclsRequest \<Rightarrow> DescribeAclsResponse res" where
  "Broker_DescribeAcls send request =
     sendAndReceive send (Body_DescribeAcls request) DescribeAclsResponse_methods 0 dec_DescribeAclsResponse"

text \<open>The response is returned together with an error that wraps the errors in it.\<close>

definition Broker_CreateAcls :: "transport \<Rightarrow> CreateAclsRequest \<Rightarrow> (CreateAclsResponse \<times> go_error option) res" where
  "Broker_CreateAcls send request =
     res_bind (sendAndReceive send (Body_CreateAcls request) CreateAclsResponse_methods 0 dec_CreateAclsResponse)
       (\<lambda>response.
          let errs = map KErr (filter (\<lambda>e. e \<noteq> ErrNoError) (map acp_Err (car_AclCreationResponses response)))
          in Ok (response, if errs \<noteq> [] then Some (Wrap ErrCreateACLs errs) else None))"

definition Broker_DeleteAcls :: "transport \<Rightarrow> DeleteAclsRequest \<Rightarrow> DeleteAclsResponse res" where
  "Broker_DeleteAcls send request =
     sendAndReceive send (Body_DeleteAcls request) DeleteAclsResponse_methods 0 dec_DeleteAclsResponse"

definition Broker_InitProducerID :: "transport \<Rightarrow> InitProducerIDRequest \<Rightarrow> InitProducerIDResponse res" where
  "Broker_InitProducerID send request =
     sendAndReceive send (Body_InitProducerID request) InitProducerIDResponse_methods (ipq_Version request) dec_InitProducerIDResponse"

definition Broker_AddPartitionsToTxn :: "transport \<Rightarrow> AddPartitionsToTxnRequest \<Rightarrow> AddPartitionsToTxnResponse res" where
  "Broker_AddPartitionsToTxn send request =
     sendAndReceive send (Body_AddPartitionsToTxn request) AddPartitionsToTxnResponse_methods 0 dec_AddPartitionsToTxnResponse"

definition Broker_AddOffsetsToTxn :: "transport \<Rightarrow> AddOffsetsToTxnRequest \<Rightarrow> AddOffsetsToTxnResponse res" where
  "Broker_AddOffsetsToTxn send request =
     sendAndReceive send (Body_AddOffsetsToTxn request) AddOffsetsToTxnResponse_methods 0 dec_AddOffsetsToTxnResponse"

definition Broker_EndTxn :: "transport \<Rightarrow> EndTxnRequest \<Rightarrow> EndTxnResponse res" where
  "Broker_EndTxn send request =
     sendAndReceive send (Body_EndTxn request) EndTxnResponse_methods 0 dec_EndTxnResponse"

definition Broker_TxnOffsetCommit :: "transport \<Rightarrow> TxnOffsetCommitRequest \<Rightarrow> TxnOffsetCommitResponse res" where
  "Broker_TxnOffsetCommit send request =
     sendAndReceive send (Body_TxnOffsetCommit request) TxnOffsetCommitResponse_methods 0 dec_TxnOffsetCommitResponse"

definition Broker_DescribeConfigs :: "transport \<Rightarrow> DescribeConfigsRequest \<Rightarrow> DescribeConfigsResponse res" where
  "Broker_DescribeConfigs send request =
     sendAndReceive send (Body_DescribeConfigs request) DescribeConfigsResponse_methods 0 dec_DescribeConfigsResponse"

definition Broker_AlterConfigs :: "transport \<Rightarrow> AlterConfigsRequest \<Rightarrow> AlterConfigsResponse res" where
  "Broker_AlterConfigs send request =
     sendAndReceive send (Body_AlterConfigs request) AlterConfigsResponse_methods 0 dec_AlterConfigsResponse"

definition Broker_IncrementalAlterConfigs :: "transport \<Rightarrow> IncrementalAlterConfigsRequest \<Rightarrow> IncrementalAlterConfigsResponse res" where
  "Broker_IncrementalAlterConfigs send request =
     sendAndReceive send (Body_IncrementalAlterConfigs request) IncrementalAlterConfigsResponse_methods 0 dec_IncrementalAlterConfigsResponse"

definition Broker_DeleteGroups :: "transport \<Rightarrow> DeleteGroupsRequest \<Rightarrow> DeleteGroupsResponse res" where
  "Broker_DeleteGroups send request =
     sendAndReceive send (Body_DeleteGroups request) DeleteGroupsResponse_methods 0 dec_DeleteGroupsResponse"

definition Broker_DeleteOffsets :: "transport \<Rightarrow> DeleteOffsetsRequest \<Rightarrow> DeleteOffsetsResponse res" where
  "Broker_DeleteOffsets send request =
     sendAndReceive send (Body_DeleteOffsets request) DeleteOffsetsResponse_methods 0 dec_DeleteOffsetsResponse"

definition Broker_DescribeLogDirs :: "transport \<Rightarrow> DescribeLogDirsRequest \<Rightarrow> DescribeLogDirsResponse res" where
  "Broker_DescribeLogDirs send request =
     sendAndReceive send (Body_DescribeLogDirs request) DescribeLogDirsResponse_methods 0 dec_DescribeLogDirsResponse"

definition Broker_DescribeUserScramCredentials :: "transport \<Rightarrow> DescribeUserScramCredentialsRequest \<Rightarrow> DescribeUserScramCredentialsResponse res" where
  "Broker_DescribeUserScramCredentials send request =
     sendAndReceive send (Body_DescribeUserScramCredentials request) DescribeUserScramCredentialsResponse_methods 0 dec_DescribeUserScramCredentialsResponse"

definition Broker_AlterUserScramCredentials :: "transport \<Rightarrow> AlterUserScramCredentialsRequest \<Rightarrow> AlterUserScramCredentialsResponse res" where
  "Broker_AlterUserScramCredentials send request =
     sendAndReceive send (Body_AlterUserScramCredentials request) AlterUserScramCredentialsResponse_methods 0 dec_AlterUserScramCredentialsResponse"

definition Broker_DescribeClientQuotas :: "transport \<Rightarrow> DescribeClientQuotasRequest \<Rightarrow> DescribeClientQuotasResponse res" where
  "Broker_DescribeClientQuotas send request =
     sendAndReceive send (Body_DescribeClientQuotas request) DescribeClientQuotasResponse_methods 0 dec_DescribeClientQuotasResponse"

definition Broker_AlterClientQuotas :: "transport \<Rightarrow> AlterClientQuotasRequest \<Rightarrow> AlterClientQuotasResponse res" where
  "Broker_AlterClientQuotas send request =
     sendAndReceive send (Body_AlterClientQuotas request) AlterClientQuotasResponse_methods 0 dec_AlterClientQuotasResponse"

subsection \<open>What a call returns\<close>

text \<open>
  A transport that gives the request \<open>b\<close> the body \<open>ops\<close>, provided that the header is read with the
  version that the promise of the request has.
\<close>

definition delivers :: "transport \<Rightarrow> request_body \<Rightarrow> pe_op list \<Rightarrow> bool" where
  "delivers send b ops \<longleftrightarrow> needs_response b \<and> send b (promise_header b) = Ok (ser_ops ops)"

lemma delivers_send:
  assumes "delivers send b ops" "response_methods b = m" "response_version b = v"
  shows "send b (Some (pm_headerVersion m v)) = Ok (ser_ops ops)"
  using assms by (auto simp: delivers_def promise_header_def)

lemma Broker_GetMetadata_answer:
  assumes "delivers send (Body_Metadata request) (enc_MetadataResponse r)" "wf_MetadataResponse r" "mdr_Version r = mdq_Version request"
  shows "Broker_GetMetadata send request = Ok r"
  unfolding Broker_GetMetadata_def using assms(2-) delivers_send [OF assms(1)]
  by (intro sendAndReceive_answer) (auto simp: response_version_def intro!: mdr.codes)

lemma Broker_FindCoordinator_answer:
  assumes "delivers send (Body_FindCoordinator request) (enc_FindCoordinatorResponse r)" "wf_FindCoordinatorResponse r" "fcr_Version r = fcq_Version request"
  shows "Broker_FindCoordinator send request = Ok r"
  unfolding Broker_FindCoordinator_def using assms(2-) delivers_send [OF assms(1)]
  by (intro sendAndReceive_answer) (auto simp: response_version_def intro!: fcr.codes)

lemma Broker_GetAvailableOffsets_answer:
  assumes "delivers send (Body_Offset request) (enc_OffsetResponse (r\<lparr>osr_Version := orq_Version request\<rparr>))" "wf_OffsetResponse (orq_Version request) r"
  shows "Broker_GetAvailableOffsets send request = Ok r"
  unfolding Broker_GetAvailableOffsets_def using assms(2-) delivers_send [OF assms(1)]
  by (intro sendAndReceive_answer) (auto simp: response_version_def intro!: osr.codes)

lemma Broker_CommitOffset_answer:
  assumes "delivers send (Body_OffsetCommit request) (enc_OffsetCommitResponse r)" "wf_OffsetCommitResponse r" "ocr_Version r = ocq_Version request"
  shows "Broker_CommitOffset send request = Ok r"
  unfolding Broker_CommitOffset_def using assms(2-) delivers_send [OF assms(1)]
  by (intro sendAndReceive_answer) (auto simp: response_version_def intro!: ocr.codes)

lemma Broker_FetchOffset_answer:
  assumes "delivers send (Body_OffsetFetch request) (enc_OffsetFetchResponse r)" "wf_OffsetFetchResponse r" "ofr_Version r = ofq_Version request"
  shows "Broker_FetchOffset send request = Ok r"
  unfolding Broker_FetchOffset_def using assms(2-) delivers_send [OF assms(1)]
  by (intro sendAndReceive_answer) (auto simp: response_version_def intro!: ofr.codes)

lemma Broker_JoinGroup_answer:
  assumes "delivers send (Body_JoinGroup request) (enc_JoinGroupResponse r)" "wf_JoinGroupResponse r" "jgr_Version r = jgq_Version request"
  shows "Broker_JoinGroup send request = Ok r"
  unfolding Broker_JoinGroup_def using assms(2-) delivers_send [OF assms(1)]
  by (intro sendAndReceive_answer) (auto simp: response_version_def intro!: jgr.codes)

lemma Broker_SyncGroup_answer:
  assumes "delivers send (Body_SyncGroup request) (enc_SyncGroupResponse r)" "wf_SyncGroupResponse r" "sgr_Version r = sgq_Version request"
  shows "Broker_SyncGroup send request = Ok r"
  unfolding Broker_SyncGroup_def using assms(2-) delivers_send [OF assms(1)]
  by (intro sendAndReceive_answer) (auto simp: response_version_def intro!: sgr.codes)

lemma Broker_LeaveGroup_answer:
  assumes "delivers send (Body_LeaveGroup request) (enc_LeaveGroupResponse r)" "wf_LeaveGroupResponse r" "lgr_Version r = lgq_Version request"
  shows "Broker_LeaveGroup send request = Ok r"
  unfolding Broker_LeaveGroup_def using assms(2-) delivers_send [OF assms(1)]
  by (intro sendAndReceive_answer) (auto simp: response_version_def intro!: lgr.codes)

lemma Broker_Heartbeat_answer:
  assumes "delivers send (Body_Heartbeat request) (enc_HeartbeatResponse r)" "wf_HeartbeatResponse r" "hbr_Version r = hbq_Version request"
  shows "Broker_Heartbeat send request = Ok r"
  unfolding Broker_Heartbeat_def using assms(2-) delivers_send [OF assms(1)]
  by (intro sendAndReceive_answer) (auto simp: response_version_def intro!: hbr.codes)

lemma Broker_ListGroups_answer:
  assumes "delivers send (Body_ListGroups request) (enc_ListGroupsResponse r)" "wf_ListGroupsResponse r" "lsr_Version r = lsq_Version request"
  shows "Broker_ListGroups send request = Ok r"
  unfolding Broker_ListGroups_def using assms(2-) delivers_send [OF assms(1)]
  by (intro sendAndReceive_answer) (auto simp: response_version_def intro!: lsr.codes)

lemma Broker_DescribeGroups_answer:
  assumes "delivers send (Body_DescribeGroups request) (enc_DescribeGroupsResponse r)" "wf_DescribeGroupsResponse r" "dgr_Version r = dgq_Version request"
  shows "Broker_DescribeGroups send request = Ok r"
  unfolding Broker_DescribeGroups_def using assms(2-) delivers_send [OF assms(1)]
  by (intro sendAndReceive_answer) (auto simp: response_version_def intro!: dgr.codes)

lemma Broker_ApiVersions_answer:
  assumes "delivers send (Body_ApiVersions request) (enc_ApiVersionsResponse r)" "wf_ApiVersionsResponse r" "avr_Version r = avq_Version request"
  shows "Broker_ApiVersions send request = Ok r"
  unfolding Broker_ApiVersions_def using assms(2-) delivers_send [OF assms(1)]
  by (intro sendAndReceive_answer) (auto simp: response_version_def intro!: avr.codes)

lemma Broker_CreateTopics_answer:
  assumes "delivers send (Body_CreateTopics request) (enc_CreateTopicsResponse r)" "wf_CreateTopicsResponse r" "ctr_Version r = ctq_Version request"
  shows "Broker_CreateTopics send request = Ok r"
  unfolding Broker_CreateTopics_def using assms(2-) delivers_send [OF assms(1)]
  by (intro sendAndReceive_answer) (auto simp: response_version_def intro!: ctr.codes)

lemma Broker_DeleteTopics_answer:
  assumes "delivers send (Body_DeleteTopics request) (enc_DeleteTopicsResponse r)" "wf_DeleteTopicsResponse r" "dtr_Version r = dtq_Version request"
  shows "Broker_DeleteTopics send request = Ok r"
  unfolding Broker_DeleteTopics_def using assms(2-) delivers_send [OF assms(1)]
  by (intro sendAndReceive_answer) (auto simp: response_version_def intro!: dtr.codes)

lemma Broker_CreatePartitions_answer:
  assumes "delivers send (Body_CreatePartitions request) (enc_CreatePartitionsResponse r)" "wf_CreatePartitionsResponse r"
  shows "Broker_CreatePartitions send request = Ok r"
  unfolding Broker_CreatePartitions_def using assms(2-) delivers_send [OF assms(1)]
  by (intro sendAndReceive_answer) (auto simp: response_version_def intro!: cpr.codes)

lemma Broker_AlterPartitionReassignments_answer:
  assumes "delivers send (Body_AlterPartitionReassignments request) (enc_AlterPartitionReassignmentsResponse r)" "wf_AlterPartitionReassignmentsResponse r" "rar_Version r = raq_Version request"
  shows "Broker_AlterPartitionReassignments send request = Ok r"
  unfolding Broker_AlterPartitionReassignments_def using assms(2-) delivers_send [OF assms(1)]
  by (intro sendAndReceive_answer) (auto simp: response_version_def intro!: rar.codes)

lemma Broker_ListPartitionReassignments_answer:
  assumes "delivers send (Body_ListPartitionReassignments request) (enc_ListPartitionReassignmentsResponse r)" "wf_ListPartitionReassignmentsResponse r" "lrr_Version r = lrq_Version request"
  shows "Broker_ListPartitionReassignments send request = Ok r"
  unfolding Broker_ListPartitionReassignments_def using assms(2-) delivers_send [OF assms(1)]
  by (intro sendAndReceive_answer) (auto simp: response_version_def intro!: lrr.codes)

lemma Broker_DeleteRecords_answer:
  assumes "delivers send (Body_DeleteRecords request) (enc_DeleteRecordsResponse r)" "wf_DeleteRecordsResponse r" "drr_Version r = drq_Version request"
  shows "Broker_DeleteRecords send request = Ok r"
  unfolding Broker_DeleteRecords_def using assms(2-) delivers_send [OF assms(1)]
  by (intro sendAndReceive_answer) (auto simp: response_version_def intro!: drr.codes)

lemma Broker_DescribeAcls_answer:
  assumes "delivers send (Body_DescribeAcls request) (enc_DescribeAclsResponse (r\<lparr>dsr_Version := dsq_Version request\<rparr>))" "wf_DescribeAclsResponse (dsq_Version request) r"
  shows "Broker_DescribeAcls send request = Ok r"
  unfolding Broker_DescribeAcls_def using assms(2-) delivers_send [OF assms(1)]
  by (intro sendAndReceive_answer) (auto simp: response_version_def intro!: dsr.codes)

lemma Broker_DeleteAcls_answer:
  assumes "delivers send (Body_DeleteAcls request) (enc_DeleteAclsResponse (r\<lparr>dar_Version := daq_Version request\<rparr>))" "wf_DeleteAclsResponse (daq_Version request) r"
  shows "Broker_DeleteAcls send request = Ok r"
  unfolding Broker_DeleteAcls_def using assms(2-) delivers_send [OF assms(1)]
  by (intro sendAndReceive_answer) (auto simp: response_version_def intro!: dar.codes)

lemma Broker_InitProducerID_answer:
  assumes "delivers send (Body_InitProducerID request) (enc_InitProducerIDResponse r)" "wf_InitProducerIDResponse r" "ipr_Version r = ipq_Version request"
  shows "Broker_InitProducerID send request = Ok r"
  unfolding Broker_InitProducerID_def using assms(2-) delivers_send [OF assms(1)]
  by (intro sendAndReceive_answer) (auto simp: response_version_def intro!: ipr.codes)

lemma Broker_AddPartitionsToTxn_answer:
  assumes "delivers send (Body_AddPartitionsToTxn request) (enc_AddPartitionsToTxnResponse r)" "wf_AddPartitionsToTxnResponse r" "apr_Version r = apq_Version request"
  shows "Broker_AddPartitionsToTxn send request = Ok r"
  unfolding Broker_AddPartitionsToTxn_def using assms(2-) delivers_send [OF assms(1)]
  by (intro sendAndReceive_answer) (auto simp: response_version_def intro!: apr.codes)

lemma Broker_AddOffsetsToTxn_answer:
  assumes "delivers send (Body_AddOffsetsToTxn request) (enc_AddOffsetsToTxnResponse r)" "wf_AddOffsetsToTxnResponse r"
  shows "Broker_AddOffsetsToTxn send request = Ok r"
  unfolding Broker_AddOffsetsToTxn_def using assms(2-) delivers_send [OF assms(1)]
  by (intro sendAndReceive_answer) (auto simp: response_version_def intro!: aor.codes)

lemma Broker_EndTxn_answer:
  assumes "delivers send (Body_EndTxn request) (enc_EndTxnResponse r)" "wf_EndTxnResponse r"
  shows "Broker_EndTxn send request = Ok r"
  unfolding Broker_EndTxn_def using assms(2-) delivers_send [OF assms(1)]
  by (intro sendAndReceive_answer) (auto simp: response_version_def intro!: etr.codes)

lemma Broker_TxnOffsetCommit_answer:
  assumes "delivers send (Body_TxnOffsetCommit request) (enc_TxnOffsetCommitResponse r)" "wf_TxnOffsetCommitResponse r" "tcr_Version r = tcq_Version request"
  shows "Broker_TxnOffsetCommit send request = Ok r"
  unfolding Broker_TxnOffsetCommit_def using assms(2-) delivers_send [OF assms(1)]
  by (intro sendAndReceive_answer) (auto simp: response_version_def intro!: tcr.codes)

lemma Broker_DescribeConfigs_answer:
  assumes "delivers send (Body_DescribeConfigs request) (enc_DescribeConfigsResponse r)" "wf_DescribeConfigsResponse r" "dcr_Version r = dcq_Version request"
  shows "Broker_DescribeConfigs send request = Ok r"
  unfolding Broker_DescribeConfigs_def using assms(2-) delivers_send [OF assms(1)]
  by (intro sendAndReceive_answer) (auto simp: response_version_def intro!: dcr.codes)

lemma Broker_AlterConfigs_answer:
  assumes "delivers send (Body_AlterConfigs request) (enc_AlterConfigsResponse r)" "wf_AlterConfigsResponse r"
  shows "Broker_AlterConfigs send request = Ok r"
  unfolding Broker_AlterConfigs_def using assms(2-) delivers_send [OF assms(1)]
  by (intro sendAndReceive_answer) (auto simp: response_version_def intro!: arp.codes)

lemma Broker_IncrementalAlterConfigs_answer:
  assumes "delivers send (Body_IncrementalAlterConfigs request) (enc_IncrementalAlterConfigsResponse r)" "wf_IncrementalAlterConfigsResponse r"
  shows "Broker_IncrementalAlterConfigs send request = Ok r"
  unfolding Broker_IncrementalAlterConfigs_def using assms(2-) delivers_send [OF assms(1)]
  by (intro sendAndReceive_answer) (auto simp: response_version_def intro!: icr.codes)

lemma Broker_DeleteGroups_answer:
  assumes "delivers send (Body_DeleteGroups request) (enc_DeleteGroupsResponse r)" "wf_DeleteGroupsResponse r"
  shows "Broker_DeleteGroups send request = Ok r"
  unfolding Broker_DeleteGroups_def using assms(2-) delivers_send [OF assms(1)]
  by (intro sendAndReceive_answer) (auto simp: response_version_def intro!: delr.codes)

lemma Broker_DeleteOffsets_answer:
  assumes "delivers send (Body_DeleteOffsets request) (enc_DeleteOffsetsResponse r)" "wf_DeleteOffsetsResponse r"
  shows "Broker_DeleteOffsets send request = Ok r"
  unfolding Broker_DeleteOffsets_def using assms(2-) delivers_send [OF assms(1)]
  by (intro sendAndReceive_answer) (auto simp: response_version_def intro!: dor.codes)

lemma Broker_DescribeLogDirs_answer:
  assumes "delivers send (Body_DescribeLogDirs request) (enc_DescribeLogDirsResponse r)" "wf_DescribeLogDirsResponse r"
  shows "Broker_DescribeLogDirs send request = Ok r"
  unfolding Broker_DescribeLogDirs_def using assms(2-) delivers_send [OF assms(1)]
  by (intro sendAndReceive_answer) (auto simp: response_version_def intro!: dlr.codes)

lemma Broker_DescribeUserScramCredentials_answer:
  assumes "delivers send (Body_DescribeUserScramCredentials request) (enc_DescribeUserScramCredentialsResponse r)" "wf_DescribeUserScramCredentialsResponse r"
  shows "Broker_DescribeUserScramCredentials send request = Ok r"
  unfolding Broker_DescribeUserScramCredentials_def using assms(2-) delivers_send [OF assms(1)]
  by (intro sendAndReceive_answer) (auto simp: response_version_def intro!: dur.codes)

lemma Broker_AlterUserScramCredentials_answer:
  assumes "delivers send (Body_AlterUserScramCredentials request) (enc_AlterUserScramCredentialsResponse r)" "wf_AlterUserScramCredentialsResponse r"
  shows "Broker_AlterUserScramCredentials send request = Ok r"
  unfolding Broker_AlterUserScramCredentials_def using assms(2-) delivers_send [OF assms(1)]
  by (intro sendAndReceive_answer) (auto simp: response_version_def intro!: aur.codes)

lemma Broker_DescribeClientQuotas_answer:
  assumes "delivers send (Body_DescribeClientQuotas request) (enc_DescribeClientQuotasResponse r)" "wf_DescribeClientQuotasResponse r"
  shows "Broker_DescribeClientQuotas send request = Ok r"
  unfolding Broker_DescribeClientQuotas_def using assms(2-) delivers_send [OF assms(1)]
  by (intro sendAndReceive_answer) (auto simp: response_version_def intro!: dqr.codes)

lemma Broker_AlterClientQuotas_answer:
  assumes "delivers send (Body_AlterClientQuotas request) (enc_AlterClientQuotasResponse r)" "wf_AlterClientQuotasResponse r"
  shows "Broker_AlterClientQuotas send request = Ok r"
  unfolding Broker_AlterClientQuotas_def using assms(2-) delivers_send [OF assms(1)]
  by (intro sendAndReceive_answer) (auto simp: response_version_def intro!: aqr.codes)

end
