(* ===== verification/Broker_Exchange.thy ===== *)
theory Broker_Exchange
  imports Broker_Calls
begin

text \<open>
  Calls over a connection. On a connection without pending promises a call sends its request, its promise
  goes to the waiting receiver, and the receiver takes one turn; this is a run of the pipeline, and it is
  a transport for the calls of \<open>Broker_Calls\<close>. With a broker that answers in order a call returns what
  the broker answered, after any history of the connection. The second part is about the number of
  requests that are on the wire at once.
\<close>

subsection \<open>One call\<close>

definition exchange ::
  "codecs \<Rightarrow> hashes \<Rightarrow> (byte list \<Rightarrow> byte list) \<Rightarrow> broker_conf \<Rightarrow> connection \<Rightarrow> request_body \<Rightarrow> int option \<Rightarrow>
   byte list res \<times> connection" where
  "exchange cs hs peer conf c rb headerVersion =
     (case sendInternal cs hs conf None rb c of
        (Ok _, c') \<Rightarrow>
          (case (cn_sending c', headerVersion) of
             (Some p, Some hv) \<Rightarrow>
               let p' = p\<lparr>pr_headerVersion := hv\<rparr>;
                   c'' = receive_turn peer p' (c'\<lparr>cn_sending := None, cn_receiving := Some p'\<rparr>)
               in (snd (last (cn_handled c'')), c'')
           | _ \<Rightarrow> (Ok [], c'))
      | (Err e, c') \<Rightarrow> (Err e, c')
      | (Panic, c') \<Rightarrow> (Panic, c')
      | (Diverge, c') \<Rightarrow> (Diverge, c'))"

definition connection_transport ::
  "codecs \<Rightarrow> hashes \<Rightarrow> (byte list \<Rightarrow> byte list) \<Rightarrow> broker_conf \<Rightarrow> connection \<Rightarrow> transport" where
  "connection_transport cs hs peer conf c rb headerVersion = fst (exchange cs hs peer conf c rb headerVersion)"

text \<open>The request can be sent over the connection.\<close>

definition request_of :: "broker_conf \<Rightarrow> connection \<Rightarrow> request_body \<Rightarrow> request" where
  "request_of conf c rb = \<lparr>req_correlationID = cn_correlationID c, req_clientID = bc_ClientID conf, req_body = rb\<rparr>"

definition sendable :: "codecs \<Rightarrow> hashes \<Rightarrow> broker_conf \<Rightarrow> connection \<Rightarrow> request_body \<Rightarrow> bool" where
  "sendable cs hs conf c rb \<longleftrightarrow>
     IsAtLeast (bc_Version conf) (pm_requiredVersion (body_methods rb) (body_version rb)) \<and>
     wf_request cs hs (request_of conf c rb) \<and> length (request_bytes cs hs (request_of conf c rb)) \<le> MaxRequestSize"

lemma encode_request:
  assumes "wf_request cs hs r" "lossless cs" "length (request_bytes cs hs r) \<le> MaxRequestSize"
  shows "encode (enc_request cs hs r) = Ok (request_bytes cs hs r)"
proof -
  obtain body where "enc_request cs hs r = [pushPop (lengthField 0 0) body]"
    "codes (dec_request 1 cs) body (request_on_wire hs r)"
    using dec_request_reads [OF assms(1,2)] by blast
  then have "ops_ok (enc_request cs hs r)" by (simp add: codes_def)
  from encode_ops_ok [OF this] assms(3) show ?thesis by (simp add: request_bytes_def)
qed

lemma sendInternal_sendable:
  assumes "sendable cs hs conf c rb" "lossless cs" "promise_header rb = Some hv"
  shows "sendInternal cs hs conf None rb c =
    (Ok (), c\<lparr>cn_written := cn_written c @ request_bytes cs hs (request_of conf c rb),
       cn_correlationID := cn_correlationID c + 1, cn_requests := cn_requests c @ [request_of conf c rb],
       cn_sending := Some \<lparr>pr_request = request_of conf c rb, pr_correlationID = cn_correlationID c, pr_headerVersion = hv\<rparr>,
       cn_promised := cn_promised c @
         [\<lparr>pr_request = request_of conf c rb, pr_correlationID = cn_correlationID c, pr_headerVersion = hv\<rparr>]\<rparr>)"
  using assms encode_request [OF _ assms(2), of hs "request_of conf c rb"]
  by (simp add: sendInternal_def sendable_def request_of_def Let_def)

lemma idle_iff: "pending c = [] \<longleftrightarrow> cn_sending c = None \<and> cn_channel c = [] \<and> cn_receiving c = None"
  by (auto simp: pending_def the_list_def split: option.splits)

text \<open>A call on an idle connection is a run of the pipeline that leaves the connection idle.\<close>

lemma exchange_pipeline:
  assumes "pending c = []" "sendable cs hs conf c rb" "lossless cs" "promise_header rb = Some hv"
  shows "pipeline cs hs peer conf False c (snd (exchange cs hs peer conf c rb (Some hv))) \<and>
    pending (snd (exchange cs hs peer conf c rb (Some hv))) = [] \<and>
    cn_requests (snd (exchange cs hs peer conf c rb (Some hv))) = cn_requests c @ [request_of conf c rb] \<and>
    (\<exists>r p. exchange cs hs peer conf c rb (Some hv) = (r, snd (exchange cs hs peer conf c rb (Some hv))) \<and>
      cn_handled (snd (exchange cs hs peer conf c rb (Some hv))) = cn_handled c @ [(p, r)] \<and>
      pr_request p = request_of conf c rb)"
proof -
  define p where "p = \<lparr>pr_request = request_of conf c rb, pr_correlationID = cn_correlationID c, pr_headerVersion = hv\<rparr>"
  define c1 where "c1 = snd (sendInternal cs hs conf None rb c)"
  define c2 where "c2 = c1\<lparr>cn_sending := None, cn_receiving := Some p\<rparr>"
  define c3 where "c3 = receive_turn peer p c2"
  note idle = assms(1) [unfolded idle_iff]
  have s: "sendInternal cs hs conf None rb c = (Ok (), c1)" and c1: "cn_sending c1 = Some p"
    "cn_channel c1 = []" "cn_receiving c1 = None" "cn_handled c1 = cn_handled c"
    "cn_requests c1 = cn_requests c @ [request_of conf c rb]"
    using sendInternal_sendable [OF assms(2-4)] idle by (simp_all add: c1_def p_def)
  have "pipeline_step cs hs peer conf False c c1" using idle s by (auto intro: pipeline_step.send)
  moreover have "pipeline_step cs hs peer conf False c1 c2"
    unfolding c2_def using c1 by (intro pipeline_step.receiver receiver_step.hand)
  moreover have "pipeline_step cs hs peer conf False c2 c3"
    unfolding c3_def by (intro pipeline_step.receiver receiver_step.turn) (simp add: c2_def)
  ultimately have run: "pipeline cs hs peer conf False c c3"
    by (rule converse_rtranclp_into_rtranclp [OF _ converse_rtranclp_into_rtranclp [OF _ r_into_rtranclp]])
  obtain r where r: "cn_handled c3 = cn_handled c @ [(p, r)]"
    using receive_turn_effect(1) [of peer p c2] c1(4) by (auto simp: c3_def c2_def)
  have "p\<lparr>pr_headerVersion := hv\<rparr> = p" by (simp add: p_def)
  then have e: "exchange cs hs peer conf c rb (Some hv) = (r, c3)"
    using s c1(1) r by (simp add: exchange_def Let_def c3_def c2_def)
  show ?thesis
    unfolding e snd_conv idle_iff using run r c1
    by (auto simp: c3_def c2_def receive_turn_effect p_def)
qed

text \<open>With a broker that answers in order, the call gets the answer to its request.\<close>

lemma exchange_answer:
  assumes "pipeline cs hs peer conf False new_connection c" "pending c = []" "list_all (wf_request cs hs) (cn_requests c)"
    and "answers_in_order cs hs peer answer" "lossless cs" "sendable cs hs conf c rb" "needs_response rb"
  shows "connection_transport cs hs peer conf c rb (promise_header rb) = Ok (answer (request_of conf c rb))"
proof -
  obtain hv where hv: "promise_header rb = Some hv" using assms(7) by (simp add: promise_header_def)
  let ?c = "snd (exchange cs hs peer conf c rb (Some hv))"
  note ex = exchange_pipeline [OF assms(2,6,5) hv, of peer]
  from ex obtain r p where r: "exchange cs hs peer conf c rb (Some hv) = (r, ?c)"
    "cn_handled ?c = cn_handled c @ [(p, r)]" "pr_request p = request_of conf c rb" by blast
  have "pipeline cs hs peer conf False new_connection ?c" using ex by (intro rtranclp_trans [OF assms(1)]) (elim conjE)
  moreover have "list_all (wf_request cs hs) (cn_requests ?c)"
    using assms(3,6) ex by (simp add: sendable_def)
  ultimately have "pipeline_inv cs hs answer ?c" by (intro pipeline_inv_reachable [OF _ assms(4,5)])
  then have "r = Ok (answer (pr_request p))" using r(2) by (simp add: pipeline_inv_def)
  then show ?thesis by (metis connection_transport_def fst_conv hv r(1,3))
qed

lemma exchange_delivers:
  assumes "pipeline cs hs peer conf False new_connection c" "pending c = []" "list_all (wf_request cs hs) (cn_requests c)"
    and "answers_in_order cs hs peer answer" "lossless cs" "sendable cs hs conf c rb" "needs_response rb"
    and "answer (request_of conf c rb) = ser_ops ops"
  shows "delivers (connection_transport cs hs peer conf c) rb ops"
  using exchange_answer [OF assms(1-7)] assms(7,8) by (simp add: delivers_def)

subsection \<open>Requests on the wire\<close>

text \<open>
  The bound on the pending promises is attained: the receiver waits for an answer, the channel is full,
  and one more request was written before its sender blocked on the channel.
\<close>

definition always_sendable :: "codecs \<Rightarrow> hashes \<Rightarrow> broker_conf \<Rightarrow> request_body \<Rightarrow> bool" where
  "always_sendable cs hs conf rb \<longleftrightarrow> (\<forall>c. sendable cs hs conf c rb)"

lemma fill_channel:
  assumes "always_sendable cs hs conf rb" "lossless cs" "promise_header rb = Some hv" "k < bc_MaxOpenRequests conf"
  shows "\<exists>c. pipeline cs hs peer conf False new_connection c \<and> cn_sending c = None \<and> cn_receiving c \<noteq> None \<and>
    length (cn_channel c) = k"
  using assms(4)
proof (induction k)
  case 0
  have "sendable cs hs conf new_connection rb" using assms(1) by (simp add: always_sendable_def)
  from sendInternal_sendable [OF this assms(2,3)] obtain c p where
    s: "sendInternal cs hs conf None rb new_connection = (Ok (), c)" "cn_sending c = Some p" "cn_channel c = []" "cn_receiving c = None"
    by (simp add: new_connection_def)
  have "pipeline_step cs hs peer conf False new_connection c"
    using s by (auto intro: pipeline_step.send simp: new_connection_def)
  moreover have "pipeline_step cs hs peer conf False c (c\<lparr>cn_sending := None, cn_receiving := Some p\<rparr>)"
    using s by (intro pipeline_step.receiver receiver_step.hand)
  ultimately have "pipeline cs hs peer conf False new_connection (c\<lparr>cn_sending := None, cn_receiving := Some p\<rparr>)"
    by (rule converse_rtranclp_into_rtranclp [OF _ r_into_rtranclp])
  then show ?case using s(3) by (intro exI [of _ "c\<lparr>cn_sending := None, cn_receiving := Some p\<rparr>"]) simp
next
  case (Suc k)
  then obtain c where c: "pipeline cs hs peer conf False new_connection c" "cn_sending c = None" "cn_receiving c \<noteq> None"
    "length (cn_channel c) = k" by auto
  have "sendable cs hs conf c rb" using assms(1) by (simp add: always_sendable_def)
  from sendInternal_sendable [OF this assms(2,3)] obtain c' p where
    s: "sendInternal cs hs conf None rb c = (Ok (), c')" "cn_sending c' = Some p" "cn_channel c' = cn_channel c"
      "cn_receiving c' = cn_receiving c"
    by simp
  have "pipeline_step cs hs peer conf False c c'" using s c(2) by (auto intro: pipeline_step.send)
  moreover have "pipeline_step cs hs peer conf False c' (c'\<lparr>cn_sending := None, cn_channel := cn_channel c' @ [p]\<rparr>)"
    using s c(4) Suc.prems by (intro pipeline_step.receiver receiver_step.put) simp_all
  ultimately have "pipeline cs hs peer conf False new_connection (c'\<lparr>cn_sending := None, cn_channel := cn_channel c' @ [p]\<rparr>)"
    by (rule rtranclp.rtrancl_into_rtrancl [OF rtranclp.rtrancl_into_rtrancl [OF c(1)]])
  then show ?case
    using s c(3,4) by (intro exI [of _ "c'\<lparr>cn_sending := None, cn_channel := cn_channel c' @ [p]\<rparr>"]) simp
qed

lemma in_flight_attained:
  assumes "always_sendable cs hs conf rb" "lossless cs" "needs_response rb" "0 < bc_MaxOpenRequests conf"
  shows "\<exists>c. pipeline cs hs peer conf False new_connection c \<and> length (pending c) = bc_MaxOpenRequests conf + 1"
proof -
  obtain hv where hv: "promise_header rb = Some hv" using assms(3) by (simp add: promise_header_def)
  obtain c where c: "pipeline cs hs peer conf False new_connection c" "cn_sending c = None" "cn_receiving c \<noteq> None"
    "length (cn_channel c) = bc_MaxOpenRequests conf - 1"
    using fill_channel [OF assms(1,2) hv, of "bc_MaxOpenRequests conf - 1" peer] assms(4) by auto
  have "sendable cs hs conf c rb" using assms(1) by (simp add: always_sendable_def)
  from sendInternal_sendable [OF this assms(2) hv] obtain c' p where
    s: "sendInternal cs hs conf None rb c = (Ok (), c')" "cn_sending c' = Some p" "cn_channel c' = cn_channel c"
      "cn_receiving c' = cn_receiving c"
    by simp
  have "pipeline_step cs hs peer conf False c c'" using s c(2) by (auto intro: pipeline_step.send)
  with c(1) have "pipeline cs hs peer conf False new_connection c'" by (rule rtranclp.rtrancl_into_rtrancl)
  moreover have "length (pending c') = bc_MaxOpenRequests conf + 1"
    using s c(3,4) assms(4) by (auto simp: pending_def)
  ultimately show ?thesis by blast
qed

end
