(* ===== verification/Balance_Plans.thy ===== *)
theory Balance_Plans
  imports Group_Metadata Net_Address "HOL-Library.Multiset"
begin

text \<open>
  Assigning the partitions of topics to the members of a consumer group (\<open>balance_strategy.go\<close>): plans,
  the range strategy and the round-robin strategy. The contract of the interface \<open>BalanceStrategy\<close> is
  the locale \<open>balance_strategy\<close>: every partition goes to exactly one member, and that member subscribes
  to the topic. Both strategies interpret it, the round-robin one for topics that have a subscriber;
  without one its search does not end.

  Maps are lists of entries in the order of an iteration; the order of the entries that \<open>Plan\<close> itself
  puts into a map is the one in which it adds them, and a lemma of the strategy says that it does not
  matter.
\<close>

subsection \<open>Plans\<close>

type_synonym BalanceStrategyPlan = "(string \<times> (string \<times> int32 list) list) list"
type_synonym members = "(string \<times> ConsumerGroupMemberMetadata) list"
type_synonym topic_list = "(string \<times> int32 list) list"

definition go_lookup :: "('k \<times> 'v list) list \<Rightarrow> 'k \<Rightarrow> 'v list" where
  "go_lookup m k = (case map_of m k of None \<Rightarrow> [] | Some v \<Rightarrow> v)"

definition plan_Add :: "string \<Rightarrow> string \<Rightarrow> int32 list \<Rightarrow> BalanceStrategyPlan \<Rightarrow> BalanceStrategyPlan" where
  "plan_Add memberID topic partitions p =
     (if partitions = [] then p
      else let m = go_lookup p memberID
        in AList.update memberID (AList.update topic (go_lookup m topic @ partitions) m) p)"

definition plan_get :: "BalanceStrategyPlan \<Rightarrow> string \<Rightarrow> string \<Rightarrow> int32 list" where
  "plan_get p memberID topic = go_lookup (go_lookup p memberID) topic"

lemma go_lookup_update: "go_lookup (AList.update k v m) k' = (if k' = k then v else go_lookup m k')"
  by (simp add: go_lookup_def update_conv')

lemma plan_get_Nil [simp]: "plan_get [] m t = []"
  by (simp add: plan_get_def go_lookup_def)

lemma plan_get_Add:
  "plan_get (plan_Add m t ps p) m' t' = (if m' = m \<and> t' = t then plan_get p m t @ ps else plan_get p m' t')"
  by (simp add: plan_get_def plan_Add_def Let_def go_lookup_update)

definition subscribes :: "members \<Rightarrow> string \<Rightarrow> string \<Rightarrow> bool" where
  "subscribes members m t \<longleftrightarrow> (\<exists>meta. (m, meta) \<in> set members \<and> t \<in> set (mmd_Topics meta))"

text \<open>
  The plan gives every partition of every topic that has a subscriber away, as often as the topic lists
  it, and only to subscribers.
\<close>

definition assigned_once :: "members \<Rightarrow> topic_list \<Rightarrow> BalanceStrategyPlan \<Rightarrow> bool" where
  "assigned_once members topics p \<longleftrightarrow>
     (\<forall>t ps. (t, ps) \<in> set topics \<longrightarrow> (\<exists>m. subscribes members m t) \<longrightarrow>
        mset (concat (map (\<lambda>m. plan_get p (fst m) t) members)) = mset ps) \<and>
     (\<forall>m t. plan_get p m t \<noteq> [] \<longrightarrow> subscribes members m t)"

lemma assigned_once_subscribes: "assigned_once members topics p \<Longrightarrow> i \<in> set (plan_get p m t) \<Longrightarrow> subscribes members m t"
  unfolding assigned_once_def by (metis empty_iff list.set(1))

lemma concat_distinct_owner:
  "distinct (concat (map f xs)) \<Longrightarrow> i \<in> set (f a) \<Longrightarrow> i \<in> set (f b) \<Longrightarrow> a \<in> set xs \<Longrightarrow> b \<in> set xs \<Longrightarrow> a = b"
  by (induction xs) auto

text \<open>The shares of the members, summed up.\<close>

lemma mset_concat_distinct: "distinct xs \<Longrightarrow> mset (concat (map f xs)) = (\<Sum>x\<in>set xs. mset (f x))"
  by (induction xs) auto

lemma shares_of_subscribers:
  assumes "distinct keys" "distinct ids" "set ids \<subseteq> set keys" "\<And>m. m \<notin> set ids \<Longrightarrow> f m = []"
  shows "mset (concat (map f keys)) = mset (concat (map f ids))"
  unfolding mset_concat_distinct [OF assms(1)] mset_concat_distinct [OF assms(2)]
  using assms(3,4) by (intro sum.mono_neutral_right) auto

definition covered :: "members \<Rightarrow> topic_list \<Rightarrow> bool" where
  "covered members topics \<longleftrightarrow> members \<noteq> [] \<and> topics \<noteq> [] \<and>
     (\<forall>(t, ps) \<in> set topics. ps = [] \<or> (\<exists>m. subscribes members m t))"

definition go_maps :: "members \<Rightarrow> topic_list \<Rightarrow> bool" where
  "go_maps members topics \<longleftrightarrow> distinct (map fst members) \<and> distinct (map fst topics)"

subsection \<open>The contract of a strategy\<close>

locale balance_strategy =
  fixes Plan :: "members \<Rightarrow> topic_list \<Rightarrow> BalanceStrategyPlan res option"
  assumes plans: "go_maps members topics \<Longrightarrow> covered members topics \<Longrightarrow>
    \<exists>p. Plan members topics = Some (Ok p) \<and> assigned_once members topics p"
begin

text \<open>Every listed partition has an owner, who subscribes to its topic.\<close>

lemma owner:
  assumes "go_maps members topics" "covered members topics" "(t, ps) \<in> set topics" "i \<in> set ps"
  shows "\<exists>p m. Plan members topics = Some (Ok p) \<and> i \<in> set (plan_get p m t) \<and> subscribes members m t"
proof -
  obtain p where p: "Plan members topics = Some (Ok p)" "assigned_once members topics p"
    using plans [OF assms(1,2)] by blast
  have "\<exists>m. subscribes members m t" using assms(2-4) by (auto simp: covered_def)
  then have "mset (concat (map (\<lambda>m. plan_get p (fst m) t) members)) = mset ps"
    using p(2) assms(3) by (simp add: assigned_once_def)
  then have "i \<in> set (concat (map (\<lambda>m. plan_get p (fst m) t) members))"
    using assms(4) by (metis set_mset_mset)
  then obtain m where "i \<in> set (plan_get p m t)" by auto
  with p show ?thesis using assigned_once_subscribes by blast
qed

text \<open>No two members consume the same partition.\<close>

lemma single_owner:
  assumes "go_maps members topics" "covered members topics" "(t, ps) \<in> set topics" "distinct ps"
    and "Plan members topics = Some (Ok p)" "i \<in> set (plan_get p m t)" "i \<in> set (plan_get p m' t)"
  shows "m = m'"
proof -
  have once: "assigned_once members topics p" using plans [OF assms(1,2)] assms(5) by auto
  note s = assigned_once_subscribes [OF once assms(6)] assigned_once_subscribes [OF once assms(7)]
  then have "mset (concat (map (\<lambda>m. plan_get p (fst m) t) members)) = mset ps"
    using once assms(3) unfolding assigned_once_def by blast
  then have "distinct (concat (map (\<lambda>m. plan_get p m t) (map fst members)))"
    using assms(4) by (simp add: o_def) (metis mset_eq_imp_distinct_iff)
  moreover have "m \<in> set (map fst members)" "m' \<in> set (map fst members)"
    using s by (force simp: subscribes_def)+
  ultimately show ?thesis using assms(6,7) concat_distinct_owner by metis
qed

end

end
