(* ===== verification/Balance_Range.thy ===== *)
theory Balance_Range
  imports Balance_Plans
begin

text \<open>
  The range strategy (\<open>NewBalanceStrategyRange\<close> and \<open>balanceStrategy.Plan\<close> of \<open>balance_strategy.go\<close>):
  the partitions of a topic are cut into as many runs as the topic has subscribers, and the runs are
  given to the subscribers in the order of their ids.
\<close>

subsection \<open>Subscribers of a topic\<close>

definition members_by_topic :: "members \<Rightarrow> (string \<times> string list) list" where
  "members_by_topic members =
     foldl (\<lambda>mbt (memberID, meta).
       foldl (\<lambda>mbt topic. AList.update topic (go_lookup mbt topic @ [memberID]) mbt) mbt (mmd_Topics meta))
     [] members"

text \<open>\<open>uniq\<close> sorts the ids and moves the first of every run of equal ones to the front.\<close>

definition swap :: "nat \<Rightarrow> nat \<Rightarrow> 'a list \<Rightarrow> 'a list" where
  "swap i j ss = ss[i := ss ! j, j := ss ! i]"

function uniq_loop :: "nat \<Rightarrow> nat \<Rightarrow> string list \<Rightarrow> string list" where
  "uniq_loop i j ss =
     (if i < length ss then
        if ss ! i = ss ! j then uniq_loop (Suc i) j ss
        else uniq_loop (Suc i) (Suc j) (swap i (Suc j) ss)
      else take (Suc j) ss)"
  by auto
termination by (relation "measure (\<lambda>(i, j, ss). length ss - i)") (auto simp: swap_def)

declare uniq_loop.simps [simp del]

definition uniq :: "string list \<Rightarrow> string list" where
  "uniq ss = (if length ss < 2 then ss else uniq_loop 1 0 (sort ss))"

lemma uniq_loop_correct:
  assumes "sorted orig" "0 < i" "j < i" "i \<le> length orig" "length ss = length orig"
    and "drop i ss = drop i orig" "sorted_wrt (<) (take (Suc j) ss)" "set (take (Suc j) ss) = set (take i orig)"
  shows "sorted_wrt (<) (uniq_loop i j ss) \<and> set (uniq_loop i j ss) = set orig"
  using assms(2-)
proof (induction i j ss rule: uniq_loop.induct)
  case (1 i j ss)
  show ?case
  proof (cases "i < length ss")
    case False
    then have "uniq_loop i j ss = take (Suc j) ss" by (simp add: uniq_loop.simps [of i j ss])
    with False "1.prems" show ?thesis by simp
  next
    case True
    have i: "ss ! i = orig ! i" using "1.prems"(4,5) True by (metis hd_drop_conv_nth)
    have d: "drop (Suc i) ss = drop (Suc i) orig" using "1.prems"(5) by (metis drop_Suc tl_drop)
    have t: "set (take (Suc i) orig) = insert (orig ! i) (set (take i orig))"
      using True "1.prems"(4) by (simp add: take_Suc_conv_app_nth)
    have last: "x \<le> ss ! j" if "x \<in> set (take (Suc j) ss)" for x
      using that "1.prems"(2,4,6) True
      by (auto simp: take_Suc_conv_app_nth sorted_wrt_append)
    have le: "x \<le> orig ! i" if "x \<in> set (take (Suc j) ss)" for x
    proof -
      from that "1.prems"(7) obtain k where "k < i" "x = orig ! k"
        using True "1.prems"(4) by (auto simp: in_set_conv_nth)
      then show ?thesis using assms(1) True "1.prems"(4) by (simp add: sorted_nth_mono)
    qed
    have mem: "ss ! j \<in> set (take (Suc j) ss)"
      using "1.prems"(2,4) True by (auto simp: in_set_conv_nth intro!: exI [of _ j])
    show ?thesis
    proof (cases "ss ! i = ss ! j")
      case eq: True
      have "sorted_wrt (<) (uniq_loop (Suc i) j ss) \<and> set (uniq_loop (Suc i) j ss) = set orig"
        using "1.IH"(1) [OF True eq] "1.prems" True d t eq i mem by auto
      then show ?thesis using True eq by (simp add: uniq_loop.simps [of i j ss])
    next
      case ne: False
      let ?ss = "swap i (Suc j) ss"
      have j: "Suc j \<le> i" using "1.prems"(2) by simp
      have s: "take (Suc (Suc j)) ?ss = take (Suc j) ss @ [ss ! i]"
        using True j "1.prems"(4)
        by (intro nth_equalityI) (auto simp: swap_def nth_list_update nth_append less_Suc_eq)
      have "drop (Suc i) ?ss = drop (Suc i) orig" using d j by (simp add: swap_def)
      moreover have "x < ss ! i" if "x \<in> set (take (Suc j) ss)" for x
        using last [OF that] le [OF that] le [OF mem] ne i by (metis le_less_trans order.not_eq_order_implies_strict)
      then have "sorted_wrt (<) (take (Suc (Suc j)) ?ss)"
        unfolding s using "1.prems"(6) by (simp add: sorted_wrt_append)
      moreover have "set (take (Suc (Suc j)) ?ss) = set (take (Suc i) orig)"
        unfolding s t using "1.prems"(7) i by simp
      ultimately have "sorted_wrt (<) (uniq_loop (Suc i) (Suc j) ?ss) \<and> set (uniq_loop (Suc i) (Suc j) ?ss) = set orig"
        using "1.IH"(2) [OF True ne] "1.prems" True by (simp add: swap_def)
      then show ?thesis using True ne by (simp add: uniq_loop.simps [of i j ss])
    qed
  qed
qed

text \<open>The ids, each once, in ascending order.\<close>

lemma uniq_eq: "uniq ss = sorted_list_of_set (set ss)"
proof (cases "length ss < 2")
  case True
  then show ?thesis by (cases ss) (auto simp: uniq_def)
next
  case False
  then have "take (Suc 0) (sort ss) = [hd (sort ss)]"
    by (metis length_greater_0_conv length_sort linorder_not_less not_less_zero take0 take_Suc zero_less_numeral less_le_trans)
  with False have "sorted_wrt (<) (uniq_loop 1 0 (sort ss)) \<and> set (uniq_loop 1 0 (sort ss)) = set (sort ss)"
    by (intro uniq_loop_correct) simp_all
  then show ?thesis
    using False by (simp add: uniq_def strict_sorted_iff sorted_distinct_set_unique)
qed

lemma inner_lookup:
  "go_lookup (foldl (\<lambda>mbt topic. AList.update topic (go_lookup mbt topic @ [m]) mbt) mbt ts) t =
     go_lookup mbt t @ replicate (count_list ts t) m"
  by (induction ts arbitrary: mbt) (auto simp: go_lookup_update replicate_append_same)

lemma inner_keys:
  "distinct (map fst mbt) \<Longrightarrow>
   distinct (map fst (foldl (\<lambda>mbt topic. AList.update topic (go_lookup mbt topic @ [m]) mbt) mbt ts))"
  "fst ` set (foldl (\<lambda>mbt topic. AList.update topic (go_lookup mbt topic @ [m]) mbt) mbt ts) = fst ` set mbt \<union> set ts"
  by (induction ts arbitrary: mbt) (auto simp: distinct_update dom_update)

lemma members_by_topic_snoc:
  "members_by_topic (ms @ [(m, meta)]) =
     foldl (\<lambda>mbt topic. AList.update topic (go_lookup mbt topic @ [m]) mbt) (members_by_topic ms) (mmd_Topics meta)"
  by (simp add: members_by_topic_def)

lemma members_by_topic_keys:
  "distinct (map fst (members_by_topic ms))"
  "fst ` set (members_by_topic ms) = {t. \<exists>m. subscribes ms m t}"
proof (induction ms rule: rev_induct)
  case (snoc x ms)
  obtain m meta where "x = (m, meta)" by fastforce
  with snoc show "distinct (map fst (members_by_topic (ms @ [x])))"
    "fst ` set (members_by_topic (ms @ [x])) = {t. \<exists>m. subscribes (ms @ [x]) m t}"
    by (auto simp: members_by_topic_snoc inner_keys subscribes_def)
qed (simp_all add: members_by_topic_def subscribes_def)

lemma members_by_topic_lookup: "set (go_lookup (members_by_topic ms) t) = {m. subscribes ms m t}"
proof (induction ms rule: rev_induct)
  case (snoc x ms)
  obtain m meta where "x = (m, meta)" by fastforce
  with snoc show ?case
    by (auto simp: members_by_topic_snoc inner_lookup subscribes_def count_list_0_iff)
qed (simp add: members_by_topic_def go_lookup_def subscribes_def)

subsection \<open>The runs\<close>

definition range_min :: "nat \<Rightarrow> nat \<Rightarrow> nat \<Rightarrow> nat" where
  "range_min partitionsPerConsumer consumersWithExtraPartition i =
     i * partitionsPerConsumer + min consumersWithExtraPartition i"

definition range_run :: "nat \<Rightarrow> nat \<Rightarrow> int32 list \<Rightarrow> int32 list" where
  "range_run k i partitions =
     (let partitionsPerConsumer = length partitions div k;
          consumersWithExtraPartition = length partitions mod k;
          lo = range_min partitionsPerConsumer consumersWithExtraPartition i;
          extra = (if i < consumersWithExtraPartition then 1 else 0);
          hi = lo + partitionsPerConsumer + extra
      in take (hi - lo) (drop lo partitions))"

text \<open>The body of the strategy; a topic has at least one member here.\<close>

definition range_core :: "BalanceStrategyPlan \<Rightarrow> string list \<Rightarrow> string \<Rightarrow> int32 list \<Rightarrow> BalanceStrategyPlan" where
  "range_core plan memberIDs topic partitions =
     foldl (\<lambda>plan (i, memberID). plan_Add memberID topic (range_run (length memberIDs) i partitions) plan)
       plan (enumerate 0 (sort memberIDs))"

definition range_plan :: "topic_list \<Rightarrow> (string \<times> string list) list \<Rightarrow> BalanceStrategyPlan" where
  "range_plan topics mbt =
     foldl (\<lambda>plan (topic, memberIDs). range_core plan (uniq memberIDs) topic (go_lookup topics topic)) [] mbt"

definition Plan_range :: "members \<Rightarrow> topic_list \<Rightarrow> BalanceStrategyPlan res option" where
  "Plan_range members topics = Some (Ok (range_plan topics (members_by_topic members)))"

lemma range_run_length: "i < k \<Longrightarrow> length (range_run k i ps) = length ps div k + (if i < length ps mod k then 1 else 0)"
  and range_runs: "0 < k \<Longrightarrow> concat (map (\<lambda>i. range_run k i ps) [0..<k]) = ps"
proof -
  define q r where "q = length ps div k" and "r = length ps mod k"
  have n: "length ps = k * q + r" by (simp add: q_def r_def)
  let ?lo = "range_min q r"
  have hi: "?lo i + q + (if i < r then 1 else 0) = ?lo (Suc i)" for i by (simp add: range_min_def)
  have run: "range_run k i ps = take (?lo (Suc i) - ?lo i) (drop (?lo i) ps)" for i
    unfolding hi [symmetric] by (simp add: range_run_def Let_def q_def r_def)
  have mono: "?lo i \<le> ?lo j" if "i \<le> j" for i j using that by (simp add: range_min_def add_mono)
  have top: "?lo k = length ps" if "0 < k"
  proof -
    have "r < k" using that by (simp add: r_def)
    then show ?thesis unfolding n range_min_def by simp
  qed
  show "length (range_run k i ps) = length ps div k + (if i < length ps mod k then 1 else 0)" if "i < k"
  proof -
    have "?lo (Suc i) \<le> length ps" using top mono [of "Suc i" k] that by simp
    then show ?thesis using hi [of i] by (simp add: run q_def [symmetric] r_def [symmetric])
  qed
  have "concat (map (\<lambda>i. range_run k i ps) [0..<m]) = take (?lo m) ps" for m
  proof (induction m)
    case (Suc m)
    then show ?case using mono [of m "Suc m"] by (simp add: run take_add [symmetric])
  qed (simp add: range_min_def)
  from this [of k] show "concat (map (\<lambda>i. range_run k i ps) [0..<k]) = ps" if "0 < k"
    using top [OF that] by simp
qed

text \<open>What a member gets of a topic.\<close>

definition range_share :: "string list \<Rightarrow> int32 list \<Rightarrow> string \<Rightarrow> int32 list" where
  "range_share ids ps m = concat (map (\<lambda>(i, id). if id = m then range_run (length ids) i ps else []) (enumerate 0 ids))"

lemma plan_get_adds:
  "plan_get (foldl (\<lambda>plan (i, id). plan_Add id t (f i) plan) plan xs) m t' =
     plan_get plan m t' @ (if t' = t then concat (map (\<lambda>(i, id). if id = m then f i else []) xs) else [])"
  by (induction xs arbitrary: plan) (auto simp: plan_get_Add)

lemma plan_get_range_core:
  "sorted ids \<Longrightarrow> plan_get (range_core plan ids t ps) m t' =
     plan_get plan m t' @ (if t' = t then range_share ids ps m else [])"
  unfolding range_core_def plan_get_adds by (simp add: range_share_def sorted_sort_id)

lemma plan_get_range:
  "plan_get (range_plan topics mbt) m t =
     concat (map (\<lambda>(topic, ids). if topic = t then range_share (uniq ids) (go_lookup topics t) m else []) mbt)"
proof -
  have "plan_get (foldl (\<lambda>plan (topic, ids). range_core plan (uniq ids) topic (go_lookup topics topic)) plan mbt) m t =
      plan_get plan m t @ concat (map (\<lambda>(topic, ids). if topic = t then range_share (uniq ids) (go_lookup topics t) m else []) mbt)"
    for plan
  proof (induction mbt arbitrary: plan)
    case (Cons e mbt)
    obtain t1 ids where "e = (t1, ids)" by fastforce
    with Cons show ?case by (simp add: plan_get_range_core uniq_eq)
  qed simp
  then show ?thesis by (simp add: range_plan_def)
qed

lemma concat_single:
  "distinct (map fst es) \<Longrightarrow> concat (map (\<lambda>(k, v). if k = t then f v else []) es) =
     (case map_of es t of None \<Rightarrow> [] | Some v \<Rightarrow> f v)"
proof (induction es)
  case (Cons e es)
  obtain k v where e: "e = (k, v)" by fastforce
  have "map_of es t = None" if "k = t" using Cons.prems e that by (auto simp: map_of_eq_None_iff)
  with Cons e show ?case by (auto split: option.splits)
qed simp

text \<open>The subscribers of a topic in the order of their ids, and the plan in terms of them.\<close>

definition subscribers :: "members \<Rightarrow> string \<Rightarrow> string list" where
  "subscribers members t = sorted_list_of_set {m. subscribes members m t}"

lemma finite_subscribers: "finite {m. subscribes members m t}"
proof -
  have "{m. subscribes members m t} \<subseteq> fst ` set members" by (force simp: subscribes_def)
  then show ?thesis by (rule finite_subset) simp
qed

lemma Plan_range_get:
  "plan_get (range_plan topics (members_by_topic members)) m t =
     range_share (subscribers members t) (go_lookup topics t) m"
proof (cases "map_of (members_by_topic members) t")
  case None
  then have "{m. subscribes members m t} = {}"
    using members_by_topic_lookup [of members t] by (simp add: go_lookup_def)
  with None show ?thesis
    by (simp add: plan_get_range concat_single members_by_topic_keys subscribers_def range_share_def enumerate_eq_zip)
next
  case (Some ids)
  then have "set ids = {m. subscribes members m t}"
    using members_by_topic_lookup [of members t] by (simp add: go_lookup_def)
  with Some show ?thesis
    by (simp add: plan_get_range concat_single members_by_topic_keys subscribers_def uniq_eq)
qed

lemma range_share_nth:
  assumes "distinct ids" "i < length ids"
  shows "range_share ids ps (ids ! i) = range_run (length ids) i ps"
proof -
  have "enumerate 0 ids = map (\<lambda>j. (j, ids ! j)) [0..<length ids]"
    by (intro nth_equalityI) (simp_all add: nth_enumerate_eq)
  then have "range_share ids ps (ids ! i) =
      concat (map (\<lambda>(j, _). if j = i then range_run (length ids) i ps else []) (map (\<lambda>j. (j, ())) [0..<length ids]))"
    using assms by (auto simp: range_share_def o_def nth_eq_iff_index_eq intro!: arg_cong [of _ _ concat])
  also have "\<dots> = range_run (length ids) i ps"
    using assms(2) by (subst concat_single) (simp_all add: o_def map_of_eq_Some_iff split: option.splits)
  finally show ?thesis .
qed

lemma range_share_outside: "m \<notin> set ids \<Longrightarrow> range_share ids ps m = []"
  by (auto simp: range_share_def in_set_enumerate_eq)

lemma range_shares:
  assumes "distinct ids" "ids \<noteq> []"
  shows "concat (map (range_share ids ps) ids) = ps"
proof -
  have "map (range_share ids ps) ids = map (\<lambda>i. range_run (length ids) i ps) [0..<length ids]"
    by (intro nth_equalityI) (simp_all add: range_share_nth assms)
  then show ?thesis using assms(2) by (simp add: range_runs)
qed

subsection \<open>The plan\<close>

lemma subscribers_simps [simp]:
  "distinct (subscribers members t)" "sorted (subscribers members t)"
  "set (subscribers members t) = {m. subscribes members m t}"
  by (simp_all add: subscribers_def finite_subscribers)

lemma range_plan_assigned_once:
  assumes "go_maps members topics"
  shows "assigned_once members topics (range_plan topics (members_by_topic members))"
  unfolding assigned_once_def Plan_range_get
proof (intro conjI allI impI)
  fix t ps assume t: "(t, ps) \<in> set topics" and "\<exists>m. subscribes members m t"
  then have ne: "subscribers members t \<noteq> []" by (metis empty_set mem_Collect_eq empty_iff subscribers_simps(3))
  have ps: "go_lookup topics t = ps" using t assms by (simp add: go_lookup_def go_maps_def)
  have "mset (concat (map (range_share (subscribers members t) ps) (map fst members))) =
      mset (concat (map (range_share (subscribers members t) ps) (subscribers members t)))"
    using assms by (intro shares_of_subscribers) (auto simp: go_maps_def subscribes_def range_share_outside intro: rev_image_eqI)
  also have "\<dots> = mset ps" using ne by (simp add: range_shares)
  finally show "mset (concat (map (\<lambda>m. range_share (subscribers members t) (go_lookup topics t) (fst m)) members)) = mset ps"
    by (simp add: ps o_def)
next
  fix m t assume "range_share (subscribers members t) (go_lookup topics t) m \<noteq> []"
  then show "subscribes members m t" using range_share_outside by force
qed

interpretation range: balance_strategy Plan_range
  by unfold_locales (simp add: Plan_range_def range_plan_assigned_once)

text \<open>
  The subscribers of a topic, in the order of their ids, get consecutive runs of its partitions, whose
  lengths differ by at most one.
\<close>

lemma Plan_range_runs:
  assumes "go_maps members topics" "(t, ps) \<in> set topics" "\<exists>m. subscribes members m t"
    and "Plan_range members topics = Some (Ok p)"
  shows "concat (map (\<lambda>m. plan_get p m t) (subscribers members t)) = ps"
proof -
  have "subscribers members t \<noteq> []" using assms(3) by (metis empty_set mem_Collect_eq empty_iff subscribers_simps(3))
  moreover have "go_lookup topics t = ps" using assms(1,2) by (simp add: go_lookup_def go_maps_def)
  ultimately show ?thesis using assms(4) by (auto simp: Plan_range_def Plan_range_get range_shares)
qed

lemma Plan_range_fair:
  assumes "Plan_range members topics = Some (Ok p)" "subscribes members m t" "subscribes members m' t"
  shows "length (plan_get p m t) \<le> length (plan_get p m' t) + 1"
proof -
  have "m \<in> set (subscribers members t)" "m' \<in> set (subscribers members t)" using assms(2,3) by simp_all
  then obtain i j where "i < length (subscribers members t)" "m = subscribers members t ! i"
      "j < length (subscribers members t)" "m' = subscribers members t ! j"
    by (metis in_set_conv_nth)
  with assms(1) show ?thesis by (auto simp: Plan_range_def Plan_range_get range_share_nth range_run_length)
qed

text \<open>The order in which the map of topics is iterated does not change what a member gets.\<close>

lemma range_plan_order:
  assumes "mset mbt = mset mbt'" "distinct (map fst mbt)"
  shows "plan_get (range_plan topics mbt) m t = plan_get (range_plan topics mbt') m t"
proof -
  have "distinct (map fst mbt')" using assms by (metis mset_eq_imp_distinct_iff mset_map)
  moreover have "map_of mbt = map_of mbt'" using assms calculation by (metis map_of_eqI map_of_inject_set mset_eq_setD)
  ultimately show ?thesis using assms(2) by (simp add: plan_get_range concat_single)
qed

end
