(* ===== verification/Balance_RoundRobin.thy ===== *)
theory Balance_RoundRobin
  imports Balance_Plans
begin

text \<open>
  The round-robin strategy (\<open>roundRobinBalancer.Plan\<close> of \<open>balance_strategy.go\<close>): the partitions of all
  topics, in the order of the strings \<open>topic-partition\<close>, are given in turn to the members in the order of
  their ids; a member that does not subscribe to the topic is passed over. The search for the next
  subscriber is a partial function, whose value is \<open>None\<close> if it does not return: that is so exactly if
  nobody subscribes to the topic.
\<close>

record topicAndPartition =
  tap_topic :: string
  tap_partition :: int32

definition comparedValue :: "topicAndPartition \<Rightarrow> string" where
  "comparedValue tp = tap_topic tp @ ''-'' @ show_int (sint (tap_partition tp))"

record memberAndTopic =
  mat_memberID :: string
  mat_topics :: "string list"

definition hasTopic :: "memberAndTopic \<Rightarrow> string \<Rightarrow> bool" where
  "hasTopic m topic \<longleftrightarrow> topic \<in> set (mat_topics m)"

partial_function (option) next_subscriber :: "memberAndTopic list \<Rightarrow> string \<Rightarrow> nat \<Rightarrow> nat option" where
  "next_subscriber ms topic i =
     (if hasTopic (ms ! (i mod length ms)) topic then Some i else next_subscriber ms topic (Suc i))"

primrec assign_partitions ::
  "memberAndTopic list \<Rightarrow> nat \<Rightarrow> BalanceStrategyPlan \<Rightarrow> topicAndPartition list \<Rightarrow> BalanceStrategyPlan option" where
  "assign_partitions ms i plan [] = Some plan"
| "assign_partitions ms i plan (tp # tps) =
     (case next_subscriber ms (tap_topic tp) i of
        None \<Rightarrow> None
      | Some j \<Rightarrow> assign_partitions ms (Suc j)
          (plan_Add (mat_memberID (ms ! (j mod length ms))) (tap_topic tp) [tap_partition tp] plan) tps)"

definition topic_partitions :: "topic_list \<Rightarrow> topicAndPartition list" where
  "topic_partitions topics =
     concat (map (\<lambda>(topic, partitions). map (\<lambda>p. \<lparr>tap_topic = topic, tap_partition = p\<rparr>) partitions) topics)"

definition sorted_members :: "members \<Rightarrow> memberAndTopic list" where
  "sorted_members members =
     sort_key mat_memberID (map (\<lambda>(memberID, meta). \<lparr>mat_memberID = memberID, mat_topics = mmd_Topics meta\<rparr>) members)"

definition Plan_roundrobin :: "members \<Rightarrow> topic_list \<Rightarrow> BalanceStrategyPlan res option" where
  "Plan_roundrobin members topics =
     (if members = [] \<or> topics = [] then Some (Err (OtherError ''members and topics are not provided''))
      else map_option Ok
        (assign_partitions (sorted_members members) 0 [] (sort_key comparedValue (topic_partitions topics))))"

subsection \<open>The search for a subscriber\<close>

lemma next_subscriber_here:
  "hasTopic (ms ! (i mod length ms)) topic \<Longrightarrow> next_subscriber ms topic i = Some i"
  by (subst next_subscriber.simps) simp

lemma next_subscriber_sound:
  "next_subscriber ms topic i = Some j \<Longrightarrow> hasTopic (ms ! (j mod length ms)) topic"
  by (rule next_subscriber.raw_induct [where P = "\<lambda>ms topic i j. hasTopic (ms ! (j mod length ms)) topic"])
     (auto split: if_splits)

lemma next_subscriber_upto:
  "hasTopic (ms ! ((i + d) mod length ms)) topic \<Longrightarrow> \<exists>j. next_subscriber ms topic i = Some j"
proof (induction d arbitrary: i)
  case (Suc d)
  then have "\<exists>j. next_subscriber ms topic (Suc i) = Some j" by simp
  then show ?case by (subst next_subscriber.simps) simp
qed (simp add: next_subscriber_here)

lemma next_subscriber_returns:
  assumes "ms \<noteq> []"
  shows "(\<exists>j. next_subscriber ms topic i = Some j) \<longleftrightarrow> (\<exists>m\<in>set ms. hasTopic m topic)"
proof
  assume "\<exists>m\<in>set ms. hasTopic m topic"
  then obtain k where k: "k < length ms" "hasTopic (ms ! k) topic" by (metis in_set_conv_nth)
  have "i \<le> length ms * i" using assms by (cases ms) simp_all
  then have "i + (k + length ms * i - i) = k + length ms * i" by linarith
  then have "(i + (k + length ms * i - i)) mod length ms = k" using k(1) by simp
  with k(2) show "\<exists>j. next_subscriber ms topic i = Some j" by (metis next_subscriber_upto)
next
  assume "\<exists>j. next_subscriber ms topic i = Some j"
  then show "\<exists>m\<in>set ms. hasTopic m topic"
    using next_subscriber_sound assms by (metis length_greater_0_conv mod_less_divisor nth_mem)
qed

subsection \<open>What is assigned\<close>

definition plan_of_topic :: "BalanceStrategyPlan \<Rightarrow> string list \<Rightarrow> string \<Rightarrow> int32 multiset" where
  "plan_of_topic p keys t = mset (concat (map (\<lambda>m. plan_get p m t) keys))"

lemma plan_of_topic_Add:
  assumes "distinct keys" "m \<in> set keys"
  shows "plan_of_topic (plan_Add m t ps p) keys t' = plan_of_topic p keys t' + (if t' = t then mset ps else {#})"
proof -
  have "mset (plan_get (plan_Add m t ps p) k t') =
      mset (plan_get p k t') + (if k = m then if t' = t then mset ps else {#} else {#})" for k
    by (simp add: plan_get_Add)
  then show ?thesis using assms by (simp add: plan_of_topic_def mset_concat_distinct sum.distrib sum.delta)
qed

lemma assign_partitions_returns:
  assumes "ms \<noteq> []"
  shows "(\<exists>p. assign_partitions ms i plan tps = Some p) \<longleftrightarrow> (\<forall>tp\<in>set tps. \<exists>m\<in>set ms. hasTopic m (tap_topic tp))"
proof (induction tps arbitrary: i plan)
  case (Cons tp tps)
  show ?case
    using next_subscriber_returns [OF assms, of "tap_topic tp" i] Cons
    by (cases "next_subscriber ms (tap_topic tp) i") auto
qed simp

lemma assign_partitions_all:
  assumes "distinct keys" "mat_memberID ` set ms \<subseteq> set keys" "ms \<noteq> []" "assign_partitions ms i plan tps = Some p"
  shows "plan_of_topic p keys t = plan_of_topic plan keys t + mset (map tap_partition (filter (\<lambda>tp. tap_topic tp = t) tps))"
  using assms(4)
proof (induction tps arbitrary: i plan)
  case (Cons tp tps)
  then obtain j where j: "next_subscriber ms (tap_topic tp) i = Some j" by (auto split: option.splits)
  have "mat_memberID (ms ! (j mod length ms)) \<in> set keys" using assms(2,3) by (force intro: nth_mem)
  with j Cons show ?case by (auto simp: plan_of_topic_Add [OF assms(1)])
qed simp

lemma assign_partitions_subscribers:
  assumes "ms \<noteq> []" "assign_partitions ms i plan tps = Some p"
    and "\<And>m t. plan_get plan m t \<noteq> [] \<Longrightarrow> \<exists>mt\<in>set ms. mat_memberID mt = m \<and> hasTopic mt t"
  shows "plan_get p m t \<noteq> [] \<Longrightarrow> \<exists>mt\<in>set ms. mat_memberID mt = m \<and> hasTopic mt t"
  using assms(2,3)
proof (induction tps arbitrary: i plan)
  case (Cons tp tps)
  then obtain j where j: "next_subscriber ms (tap_topic tp) i = Some j" by (auto split: option.splits)
  have mem: "ms ! (j mod length ms) \<in> set ms" using assms(1) by simp
  show ?case
  proof (rule Cons.IH)
    show "assign_partitions ms (Suc j)
        (plan_Add (mat_memberID (ms ! (j mod length ms))) (tap_topic tp) [tap_partition tp] plan) tps = Some p"
      using Cons.prems(2) j by simp
    show "\<exists>mt\<in>set ms. mat_memberID mt = m' \<and> hasTopic mt t'"
      if "plan_get (plan_Add (mat_memberID (ms ! (j mod length ms))) (tap_topic tp) [tap_partition tp] plan) m' t' \<noteq> []"
      for m' t'
      using that Cons.prems(3) next_subscriber_sound [OF j] mem by (auto simp: plan_get_Add split: if_splits)
  qed (rule Cons.prems(1))
qed simp

subsection \<open>The plan\<close>

lemma sorted_members_subscribes:
  "(\<exists>mt\<in>set (sorted_members members). mat_memberID mt = m \<and> hasTopic mt t) \<longleftrightarrow> subscribes members m t"
  by (force simp: sorted_members_def hasTopic_def subscribes_def)

lemma sorted_members_mset: "mset (map mat_memberID (sorted_members members)) = mset (map fst members)"
  by (simp add: sorted_members_def image_mset.compositionality o_def case_prod_unfold)

lemma sorted_members_ids: "mat_memberID ` set (sorted_members members) = set (map fst members)"
  by (force simp: sorted_members_def)

lemma sorted_members_Nil [simp]: "sorted_members members = [] \<longleftrightarrow> members = []"
  using sorted_members_mset [of members] by (metis map_is_Nil_conv mset_zero_iff)

lemma topic_partitions_Cons:
  "map tap_partition (filter (\<lambda>tp. tap_topic tp = t) (topic_partitions ((t1, ps) # topics))) =
     (if t1 = t then ps else []) @ map tap_partition (filter (\<lambda>tp. tap_topic tp = t) (topic_partitions topics))"
  by (simp add: topic_partitions_def filter_map o_def)

lemma topic_partitions_of:
  "map tap_partition (filter (\<lambda>tp. tap_topic tp = t) (topic_partitions topics)) =
     concat (map snd (filter (\<lambda>e. fst e = t) topics))"
proof (induction topics)
  case (Cons e topics)
  then show ?case by (cases e) (simp add: topic_partitions_Cons)
qed (simp add: topic_partitions_def)

lemma single_entry: "distinct (map fst es) \<Longrightarrow> (k, v) \<in> set es \<Longrightarrow> filter (\<lambda>e. fst e = k) es = [(k, v)]"
proof (induction es)
  case (Cons e es)
  have "filter (\<lambda>e. fst e = k) es = []" if "fst e = k"
    using that Cons.prems(1) by (auto simp: filter_empty_conv intro: rev_image_eqI)
  then show ?case using Cons by (cases "fst e = k") (auto intro: rev_image_eqI)
qed simp

lemma ball_topic_partitions:
  "(\<forall>tp\<in>set (topic_partitions topics). P (tap_topic tp)) \<longleftrightarrow> (\<forall>(t, ps)\<in>set topics. ps = [] \<or> P t)"
proof (induction topics)
  case (Cons e topics)
  obtain t ps where "e = (t, ps)" by fastforce
  moreover have "topic_partitions ((t, ps) # topics) =
      map (\<lambda>p. \<lparr>tap_topic = t, tap_partition = p\<rparr>) ps @ topic_partitions topics"
    by (simp add: topic_partitions_def)
  ultimately show ?case using Cons by (cases ps) (simp_all add: ball_Un, blast)
qed (simp add: topic_partitions_def)

lemma Plan_roundrobin_returns:
  "(\<exists>r. Plan_roundrobin members topics = Some r) \<longleftrightarrow>
     members = [] \<or> topics = [] \<or> covered members topics"
proof (cases "members = [] \<or> topics = []")
  case False
  then have "(\<exists>r. Plan_roundrobin members topics = Some r) \<longleftrightarrow>
      (\<forall>tp\<in>set (topic_partitions topics). \<exists>m\<in>set (sorted_members members). hasTopic m (tap_topic tp))"
    using assign_partitions_returns [of "sorted_members members"] by (simp add: Plan_roundrobin_def)
  also have "\<dots> \<longleftrightarrow> covered members topics"
    using False sorted_members_subscribes [of members]
      ball_topic_partitions [of topics "\<lambda>t. \<exists>m\<in>set (sorted_members members). hasTopic m t"]
    by (simp add: covered_def flip: sorted_members_subscribes) blast
  finally show ?thesis using False by simp
qed (auto simp: Plan_roundrobin_def)

lemma Plan_roundrobin_assigned_once:
  assumes "go_maps members topics" "Plan_roundrobin members topics = Some (Ok p)"
  shows "assigned_once members topics p"
proof -
  let ?ms = "sorted_members members" and ?tps = "sort_key comparedValue (topic_partitions topics)"
  have p: "assign_partitions ?ms 0 [] ?tps = Some p" and ne: "?ms \<noteq> []"
    using assms(2) by (auto simp: Plan_roundrobin_def split: if_splits)
  have "mset (concat (map (\<lambda>m. plan_get p (fst m) t) members)) = mset ps" if "(t, ps) \<in> set topics" for t ps
  proof -
    have "plan_of_topic p (map fst members) t = mset (map tap_partition (filter (\<lambda>tp. tap_topic tp = t) ?tps))"
      using assms(1) assign_partitions_all [OF _ _ ne p, of "map fst members" t]
      by (simp add: go_maps_def sorted_members_ids plan_of_topic_def)
    also have "\<dots> = mset (map tap_partition (filter (\<lambda>tp. tap_topic tp = t) (topic_partitions topics)))"
      by (simp only: mset_map mset_filter mset_sort)
    also have "\<dots> = mset ps"
      using topic_partitions_of [of t topics] that assms(1) single_entry [of topics t ps]
      by (simp add: go_maps_def)
    finally show ?thesis by (simp add: plan_of_topic_def o_def)
  qed
  moreover have "subscribes members m t" if "plan_get p m t \<noteq> []" for m t
    using assign_partitions_subscribers [OF ne p _ that] by (simp add: sorted_members_subscribes)
  ultimately show ?thesis by (auto simp: assigned_once_def)
qed

interpretation roundrobin: balance_strategy Plan_roundrobin
proof
  fix members topics assume a: "go_maps members topics" "covered members topics"
  then obtain r where r: "Plan_roundrobin members topics = Some r" using Plan_roundrobin_returns by blast
  with a(2) obtain p where "r = Ok p" by (auto simp: Plan_roundrobin_def covered_def split: if_splits)
  with r a(1) show "\<exists>p. Plan_roundrobin members topics = Some (Ok p) \<and> assigned_once members topics p"
    using Plan_roundrobin_assigned_once by blast
qed

subsection \<open>Equal subscriptions\<close>

text \<open>If every member subscribes to every topic, nobody is passed over, and the loads differ by at most one.\<close>

definition plan_size :: "BalanceStrategyPlan \<Rightarrow> string \<Rightarrow> nat" where
  "plan_size p m = sum_list (map (length \<circ> snd) (go_lookup p m))"

lemma size_update:
  "sum_list (map (length \<circ> snd) (AList.update t (go_lookup m t @ ps) m)) = sum_list (map (length \<circ> snd) m) + length ps"
  by (induction m) (auto simp: go_lookup_def)

lemma plan_size_Add: "plan_size (plan_Add m t ps p) m' = plan_size p m' + (if m' = m then length ps else 0)"
  using size_update [of t "go_lookup p m" ps]
  by (auto simp: plan_size_def plan_Add_def Let_def go_lookup_update)

lemma turns_Suc:
  "a < n \<Longrightarrow> (Suc i div n + (if a < Suc i mod n then 1 else 0) :: nat) =
     i div n + (if a < i mod n then 1 else 0) + (if i mod n = a then 1 else 0)"
  by (auto simp: div_Suc mod_Suc)

lemma assign_partitions_turns:
  assumes "distinct (map mat_memberID ms)" "a < length ms" "\<forall>m\<in>set ms. \<forall>tp\<in>set tps. hasTopic m (tap_topic tp)"
    and "assign_partitions ms i plan tps = Some p"
  shows "plan_size p (mat_memberID (ms ! a)) + (i div length ms + (if a < i mod length ms then 1 else 0)) =
    plan_size plan (mat_memberID (ms ! a)) +
      ((i + length tps) div length ms + (if a < (i + length tps) mod length ms then 1 else 0))"
  using assms(3,4)
proof (induction tps arbitrary: i plan)
  case (Cons tp tps)
  have n: "0 < length ms" using assms(2) by linarith
  then have "next_subscriber ms (tap_topic tp) i = Some i" using Cons.prems(1) by (simp add: next_subscriber_here)
  then have p: "assign_partitions ms (Suc i)
      (plan_Add (mat_memberID (ms ! (i mod length ms))) (tap_topic tp) [tap_partition tp] plan) tps = Some p"
    using Cons.prems(2) by simp
  have "mat_memberID (ms ! a) = mat_memberID (ms ! (i mod length ms)) \<longleftrightarrow> i mod length ms = a"
    using nth_eq_iff_index_eq [OF assms(1), of a "i mod length ms"] assms(2) n by auto
  then show ?case
    using Cons.IH [OF _ p] Cons.prems(1) turns_Suc [OF assms(2), of i] by (simp add: plan_size_Add split: if_splits)
qed simp

lemma Plan_roundrobin_fair:
  assumes "go_maps members topics" "Plan_roundrobin members topics = Some (Ok p)"
    and "\<And>m t. m \<in> fst ` set members \<Longrightarrow> t \<in> fst ` set topics \<Longrightarrow> subscribes members m t"
    and "m \<in> fst ` set members" "m' \<in> fst ` set members"
  shows "plan_size p m \<le> plan_size p m' + 1"
proof -
  let ?ms = "sorted_members members" and ?tps = "sort_key comparedValue (topic_partitions topics)"
  have p: "assign_partitions ?ms 0 [] ?tps = Some p"
    using assms(2) by (auto simp: Plan_roundrobin_def split: if_splits)
  have d: "distinct (map mat_memberID ?ms)"
    using assms(1) mset_eq_imp_distinct_iff [OF sorted_members_mset] by (simp add: go_maps_def)
  have top: "tap_topic tp \<in> fst ` set topics" if "tp \<in> set ?tps" for tp
    using that by (force simp: topic_partitions_def)
  have all: "\<forall>mt\<in>set ?ms. \<forall>tp\<in>set ?tps. hasTopic mt (tap_topic tp)"
  proof (intro ballI)
    fix mt tp assume "mt \<in> set ?ms" "tp \<in> set ?tps"
    moreover from this have "subscribes members (mat_memberID mt) (tap_topic tp)"
      using assms(3) top sorted_members_ids [of members] by (metis image_eqI list.set_map)
    moreover from this obtain mt' where "mt' \<in> set ?ms" "mat_memberID mt' = mat_memberID mt" "hasTopic mt' (tap_topic tp)"
      unfolding sorted_members_subscribes [symmetric] by blast
    ultimately show "hasTopic mt (tap_topic tp)" using d by (auto simp: distinct_map dest: inj_onD)
  qed
  have size: "plan_size p (mat_memberID (?ms ! a)) = length ?tps div length ?ms + (if a < length ?tps mod length ?ms then 1 else 0)"
    if "a < length ?ms" for a
    using assign_partitions_turns [OF d that all p] by (simp add: plan_size_def go_lookup_def)
  have "\<exists>a < length ?ms. mat_memberID (?ms ! a) = k" if "k \<in> fst ` set members" for k
    using that sorted_members_ids [of members] by (metis image_iff in_set_conv_nth list.set_map)
  then obtain a b where "a < length ?ms" "mat_memberID (?ms ! a) = m" "b < length ?ms" "mat_memberID (?ms ! b) = m'"
    using assms(4,5) by metis
  with size [of a] size [of b] show ?thesis by simp
qed

end
