(* ===== verification/Consumer_Partition.thy ===== *)
theory Consumer_Partition
  imports Fetch_Messages Offset_Messages Protocol_Table
begin

text \<open>
  Consuming a partition (\<open>consumer.go\<close>): the state of a \<open>partitionConsumer\<close>, where it starts, how it turns a
  fetch response into messages for the user (\<open>parseMessages\<close>, \<open>parseRecords\<close>, \<open>parseResponse\<close>), how these are
  fed to the user (\<open>responseFeeder\<close>), the fetch request that a \<open>brokerConsumer\<close> makes for its
  subscriptions, and what it does with the result of each (\<open>handleResponses\<close>).

  Goroutines communicate through channels; what a handler sends is part of its result. Log lines and
  metrics are left out.
\<close>

subsection \<open>State\<close>

record ConsumerMessage =
  cm_Headers :: "RecordHeader list"
  cm_Timestamp :: time
  cm_BlockTimestamp :: time
  cm_Key :: nbytes
  cm_Value :: nbytes
  cm_Topic :: string
  cm_Partition :: int32
  cm_Offset :: int64

text \<open>The fields of the configuration that a partition consumer and its broker consumer read.\<close>

record fetch_conf =
  fc_Version :: KafkaVersion
  fc_Fetch_Min :: int32
  fc_Fetch_Default :: int32
  fc_Fetch_Max :: int32
  fc_MaxWaitTime :: int
  fc_IsolationLevel :: int8
  fc_RackID :: string
  fc_Return_Errors :: bool

text \<open>\<open>pc_errors\<close> is what was sent on the channel of errors.\<close>

record partitionConsumer =
  pc_topic :: string
  pc_partition :: int32
  pc_offset :: int64
  pc_fetchSize :: int32
  pc_highWaterMarkOffset :: int64
  pc_leaderEpoch :: int32
  pc_preferredReadReplica :: int32
  pc_retries :: int32
  pc_paused :: bool
  pc_responseResult :: "go_error option"
  pc_errors :: "go_error list"

abbreviation (input) invalidLeaderEpoch :: int32 where "invalidLeaderEpoch \<equiv> - 1"
abbreviation (input) invalidPreferredReplicaID :: int32 where "invalidPreferredReplicaID \<equiv> - 1"
abbreviation (input) math_MaxInt32 :: int32 where "math_MaxInt32 \<equiv> 0x7FFFFFFF"

definition new_partitionConsumer :: "fetch_conf \<Rightarrow> string \<Rightarrow> int32 \<Rightarrow> partitionConsumer" where
  "new_partitionConsumer conf topic prt =
     \<lparr>pc_topic = topic, pc_partition = prt, pc_offset = 0, pc_fetchSize = fc_Fetch_Default conf,
      pc_highWaterMarkOffset = 0, pc_leaderEpoch = invalidLeaderEpoch, pc_preferredReadReplica = invalidPreferredReplicaID,
      pc_retries = 0, pc_paused = False, pc_responseResult = None, pc_errors = []\<rparr>"

definition sendError :: "fetch_conf \<Rightarrow> go_error \<Rightarrow> partitionConsumer \<Rightarrow> partitionConsumer" where
  "sendError conf e child = (if fc_Return_Errors conf then child\<lparr>pc_errors := pc_errors child @ [e]\<rparr> else child)"

text \<open>The client's answers to the two requests for offsets are parameters.\<close>


definition chooseStartingOffset ::
  "int64 res \<Rightarrow> int64 res \<Rightarrow> int64 \<Rightarrow> partitionConsumer \<Rightarrow> unit res \<times> partitionConsumer" where
  "chooseStartingOffset newest oldest offset child =
     (case newest of
        Ok newestOffset \<Rightarrow>
          let child = child\<lparr>pc_highWaterMarkOffset := newestOffset\<rparr> in
          (case oldest of
             Ok oldestOffset \<Rightarrow>
               if offset = - 1 then (Ok (), child\<lparr>pc_offset := newestOffset\<rparr>)
               else if offset = - 2 then (Ok (), child\<lparr>pc_offset := oldestOffset\<rparr>)
               else if sint offset \<ge> sint oldestOffset \<and> sint offset \<le> sint newestOffset
                 then (Ok (), child\<lparr>pc_offset := offset\<rparr>)
               else (Err (KErr ErrOffsetOutOfRange), child)
           | Err e \<Rightarrow> (Err e, child) | Panic \<Rightarrow> (Panic, child) | Diverge \<Rightarrow> (Diverge, child))
      | Err e \<Rightarrow> (Err e, child) | Panic \<Rightarrow> (Panic, child) | Diverge \<Rightarrow> (Diverge, child))"

definition pc_Pause :: "partitionConsumer \<Rightarrow> partitionConsumer" where
  "pc_Pause child = child\<lparr>pc_paused := True\<rparr>"

definition pc_Resume :: "partitionConsumer \<Rightarrow> partitionConsumer" where
  "pc_Resume child = child\<lparr>pc_paused := False\<rparr>"

subsection \<open>Messages of a set and of a batch\<close>

text \<open>
  The loops over messages and over records: each has an offset and becomes a message; those before the
  offset of the consumer are skipped, and the offset moves behind every message that is taken.
\<close>

primrec take_messages :: "int64 \<Rightarrow> (int64 \<times> 'm) list \<Rightarrow> 'm list \<times> int64" where
  "take_messages current [] = ([], current)"
| "take_messages current (om # oms) =
     (if sint (fst om) < sint current then take_messages current oms
      else (case take_messages (fst om + 1) oms of (ms, current') \<Rightarrow> (snd om # ms, current')))"

definition consume_taken :: "'m list \<times> int64 \<Rightarrow> partitionConsumer \<Rightarrow> 'm list \<times> partitionConsumer" where
  "consume_taken taken child =
     (case taken of (messages, offset) \<Rightarrow>
        (messages, child\<lparr>pc_offset := (if messages = [] then offset + 1 else offset)\<rparr>))"

definition consumer_message :: "partitionConsumer \<Rightarrow> MessageBlock \<Rightarrow> MessageBlock \<Rightarrow> int64 \<times> ConsumerMessage" where
  "consumer_message child msgBlock msg =
     (let m = msb_Msg msg; outer = msb_Msg msgBlock;
          offset = (if sint (msg_Version m) \<ge> 1
            then msb_Offset msg + (msb_Offset msgBlock - msb_Offset (last (msb_Messages msgBlock)))
            else msb_Offset msg);
          timestamp = (if sint (msg_Version m) \<ge> 1 \<and> msg_LogAppendTime m then msg_Timestamp outer else msg_Timestamp m)
      in (offset, \<lparr>cm_Headers = [], cm_Timestamp = timestamp, cm_BlockTimestamp = msg_Timestamp outer,
           cm_Key = msg_Key m, cm_Value = msg_Value m, cm_Topic = pc_topic child, cm_Partition = pc_partition child,
           cm_Offset = offset\<rparr>))"

definition parseMessages :: "MessageSet \<Rightarrow> partitionConsumer \<Rightarrow> ConsumerMessage list \<times> partitionConsumer" where
  "parseMessages msgSet child =
     consume_taken (take_messages (pc_offset child)
       (concat (map (\<lambda>msgBlock. map (consumer_message child msgBlock) (msb_Messages msgBlock)) (ms_Messages msgSet)))) child"

definition consumer_record :: "partitionConsumer \<Rightarrow> RecordBatch \<Rightarrow> Record \<Rightarrow> int64 \<times> ConsumerMessage" where
  "consumer_record child batch rec =
     (let offset = rb_FirstOffset batch + rec_OffsetDelta rec;
          timestamp = (if rb_LogAppendTime batch then rb_MaxTimestamp batch
            else rb_FirstTimestamp batch + sint (rec_TimestampDelta rec))
      in (offset, \<lparr>cm_Headers = rec_Headers rec, cm_Timestamp = timestamp, cm_BlockTimestamp = zeroTime,
           cm_Key = rec_Key rec, cm_Value = rec_Value rec, cm_Topic = pc_topic child, cm_Partition = pc_partition child,
           cm_Offset = offset\<rparr>))"

definition parseRecords :: "RecordBatch \<Rightarrow> partitionConsumer \<Rightarrow> ConsumerMessage list \<times> partitionConsumer" where
  "parseRecords batch child =
     consume_taken (take_messages (pc_offset child) (map (consumer_record child batch) (rb_Records batch))) child"

subsection \<open>A fetch response\<close>

text \<open>The aborted transactions that begin up to an offset: their producers, and the transactions that are left.\<close>

primrec pop_aborted :: "int64 \<Rightarrow> AbortedTransaction list \<Rightarrow> int64 list \<Rightarrow> int64 list \<times> AbortedTransaction list" where
  "pop_aborted lastOffset [] ids = (ids, [])"
| "pop_aborted lastOffset (txn # txns) ids =
     (if sint (abt_FirstOffset txn) > sint lastOffset then (ids, txn # txns)
      else pop_aborted lastOffset txns (List.insert (abt_ProducerID txn) ids))"

primrec parse_sets ::
  "fetch_conf \<Rightarrow> Records list \<Rightarrow> int64 list \<Rightarrow> AbortedTransaction list \<Rightarrow> ConsumerMessage list \<Rightarrow> partitionConsumer \<Rightarrow>
   ConsumerMessage list res \<times> partitionConsumer" where
  "parse_sets conf [] ids txns messages child = (Ok messages, child)"
| "parse_sets conf (records # sets) ids txns messages child =
     (if recordsType records = legacyRecords then
        (case rs_MsgSet records of
           None \<Rightarrow> (Panic, child)
         | Some msgSet \<Rightarrow>
             (case parseMessages msgSet child of (ms, child) \<Rightarrow> parse_sets conf sets ids txns (messages @ ms) child))
      else if recordsType records = defaultRecords then
        (case rs_RecordBatch records of
           None \<Rightarrow> (Panic, child)
         | Some batch \<Rightarrow>
             (case pop_aborted (LastOffset batch) txns ids of (ids, txns) \<Rightarrow>
              case parseRecords batch child of (ms, child) \<Rightarrow>
                (case fst (isControl records) of
                   Ok True \<Rightarrow>
                     (case getControlRecord records of
                        Ok controlRecord \<Rightarrow>
                          parse_sets conf sets
                            (if cr_Type controlRecord = ControlRecordAbort then removeAll (rb_ProducerID batch) ids else ids)
                            txns messages child
                      | Err e \<Rightarrow> (Err e, child) | Panic \<Rightarrow> (Panic, child) | Diverge \<Rightarrow> (Diverge, child))
                 | Ok False \<Rightarrow>
                     parse_sets conf sets ids txns
                       (if fc_IsolationLevel conf = ReadCommitted \<and> rb_IsTransactional batch \<and> rb_ProducerID batch \<in> set ids
                        then messages else messages @ ms) child
                 | Err e \<Rightarrow>
                     if fc_IsolationLevel conf = ReadCommitted then (Err e, child)
                     else parse_sets conf sets ids txns messages child
                 | Panic \<Rightarrow> (Panic, child) | Diverge \<Rightarrow> (Diverge, child))))
      else (Err (OtherError ''unknown records type''), child))"

text \<open>A response without whole records: ask for more, skip what is too large, or go on behind an empty batch.\<close>

definition grow_fetchSize :: "fetch_conf \<Rightarrow> int32 \<Rightarrow> int32" where
  "grow_fetchSize conf fetchSize =
     (let size = fetchSize * 2;
          size = (if sint size < 0 then math_MaxInt32 else size)
      in if sint (fc_Fetch_Max conf) > 0 \<and> sint size > sint (fc_Fetch_Max conf) then fc_Fetch_Max conf else size)"

definition parse_empty :: "fetch_conf \<Rightarrow> FetchResponseBlock \<Rightarrow> partitionConsumer \<Rightarrow> ConsumerMessage list res \<times> partitionConsumer" where
  "parse_empty conf block child =
     (case frb_isPartial block of
        Ok partialTrailingMessage \<Rightarrow>
          (Ok [],
           if partialTrailingMessage then
             if sint (fc_Fetch_Max conf) > 0 \<and> pc_fetchSize child = fc_Fetch_Max conf
             then (sendError conf ErrMessageTooLarge child)\<lparr>pc_offset := pc_offset child + 1\<rparr>
             else child\<lparr>pc_fetchSize := grow_fetchSize conf (pc_fetchSize child)\<rparr>
           else (case frb_LastRecordsBatchOffset block of
               Some lastOffset \<Rightarrow>
                 if sint lastOffset < sint (frb_HighWaterMarkOffset block) then child\<lparr>pc_offset := lastOffset + 1\<rparr> else child
             | None \<Rightarrow> child))
      | Err e \<Rightarrow> (Err e, child) | Panic \<Rightarrow> (Panic, child) | Diverge \<Rightarrow> (Diverge, child))"

definition parseResponse :: "fetch_conf \<Rightarrow> FetchResponse \<Rightarrow> partitionConsumer \<Rightarrow> ConsumerMessage list res \<times> partitionConsumer" where
  "parseResponse conf response child =
     (if frs_ThrottleTime response \<noteq> 0 \<and> frs_Blocks response = [] then (Ok [], child)
      else case frs_GetBlock response (pc_topic child) (pc_partition child) of
        None \<Rightarrow> (Err ErrIncompleteResponse, child)
      | Some block \<Rightarrow>
          if frb_Err block \<noteq> ErrNoError then (Err (KErr (frb_Err block)), child)
          else (case frb_numRecords block of
              Ok nRecs \<Rightarrow>
                let child = (if frb_PreferredReadReplica block \<noteq> invalidPreferredReplicaID
                      then child\<lparr>pc_preferredReadReplica := frb_PreferredReadReplica block\<rparr> else child) in
                if nRecs = 0 then parse_empty conf block child
                else
                  parse_sets conf (frb_RecordsSet block) [] (getAbortedTransactions block) []
                    (child\<lparr>pc_fetchSize := fc_Fetch_Default conf, pc_highWaterMarkOffset := frb_HighWaterMarkOffset block\<rparr>)
            | Err e \<Rightarrow> (Err e, child) | Panic \<Rightarrow> (Panic, child) | Diverge \<Rightarrow> (Diverge, child)))"

subsection \<open>Feeding the user\<close>

text \<open>
  Between two messages the feeder waits for one of three events: the user takes the message, the timer
  ticks, or the consumer is closed. With the second tick on a message the feeder gives the subscription
  back to the broker consumer and goes on feeding; \<open>fd_interceptions\<close> lists the messages to which the
  interceptors were applied.
\<close>

datatype feeder_event = Taken | Tick | Dying

record feeder =
  fd_delivered :: "ConsumerMessage list"
  fd_interceptions :: "ConsumerMessage list"
  fd_firstAttempt :: bool
  fd_timedOut :: bool
  fd_closed :: bool

fun feed_remaining :: "ConsumerMessage list \<Rightarrow> feeder_event list \<Rightarrow> feeder \<Rightarrow> feeder \<times> feeder_event list" where
  "feed_remaining [] evs fd = (fd, evs)"
| "feed_remaining (msg # msgs) [] fd = (fd\<lparr>fd_interceptions := fd_interceptions fd @ [msg]\<rparr>, [])"
| "feed_remaining (msg # msgs) (Taken # evs) fd =
     feed_remaining msgs evs (fd\<lparr>fd_interceptions := fd_interceptions fd @ [msg], fd_delivered := fd_delivered fd @ [msg]\<rparr>)"
| "feed_remaining (msg # msgs) (Tick # evs) fd = feed_remaining (msg # msgs) evs fd"
| "feed_remaining (msg # msgs) (Dying # evs) fd =
     (fd\<lparr>fd_interceptions := fd_interceptions fd @ [msg], fd_closed := True\<rparr>, evs)"

text \<open>The messages are intercepted when their turn comes: \<open>fresh\<close> says that the first one was not yet.\<close>

fun feed :: "bool \<Rightarrow> ConsumerMessage list \<Rightarrow> feeder_event list \<Rightarrow> feeder \<Rightarrow> feeder \<times> feeder_event list" where
  "feed fresh [] evs fd = (fd, evs)"
| "feed fresh (msg # msgs) [] fd = ((if fresh then fd\<lparr>fd_interceptions := fd_interceptions fd @ [msg]\<rparr> else fd), [])"
| "feed fresh (msg # msgs) (ev # evs) fd =
     (let fd = (if fresh then fd\<lparr>fd_interceptions := fd_interceptions fd @ [msg]\<rparr> else fd) in
      case ev of
        Dying \<Rightarrow> (fd\<lparr>fd_closed := True\<rparr>, evs)
      | Taken \<Rightarrow> feed True msgs evs (fd\<lparr>fd_delivered := fd_delivered fd @ [msg], fd_firstAttempt := True\<rparr>)
      | Tick \<Rightarrow>
          if \<not> fd_firstAttempt fd then feed_remaining (msg # msgs) evs (fd\<lparr>fd_timedOut := True\<rparr>)
          else feed False (msg # msgs) evs (fd\<lparr>fd_firstAttempt := False\<rparr>))"

subsection \<open>The broker consumer\<close>

text \<open>\<open>fetchNewMessages\<close> raises the version of its request step by step; paused partitions are left out.\<close>

definition upgrade :: "KafkaVersion \<Rightarrow> KafkaVersion \<Rightarrow> (FetchRequest \<Rightarrow> FetchRequest) \<Rightarrow> FetchRequest \<Rightarrow> FetchRequest" where
  "upgrade v least f r = (if IsAtLeast v least then f r else r)"

definition fetch_request :: "fetch_conf \<Rightarrow> FetchRequest" where
  "fetch_request conf =
     (let v = fc_Version conf in
      upgrade v V2_3_0_0 (\<lambda>r. r\<lparr>frq_Version := 11, frq_RackID := fc_RackID conf\<rparr>)
      (upgrade v V2_1_0_0 (\<lambda>r. r\<lparr>frq_Version := 10\<rparr>)
      (upgrade v V2_0_0_0 (\<lambda>r. r\<lparr>frq_Version := 8\<rparr>)
      (upgrade v V1_1_0_0 (\<lambda>r. r\<lparr>frq_Version := 7, frq_SessionID := 0, frq_SessionEpoch := - 1\<rparr>)
      (upgrade v V1_0_0_0 (\<lambda>r. r\<lparr>frq_Version := 6\<rparr>)
      (upgrade v V0_11_0_0 (\<lambda>r. r\<lparr>frq_Version := 5, frq_Isolation := fc_IsolationLevel conf\<rparr>)
      (upgrade v V0_10_1_0 (\<lambda>r. r\<lparr>frq_Version := 3, frq_MaxBytes := 100 * 1024 * 1024\<rparr>)
      (upgrade v V0_10_0_0 (\<lambda>r. r\<lparr>frq_Version := 2\<rparr>)
      (upgrade v V0_9_0_0 (\<lambda>r. r\<lparr>frq_Version := 1\<rparr>)
        \<lparr>frq_Version = 0, frq_MaxWaitTime = word_of_int (fc_MaxWaitTime conf sdiv 1000000), frq_MinBytes = fc_Fetch_Min conf,
         frq_MaxBytes = 0, frq_Isolation = 0, frq_SessionID = 0, frq_SessionEpoch = 0, frq_blocks = [], frq_forgotten = [],
         frq_RackID = []\<rparr>)))))))))"

definition fetchNewMessages :: "fetch_conf \<Rightarrow> partitionConsumer list \<Rightarrow> FetchRequest option" where
  "fetchNewMessages conf subscriptions =
     (let request = foldl (\<lambda>request child.
            if pc_paused child then request
            else frq_AddBlock (pc_topic child) (pc_partition child) (pc_offset child) (pc_fetchSize child) (pc_leaderEpoch child) request)
          (fetch_request conf) subscriptions
      in if frq_blocks request = [] then None else Some request)"

text \<open>
  The broker to read from: the preferred replica if the client knows it, else the leader. A broker is
  given by its id; the client's answers are parameters.
\<close>

definition preferredBroker ::
  "(int32 \<Rightarrow> int32 option) \<Rightarrow> (int32 \<times> int32) res \<Rightarrow> partitionConsumer \<Rightarrow> (int32 \<times> int32) res \<times> partitionConsumer" where
  "preferredBroker client_Broker leaderAndEpoch child =
     (if sint (pc_preferredReadReplica child) \<ge> 0 then
        (case client_Broker (pc_preferredReadReplica child) of
           Some broker \<Rightarrow> (Ok (broker, pc_leaderEpoch child), child)
         | None \<Rightarrow> (leaderAndEpoch, child\<lparr>pc_preferredReadReplica := invalidPreferredReplicaID\<rparr>))
      else (leaderAndEpoch, child))"

definition dispatch ::
  "unit res \<Rightarrow> (int32 \<Rightarrow> int32 option) \<Rightarrow> (int32 \<times> int32) res \<Rightarrow> partitionConsumer \<Rightarrow> int32 res \<times> partitionConsumer" where
  "dispatch refreshMetadata client_Broker leaderAndEpoch child =
     (case refreshMetadata of
        Ok _ \<Rightarrow>
          (case preferredBroker client_Broker leaderAndEpoch child of
             (Ok (broker, epoch), child) \<Rightarrow> (Ok broker, child\<lparr>pc_leaderEpoch := epoch\<rparr>)
           | (Err e, child) \<Rightarrow> (Err e, child) | (Panic, child) \<Rightarrow> (Panic, child) | (Diverge, child) \<Rightarrow> (Diverge, child))
      | Err e \<Rightarrow> (Err e, child) | Panic \<Rightarrow> (Panic, child) | Diverge \<Rightarrow> (Diverge, child))"

text \<open>
  What becomes of a subscription after a response: it is kept, given to the dispatcher that looks for a
  broker again, left to the feeder that still has messages of it, or shut down.
\<close>

datatype fate = Kept | Redispatched | Abandoned | ShutDown

definition errTimedOut :: go_error where
  "errTimedOut = OtherError ''timed out feeding messages to the user''"

definition needs_redispatch :: "go_error \<Rightarrow> bool" where
  "needs_redispatch e \<longleftrightarrow> list_ex (\<lambda>k. errors_Is e (KErr k))
     [3 \<comment> \<open>ErrUnknownTopicOrPartition\<close>, 6 \<comment> \<open>ErrNotLeaderForPartition\<close>, 5 \<comment> \<open>ErrLeaderNotAvailable\<close>,
      9 \<comment> \<open>ErrReplicaNotAvailable\<close>, 74 \<comment> \<open>ErrFencedLeaderEpoch\<close>, 75 \<comment> \<open>ErrUnknownLeaderEpoch\<close>]"

definition handleResponse ::
  "fetch_conf \<Rightarrow> int32 \<Rightarrow> (int32 \<Rightarrow> int32 option) \<Rightarrow> (int32 \<times> int32) res \<Rightarrow> partitionConsumer \<Rightarrow> fate \<times> partitionConsumer" where
  "handleResponse conf brokerID client_Broker leaderAndEpoch child =
     (let result = pc_responseResult child; child = child\<lparr>pc_responseResult := None\<rparr> in
      case result of
        None \<Rightarrow>
          (case preferredBroker client_Broker leaderAndEpoch child of
             (Ok (preferred, _), child) \<Rightarrow> (if brokerID \<noteq> preferred then Redispatched else Kept, child)
           | (_, child) \<Rightarrow> (Kept, child))
      | Some e \<Rightarrow>
          let child = child\<lparr>pc_preferredReadReplica := invalidPreferredReplicaID\<rparr> in
          if errors_Is e errTimedOut then (Abandoned, child)
          else if errors_Is e (KErr ErrOffsetOutOfRange) then (ShutDown, sendError conf e child)
          else if needs_redispatch e then (Redispatched, child)
          else (Redispatched, sendError conf e child))"

subsection \<open>Lemmas\<close>

lemma sint_eqD: "sint a = sint b \<Longrightarrow> a = b"
  by (rule signed_word_eqI)

text \<open>The size of a fetch that found only a part of a message grows until it is at the limit.\<close>

lemma grow_fetchSize_bounds:
  assumes "0 < sint n" "0 \<le> sint (fc_Fetch_Max conf)" "sint (fc_Fetch_Max conf) = 0 \<or> sint n \<le> sint (fc_Fetch_Max conf)"
  shows "sint n \<le> sint (grow_fetchSize conf n) \<and>
    (sint n < sint (grow_fetchSize conf n) \<or> n = fc_Fetch_Max conf \<or> n = math_MaxInt32) \<and>
    (0 < sint (fc_Fetch_Max conf) \<longrightarrow> sint (grow_fetchSize conf n) \<le> sint (fc_Fetch_Max conf))"
proof -
  have r: "sint n < 2147483648" using sint_lt [of n] by simp
  have two: "sint (n * 2) = (if sint n < 1073741824 then 2 * sint n else 2 * sint n - 4294967296)"
  proof -
    have "sint (n * 2) = (2 * sint n + 2147483648) mod 4294967296 - 2147483648"
      by (simp add: sint_word_ariths(3) signed_take_bit_eq_take_bit_shift take_bit_eq_mod mult.commute)
    also have "\<dots> = (if sint n < 1073741824 then 2 * sint n else 2 * sint n - 4294967296)"
    proof (cases "sint n < 1073741824")
      case False
      have "(2 * sint n + 2147483648) mod 4294967296 = (2 * sint n + 2147483648 - 4294967296) mod 4294967296"
        by (metis minus_mod_self2)
      with False r show ?thesis by simp
    qed (use assms(1) in simp)
    finally show ?thesis .
  qed
  have max: "sint math_MaxInt32 = 2147483647" by simp
  show ?thesis
  proof (cases "sint n < 1073741824")
    case True
    with two assms show ?thesis by (auto simp: grow_fetchSize_def Let_def dest: sint_eqD)
  next
    case False
    with two r have "sint (n * 2) < 0" by simp
    moreover have "n = math_MaxInt32" if "2147483647 \<le> sint n"
    proof -
      have "sint n = 2147483647" using that r by linarith
      then have "word_of_int (sint n) = (word_of_int 2147483647 :: int32)" by simp
      then show ?thesis by simp
    qed
    ultimately show ?thesis using assms r False
      by (force simp: grow_fetchSize_def Let_def dest: sint_eqD)
  qed
qed

text \<open>
  Until the consumer is closed, the user gets the messages in order and each once, whatever the timer
  does; how many depends only on how often the user takes one.
\<close>

lemma feed_remaining_delivers:
  "Dying \<notin> set evs \<Longrightarrow>
     fd_delivered (fst (feed_remaining msgs evs fd)) = fd_delivered fd @ take (count_list evs Taken) msgs"
  by (induction msgs evs fd rule: feed_remaining.induct) auto

lemma feed_delivers:
  "Dying \<notin> set evs \<Longrightarrow>
     fd_delivered (fst (feed fresh msgs evs fd)) = fd_delivered fd @ take (count_list evs Taken) msgs"
proof (induction fresh msgs evs fd rule: feed.induct)
  case (3 fresh msg msgs ev evs fd)
  then show ?case
    by (cases ev; cases "fd_firstAttempt fd") (simp_all add: Let_def feed_remaining_delivers)
qed simp_all

text \<open>The interceptors are applied twice to the message on which the feeder timed out.\<close>

lemma feed_intercepts_twice:
  "fd_interceptions (fst (feed True [m] [Tick, Tick, Taken]
     \<lparr>fd_delivered = [], fd_interceptions = [], fd_firstAttempt = True, fd_timedOut = False, fd_closed = False\<rparr>)) = [m, m]"
  by simp

text \<open>The version of a fetch request is one that the broker of the configured version supports.\<close>

lemma upgrade_version:
  "(\<And>r. frq_Version (f r) = k) \<Longrightarrow> frq_Version (upgrade v least f r) = (if IsAtLeast v least then k else frq_Version r)"
  by (simp add: upgrade_def)

lemma fetch_request_versions:
  "frq_Version (fetch_request conf) = (let v = fc_Version conf in
     if IsAtLeast v V2_3_0_0 then 11 else if IsAtLeast v V2_1_0_0 then 10 else if IsAtLeast v V2_0_0_0 then 8
     else if IsAtLeast v V1_1_0_0 then 7 else if IsAtLeast v V1_0_0_0 then 6 else if IsAtLeast v V0_11_0_0 then 5
     else if IsAtLeast v V0_10_1_0 then 3 else if IsAtLeast v V0_10_0_0 then 2 else if IsAtLeast v V0_9_0_0 then 1 else 0)"
  unfolding fetch_request_def Let_def
  by (subst upgrade_version, simp)+ simp

lemma fetch_request_version:
  assumes "IsAtLeast (fc_Version conf) V0_8_2_0"
  shows "pm_isValidVersion FetchRequest_methods (frq_Version (fetch_request conf)) \<and>
    IsAtLeast (fc_Version conf) (pm_requiredVersion FetchRequest_methods (frq_Version (fetch_request conf)))"
  unfolding fetch_request_versions Let_def using assms
  by (auto simp: FetchRequest_methods_def split del: if_split split: if_split)

text \<open>Every partition that is not paused is asked for at its own offset.\<close>

lemma fetchNewMessages_blocks:
  assumes "distinct (map (\<lambda>c. (pc_topic c, pc_partition c)) subscriptions)" "child \<in> set subscriptions" "\<not> pc_paused child"
  shows "\<exists>request b. fetchNewMessages conf subscriptions = Some request \<and>
    get_block (frq_blocks request) (pc_topic child) (pc_partition child) = Some b \<and>
    fqb_fetchOffset b = pc_offset child \<and> fqb_maxBytes b = pc_fetchSize child"
proof -
  let ?add = "\<lambda>request child. if pc_paused child then request
     else frq_AddBlock (pc_topic child) (pc_partition child) (pc_offset child) (pc_fetchSize child) (pc_leaderEpoch child) request"
  have other: "get_block (frq_blocks (foldl ?add r cs)) t p = get_block (frq_blocks r) t p"
    if "(t, p) \<notin> (\<lambda>c. (pc_topic c, pc_partition c)) ` set cs" for r cs t p
    using that
  proof (induction cs arbitrary: r)
    case (Cons c cs)
    then show ?case by (auto simp: frq_AddBlock_def get_set_block)
  qed simp
  obtain pre post where subs: "subscriptions = pre @ child # post" using assms(2) by (meson split_list)
  let ?r = "foldl ?add (fetch_request conf) subscriptions"
  have "get_block (frq_blocks ?r) (pc_topic child) (pc_partition child) =
      get_block (frq_blocks (?add (foldl ?add (fetch_request conf) pre) child)) (pc_topic child) (pc_partition child)"
    unfolding subs foldl_append foldl_Cons by (rule other) (use assms(1) in \<open>simp add: subs\<close>)
  then obtain b where b: "get_block (frq_blocks ?r) (pc_topic child) (pc_partition child) = Some b"
    "fqb_fetchOffset b = pc_offset child" "fqb_maxBytes b = pc_fetchSize child"
    using assms(3) by (simp add: frq_AddBlock_def get_set_block)
  then have "frq_blocks ?r \<noteq> []" by (auto simp: get_block_def)
  with b show ?thesis by (simp add: fetchNewMessages_def Let_def)
qed

end
