(* ===== verification/Consumer_Log.thy ===== *)
theory Consumer_Log
  imports Consumer_Partition
begin

text \<open>
  What a consumer sees of the log of a partition. The log is a list of record batches in the order of
  their offsets, with the control batches that end transactions. A broker answers a fetch with a run of
  batches and with the transactions that were aborted and reach into it; the index of aborted
  transactions is computed from the log as the broker keeps it. The lemmas show that \<open>parseResponse\<close>
  gives the user exactly the records from the consumer's offset on whose batches are not control batches
  and, under \<open>ReadCommitted\<close>, whose transaction was committed, and that the consumer's offset moves
  behind what was read and never over a record.
\<close>

subsection \<open>The log\<close>

abbreviation first_of :: "RecordBatch \<Rightarrow> int" where "first_of b \<equiv> sint (rb_FirstOffset b)"
abbreviation last_of :: "RecordBatch \<Rightarrow> int" where "last_of b \<equiv> sint (LastOffset b)"

definition record_offset :: "RecordBatch \<Rightarrow> Record \<Rightarrow> int" where
  "record_offset b r = sint (rb_FirstOffset b + rec_OffsetDelta r)"

text \<open>
  A batch has records, with increasing offsets within its bounds; a control batch starts with a
  control record. Offsets stay below the largest one, so that the next offset exists.
\<close>

definition control_type :: "RecordBatch \<Rightarrow> ControlRecordType option" where
  "control_type b = (case getControlRecord (newDefaultRecords b) of Ok cr \<Rightarrow> Some (cr_Type cr) | _ \<Rightarrow> None)"

definition batch_ok :: "RecordBatch \<Rightarrow> bool" where
  "batch_ok b \<longleftrightarrow> rb_Records b \<noteq> [] \<and> 0 \<le> first_of b \<and> first_of b \<le> last_of b \<and> last_of b < 2 ^ 63 - 1 \<and>
     sorted_wrt (<) (map (record_offset b) (rb_Records b)) \<and>
     list_all (\<lambda>r. first_of b \<le> record_offset b r \<and> record_offset b r \<le> last_of b) (rb_Records b) \<and>
     (rb_Control b \<longrightarrow> control_type b \<noteq> None)"

definition log_ok :: "RecordBatch list \<Rightarrow> bool" where
  "log_ok log \<longleftrightarrow> list_all batch_ok log \<and> sorted_wrt (\<lambda>a b. last_of a < first_of b) log"

text \<open>The outcome of a producer's transaction: its first end marker in the rest of the log.\<close>

definition end_marker :: "RecordBatch \<Rightarrow> ControlRecordType option" where
  "end_marker b = (if rb_Control b \<and> control_type b \<in> {Some ControlRecordAbort, Some ControlRecordCommit} then control_type b else None)"

primrec outcome :: "int64 \<Rightarrow> RecordBatch list \<Rightarrow> ControlRecordType option" where
  "outcome p [] = None"
| "outcome p (b # bs) = (if rb_ProducerID b = p \<and> end_marker b \<noteq> None then end_marker b else outcome p bs)"

text \<open>
  The batches among the first \<open>n\<close> whose records are committed: a batch outside transactions is, and one
  of a transaction that ends with a commit.
\<close>

primrec committed :: "nat \<Rightarrow> RecordBatch list \<Rightarrow> RecordBatch list" where
  "committed n [] = []"
| "committed n (b # bs) =
     (case n of 0 \<Rightarrow> []
      | Suc m \<Rightarrow>
          if \<not> rb_Control b \<and> (rb_IsTransactional b \<longrightarrow> outcome (rb_ProducerID b) bs = Some ControlRecordCommit)
          then b # committed m bs else committed m bs)"

text \<open>Every transaction with a batch among the first \<open>n\<close> has ended, as below the last stable offset.\<close>

primrec decided :: "nat \<Rightarrow> RecordBatch list \<Rightarrow> bool" where
  "decided n [] = True"
| "decided n (b # bs) =
     (case n of 0 \<Rightarrow> True
      | Suc m \<Rightarrow> (\<not> rb_Control b \<and> rb_IsTransactional b \<longrightarrow> outcome (rb_ProducerID b) bs \<noteq> None) \<and> decided m bs)"

text \<open>
  The broker's index of aborted transactions: for every producer the first offset of its open
  transaction is kept; an abort marker makes an entry with it and with the offset of the marker.
\<close>

definition note_batch :: "RecordBatch \<Rightarrow> (int64 \<Rightarrow> int64 option) \<Rightarrow> int64 \<Rightarrow> int64 option" where
  "note_batch b opened =
     (if end_marker b \<noteq> None then opened(rb_ProducerID b := None)
      else if \<not> rb_Control b \<and> rb_IsTransactional b \<and> opened (rb_ProducerID b) = None
        then opened(rb_ProducerID b := Some (rb_FirstOffset b))
      else opened)"

primrec aborted_index :: "(int64 \<Rightarrow> int64 option) \<Rightarrow> RecordBatch list \<Rightarrow> (AbortedTransaction \<times> int64) list" where
  "aborted_index opened [] = []"
| "aborted_index opened (b # bs) =
     (case opened (rb_ProducerID b) of
        Some first \<Rightarrow>
          if end_marker b = Some ControlRecordAbort
          then [(\<lparr>abt_ProducerID = rb_ProducerID b, abt_FirstOffset = first\<rparr>, LastOffset b)] else []
      | None \<Rightarrow> []) @ aborted_index (note_batch b opened) bs"

text \<open>
  The block answers a fetch at an offset: up to \<open>n\<close> batches from the one that reaches the offset on, and
  the aborted transactions that end at or after the offset and begin before the end of the block.
\<close>

definition fetched :: "int \<Rightarrow> nat \<Rightarrow> RecordBatch list \<Rightarrow> RecordBatch list" where
  "fetched offset n log = take n (dropWhile (\<lambda>b. last_of b < offset) log)"

definition answers_fetch :: "RecordBatch list \<Rightarrow> int \<Rightarrow> nat \<Rightarrow> FetchResponseBlock \<Rightarrow> bool" where
  "answers_fetch log offset n block \<longleftrightarrow>
     frb_RecordsSet block = map newDefaultRecords (fetched offset n log) \<and>
     set (frb_AbortedTransactions block) =
       {t. \<exists>mk. (t, mk) \<in> set (aborted_index (\<lambda>_. None) log) \<and> offset \<le> sint mk \<and>
          sint (abt_FirstOffset t) \<le> last_of (last (fetched offset n log))}"

subsection \<open>The index of aborted transactions\<close>

lemma end_marker_control: "end_marker b \<noteq> None \<Longrightarrow> rb_Control b"
  by (simp add: end_marker_def split: if_splits)

lemma aborted_index_entry:
  "(t, mk) \<in> set (aborted_index opened bs) \<Longrightarrow>
     (opened (abt_ProducerID t) = Some (abt_FirstOffset t) \<and> outcome (abt_ProducerID t) bs = Some ControlRecordAbort) \<or>
     (\<exists>b\<in>set bs. abt_FirstOffset t = rb_FirstOffset b)"
proof (induction bs arbitrary: opened)
  case (Cons b bs)
  show ?case
  proof (cases "(t, mk) \<in> set (aborted_index (note_batch b opened) bs)")
    case True
    from Cons.IH [OF this] show ?thesis
      using end_marker_control [of b] by (auto simp: note_batch_def split: if_splits)
  next
    case False
    with Cons.prems show ?thesis by (auto split: option.splits if_splits)
  qed
qed simp

lemma aborted_index_open:
  "opened p = Some first \<Longrightarrow> outcome p bs = Some ControlRecordAbort \<Longrightarrow>
     \<exists>mk. (\<lparr>abt_ProducerID = p, abt_FirstOffset = first\<rparr>, mk) \<in> set (aborted_index opened bs)"
proof (induction bs arbitrary: opened)
  case (Cons b bs)
  show ?case
  proof (cases "rb_ProducerID b = p \<and> end_marker b \<noteq> None")
    case True
    with Cons.prems show ?thesis by auto
  next
    case False
    then have "note_batch b opened p = Some first" using Cons.prems(1) by (auto simp: note_batch_def)
    with Cons.IH [of "note_batch b opened"] False Cons.prems(2) show ?thesis by (auto split: if_splits)
  qed
qed simp

text \<open>An entry that begins before the rest of the log belongs to an open transaction.\<close>

lemma aborted_index_begun:
  assumes "(t, mk) \<in> set (aborted_index opened bs)" "\<forall>b\<in>set bs. sint (abt_FirstOffset t) < first_of b"
  shows "opened (abt_ProducerID t) = Some (abt_FirstOffset t)" "outcome (abt_ProducerID t) bs = Some ControlRecordAbort"
  using aborted_index_entry [OF assms(1)] assms(2) by auto

subsection \<open>The producers whose records are dropped\<close>

text \<open>
  Open transactions began before the rest of the log. The loop of \<open>parseResponse\<close> keeps, of the aborted
  transactions that begin up to \<open>L\<close>, those that are open as producers and the others as a sorted list.
\<close>

definition begun :: "(int64 \<Rightarrow> int64 option) \<Rightarrow> RecordBatch list \<Rightarrow> bool" where
  "begun opened bs \<longleftrightarrow> (\<forall>p first. opened p = Some first \<longrightarrow> (\<forall>b\<in>set bs. sint first < first_of b))"

definition tracks :: "(int64 \<Rightarrow> int64 option) \<Rightarrow> RecordBatch list \<Rightarrow> int \<Rightarrow> int64 list \<Rightarrow> AbortedTransaction list \<Rightarrow> bool" where
  "tracks opened bs L ids txns \<longleftrightarrow>
     sorted (map (\<lambda>t. sint (abt_FirstOffset t)) txns) \<and>
     (\<forall>t mk. (t, mk) \<in> set (aborted_index opened bs) \<and> sint (abt_FirstOffset t) \<le> L \<longrightarrow>
        (abt_ProducerID t \<in> set ids \<and> opened (abt_ProducerID t) = Some (abt_FirstOffset t)) \<or> t \<in> set txns) \<and>
     (\<forall>p\<in>set ids. opened p \<noteq> None \<and> outcome p bs = Some ControlRecordAbort) \<and>
     (\<forall>t\<in>set txns. \<exists>mk. (t, mk) \<in> set (aborted_index opened bs))"

lemma pop_aborted_sorted:
  "sorted (map (\<lambda>t. sint (abt_FirstOffset t)) txns) \<Longrightarrow> pop_aborted l txns ids = (ids', txns') \<Longrightarrow>
     set ids' = set ids \<union> abt_ProducerID ` {t \<in> set txns. sint (abt_FirstOffset t) \<le> sint l} \<and>
     set txns' = {t \<in> set txns. sint l < sint (abt_FirstOffset t)} \<and>
     sorted (map (\<lambda>t. sint (abt_FirstOffset t)) txns')"
proof (induction txns arbitrary: ids)
  case (Cons t txns)
  show ?case
  proof (cases "sint (abt_FirstOffset t) > sint l")
    case True
    with Cons.prems have "ids' = ids" "txns' = t # txns" by simp_all
    moreover have "\<forall>u\<in>set (t # txns). sint l < sint (abt_FirstOffset u)" using True Cons.prems(1) by auto
    ultimately show ?thesis using Cons.prems(1) by force
  next
    case False
    with Cons.IH [of "List.insert (abt_ProducerID t) ids"] Cons.prems show ?thesis by auto
  qed
qed auto

lemma log_ok_Cons: "log_ok (b # bs) \<longleftrightarrow> batch_ok b \<and> (\<forall>c\<in>set bs. last_of b < first_of c) \<and> log_ok bs"
  by (auto simp: log_ok_def)

lemma begun_note: "begun opened (b # bs) \<Longrightarrow> log_ok (b # bs) \<Longrightarrow> begun (note_batch b opened) bs"
  by (fastforce simp: begun_def note_batch_def log_ok_Cons batch_ok_def split: if_splits)

text \<open>A popped transaction is open behind the batch and will be aborted, unless the batch ends it.\<close>

lemma popped_open:
  assumes "(t, mk) \<in> set (aborted_index (note_batch b opened) bs)" "log_ok (b # bs)" "sint (abt_FirstOffset t) \<le> last_of b"
  shows "note_batch b opened (abt_ProducerID t) = Some (abt_FirstOffset t)"
    "outcome (abt_ProducerID t) bs = Some ControlRecordAbort"
  using aborted_index_begun [OF assms(1)] assms(2,3) by (fastforce simp: log_ok_Cons)+

lemma index_cases:
  assumes "(t, mk) \<in> set (aborted_index opened (b # bs))"
  shows "(t, mk) \<in> set (aborted_index (note_batch b opened) bs) \<or>
    (abt_ProducerID t = rb_ProducerID b \<and> opened (rb_ProducerID b) = Some (abt_FirstOffset t) \<and> end_marker b = Some ControlRecordAbort)"
  using assms by (auto split: option.splits if_splits)

lemma index_later: "(t, mk) \<in> set (aborted_index (note_batch b opened) bs) \<Longrightarrow> (t, mk) \<in> set (aborted_index opened (b # bs))"
  by (simp split: option.splits)

lemma note_other: "p \<noteq> rb_ProducerID b \<Longrightarrow> note_batch b opened p = opened p"
  by (simp add: note_batch_def)

lemma note_kept: "end_marker b = None \<Longrightarrow> opened p = Some first \<Longrightarrow> note_batch b opened p = Some first"
  by (auto simp: note_batch_def)

lemma note_ended: "end_marker b \<noteq> None \<Longrightarrow> note_batch b opened (rb_ProducerID b) = None"
  by (simp add: note_batch_def)

lemma end_marker_cases: "end_marker b = None \<or> end_marker b = Some ControlRecordAbort \<or> end_marker b = Some ControlRecordCommit"
  by (auto simp: end_marker_def)

definition ids_after :: "RecordBatch \<Rightarrow> int64 list \<Rightarrow> int64 list" where
  "ids_after b ids = (if end_marker b = Some ControlRecordAbort then removeAll (rb_ProducerID b) ids else ids)"

lemma tracks_ids:
  assumes t: "tracks opened (b # bs) L ids txns" and l: "log_ok (b # bs)"
    and pop: "pop_aborted (LastOffset b) txns ids = (ids', txns')" and p: "p \<in> set (ids_after b ids')"
  shows "note_batch b opened p \<noteq> None \<and> outcome p bs = Some ControlRecordAbort"
proof -
  have alive: "\<not> (p = rb_ProducerID b \<and> end_marker b = Some ControlRecordAbort)" and "p \<in> set ids'"
    using p by (auto simp: ids_after_def split: if_splits)
  then consider "p \<in> set ids"
    | (popped) u where "u \<in> set txns" "sint (abt_FirstOffset u) \<le> last_of b" "p = abt_ProducerID u"
    using pop_aborted_sorted [OF _ pop] t by (auto simp: tracks_def)
  then show ?thesis
  proof cases
    case 1
    then have o: "opened p \<noteq> None" "outcome p (b # bs) = Some ControlRecordAbort" using t by (auto simp: tracks_def)
    then have "\<not> (p = rb_ProducerID b \<and> end_marker b \<noteq> None)" using alive by (auto split: if_splits)
    with o show ?thesis using note_other [of p b opened] note_kept [of b opened p] by (auto split: if_splits)
  next
    case popped
    then obtain mk where "(u, mk) \<in> set (aborted_index opened (b # bs))" using t by (auto simp only: tracks_def)
    then have "(u, mk) \<in> set (aborted_index (note_batch b opened) bs)" using index_cases alive popped(3) by blast
    from popped_open [OF this l popped(2)] popped(3) show ?thesis by simp
  qed
qed

lemma tracks_entries:
  assumes t: "tracks opened (b # bs) L ids txns" and g: "begun opened (b # bs)" and l: "log_ok (b # bs)"
    and pop: "pop_aborted (LastOffset b) txns ids = (ids', txns')"
    and u: "(u, mk) \<in> set (aborted_index (note_batch b opened) bs)" "sint (abt_FirstOffset u) \<le> L"
  shows "(abt_ProducerID u \<in> set (ids_after b ids') \<and> note_batch b opened (abt_ProducerID u) = Some (abt_FirstOffset u)) \<or> u \<in> set txns'"
proof -
  have p: "set ids' = set ids \<union> abt_ProducerID ` {t \<in> set txns. sint (abt_FirstOffset t) \<le> last_of b}"
    "set txns' = {t \<in> set txns. last_of b < sint (abt_FirstOffset t)}"
    using pop_aborted_sorted [OF _ pop] t by (auto simp: tracks_def)
  have kept: "p \<in> set ids' \<Longrightarrow> note_batch b opened p \<noteq> None \<Longrightarrow> p \<in> set (ids_after b ids')" for p
    using note_ended [of b opened] by (auto simp: ids_after_def)
  have "(abt_ProducerID u \<in> set ids \<and> opened (abt_ProducerID u) = Some (abt_FirstOffset u)) \<or> u \<in> set txns"
    using t index_later [OF u(1)] u(2) unfolding tracks_def by blast
  then show ?thesis
  proof
    assume o: "abt_ProducerID u \<in> set ids \<and> opened (abt_ProducerID u) = Some (abt_FirstOffset u)"
    then have "sint (abt_FirstOffset u) \<le> last_of b" using g l by (fastforce simp: begun_def log_ok_Cons batch_ok_def)
    from popped_open [OF u(1) l this] o p(1) kept show ?thesis by simp
  next
    assume "u \<in> set txns"
    then show ?thesis using popped_open [OF u(1) l] p kept by (cases "sint (abt_FirstOffset u) \<le> last_of b") auto
  qed
qed

lemma tracks_step:
  assumes t: "tracks opened (b # bs) L ids txns" and g: "begun opened (b # bs)" and l: "log_ok (b # bs)"
    and pop: "pop_aborted (LastOffset b) txns ids = (ids', txns')"
  shows "tracks (note_batch b opened) bs L (ids_after b ids') txns'"
proof -
  have s: "set txns' = {t \<in> set txns. last_of b < sint (abt_FirstOffset t)}"
    "sorted (map (\<lambda>t. sint (abt_FirstOffset t)) txns')"
    using pop_aborted_sorted [OF _ pop] t by (auto simp: tracks_def)
  have "\<exists>mk. (u, mk) \<in> set (aborted_index (note_batch b opened) bs)" if "u \<in> set txns'" for u
  proof -
    have u: "u \<in> set txns" "last_of b < sint (abt_FirstOffset u)" using that s(1) by auto
    then obtain mk where "(u, mk) \<in> set (aborted_index opened (b # bs))" using t by (auto simp only: tracks_def)
    moreover have "opened (rb_ProducerID b) \<noteq> Some (abt_FirstOffset u)"
      using u(2) g l by (fastforce simp: begun_def log_ok_Cons batch_ok_def)
    ultimately show ?thesis using index_cases by blast
  qed
  then show ?thesis
    using s(2) tracks_ids [OF t l pop] tracks_entries [OF t g l pop] unfolding tracks_def by blast
qed

text \<open>The loop drops the records of a transactional batch exactly when its transaction is aborted.\<close>

lemma tracks_drops:
  assumes t: "tracks opened (b # bs) L ids txns" and g: "begun opened (b # bs)" and l: "log_ok (b # bs)"
    and pop: "pop_aborted (LastOffset b) txns ids = (ids', txns')"
    and b: "\<not> rb_Control b" "rb_IsTransactional b" "last_of b \<le> L"
  shows "rb_ProducerID b \<in> set ids' \<longleftrightarrow> outcome (rb_ProducerID b) bs = Some ControlRecordAbort"
proof -
  have e: "end_marker b = None" using b(1) end_marker_control by blast
  then have i: "ids_after b ids' = ids'" by (simp add: ids_after_def)
  obtain first where f: "note_batch b opened (rb_ProducerID b) = Some first"
    using b e by (cases "opened (rb_ProducerID b)") (auto simp: note_batch_def)
  have fl: "sint first \<le> last_of b"
    using f g l b e by (fastforce simp: note_batch_def begun_def log_ok_Cons batch_ok_def split: if_splits)
  show ?thesis
  proof
    assume "rb_ProducerID b \<in> set ids'"
    then show "outcome (rb_ProducerID b) bs = Some ControlRecordAbort" using tracks_ids [OF t l pop] i by simp
  next
    assume "outcome (rb_ProducerID b) bs = Some ControlRecordAbort"
    with aborted_index_open [of "note_batch b opened", OF f]
    obtain mk where m: "(\<lparr>abt_ProducerID = rb_ProducerID b, abt_FirstOffset = first\<rparr>, mk) \<in> set (aborted_index (note_batch b opened) bs)"
      by blast
    have "\<lparr>abt_ProducerID = rb_ProducerID b, abt_FirstOffset = first\<rparr> \<notin> set txns'"
      using pop_aborted_sorted [OF _ pop] t fl by (auto simp: tracks_def)
    with tracks_entries [OF t g l pop m] fl b(3) i show "rb_ProducerID b \<in> set ids'" by simp
  qed
qed

subsection \<open>The offset of the consumer\<close>

definition records_from :: "int \<Rightarrow> partitionConsumer \<Rightarrow> RecordBatch \<Rightarrow> ConsumerMessage list" where
  "records_from offset child b =
     map (\<lambda>r. snd (consumer_record child b r)) (filter (\<lambda>r. offset \<le> record_offset b r) (rb_Records b))"

lemma sint_succ: "sint (x :: int64) < 2 ^ 63 - 1 \<Longrightarrow> sint (x + 1) = sint x + 1"
  using sint_ge [of x] by (simp add: sint_word_ariths signed_take_bit_eq_take_bit_shift take_bit_eq_mod)

lemma take_messages_sorted:
  "sorted_wrt (<) (map (\<lambda>om. sint (fst om)) oms) \<Longrightarrow> \<forall>om\<in>set oms. sint (fst om) < 2 ^ 63 - 1 \<Longrightarrow>
     take_messages current oms =
       (map snd (filter (\<lambda>om. sint current \<le> sint (fst om)) oms),
        if filter (\<lambda>om. sint current \<le> sint (fst om)) oms = [] then current else fst (last oms) + 1)"
proof (induction oms arbitrary: current)
  case (Cons om oms)
  have later: "\<forall>x\<in>set oms. sint (fst om) < sint (fst x)" using Cons.prems(1) by simp
  show ?case
  proof (cases "sint (fst om) < sint current")
    case True
    with Cons show ?thesis by (auto simp: filter_empty_conv)
  next
    case False
    have "sint (fst om + 1) = sint (fst om) + 1" using Cons.prems(2) by (simp add: sint_succ)
    then have all: "filter (\<lambda>x. sint (fst om + 1) \<le> sint (fst x)) oms = oms" using later by (force simp: filter_id_conv)
    have all': "filter (\<lambda>x. sint current \<le> sint (fst x)) oms = oms" using later False by (force simp: filter_id_conv)
    show ?thesis using Cons.IH [of "fst om + 1"] Cons.prems False unfolding all by (simp add: all')
  qed
qed simp

lemma consumer_record_offset: "sint (fst (consumer_record child b r)) = record_offset b r"
  by (simp add: consumer_record_def record_offset_def Let_def)

lemma parseRecords_from:
  assumes b: "batch_ok b" and c: "sint (pc_offset child) \<le> last_of b"
  obtains offset where "parseRecords b child = (records_from (sint (pc_offset child)) child b, child\<lparr>pc_offset := offset\<rparr>)"
    "sint (pc_offset child) < sint offset" "sint offset \<le> last_of b + 1"
    "\<forall>r\<in>set (rb_Records b). record_offset b r < sint offset"
proof -
  let ?rs = "rb_Records b" and ?cur = "sint (pc_offset child)"
  let ?taken = "filter (\<lambda>r. ?cur \<le> record_offset b r) ?rs"
  have in_b: "r \<in> set ?rs \<Longrightarrow> first_of b \<le> record_offset b r \<and> record_offset b r \<le> last_of b" for r
    using b by (simp add: batch_ok_def list_all_iff)
  have top: "last_of b < 2 ^ 63 - 1" and sorted: "sorted_wrt (<) (map (record_offset b) ?rs)" using b by (simp_all add: batch_ok_def)
  define offset where "offset = (if ?taken = [] then pc_offset child + 1 else fst (consumer_record child b (last ?rs)) + 1)"
  have m: "map (\<lambda>om. sint (fst om)) (map (consumer_record child b) ?rs) = map (record_offset b) ?rs"
    by (simp add: consumer_record_offset)
  have below: "\<forall>om\<in>set (map (consumer_record child b) ?rs). sint (fst om) < 2 ^ 63 - 1"
  proof
    fix om assume "om \<in> set (map (consumer_record child b) ?rs)"
    then obtain r where "r \<in> set ?rs" "om = consumer_record child b r" by auto
    then show "sint (fst om) < 2 ^ 63 - 1" using in_b [of r] top by (simp add: consumer_record_offset)
  qed
  have f: "filter (\<lambda>om. ?cur \<le> sint (fst om)) (map (consumer_record child b) ?rs) = map (consumer_record child b) ?taken"
    by (simp add: filter_map o_def consumer_record_offset)
  have tk: "take_messages (pc_offset child) (map (consumer_record child b) ?rs) =
      (map snd (map (consumer_record child b) ?taken),
       if map (consumer_record child b) ?taken = [] then pc_offset child else fst (last (map (consumer_record child b) ?rs)) + 1)"
    using take_messages_sorted [of "map (consumer_record child b) ?rs" "pc_offset child", unfolded m f] sorted below by blast
  have l: "?taken \<noteq> [] \<Longrightarrow> last (map (consumer_record child b) ?rs) = consumer_record child b (last ?rs)"
    by (rule last_map) auto
  have p: "parseRecords b child = (records_from ?cur child b, child\<lparr>pc_offset := offset\<rparr>)"
    unfolding parseRecords_def tk consume_taken_def offset_def records_from_def
    using l by (cases "?taken = []") (simp_all add: o_def)
  show thesis
  proof (cases "?taken = []")
    case True
    then have o: "sint offset = ?cur + 1" using c top by (simp add: offset_def sint_succ)
    moreover have "\<forall>r\<in>set ?rs. record_offset b r < ?cur" using True by (auto simp: filter_empty_conv)
    ultimately show thesis using that [OF p] c by force
  next
    case False
    then have ne: "?rs \<noteq> []" by auto
    have o: "sint offset = record_offset b (last ?rs) + 1"
      using False in_b [of "last ?rs"] ne top by (simp add: offset_def sint_succ consumer_record_offset)
    have le: "record_offset b r \<le> record_offset b (last ?rs)" if "r \<in> set ?rs" for r
      using sorted that ne by (cases ?rs rule: rev_cases) (auto simp: sorted_wrt_append)
    obtain r where "r \<in> set ?rs" "?cur \<le> record_offset b r" using False by (auto simp: filter_empty_conv)
    with le have "?cur < sint offset" using o by fastforce
    then show thesis using that [OF p] o le in_b [of "last ?rs"] ne by force
  qed
qed

subsection \<open>Reading committed records\<close>

lemma records_from_child:
  "pc_topic child' = pc_topic child \<Longrightarrow> pc_partition child' = pc_partition child \<Longrightarrow>
     records_from offset child' b = records_from offset child b"
  by (simp add: records_from_def consumer_record_def Let_def)

lemma records_from_start:
  "batch_ok b \<Longrightarrow> s \<le> cur \<Longrightarrow> cur = s \<or> cur \<le> first_of b \<Longrightarrow> records_from cur child b = records_from s child b"
  by (force simp: records_from_def batch_ok_def list_all_iff intro!: arg_cong [where f = "map _"] filter_cong)

lemma parse_sets_batch:
  assumes "batch_ok b" "pop_aborted (LastOffset b) txns ids = (ids', txns')" "parseRecords b child = (taken, child')"
  shows "parse_sets conf (newDefaultRecords b # sets) ids txns messages child =
    parse_sets conf sets (ids_after b ids') txns'
      (if rb_Control b \<or> (fc_IsolationLevel conf = ReadCommitted \<and> rb_IsTransactional b \<and> rb_ProducerID b \<in> set ids')
       then messages else messages @ taken) child'"
proof -
  let ?r = "newDefaultRecords b"
  have r: "recordsType ?r = defaultRecords" "rs_RecordBatch ?r = Some b" by (simp_all add: newDefaultRecords_def)
  have c: "fst (isControl ?r) = Ok (rb_Control b)" 
    by (simp add: isControl_def with_type_def newDefaultRecords_def recordsType_defs)
  show ?thesis
  proof (cases "rb_Control b")
    case True
    then obtain cr where cr: "getControlRecord ?r = Ok cr" using assms(1)
      by (auto simp: batch_ok_def control_type_def split: res.splits)
    then have "ids_after b ids' = (if cr_Type cr = ControlRecordAbort then removeAll (rb_ProducerID b) ids' else ids')"
      using True by (simp add: ids_after_def end_marker_def control_type_def)
    then show ?thesis using True assms(2,3) r c cr by (simp add: recordsType_defs)
  next
    case False
    then have "ids_after b ids' = ids'" using end_marker_control [of b] by (auto simp: ids_after_def)
    then show ?thesis using False assms(2,3) r c by (simp add: recordsType_defs)
  qed
qed

theorem parse_sets_committed:
  "tracks opened bs L ids txns \<Longrightarrow> begun opened bs \<Longrightarrow> log_ok bs \<Longrightarrow> decided n bs \<Longrightarrow>
   \<forall>b\<in>set (take n bs). last_of b \<le> L \<Longrightarrow> fc_IsolationLevel conf = ReadCommitted \<Longrightarrow>
   \<forall>b\<in>set bs. sint (pc_offset child) \<le> last_of b \<Longrightarrow> s \<le> sint (pc_offset child) \<Longrightarrow>
   sint (pc_offset child) = s \<or> (\<forall>b\<in>set bs. sint (pc_offset child) \<le> first_of b) \<Longrightarrow>
   \<exists>offset. parse_sets conf (map newDefaultRecords (take n bs)) ids txns messages child =
       (Ok (messages @ concat (map (records_from s child) (committed n bs))), child\<lparr>pc_offset := offset\<rparr>) \<and>
     sint (pc_offset child) \<le> sint offset \<and> (take n bs = [] \<longrightarrow> offset = pc_offset child) \<and>
     (take n bs \<noteq> [] \<longrightarrow> sint (pc_offset child) < sint offset \<and> sint offset \<le> last_of (last (take n bs)) + 1) \<and>
     (\<forall>b\<in>set (take n bs). \<forall>r\<in>set (rb_Records b). record_offset b r < sint offset)"
proof (induction bs arbitrary: n opened ids txns messages child)
  case Nil
  then show ?case by (auto intro!: exI [of _ "pc_offset child"])
next
  case (Cons b bs)
  show ?case
  proof (cases n)
    case 0
    then show ?thesis by (auto intro!: exI [of _ "pc_offset child"])
  next
    case (Suc m)
    have b: "batch_ok b" "\<forall>c\<in>set bs. last_of b < first_of c" "log_ok bs" using Cons.prems(3) by (simp_all add: log_ok_Cons)
    obtain ids' txns' where pop: "pop_aborted (LastOffset b) txns ids = (ids', txns')" by fastforce
    obtain next_offset where p: "parseRecords b child = (records_from (sint (pc_offset child)) child b, child\<lparr>pc_offset := next_offset\<rparr>)"
      and n1: "sint (pc_offset child) < sint next_offset" and n2: "sint next_offset \<le> last_of b + 1"
      and n3: "\<forall>r\<in>set (rb_Records b). record_offset b r < sint next_offset"
      using parseRecords_from [OF b(1)] Cons.prems(7) by auto
    have rs: "records_from (sint (pc_offset child)) child b = records_from s child b"
      using records_from_start [OF b(1) Cons.prems(8)] Cons.prems(9) by auto
    let ?child = "child\<lparr>pc_offset := next_offset\<rparr>"
    let ?seen = "\<not> rb_Control b \<and> (rb_IsTransactional b \<longrightarrow> outcome (rb_ProducerID b) bs = Some ControlRecordCommit)"
    have out: "outcome p bs \<in> {None, Some ControlRecordAbort, Some ControlRecordCommit}" for p
      using end_marker_cases by (induction bs) auto
    have keep: "(rb_Control b \<or> (rb_IsTransactional b \<and> rb_ProducerID b \<in> set ids')) \<longleftrightarrow> \<not> ?seen"
      using tracks_drops [OF Cons.prems(1-3) pop] Cons.prems(4,5) Suc out [of "rb_ProducerID b"] by auto
    have next_b: "\<forall>c\<in>set bs. sint next_offset \<le> first_of c" using n2 b(2) by force
    moreover have "\<forall>c\<in>set bs. first_of c \<le> last_of c" using b(3) by (auto simp: log_ok_def list_all_iff batch_ok_def)
    ultimately have next_l: "\<forall>c\<in>set bs. sint (pc_offset ?child) \<le> last_of c" by force
    have rc: "records_from s ?child = records_from s child" by (rule ext, rule records_from_child) simp_all
    obtain offset where ih: "parse_sets conf (map newDefaultRecords (take m bs)) (ids_after b ids') txns'
          (if \<not> ?seen then messages else messages @ records_from s child b) ?child =
        (Ok ((if \<not> ?seen then messages else messages @ records_from s child b) @ concat (map (records_from s child) (committed m bs))),
         ?child\<lparr>pc_offset := offset\<rparr>)"
      and o: "sint next_offset \<le> sint offset" "take m bs \<noteq> [] \<longrightarrow> sint offset \<le> last_of (last (take m bs)) + 1"
        "take m bs = [] \<longrightarrow> offset = next_offset"
        "\<forall>b\<in>set (take m bs). \<forall>r\<in>set (rb_Records b). record_offset b r < sint offset"
      using Cons.IH [of "note_batch b opened" "ids_after b ids'" txns' m ?child
          "if \<not> ?seen then messages else messages @ records_from s child b",
          OF tracks_step [OF Cons.prems(1-3) pop] begun_note [OF Cons.prems(2,3)] b(3) _ _ Cons.prems(6) next_l]
        Cons.prems(4,5,8) Suc n1 next_b rc by auto
    have "parse_sets conf (newDefaultRecords b # map newDefaultRecords (take m bs)) ids txns messages child =
        parse_sets conf (map newDefaultRecords (take m bs)) (ids_after b ids') txns'
          (if \<not> ?seen then messages else messages @ records_from s child b) ?child"
      using parse_sets_batch [OF b(1) pop p, of conf "map newDefaultRecords (take m bs)" messages] Cons.prems(6) keep
      by (simp only: rs simp_thms)
    also note ih
    finally have "parse_sets conf (map newDefaultRecords (take n (b # bs))) ids txns messages child =
        (Ok (messages @ concat (map (records_from s child) (committed n (b # bs)))), child\<lparr>pc_offset := offset\<rparr>)"
      using Suc by (cases ?seen) (simp del: parse_sets.simps, force simp del: parse_sets.simps)
    then show ?thesis using o n1 n2 n3 Suc by fastforce
  qed
qed

text \<open>The state of the index at the start of the fetched batches.\<close>

definition opened_by :: "RecordBatch list \<Rightarrow> int64 \<Rightarrow> int64 option" where
  "opened_by bs = foldl (\<lambda>opened b. note_batch b opened) (\<lambda>_. None) bs"

lemma aborted_index_append:
  "aborted_index opened (xs @ ys) = aborted_index opened xs @ aborted_index (foldl (\<lambda>opened b. note_batch b opened) opened xs) ys"
  by (induction xs arbitrary: opened) simp_all

lemma aborted_index_marker: "(t, mk) \<in> set (aborted_index opened bs) \<Longrightarrow> \<exists>b\<in>set bs. mk = LastOffset b"
  by (induction bs arbitrary: opened) (auto split: option.splits if_splits)

lemma begun_foldl:
  "begun opened (xs @ ys) \<Longrightarrow> log_ok (xs @ ys) \<Longrightarrow> begun (foldl (\<lambda>opened b. note_batch b opened) opened xs) ys"
proof (induction xs arbitrary: opened)
  case (Cons x xs)
  then show ?case using begun_note [of opened x "xs @ ys"] by (simp add: log_ok_Cons)
qed simp

definition unread :: "int \<Rightarrow> RecordBatch list \<Rightarrow> RecordBatch list" where
  "unread offset log = dropWhile (\<lambda>b. last_of b < offset) log"

lemma fetched_unread: "fetched offset n log = take n (unread offset log)"
  by (simp add: fetched_def unread_def)

lemma log_ok_append: "log_ok (xs @ ys) \<longleftrightarrow> log_ok xs \<and> log_ok ys \<and> (\<forall>x\<in>set xs. \<forall>y\<in>set ys. last_of x < first_of y)"
  by (auto simp: log_ok_def sorted_wrt_append)

lemma log_ok_bounds: "log_ok bs \<Longrightarrow> b \<in> set bs \<Longrightarrow> first_of b \<le> last_of b"
  by (simp add: log_ok_def list_all_iff batch_ok_def)

lemma unread_split:
  assumes "log_ok log"
  obtains pre where "log = pre @ unread offset log" "\<forall>b\<in>set pre. last_of b < offset"
    "\<forall>b\<in>set (unread offset log). offset \<le> last_of b" "log_ok (unread offset log)"
proof -
  let ?pre = "takeWhile (\<lambda>b. last_of b < offset) log"
  have e: "log = ?pre @ unread offset log" by (simp add: unread_def)
  then have l: "log_ok (unread offset log)" using assms log_ok_append [of ?pre "unread offset log"] by simp
  have "\<forall>b\<in>set (unread offset log). offset \<le> last_of b"
  proof (cases "unread offset log")
    case (Cons b bs)
    then have "offset \<le> last_of b" using hd_dropWhile [of "\<lambda>b. last_of b < offset" log] by (simp add: unread_def)
    moreover have "last_of b < first_of c \<and> first_of c \<le> last_of c" if "c \<in> set bs" for c
      using l that log_ok_bounds [OF l, of c] by (simp add: Cons log_ok_Cons)
    ultimately show ?thesis using Cons by force
  qed simp
  with e l that show thesis using set_takeWhileD by metis
qed

lemma tracks_start:
  assumes log: "log_ok log" and a: "answers_fetch log offset n block"
  obtains opened where "tracks opened (unread offset log) (last_of (last (fetched offset n log))) [] (getAbortedTransactions block)"
    "begun opened (unread offset log)"
proof -
  define rest where "rest = unread offset log"
  obtain pre where p: "log = pre @ rest" "\<forall>b\<in>set pre. last_of b < offset"
    "\<forall>b\<in>set rest. offset \<le> last_of b"
    by (rule unread_split [OF log, of offset, folded rest_def])
  let ?opened = "opened_by pre"
  have i: "aborted_index (\<lambda>_. None) log = aborted_index (\<lambda>_. None) pre @ aborted_index ?opened (rest)"
    using aborted_index_append [of "\<lambda>_. None" pre "rest"] p(1) by (simp add: opened_by_def)
  have "(t, mk) \<in> set (aborted_index (\<lambda>_. None) log) \<and> offset \<le> sint mk \<longleftrightarrow> (t, mk) \<in> set (aborted_index ?opened (rest))"
    for t mk
    using aborted_index_marker [of t mk "\<lambda>_. None" pre] aborted_index_marker [of t mk ?opened "rest"] p(2,3)
    by (fastforce simp: i)
  then have "set (getAbortedTransactions block) =
      {t. \<exists>mk. (t, mk) \<in> set (aborted_index ?opened (rest)) \<and> sint (abt_FirstOffset t) \<le> last_of (last (fetched offset n log))}"
    using a by (fastforce simp: answers_fetch_def getAbortedTransactions_def)
  then have "tracks ?opened (rest) (last_of (last (fetched offset n log))) [] (getAbortedTransactions block)"
    by (auto simp: tracks_def getAbortedTransactions_def)
  moreover have "begun ?opened (rest)"
    using begun_foldl [of "\<lambda>_. None" pre "rest"] p(1) log by (simp add: opened_by_def begun_def)
  ultimately show thesis using that unfolding rest_def by blast
qed

subsection \<open>A response, and a run of responses\<close>

lemma log_ok_last:
  assumes "log_ok bs" "b \<in> set (take n bs)"
  shows "last_of b \<le> last_of (last (take n bs))"
proof -
  have t: "log_ok (take n bs)" using assms(1) log_ok_append [of "take n bs" "drop n bs"] by simp
  obtain xs z where z: "take n bs = xs @ [z]" using assms(2) by (cases "take n bs" rule: rev_cases) auto
  have "log_ok xs \<and> log_ok [z] \<and> (\<forall>x\<in>set xs. last_of x < first_of z)" using t log_ok_append [of xs "[z]"] z by simp
  then show ?thesis using assms(2) log_ok_bounds [of "[z]" z] z by force
qed

lemma sum_records_default: "sum_records (map newDefaultRecords bs) = Ok (sum_list (map (\<lambda>b. length (rb_Records b)) bs))"
  by (induction bs) (simp_all add: default_queries)

text \<open>A response that answers the fetch of the consumer without an error and brings a batch.\<close>

definition good_response :: "RecordBatch list \<Rightarrow> nat \<Rightarrow> FetchResponse \<Rightarrow> partitionConsumer \<Rightarrow> bool" where
  "good_response log n response child \<longleftrightarrow>
     (case frs_GetBlock response (pc_topic child) (pc_partition child) of
        None \<Rightarrow> False
      | Some block \<Rightarrow> frb_Err block = ErrNoError \<and> fetched (sint (pc_offset child)) n log \<noteq> [] \<and>
          answers_fetch log (sint (pc_offset child)) n block)"

lemma parseResponse_sets:
  assumes g: "good_response log n response child" and log: "log_ok log"
  obtains block child' where "answers_fetch log (sint (pc_offset child)) n block"
    "parseResponse conf response child =
       parse_sets conf (map newDefaultRecords (fetched (sint (pc_offset child)) n log)) [] (getAbortedTransactions block) [] child'"
    "pc_offset child' = pc_offset child" "pc_topic child' = pc_topic child" "pc_partition child' = pc_partition child"
proof -
  let ?bs = "fetched (sint (pc_offset child)) n log"
  obtain block where b: "frs_GetBlock response (pc_topic child) (pc_partition child) = Some block"
    "frb_Err block = ErrNoError" "?bs \<noteq> []" "answers_fetch log (sint (pc_offset child)) n block"
    using g by (auto simp: good_response_def split: option.splits)
  have r: "frb_RecordsSet block = map newDefaultRecords ?bs" using b(4) by (simp add: answers_fetch_def)
  have "hd ?bs \<in> set ?bs" using b(3) by simp
  then have "hd ?bs \<in> set log" by (auto simp: fetched_def dest: in_set_takeD set_dropWhileD)
  then have "rb_Records (hd ?bs) \<noteq> []" using log by (simp add: log_ok_def list_all_iff batch_ok_def)
  with \<open>hd ?bs \<in> set ?bs\<close> have n: "sum_list (map (\<lambda>b. length (rb_Records b)) ?bs) \<noteq> 0" by auto
  have n': "frb_numRecords block = Ok (sum_list (map (\<lambda>b. length (rb_Records b)) ?bs))"
    by (simp add: frb_numRecords_def r sum_records_default)
  have "frs_Blocks response \<noteq> []" using b(1) by (auto simp: frs_GetBlock_def get_block_def)
  let ?child = "(if frb_PreferredReadReplica block \<noteq> invalidPreferredReplicaID
        then child\<lparr>pc_preferredReadReplica := frb_PreferredReadReplica block\<rparr> else child)
          \<lparr>pc_fetchSize := fc_Fetch_Default conf, pc_highWaterMarkOffset := frb_HighWaterMarkOffset block\<rparr>"
  have "parseResponse conf response child =
      parse_sets conf (map newDefaultRecords ?bs) [] (getAbortedTransactions block) [] ?child"
    unfolding parseResponse_def b(1) n' r Let_def option.case res.case using n b(2) \<open>frs_Blocks response \<noteq> []\<close>
    by (simp del: sum_list_eq_0_iff)
  then show thesis by (rule that [OF b(4)]) simp_all
qed

theorem parseResponse_committed:
  assumes log: "log_ok log" and g: "good_response log n response child" and c: "fc_IsolationLevel conf = ReadCommitted"
    and d: "decided n (unread (sint (pc_offset child)) log)"
  obtains child' where "parseResponse conf response child =
      (Ok (concat (map (records_from (sint (pc_offset child)) child) (committed n (unread (sint (pc_offset child)) log)))), child')"
    "sint (pc_offset child) < sint (pc_offset child')"
    "sint (pc_offset child') \<le> last_of (last (fetched (sint (pc_offset child)) n log)) + 1"
    "\<forall>b\<in>set (fetched (sint (pc_offset child)) n log). \<forall>r\<in>set (rb_Records b). record_offset b r < sint (pc_offset child')"
    "pc_topic child' = pc_topic child" "pc_partition child' = pc_partition child"
proof -
  let ?s = "sint (pc_offset child)"
  let ?rest = "unread ?s log"
  obtain block child1 where b: "answers_fetch log ?s n block"
    and p: "parseResponse conf response child =
       parse_sets conf (map newDefaultRecords (take n ?rest)) [] (getAbortedTransactions block) [] child1"
    and c1: "pc_offset child1 = pc_offset child" "pc_topic child1 = pc_topic child" "pc_partition child1 = pc_partition child"
    using parseResponse_sets [OF g log] by (metis fetched_unread)
  obtain opened where t: "tracks opened ?rest (last_of (last (take n ?rest))) [] (getAbortedTransactions block)" "begun opened ?rest"
    using tracks_start [OF log b] by (metis fetched_unread)
  have u: "\<forall>b\<in>set ?rest. ?s \<le> last_of b" "log_ok ?rest" using unread_split [OF log] by metis+
  have ne: "take n ?rest \<noteq> []" using g by (auto simp: good_response_def fetched_unread split: option.splits)
  have l: "\<forall>b\<in>set (take n ?rest). last_of b \<le> last_of (last (take n ?rest))"
    using log_ok_last [OF u(2)] by blast
  have r: "records_from ?s child1 = records_from ?s child" by (rule ext, rule records_from_child) (simp_all add: c1)
  from parse_sets_committed [OF t u(2) d l c, of child1 ?s "[]"] u(1) c1 ne p r that show thesis
    by (auto simp: fetched_unread)
qed

text \<open>The committed records of the log from an offset on.\<close>

definition visible_from :: "int \<Rightarrow> partitionConsumer \<Rightarrow> RecordBatch list \<Rightarrow> ConsumerMessage list" where
  "visible_from offset child log = concat (map (records_from offset child) (committed (length log) log))"

lemma committed_split: "n \<le> m \<Longrightarrow> committed m bs = committed n bs @ committed (m - n) (drop n bs)"
  by (induction bs arbitrary: m n) (auto split: nat.splits)

lemma committed_subset: "set (committed n bs) \<subseteq> set (take n bs)"
proof (induction bs arbitrary: n)
  case (Cons b bs)
  from Cons.IH [of "n - 1"] show ?case by (cases n) auto
qed simp

lemma committed_beyond: "length bs \<le> n \<Longrightarrow> committed n bs = committed (length bs) bs"
  using committed_split [of "length bs" n bs] by simp

lemma decided_le: "decided m bs \<Longrightarrow> n \<le> m \<Longrightarrow> decided n bs"
  by (induction bs arbitrary: m n) (auto split: nat.splits)

lemma decided_drop: "decided (length (xs @ ys)) (xs @ ys) \<Longrightarrow> decided (length ys) ys"
  by (induction xs) simp_all

lemma decided_beyond: "decided (length bs) bs \<Longrightarrow> decided n bs"
  by (induction bs arbitrary: n) (auto split: nat.splits)

text \<open>Batches whose records are all before the offset contribute nothing.\<close>

lemma records_from_before: "\<forall>r\<in>set (rb_Records b). record_offset b r < offset \<Longrightarrow> records_from offset child b = []"
  by (force simp: records_from_def filter_empty_conv)

lemma concat_records_before:
  "\<forall>b\<in>set bs. \<forall>r\<in>set (rb_Records b). record_offset b r < offset \<Longrightarrow> concat (map (records_from offset child) bs) = []"
  using records_from_before by (simp add: concat_eq_Nil_conv)

lemma batch_records: "log_ok bs \<Longrightarrow> b \<in> set bs \<Longrightarrow> r \<in> set (rb_Records b) \<Longrightarrow>
    first_of b \<le> record_offset b r \<and> record_offset b r \<le> last_of b"
  by (simp add: log_ok_def list_all_iff batch_ok_def)

lemma visible_from_unread:
  assumes "log_ok log"
  shows "visible_from offset child log = concat (map (records_from offset child) (committed (length (unread offset log)) (unread offset log)))"
proof -
  define rest where "rest = unread offset log"
  obtain pre where p: "log = pre @ rest" "\<forall>b\<in>set pre. last_of b < offset"
    by (rule unread_split [OF assms, of offset, folded rest_def])
  have "\<forall>b\<in>set (committed (length pre) log). \<forall>r\<in>set (rb_Records b). record_offset b r < offset"
    using committed_subset [of "length pre" log] p batch_records [OF assms] by fastforce
  note before = concat_records_before [OF this, of child]
  have "committed (length log) log = committed (length pre) log @ committed (length rest) rest"
    using committed_split [of "length pre" "length log" log] p(1) by simp
  then show ?thesis unfolding visible_from_def rest_def [symmetric] by (simp only: map_append concat_append before append_Nil)
qed

lemma visible_from_step:
  assumes log: "log_ok log" and ne: "fetched s n log \<noteq> []"
    and s: "s < s'" "s' \<le> last_of (last (fetched s n log)) + 1"
      "\<forall>b\<in>set (fetched s n log). \<forall>r\<in>set (rb_Records b). record_offset b r < s'"
  shows "visible_from s child log = concat (map (records_from s child) (committed n (unread s log))) @ visible_from s' child log"
proof -
  define rest where "rest = unread s log"
  obtain pre where p: "log = pre @ rest" "\<forall>b\<in>set pre. last_of b < s"
    by (rule unread_split [OF log, of s, folded rest_def])
  have f: "fetched s n log = take n rest" by (simp add: fetched_unread rest_def)
  let ?m = "length (take n rest)" and ?later = "drop n rest"
  have lr: "log_ok rest" using log p(1) log_ok_append by blast
  have cn: "committed n rest = committed ?m rest"
    using committed_beyond [of rest n] by (cases "n \<le> length rest") (simp_all add: min_def)
  have all: "committed (length rest) rest = committed n rest @ committed (length ?later) ?later"
    using committed_split [of ?m "length rest" rest] cn by (cases "n \<le> length rest") (simp_all add: min_def)
  have later: "s' \<le> first_of b" if "b \<in> set ?later" for b
  proof -
    have "last (take n rest) \<in> set (take n rest)" using ne f last_in_set by metis
    then have "last_of (last (take n rest)) < first_of b"
      using lr log_ok_append [of "take n rest" ?later] that by simp
    then show ?thesis using s(2) f by simp
  qed
  have same: "records_from s child b = records_from s' child b" if "b \<in> set (committed (length ?later) ?later)" for b
  proof -
    have b: "b \<in> set ?later" using that committed_subset [of "length ?later" ?later] by auto
    then have "b \<in> set rest" by (rule in_set_dropD)
    then have "batch_ok b" using lr by (simp add: log_ok_def list_all_iff)
    from records_from_start [OF this, of s s' child] later [OF b] s(1) show ?thesis by simp
  qed
  have early: "\<forall>b\<in>set (committed (length pre) log) \<union> set (committed n rest). \<forall>r\<in>set (rb_Records b). record_offset b r < s'"
  proof (intro ballI)
    fix b r assume b: "b \<in> set (committed (length pre) log) \<union> set (committed n rest)" and r: "r \<in> set (rb_Records b)"
    then consider "b \<in> set pre" | "b \<in> set (take n rest)"
      using committed_subset [of "length pre" log] committed_subset [of n rest] p(1) by auto
    then show "record_offset b r < s'"
      using s(1,3) f p batch_records [OF log _ r] r by cases fastforce+
  qed
  have "visible_from s' child log =
      concat (map (records_from s' child) (committed (length pre) log)) @
      concat (map (records_from s' child) (committed n rest)) @
      concat (map (records_from s' child) (committed (length ?later) ?later))"
    using committed_split [of "length pre" "length log" log] p(1) all by (simp add: visible_from_def)
  also have "\<dots> = concat (map (records_from s' child) (committed (length ?later) ?later))"
    using early concat_records_before [of "committed (length pre) log" s' child]
      concat_records_before [of "committed n rest" s' child] by simp
  also have "\<dots> = concat (map (records_from s child) (committed (length ?later) ?later))"
    using same by (intro arg_cong [where f = concat] map_cong) simp_all
  finally show ?thesis using visible_from_unread [OF log, of s child] unfolding rest_def [symmetric] all by simp
qed

text \<open>The responses of a run are parsed one after the other; each answers the fetch at the offset reached so far.\<close>

primrec read_all :: "fetch_conf \<Rightarrow> FetchResponse list \<Rightarrow> partitionConsumer \<Rightarrow> ConsumerMessage list res \<times> partitionConsumer" where
  "read_all conf [] child = (Ok [], child)"
| "read_all conf (r # rs) child =
     (case parseResponse conf r child of
        (Ok ms, child) \<Rightarrow> (case read_all conf rs child of (ms', child) \<Rightarrow> (res_bind ms' (\<lambda>ms'. Ok (ms @ ms')), child))
      | (e, child) \<Rightarrow> (e, child))"

primrec answered :: "fetch_conf \<Rightarrow> RecordBatch list \<Rightarrow> (nat \<times> FetchResponse) list \<Rightarrow> partitionConsumer \<Rightarrow> bool" where
  "answered conf log [] child = True"
| "answered conf log (nr # nrs) child \<longleftrightarrow>
     good_response log (fst nr) (snd nr) child \<and> answered conf log nrs (snd (parseResponse conf (snd nr) child))"

lemma visible_from_child:
  "pc_topic child' = pc_topic child \<Longrightarrow> pc_partition child' = pc_partition child \<Longrightarrow>
     visible_from offset child' log = visible_from offset child log"
  using records_from_child [of child' child offset] by (simp add: visible_from_def cong: map_cong)

lemma parseResponse_progress:
  assumes log: "log_ok log" and d: "decided (length log) log" and c: "fc_IsolationLevel conf = ReadCommitted"
    and g: "good_response log n response child"
  obtains ms child' where "parseResponse conf response child = (Ok ms, child')"
    "visible_from (sint (pc_offset child)) child log = ms @ visible_from (sint (pc_offset child')) child log"
    "sint (pc_offset child) < sint (pc_offset child')"
    "pc_topic child' = pc_topic child" "pc_partition child' = pc_partition child"
proof -
  let ?s = "sint (pc_offset child)"
  define rest where "rest = unread ?s log"
  obtain pre where "log = pre @ rest" by (rule unread_split [OF log, of ?s, folded rest_def])
  then have "decided n rest" using d decided_drop decided_beyond by blast
  moreover have "fetched ?s n log \<noteq> []" using g by (auto simp: good_response_def split: option.splits)
  ultimately show thesis
    using parseResponse_committed [OF log g c] visible_from_step [OF log, of ?s n] that unfolding rest_def by metis
qed

theorem read_all_committed:
  assumes "log_ok log" "decided (length log) log" "fc_IsolationLevel conf = ReadCommitted"
  shows "answered conf log nrs child \<Longrightarrow>
    \<exists>ms child'. read_all conf (map snd nrs) child = (Ok ms, child') \<and>
      visible_from (sint (pc_offset child)) child log = ms @ visible_from (sint (pc_offset child')) child log \<and>
      sint (pc_offset child) + int (length nrs) \<le> sint (pc_offset child')"
proof (induction nrs arbitrary: child)
  case (Cons nr nrs)
  obtain ms child1 where p: "parseResponse conf (snd nr) child = (Ok ms, child1)"
    and v: "visible_from (sint (pc_offset child)) child log = ms @ visible_from (sint (pc_offset child1)) child log"
    and o: "sint (pc_offset child) < sint (pc_offset child1)"
    and t: "pc_topic child1 = pc_topic child" "pc_partition child1 = pc_partition child"
    using parseResponse_progress [OF assms, of "fst nr" "snd nr" child] Cons.prems by auto
  obtain ms' child' where "read_all conf (map snd nrs) child1 = (Ok ms', child')"
    "visible_from (sint (pc_offset child1)) child1 log = ms' @ visible_from (sint (pc_offset child')) child1 log"
    "sint (pc_offset child1) + int (length nrs) \<le> sint (pc_offset child')"
    using Cons.IH [of child1] Cons.prems p by auto
  then show ?case using p v o visible_from_child [OF t] by simp
qed simp

text \<open>Behind the last batch nothing is left to read: a run that gets there has returned everything.\<close>

lemma visible_from_end:
  assumes "log_ok log" "\<forall>b\<in>set log. last_of b < offset"
  shows "visible_from offset child log = []"
proof -
  have "unread offset log = []" using assms(2) by (simp add: unread_def)
  then show ?thesis using visible_from_unread [OF assms(1), of offset child] by simp
qed

subsection \<open>Where the offset does not follow the messages\<close>

text \<open>
  An error while a control record is read discards the messages of the batches before it, but the offset
  of the consumer has moved behind them: they are not fetched again.
\<close>

lemma parse_error_skips:
  assumes b: "batch_ok b" "\<not> rb_Control b" "sint (pc_offset child) \<le> last_of b"
    and c: "rb_Control c" "getControlRecord (newDefaultRecords c) = Err e"
  obtains child' where
    "parse_sets conf (map newDefaultRecords [b, c]) [] [] [] child = (Err e, child')"
    "\<exists>child1. parse_sets conf [newDefaultRecords b] [] [] [] child = (Ok (records_from (sint (pc_offset child)) child b), child1) \<and>
       child' = snd (parseRecords c child1)"
proof -
  obtain offset where p: "parseRecords b child = (records_from (sint (pc_offset child)) child b, child\<lparr>pc_offset := offset\<rparr>)"
    using parseRecords_from [OF b(1,3)] by metis
  let ?child = "child\<lparr>pc_offset := offset\<rparr>"
  obtain taken child' where q: "parseRecords c ?child = (taken, child')" by fastforce
  have i: "ids_after b [] = []" by (simp add: ids_after_def)
  have rc: "recordsType (newDefaultRecords c) = defaultRecords" "rs_RecordBatch (newDefaultRecords c) = Some c"
    "fst (isControl (newDefaultRecords c)) = Ok True"
    using c(1) by (simp_all add: isControl_def with_type_def newDefaultRecords_def recordsType_defs)
  note step = parse_sets_batch [OF b(1) _ p, of "[]" "[]" "[]" "[]" conf _ "[]", simplified, unfolded i]
  have "parse_sets conf (map newDefaultRecords [b, c]) [] [] [] child = (Err e, child')"
    using step [of "[newDefaultRecords c]"] b(2) rc c(2) q by (simp add: recordsType_defs)
  moreover have "parse_sets conf [newDefaultRecords b] [] [] [] child = (Ok (records_from (sint (pc_offset child)) child b), ?child)"
    using step [of "[]"] b(2) by simp
  ultimately show thesis using that q by (metis snd_conv)
qed

text \<open>
  A response whose batches have lost all their records to compaction: the consumer goes to the offset
  behind the FIRST offset of the last batch, so that a batch of more than one offset is fetched again.
\<close>

lemma empty_batch_refetched:
  assumes r: "frs_GetBlock response (pc_topic child) (pc_partition child) = Some block" "frb_Err block = ErrNoError"
    and b: "block = add_batch (no_records block) w" "rb_Records w = []" "\<not> frb_Partial block"
      "first_of w < sint (frb_HighWaterMarkOffset block)" "frb_PreferredReadReplica block = invalidPreferredReplicaID"
    and c: "pc_offset child = rb_FirstOffset w + 1"
  shows "parseResponse conf response child = (Ok [], child)"
proof -
  have n: "frb_RecordsSet block = []" "frb_LastRecordsBatchOffset block = Some (rb_FirstOffset w)"
    by (subst b(1), simp add: add_batch_def add_records_def no_records_def b(2))+
  have "frs_Blocks response \<noteq> []" using r(1) by (auto simp: frs_GetBlock_def get_block_def)
  then show ?thesis using r b(3-5) c n by (simp add: parseResponse_def frb_numRecords_def parse_empty_def frb_isPartial_def)
qed

end
