(* ===== verification/Go_Maps.thy ===== *)
theory Go_Maps
  imports Wire_Steps
begin

text \<open>
  Go maps as association lists: what an update, a deletion and a filter do to the entries, beyond the
  lemmas of the library.
\<close>

lemma update_subset: "set (AList.update k v al) \<subseteq> insert (k, v) (set al)"
  by (induction al) auto

lemma delete_shorter: "map_of al k = Some v \<Longrightarrow> length (AList.delete k al) < length al"
  by (induction al) (auto simp: less_Suc_eq_le length_delete_le)

lemma map_of_map_pairs: "map_of (map (\<lambda>(k, v). (k, f v)) xs) k = map_option f (map_of xs k)"
  by (induction xs) auto

lemma map_of_filter_values:
  "distinct (map fst xs) \<Longrightarrow> map_of (filter (\<lambda>(k, v). P v) xs) k = (case map_of xs k of Some v \<Rightarrow> if P v then Some v else None | None \<Rightarrow> None)"
proof (induction xs)
  case (Cons x xs)
  obtain k' v where x: "x = (k', v)" by (cases x)
  have "k' \<notin> fst ` set xs" using Cons.prems x by simp
  then have "map_of xs k' = None" by (simp add: map_of_eq_None_iff)
  with Cons x show ?case by (cases "k = k'") (auto split: option.splits)
qed simp

lemma map_of_filter_keys: "map_of (filter (\<lambda>(k, v). P k) xs) k = (if P k then map_of xs k else None)"
  by (induction xs) auto

end
