(* ===== verification/Offset_Manager.thy ===== *)
theory Offset_Manager
  imports Offset_Messages Protocol_Table Go_Maps
begin

text \<open>
  The offset manager (\<open>offset_manager.go\<close>): the partition offset managers that the user marks offsets in,
  the requests that commit them, what an answer of the coordinator does, and the shutdown. Broker objects
  are numbers; the client, the coordinator and the clock are a world on which the calls act. The ticker
  goroutine only calls \<open>Commit\<close>; the locks make each operation here one step, and the commit, which holds
  no lock while the request is on its way, is split into steps below. Log lines are left out; errors for
  the user are collected in a list.
\<close>

subsection \<open>State\<close>

record offsets_conf =
  oc_Version :: KafkaVersion
  oc_Metadata_Retry_Max :: int
  oc_Offsets_Retention :: int
  oc_Offsets_Initial :: int64
  oc_Offsets_Retry_Max :: int
  oc_AutoCommit_Enable :: bool
  oc_Return_Errors :: bool
  oc_InstanceId :: string

record partitionOffsetManager =
  pom_topic :: string
  pom_partition :: int32
  pom_leaderEpoch :: int32
  pom_offset :: int64
  pom_metadata :: string
  pom_dirty :: bool
  pom_done :: bool
  pom_errors :: "go_error list"
  pom_released :: bool

record offsetManager =
  om_group :: string
  om_memberID :: string
  om_groupInstanceId :: nstring
  om_generation :: int32
  om_hasCanceler :: bool
  om_cancelled :: bool
  om_broker :: "nat option"
  om_poms :: "partitionOffsetManager topics"

text \<open>The calls to the client and to brokers, with the answer and the world behind it.\<close>

record 'w om_env =
  env_Closed :: "'w \<Rightarrow> bool"
  env_RefreshCoordinator :: "string \<Rightarrow> 'w \<Rightarrow> unit res \<times> 'w"
  env_Coordinator :: "string \<Rightarrow> 'w \<Rightarrow> nat res \<times> 'w"
  env_FetchOffset :: "nat \<Rightarrow> OffsetFetchRequest \<Rightarrow> 'w \<Rightarrow> OffsetFetchResponse res \<times> 'w"
  env_CommitOffset :: "nat \<Rightarrow> OffsetCommitRequest \<Rightarrow> 'w \<Rightarrow> OffsetCommitResponse res \<times> 'w"
  env_CloseBroker :: "nat \<Rightarrow> 'w \<Rightarrow> 'w"
  env_closingFirst :: "'w \<Rightarrow> bool \<times> 'w"

definition newOffsetManagerFromClient ::
    "offsets_conf \<Rightarrow> 'w om_env \<Rightarrow> string \<Rightarrow> string \<Rightarrow> int32 \<Rightarrow> bool \<Rightarrow> 'w \<Rightarrow> offsetManager res" where
  "newOffsetManagerFromClient conf env grp memberID generation hasCanceler w =
     (if env_Closed env w then Err ErrClosedClient
      else Ok \<lparr>om_group = grp, om_memberID = memberID,
        om_groupInstanceId = (if oc_InstanceId conf \<noteq> [] then Some (oc_InstanceId conf) else None),
        om_generation = generation, om_hasCanceler = hasCanceler, om_cancelled = False, om_broker = None, om_poms = []\<rparr>)"

subsection \<open>A partition\<close>

definition MarkOffset :: "int64 \<Rightarrow> string \<Rightarrow> partitionOffsetManager \<Rightarrow> partitionOffsetManager" where
  "MarkOffset offset metadata pom =
     (if sint offset > sint (pom_offset pom)
      then pom\<lparr>pom_offset := offset, pom_metadata := metadata, pom_dirty := True\<rparr> else pom)"

definition ResetOffset :: "int64 \<Rightarrow> string \<Rightarrow> partitionOffsetManager \<Rightarrow> partitionOffsetManager" where
  "ResetOffset offset metadata pom =
     (if sint offset \<le> sint (pom_offset pom)
      then pom\<lparr>pom_offset := offset, pom_metadata := metadata, pom_dirty := True\<rparr> else pom)"

definition updateCommitted :: "int64 \<Rightarrow> string \<Rightarrow> partitionOffsetManager \<Rightarrow> partitionOffsetManager" where
  "updateCommitted offset metadata pom =
     (if pom_offset pom = offset \<and> pom_metadata pom = metadata then pom\<lparr>pom_dirty := False\<rparr> else pom)"

definition NextOffset :: "offsets_conf \<Rightarrow> partitionOffsetManager \<Rightarrow> int64 \<times> string" where
  "NextOffset conf pom =
     (if sint (pom_offset pom) \<ge> 0 then (pom_offset pom, pom_metadata pom) else (oc_Offsets_Initial conf, []))"

definition pom_AsyncClose :: "partitionOffsetManager \<Rightarrow> partitionOffsetManager" where
  "pom_AsyncClose pom = pom\<lparr>pom_done := True\<rparr>"

definition pom_handleError :: "offsets_conf \<Rightarrow> go_error \<Rightarrow> partitionOffsetManager \<Rightarrow> partitionOffsetManager" where
  "pom_handleError conf err pom =
     (if oc_Return_Errors conf then pom\<lparr>pom_errors := pom_errors pom @ [err]\<rparr> else pom)"

definition pom_release :: "partitionOffsetManager \<Rightarrow> partitionOffsetManager" where
  "pom_release pom = pom\<lparr>pom_released := True\<rparr>"

subsection \<open>The coordinator\<close>

definition om_coordinator :: "'w om_env \<Rightarrow> offsetManager \<Rightarrow> 'w \<Rightarrow> nat res \<times> offsetManager \<times> 'w" where
  "om_coordinator env om w =
     (case om_broker om of
        Some broker \<Rightarrow> (Ok broker, om, w)
      | None \<Rightarrow>
          (case env_RefreshCoordinator env (om_group om) w of (refreshed, w) \<Rightarrow>
             (case refreshed of
                Ok _ \<Rightarrow>
                  (case env_Coordinator env (om_group om) w of (found, w) \<Rightarrow>
                     (case found of
                        Ok broker \<Rightarrow> (Ok broker, om\<lparr>om_broker := Some broker\<rparr>, w)
                      | Err e \<Rightarrow> (Err e, om, w) | Panic \<Rightarrow> (Panic, om, w) | Diverge \<Rightarrow> (Diverge, om, w)))
              | Err e \<Rightarrow> (Err e, om, w) | Panic \<Rightarrow> (Panic, om, w) | Diverge \<Rightarrow> (Diverge, om, w))))"

definition releaseCoordinator :: "nat \<Rightarrow> offsetManager \<Rightarrow> offsetManager" where
  "releaseCoordinator b om = (if om_broker om = Some b then om\<lparr>om_broker := None\<rparr> else om)"

definition tryCancelSession :: "offsetManager \<Rightarrow> offsetManager" where
  "tryCancelSession om = (if om_hasCanceler om then om\<lparr>om_cancelled := True\<rparr> else om)"

definition ofr_GetBlock :: "OffsetFetchResponse \<Rightarrow> string \<Rightarrow> int32 \<Rightarrow> OffsetFetchResponseBlock option" where
  "ofr_GetBlock r topic prt = get_block (ofr_Blocks r) topic prt"

fun fetchInitialOffset ::
  "offsets_conf \<Rightarrow> 'w om_env \<Rightarrow> string \<Rightarrow> int32 \<Rightarrow> nat \<Rightarrow> offsetManager \<Rightarrow> 'w \<Rightarrow>
   (int64 \<times> int32 \<times> string) res \<times> offsetManager \<times> 'w" where
  "fetchInitialOffset conf env topic prt retries om w =
     (case om_coordinator env om w of
        (Err e, om, w) \<Rightarrow>
          (case retries of 0 \<Rightarrow> (Err e, om, w) | Suc left \<Rightarrow> fetchInitialOffset conf env topic prt left om w)
      | (Panic, om, w) \<Rightarrow> (Panic, om, w)
      | (Diverge, om, w) \<Rightarrow> (Diverge, om, w)
      | (Ok broker, om, w) \<Rightarrow>
          (case env_FetchOffset env broker (NewOffsetFetchRequest (oc_Version conf) (om_group om) (Some [(topic, Some [prt])])) w of
             (Err e, w) \<Rightarrow>
               (case retries of 0 \<Rightarrow> (Err e, om, w)
                | Suc left \<Rightarrow> fetchInitialOffset conf env topic prt left (releaseCoordinator broker om) w)
           | (Panic, w) \<Rightarrow> (Panic, om, w)
           | (Diverge, w) \<Rightarrow> (Diverge, om, w)
           | (Ok resp, w) \<Rightarrow>
               (case ofr_GetBlock resp topic prt of
                  None \<Rightarrow> (Err ErrIncompleteResponse, om, w)
                | Some block \<Rightarrow>
                    if ofb_Err block = ErrNoError then (Ok (ofb_Offset block, ofb_LeaderEpoch block, ofb_Metadata block), om, w)
                    else if ofb_Err block = ErrNotCoordinatorForConsumer then
                      (case retries of 0 \<Rightarrow> (Err (KErr (ofb_Err block)), om, w)
                       | Suc left \<Rightarrow> fetchInitialOffset conf env topic prt left (releaseCoordinator broker om) w)
                    else if ofb_Err block = ErrOffsetsLoadInProgress then
                      (case retries of 0 \<Rightarrow> (Err (KErr (ofb_Err block)), om, w)
                       | Suc left \<Rightarrow>
                           (case env_closingFirst env w of (closing, w) \<Rightarrow>
                              if closing then (Err (KErr (ofb_Err block)), om, w)
                              else fetchInitialOffset conf env topic prt left om w))
                    else (Err (KErr (ofb_Err block)), om, w))))"

definition newPartitionOffsetManager ::
    "offsets_conf \<Rightarrow> 'w om_env \<Rightarrow> string \<Rightarrow> int32 \<Rightarrow> offsetManager \<Rightarrow> 'w \<Rightarrow>
     partitionOffsetManager res \<times> offsetManager \<times> 'w" where
  "newPartitionOffsetManager conf env topic prt om w =
     (case fetchInitialOffset conf env topic prt (nat (oc_Metadata_Retry_Max conf)) om w of (fetched, om, w) \<Rightarrow>
        (res_bind fetched (\<lambda>(offset, leaderEpoch, metadata). Ok
           \<lparr>pom_topic = topic, pom_partition = prt, pom_leaderEpoch = leaderEpoch, pom_offset = offset,
            pom_metadata = metadata, pom_dirty = False, pom_done = False, pom_errors = [], pom_released = False\<rparr>), om, w))"

definition findPOM :: "offsetManager \<Rightarrow> string \<Rightarrow> int32 \<Rightarrow> partitionOffsetManager option" where
  "findPOM om topic prt = get_block (om_poms om) topic prt"

definition addPOM :: "partitionOffsetManager \<Rightarrow> offsetManager \<Rightarrow> go_error option \<times> offsetManager" where
  "addPOM pom om =
     (if findPOM om (pom_topic pom) (pom_partition pom) \<noteq> None
      then (Some (ConfigurationError ''That topic/partition is already being managed''), om)
      else (None, om\<lparr>om_poms := set_block (pom_topic pom) (pom_partition pom) pom (om_poms om)\<rparr>))"

definition ManagePartition ::
    "offsets_conf \<Rightarrow> 'w om_env \<Rightarrow> string \<Rightarrow> int32 \<Rightarrow> offsetManager \<Rightarrow> 'w \<Rightarrow>
     partitionOffsetManager res \<times> offsetManager \<times> 'w" where
  "ManagePartition conf env topic prt om w =
     (case newPartitionOffsetManager conf env topic prt om w of
        (Ok pom, om, w) \<Rightarrow>
          (case addPOM pom om of (Some e, om) \<Rightarrow> (Err e, om, w) | (None, om) \<Rightarrow> (Ok pom, om, w))
      | (failed, om, w) \<Rightarrow> (failed, om, w))"

subsection \<open>Committing\<close>

definition map_poms :: "(partitionOffsetManager \<Rightarrow> partitionOffsetManager) \<Rightarrow> offsetManager \<Rightarrow> offsetManager" where
  "map_poms f om = om\<lparr>om_poms := map (\<lambda>(topic, ps). (topic, map (\<lambda>(prt, pom). (prt, f pom)) ps)) (om_poms om)\<rparr>"

definition all_poms :: "offsetManager \<Rightarrow> partitionOffsetManager list" where
  "all_poms om = concat (map (\<lambda>(topic, ps). map snd ps) (om_poms om))"

abbreviation (input) ReceiveTime :: int64 where "ReceiveTime \<equiv> - 1"

definition commit_version :: "KafkaVersion \<Rightarrow> int" where
  "commit_version v =
     (if IsAtLeast v V2_3_0_0 then 7 else if IsAtLeast v V2_1_0_0 then 6 else if IsAtLeast v V2_0_0_0 then 4
      else if IsAtLeast v V0_11_0_0 then 3 else if IsAtLeast v V0_9_0_0 then 2 else 1)"

definition add_dirty :: "int64 \<Rightarrow> OffsetCommitRequest \<Rightarrow> partitionOffsetManager \<Rightarrow> OffsetCommitRequest" where
  "add_dirty commitTimestamp r pom =
     (if pom_dirty pom
      then AddBlockWithLeaderEpoch (pom_topic pom) (pom_partition pom) (pom_offset pom) (pom_leaderEpoch pom)
             commitTimestamp (pom_metadata pom) r
      else r)"

definition commit_timestamp :: "offsets_conf \<Rightarrow> int64" where
  "commit_timestamp conf = (if commit_version (oc_Version conf) = 1 then ReceiveTime else 0)"

definition commit_header :: "offsets_conf \<Rightarrow> offsetManager \<Rightarrow> OffsetCommitRequest" where
  "commit_header conf om =
     (let version = commit_version (oc_Version conf)
      in \<lparr>ocq_Version = version, ocq_ConsumerGroup = om_group om, ocq_ConsumerGroupGeneration = om_generation om,
          ocq_ConsumerID = om_memberID om,
          ocq_RetentionTime =
            (if version \<ge> 2 \<and> version < 5
             then if oc_Offsets_Retention conf > 0 then word_of_int (oc_Offsets_Retention conf sdiv 1000000) else - 1
             else 0),
          ocq_GroupInstanceId = (if version = 7 then om_groupInstanceId om else None), ocq_blocks = []\<rparr>)"

definition constructRequest :: "offsets_conf \<Rightarrow> offsetManager \<Rightarrow> OffsetCommitRequest option" where
  "constructRequest conf om =
     (let r = foldl (add_dirty (commit_timestamp conf)) (commit_header conf om) (all_poms om)
      in if ocq_blocks r \<noteq> [] then Some r else None)"

abbreviation (input) ErrOffsetMetadataTooLarge :: KError where "ErrOffsetMetadataTooLarge \<equiv> 12"
abbreviation (input) ErrInvalidCommitOffsetSize :: KError where "ErrInvalidCommitOffsetSize \<equiv> 28"

text \<open>What the loop of \<open>handleResponse\<close> does for one partition: to its manager, and to the offset manager.\<close>

datatype om_action = Carry_on | Release_coordinator | Cancel_session

definition pom_response ::
    "offsets_conf \<Rightarrow> OffsetCommitRequest \<Rightarrow> OffsetCommitResponse \<Rightarrow> partitionOffsetManager \<Rightarrow>
     partitionOffsetManager \<times> om_action" where
  "pom_response conf req resp pom =
     (case get_block (ocq_blocks req) (pom_topic pom) (pom_partition pom) of
        None \<Rightarrow> (pom, Carry_on)
      | Some block \<Rightarrow>
          (case get_block (ocr_Errors resp) (pom_topic pom) (pom_partition pom) of
             None \<Rightarrow> (pom_handleError conf ErrIncompleteResponse pom, Carry_on)
           | Some err \<Rightarrow>
               if err = ErrNoError then (updateCommitted (ocb_offset block) (ocb_metadata block) pom, Carry_on)
               else if err \<in> {ErrNotLeaderForPartition, ErrLeaderNotAvailable, ErrConsumerCoordinatorNotAvailable,
                 ErrNotCoordinatorForConsumer} then (pom, Release_coordinator)
               else if err \<in> {ErrOffsetMetadataTooLarge, ErrInvalidCommitOffsetSize} then (pom_handleError conf (KErr err) pom, Carry_on)
               else if err = ErrOffsetsLoadInProgress then (pom, Carry_on)
               else if err = ErrFencedInstancedId then (pom_handleError conf (KErr err) pom, Cancel_session)
               else (pom_handleError conf (KErr err) pom, Release_coordinator)))"

definition om_act :: "nat \<Rightarrow> offsetManager \<Rightarrow> om_action \<Rightarrow> offsetManager" where
  "om_act broker om a =
     (case a of Carry_on \<Rightarrow> om | Release_coordinator \<Rightarrow> releaseCoordinator broker om | Cancel_session \<Rightarrow> tryCancelSession om)"

definition om_handleResponse ::
    "offsets_conf \<Rightarrow> nat \<Rightarrow> OffsetCommitRequest \<Rightarrow> OffsetCommitResponse \<Rightarrow> offsetManager \<Rightarrow> offsetManager" where
  "om_handleResponse conf broker req resp om =
     foldl (om_act broker) (map_poms (\<lambda>pom. fst (pom_response conf req resp pom)) om)
       (map (\<lambda>pom. snd (pom_response conf req resp pom)) (all_poms om))"

definition om_handleError :: "offsets_conf \<Rightarrow> go_error \<Rightarrow> offsetManager \<Rightarrow> offsetManager" where
  "om_handleError conf err om = map_poms (pom_handleError conf err) om"

definition flushToBroker :: "offsets_conf \<Rightarrow> 'w om_env \<Rightarrow> offsetManager \<Rightarrow> 'w \<Rightarrow> offsetManager \<times> 'w" where
  "flushToBroker conf env om w =
     (case constructRequest conf om of
        None \<Rightarrow> (om, w)
      | Some req \<Rightarrow>
          (case om_coordinator env om w of
             (Ok broker, om, w) \<Rightarrow>
               (case env_CommitOffset env broker req w of
                  (Ok resp, w) \<Rightarrow> (om_handleResponse conf broker req resp om, w)
                | (Err e, w) \<Rightarrow> (releaseCoordinator broker (om_handleError conf e om), env_CloseBroker env broker w)
                | (_, w) \<Rightarrow> (om, w))
           | (Err e, om, w) \<Rightarrow> (om_handleError conf e om, w)
           | (_, om, w) \<Rightarrow> (om, w)))"

subsection \<open>Releasing and closing\<close>

definition asyncClosePOMs :: "offsetManager \<Rightarrow> offsetManager" where
  "asyncClosePOMs om = map_poms pom_AsyncClose om"

definition release_due :: "bool \<Rightarrow> partitionOffsetManager \<Rightarrow> bool" where
  "release_due force pom \<longleftrightarrow> pom_done pom \<and> (force \<or> \<not> pom_dirty pom)"

text \<open>A topic is in the map only with a partition, so a topic left without one was just emptied.\<close>

definition releasePOMs :: "bool \<Rightarrow> offsetManager \<Rightarrow> nat \<times> offsetManager" where
  "releasePOMs force om =
     (let kept = filter (\<lambda>(topic, ps). ps \<noteq> [])
            (map (\<lambda>(topic, ps). (topic, filter (\<lambda>(prt, pom). \<not> release_due force pom) ps)) (om_poms om))
      in (sum_list (map (\<lambda>(topic, ps). length ps) kept), om\<lparr>om_poms := kept\<rparr>))"

definition om_Commit :: "offsets_conf \<Rightarrow> 'w om_env \<Rightarrow> offsetManager \<Rightarrow> 'w \<Rightarrow> offsetManager \<times> 'w" where
  "om_Commit conf env om w = (case flushToBroker conf env om w of (om, w) \<Rightarrow> (snd (releasePOMs False om), w))"

primrec flush_attempts :: "offsets_conf \<Rightarrow> 'w om_env \<Rightarrow> nat \<Rightarrow> offsetManager \<Rightarrow> 'w \<Rightarrow> offsetManager \<times> 'w" where
  "flush_attempts conf env 0 om w = (om, w)"
| "flush_attempts conf env (Suc n) om w =
     (case flushToBroker conf env om w of (om, w) \<Rightarrow>
      case releasePOMs False om of (n_left, om) \<Rightarrow>
        if n_left = 0 then (om, w) else flush_attempts conf env n om w)"

definition om_Close :: "offsets_conf \<Rightarrow> 'w om_env \<Rightarrow> offsetManager \<Rightarrow> 'w \<Rightarrow> offsetManager \<times> 'w" where
  "om_Close conf env om w =
     (let om = asyncClosePOMs om in
      case (if oc_AutoCommit_Enable conf then flush_attempts conf env (nat (oc_Offsets_Retry_Max conf + 1)) om w else (om, w)) of
        (om, w) \<Rightarrow> ((snd (releasePOMs True om))\<lparr>om_broker := None\<rparr>, w))"

subsection \<open>The map of partitions\<close>

definition poms_ok :: "offsetManager \<Rightarrow> bool" where
  "poms_ok om \<longleftrightarrow> distinct (map fst (om_poms om)) \<and>
     (\<forall>(topic, ps)\<in>set (om_poms om). ps \<noteq> [] \<and> distinct (map fst ps) \<and>
        (\<forall>(prt, pom)\<in>set ps. pom_topic pom = topic \<and> pom_partition pom = prt))"

definition same_place :: "(partitionOffsetManager \<Rightarrow> partitionOffsetManager) \<Rightarrow> bool" where
  "same_place f \<longleftrightarrow> (\<forall>pom. pom_topic (f pom) = pom_topic pom \<and> pom_partition (f pom) = pom_partition pom)"

lemma findPOM_map: "findPOM (map_poms f om) topic prt = map_option f (findPOM om topic prt)"
  by (simp add: findPOM_def map_poms_def get_block_def map_of_map_pairs split: option.splits)

lemma poms_ok_map: "poms_ok om \<Longrightarrow> same_place f \<Longrightarrow> poms_ok (map_poms f om)"
  by (fastforce simp: poms_ok_def map_poms_def same_place_def o_def case_prod_beta)

lemma findPOM_in:
  assumes "findPOM om topic prt = Some pom"
  obtains ps where "(topic, ps) \<in> set (om_poms om)" "(prt, pom) \<in> set ps"
  using assms that by (auto simp: findPOM_def get_block_def split: option.splits dest: map_of_SomeD)

lemma poms_okD:
  assumes "poms_ok om" "(topic, ps) \<in> set (om_poms om)"
  shows "distinct (map fst ps)" "(prt, pom) \<in> set ps \<Longrightarrow> pom_topic pom = topic \<and> pom_partition pom = prt"
    "map_of (om_poms om) topic = Some ps"
  using assms by (auto simp: poms_ok_def)

lemma poms_okI:
  assumes "distinct (map fst (om_poms om))"
    and "\<And>topic ps. (topic, ps) \<in> set (om_poms om) \<Longrightarrow> ps \<noteq> [] \<and> distinct (map fst ps)"
    and "\<And>topic ps prt pom. (topic, ps) \<in> set (om_poms om) \<Longrightarrow> (prt, pom) \<in> set ps \<Longrightarrow> pom_topic pom = topic \<and> pom_partition pom = prt"
  shows "poms_ok om"
  using assms unfolding poms_ok_def by fast

lemma all_poms_find:
  assumes "poms_ok om"
  shows "pom \<in> set (all_poms om) \<longleftrightarrow> findPOM om (pom_topic pom) (pom_partition pom) = Some pom"
proof
  assume "pom \<in> set (all_poms om)"
  then obtain topic ps prt where m: "(topic, ps) \<in> set (om_poms om)" "(prt, pom) \<in> set ps" by (auto simp: all_poms_def)
  then show "findPOM om (pom_topic pom) (pom_partition pom) = Some pom"
    using poms_okD [OF assms m(1)] by (simp add: findPOM_def get_block_def)
next
  assume "findPOM om (pom_topic pom) (pom_partition pom) = Some pom"
  then obtain ps where "(pom_topic pom, ps) \<in> set (om_poms om)" "(pom_partition pom, pom) \<in> set ps" by (rule findPOM_in)
  then show "pom \<in> set (all_poms om)" unfolding all_poms_def by force
qed

lemma findPOM_place:
  assumes "poms_ok om" "findPOM om topic prt = Some pom"
  shows "pom_topic pom = topic \<and> pom_partition pom = prt"
  using findPOM_in [OF assms(2)] poms_okD(2) [OF assms(1)] by metis

lemma findPOM_in_all: "poms_ok om \<Longrightarrow> findPOM om topic prt = Some pom \<Longrightarrow> pom \<in> set (all_poms om)"
  using all_poms_find [of om pom] findPOM_place [of om topic prt pom] by simp

lemma findPOM_update [simp]:
  "findPOM (om\<lparr>om_broker := b\<rparr>) = findPOM om" "findPOM (om\<lparr>om_cancelled := c\<rparr>) = findPOM om"
  by (simp_all add: fun_eq_iff findPOM_def)

lemma poms_ok_update [simp]:
  "poms_ok (om\<lparr>om_broker := b\<rparr>) = poms_ok om" "poms_ok (om\<lparr>om_cancelled := c\<rparr>) = poms_ok om"
  by (simp_all add: poms_ok_def)

lemma om_act_poms: "om_poms (foldl (om_act broker) om as) = om_poms om"
  by (induction "as" arbitrary: om)
    (simp_all add: om_act_def releaseCoordinator_def tryCancelSession_def split: om_action.split)

lemma set_block_ok:
  assumes "poms_ok om" "pom_topic pom = topic" "pom_partition pom = prt"
  shows "poms_ok (om\<lparr>om_poms := set_block topic prt pom (om_poms om)\<rparr>)"
proof -
  let ?ps = "case map_of (om_poms om) topic of None \<Rightarrow> [] | Some ps \<Rightarrow> ps"
  have ps: "distinct (map fst ?ps)" "\<And>p q. (p, q) \<in> set ?ps \<Longrightarrow> pom_topic q = topic \<and> pom_partition q = p"
    using poms_okD(1,2) [OF assms(1)] map_of_SomeD [of "om_poms om" topic]
    by (cases "map_of (om_poms om) topic"; simp; blast)+
  let ?new = "AList.update prt pom ?ps"
  have new: "(p, q) \<in> set ?new \<Longrightarrow> pom_topic q = topic \<and> pom_partition q = p" for p q
    using ps(2) [of p q] assms(2,3) update_subset [of prt pom ?ps] by auto
  have d: "distinct (map fst ?new)" using ps(1) by (rule distinct_update)
  have split: "(t, qs) = (topic, ?new) \<or> (t, qs) \<in> set (om_poms om)" if "(t, qs) \<in> set (set_block topic prt pom (om_poms om))" for t qs
    using that update_subset [of topic ?new "om_poms om"] by (auto simp: set_block_def)
  show ?thesis
  proof (rule poms_okI)
    show "distinct (map fst (om_poms (om\<lparr>om_poms := set_block topic prt pom (om_poms om)\<rparr>)))"
      using assms(1) unfolding set_block_def by (simp add: distinct_update poms_ok_def)
  next
    fix t qs assume "(t, qs) \<in> set (om_poms (om\<lparr>om_poms := set_block topic prt pom (om_poms om)\<rparr>))"
    then have c: "(t, qs) = (topic, ?new) \<or> (t, qs) \<in> set (om_poms om)" using split by simp
    then show "qs \<noteq> [] \<and> distinct (map fst qs)" using d update_nonempty assms(1) by (auto simp: poms_ok_def)
    fix p q assume "(p, q) \<in> set qs"
    with c new poms_okD(2) [OF assms(1)] show "pom_topic q = t \<and> pom_partition q = p" by blast
  qed
qed

lemma findPOM_set_block:
  "findPOM (om\<lparr>om_poms := set_block topic prt pom (om_poms om)\<rparr>) topic' prt' =
     (if topic' = topic \<and> prt' = prt then Some pom else findPOM om topic' prt')"
  by (simp add: findPOM_def get_set_block)

text \<open>The request has a block for every dirty partition, with what was marked last.\<close>

definition dirty_block :: "offsets_conf \<Rightarrow> partitionOffsetManager \<Rightarrow> offsetCommitRequestBlock" where
  "dirty_block conf pom =
     \<lparr>ocb_offset = pom_offset pom, ocb_timestamp = commit_timestamp conf,
      ocb_committedLeaderEpoch = pom_leaderEpoch pom, ocb_metadata = pom_metadata pom\<rparr>"

lemma foldl_add_dirty:
  "get_block (ocq_blocks (foldl (add_dirty ts) r ps)) topic prt = Some block \<Longrightarrow>
     get_block (ocq_blocks r) topic prt = Some block \<or>
     (\<exists>p\<in>set ps. pom_dirty p \<and> pom_topic p = topic \<and> pom_partition p = prt \<and>
        block = \<lparr>ocb_offset = pom_offset p, ocb_timestamp = ts, ocb_committedLeaderEpoch = pom_leaderEpoch p,
          ocb_metadata = pom_metadata p\<rparr>)"
  "p \<in> set ps \<Longrightarrow> pom_dirty p \<Longrightarrow> get_block (ocq_blocks (foldl (add_dirty ts) r ps)) (pom_topic p) (pom_partition p) \<noteq> None"
  by (induction ps rule: rev_induct)
    (auto simp: add_dirty_def AddBlockWithLeaderEpoch_def get_set_block split: if_splits)

lemma constructRequest_blocks:
  assumes ok: "poms_ok om" and r: "constructRequest conf om = Some req"
  shows "get_block (ocq_blocks req) topic prt =
    (case findPOM om topic prt of
       Some pom \<Rightarrow> if pom_dirty pom then Some (dirty_block conf pom) else None
     | None \<Rightarrow> None)"
proof -
  have "ocq_blocks (commit_header conf om) = []"
    "req = foldl (add_dirty (commit_timestamp conf)) (commit_header conf om) (all_poms om)"
    using r by (auto simp: constructRequest_def commit_header_def Let_def split: if_splits)
  then have f: "get_block (ocq_blocks req) t q = Some block \<Longrightarrow>
      \<exists>p\<in>set (all_poms om). pom_dirty p \<and> pom_topic p = t \<and> pom_partition p = q \<and> block = dirty_block conf p"
    "p \<in> set (all_poms om) \<Longrightarrow> pom_dirty p \<Longrightarrow> get_block (ocq_blocks req) (pom_topic p) (pom_partition p) \<noteq> None" for t q p block
    using foldl_add_dirty [where r = "commit_header conf om" and ps = "all_poms om"] by (auto simp: dirty_block_def get_block_def)
  show ?thesis
  proof (cases "get_block (ocq_blocks req) topic prt")
    case None
    have "\<not> pom_dirty pom" if "findPOM om topic prt = Some pom" for pom
      using f(2) [of pom] None findPOM_in_all [OF ok that] findPOM_place [OF ok that] by auto
    with None show ?thesis by (simp split: option.splits)
  next
    case (Some block)
    then obtain p where p: "p \<in> set (all_poms om)" "pom_dirty p" "pom_topic p = topic" "pom_partition p = prt" "block = dirty_block conf p"
      using f(1) by blast
    then have "findPOM om topic prt = Some p" using all_poms_find [OF ok, of p] by simp
    with Some p show ?thesis by simp
  qed
qed

lemma constructRequest_None:
  assumes "poms_ok om" "constructRequest conf om = None" "findPOM om topic prt = Some pom"
  shows "\<not> pom_dirty pom"
proof
  assume d: "pom_dirty pom"
  from foldl_add_dirty(2) [OF findPOM_in_all [OF assms(1,3)] d, of "commit_timestamp conf" "commit_header conf om"] assms(2) show False
    by (auto simp: constructRequest_def Let_def get_block_def split: if_splits)
qed

subsection \<open>Marked offsets and the coordinator's\<close>

text \<open>
  A run of the manager: the user marks and resets offsets while a commit is under way. A commit builds its
  request (\<open>constructRequest\<close>), the coordinator stores what it accepts, and the answer is handled; instead
  of an answer there may be an error, with any part of the request stored. One commit is under way at a
  time, as with the ticker as the only caller of \<open>Commit\<close>. Of the coordinator it is known that it stores
  the offsets for which it answers without an error, and no others.
\<close>

type_synonym offset_store = "string \<Rightarrow> int32 \<Rightarrow> int64 \<times> string"

datatype commit_phase = Idle | Requested nat OffsetCommitRequest | Answered nat OffsetCommitRequest OffsetCommitResponse

definition block_value :: "offsetCommitRequestBlock \<Rightarrow> int64 \<times> string" where
  "block_value block = (ocb_offset block, ocb_metadata block)"

definition stored_by :: "OffsetCommitRequest \<Rightarrow> OffsetCommitResponse \<Rightarrow> offset_store \<Rightarrow> offset_store" where
  "stored_by req resp store = (\<lambda>topic prt.
     case get_block (ocq_blocks req) topic prt of
       Some block \<Rightarrow> if get_block (ocr_Errors resp) topic prt = Some ErrNoError then block_value block else store topic prt
     | None \<Rightarrow> store topic prt)"

definition stored_partly :: "OffsetCommitRequest \<Rightarrow> offset_store \<Rightarrow> offset_store \<Rightarrow> bool" where
  "stored_partly req store store' \<longleftrightarrow> (\<forall>topic prt. store' topic prt = store topic prt \<or>
     (\<exists>block. get_block (ocq_blocks req) topic prt = Some block \<and> store' topic prt = block_value block))"

definition update_pom ::
    "string \<Rightarrow> int32 \<Rightarrow> (partitionOffsetManager \<Rightarrow> partitionOffsetManager) \<Rightarrow> offsetManager \<Rightarrow> offsetManager" where
  "update_pom topic prt f om = map_poms (\<lambda>pom. if pom_topic pom = topic \<and> pom_partition pom = prt then f pom else pom) om"

inductive om_step :: "offsets_conf \<Rightarrow> offsetManager \<times> offset_store \<times> commit_phase \<Rightarrow> offsetManager \<times> offset_store \<times> commit_phase \<Rightarrow> bool"
  for conf where
  mark: "om_step conf (om, store, ph) (update_pom topic prt (MarkOffset offset metadata) om, store, ph)"
| reset: "om_step conf (om, store, ph) (update_pom topic prt (ResetOffset offset metadata) om, store, ph)"
| close_pom: "om_step conf (om, store, ph) (update_pom topic prt pom_AsyncClose om, store, ph)"
| manage: "pom_dirty pom = False \<Longrightarrow> store (pom_topic pom) (pom_partition pom) = (pom_offset pom, pom_metadata pom) \<Longrightarrow>
    om_step conf (om, store, ph) (snd (addPOM pom om), store, ph)"
| request: "constructRequest conf om = Some req \<Longrightarrow> om_step conf (om, store, Idle) (om\<lparr>om_broker := Some b\<rparr>, store, Requested b req)"
| answer: "om_step conf (om, store, Requested b req) (om, stored_by req resp store, Answered b req resp)"
| failure: "stored_partly req store store' \<Longrightarrow>
    om_step conf (om, store, Requested b req) (releaseCoordinator b (om_handleError conf e om), store', Idle)"
| handle: "om_step conf (om, store, Answered b req resp) (om_handleResponse conf b req resp om, store, Idle)"
| no_coordinator: "om_step conf (om, store, Idle) (om_handleError conf e om, store, Idle)"
| release: "om_step conf (om, store, ph) (snd (releasePOMs False om), store, ph)"

text \<open>What holds in every reachable state.\<close>

definition phase_ok :: "offsetManager \<Rightarrow> offset_store \<Rightarrow> commit_phase \<Rightarrow> bool" where
  "phase_ok om store ph = (case ph of
     Idle \<Rightarrow> True
   | Requested b req \<Rightarrow> (\<forall>topic prt block. get_block (ocq_blocks req) topic prt = Some block \<longrightarrow>
       (\<exists>pom. findPOM om topic prt = Some pom \<and> pom_dirty pom))
   | Answered b req resp \<Rightarrow> (\<forall>topic prt block. get_block (ocq_blocks req) topic prt = Some block \<longrightarrow>
       get_block (ocr_Errors resp) topic prt = Some ErrNoError \<longrightarrow> store topic prt = block_value block))"

definition clean_stored :: "offsetManager \<Rightarrow> offset_store \<Rightarrow> bool" where
  "clean_stored om store \<longleftrightarrow> (\<forall>topic prt pom. findPOM om topic prt = Some pom \<and> \<not> pom_dirty pom \<longrightarrow>
     store topic prt = (pom_offset pom, pom_metadata pom))"

definition om_inv :: "offsetManager \<times> offset_store \<times> commit_phase \<Rightarrow> bool" where
  "om_inv s = (case s of (om, store, ph) \<Rightarrow> poms_ok om \<and> clean_stored om store \<and> phase_ok om store ph)"

text \<open>An operation on the managers that does not clean one keeps the invariant.\<close>

definition keeps_dirt :: "(partitionOffsetManager \<Rightarrow> partitionOffsetManager) \<Rightarrow> bool" where
  "keeps_dirt f \<longleftrightarrow> same_place f \<and> (\<forall>pom. (pom_dirty pom \<longrightarrow> pom_dirty (f pom)) \<and>
     (\<not> pom_dirty (f pom) \<longrightarrow> pom_offset (f pom) = pom_offset pom \<and> pom_metadata (f pom) = pom_metadata pom))"

lemma om_inv_map:
  assumes f: "keeps_dirt f" and i: "om_inv (om, store, ph)"
  shows "om_inv (map_poms f om, store, ph)"
proof -
  have "poms_ok (map_poms f om)" using f i by (auto simp: om_inv_def keeps_dirt_def intro: poms_ok_map)
  moreover have "clean_stored (map_poms f om) store"
    using f i by (fastforce simp: om_inv_def clean_stored_def keeps_dirt_def findPOM_map)
  moreover have "phase_ok (map_poms f om) store ph"
    using f i by (fastforce simp: om_inv_def phase_ok_def keeps_dirt_def findPOM_map split: commit_phase.splits)
  ultimately show ?thesis by (simp add: om_inv_def)
qed

lemma keeps_dirt_ops:
  "keeps_dirt (\<lambda>pom. if pom_topic pom = topic \<and> pom_partition pom = prt then MarkOffset offset metadata pom else pom)"
  "keeps_dirt (\<lambda>pom. if pom_topic pom = topic \<and> pom_partition pom = prt then ResetOffset offset metadata pom else pom)"
  "keeps_dirt (\<lambda>pom. if pom_topic pom = topic \<and> pom_partition pom = prt then pom_AsyncClose pom else pom)"
  "keeps_dirt (pom_handleError conf e)"
  by (simp_all add: keeps_dirt_def same_place_def MarkOffset_def ResetOffset_def pom_AsyncClose_def pom_handleError_def)

lemma om_inv_broker: "om_inv (om, store, ph) \<Longrightarrow> om_inv (om\<lparr>om_broker := b\<rparr>, store, ph)"
  by (simp add: om_inv_def clean_stored_def phase_ok_def split: commit_phase.splits)

definition kept_partitions :: "bool \<Rightarrow> (int32 \<times> partitionOffsetManager) list \<Rightarrow> (int32 \<times> partitionOffsetManager) list" where
  "kept_partitions force ps = filter (\<lambda>(prt, pom). \<not> release_due force pom) ps"

lemma releasePOMs_poms:
  "om_poms (snd (releasePOMs force om)) =
     filter (\<lambda>(topic, ps). ps \<noteq> []) (map (\<lambda>(topic, ps). (topic, kept_partitions force ps)) (om_poms om))"
  by (simp add: releasePOMs_def kept_partitions_def Let_def)

lemma findPOM_release:
  assumes "poms_ok om"
  shows "findPOM (snd (releasePOMs force om)) topic prt =
    (case findPOM om topic prt of Some pom \<Rightarrow> if release_due force pom then None else Some pom | None \<Rightarrow> None)"
proof -
  have d: "distinct (map fst (map (\<lambda>(topic, ps). (topic, kept_partitions force ps)) (om_poms om)))"
    using assms by (simp add: poms_ok_def o_def case_prod_beta)
  have "map_of (om_poms (snd (releasePOMs force om))) topic =
      (case map_of (om_poms om) topic of None \<Rightarrow> None
       | Some ps \<Rightarrow> if kept_partitions force ps = [] then None else Some (kept_partitions force ps))"
    unfolding releasePOMs_poms map_of_filter_values [OF d] by (simp add: map_of_map_pairs split: option.splits)
  moreover have "map_of (kept_partitions force ps) prt =
      (case map_of ps prt of Some pom \<Rightarrow> if release_due force pom then None else Some pom | None \<Rightarrow> None)"
    if "map_of (om_poms om) topic = Some ps" for ps
    using map_of_filter_values [OF poms_okD(1) [OF assms map_of_SomeD [OF that]], of "\<lambda>pom. \<not> release_due force pom" prt]
    by (simp add: kept_partitions_def split: option.splits)
  moreover have "(case map_of ps prt of Some pom \<Rightarrow> if release_due force pom then None else Some pom | None \<Rightarrow> None) = None"
    if "map_of (om_poms om) topic = Some ps" "kept_partitions force ps = []" for ps
    using calculation(2) [OF that(1)] that(2) by simp
  ultimately show ?thesis by (auto simp: findPOM_def get_block_def split: option.splits)
qed

lemma poms_ok_release:
  assumes "poms_ok om"
  shows "poms_ok (snd (releasePOMs force om))"
proof (rule poms_okI)
  show "distinct (map fst (om_poms (snd (releasePOMs force om))))"
    unfolding releasePOMs_poms by (rule distinct_map_filter) (use assms in \<open>simp add: poms_ok_def o_def case_prod_beta\<close>)
next
  fix topic ps assume "(topic, ps) \<in> set (om_poms (snd (releasePOMs force om)))"
  then obtain qs where q: "(topic, qs) \<in> set (om_poms om)" "ps = kept_partitions force qs" "ps \<noteq> []"
    by (auto simp: releasePOMs_poms)
  then show "ps \<noteq> [] \<and> distinct (map fst ps)"
    using poms_okD(1) [OF assms q(1)] by (simp add: kept_partitions_def distinct_map_filter)
  fix prt pom assume "(prt, pom) \<in> set ps"
  then show "pom_topic pom = topic \<and> pom_partition pom = prt" using poms_okD(2) [OF assms q(1)] q(2) by (auto simp: kept_partitions_def)
qed

lemma om_inv_release:
  assumes "om_inv (om, store, ph)"
  shows "om_inv (snd (releasePOMs False om), store, ph)"
proof -
  have ok: "poms_ok om" using assms by (simp add: om_inv_def)
  have "phase_ok (snd (releasePOMs False om)) store ph"
    using assms by (fastforce simp: om_inv_def phase_ok_def findPOM_release [OF ok] release_due_def split: commit_phase.splits)
  then show ?thesis using assms poms_ok_release [OF ok]
    by (auto simp: om_inv_def clean_stored_def findPOM_release [OF ok] split: option.splits if_splits)
qed

lemma pom_response_clean:
  "same_place (\<lambda>pom. fst (pom_response conf req resp pom))"
  "pom' = fst (pom_response conf req resp pom) \<Longrightarrow> \<not> pom_dirty pom' \<Longrightarrow>
     pom_offset pom' = pom_offset pom \<and> pom_metadata pom' = pom_metadata pom \<and>
     (\<not> pom_dirty pom \<or> (\<exists>block. get_block (ocq_blocks req) (pom_topic pom) (pom_partition pom) = Some block \<and>
        get_block (ocr_Errors resp) (pom_topic pom) (pom_partition pom) = Some ErrNoError \<and>
        block_value block = (pom_offset pom, pom_metadata pom)))"
  by (auto simp: same_place_def pom_response_def pom_handleError_def updateCommitted_def block_value_def
      split: option.splits if_splits)

lemma om_handleResponse_poms: "om_poms (om_handleResponse conf b req resp om) = om_poms (map_poms (\<lambda>pom. fst (pom_response conf req resp pom)) om)"
  by (simp add: om_handleResponse_def om_act_poms)

lemma findPOM_handleResponse:
  "findPOM (om_handleResponse conf b req resp om) topic prt = map_option (\<lambda>pom. fst (pom_response conf req resp pom)) (findPOM om topic prt)"
  using findPOM_map [of "\<lambda>pom. fst (pom_response conf req resp pom)" om] by (simp add: findPOM_def om_handleResponse_poms)

lemma om_inv_handle:
  assumes "om_inv (om, store, Answered b req resp)"
  shows "om_inv (om_handleResponse conf b req resp om, store, Idle)"
proof -
  have ok: "poms_ok om" and c: "clean_stored om store" and ph: "phase_ok om store (Answered b req resp)"
    using assms by (simp_all add: om_inv_def)
  have "poms_ok (om_handleResponse conf b req resp om)"
    using poms_ok_map [OF ok pom_response_clean(1)] by (simp add: poms_ok_def om_handleResponse_poms)
  moreover have "clean_stored (om_handleResponse conf b req resp om) store"
    unfolding clean_stored_def
  proof (intro allI impI, elim conjE)
    fix topic prt pom' assume "findPOM (om_handleResponse conf b req resp om) topic prt = Some pom'" "\<not> pom_dirty pom'"
    then obtain pom where p: "findPOM om topic prt = Some pom" "pom' = fst (pom_response conf req resp pom)" "\<not> pom_dirty pom'"
      by (auto simp: findPOM_handleResponse)
    from pom_response_clean(2) [OF p(2,3)] c ph p(1) findPOM_place [OF ok p(1)]
    show "store topic prt = (pom_offset pom', pom_metadata pom')" by (auto simp: clean_stored_def phase_ok_def)
  qed
  ultimately show ?thesis by (simp add: om_inv_def phase_ok_def)
qed

lemma om_inv_manage:
  assumes i: "om_inv (om, store, ph)" and p: "\<not> pom_dirty pom" "store (pom_topic pom) (pom_partition pom) = (pom_offset pom, pom_metadata pom)"
  shows "om_inv (snd (addPOM pom om), store, ph)"
proof (cases "findPOM om (pom_topic pom) (pom_partition pom)")
  case None
  let ?om = "om\<lparr>om_poms := set_block (pom_topic pom) (pom_partition pom) pom (om_poms om)\<rparr>"
  have "poms_ok ?om" using i by (intro set_block_ok) (simp_all add: om_inv_def)
  moreover have "clean_stored ?om store" using i p by (simp add: om_inv_def clean_stored_def findPOM_set_block)
  moreover have "phase_ok ?om store ph"
    using i None by (fastforce simp: om_inv_def phase_ok_def findPOM_set_block split: commit_phase.splits)
  ultimately show ?thesis using None by (simp add: addPOM_def om_inv_def)
qed (use i in \<open>simp add: addPOM_def\<close>)

text \<open>While a request is under way, the coordinator changes its offsets only for managers that are dirty.\<close>

lemma clean_stored_partly:
  assumes "clean_stored om store" "phase_ok om store (Requested b req)" "stored_partly req store store'"
  shows "clean_stored om store'"
  unfolding clean_stored_def
proof (intro allI impI, elim conjE)
  fix topic prt pom assume p: "findPOM om topic prt = Some pom" "\<not> pom_dirty pom"
  have "get_block (ocq_blocks req) topic prt = None" using assms(2) p by (fastforce simp: phase_ok_def)
  then have "store' topic prt = store topic prt" 
    using assms(3) unfolding stored_partly_def by (metis option.distinct(1))
  with assms(1) p show "store' topic prt = (pom_offset pom, pom_metadata pom)" by (simp add: clean_stored_def)
qed

lemma stored_by_partly: "stored_partly req store (stored_by req resp store)"
  by (simp add: stored_partly_def stored_by_def split: option.splits)

theorem om_step_inv: "om_step conf s s' \<Longrightarrow> om_inv s \<Longrightarrow> om_inv s'"
proof (induction rule: om_step.induct)
  case (request om req store b)
  then have "poms_ok om" by (simp add: om_inv_def)
  with request have "phase_ok om store (Requested b req)"
    using constructRequest_blocks [of om conf req] by (auto simp: phase_ok_def split: option.splits if_splits)
  with request show ?case by (intro om_inv_broker) (simp add: om_inv_def)
next
  case (answer om store b req resp)
  have "phase_ok om (stored_by req resp store) (Answered b req resp)" by (simp add: phase_ok_def stored_by_def)
  with answer show ?case using clean_stored_partly [OF _ _ stored_by_partly] by (auto simp: om_inv_def)
next
  case (failure req store store' om b e)
  then have "om_inv (om, store', Idle)" using clean_stored_partly by (auto simp: om_inv_def phase_ok_def)
  then show ?case
    using om_inv_map [OF keeps_dirt_ops(4)] om_inv_broker by (auto simp: releaseCoordinator_def om_handleError_def)
qed (auto simp: update_pom_def om_handleError_def intro: om_inv_map keeps_dirt_ops om_inv_release om_inv_handle om_inv_manage)

text \<open>
  So in every state that a run reaches from a new manager, a partition that is not dirty has its offset
  and its metadata with the coordinator, and a partition is released only then.
\<close>

theorem clean_is_stored:
  assumes "(om_step conf)\<^sup>*\<^sup>* (om0, store0, Idle) (om, store, ph)" "om_poms om0 = []"
    and "findPOM om topic prt = Some pom" "\<not> pom_dirty pom"
  shows "store topic prt = (pom_offset pom, pom_metadata pom)"
proof -
  have "om_inv (om0, store0, Idle)" using assms(2) by (simp add: om_inv_def poms_ok_def clean_stored_def findPOM_def get_block_def phase_ok_def)
  with assms(1) have "om_inv (om, store, ph)"
    by (induction rule: rtranclp_induct) (auto dest: om_step_inv)
  with assms(3,4) show ?thesis by (simp add: om_inv_def clean_stored_def)
qed

subsection \<open>Operations\<close>

text \<open>Marking keeps the highest offset.\<close>

lemma MarkOffset_max: "sint (pom_offset (MarkOffset offset metadata pom)) = max (sint (pom_offset pom)) (sint offset)"
  by (simp add: MarkOffset_def)

lemma marks_max:
  "sint (pom_offset (foldl (\<lambda>pom (offset, metadata). MarkOffset offset metadata pom) pom marks)) =
     Max (insert (sint (pom_offset pom)) ((\<lambda>m. sint (fst m)) ` set marks))"
proof (induction marks rule: rev_induct)
  case (snoc m marks)
  obtain offset metadata where m: "m = (offset, metadata)" by (cases m)
  let ?S = "insert (sint (pom_offset pom)) ((\<lambda>m. sint (fst m)) ` set marks)"
  have "Max (insert (sint offset) ?S) = max (sint offset) (Max ?S)" by (rule Max_insert) auto
  with snoc m show ?case by (simp add: MarkOffset_max insert_commute max.commute)
qed simp

text \<open>The version of a commit request is one that a broker of the configured version supports.\<close>

lemma commit_version_supported:
  "IsAtLeast v V0_8_2_0 \<Longrightarrow>
     pm_isValidVersion OffsetCommitRequest_methods (commit_version v) \<and>
     IsAtLeast v (pm_requiredVersion OffsetCommitRequest_methods (commit_version v))"
  unfolding commit_version_def by (auto simp: OffsetCommitRequest_methods_def split del: if_split split: if_split)

text \<open>
  A coordinator that can be found and that accepts every commit; \<open>st\<close> reads its offsets off the world.
\<close>

definition accepting :: "'w om_env \<Rightarrow> ('w \<Rightarrow> offset_store) \<Rightarrow> bool" where
  "accepting env st \<longleftrightarrow>
     (\<forall>grp w. fst (env_RefreshCoordinator env grp w) = Ok () \<and> st (snd (env_RefreshCoordinator env grp w)) = st w) \<and>
     (\<forall>grp w. (\<exists>b. fst (env_Coordinator env grp w) = Ok b) \<and> st (snd (env_Coordinator env grp w)) = st w) \<and>
     (\<forall>b req w. \<exists>resp. fst (env_CommitOffset env b req w) = Ok resp \<and>
        st (snd (env_CommitOffset env b req w)) = stored_by req resp (st w) \<and>
        (\<forall>topic prt. get_block (ocq_blocks req) topic prt \<noteq> None \<longrightarrow> get_block (ocr_Errors resp) topic prt = Some ErrNoError))"

lemma accepting_coordinator:
  assumes "accepting env st"
  obtains b om' w' where "om_coordinator env om w = (Ok b, om', w')" "om_poms om' = om_poms om" "st w' = st w"
proof (cases "om_broker om")
  case None
  obtain w1 where w1: "env_RefreshCoordinator env (om_group om) w = (Ok (), w1)" "st w1 = st w"
    using assms unfolding accepting_def by (metis prod.collapse)
  obtain b w2 where "env_Coordinator env (om_group om) w1 = (Ok b, w2)" "st w2 = st w1"
    using assms unfolding accepting_def by (metis prod.collapse)
  with w1 None that [of b "om\<lparr>om_broker := Some b\<rparr>" w2] show thesis by (simp add: om_coordinator_def)
qed (use that in \<open>simp add: om_coordinator_def\<close>)

lemma findPOM_poms: "om_poms om' = om_poms om \<Longrightarrow> findPOM om' = findPOM om"
  by (simp add: fun_eq_iff findPOM_def)

lemma poms_empty:
  assumes "poms_ok om" "\<And>topic prt. findPOM om topic prt = None"
  shows "om_poms om = []"
proof (rule ccontr)
  assume "om_poms om \<noteq> []"
  then obtain topic ps where t: "(topic, ps) \<in> set (om_poms om)" by (cases "om_poms om") auto
  then have "ps \<noteq> []" using assms(1) by (auto simp: poms_ok_def)
  then obtain prt pom where "(prt, pom) \<in> set ps" by (cases ps) auto
  with t have "pom \<in> set (all_poms om)" by (force simp: all_poms_def)
  then show False using all_poms_find [OF assms(1)] assms(2) by simp
qed

text \<open>A flush to it leaves every manager clean, and every offset that was marked is stored.\<close>

lemma flushToBroker_accepted:
  assumes a: "accepting env st" and ok: "poms_ok om" and c: "clean_stored om (st w)"
  obtains om' w' where "flushToBroker conf env om w = (om', w')" "poms_ok om'"
    "\<forall>topic prt pom. findPOM om topic prt = Some pom \<longrightarrow>
       findPOM om' topic prt = Some (pom\<lparr>pom_dirty := False\<rparr>) \<and> st w' topic prt = (pom_offset pom, pom_metadata pom)"
    "\<forall>topic prt. findPOM om topic prt = None \<longrightarrow> findPOM om' topic prt = None"
proof (cases "constructRequest conf om")
  case None
  have "pom\<lparr>pom_dirty := False\<rparr> = pom" if "findPOM om topic prt = Some pom" for topic prt pom
    using constructRequest_None [OF ok None that] by simp
  then show thesis using that [of om w] None ok c constructRequest_None [OF ok None]
    by (simp add: flushToBroker_def clean_stored_def)
next
  case (Some req)
  obtain b om1 w1 where co: "om_coordinator env om w = (Ok b, om1, w1)" "om_poms om1 = om_poms om" "st w1 = st w"
    by (rule accepting_coordinator [OF a])
  obtain resp w2 where r: "env_CommitOffset env b req w1 = (Ok resp, w2)" "st w2 = stored_by req resp (st w1)"
    "\<And>topic prt. get_block (ocq_blocks req) topic prt \<noteq> None \<Longrightarrow> get_block (ocr_Errors resp) topic prt = Some ErrNoError"
    using a unfolding accepting_def by (metis prod.collapse)
  let ?om = "om_handleResponse conf b req resp om1"
  have ok1: "poms_ok om1" using ok co(2) by (simp add: poms_ok_def)
  have "poms_ok ?om" using poms_ok_map [OF ok1 pom_response_clean(1)] by (simp add: poms_ok_def om_handleResponse_poms)
  moreover have "fst (pom_response conf req resp pom) = pom\<lparr>pom_dirty := False\<rparr> \<and> st w2 topic prt = (pom_offset pom, pom_metadata pom)"
    if p: "findPOM om topic prt = Some pom" for topic prt pom
  proof -
    have pl: "pom_topic pom = topic" "pom_partition pom = prt" using findPOM_place [OF ok p] by simp_all
    have bl: "get_block (ocq_blocks req) topic prt = (if pom_dirty pom then Some (dirty_block conf pom) else None)"
      using constructRequest_blocks [OF ok Some, of topic prt] p by simp
    show ?thesis
    proof (cases "pom_dirty pom")
      case True
      then show ?thesis using bl r(2) r(3) [of topic prt] pl
        by (simp add: pom_response_def updateCommitted_def dirty_block_def stored_by_def block_value_def)
    next
      case False
      then show ?thesis using bl r(2) co(3) c p pl by (simp add: pom_response_def stored_by_def clean_stored_def)
    qed
  qed
  ultimately show thesis
    using that [of ?om w2] Some co r(1) findPOM_poms [OF co(2)] by (simp add: flushToBroker_def findPOM_handleResponse)
qed

text \<open>Closing then commits everything that was marked and releases every partition.\<close>

theorem om_Close_commits:
  assumes a: "accepting env st" and ok: "poms_ok om" and c: "clean_stored om (st w)"
    and conf: "oc_AutoCommit_Enable conf" "oc_Offsets_Retry_Max conf \<ge> 0"
  obtains om' w' where "om_Close conf env om w = (om', w')" "om_poms om' = []" "om_broker om' = None"
    "\<And>topic prt pom. findPOM om topic prt = Some pom \<Longrightarrow> st w' topic prt = (pom_offset pom, pom_metadata pom)"
proof -
  let ?om = "asyncClosePOMs om"
  have place: "same_place pom_AsyncClose" by (simp add: same_place_def pom_AsyncClose_def)
  have ok1: "poms_ok ?om" unfolding asyncClosePOMs_def by (rule poms_ok_map [OF ok place])
  have f1: "findPOM ?om topic prt = map_option pom_AsyncClose (findPOM om topic prt)" for topic prt
    by (simp add: asyncClosePOMs_def findPOM_map)
  have c1: "clean_stored ?om (st w)" using c by (auto simp: clean_stored_def f1 pom_AsyncClose_def)
  obtain om2 w2 where fl: "flushToBroker conf env ?om w = (om2, w2)" "poms_ok om2"
    and s2: "\<forall>topic prt pom. findPOM ?om topic prt = Some pom \<longrightarrow>
       findPOM om2 topic prt = Some (pom\<lparr>pom_dirty := False\<rparr>) \<and> st w2 topic prt = (pom_offset pom, pom_metadata pom)"
    and n2: "\<forall>topic prt. findPOM ?om topic prt = None \<longrightarrow> findPOM om2 topic prt = None"
    by (rule flushToBroker_accepted [OF a ok1 c1, where conf = conf])
  have due: "release_due False pom" if "findPOM om2 topic prt = Some pom" for topic prt pom
    using that spec [OF spec [OF s2, of topic], of prt] spec [OF spec [OF n2, of topic], of prt] f1 [of topic prt]
    by (cases "findPOM om topic prt") (auto simp: release_due_def pom_AsyncClose_def)
  have empty: "om_poms (snd (releasePOMs False om2)) = []"
    using due by (intro poms_empty poms_ok_release fl(2)) (simp add: findPOM_release [OF fl(2)] split: option.splits)
  then have "fst (releasePOMs False om2) = 0" by (simp add: releasePOMs_def Let_def)
  moreover have "nat (oc_Offsets_Retry_Max conf + 1) = Suc (nat (oc_Offsets_Retry_Max conf))" using conf(2) by simp
  ultimately have "flush_attempts conf env (nat (oc_Offsets_Retry_Max conf + 1)) ?om w = (snd (releasePOMs False om2), w2)"
    using fl(1) by (simp add: case_prod_beta)
  then have "om_Close conf env om w = ((snd (releasePOMs True (snd (releasePOMs False om2))))\<lparr>om_broker := None\<rparr>, w2)"
    using conf(1) by (simp add: om_Close_def)
  moreover have "om_poms (snd (releasePOMs True (snd (releasePOMs False om2)))) = []" using empty by (simp add: releasePOMs_poms)
  moreover have "st w2 topic prt = (pom_offset pom, pom_metadata pom)" if "findPOM om topic prt = Some pom" for topic prt pom
    using s2 [rule_format, of topic prt "pom_AsyncClose pom"] f1 [of topic prt] that by (simp add: pom_AsyncClose_def)
  ultimately show thesis using that by simp
qed

subsection \<open>Two commits at once\<close>

text \<open>
  With two commits under way, as when the user calls \<open>Commit\<close> next to the ticker, a manager may become
  clean with an offset that the coordinator no longer has: 5 is marked and requested, 3 is reset and
  requested, the coordinator stores 5 and then 3; 5 is marked again before the first answer is handled.
\<close>

definition late_answer_run :: "offsets_conf \<Rightarrow> offsetManager \<Rightarrow> OffsetCommitResponse \<Rightarrow> offset_store \<Rightarrow> offsetManager \<times> offset_store" where
  "late_answer_run conf om ok store =
     (let om = update_pom ''t'' 0 (MarkOffset 5 []) om;
          req1 = the (constructRequest conf om);
          om = update_pom ''t'' 0 (ResetOffset 3 []) om;
          req2 = the (constructRequest conf om);
          store = stored_by req2 ok (stored_by req1 ok store);
          om = om_handleResponse conf 1 req2 ok om;
          om = update_pom ''t'' 0 (MarkOffset 5 []) om
      in (om_handleResponse conf 1 req1 ok om, store))"

definition one_pom :: partitionOffsetManager where
  "one_pom = \<lparr>pom_topic = ''t'', pom_partition = 0, pom_leaderEpoch = 0, pom_offset = 0, pom_metadata = [], pom_dirty = False,
     pom_done = False, pom_errors = [], pom_released = False\<rparr>"

definition one_om :: offsetManager where
  "one_om = \<lparr>om_group = ''g'', om_memberID = [], om_groupInstanceId = None, om_generation = - 1, om_hasCanceler = False,
     om_cancelled = False, om_broker = Some 1, om_poms = [(''t'', [(0, one_pom)])]\<rparr>"

definition one_conf :: offsets_conf where
  "one_conf = \<lparr>oc_Version = V2_1_0_0, oc_Metadata_Retry_Max = 3, oc_Offsets_Retention = 0, oc_Offsets_Initial = - 1,
     oc_Offsets_Retry_Max = 3, oc_AutoCommit_Enable = True, oc_Return_Errors = False, oc_InstanceId = []\<rparr>"

definition one_ok :: OffsetCommitResponse where
  "one_ok = \<lparr>ocr_Version = 6, ocr_ThrottleTimeMs = 0, ocr_Errors = [(''t'', [(0, ErrNoError)])]\<rparr>"

lemma late_answer_forgets:
  "map_option (\<lambda>pom. (pom_dirty pom, pom_offset pom)) (findPOM (fst (late_answer_run one_conf one_om one_ok (\<lambda>_ _. (0, [])))) ''t'' 0) = Some (False, 5) \<and>
   fst (snd (late_answer_run one_conf one_om one_ok (\<lambda>_ _. (0, []))) ''t'' 0) = 3"
  by code_simp

end
