(* ===== verification/Client_Metadata.thy ===== *)
theory Client_Metadata
  imports Metadata_Messages Group_Messages Offset_Messages Go_Maps
begin

text \<open>
  The client (\<open>client.go\<close>): the brokers it knows, its copy of the cluster metadata with the partition
  lists derived from it, the coordinators, and how each is refreshed. A broker object is a number with an
  id and an address, so that keeping a connection and replacing it can be told apart; the brokers that are
  closed are collected. Calls to brokers, their load, and the clock (deadlines, and whether another refresh
  happened while this one slept) are a world on which they act. The read-write lock makes each operation
  on the maps one step. A Go map is an association list; the order of its iteration is that of the list.
  Log lines are left out. A closed client has no maps.
\<close>

subsection \<open>State\<close>

record cbroker =
  cb_ref :: nat
  cb_id :: int32
  cb_addr :: string

record client =
  cl_closed :: bool
  cl_seedBrokers :: "cbroker list"
  cl_deadSeeds :: "cbroker list"
  cl_controllerID :: int32
  cl_brokers :: "(int32 \<times> cbroker) list"
  cl_metadata :: "PartitionMetadata topics"
  cl_metadataTopics :: "string list"
  cl_coordinators :: "(string \<times> int32) list"
  cl_transactionCoordinators :: "(string \<times> int32) list"
  cl_cachedPartitionsResults :: "(string \<times> int32 list \<times> int32 list) list"
  cl_nextRef :: nat
  cl_closing :: "cbroker list"

record client_conf =
  cc_Version :: KafkaVersion
  cc_Metadata_Full :: bool
  cc_Metadata_Retry_Max :: int
  cc_AllowAutoTopicCreation :: bool

record 'w client_env =
  ce_ResponseSize :: "cbroker \<Rightarrow> 'w \<Rightarrow> int"
  ce_GetMetadata :: "cbroker \<Rightarrow> MetadataRequest \<Rightarrow> 'w \<Rightarrow> MetadataResponse res \<times> 'w"
  ce_FindCoordinator :: "cbroker \<Rightarrow> FindCoordinatorRequest \<Rightarrow> 'w \<Rightarrow> FindCoordinatorResponse res \<times> 'w"
  ce_GetAvailableOffsets :: "cbroker \<Rightarrow> OffsetRequest \<Rightarrow> 'w \<Rightarrow> OffsetResponse res \<times> 'w"
  ce_Close :: "cbroker \<Rightarrow> 'w \<Rightarrow> 'w"
  ce_pastDeadline :: "'w \<Rightarrow> bool \<times> 'w"
  ce_pastDeadlineAfterBackoff :: "'w \<Rightarrow> bool \<times> 'w"
  ce_refreshedMeanwhile :: "'w \<Rightarrow> bool \<times> 'w"

abbreviation (input) ErrInvalidTopic :: KError where "ErrInvalidTopic \<equiv> 17"
abbreviation (input) ErrSASLAuthenticationFailed :: KError where "ErrSASLAuthenticationFailed \<equiv> 58"

text \<open>The brokers of a response are new objects.\<close>

definition adopt :: "Broker list \<Rightarrow> client \<Rightarrow> cbroker list \<times> client" where
  "adopt bs cl =
     (map (\<lambda>(ref, b). \<lparr>cb_ref = ref, cb_id = br_id b, cb_addr = br_addr b\<rparr>) (zip [cl_nextRef cl ..< cl_nextRef cl + length bs] bs),
      cl\<lparr>cl_nextRef := cl_nextRef cl + length bs\<rparr>)"

definition new_client :: client where
  "new_client = \<lparr>cl_closed = False, cl_seedBrokers = [], cl_deadSeeds = [], cl_controllerID = 0, cl_brokers = [],
     cl_metadata = [], cl_metadataTopics = [], cl_coordinators = [], cl_transactionCoordinators = [],
     cl_cachedPartitionsResults = [], cl_nextRef = 0, cl_closing = []\<rparr>"

text \<open>The seeds in the order of a permutation of the addresses; a seed has no id yet.\<close>

definition randomizeSeedBrokers :: "string list \<Rightarrow> client \<Rightarrow> client" where
  "randomizeSeedBrokers addrs cl =
     cl\<lparr>cl_seedBrokers := cl_seedBrokers cl @
          map (\<lambda>(ref, addr). \<lparr>cb_ref = ref, cb_id = - 1, cb_addr = addr\<rparr>) (zip [cl_nextRef cl ..< cl_nextRef cl + length addrs] addrs),
        cl_nextRef := cl_nextRef cl + length addrs\<rparr>"

subsection \<open>Brokers\<close>

definition close_broker :: "cbroker \<Rightarrow> client \<Rightarrow> client" where
  "close_broker b cl = cl\<lparr>cl_closing := cl_closing cl @ [b]\<rparr>"

definition registerBroker :: "cbroker \<Rightarrow> client \<Rightarrow> client" where
  "registerBroker b cl =
     (if cl_closed cl then cl
      else case map_of (cl_brokers cl) (cb_id b) of
        None \<Rightarrow> cl\<lparr>cl_brokers := AList.update (cb_id b) b (cl_brokers cl)\<rparr>
      | Some old \<Rightarrow>
          if cb_addr b \<noteq> cb_addr old
          then (close_broker old cl)\<lparr>cl_brokers := AList.update (cb_id b) b (cl_brokers cl)\<rparr> else cl)"

definition remove_unlisted :: "int32 list \<Rightarrow> client \<Rightarrow> client" where
  "remove_unlisted ids cl =
     cl\<lparr>cl_brokers := filter (\<lambda>(i, b). i \<in> set ids) (cl_brokers cl),
        cl_closing := cl_closing cl @ map snd (filter (\<lambda>(i, b). i \<notin> set ids) (cl_brokers cl))\<rparr>"

text \<open>The first loop of \<open>updateBroker\<close> registers each broker as \<open>registerBroker\<close> does.\<close>

definition updateBroker :: "cbroker list \<Rightarrow> client \<Rightarrow> client" where
  "updateBroker bs cl = remove_unlisted (map cb_id bs) (foldl (\<lambda>cl b. registerBroker b cl) cl bs)"

definition deregisterBroker :: "cbroker \<Rightarrow> client \<Rightarrow> client" where
  "deregisterBroker b cl =
     (if map_of (cl_brokers cl) (cb_id b) \<noteq> None
      then cl\<lparr>cl_brokers := AList.delete (cb_id b) (cl_brokers cl)\<rparr>
      else case cl_seedBrokers cl of
        [] \<Rightarrow> cl
      | seed # seeds \<Rightarrow>
          if cb_ref b = cb_ref seed then cl\<lparr>cl_deadSeeds := cl_deadSeeds cl @ [b], cl_seedBrokers := seeds\<rparr> else cl)"

definition resurrectDeadBrokers :: "client \<Rightarrow> client" where
  "resurrectDeadBrokers cl = cl\<lparr>cl_seedBrokers := cl_seedBrokers cl @ cl_deadSeeds cl, cl_deadSeeds := []\<rparr>"

abbreviation (input) math_MaxInt :: int where "math_MaxInt \<equiv> 9223372036854775807"

definition less_loaded :: "(cbroker \<Rightarrow> int) \<Rightarrow> int \<times> cbroker option \<Rightarrow> int32 \<times> cbroker \<Rightarrow> int \<times> cbroker option" where
  "less_loaded load best ib = (if fst best > load (snd ib) then (load (snd ib), Some (snd ib)) else best)"

definition LeastLoadedBroker :: "(cbroker \<Rightarrow> int) \<Rightarrow> client \<Rightarrow> cbroker option" where
  "LeastLoadedBroker load cl =
     (case snd (foldl (less_loaded load) (math_MaxInt, None) (cl_brokers cl)) of
        Some b \<Rightarrow> Some b
      | None \<Rightarrow> (case cl_seedBrokers cl of [] \<Rightarrow> None | seed # _ \<Rightarrow> Some seed))"

definition RefreshBrokers :: "string list \<Rightarrow> client \<Rightarrow> unit res \<times> client" where
  "RefreshBrokers addrs cl =
     (if cl_closed cl then (Err ErrClosedClient, cl)
      else (Ok (), randomizeSeedBrokers addrs
        (cl\<lparr>cl_closing := cl_closing cl @ map snd (cl_brokers cl) @ cl_seedBrokers cl @ cl_deadSeeds cl,
            cl_brokers := [], cl_seedBrokers := [], cl_deadSeeds := []\<rparr>)))"

definition client_Close :: "client \<Rightarrow> unit res \<times> client" where
  "client_Close cl =
     (if cl_closed cl then (Err ErrClosedClient, cl)
      else (Ok (), cl\<lparr>cl_closed := True, cl_closing := cl_closing cl @ map snd (cl_brokers cl) @ cl_seedBrokers cl,
          cl_brokers := [], cl_metadata := [], cl_metadataTopics := []\<rparr>))"

subsection \<open>The cached metadata\<close>

definition cachedMetadata :: "client \<Rightarrow> string \<Rightarrow> int32 \<Rightarrow> PartitionMetadata option" where
  "cachedMetadata cl topic prt = get_block (cl_metadata cl) topic prt"

datatype partitionType = allPartitions | writablePartitions

definition cachedPartitions :: "client \<Rightarrow> string \<Rightarrow> partitionType \<Rightarrow> int32 list option" where
  "cachedPartitions cl topic pset =
     (case map_of (cl_cachedPartitionsResults cl) topic of
        None \<Rightarrow> None
      | Some r \<Rightarrow> Some (case pset of allPartitions \<Rightarrow> fst r | writablePartitions \<Rightarrow> snd r))"

definition setPartitionCache :: "client \<Rightarrow> string \<Rightarrow> partitionType \<Rightarrow> int32 list option" where
  "setPartitionCache cl topic pset =
     (case map_of (cl_metadata cl) topic of
        None \<Rightarrow> None
      | Some ps \<Rightarrow> Some (sort_key sint (map pmd_ID
          (filter (\<lambda>p. \<not> (pset = writablePartitions \<and> pmd_Err p = ErrLeaderNotAvailable)) (map snd ps)))))"

definition cachedLeader :: "client \<Rightarrow> string \<Rightarrow> int32 \<Rightarrow> (cbroker \<times> int32) res" where
  "cachedLeader cl topic prt =
     (case cachedMetadata cl topic prt of
        None \<Rightarrow> Err (KErr ErrUnknownTopicOrPartition)
      | Some metadata \<Rightarrow>
          if pmd_Err metadata = ErrLeaderNotAvailable then Err (KErr ErrLeaderNotAvailable)
          else (case map_of (cl_brokers cl) (pmd_Leader metadata) of
              None \<Rightarrow> Err (KErr ErrLeaderNotAvailable)
            | Some b \<Rightarrow> Ok (b, pmd_LeaderEpoch metadata)))"

definition cachedCoordinator :: "client \<Rightarrow> string \<Rightarrow> cbroker option" where
  "cachedCoordinator cl grp = (case map_of (cl_coordinators cl) grp of None \<Rightarrow> None | Some i \<Rightarrow> map_of (cl_brokers cl) i)"

definition cachedTransactionCoordinator :: "client \<Rightarrow> string \<Rightarrow> cbroker option" where
  "cachedTransactionCoordinator cl tid =
     (case map_of (cl_transactionCoordinators cl) tid of None \<Rightarrow> None | Some i \<Rightarrow> map_of (cl_brokers cl) i)"

definition cachedController :: "client \<Rightarrow> cbroker option" where
  "cachedController cl = map_of (cl_brokers cl) (cl_controllerID cl)"

definition deregisterController :: "client \<Rightarrow> client" where
  "deregisterController cl =
     (case cachedController cl of
        None \<Rightarrow> cl
      | Some b \<Rightarrow> (close_broker b cl)\<lparr>cl_brokers := AList.delete (cl_controllerID cl) (cl_brokers cl)\<rparr>)"

text \<open>One topic of a metadata response: what is stored, the error so far, and whether to ask again.\<close>

definition forget_topic :: "string \<Rightarrow> client \<Rightarrow> client" where
  "forget_topic topic cl =
     cl\<lparr>cl_metadataTopics := (if topic \<in> set (cl_metadataTopics cl) then cl_metadataTopics cl else cl_metadataTopics cl @ [topic]),
        cl_metadata := AList.delete topic (cl_metadata cl),
        cl_cachedPartitionsResults := AList.delete topic (cl_cachedPartitionsResults cl)\<rparr>"

definition partition_map :: "PartitionMetadata list \<Rightarrow> (int32 \<times> PartitionMetadata) list" where
  "partition_map ps = foldl (\<lambda>m p. AList.update (pmd_ID p) p m) [] ps"

definition store_topic :: "string \<Rightarrow> PartitionMetadata list \<Rightarrow> client \<Rightarrow> client" where
  "store_topic topic ps cl =
     (let cl = cl\<lparr>cl_metadata := AList.update topic (partition_map ps) (cl_metadata cl)\<rparr>
      in cl\<lparr>cl_cachedPartitionsResults := AList.update topic
            (the (setPartitionCache cl topic allPartitions), the (setPartitionCache cl topic writablePartitions))
            (cl_cachedPartitionsResults cl)\<rparr>)"

definition update_topic :: "TopicMetadata \<Rightarrow> bool \<times> go_error option \<times> client \<Rightarrow> bool \<times> go_error option \<times> client" where
  "update_topic topic s =
     (case s of (retry, err, cl) \<Rightarrow>
        let cl = forget_topic (tmd_Name topic) cl;
            leaderless = list_ex (\<lambda>p. pmd_Err p = ErrLeaderNotAvailable) (tmd_Partitions topic)
        in if tmd_Err topic = ErrNoError then (retry \<or> leaderless, err, store_topic (tmd_Name topic) (tmd_Partitions topic) cl)
           else if tmd_Err topic = ErrLeaderNotAvailable then (True, err, store_topic (tmd_Name topic) (tmd_Partitions topic) cl)
           else if tmd_Err topic = ErrUnknownTopicOrPartition then (True, Some (KErr (tmd_Err topic)), cl)
           else (retry, Some (KErr (tmd_Err topic)), cl))"

definition updateMetadata :: "MetadataResponse \<Rightarrow> bool \<Rightarrow> client \<Rightarrow> bool \<times> go_error option \<times> client" where
  "updateMetadata response allKnownMetaData cl =
     (if cl_closed cl then (False, None, cl)
      else case adopt (mdr_Brokers response) cl of (bs, cl) \<Rightarrow>
        let cl = (updateBroker bs cl)\<lparr>cl_controllerID := mdr_ControllerID response\<rparr>;
            cl = (if allKnownMetaData then cl\<lparr>cl_metadata := [], cl_metadataTopics := [], cl_cachedPartitionsResults := []\<rparr> else cl)
        in foldl (\<lambda>s topic. update_topic topic s) (False, None, cl) (mdr_Topics response))"

subsection \<open>Refreshing the metadata\<close>

text \<open>\<open>errors.As\<close> for the two error types that are told apart.\<close>

fun errors_As_KError :: "go_error \<Rightarrow> bool" where
  "errors_As_KError (KErr k) = True"
| "errors_As_KError (SentinelError s ws) = (errors_As_KError s \<or> list_ex errors_As_KError ws)"
| "errors_As_KError e = False"

fun errors_As_PacketEncodingError :: "go_error \<Rightarrow> bool" where
  "errors_As_PacketEncodingError (PacketEncodingError m) = True"
| "errors_As_PacketEncodingError (SentinelError s ws) = (errors_As_PacketEncodingError s \<or> list_ex errors_As_PacketEncodingError ws)"
| "errors_As_PacketEncodingError e = False"

definition of_error :: "go_error option \<Rightarrow> unit res" where
  "of_error err = (case err of None \<Rightarrow> Ok () | Some e \<Rightarrow> Err e)"

datatype round_end = Returned "unit res" | Wants_retry "unit res" | Past_deadline "go_error list" | Out_of_brokers "go_error list"

definition metadata_request :: "client_conf \<Rightarrow> string list \<Rightarrow> MetadataRequest" where
  "metadata_request conf topics =
     (NewMetadataRequest (cc_Version conf) topics)\<lparr>mdq_AllowAutoTopicCreation := (topics \<noteq> [] \<and> cc_AllowAutoTopicCreation conf)\<rparr>"

partial_function (option) metadata_rounds ::
  "client_conf \<Rightarrow> 'w client_env \<Rightarrow> string list \<Rightarrow> client \<Rightarrow> 'w \<Rightarrow> go_error list \<Rightarrow> (round_end \<times> client \<times> 'w) option" where
  "metadata_rounds conf env topics cl w brokerErrors =
     (case LeastLoadedBroker (\<lambda>b. ce_ResponseSize env b w) cl of
        None \<Rightarrow> Some (Out_of_brokers brokerErrors, cl, w)
      | Some b \<Rightarrow>
          (case ce_pastDeadline env w of (late, w) \<Rightarrow>
             if late then Some (Past_deadline brokerErrors, cl, w)
             else (case ce_GetMetadata env b (metadata_request conf topics) w of (answer, w) \<Rightarrow>
               (case answer of
                  Ok response \<Rightarrow>
                    if mdr_Brokers response = []
                    then metadata_rounds conf env topics (deregisterBroker b cl) (ce_Close env b w) brokerErrors
                    else (case updateMetadata response (topics = []) cl of (shouldRetry, err, cl) \<Rightarrow>
                        Some (if shouldRetry then Wants_retry (of_error err) else Returned (of_error err), cl, w))
                | Err e \<Rightarrow>
                    if errors_As_PacketEncodingError e then Some (Returned (Err e), cl, w)
                    else if errors_As_KError e then
                      if errors_Is e (KErr ErrSASLAuthenticationFailed) \<or> errors_Is e (KErr ErrTopicAuthorizationFailed)
                      then Some (Returned (Err e), cl, w)
                      else metadata_rounds conf env topics (deregisterBroker b cl) (ce_Close env b w) brokerErrors
                    else metadata_rounds conf env topics (deregisterBroker b cl) (ce_Close env b w) (brokerErrors @ [e])
                | Panic \<Rightarrow> Some (Returned Panic, cl, w)
                | Diverge \<Rightarrow> Some (Returned Diverge, cl, w)))))"

text \<open>What becomes of a round: the result is returned, or there is a try behind the back-off.\<close>

definition retry_refresh ::
    "'w client_env \<Rightarrow> (client \<Rightarrow> 'w \<Rightarrow> (unit res \<times> client \<times> 'w) option) option \<Rightarrow> unit res \<Rightarrow> client \<Rightarrow> 'w \<Rightarrow>
     (unit res \<times> client \<times> 'w) option" where
  "retry_refresh env again err cl w =
     (case again of
        None \<Rightarrow> Some (err, cl, w)
      | Some f \<Rightarrow>
          (case ce_pastDeadlineAfterBackoff env w of (late, w) \<Rightarrow>
             if late then Some (err, cl, w)
             else (case ce_refreshedMeanwhile env w of (meanwhile, w) \<Rightarrow> if meanwhile then Some (err, cl, w) else f cl w)))"

definition after_round ::
    "'w client_env \<Rightarrow> (client \<Rightarrow> 'w \<Rightarrow> (unit res \<times> client \<times> 'w) option) option \<Rightarrow> round_end \<times> client \<times> 'w \<Rightarrow>
     (unit res \<times> client \<times> 'w) option" where
  "after_round env again r =
     (case r of (outcome, cl, w) \<Rightarrow>
        (case outcome of
           Returned err \<Rightarrow> Some (err, cl, w)
         | Wants_retry err \<Rightarrow> retry_refresh env again err cl w
         | Past_deadline es \<Rightarrow> retry_refresh env again (Err (Wrap ErrOutOfBrokers es)) cl w
         | Out_of_brokers es \<Rightarrow> retry_refresh env again (Err (Wrap ErrOutOfBrokers es)) (resurrectDeadBrokers cl) w))"

primrec tryRefreshMetadata ::
  "client_conf \<Rightarrow> 'w client_env \<Rightarrow> string list \<Rightarrow> nat \<Rightarrow> client \<Rightarrow> 'w \<Rightarrow> (unit res \<times> client \<times> 'w) option" where
  "tryRefreshMetadata conf env topics 0 cl w =
     Option.bind (metadata_rounds conf env topics cl w []) (after_round env None)"
| "tryRefreshMetadata conf env topics (Suc attempts) cl w =
     Option.bind (metadata_rounds conf env topics cl w []) (after_round env (Some (tryRefreshMetadata conf env topics attempts)))"

definition RefreshMetadata ::
    "client_conf \<Rightarrow> 'w client_env \<Rightarrow> string list \<Rightarrow> client \<Rightarrow> 'w \<Rightarrow> (unit res \<times> client \<times> 'w) option" where
  "RefreshMetadata conf env topics cl w =
     (if cl_closed cl then Some (Err ErrClosedClient, cl, w)
      else if [] \<in> set topics then Some (Err (KErr ErrInvalidTopic), cl, w)
      else tryRefreshMetadata conf env topics (nat (cc_Metadata_Retry_Max conf)) cl w)"

definition refreshMetadata :: "client_conf \<Rightarrow> 'w client_env \<Rightarrow> client \<Rightarrow> 'w \<Rightarrow> (unit res \<times> client \<times> 'w) option" where
  "refreshMetadata conf env cl w =
     (if cc_Metadata_Full conf then RefreshMetadata conf env [] cl w
      else if cl_closed cl then Some (Err ErrClosedClient, cl, w)
      else if cl_metadataTopics cl = [] then Some (Err ErrNoTopicsToUpdateMetadata, cl, w)
      else RefreshMetadata conf env (cl_metadataTopics cl) cl w)"

subsection \<open>Looking up, with a refresh when the cache has no answer\<close>

text \<open>An error of the refresh ends the look-up.\<close>

definition refreshed ::
    "(unit res \<times> client \<times> 'w) option \<Rightarrow> (client \<Rightarrow> 'a res) \<Rightarrow> ('a res \<times> client \<times> 'w) option" where
  "refreshed r f =
     (case r of
        None \<Rightarrow> None
      | Some (err, cl, w) \<Rightarrow> Some (res_bind err (\<lambda>_. f cl), cl, w))"

definition Partitions :: "client_conf \<Rightarrow> 'w client_env \<Rightarrow> string \<Rightarrow> client \<Rightarrow> 'w \<Rightarrow> (int32 list res \<times> client \<times> 'w) option" where
  "Partitions conf env topic cl w =
     (let look = (\<lambda>cl. case cachedPartitions cl topic allPartitions of
            None \<Rightarrow> Err (KErr ErrUnknownTopicOrPartition)
          | Some ps \<Rightarrow> if ps = [] then Err (KErr ErrUnknownTopicOrPartition) else Ok ps)
      in if cl_closed cl then Some (Err ErrClosedClient, cl, w)
         else if cachedPartitions cl topic allPartitions \<in> {None, Some []} then refreshed (RefreshMetadata conf env [topic] cl w) look
         else Some (look cl, cl, w))"

definition WritablePartitions ::
    "client_conf \<Rightarrow> 'w client_env \<Rightarrow> string \<Rightarrow> client \<Rightarrow> 'w \<Rightarrow> (int32 list res \<times> client \<times> 'w) option" where
  "WritablePartitions conf env topic cl w =
     (let look = (\<lambda>cl. case cachedPartitions cl topic writablePartitions of
            None \<Rightarrow> Err (KErr ErrUnknownTopicOrPartition) | Some ps \<Rightarrow> Ok ps)
      in if cl_closed cl then Some (Err ErrClosedClient, cl, w)
         else if cachedPartitions cl topic writablePartitions \<in> {None, Some []} then refreshed (RefreshMetadata conf env [topic] cl w) look
         else Some (look cl, cl, w))"

text \<open>\<open>Replicas\<close>, \<open>InSyncReplicas\<close> and \<open>OfflineReplicas\<close> differ in the field they read; they may return it with an error.\<close>

definition replica_list ::
    "(PartitionMetadata \<Rightarrow> int32 list option) \<Rightarrow> client_conf \<Rightarrow> 'w client_env \<Rightarrow> string \<Rightarrow> int32 \<Rightarrow> client \<Rightarrow> 'w \<Rightarrow>
     ((int32 list option \<times> go_error option) res \<times> client \<times> 'w) option" where
  "replica_list field conf env topic prt cl w =
     (let look = (\<lambda>cl. case cachedMetadata cl topic prt of
            None \<Rightarrow> Err (KErr ErrUnknownTopicOrPartition)
          | Some metadata \<Rightarrow> Ok (field metadata, if pmd_Err metadata = ErrReplicaNotAvailable then Some (KErr (pmd_Err metadata)) else None))
      in if cl_closed cl then Some (Err ErrClosedClient, cl, w)
         else if cachedMetadata cl topic prt = None then refreshed (RefreshMetadata conf env [topic] cl w) look
         else Some (look cl, cl, w))"

definition Replicas where "Replicas = replica_list pmd_Replicas"
definition InSyncReplicas where "InSyncReplicas = replica_list pmd_Isr"
definition OfflineReplicas where "OfflineReplicas = replica_list pmd_OfflineReplicas"

definition LeaderAndEpoch ::
    "client_conf \<Rightarrow> 'w client_env \<Rightarrow> string \<Rightarrow> int32 \<Rightarrow> client \<Rightarrow> 'w \<Rightarrow> ((cbroker \<times> int32) res \<times> client \<times> 'w) option" where
  "LeaderAndEpoch conf env topic prt cl w =
     (if cl_closed cl then Some (Err ErrClosedClient, cl, w)
      else case cachedLeader cl topic prt of
        Ok r \<Rightarrow> Some (Ok r, cl, w)
      | _ \<Rightarrow> refreshed (RefreshMetadata conf env [topic] cl w) (\<lambda>cl. cachedLeader cl topic prt))"

definition client_Controller :: "client_conf \<Rightarrow> 'w client_env \<Rightarrow> client \<Rightarrow> 'w \<Rightarrow> (cbroker res \<times> client \<times> 'w) option" where
  "client_Controller conf env cl w =
     (let look = (\<lambda>cl. case cachedController cl of None \<Rightarrow> Err ErrControllerNotAvailable | Some b \<Rightarrow> Ok b)
      in if cl_closed cl then Some (Err ErrClosedClient, cl, w)
         else if \<not> IsAtLeast (cc_Version conf) V0_10_0_0 then Some (Err (KErr 35), cl, w)
         else if cachedController cl = None then refreshed (refreshMetadata conf env cl w) look
         else Some (look cl, cl, w))"

definition RefreshController :: "client_conf \<Rightarrow> 'w client_env \<Rightarrow> client \<Rightarrow> 'w \<Rightarrow> (cbroker res \<times> client \<times> 'w) option" where
  "RefreshController conf env cl w =
     (if cl_closed cl then Some (Err ErrClosedClient, cl, w)
      else refreshed (refreshMetadata conf env (deregisterController cl) w)
        (\<lambda>cl. case cachedController cl of None \<Rightarrow> Err ErrControllerNotAvailable | Some b \<Rightarrow> Ok b))"

definition offset_request :: "client_conf \<Rightarrow> string \<Rightarrow> int32 \<Rightarrow> int64 \<Rightarrow> OffsetRequest" where
  "offset_request conf topic prt timestamp =
     orq_AddBlock topic prt timestamp 1
       \<lparr>orq_Version = (if IsAtLeast (cc_Version conf) V2_1_0_0 then 4 else if IsAtLeast (cc_Version conf) V2_0_0_0 then 3
          else if IsAtLeast (cc_Version conf) V0_11_0_0 then 2 else if IsAtLeast (cc_Version conf) V0_10_1_0 then 1 else 0),
        orq_IsolationLevel = 0, orq_replicaID = 0, orq_isReplicaIDSet = False, orq_blocks = []\<rparr>"

definition getOffset ::
    "client_conf \<Rightarrow> 'w client_env \<Rightarrow> string \<Rightarrow> int32 \<Rightarrow> int64 \<Rightarrow> client \<Rightarrow> 'w \<Rightarrow> (int64 res \<times> client \<times> 'w) option" where
  "getOffset conf env topic prt timestamp cl w =
     (case LeaderAndEpoch conf env topic prt cl w of
        None \<Rightarrow> None
      | Some (leader, cl, w) \<Rightarrow>
          (case leader of
             Ok (b, _) \<Rightarrow>
               (case ce_GetAvailableOffsets env b (offset_request conf topic prt timestamp) w of (answer, w) \<Rightarrow>
                  (case answer of
                     Ok response \<Rightarrow>
                       (case get_block (osr_Blocks response) topic prt of
                          None \<Rightarrow> Some (Err ErrIncompleteResponse, cl, ce_Close env b w)
                        | Some block \<Rightarrow>
                            Some (if osb_Err block \<noteq> ErrNoError then Err (KErr (osb_Err block))
                                  else case osb_Offsets block of [offset] \<Rightarrow> Ok offset | _ \<Rightarrow> Err (KErr 1), cl, w))
                   | Err e \<Rightarrow> Some (Err e, cl, ce_Close env b w)
                   | Panic \<Rightarrow> Some (Panic, cl, w) | Diverge \<Rightarrow> Some (Diverge, cl, w)))
           | Err e \<Rightarrow> Some (Err e, cl, w) | Panic \<Rightarrow> Some (Panic, cl, w) | Diverge \<Rightarrow> Some (Diverge, cl, w)))"

definition GetOffset ::
    "client_conf \<Rightarrow> 'w client_env \<Rightarrow> string \<Rightarrow> int32 \<Rightarrow> int64 \<Rightarrow> client \<Rightarrow> 'w \<Rightarrow> (int64 res \<times> client \<times> 'w) option" where
  "GetOffset conf env topic prt timestamp cl w =
     (if cl_closed cl then Some (Err ErrClosedClient, cl, w)
      else case getOffset conf env topic prt timestamp cl w of
        Some (Err _, cl, w) \<Rightarrow>
          (case RefreshMetadata conf env [topic] cl w of
             Some (Ok _, cl, w) \<Rightarrow> getOffset conf env topic prt timestamp cl w
           | Some (Err e, cl, w) \<Rightarrow> Some (Err e, cl, w)
           | Some (Panic, cl, w) \<Rightarrow> Some (Panic, cl, w) | Some (Diverge, cl, w) \<Rightarrow> Some (Diverge, cl, w) | None \<Rightarrow> None)
      | r \<Rightarrow> r)"

subsection \<open>Coordinators\<close>

abbreviation (input) CoordinatorGroup :: int8 where "CoordinatorGroup \<equiv> 0"
abbreviation (input) CoordinatorTransaction :: int8 where "CoordinatorTransaction \<equiv> 1"

definition coordinator_request :: "client_conf \<Rightarrow> string \<Rightarrow> int8 \<Rightarrow> FindCoordinatorRequest" where
  "coordinator_request conf key type =
     \<lparr>fcq_Version = (if IsAtLeast (cc_Version conf) V2_0_0_0 then 2 else if IsAtLeast (cc_Version conf) V0_11_0_0 then 1 else 0),
      fcq_CoordinatorKey = key, fcq_CoordinatorType = type\<rparr>"

datatype find_end = Found "FindCoordinatorResponse res" | Not_available | Not_authorized | No_broker "go_error list"

partial_function (option) coordinator_rounds ::
  "client_conf \<Rightarrow> 'w client_env \<Rightarrow> string \<Rightarrow> int8 \<Rightarrow> client \<Rightarrow> 'w \<Rightarrow> go_error list \<Rightarrow> (find_end \<times> client \<times> 'w) option" where
  "coordinator_rounds conf env key type cl w brokerErrors =
     (case LeastLoadedBroker (\<lambda>b. ce_ResponseSize env b w) cl of
        None \<Rightarrow> Some (No_broker brokerErrors, cl, w)
      | Some b \<Rightarrow>
          (case ce_FindCoordinator env b (coordinator_request conf key type) w of (answer, w) \<Rightarrow>
             (case answer of
                Err e \<Rightarrow>
                  if errors_As_PacketEncodingError e then Some (Found (Err e), cl, w)
                  else coordinator_rounds conf env key type (deregisterBroker b cl) (ce_Close env b w) (brokerErrors @ [e])
              | Ok response \<Rightarrow>
                  if fcr_Err response = ErrNoError then
                    Some (Found (if fcr_Coordinator response = None then Panic else Ok response), cl, w)
                  else if fcr_Err response = ErrConsumerCoordinatorNotAvailable then Some (Not_available, cl, w)
                  else if fcr_Err response = ErrGroupAuthorizationFailed then Some (Not_authorized, cl, w)
                  else Some (Found (Err (KErr (fcr_Err response))), cl, w)
              | Panic \<Rightarrow> Some (Found Panic, cl, w)
              | Diverge \<Rightarrow> Some (Found Diverge, cl, w))))"

text \<open>A coordinator that is not available makes the client look for the leaders of the internal topics; the answer is not used.\<close>

definition look_for_leader :: "client_conf \<Rightarrow> 'w client_env \<Rightarrow> string \<Rightarrow> client \<times> 'w \<Rightarrow> (client \<times> 'w) option" where
  "look_for_leader conf env topic s =
     (case LeaderAndEpoch conf env topic 0 (fst s) (snd s) of None \<Rightarrow> None | Some (_, cl, w) \<Rightarrow> Some (cl, w))"

definition after_search ::
    "client_conf \<Rightarrow> 'w client_env \<Rightarrow> int8 \<Rightarrow> (client \<Rightarrow> 'w \<Rightarrow> (FindCoordinatorResponse res \<times> client \<times> 'w) option) option \<Rightarrow>
     find_end \<times> client \<times> 'w \<Rightarrow> (FindCoordinatorResponse res \<times> client \<times> 'w) option" where
  "after_search conf env type again r =
     (let retry = (\<lambda>err cl w. case again of None \<Rightarrow> Some (Err err, cl, w) | Some f \<Rightarrow> f cl w)
      in case r of (outcome, cl, w) \<Rightarrow>
        (case outcome of
           Found response \<Rightarrow> Some (response, cl, w)
         | Not_available \<Rightarrow>
             Option.bind (look_for_leader conf env ''__consumer_offsets'' (cl, w)) (\<lambda>s.
             Option.bind (if type = CoordinatorTransaction then look_for_leader conf env ''__transaction_state'' s else Some s) (\<lambda>s.
               retry (KErr ErrConsumerCoordinatorNotAvailable) (fst s) (snd s)))
         | Not_authorized \<Rightarrow> retry (KErr ErrGroupAuthorizationFailed) cl w
         | No_broker es \<Rightarrow> retry (Wrap ErrOutOfBrokers es) (resurrectDeadBrokers cl) w))"

primrec findCoordinator ::
  "client_conf \<Rightarrow> 'w client_env \<Rightarrow> string \<Rightarrow> int8 \<Rightarrow> nat \<Rightarrow> client \<Rightarrow> 'w \<Rightarrow> (FindCoordinatorResponse res \<times> client \<times> 'w) option" where
  "findCoordinator conf env key type 0 cl w =
     Option.bind (coordinator_rounds conf env key type cl w []) (after_search conf env type None)"
| "findCoordinator conf env key type (Suc attempts) cl w =
     Option.bind (coordinator_rounds conf env key type cl w [])
       (after_search conf env type (Some (findCoordinator conf env key type attempts)))"

definition register_coordinator :: "Broker \<Rightarrow> client \<Rightarrow> client" where
  "register_coordinator b cl = (case adopt [b] cl of (bs, cl) \<Rightarrow> registerBroker (hd bs) cl)"

definition RefreshCoordinator :: "client_conf \<Rightarrow> 'w client_env \<Rightarrow> string \<Rightarrow> client \<Rightarrow> 'w \<Rightarrow> (unit res \<times> client \<times> 'w) option" where
  "RefreshCoordinator conf env grp cl w =
     (if cl_closed cl then Some (Err ErrClosedClient, cl, w)
      else case findCoordinator conf env grp CoordinatorGroup (nat (cc_Metadata_Retry_Max conf)) cl w of
        None \<Rightarrow> None
      | Some (response, cl, w) \<Rightarrow>
          (case response of
             Ok r \<Rightarrow>
               (case fcr_Coordinator r of
                  None \<Rightarrow> Some (Panic, cl, w)
                | Some b \<Rightarrow> Some (Ok (), (register_coordinator b cl)\<lparr>cl_coordinators := AList.update grp (br_id b) (cl_coordinators cl)\<rparr>, w))
           | Err e \<Rightarrow> Some (Err e, cl, w) | Panic \<Rightarrow> Some (Panic, cl, w) | Diverge \<Rightarrow> Some (Diverge, cl, w)))"

definition RefreshTransactionCoordinator ::
    "client_conf \<Rightarrow> 'w client_env \<Rightarrow> string \<Rightarrow> client \<Rightarrow> 'w \<Rightarrow> (unit res \<times> client \<times> 'w) option" where
  "RefreshTransactionCoordinator conf env tid cl w =
     (if cl_closed cl then Some (Err ErrClosedClient, cl, w)
      else case findCoordinator conf env tid CoordinatorTransaction (nat (cc_Metadata_Retry_Max conf)) cl w of
        None \<Rightarrow> None
      | Some (response, cl, w) \<Rightarrow>
          (case response of
             Ok r \<Rightarrow>
               (case fcr_Coordinator r of
                  None \<Rightarrow> Some (Panic, cl, w)
                | Some b \<Rightarrow> Some (Ok (), (register_coordinator b cl)
                    \<lparr>cl_transactionCoordinators := AList.update tid (br_id b) (cl_transactionCoordinators cl)\<rparr>, w))
           | Err e \<Rightarrow> Some (Err e, cl, w) | Panic \<Rightarrow> Some (Panic, cl, w) | Diverge \<Rightarrow> Some (Diverge, cl, w)))"

definition client_Coordinator :: "client_conf \<Rightarrow> 'w client_env \<Rightarrow> string \<Rightarrow> client \<Rightarrow> 'w \<Rightarrow> (cbroker res \<times> client \<times> 'w) option" where
  "client_Coordinator conf env grp cl w =
     (let look = (\<lambda>cl. case cachedCoordinator cl grp of None \<Rightarrow> Err (KErr ErrConsumerCoordinatorNotAvailable) | Some b \<Rightarrow> Ok b)
      in if cl_closed cl then Some (Err ErrClosedClient, cl, w)
         else if cachedCoordinator cl grp = None then refreshed (RefreshCoordinator conf env grp cl w) look
         else Some (look cl, cl, w))"

definition TransactionCoordinator :: "client_conf \<Rightarrow> 'w client_env \<Rightarrow> string \<Rightarrow> client \<Rightarrow> 'w \<Rightarrow> (cbroker res \<times> client \<times> 'w) option" where
  "TransactionCoordinator conf env tid cl w =
     (let look = (\<lambda>cl. case cachedTransactionCoordinator cl tid of None \<Rightarrow> Err (KErr ErrConsumerCoordinatorNotAvailable) | Some b \<Rightarrow> Ok b)
      in if cl_closed cl then Some (Err ErrClosedClient, cl, w)
         else if cachedTransactionCoordinator cl tid = None then refreshed (RefreshTransactionCoordinator conf env tid cl w) look
         else Some (look cl, cl, w))"

subsection \<open>The registered brokers\<close>

definition brokers_ok :: "client \<Rightarrow> bool" where
  "brokers_ok cl \<longleftrightarrow> distinct (map fst (cl_brokers cl)) \<and> (\<forall>(i, b)\<in>set (cl_brokers cl). cb_id b = i)"

definition known_brokers :: "client \<Rightarrow> nat" where
  "known_brokers cl = length (cl_brokers cl) + length (cl_seedBrokers cl)"

lemma LeastLoadedBroker_known:
  assumes "LeastLoadedBroker load cl = Some b"
  shows "b \<in> snd ` set (cl_brokers cl) \<or> (\<exists>seeds. cl_seedBrokers cl = b # seeds)"
proof -
  have "snd (foldl (less_loaded load) (m, x) bs) \<in> {x} \<union> Some ` snd ` set bs" for m x bs
    by (induction bs rule: rev_induct) (auto simp: less_loaded_def)
  from this [of math_MaxInt None "cl_brokers cl"] assms show ?thesis
    by (auto simp: LeastLoadedBroker_def split: option.splits list.splits)
qed

lemma LeastLoadedBroker_None: "LeastLoadedBroker load cl = None \<Longrightarrow> cl_seedBrokers cl = []"
  by (auto simp: LeastLoadedBroker_def split: option.splits list.splits)

text \<open>A broker that failed is not asked again: it is dropped from the brokers, or from the seeds.\<close>

lemma deregisterBroker_fewer:
  assumes ok: "brokers_ok cl" and b: "LeastLoadedBroker load cl = Some b"
  shows "known_brokers (deregisterBroker b cl) < known_brokers cl" "brokers_ok (deregisterBroker b cl)"
proof -
  have "map_of (cl_brokers cl) (cb_id b) \<noteq> None \<or> (\<exists>seeds. cl_seedBrokers cl = b # seeds)"
    using LeastLoadedBroker_known [OF b] ok by (fastforce simp: brokers_ok_def map_of_eq_None_iff)
  then show "known_brokers (deregisterBroker b cl) < known_brokers cl"
    by (auto simp: deregisterBroker_def known_brokers_def delete_shorter split: list.splits)
  show "brokers_ok (deregisterBroker b cl)"
    using ok by (auto simp: brokers_ok_def deregisterBroker_def distinct_map_filter AList.delete_eq split: list.splits)
qed

lemma registerBroker_find:
  assumes "\<not> cl_closed cl"
  shows "map_of (cl_brokers (registerBroker b cl)) i =
    (if i = cb_id b
     then Some (case map_of (cl_brokers cl) i of None \<Rightarrow> b | Some old \<Rightarrow> if cb_addr old = cb_addr b then old else b)
     else map_of (cl_brokers cl) i)"
  using assms by (auto simp: registerBroker_def close_broker_def update_conv' split: option.splits)

lemma registerBroker_ok: "brokers_ok cl \<Longrightarrow> brokers_ok (registerBroker b cl)"
proof -
  assume ok: "brokers_ok cl"
  have "(i, c) \<in> set (AList.update (cb_id b) b (cl_brokers cl)) \<Longrightarrow> cb_id c = i" for i c
    using ok update_subset [of "cb_id b" b "cl_brokers cl"] by (auto simp: brokers_ok_def)
  with ok show ?thesis
    by (auto simp: registerBroker_def brokers_ok_def close_broker_def distinct_update split: option.splits)
qed

lemma registerBroker_same [simp]:
  "cl_closed (registerBroker b cl) = cl_closed cl" "cl_metadata (registerBroker b cl) = cl_metadata cl"
  "cl_metadataTopics (registerBroker b cl) = cl_metadataTopics cl"
  "cl_cachedPartitionsResults (registerBroker b cl) = cl_cachedPartitionsResults cl"
  by (simp_all add: registerBroker_def close_broker_def split: option.splits)

lemma register_all_same [simp]:
  "cl_closed (foldl (\<lambda>cl b. registerBroker b cl) cl bs) = cl_closed cl"
  "cl_metadata (foldl (\<lambda>cl b. registerBroker b cl) cl bs) = cl_metadata cl"
  "cl_metadataTopics (foldl (\<lambda>cl b. registerBroker b cl) cl bs) = cl_metadataTopics cl"
  "cl_cachedPartitionsResults (foldl (\<lambda>cl b. registerBroker b cl) cl bs) = cl_cachedPartitionsResults cl"
  by (induction bs arbitrary: cl) simp_all

lemma register_all_ok: "brokers_ok cl \<Longrightarrow> brokers_ok (foldl (\<lambda>cl b. registerBroker b cl) cl bs)"
  by (induction bs arbitrary: cl) (simp_all add: registerBroker_ok)

lemma updateBroker_ok: "brokers_ok cl \<Longrightarrow> brokers_ok (updateBroker bs cl)"
  using register_all_ok [of cl bs]
  by (auto simp: updateBroker_def remove_unlisted_def brokers_ok_def distinct_map_filter)

lemma register_all_find:
  assumes "\<not> cl_closed cl" "distinct (map cb_id bs)"
  shows "map_of (cl_brokers (foldl (\<lambda>cl b. registerBroker b cl) cl bs)) i =
    (case map_of (map (\<lambda>b. (cb_id b, b)) bs) i of
       None \<Rightarrow> map_of (cl_brokers cl) i
     | Some b \<Rightarrow> Some (case map_of (cl_brokers cl) i of None \<Rightarrow> b | Some old \<Rightarrow> if cb_addr old = cb_addr b then old else b))"
  using assms
proof (induction bs arbitrary: cl)
  case (Cons b bs)
  have "map_of (map (\<lambda>b. (cb_id b, b)) bs) (cb_id b) = None" using Cons.prems(2) by (force simp: map_of_eq_None_iff)
  with Cons.IH [of "registerBroker b cl"] Cons.prems show ?case
    by (simp add: registerBroker_find split: option.splits)
qed simp

text \<open>
  After an update the client knows exactly the brokers of the response; a broker that was known at the
  same address keeps its object, and so its connection.
\<close>

theorem updateBroker_exact:
  assumes "\<not> cl_closed cl" "distinct (map cb_id bs)"
  shows "map_of (cl_brokers (updateBroker bs cl)) i =
    (case map_of (map (\<lambda>b. (cb_id b, b)) bs) i of
       None \<Rightarrow> None
     | Some b \<Rightarrow> Some (case map_of (cl_brokers cl) i of None \<Rightarrow> b | Some old \<Rightarrow> if cb_addr old = cb_addr b then old else b))"
proof -
  have k: "map_of (map (\<lambda>b. (cb_id b, b)) bs) i = None \<longleftrightarrow> i \<notin> set (map cb_id bs)"
    by (force simp: map_of_eq_None_iff)
  show ?thesis
    using register_all_find [OF assms, of i] k
    by (cases "i \<in> set (map cb_id bs)") (auto simp: updateBroker_def remove_unlisted_def map_of_filter_keys split: option.splits)
qed

subsection \<open>The partition lists\<close>

definition partitions_ok :: "(int32 \<times> PartitionMetadata) list \<Rightarrow> bool" where
  "partitions_ok ps \<longleftrightarrow> distinct (map fst ps) \<and> (\<forall>(i, p)\<in>set ps. pmd_ID p = i)"

definition partition_ids :: "partitionType \<Rightarrow> (int32 \<times> PartitionMetadata) list \<Rightarrow> int32 list" where
  "partition_ids t ps = sort_key sint (map pmd_ID
     (filter (\<lambda>p. \<not> (t = writablePartitions \<and> pmd_Err p = ErrLeaderNotAvailable)) (map snd ps)))"

definition topic_ok :: "client \<Rightarrow> string \<Rightarrow> bool" where
  "topic_ok cl topic = (case map_of (cl_metadata cl) topic of
       None \<Rightarrow> map_of (cl_cachedPartitionsResults cl) topic = None
     | Some ps \<Rightarrow> partitions_ok ps \<and> topic \<in> set (cl_metadataTopics cl) \<and>
         map_of (cl_cachedPartitionsResults cl) topic = Some (partition_ids allPartitions ps, partition_ids writablePartitions ps))"

definition cache_ok :: "client \<Rightarrow> bool" where
  "cache_ok cl \<longleftrightarrow> (\<forall>topic. topic_ok cl topic)"

lemma partition_map_ok: "partitions_ok (partition_map ps)"
proof (induction ps rule: rev_induct)
  case (snoc p ps)
  have "partition_map (ps @ [p]) = AList.update (pmd_ID p) p (partition_map ps)" by (simp add: partition_map_def)
  with snoc show ?case using update_subset [of "pmd_ID p" p "partition_map ps"]
    by (auto simp: partitions_ok_def distinct_update)
qed (simp add: partitions_ok_def partition_map_def)

lemma cache_ok_forget: "cache_ok cl \<Longrightarrow> cache_ok (forget_topic topic cl)"
  unfolding cache_ok_def
proof
  fix t assume "\<forall>t. topic_ok cl t"
  then have "topic_ok cl t" ..
  then show "topic_ok (forget_topic topic cl) t"
    by (cases "t = topic") (simp_all add: topic_ok_def forget_topic_def delete_conv' split: option.splits)
qed

lemma cache_ok_store:
  assumes "cache_ok cl" "topic \<in> set (cl_metadataTopics cl)"
  shows "cache_ok (store_topic topic ps cl)"
  unfolding cache_ok_def
proof
  fix t show "topic_ok (store_topic topic ps cl) t"
    using assms(1) [unfolded cache_ok_def, rule_format, of t] assms(2) partition_map_ok [of ps]
    by (cases "t = topic")
      (simp_all add: topic_ok_def store_topic_def setPartitionCache_def partition_ids_def update_conv' Let_def split: option.splits)
qed

lemma update_topic_same [simp]:
  "cl_closed (snd (snd (update_topic topic s))) = cl_closed (snd (snd s))"
  "cl_brokers (snd (snd (update_topic topic s))) = cl_brokers (snd (snd s))"
  by (simp_all add: update_topic_def forget_topic_def store_topic_def Let_def split: prod.split)

lemma cache_ok_topic: "cache_ok (snd (snd s)) \<Longrightarrow> cache_ok (snd (snd (update_topic topic s)))"
proof -
  assume "cache_ok (snd (snd s))"
  then have "cache_ok (forget_topic (tmd_Name topic) (snd (snd s)))" by (rule cache_ok_forget)
  moreover have "tmd_Name topic \<in> set (cl_metadataTopics (forget_topic (tmd_Name topic) (snd (snd s))))"
    by (simp add: forget_topic_def)
  ultimately show ?thesis by (auto simp: update_topic_def Let_def cache_ok_store split: prod.split)
qed

definition client_ok :: "client \<Rightarrow> bool" where
  "client_ok cl \<longleftrightarrow> brokers_ok cl \<and> cache_ok cl"

lemma update_topics_ok:
  "cache_ok (snd (snd s)) \<Longrightarrow> cache_ok (snd (snd (foldl (\<lambda>s topic. update_topic topic s) s topics)))"
  "cl_brokers (snd (snd (foldl (\<lambda>s topic. update_topic topic s) s topics))) = cl_brokers (snd (snd s))"
  by (induction topics arbitrary: s) (simp_all add: cache_ok_topic)

lemma cache_ok_cong:
  "cl_metadata cl' = cl_metadata cl \<Longrightarrow> cl_metadataTopics cl' = cl_metadataTopics cl \<Longrightarrow>
     cl_cachedPartitionsResults cl' = cl_cachedPartitionsResults cl \<Longrightarrow> cache_ok cl' = cache_ok cl"
  by (simp add: cache_ok_def topic_ok_def cong: option.case_cong)

lemma brokers_ok_cong: "cl_brokers cl' = cl_brokers cl \<Longrightarrow> brokers_ok cl' = brokers_ok cl"
  by (simp add: brokers_ok_def)

lemma updateMetadata_ok:
  assumes "client_ok cl"
  shows "client_ok (snd (snd (updateMetadata response allKnown cl)))"
proof -
  obtain bs cl1 where a: "adopt (mdr_Brokers response) cl = (bs, cl1)" by fastforce
  then have c1: "cl1 = cl\<lparr>cl_nextRef := cl_nextRef cl + length (mdr_Brokers response)\<rparr>" by (simp add: adopt_def)
  let ?cl2 = "(updateBroker bs cl1)\<lparr>cl_controllerID := mdr_ControllerID response\<rparr>"
  let ?cl3 = "if allKnown then ?cl2\<lparr>cl_metadata := [], cl_metadataTopics := [], cl_cachedPartitionsResults := []\<rparr> else ?cl2"
  have "brokers_ok cl1" using assms c1 brokers_ok_cong [of cl1 cl] by (simp add: client_ok_def)
  then have "brokers_ok (updateBroker bs cl1)" by (rule updateBroker_ok)
  then have b: "brokers_ok ?cl3" using brokers_ok_cong [of ?cl3 "updateBroker bs cl1"] by auto
  have "cache_ok ?cl2" using assms c1 cache_ok_cong [of ?cl2 cl]
    by (simp add: client_ok_def updateBroker_def remove_unlisted_def)
  then have "cache_ok ?cl3" by (simp add: cache_ok_def topic_ok_def)
  with b show ?thesis using assms update_topics_ok [of "(False, None, ?cl3)" "mdr_Topics response"] a
      brokers_ok_cong [of "snd (snd (foldl (\<lambda>s topic. update_topic topic s) (False, None, ?cl3) (mdr_Topics response)))" ?cl3]
    by (simp add: updateMetadata_def client_ok_def Let_def)
qed

subsection \<open>Refreshes return\<close>

lemma deregisterBroker_ok:
  assumes "client_ok cl" "LeastLoadedBroker load cl = Some b"
  shows "client_ok (deregisterBroker b cl)"
  using assms deregisterBroker_fewer(2) [of cl load b] cache_ok_cong [of "deregisterBroker b cl" cl]
  by (simp add: client_ok_def deregisterBroker_def split: list.splits)

lemma resurrect_ok: "client_ok cl \<Longrightarrow> client_ok (resurrectDeadBrokers cl)"
  using cache_ok_cong [of "resurrectDeadBrokers cl" cl] brokers_ok_cong [of "resurrectDeadBrokers cl" cl]
  by (simp add: client_ok_def resurrectDeadBrokers_def)

definition returns_ok :: "('a \<times> client \<times> 'w) option \<Rightarrow> bool" where
  "returns_ok r = (case r of None \<Rightarrow> False | Some (_, cl, _) \<Rightarrow> client_ok cl)"

lemma returns_ok_Some [simp]: "returns_ok (Some (x, cl, w)) = client_ok cl"
  by (simp add: returns_ok_def)

text \<open>
  A round asks every known broker at most once: the loop over the brokers ends, whatever they answer.
\<close>

lemma metadata_rounds_returns: "client_ok cl \<Longrightarrow> returns_ok (metadata_rounds conf env topics cl w es)"
proof (induction "known_brokers cl" arbitrary: cl w es rule: less_induct)
  case less
  have again: "returns_ok (metadata_rounds conf env topics (deregisterBroker b cl) w' es')"
    if "LeastLoadedBroker load cl = Some b" for load b w' es'
    using less.hyps deregisterBroker_fewer(1) [OF _ that] deregisterBroker_ok [OF less.prems that] less.prems
    by (simp add: client_ok_def)
  have "client_ok cl'" if "updateMetadata response allKnown cl = (retry, err, cl')" for response allKnown retry err cl'
    using updateMetadata_ok [OF less.prems, of response allKnown] that by simp
  then show ?case
    using again less.prems by (subst metadata_rounds.simps) (auto split: option.split prod.split res.split)
qed

lemma after_round_ok:
  assumes "returns_ok r" "\<And>f cl w. again = Some f \<Longrightarrow> client_ok cl \<Longrightarrow> returns_ok (f cl w)"
  shows "returns_ok (Option.bind r (after_round env again))"
proof -
  have retry: "returns_ok (retry_refresh env again err cl w)" if "client_ok cl" for err cl w
    using that assms(2) by (auto simp: retry_refresh_def split: option.split prod.split)
  obtain outcome cl w where r: "r = Some (outcome, cl, w)" "client_ok cl"
    using assms(1) by (auto simp: returns_ok_def split: option.splits)
  then show ?thesis using retry resurrect_ok by (simp add: after_round_def split: round_end.split)
qed

lemma tryRefreshMetadata_returns: "client_ok cl \<Longrightarrow> returns_ok (tryRefreshMetadata conf env topics attempts cl w)"
  by (induction attempts arbitrary: cl w) (auto intro!: after_round_ok metadata_rounds_returns)

theorem RefreshMetadata_returns: "client_ok cl \<Longrightarrow> returns_ok (RefreshMetadata conf env topics cl w)"
  by (simp add: RefreshMetadata_def tryRefreshMetadata_returns)

lemma refreshed_ok: "returns_ok r \<Longrightarrow> returns_ok (refreshed r f)"
  by (auto simp: refreshed_def returns_ok_def split: option.splits)

lemma LeaderAndEpoch_returns: "client_ok cl \<Longrightarrow> returns_ok (LeaderAndEpoch conf env topic prt cl w)"
  by (simp add: LeaderAndEpoch_def refreshed_ok RefreshMetadata_returns split: res.split)

lemma coordinator_rounds_returns: "client_ok cl \<Longrightarrow> returns_ok (coordinator_rounds conf env key type cl w es)"
proof (induction "known_brokers cl" arbitrary: cl w es rule: less_induct)
  case less
  have again: "returns_ok (coordinator_rounds conf env key type (deregisterBroker b cl) w' es')"
    if "LeastLoadedBroker load cl = Some b" for load b w' es'
    using less.hyps deregisterBroker_fewer(1) [OF _ that] deregisterBroker_ok [OF less.prems that] less.prems
    by (simp add: client_ok_def)
  show ?case
    using again less.prems by (subst coordinator_rounds.simps) (auto split: option.split prod.split res.split)
qed

lemma look_for_leader_ok: "client_ok (fst s) \<Longrightarrow> \<exists>cl w. look_for_leader conf env topic s = Some (cl, w) \<and> client_ok cl"
  using LeaderAndEpoch_returns [of "fst s" conf env topic 0 "snd s"]
  by (auto simp: look_for_leader_def returns_ok_def split: option.splits)

lemma after_search_ok:
  assumes "returns_ok r" "\<And>f cl w. again = Some f \<Longrightarrow> client_ok cl \<Longrightarrow> returns_ok (f cl w)"
  shows "returns_ok (Option.bind r (after_search conf env type again))"
proof -
  have retry: "returns_ok (case again of None \<Rightarrow> Some (Err err, cl, w) | Some f \<Rightarrow> f cl w)" if "client_ok cl" for err cl w
    using that assms(2) by (simp split: option.split)
  obtain outcome cl w where r: "r = Some (outcome, cl, w)" "client_ok cl"
    using assms(1) by (auto simp: returns_ok_def split: option.splits)
  obtain cl1 w1 where l1: "look_for_leader conf env ''__consumer_offsets'' (cl, w) = Some (cl1, w1)" "client_ok cl1"
    using look_for_leader_ok [of "(cl, w)" conf env "''__consumer_offsets''"] r(2) by auto
  obtain cl2 w2 where l2: "look_for_leader conf env ''__transaction_state'' (cl1, w1) = Some (cl2, w2)" "client_ok cl2"
    using look_for_leader_ok [of "(cl1, w1)" conf env "''__transaction_state''"] l1(2) by auto
  show ?thesis using r l1 l2 retry resurrect_ok by (simp add: after_search_def split: find_end.split)
qed

lemma findCoordinator_returns: "client_ok cl \<Longrightarrow> returns_ok (findCoordinator conf env key type attempts cl w)"
  by (induction attempts arbitrary: cl w) (auto intro!: after_search_ok coordinator_rounds_returns)

lemma new_client_ok: "client_ok (randomizeSeedBrokers addrs new_client)"
  by (simp add: client_ok_def brokers_ok_def cache_ok_def topic_ok_def randomizeSeedBrokers_def new_client_def)

subsection \<open>What the cache tells\<close>

text \<open>The cached lists name the partitions of the metadata, in order and each once; the writable ones are those with a leader.\<close>

theorem cachedPartitions_exact:
  assumes "client_ok cl" "cachedPartitions cl topic t = Some ids"
  shows "sorted (map sint ids) \<and> distinct ids \<and>
    (\<forall>prt. prt \<in> set ids \<longleftrightarrow> (\<exists>p. cachedMetadata cl topic prt = Some p \<and>
       (t = writablePartitions \<longrightarrow> pmd_Err p \<noteq> ErrLeaderNotAvailable)))"
proof -
  obtain ps where m: "map_of (cl_metadata cl) topic = Some ps" and ok: "partitions_ok ps" and i: "ids = partition_ids t ps"
    using assms by (cases t) (auto simp: client_ok_def cache_ok_def topic_ok_def cachedPartitions_def split: option.splits dest!: spec [of _ topic])
  let ?keep = "\<lambda>p. \<not> (t = writablePartitions \<and> pmd_Err p = ErrLeaderNotAvailable)"
  have "map pmd_ID (map snd ps) = map fst ps" using ok by (auto simp: partitions_ok_def)
  then have "distinct (map pmd_ID (map snd ps))" using ok unfolding partitions_ok_def by metis
  then have d: "distinct ids" unfolding i partition_ids_def by (simp add: distinct_map_filter)
  have "prt \<in> set ids \<longleftrightarrow> (\<exists>p. map_of ps prt = Some p \<and> ?keep p)" for prt
    using ok unfolding i partition_ids_def partitions_ok_def by (force simp: image_iff)
  with d show ?thesis unfolding i partition_ids_def by (simp add: cachedMetadata_def get_block_def m)
qed

theorem cachedLeader_registered:
  assumes "client_ok cl" "cachedLeader cl topic prt = Ok (b, epoch)"
  shows "\<exists>p. cachedMetadata cl topic prt = Some p \<and> cb_id b = pmd_Leader p \<and> epoch = pmd_LeaderEpoch p \<and> b \<in> snd ` set (cl_brokers cl)"
  using assms by (force simp: cachedLeader_def client_ok_def brokers_ok_def split: option.splits if_splits dest!: map_of_SomeD)

subsection \<open>What an update stores\<close>

definition stores_topic :: "TopicMetadata \<Rightarrow> bool" where
  "stores_topic topic \<longleftrightarrow> tmd_Err topic = ErrNoError \<or> tmd_Err topic = ErrLeaderNotAvailable"

definition retries_topic :: "TopicMetadata \<Rightarrow> bool" where
  "retries_topic topic \<longleftrightarrow> tmd_Err topic = ErrLeaderNotAvailable \<or> tmd_Err topic = ErrUnknownTopicOrPartition \<or>
     (tmd_Err topic = ErrNoError \<and> (\<exists>p\<in>set (tmd_Partitions topic). pmd_Err p = ErrLeaderNotAvailable))"

lemma update_topic_retry: "fst (update_topic topic s) \<longleftrightarrow> fst s \<or> retries_topic topic"
  by (auto simp: update_topic_def retries_topic_def Let_def list_ex_iff split: prod.split)

lemma update_topics_retry:
  "fst (foldl (\<lambda>s topic. update_topic topic s) s topics) \<longleftrightarrow> fst s \<or> (\<exists>topic\<in>set topics. retries_topic topic)"
  by (induction topics arbitrary: s) (auto simp: update_topic_retry)

text \<open>Another request is wanted exactly if a topic is not known yet or some partition has no leader.\<close>

lemma updateMetadata_retry:
  "\<not> cl_closed cl \<Longrightarrow> fst (updateMetadata response allKnown cl) \<longleftrightarrow> (\<exists>topic\<in>set (mdr_Topics response). retries_topic topic)"
  by (simp add: updateMetadata_def Let_def update_topics_retry split: prod.split)

lemma update_topic_metadata:
  "map_of (cl_metadata (snd (snd (update_topic topic s)))) name =
     (if name = tmd_Name topic then if stores_topic topic then Some (partition_map (tmd_Partitions topic)) else None
      else map_of (cl_metadata (snd (snd s))) name)"
  by (simp add: update_topic_def stores_topic_def forget_topic_def store_topic_def update_conv' delete_conv' Let_def split: prod.split)

lemma update_topics_metadata:
  "distinct (map tmd_Name topics) \<Longrightarrow>
   map_of (cl_metadata (snd (snd (foldl (\<lambda>s topic. update_topic topic s) s topics)))) name =
     (case map_of (map (\<lambda>topic. (tmd_Name topic, topic)) topics) name of
        Some topic \<Rightarrow> if stores_topic topic then Some (partition_map (tmd_Partitions topic)) else None
      | None \<Rightarrow> map_of (cl_metadata (snd (snd s))) name)"
proof (induction topics arbitrary: s)
  case (Cons topic topics)
  have "map_of (map (\<lambda>topic. (tmd_Name topic, topic)) topics) (tmd_Name topic) = None"
    using Cons.prems by (force simp: map_of_eq_None_iff)
  with Cons show ?case by (auto simp: update_topic_metadata split: option.split)
qed simp

lemma partition_map_find:
  "distinct (map pmd_ID ps) \<Longrightarrow> p \<in> set ps \<Longrightarrow> map_of (partition_map ps) (pmd_ID p) = Some p"
proof (induction ps rule: rev_induct)
  case (snoc q ps)
  have "partition_map (ps @ [q]) = AList.update (pmd_ID q) q (partition_map ps)" by (simp add: partition_map_def)
  moreover have "p = q \<or> (p \<in> set ps \<and> pmd_ID p \<noteq> pmd_ID q)" using snoc.prems by (cases "p = q") (auto dest: image_eqI)
  ultimately show ?case using snoc by (auto simp: update_conv')
qed simp

text \<open>After an update every partition of the response with a leader among its brokers is led by that broker.\<close>

theorem updateMetadata_leader:
  assumes cl: "\<not> cl_closed cl" and bs: "distinct (map br_id (mdr_Brokers response))" "broker \<in> set (mdr_Brokers response)"
    and ts: "distinct (map tmd_Name (mdr_Topics response))" "topic \<in> set (mdr_Topics response)" "tmd_Err topic = ErrNoError"
    and ps: "distinct (map pmd_ID (tmd_Partitions topic))" "p \<in> set (tmd_Partitions topic)" "pmd_Err p \<noteq> ErrLeaderNotAvailable"
    and l: "pmd_Leader p = br_id broker"
  shows "\<exists>b. cachedLeader (snd (snd (updateMetadata response allKnown cl))) (tmd_Name topic) (pmd_ID p) = Ok (b, pmd_LeaderEpoch p) \<and>
    cb_addr b = br_addr broker"
proof -
  obtain refs cl1 where a: "adopt (mdr_Brokers response) cl = (refs, cl1)" by fastforce
  have c1: "cl1 = cl\<lparr>cl_nextRef := cl_nextRef cl + length (mdr_Brokers response)\<rparr>" using a by (simp add: adopt_def)
  have ids: "map cb_id refs = map br_id (mdr_Brokers response)" "map cb_addr refs = map br_addr (mdr_Brokers response)"
    using a by (auto simp: adopt_def o_def case_prod_beta intro!: nth_equalityI)
  obtain i where i: "i < length (mdr_Brokers response)" "mdr_Brokers response ! i = broker" using bs(2) by (metis in_set_conv_nth)
  have li: "i < length refs" using ids(1) i(1) by (metis length_map)
  have r: "cb_id (refs ! i) = br_id broker" "cb_addr (refs ! i) = br_addr broker"
    using arg_cong [OF ids(1), of "\<lambda>xs. xs ! i"] arg_cong [OF ids(2), of "\<lambda>xs. xs ! i"] i li by simp_all
  have d: "distinct (map cb_id refs)" using ids(1) bs(1) by simp
  have "(cb_id (refs ! i), refs ! i) \<in> set (map (\<lambda>b. (cb_id b, b)) refs)" using li by force
  then have "map_of (map (\<lambda>b. (cb_id b, b)) refs) (br_id broker) = Some (refs ! i)"
    using d r(1) by (simp add: map_of_is_SomeI o_def)
  then obtain b where b: "map_of (cl_brokers (updateBroker refs cl1)) (pmd_Leader p) = Some b" "cb_addr b = br_addr broker"
    using updateBroker_exact [of cl1 refs "pmd_Leader p"] cl c1 d l r(2) by (auto split: option.splits)
  have "(tmd_Name topic, topic) \<in> set (map (\<lambda>topic. (tmd_Name topic, topic)) (mdr_Topics response))" using ts(2) by force
  then have t: "map_of (map (\<lambda>topic. (tmd_Name topic, topic)) (mdr_Topics response)) (tmd_Name topic) = Some topic"
    using ts(1) by (simp add: map_of_is_SomeI o_def)
  show ?thesis
    using b t cl a ts(3) ps(3) partition_map_find [OF ps(1,2)]
    by (simp add: updateMetadata_def Let_def cachedLeader_def cachedMetadata_def get_block_def update_topics_ok(2)
        update_topics_metadata [OF ts(1)] stores_topic_def)
qed

text \<open>The brokers known after an update are those of the response.\<close>

lemma updateMetadata_brokers:
  assumes cl: "\<not> cl_closed cl" and bs: "distinct (map br_id (mdr_Brokers response))"
  shows "map_of (cl_brokers (snd (snd (updateMetadata response allKnown cl)))) i \<noteq> None \<longleftrightarrow> i \<in> br_id ` set (mdr_Brokers response)"
proof -
  obtain refs cl1 where a: "adopt (mdr_Brokers response) cl = (refs, cl1)" by fastforce
  have c1: "\<not> cl_closed cl1" using a cl by (auto simp: adopt_def)
  have ids: "map cb_id refs = map br_id (mdr_Brokers response)"
    using a by (auto simp: adopt_def o_def case_prod_beta intro!: nth_equalityI)
  have "map_of (map (\<lambda>b. (cb_id b, b)) refs) i = None \<longleftrightarrow> i \<notin> set (map cb_id refs)" by (force simp: map_of_eq_None_iff)
  then have "map_of (cl_brokers (updateBroker refs cl1)) i \<noteq> None \<longleftrightarrow> i \<in> set (map cb_id refs)"
    using updateBroker_exact [OF c1, of refs i] ids bs by (auto split: option.splits)
  then show ?thesis using a cl ids by (simp add: updateMetadata_def Let_def update_topics_ok(2))
qed

end
