(* ===== verification/Config_Validate.thy ===== *)
theory Config_Validate
  imports Net_Address Produce_Messages Offset_Messages
begin

text \<open>
  The configuration (\<open>config.go\<close>): the fields that \<open>Validate\<close> looks at, the defaults of \<open>NewConfig\<close>, and
  \<open>Validate\<close> itself, which returns the configuration (it fills in the SASL mechanism) and an error for the
  first value that makes no sense. Log lines are left out. Parameters are the error that the gzip package
  gives for a compression level and the quoting of a string in an error text.

  Durations are in nanoseconds.
\<close>

subsection \<open>The configuration\<close>

record GSSAPIConfig =
  gss_AuthType :: int
  gss_KeyTabPath :: string
  gss_CCachePath :: string
  gss_KerberosConfigPath :: string
  gss_ServiceName :: string
  gss_Username :: string
  gss_Password :: string
  gss_Realm :: string

record SASLConfig =
  sasl_Enable :: bool
  sasl_Mechanism :: string
  sasl_User :: string
  sasl_Password :: string
  sasl_hasTokenProvider :: bool
  sasl_hasSCRAMClientGeneratorFunc :: bool
  sasl_GSSAPI :: GSSAPIConfig

record NetConfig =
  net_MaxOpenRequests :: int
  net_DialTimeout :: int
  net_ReadTimeout :: int
  net_WriteTimeout :: int
  net_SASL :: SASLConfig

record MetadataConfig =
  meta_Retry_Max :: int
  meta_Retry_Backoff :: int
  meta_RefreshFrequency :: int

record ProducerConfig =
  prod_MaxMessageBytes :: int
  prod_RequiredAcks :: RequiredAcks
  prod_Timeout :: int
  prod_Compression :: CompressionCodec
  prod_CompressionLevel :: int
  prod_hasPartitioner :: bool
  prod_Idempotent :: bool
  prod_Transaction_ID :: string
  prod_Transaction_Retry_Max :: int
  prod_Flush_Bytes :: int
  prod_Flush_Messages :: int
  prod_Flush_Frequency :: int
  prod_Flush_MaxMessages :: int
  prod_Retry_Max :: int
  prod_Retry_Backoff :: int

record GroupConfig =
  grp_Session_Timeout :: int
  grp_Heartbeat_Interval :: int
  grp_hasRebalance_Strategy :: bool
  grp_Rebalance_GroupStrategies :: "bool list"
  grp_Rebalance_Timeout :: int
  grp_Rebalance_Retry_Max :: int
  grp_Rebalance_Retry_Backoff :: int
  grp_InstanceId :: string

record ConsumerConfig =
  cons_Group :: GroupConfig
  cons_Retry_Backoff :: int
  cons_Fetch_Min :: int
  cons_Fetch_Default :: int
  cons_Fetch_Max :: int
  cons_MaxWaitTime :: int
  cons_MaxProcessingTime :: int
  cons_Offsets_AutoCommit_Interval :: int
  cons_Offsets_Initial :: int
  cons_Offsets_Retry_Max :: int
  cons_IsolationLevel :: int8

record Config =
  cfg_Admin_Timeout :: int
  cfg_Net :: NetConfig
  cfg_Metadata :: MetadataConfig
  cfg_Producer :: ProducerConfig
  cfg_Consumer :: ConsumerConfig
  cfg_ClientID :: string
  cfg_ChannelBufferSize :: int
  cfg_Version :: KafkaVersion

abbreviation (input) millisecond :: int where "millisecond \<equiv> 1000000"
abbreviation (input) second :: int where "second \<equiv> 1000000000"
abbreviation (input) OffsetNewest :: int where "OffsetNewest \<equiv> - 1"
abbreviation (input) OffsetOldest :: int where "OffsetOldest \<equiv> - 2"
abbreviation (input) KRB5_USER_AUTH :: int where "KRB5_USER_AUTH \<equiv> 1"
abbreviation (input) KRB5_KEYTAB_AUTH :: int where "KRB5_KEYTAB_AUTH \<equiv> 2"
abbreviation (input) KRB5_CCACHE_AUTH :: int where "KRB5_CCACHE_AUTH \<equiv> 3"
abbreviation (input) SASLTypeOAuth :: string where "SASLTypeOAuth \<equiv> ''OAUTHBEARER''"
abbreviation (input) SASLTypePlaintext :: string where "SASLTypePlaintext \<equiv> ''PLAIN''"
abbreviation (input) SASLTypeSCRAMSHA256 :: string where "SASLTypeSCRAMSHA256 \<equiv> ''SCRAM-SHA-256''"
abbreviation (input) SASLTypeSCRAMSHA512 :: string where "SASLTypeSCRAMSHA512 \<equiv> ''SCRAM-SHA-512''"
abbreviation (input) SASLTypeGSSAPI :: string where "SASLTypeGSSAPI \<equiv> ''GSSAPI''"

definition NewConfig :: Config where
  "NewConfig =
     \<lparr>cfg_Admin_Timeout = 3 * second,
      cfg_Net = \<lparr>net_MaxOpenRequests = 5, net_DialTimeout = 30 * second, net_ReadTimeout = 30 * second,
        net_WriteTimeout = 30 * second,
        net_SASL = \<lparr>sasl_Enable = False, sasl_Mechanism = '''', sasl_User = '''', sasl_Password = '''',
          sasl_hasTokenProvider = False, sasl_hasSCRAMClientGeneratorFunc = False,
          sasl_GSSAPI = \<lparr>gss_AuthType = 0, gss_KeyTabPath = '''', gss_CCachePath = '''', gss_KerberosConfigPath = '''',
            gss_ServiceName = '''', gss_Username = '''', gss_Password = '''', gss_Realm = ''''\<rparr>\<rparr>\<rparr>,
      cfg_Metadata = \<lparr>meta_Retry_Max = 3, meta_Retry_Backoff = 250 * millisecond, meta_RefreshFrequency = 600 * second\<rparr>,
      cfg_Producer = \<lparr>prod_MaxMessageBytes = 1000000, prod_RequiredAcks = WaitForLocal, prod_Timeout = 10 * second,
        prod_Compression = CompressionNone, prod_CompressionLevel = CompressionLevelDefault, prod_hasPartitioner = True,
        prod_Idempotent = False, prod_Transaction_ID = '''', prod_Transaction_Retry_Max = 50,
        prod_Flush_Bytes = 0, prod_Flush_Messages = 0, prod_Flush_Frequency = 0, prod_Flush_MaxMessages = 0,
        prod_Retry_Max = 3, prod_Retry_Backoff = 100 * millisecond\<rparr>,
      cfg_Consumer = \<lparr>cons_Group = \<lparr>grp_Session_Timeout = 10 * second, grp_Heartbeat_Interval = 3 * second,
          grp_hasRebalance_Strategy = False, grp_Rebalance_GroupStrategies = [True], grp_Rebalance_Timeout = 60 * second,
          grp_Rebalance_Retry_Max = 4, grp_Rebalance_Retry_Backoff = 2 * second, grp_InstanceId = ''''\<rparr>,
        cons_Retry_Backoff = 2 * second, cons_Fetch_Min = 1, cons_Fetch_Default = 1024 * 1024, cons_Fetch_Max = 0,
        cons_MaxWaitTime = 500 * millisecond, cons_MaxProcessingTime = 100 * millisecond,
        cons_Offsets_AutoCommit_Interval = second, cons_Offsets_Initial = OffsetNewest, cons_Offsets_Retry_Max = 3,
        cons_IsolationLevel = ReadUncommitted\<rparr>,
      cfg_ClientID = ''sarama'', cfg_ChannelBufferSize = 256, cfg_Version = DefaultVersion\<rparr>"

subsection \<open>Validation\<close>

text \<open>A check is a condition for a complaint; the first one that holds decides.\<close>

primrec first_error :: "(bool \<times> string) list \<Rightarrow> go_error option" where
  "first_error [] = None"
| "first_error (check # checks) = (if fst check then Some (ConfigurationError (snd check)) else first_error checks)"

definition or_error :: "go_error option \<Rightarrow> go_error option \<Rightarrow> go_error option" where
  "or_error a b = (case a of Some e \<Rightarrow> Some e | None \<Rightarrow> b)"

definition defaultMechanism :: "SASLConfig \<Rightarrow> SASLConfig" where
  "defaultMechanism s = (if sasl_Enable s \<and> sasl_Mechanism s = '''' then s\<lparr>sasl_Mechanism := SASLTypePlaintext\<rparr> else s)"

definition validate_gssapi :: "GSSAPIConfig \<Rightarrow> go_error option" where
  "validate_gssapi g =
     or_error (first_error
       [(gss_ServiceName g = '''', ''Net.SASL.GSSAPI.ServiceName must not be empty when GSS-API mechanism is used'')])
     (or_error
       (if gss_AuthType g = KRB5_USER_AUTH then first_error
          [(gss_Password g = '''', ''Net.SASL.GSSAPI.Password must not be empty when GSS-API mechanism is used and Net.SASL.GSSAPI.AuthType = KRB5_USER_AUTH'')]
        else if gss_AuthType g = KRB5_KEYTAB_AUTH then first_error
          [(gss_KeyTabPath g = '''', ''Net.SASL.GSSAPI.KeyTabPath must not be empty when GSS-API mechanism is used and Net.SASL.GSSAPI.AuthType = KRB5_KEYTAB_AUTH'')]
        else if gss_AuthType g = KRB5_CCACHE_AUTH then first_error
          [(gss_CCachePath g = '''', ''Net.SASL.GSSAPI.CCachePath must not be empty when GSS-API mechanism is used and Net.SASL.GSSAPI.AuthType = KRB5_CCACHE_AUTH'')]
        else Some (ConfigurationError ''Net.SASL.GSSAPI.AuthType is invalid. Possible values are KRB5_USER_AUTH, KRB5_KEYTAB_AUTH, and KRB5_CCACHE_AUTH''))
     (first_error
       [(gss_KerberosConfigPath g = '''', ''Net.SASL.GSSAPI.KerberosConfigPath must not be empty when GSS-API mechanism is used''),
        (gss_Username g = '''', ''Net.SASL.GSSAPI.Username must not be empty when GSS-API mechanism is used''),
        (gss_Realm g = '''', ''Net.SASL.GSSAPI.Realm must not be empty when GSS-API mechanism is used'')]))"

definition validate_sasl :: "SASLConfig \<Rightarrow> go_error option" where
  "validate_sasl s =
     (if sasl_Mechanism s = SASLTypePlaintext then first_error
        [(sasl_User s = '''', ''Net.SASL.User must not be empty when SASL is enabled''),
         (sasl_Password s = '''', ''Net.SASL.Password must not be empty when SASL is enabled'')]
      else if sasl_Mechanism s = SASLTypeOAuth then first_error
        [(\<not> sasl_hasTokenProvider s, ''An AccessTokenProvider instance must be provided to Net.SASL.TokenProvider'')]
      else if sasl_Mechanism s = SASLTypeSCRAMSHA256 \<or> sasl_Mechanism s = SASLTypeSCRAMSHA512 then first_error
        [(sasl_User s = '''', ''Net.SASL.User must not be empty when SASL is enabled''),
         (sasl_Password s = '''', ''Net.SASL.Password must not be empty when SASL is enabled''),
         (\<not> sasl_hasSCRAMClientGeneratorFunc s, ''A SCRAMClientGeneratorFunc function must be provided to Net.SASL.SCRAMClientGeneratorFunc'')]
      else if sasl_Mechanism s = SASLTypeGSSAPI then validate_gssapi (sasl_GSSAPI s)
      else Some (ConfigurationError (''The SASL mechanism configuration is invalid. Possible values are `'' @ SASLTypeOAuth @ ''`, `'' @
        SASLTypePlaintext @ ''`, `'' @ SASLTypeSCRAMSHA256 @ ''`, `'' @ SASLTypeSCRAMSHA512 @ ''` and `'' @ SASLTypeGSSAPI @ ''`'')))"

definition validate_net :: "NetConfig \<Rightarrow> go_error option" where
  "validate_net n =
     or_error (first_error
       [(net_MaxOpenRequests n \<le> 0, ''Net.MaxOpenRequests must be > 0''),
        (net_DialTimeout n \<le> 0, ''Net.DialTimeout must be > 0''),
        (net_ReadTimeout n \<le> 0, ''Net.ReadTimeout must be > 0''),
        (net_WriteTimeout n \<le> 0, ''Net.WriteTimeout must be > 0'')])
     (if sasl_Enable (net_SASL n) then validate_sasl (net_SASL n) else None)"

definition validate_metadata :: "MetadataConfig \<Rightarrow> go_error option" where
  "validate_metadata m = first_error
     [(meta_Retry_Max m < 0, ''Metadata.Retry.Max must be >= 0''),
      (meta_Retry_Backoff m < 0, ''Metadata.Retry.Backoff must be >= 0''),
      (meta_RefreshFrequency m < 0, ''Metadata.RefreshFrequency must be >= 0'')]"

definition validate_idempotent :: "KafkaVersion \<Rightarrow> int \<Rightarrow> ProducerConfig \<Rightarrow> go_error option" where
  "validate_idempotent version maxOpenRequests p =
     (if prod_Idempotent p then first_error
        [(\<not> IsAtLeast version V0_11_0_0, ''Idempotent producer requires Version >= V0_11_0_0''),
         (prod_Retry_Max p = 0, ''Idempotent producer requires Producer.Retry.Max >= 1''),
         (prod_RequiredAcks p \<noteq> WaitForAll, ''Idempotent producer requires Producer.RequiredAcks to be WaitForAll''),
         (maxOpenRequests > 1, ''Idempotent producer requires Net.MaxOpenRequests to be 1'')]
      else None)"

definition validate_producer :: "(int \<Rightarrow> string option) \<Rightarrow> KafkaVersion \<Rightarrow> int \<Rightarrow> ProducerConfig \<Rightarrow> go_error option" where
  "validate_producer gzip_error version maxOpenRequests p =
     or_error (first_error
       [(prod_MaxMessageBytes p \<le> 0, ''Producer.MaxMessageBytes must be > 0''),
        (sint (prod_RequiredAcks p) < - 1, ''Producer.RequiredAcks must be >= -1''),
        (prod_Timeout p \<le> 0, ''Producer.Timeout must be > 0''),
        (\<not> prod_hasPartitioner p, ''Producer.Partitioner must not be nil''),
        (prod_Flush_Bytes p < 0, ''Producer.Flush.Bytes must be >= 0''),
        (prod_Flush_Messages p < 0, ''Producer.Flush.Messages must be >= 0''),
        (prod_Flush_Frequency p < 0, ''Producer.Flush.Frequency must be >= 0''),
        (prod_Flush_MaxMessages p < 0, ''Producer.Flush.MaxMessages must be >= 0''),
        (prod_Flush_MaxMessages p > 0 \<and> prod_Flush_MaxMessages p < prod_Flush_Messages p,
           ''Producer.Flush.MaxMessages must be >= Producer.Flush.Messages when set''),
        (prod_Retry_Max p < 0, ''Producer.Retry.Max must be >= 0''),
        (prod_Retry_Backoff p < 0, ''Producer.Retry.Backoff must be >= 0''),
        (prod_Compression p = CompressionLZ4 \<and> \<not> IsAtLeast version V0_10_0_0, ''lz4 compression requires Version >= V0_10_0_0'')])
     (or_error
       (if prod_Compression p = CompressionGZIP \<and> prod_CompressionLevel p \<noteq> CompressionLevelDefault then
          (case gzip_error (prod_CompressionLevel p) of
             None \<Rightarrow> None
           | Some text \<Rightarrow> Some (ConfigurationError (''gzip compression does not work with level '' @
               show_int (prod_CompressionLevel p) @ '': '' @ text)))
        else None)
     (or_error (first_error
       [(prod_Compression p = CompressionZSTD \<and> \<not> IsAtLeast version V2_1_0_0, ''zstd compression requires Version >= V2_1_0_0'')])
     (or_error (validate_idempotent version maxOpenRequests p)
     (first_error
       [(prod_Transaction_ID p \<noteq> '''' \<and> \<not> prod_Idempotent p, ''Transactional producer requires Idempotent to be true'')]))))"

definition validate_consumer :: "KafkaVersion \<Rightarrow> ConsumerConfig \<Rightarrow> go_error option" where
  "validate_consumer version c = first_error
     [(cons_Fetch_Min c \<le> 0, ''Consumer.Fetch.Min must be > 0''),
      (cons_Fetch_Default c \<le> 0, ''Consumer.Fetch.Default must be > 0''),
      (cons_Fetch_Max c < 0, ''Consumer.Fetch.Max must be >= 0''),
      (cons_MaxWaitTime c < millisecond, ''Consumer.MaxWaitTime must be >= 1ms''),
      (cons_MaxProcessingTime c \<le> 0, ''Consumer.MaxProcessingTime must be > 0''),
      (cons_Retry_Backoff c < 0, ''Consumer.Retry.Backoff must be >= 0''),
      (cons_Offsets_AutoCommit_Interval c \<le> 0, ''Consumer.Offsets.AutoCommit.Interval must be > 0''),
      (cons_Offsets_Initial c \<noteq> OffsetOldest \<and> cons_Offsets_Initial c \<noteq> OffsetNewest,
         ''Consumer.Offsets.Initial must be OffsetOldest or OffsetNewest''),
      (cons_Offsets_Retry_Max c < 0, ''Consumer.Offsets.Retry.Max must be >= 0''),
      (cons_IsolationLevel c \<noteq> ReadUncommitted \<and> cons_IsolationLevel c \<noteq> ReadCommitted,
         ''Consumer.IsolationLevel must be ReadUncommitted or ReadCommitted''),
      (cons_IsolationLevel c = ReadCommitted \<and> \<not> IsAtLeast version V0_11_0_0, ''ReadCommitted requires Version >= V0_11_0_0'')]"

definition plain_id_char :: "char \<Rightarrow> bool" where
  "plain_id_char c \<longleftrightarrow> (CHR ''0'' \<le> c \<and> c \<le> CHR ''9'') \<or> (CHR ''a'' \<le> c \<and> c \<le> CHR ''z'') \<or> (CHR ''A'' \<le> c \<and> c \<le> CHR ''Z'') \<or>
     c \<in> {CHR ''.'', CHR ''_'', CHR ''-''}"

definition MAX_GROUP_INSTANCE_ID_LENGTH :: nat where
  "MAX_GROUP_INSTANCE_ID_LENGTH = 249"

definition validateGroupInstanceId :: "string \<Rightarrow> go_error option" where
  "validateGroupInstanceId iid = first_error
     [(iid = '''', ''Group instance id must be non-empty string''),
      (iid = ''.'' \<or> iid = ''..'', ''Group instance id cannot be \"'' @ ''.\" or \"..\"''),
      (length iid > MAX_GROUP_INSTANCE_ID_LENGTH, ''Group instance id cannot be longer than '' @
         show_nat MAX_GROUP_INSTANCE_ID_LENGTH @ '', characters: '' @ iid),
      (\<not> (iid \<noteq> '''' \<and> list_all plain_id_char iid), ''Group instance id '' @ iid @
         '' is illegal, it contains a character other than, '' @ [CHR 0x27] @ ''.'' @ [CHR 0x27] @ '', '' @ [CHR 0x27] @ ''_'' @ [CHR 0x27] @
         '' and '' @ [CHR 0x27] @ ''-'' @ [CHR 0x27])]"

definition validate_group :: "KafkaVersion \<Rightarrow> GroupConfig \<Rightarrow> go_error option" where
  "validate_group version g =
     or_error (first_error
       [(grp_Session_Timeout g \<le> 2 * millisecond, ''Consumer.Group.Session.Timeout must be >= 2ms''),
        (grp_Heartbeat_Interval g < millisecond, ''Consumer.Group.Heartbeat.Interval must be >= 1ms''),
        (grp_Heartbeat_Interval g \<ge> grp_Session_Timeout g,
           ''Consumer.Group.Heartbeat.Interval must be < Consumer.Group.Session.Timeout''),
        (\<not> grp_hasRebalance_Strategy g \<and> grp_Rebalance_GroupStrategies g = [],
           ''Consumer.Group.Rebalance.GroupStrategies or Consumer.Group.Rebalance.Strategy must not be empty''),
        (grp_Rebalance_Timeout g \<le> millisecond, ''Consumer.Group.Rebalance.Timeout must be >= 1ms''),
        (grp_Rebalance_Retry_Max g < 0, ''Consumer.Group.Rebalance.Retry.Max must be >= 0''),
        (grp_Rebalance_Retry_Backoff g < 0, ''Consumer.Group.Rebalance.Retry.Backoff must be >= 0''),
        (\<not> list_all (\<lambda>given. given) (grp_Rebalance_GroupStrategies g),
           ''elements in Consumer.Group.Rebalance.Strategies must not be empty'')])
     (if grp_InstanceId g \<noteq> '''' then
        or_error (first_error [(\<not> IsAtLeast version V2_3_0_0, ''Consumer.Group.InstanceId need Version >= 2.3'')])
          (validateGroupInstanceId (grp_InstanceId g))
      else None)"

definition Validate :: "(int \<Rightarrow> string option) \<Rightarrow> (string \<Rightarrow> string) \<Rightarrow> Config \<Rightarrow> Config \<times> go_error option" where
  "Validate gzip_error quote c =
     (let n = (cfg_Net c)\<lparr>net_SASL := defaultMechanism (net_SASL (cfg_Net c))\<rparr>; version = cfg_Version c;
          timely = net_MaxOpenRequests n > 0 \<and> net_DialTimeout n > 0 \<and> net_ReadTimeout n > 0 \<and> net_WriteTimeout n > 0
      in (if timely then c\<lparr>cfg_Net := n\<rparr> else c,
        or_error (validate_net n)
        (or_error (first_error [(cfg_Admin_Timeout c \<le> 0, ''Admin.Timeout must be > 0'')])
        (or_error (validate_metadata (cfg_Metadata c))
        (or_error (validate_producer gzip_error version (net_MaxOpenRequests n) (cfg_Producer c))
        (or_error (validate_consumer version (cfg_Consumer c))
        (or_error (validate_group version (cons_Group (cfg_Consumer c)))
        (first_error
          [(cfg_ChannelBufferSize c < 0, ''ChannelBufferSize must be >= 0''),
           (\<not> IsAtLeast version V1_0_0_0 \<and> \<not> (cfg_ClientID c \<noteq> '''' \<and> list_all plain_id_char (cfg_ClientID c)),
              ''ClientID value '' @ quote (cfg_ClientID c) @ '' is not valid for Kafka versions before 1.0.0'')]))))))))"

lemma first_error_None: "first_error checks = None \<longleftrightarrow> list_all (\<lambda>check. \<not> fst check) checks"
  by (induction checks) simp_all

lemma or_error_None [simp]: "or_error a b = None \<longleftrightarrow> a = None \<and> b = None"
  by (simp add: or_error_def split: option.splits)

lemma or_error_simps [simp]: "or_error None b = b" "or_error (Some e) b = Some e"
  by (simp_all add: or_error_def)

lemmas validate_defs = validate_net_def validate_metadata_def validate_idempotent_def validate_producer_def
  validate_consumer_def validate_group_def

text \<open>The defaults make sense.\<close>

lemma NewConfig_valid: "Validate gzip_error quote NewConfig = (NewConfig, None)"
proof -
  have "IsAtLeast DefaultVersion V1_0_0_0" by code_simp
  then show ?thesis
    by (simp add: Validate_def NewConfig_def Let_def validate_defs defaultMechanism_def)
qed

text \<open>What an accepted configuration promises the producer and the consumer group.\<close>

lemma Validate_sections:
  assumes "Validate gzip_error quote c = (c', None)"
  shows "c' = c\<lparr>cfg_Net := (cfg_Net c)\<lparr>net_SASL := defaultMechanism (net_SASL (cfg_Net c))\<rparr>\<rparr>"
    "validate_net (cfg_Net c') = None"
    "validate_producer gzip_error (cfg_Version c') (net_MaxOpenRequests (cfg_Net c')) (cfg_Producer c') = None"
    "validate_consumer (cfg_Version c') (cfg_Consumer c') = None"
    "validate_group (cfg_Version c') (cons_Group (cfg_Consumer c')) = None"
proof -
  let ?n = "(cfg_Net c)\<lparr>net_SASL := defaultMechanism (net_SASL (cfg_Net c))\<rparr>"
  have v: "validate_net ?n = None"
    "validate_producer gzip_error (cfg_Version c) (net_MaxOpenRequests ?n) (cfg_Producer c) = None"
    "validate_consumer (cfg_Version c) (cfg_Consumer c) = None"
    "validate_group (cfg_Version c) (cons_Group (cfg_Consumer c)) = None"
    using assms unfolding Validate_def Let_def prod.inject or_error_None by - (elim conjE, assumption)+
  from v(1) have "net_MaxOpenRequests ?n > 0 \<and> net_DialTimeout ?n > 0 \<and> net_ReadTimeout ?n > 0 \<and> net_WriteTimeout ?n > 0"
    unfolding validate_net_def or_error_None first_error_None by simp
  then show c': "c' = c\<lparr>cfg_Net := ?n\<rparr>" using assms unfolding Validate_def Let_def prod.inject by (elim conjE) simp
  show "validate_net (cfg_Net c') = None"
    "validate_producer gzip_error (cfg_Version c') (net_MaxOpenRequests (cfg_Net c')) (cfg_Producer c') = None"
    "validate_consumer (cfg_Version c') (cfg_Consumer c') = None"
    "validate_group (cfg_Version c') (cons_Group (cfg_Consumer c')) = None"
    using v by (simp_all add: c')
qed

lemma Validate_idempotent:
  assumes "Validate gzip_error quote c = (c', None)" "prod_Idempotent (cfg_Producer c')"
  shows "net_MaxOpenRequests (cfg_Net c') = 1 \<and> prod_RequiredAcks (cfg_Producer c') = WaitForAll \<and>
    1 \<le> prod_Retry_Max (cfg_Producer c') \<and> IsAtLeast (cfg_Version c') V0_11_0_0"
proof -
  note v = Validate_sections [OF assms(1)]
  have "net_MaxOpenRequests (cfg_Net c') > 0"
    using v(2) unfolding validate_net_def or_error_None first_error_None by simp
  moreover have "0 \<le> prod_Retry_Max (cfg_Producer c')"
    "validate_idempotent (cfg_Version c') (net_MaxOpenRequests (cfg_Net c')) (cfg_Producer c') = None"
    using v(3) unfolding validate_producer_def or_error_None first_error_None by simp_all
  ultimately show ?thesis
    using assms(2) unfolding validate_idempotent_def by (simp add: first_error_None del: first_error.simps)
qed

lemma Validate_transactional:
  assumes "Validate gzip_error quote c = (c', None)" "prod_Transaction_ID (cfg_Producer c') \<noteq> []"
  shows "prod_Idempotent (cfg_Producer c')"
  using Validate_sections(3) [OF assms(1)] assms(2)
  unfolding validate_producer_def or_error_None first_error_None by simp

lemma Validate_group:
  assumes "Validate gzip_error quote c = (c', None)"
  shows "0 < grp_Heartbeat_Interval (cons_Group (cfg_Consumer c')) \<and>
    grp_Heartbeat_Interval (cons_Group (cfg_Consumer c')) < grp_Session_Timeout (cons_Group (cfg_Consumer c')) \<and>
    (cons_IsolationLevel (cfg_Consumer c') = ReadCommitted \<longrightarrow> IsAtLeast (cfg_Version c') V0_11_0_0)"
  using Validate_sections(4,5) [OF assms]
  unfolding validate_group_def validate_consumer_def or_error_None first_error_None by simp

lemma Validate_mechanism:
  assumes "Validate gzip_error quote c = (c', None)" "sasl_Enable (net_SASL (cfg_Net c'))"
  shows "sasl_Mechanism (net_SASL (cfg_Net c')) \<in>
    {SASLTypeOAuth, SASLTypePlaintext, SASLTypeSCRAMSHA256, SASLTypeSCRAMSHA512, SASLTypeGSSAPI}"
proof -
  have "validate_sasl (net_SASL (cfg_Net c')) = None"
    using Validate_sections(2) [OF assms(1)] assms(2) unfolding validate_net_def or_error_None by simp
  then show ?thesis unfolding validate_sasl_def by (metis insert_iff option.distinct(1))
qed

text \<open>The maximum of retries of a transaction is not looked at.\<close>

lemma validate_producer_ignores:
  "validate_producer gzip_error version n (p\<lparr>prod_Transaction_Retry_Max := k\<rparr>) = validate_producer gzip_error version n p"
  by (cases p) (simp only: validate_producer_def validate_idempotent_def ProducerConfig.simps)

lemma Validate_ignores_transaction_retries:
  "snd (Validate gzip_error quote (c\<lparr>cfg_Producer := (cfg_Producer c)\<lparr>prod_Transaction_Retry_Max := k\<rparr>\<rparr>)) =
   snd (Validate gzip_error quote c)"
  by (cases c) (simp only: Validate_def Let_def snd_conv Config.simps validate_producer_ignores)

text \<open>The least session timeout and the least rebalance timeout that the error texts allow are refused.\<close>

lemma validate_group_boundaries:
  "grp_Session_Timeout g = 2 * millisecond \<Longrightarrow> validate_group version g \<noteq> None"
  "grp_Rebalance_Timeout g = millisecond \<Longrightarrow> validate_group version g \<noteq> None"
  unfolding validate_group_def or_error_None first_error_None by simp_all

end
