(* ===== verification/Examples.thy ===== *)
theory Examples
  imports Txn_Safety Group_Messages Offset_Messages Metadata_Messages Fetch_Messages Produce_Set Partitioners
    Acl_Messages Admin_Messages Auth_Messages Broker_Exchange Balance_Range Balance_RoundRobin
    Consumer_Log Offset_Manager Client_Metadata Config_Validate
begin

text \<open>
  Concrete values at which the properties of the development are applied: messages of every kind that
  are well formed, batches of records, a transaction in progress and the coordinators that answer it, a log with an aborted
  transaction, an offset manager with a coordinator, the metadata of a cluster, and a configuration.
\<close>

unbundle bit_operations_syntax

subsection \<open>Records and produce messages\<close>

definition ex_record :: Record where
  "ex_record = \<lparr>rec_Headers = [], rec_Attributes = 0, rec_TimestampDelta = 0, rec_OffsetDelta = 0,
     rec_Key = None, rec_Value = Some [65]\<rparr>"

definition ex_batch :: RecordBatch where
  "ex_batch = \<lparr>rb_FirstOffset = 0, rb_PartitionLeaderEpoch = 0, rb_Version = 2, rb_Codec = 1,
     rb_CompressionLevel = 3, rb_Control = False, rb_LogAppendTime = False, rb_LastOffsetDelta = 0,
     rb_FirstTimestamp = 0, rb_MaxTimestamp = 0, rb_ProducerID = 7, rb_ProducerEpoch = 1,
     rb_FirstSequence = 0, rb_Records = [ex_record], rb_PartialTrailingRecord = False,
     rb_IsTransactional = False, rb_compressedRecords = None, rb_recordsLen = 0\<rparr>"

definition ex_msg :: ProducerMessage where
  "ex_msg = \<lparr>pm_Topic = ''orders'', pm_Key = Some (StringEncoder ''k''), pm_Value = Some (StringEncoder ''value''),
     pm_Headers = [], pm_Offset = 0, pm_Partition = 2, pm_Timestamp = zeroTime, pm_retries = 0, pm_flags = 0,
     pm_sequenceNumber = 0, pm_producerEpoch = 0, pm_hasSequence = False\<rparr>"

definition ex_conf :: ProducerConf where
  "ex_conf = \<lparr>conf_Version = V2_1_0_0, conf_Compression = 0, conf_CompressionLevel = 0, conf_Idempotent = False,
     conf_RequiredAcks = 1, conf_Timeout = 10000000000, conf_MaxMessageBytes = 1000000, conf_TransactionID = [],
     conf_Flush_Bytes = 0, conf_Flush_Messages = 0, conf_Flush_Frequency = 0, conf_Flush_MaxMessages = 0\<rparr>"

lemmas ex_batch_simps = wf_RecordBatch_def sendable_batch_def batch_payload_def compress_def marking_codecs_def
  MaxRequestSize_def ex_batch_def ex_record_def wf_Record_def wf_nbytes_def wf_time_def

lemma ex_batch_raw: "records_raw ex_batch = [14, 0, 0, 0, 1, 2, 65, 0]"
  by code_simp

lemma ex_batch_wf: "wf_RecordBatch marking_codecs ex_batch"
  using ex_batch_raw by (simp add: ex_batch_simps)

lemma ex_batch_payload: "length (batch_payload marking_codecs ex_batch) = 9"
  using ex_batch_raw by (simp add: ex_batch_simps)

lemma ex_batch_length: "length (batch_bytes marking_codecs ex_batch) = 70"
  using ex_batch_wf length_ser_RecordBatch [of marking_codecs ex_batch]
  by (simp add: batch_bytes_def ex_batch_payload wf_RecordBatch_def)

definition ex_block :: FetchResponseBlock where
  "ex_block = \<lparr>frb_Err = 0, frb_HighWaterMarkOffset = 1, frb_LastStableOffset = 1, frb_LastRecordsBatchOffset = None,
     frb_LogStartOffset = 0, frb_AbortedTransactions = [\<lparr>abt_ProducerID = 7, abt_FirstOffset = 0\<rparr>],
     frb_PreferredReadReplica = - 1, frb_RecordsSet = [newDefaultRecords ex_batch], frb_Partial = False,
     frb_Records = None\<rparr>"

definition ex_FetchResponse :: FetchResponse where
  "ex_FetchResponse = \<lparr>frs_Version = 11, frs_ThrottleTime = 0, frs_ErrorCode = 0, frs_SessionID = 0,
     frs_Blocks = [(''orders'', [(2, ex_block)])], frs_LogAppendTime = False, frs_Timestamp = zeroTime\<rparr>"

lemma ex_FetchResponse_wf: "wf_FetchResponse marking_codecs ex_FetchResponse"
proof -
  have "batches_of ex_block = [ex_batch]" by (simp add: batches_of_def ex_block_def newDefaultRecords_def)
  then show ?thesis
    using ex_batch_wf ex_batch_length
    by (simp add: wf_FetchResponse_def ex_FetchResponse_def wf_topics_def wf_partitions_def wf_millis32_def
        wf_FetchResponseBlock_def wf_block_head_def) (simp add: ex_block_def ex_batch_def)
qed

definition ex_ProduceRequest :: ProduceRequest where
  "ex_ProduceRequest = \<lparr>preq_TransactionalID = Some ''tx'', preq_RequiredAcks = - 1, preq_Timeout = 10000,
     preq_Version = 7, preq_records = [(''orders'', [(2, newDefaultRecords ex_batch)])]\<rparr>"

lemma ex_ProduceRequest_wf: "wf_ProduceRequest marking_codecs ex_ProduceRequest"
  using ex_batch_wf ex_batch_length
  by (simp add: wf_ProduceRequest_def ex_ProduceRequest_def wf_topics_def wf_partitions_def wf_batch_records_def
      newDefaultRecords_def batch_bytes_def)

definition ex_ProduceResponse :: ProduceResponse where
  "ex_ProduceResponse = \<lparr>prsp_Blocks = [(''orders'', [(2, \<lparr>prb_Err = 0, prb_Offset = 42, prb_Timestamp = zeroTime,
     prb_StartOffset = 0\<rparr>)])], prsp_Version = 1, prsp_ThrottleTime = 0\<rparr>"

lemma ex_ProduceResponse_wf: "wf_ProduceResponse ex_ProduceResponse"
  by (simp add: wf_ProduceResponse_def ex_ProduceResponse_def wf_topics_def wf_partitions_def wf_millis32_def
      wf_ProduceResponseBlock_def)

definition ex_Message :: Message where
  "ex_Message = Message 0 0 False None (Some [65]) None 1 0 None 0"

lemma ex_message_wf: "wf_block marking_codecs (dec_MessageSet 0 marking_codecs) (MessageBlock 5 ex_Message, None)"
  by (simp add: wf_block_def wf_Message_def ex_Message_def is_codec_def wf_time_def wf_nbytes_def inner_set_def
      compress_def)

lemma ex_message_bytes: "length (ser_ops (fst (enc_MessageBlocks marking_codecs [MessageBlock 5 ex_Message]))) = 35"
  by (simp add: enc_MessageBlock_def enc_Message_def ex_Message_def message_header_def message_payload_def ser_simps
      compress_def Let_def enc_Timestamp_def ser_bytes_def)

definition ex_partitionSet :: partitionSet where
  "ex_partitionSet = \<lparr>pset_msgs = [ex_msg], pset_recordsToSend = newDefaultRecords (ex_batch\<lparr>rb_Codec := 0\<rparr>),
     pset_bufferBytes = recordBatchOverhead + records_bytes [ex_record]\<rparr>"

lemma ex_version: "IsAtLeast (conf_Version ex_conf) V0_11_0_0" "IsAtLeast (conf_Version ex_conf) MinVersion"
  by code_simp+

lemma ex_partitionSet_inv: "set_inv ex_conf ex_partitionSet"
  using ex_version(1)
  by (simp add: set_inv_def ex_partitionSet_def newDefaultRecords_def ex_batch_def)

lemma ex_sendable: "sendable_batch marking_codecs (finish_batch ex_conf (ex_batch\<lparr>rb_Codec := 0\<rparr>))"
proof -
  have "records_raw (finish_batch ex_conf (ex_batch\<lparr>rb_Codec := 0\<rparr>)) = [14, 0, 0, 0, 1, 2, 65, 0]" by code_simp
  then show ?thesis
    by (simp add: sendable_batch_def batch_payload_def compress_def finish_batch_def ex_batch_simps)
qed

definition ex_ListGroupsResponse3 :: ListGroupsResponse where
  "ex_ListGroupsResponse3 = \<lparr>lsr_Version = 3, lsr_ThrottleTime = 0, lsr_Err = 0, lsr_Groups = [], lsr_GroupsData = []\<rparr>"

definition ex_FetchRequest7 :: FetchRequest where
  "ex_FetchRequest7 = \<lparr>frq_Version = 7, frq_MaxWaitTime = 0, frq_MinBytes = 0, frq_MaxBytes = 0, frq_Isolation = 0,
     frq_SessionID = 3, frq_SessionEpoch = 1, frq_blocks = [], frq_forgotten = [], frq_RackID = []\<rparr>"

definition ex_JoinGroupRequest :: JoinGroupRequest where
  "ex_JoinGroupRequest = \<lparr>jgq_Version = 1, jgq_GroupId = ''audit'', jgq_SessionTimeout = 10000, jgq_RebalanceTimeout = 60000,
     jgq_MemberId = [], jgq_GroupInstanceId = None, jgq_ProtocolType = ''consumer'', jgq_GroupProtocols = [],
     jgq_OrderedGroupProtocols = [\<lparr>gpr_Name = ''range'', gpr_Metadata = Some [0]\<rparr>]\<rparr>"

subsection \<open>Protocol messages\<close>

definition ex_broker :: Broker where
  "ex_broker = \<lparr>br_id = 1, br_addr = JoinHostPort ''kafka-1'' (show_int (sint (9092 :: int32))), br_rack = None\<rparr>"

lemma ex_broker_wf: "wf_Broker v ex_broker"
  using ParseInt32_show_int [of 9092]
  by (simp add: wf_Broker_def ex_broker_def plain_host_def SplitHostPort_JoinHostPort plain_port_show_int)

lemma ex_broker_addr: "br_addr ex_broker \<noteq> '':0''"
  by (simp add: ex_broker_def JoinHostPort_def)

definition ex_InitProducerIDRequest :: InitProducerIDRequest where
  "ex_InitProducerIDRequest = \<lparr>ipq_Version = 3, ipq_TransactionalID = Some ''tx'', ipq_TransactionTimeout =
     60000000000, ipq_ProducerID = 7, ipq_ProducerEpoch = 1\<rparr>"

lemma ex_InitProducerIDRequest_wf: "wf_InitProducerIDRequest ex_InitProducerIDRequest"
  by (simp add: ex_InitProducerIDRequest_def wf_InitProducerIDRequest_def wf_millis32_def wf_topic_partitions_def
     wf_PartitionOffsetMetadata_def)

definition ex_InitProducerIDResponse :: InitProducerIDResponse where
  "ex_InitProducerIDResponse = \<lparr>ipr_Version = 3, ipr_ThrottleTime = 0, ipr_Err = 0, ipr_ProducerID = 7,
     ipr_ProducerEpoch = 2\<rparr>"

lemma ex_InitProducerIDResponse_wf: "wf_InitProducerIDResponse ex_InitProducerIDResponse"
  by (simp add: ex_InitProducerIDResponse_def wf_InitProducerIDResponse_def wf_millis32_def wf_topic_partitions_def
     wf_PartitionOffsetMetadata_def)

definition ex_AddPartitionsToTxnRequest :: AddPartitionsToTxnRequest where
  "ex_AddPartitionsToTxnRequest = \<lparr>apq_Version = 2, apq_TransactionalID = ''tx'', apq_ProducerID = 7,
     apq_ProducerEpoch = 1, apq_TopicPartitions = [(''orders'', [0, 2])]\<rparr>"

lemma ex_AddPartitionsToTxnRequest_wf: "wf_AddPartitionsToTxnRequest ex_AddPartitionsToTxnRequest"
  by (simp add: ex_AddPartitionsToTxnRequest_def wf_AddPartitionsToTxnRequest_def wf_millis32_def
     wf_topic_partitions_def wf_PartitionOffsetMetadata_def)

definition ex_AddPartitionsToTxnResponse :: AddPartitionsToTxnResponse where
  "ex_AddPartitionsToTxnResponse = \<lparr>apr_Version = 2, apr_ThrottleTime = 0, apr_Errors = [(''orders'',
     [\<lparr>pte_Partition = 2, pte_Err = 51\<rparr>])]\<rparr>"

lemma ex_AddPartitionsToTxnResponse_wf: "wf_AddPartitionsToTxnResponse ex_AddPartitionsToTxnResponse"
  by (simp add: ex_AddPartitionsToTxnResponse_def wf_AddPartitionsToTxnResponse_def wf_millis32_def
     wf_topic_partitions_def wf_PartitionOffsetMetadata_def)

definition ex_AddOffsetsToTxnRequest :: AddOffsetsToTxnRequest where
  "ex_AddOffsetsToTxnRequest = \<lparr>aoq_Version = 2, aoq_TransactionalID = ''tx'', aoq_ProducerID = 7,
     aoq_ProducerEpoch = 1, aoq_GroupID = ''audit''\<rparr>"

lemma ex_AddOffsetsToTxnRequest_wf: "wf_AddOffsetsToTxnRequest ex_AddOffsetsToTxnRequest"
  by (simp add: ex_AddOffsetsToTxnRequest_def wf_AddOffsetsToTxnRequest_def wf_millis32_def wf_topic_partitions_def
     wf_PartitionOffsetMetadata_def)

definition ex_AddOffsetsToTxnResponse :: AddOffsetsToTxnResponse where
  "ex_AddOffsetsToTxnResponse = \<lparr>aor_Version = 0, aor_ThrottleTime = 0, aor_Err = 16\<rparr>"

lemma ex_AddOffsetsToTxnResponse_wf: "wf_AddOffsetsToTxnResponse ex_AddOffsetsToTxnResponse"
  by (simp add: ex_AddOffsetsToTxnResponse_def wf_AddOffsetsToTxnResponse_def wf_millis32_def
     wf_topic_partitions_def wf_PartitionOffsetMetadata_def)

definition ex_EndTxnRequest :: EndTxnRequest where
  "ex_EndTxnRequest = \<lparr>etq_Version = 2, etq_TransactionalID = ''tx'', etq_ProducerID = 7, etq_ProducerEpoch =
     1, etq_TransactionResult = True\<rparr>"

lemma ex_EndTxnRequest_wf: "wf_EndTxnRequest ex_EndTxnRequest"
  by (simp add: ex_EndTxnRequest_def wf_EndTxnRequest_def wf_millis32_def wf_topic_partitions_def
     wf_PartitionOffsetMetadata_def)

definition ex_EndTxnResponse :: EndTxnResponse where
  "ex_EndTxnResponse = \<lparr>etr_Version = 0, etr_ThrottleTime = 0, etr_Err = 47\<rparr>"

lemma ex_EndTxnResponse_wf: "wf_EndTxnResponse ex_EndTxnResponse"
  by (simp add: ex_EndTxnResponse_def wf_EndTxnResponse_def wf_millis32_def wf_topic_partitions_def
     wf_PartitionOffsetMetadata_def)

definition ex_TxnOffsetCommitRequest :: TxnOffsetCommitRequest where
  "ex_TxnOffsetCommitRequest = \<lparr>tcq_Version = 2, tcq_TransactionalID = ''tx'', tcq_GroupID = ''audit'',
     tcq_ProducerID = 7, tcq_ProducerEpoch = 1, tcq_Topics = [(''orders'', [\<lparr>pom_Partition = 2, pom_Offset =
     42, pom_LeaderEpoch = 3, pom_Metadata = None\<rparr>])]\<rparr>"

lemma ex_TxnOffsetCommitRequest_wf: "wf_TxnOffsetCommitRequest ex_TxnOffsetCommitRequest"
  by (simp add: ex_TxnOffsetCommitRequest_def wf_TxnOffsetCommitRequest_def wf_millis32_def wf_topic_partitions_def
     wf_PartitionOffsetMetadata_def)

definition ex_TxnOffsetCommitResponse :: TxnOffsetCommitResponse where
  "ex_TxnOffsetCommitResponse = \<lparr>tcr_Version = 2, tcr_ThrottleTime = 0, tcr_Topics = [(''orders'',
     [\<lparr>pte_Partition = 2, pte_Err = 0\<rparr>])]\<rparr>"

lemma ex_TxnOffsetCommitResponse_wf: "wf_TxnOffsetCommitResponse ex_TxnOffsetCommitResponse"
  by (simp add: ex_TxnOffsetCommitResponse_def wf_TxnOffsetCommitResponse_def wf_millis32_def
     wf_topic_partitions_def wf_PartitionOffsetMetadata_def)

definition ex_FindCoordinatorRequest :: FindCoordinatorRequest where
  "ex_FindCoordinatorRequest = \<lparr>fcq_Version = 1, fcq_CoordinatorKey = ''audit'', fcq_CoordinatorType =
     0\<rparr>"

lemma ex_FindCoordinatorRequest_wf: "wf_FindCoordinatorRequest ex_FindCoordinatorRequest"
  by (simp add: ex_FindCoordinatorRequest_def wf_FindCoordinatorRequest_def wf_millis32_def ex_broker_wf
     ex_broker_addr wf_GroupMember_def wf_SyncGroupRequestAssignment_def wf_MemberIdentity_def
     wf_MemberResponse_def)

definition ex_FindCoordinatorResponse :: FindCoordinatorResponse where
  "ex_FindCoordinatorResponse = \<lparr>fcr_Version = 1, fcr_ThrottleTime = 0, fcr_Err = 0, fcr_ErrMsg = None,
     fcr_Coordinator = Some ex_broker\<rparr>"

lemma ex_FindCoordinatorResponse_wf: "wf_FindCoordinatorResponse ex_FindCoordinatorResponse"
  by (simp add: ex_FindCoordinatorResponse_def wf_FindCoordinatorResponse_def wf_millis32_def ex_broker_wf
     ex_broker_addr wf_GroupMember_def wf_SyncGroupRequestAssignment_def wf_MemberIdentity_def
     wf_MemberResponse_def)

definition ex_JoinGroupResponse :: JoinGroupResponse where
  "ex_JoinGroupResponse = \<lparr>jgr_Version = 5, jgr_ThrottleTime = 0, jgr_Err = 0, jgr_GenerationId = 4,
     jgr_GroupProtocol = ''range'', jgr_LeaderId = ''m1'', jgr_MemberId = ''m1'', jgr_Members =
     [\<lparr>gmm_MemberId = ''m1'', gmm_GroupInstanceId = Some ''i'', gmm_Metadata = Some [1]\<rparr>]\<rparr>"

lemma ex_JoinGroupResponse_wf: "wf_JoinGroupResponse ex_JoinGroupResponse"
  by (simp add: ex_JoinGroupResponse_def wf_JoinGroupResponse_def wf_millis32_def ex_broker_wf ex_broker_addr
     wf_GroupMember_def wf_SyncGroupRequestAssignment_def wf_MemberIdentity_def wf_MemberResponse_def)

definition ex_SyncGroupRequest :: SyncGroupRequest where
  "ex_SyncGroupRequest = \<lparr>sgq_Version = 3, sgq_GroupId = ''audit'', sgq_GenerationId = 4, sgq_MemberId =
     ''m1'', sgq_GroupInstanceId = None, sgq_GroupAssignments = [\<lparr>sga_MemberId = ''m1'', sga_Assignment =
     Some [2]\<rparr>]\<rparr>"

lemma ex_SyncGroupRequest_wf: "wf_SyncGroupRequest ex_SyncGroupRequest"
  by (simp add: ex_SyncGroupRequest_def wf_SyncGroupRequest_def wf_millis32_def ex_broker_wf ex_broker_addr
     wf_GroupMember_def wf_SyncGroupRequestAssignment_def wf_MemberIdentity_def wf_MemberResponse_def)

definition ex_SyncGroupResponse :: SyncGroupResponse where
  "ex_SyncGroupResponse = \<lparr>sgr_Version = 1, sgr_ThrottleTime = 0, sgr_Err = 27, sgr_MemberAssignment = Some
     []\<rparr>"

lemma ex_SyncGroupResponse_wf: "wf_SyncGroupResponse ex_SyncGroupResponse"
  by (simp add: ex_SyncGroupResponse_def wf_SyncGroupResponse_def wf_millis32_def ex_broker_wf ex_broker_addr
     wf_GroupMember_def wf_SyncGroupRequestAssignment_def wf_MemberIdentity_def wf_MemberResponse_def)

definition ex_HeartbeatRequest :: HeartbeatRequest where
  "ex_HeartbeatRequest = \<lparr>hbq_Version = 3, hbq_GroupId = ''audit'', hbq_GenerationId = 4, hbq_MemberId =
     ''m1'', hbq_GroupInstanceId = None\<rparr>"

lemma ex_HeartbeatRequest_wf: "wf_HeartbeatRequest ex_HeartbeatRequest"
  by (simp add: ex_HeartbeatRequest_def wf_HeartbeatRequest_def wf_millis32_def ex_broker_wf ex_broker_addr
     wf_GroupMember_def wf_SyncGroupRequestAssignment_def wf_MemberIdentity_def wf_MemberResponse_def)

definition ex_HeartbeatResponse :: HeartbeatResponse where
  "ex_HeartbeatResponse = \<lparr>hbr_Version = 0, hbr_ThrottleTime = 0, hbr_Err = 27\<rparr>"

lemma ex_HeartbeatResponse_wf: "wf_HeartbeatResponse ex_HeartbeatResponse"
  by (simp add: ex_HeartbeatResponse_def wf_HeartbeatResponse_def wf_millis32_def ex_broker_wf ex_broker_addr
     wf_GroupMember_def wf_SyncGroupRequestAssignment_def wf_MemberIdentity_def wf_MemberResponse_def)

definition ex_LeaveGroupRequest :: LeaveGroupRequest where
  "ex_LeaveGroupRequest = \<lparr>lgq_Version = 3, lgq_GroupId = ''audit'', lgq_MemberId = [], lgq_Members =
     [\<lparr>mid_MemberId = ''m1'', mid_GroupInstanceId = None\<rparr>]\<rparr>"

lemma ex_LeaveGroupRequest_wf: "wf_LeaveGroupRequest ex_LeaveGroupRequest"
  by (simp add: ex_LeaveGroupRequest_def wf_LeaveGroupRequest_def wf_millis32_def ex_broker_wf ex_broker_addr
     wf_GroupMember_def wf_SyncGroupRequestAssignment_def wf_MemberIdentity_def wf_MemberResponse_def)

definition ex_LeaveGroupResponse :: LeaveGroupResponse where
  "ex_LeaveGroupResponse = \<lparr>lgr_Version = 3, lgr_ThrottleTime = 0, lgr_Err = 0, lgr_Members =
     [\<lparr>mrs_MemberId = ''m1'', mrs_GroupInstanceId = None, mrs_Err = 25\<rparr>]\<rparr>"

lemma ex_LeaveGroupResponse_wf: "wf_LeaveGroupResponse ex_LeaveGroupResponse"
  by (simp add: ex_LeaveGroupResponse_def wf_LeaveGroupResponse_def wf_millis32_def ex_broker_wf ex_broker_addr
     wf_GroupMember_def wf_SyncGroupRequestAssignment_def wf_MemberIdentity_def wf_MemberResponse_def)

definition ex_DescribeGroupsRequest :: DescribeGroupsRequest where
  "ex_DescribeGroupsRequest = \<lparr>dgq_Version = 3, dgq_Groups = [''audit''], dgq_IncludeAuthorizedOperations =
     True\<rparr>"

lemma ex_DescribeGroupsRequest_wf: "wf_DescribeGroupsRequest ex_DescribeGroupsRequest"
  by (simp add: ex_DescribeGroupsRequest_def wf_DescribeGroupsRequest_def wf_millis32_def ex_broker_wf
     ex_broker_addr wf_GroupMember_def wf_SyncGroupRequestAssignment_def wf_MemberIdentity_def
     wf_MemberResponse_def)

definition ex_DescribeGroupsResponse :: DescribeGroupsResponse where
  "ex_DescribeGroupsResponse = \<lparr>dgr_Version = 1, dgr_ThrottleTimeMs = 9, dgr_Groups = []\<rparr>"

lemma ex_DescribeGroupsResponse_wf: "wf_DescribeGroupsResponse ex_DescribeGroupsResponse"
  by (simp add: ex_DescribeGroupsResponse_def wf_DescribeGroupsResponse_def wf_millis32_def ex_broker_wf
     ex_broker_addr wf_GroupMember_def wf_SyncGroupRequestAssignment_def wf_MemberIdentity_def
     wf_MemberResponse_def)

definition ex_ListGroupsRequest :: ListGroupsRequest where
  "ex_ListGroupsRequest = \<lparr>lsq_Version = 4, lsq_StatesFilter = [''Stable'']\<rparr>"

lemma ex_ListGroupsRequest_wf: "wf_ListGroupsRequest ex_ListGroupsRequest"
  by (simp add: ex_ListGroupsRequest_def wf_ListGroupsRequest_def wf_millis32_def ex_broker_wf ex_broker_addr
     wf_GroupMember_def wf_SyncGroupRequestAssignment_def wf_MemberIdentity_def wf_MemberResponse_def)

definition ex_ListGroupsResponse :: ListGroupsResponse where
  "ex_ListGroupsResponse = \<lparr>lsr_Version = 1, lsr_ThrottleTime = 0, lsr_Err = 0, lsr_Groups = [(''audit'',
     ''consumer'')], lsr_GroupsData = []\<rparr>"

lemma ex_ListGroupsResponse_wf: "wf_ListGroupsResponse ex_ListGroupsResponse"
  by (simp add: ex_ListGroupsResponse_def wf_ListGroupsResponse_def wf_millis32_def ex_broker_wf ex_broker_addr
     wf_GroupMember_def wf_SyncGroupRequestAssignment_def wf_MemberIdentity_def wf_MemberResponse_def)

definition ex_DeleteGroupsRequest :: DeleteGroupsRequest where
  "ex_DeleteGroupsRequest = \<lparr>delq_Version = 1, delq_Groups = [''audit'']\<rparr>"

lemma ex_DeleteGroupsRequest_wf: "wf_DeleteGroupsRequest ex_DeleteGroupsRequest"
  by (simp add: ex_DeleteGroupsRequest_def wf_DeleteGroupsRequest_def wf_millis32_def ex_broker_wf ex_broker_addr
     wf_GroupMember_def wf_SyncGroupRequestAssignment_def wf_MemberIdentity_def wf_MemberResponse_def)

definition ex_DeleteGroupsResponse :: DeleteGroupsResponse where
  "ex_DeleteGroupsResponse = \<lparr>delr_Version = 0, delr_ThrottleTime = 0, delr_GroupErrorCodes = [(''audit'',
     68)]\<rparr>"

lemma ex_DeleteGroupsResponse_wf: "wf_DeleteGroupsResponse ex_DeleteGroupsResponse"
  by (simp add: ex_DeleteGroupsResponse_def wf_DeleteGroupsResponse_def wf_millis32_def ex_broker_wf ex_broker_addr
     wf_GroupMember_def wf_SyncGroupRequestAssignment_def wf_MemberIdentity_def wf_MemberResponse_def)

definition ex_ConsumerGroupMemberMetadata :: ConsumerGroupMemberMetadata where
  "ex_ConsumerGroupMemberMetadata = \<lparr>mmd_Version = 2, mmd_Topics = [''orders''], mmd_UserData = None,
     mmd_OwnedPartitions = [\<lparr>own_Topic = ''orders'', own_Partitions = [2]\<rparr>], mmd_GenerationID = 4,
     mmd_RackID = None\<rparr>"

lemma ex_ConsumerGroupMemberMetadata_wf: "wf_ConsumerGroupMemberMetadata ex_ConsumerGroupMemberMetadata"
  by (simp add: ex_ConsumerGroupMemberMetadata_def wf_ConsumerGroupMemberMetadata_def wf_OwnedPartition_def
     wf_topic_partitions_def populateTopicPartitions_def)

definition ex_ConsumerGroupMemberAssignment :: ConsumerGroupMemberAssignment where
  "ex_ConsumerGroupMemberAssignment = \<lparr>mas_Version = 0, mas_Topics = [(''orders'', [0, 2])], mas_UserData =
     Some [9]\<rparr>"

lemma ex_ConsumerGroupMemberAssignment_wf: "wf_ConsumerGroupMemberAssignment ex_ConsumerGroupMemberAssignment"
  by (simp add: ex_ConsumerGroupMemberAssignment_def wf_ConsumerGroupMemberAssignment_def wf_OwnedPartition_def
     wf_topic_partitions_def populateTopicPartitions_def)

definition ex_StickyAssignorUserDataV0 :: StickyAssignorUserDataV0 where
  "ex_StickyAssignorUserDataV0 = \<lparr>su0_Topics = [(''orders'', [2])], su0_topicPartitions = [\<lparr>tpa_Topic
     = ''orders'', tpa_Partition = 2\<rparr>]\<rparr>"

lemma ex_StickyAssignorUserDataV0_wf: "wf_StickyAssignorUserDataV0 ex_StickyAssignorUserDataV0"
  by (simp add: ex_StickyAssignorUserDataV0_def wf_StickyAssignorUserDataV0_def wf_OwnedPartition_def
     wf_topic_partitions_def populateTopicPartitions_def)

definition ex_StickyAssignorUserDataV1 :: StickyAssignorUserDataV1 where
  "ex_StickyAssignorUserDataV1 = \<lparr>su1_Topics = [(''orders'', [2])], su1_Generation = 4, su1_topicPartitions =
     [\<lparr>tpa_Topic = ''orders'', tpa_Partition = 2\<rparr>]\<rparr>"

lemma ex_StickyAssignorUserDataV1_wf: "wf_StickyAssignorUserDataV1 ex_StickyAssignorUserDataV1"
  by (simp add: ex_StickyAssignorUserDataV1_def wf_StickyAssignorUserDataV1_def wf_OwnedPartition_def
     wf_topic_partitions_def populateTopicPartitions_def)

definition ex_OffsetCommitRequest :: OffsetCommitRequest where
  "ex_OffsetCommitRequest = \<lparr>ocq_Version = 7, ocq_ConsumerGroup = ''audit'', ocq_ConsumerGroupGeneration = 4,
     ocq_ConsumerID = ''m1'', ocq_RetentionTime = 0, ocq_GroupInstanceId = None, ocq_blocks = [(''orders'', [(2,
     \<lparr>ocb_offset = 42, ocb_timestamp = 0, ocb_committedLeaderEpoch = 3, ocb_metadata =
     []\<rparr>)])]\<rparr>"

lemma ex_OffsetCommitRequest_wf: "wf_OffsetCommitRequest ex_OffsetCommitRequest"
  by (simp add: ex_OffsetCommitRequest_def wf_OffsetCommitRequest_def wf_millis32_def wf_topics_def
     wf_partitions_def wf_topic_partitions_def wf_offsetCommitRequestBlock_def wf_OffsetFetchResponseBlock_def
     wf_offsetRequestBlock_def wf_OffsetResponseBlock_def)

definition ex_OffsetCommitResponse :: OffsetCommitResponse where
  "ex_OffsetCommitResponse = \<lparr>ocr_Version = 3, ocr_ThrottleTimeMs = 1, ocr_Errors = [(''orders'', [(2,
     22)])]\<rparr>"

lemma ex_OffsetCommitResponse_wf: "wf_OffsetCommitResponse ex_OffsetCommitResponse"
  by (simp add: ex_OffsetCommitResponse_def wf_OffsetCommitResponse_def wf_millis32_def wf_topics_def
     wf_partitions_def wf_topic_partitions_def wf_offsetCommitRequestBlock_def wf_OffsetFetchResponseBlock_def
     wf_offsetRequestBlock_def wf_OffsetResponseBlock_def)

definition ex_OffsetFetchRequest :: OffsetFetchRequest where
  "ex_OffsetFetchRequest = \<lparr>ofq_Version = 5, ofq_ConsumerGroup = ''audit'', ofq_RequireStable = False,
     ofq_partitions = None\<rparr>"

lemma ex_OffsetFetchRequest_wf: "wf_OffsetFetchRequest ex_OffsetFetchRequest"
  by (simp add: ex_OffsetFetchRequest_def wf_OffsetFetchRequest_def wf_millis32_def wf_topics_def wf_partitions_def
     wf_topic_partitions_def wf_offsetCommitRequestBlock_def wf_OffsetFetchResponseBlock_def
     wf_offsetRequestBlock_def wf_OffsetResponseBlock_def)

definition ex_OffsetFetchResponse :: OffsetFetchResponse where
  "ex_OffsetFetchResponse = \<lparr>ofr_Version = 5, ofr_ThrottleTimeMs = 0, ofr_Blocks = [(''orders'', [(2,
     \<lparr>ofb_Offset = 42, ofb_LeaderEpoch = 3, ofb_Metadata = [], ofb_Err = 0\<rparr>)])], ofr_Err = 0\<rparr>"

lemma ex_OffsetFetchResponse_wf: "wf_OffsetFetchResponse ex_OffsetFetchResponse"
  by (simp add: ex_OffsetFetchResponse_def wf_OffsetFetchResponse_def wf_millis32_def wf_topics_def
     wf_partitions_def wf_topic_partitions_def wf_offsetCommitRequestBlock_def wf_OffsetFetchResponseBlock_def
     wf_offsetRequestBlock_def wf_OffsetResponseBlock_def)

definition ex_OffsetRequest :: OffsetRequest where
  "ex_OffsetRequest = \<lparr>orq_Version = 2, orq_IsolationLevel = ReadCommitted, orq_replicaID = 0,
     orq_isReplicaIDSet = False, orq_blocks = [(''orders'', [(2, \<lparr>orb_currentLeaderEpoch = - 1, orb_timestamp
     = 5, orb_maxNumOffsets = 0\<rparr>)])]\<rparr>"

lemma ex_OffsetRequest_wf: "wf_OffsetRequest ex_OffsetRequest"
  by (simp add: ex_OffsetRequest_def wf_OffsetRequest_def wf_millis32_def wf_topics_def wf_partitions_def
     wf_topic_partitions_def wf_offsetCommitRequestBlock_def wf_OffsetFetchResponseBlock_def
     wf_offsetRequestBlock_def wf_OffsetResponseBlock_def)

definition ex_OffsetResponse :: OffsetResponse where
  "ex_OffsetResponse = \<lparr>osr_Version = 0, osr_ThrottleTimeMs = 0, osr_Blocks = [(''orders'', [(2,
     \<lparr>osb_Err = 0, osb_Offsets = [42], osb_Timestamp = 5, osb_Offset = 42, osb_LeaderEpoch =
     0\<rparr>)])]\<rparr>"

lemma ex_OffsetResponse_wf: "wf_OffsetResponse 1 ex_OffsetResponse"
  by (simp add: ex_OffsetResponse_def wf_OffsetResponse_def wf_millis32_def wf_topics_def wf_partitions_def
     wf_topic_partitions_def wf_offsetCommitRequestBlock_def wf_OffsetFetchResponseBlock_def
     wf_offsetRequestBlock_def wf_OffsetResponseBlock_def)

definition ex_DeleteOffsetsRequest :: DeleteOffsetsRequest where
  "ex_DeleteOffsetsRequest = \<lparr>doq_Version = 0, doq_Group = ''audit'', doq_partitions = [(''orders'',
     [2])]\<rparr>"

lemma ex_DeleteOffsetsRequest_wf: "wf_DeleteOffsetsRequest ex_DeleteOffsetsRequest"
  by (simp add: ex_DeleteOffsetsRequest_def wf_DeleteOffsetsRequest_def wf_millis32_def wf_topics_def
     wf_partitions_def wf_topic_partitions_def wf_offsetCommitRequestBlock_def wf_OffsetFetchResponseBlock_def
     wf_offsetRequestBlock_def wf_OffsetResponseBlock_def)

definition ex_DeleteOffsetsResponse :: DeleteOffsetsResponse where
  "ex_DeleteOffsetsResponse = \<lparr>dor_Version = 0, dor_ErrorCode = 0, dor_ThrottleTime = 0, dor_Errors =
     [(''orders'', [(2, 3)])]\<rparr>"

lemma ex_DeleteOffsetsResponse_wf: "wf_DeleteOffsetsResponse ex_DeleteOffsetsResponse"
  by (simp add: ex_DeleteOffsetsResponse_def wf_DeleteOffsetsResponse_def wf_millis32_def wf_topics_def
     wf_partitions_def wf_topic_partitions_def wf_offsetCommitRequestBlock_def wf_OffsetFetchResponseBlock_def
     wf_offsetRequestBlock_def wf_OffsetResponseBlock_def)

definition ex_MetadataRequest :: MetadataRequest where
  "ex_MetadataRequest = \<lparr>mdq_Version = 10, mdq_Topics = [''orders''], mdq_AllowAutoTopicCreation = True,
     mdq_IncludeClusterAuthorizedOperations = False, mdq_IncludeTopicAuthorizedOperations = True\<rparr>"

lemma ex_MetadataRequest_wf: "wf_MetadataRequest ex_MetadataRequest"
  by (simp add: ex_MetadataRequest_def wf_MetadataRequest_def wf_millis32_def wf_topics_def wf_partitions_def
     ex_broker_wf wf_TopicMetadata_def wf_PartitionMetadata_def wf_int32s_def list_of_def
     wf_ApiVersionsResponseKey_def wf_fetchRequestBlock_def)

definition ex_MetadataResponse :: MetadataResponse where
  "ex_MetadataResponse = \<lparr>mdr_Version = 7, mdr_ThrottleTimeMs = 0, mdr_Brokers = [ex_broker], mdr_ClusterID =
     None, mdr_ControllerID = 1, mdr_Topics = [\<lparr>tmd_Version = 7, tmd_Err = 0, tmd_Name = ''orders'', tmd_Uuid
     = NullUUID, tmd_IsInternal = False, tmd_Partitions = [\<lparr>pmd_Version = 7, pmd_Err = 0, pmd_ID = 2,
     pmd_Leader = 1, pmd_LeaderEpoch = 3, pmd_Replicas = Some [1, 2], pmd_Isr = Some [1], pmd_OfflineReplicas =
     None\<rparr>], tmd_TopicAuthorizedOperations = 0\<rparr>], mdr_ClusterAuthorizedOperations = 0\<rparr>"

lemma ex_MetadataResponse_wf: "wf_MetadataResponse ex_MetadataResponse"
  by (simp add: ex_MetadataResponse_def wf_MetadataResponse_def wf_millis32_def wf_topics_def wf_partitions_def
     ex_broker_wf wf_TopicMetadata_def wf_PartitionMetadata_def wf_int32s_def list_of_def
     wf_ApiVersionsResponseKey_def wf_fetchRequestBlock_def)

definition ex_ApiVersionsRequest :: ApiVersionsRequest where
  "ex_ApiVersionsRequest = \<lparr>avq_Version = 3, avq_ClientSoftwareName = ''sarama'', avq_ClientSoftwareVersion =
     ''1.0''\<rparr>"

lemma ex_ApiVersionsRequest_wf: "wf_ApiVersionsRequest ex_ApiVersionsRequest"
  by (simp add: ex_ApiVersionsRequest_def wf_ApiVersionsRequest_def wf_millis32_def wf_topics_def wf_partitions_def
     ex_broker_wf wf_TopicMetadata_def wf_PartitionMetadata_def wf_int32s_def list_of_def
     wf_ApiVersionsResponseKey_def wf_fetchRequestBlock_def)

definition ex_ApiVersionsResponse :: ApiVersionsResponse where
  "ex_ApiVersionsResponse = \<lparr>avr_Version = 3, avr_ErrorCode = 0, avr_ApiKeys = [\<lparr>avk_Version = 3,
     avk_ApiKey = 0, avk_MinVersion = 3, avk_MaxVersion = 9\<rparr>], avr_ThrottleTimeMs = 0\<rparr>"

lemma ex_ApiVersionsResponse_wf: "wf_ApiVersionsResponse ex_ApiVersionsResponse"
  by (simp add: ex_ApiVersionsResponse_def wf_ApiVersionsResponse_def wf_millis32_def wf_topics_def
     wf_partitions_def ex_broker_wf wf_TopicMetadata_def wf_PartitionMetadata_def wf_int32s_def list_of_def
     wf_ApiVersionsResponseKey_def wf_fetchRequestBlock_def)

definition ex_FetchRequest :: FetchRequest where
  "ex_FetchRequest = \<lparr>frq_Version = 11, frq_MaxWaitTime = 250, frq_MinBytes = 1, frq_MaxBytes = 1000000,
     frq_Isolation = 1, frq_SessionID = 0, frq_SessionEpoch = 0, frq_blocks = [(''orders'', [(2, \<lparr>fqb_Version
     = 11, fqb_currentLeaderEpoch = - 1, fqb_fetchOffset = 42, fqb_logStartOffset = 0, fqb_maxBytes =
     1000\<rparr>)])], frq_forgotten = [], frq_RackID = ''r''\<rparr>"

lemma ex_FetchRequest_wf: "wf_FetchRequest ex_FetchRequest"
  by (simp add: ex_FetchRequest_def wf_FetchRequest_def wf_millis32_def wf_topics_def wf_partitions_def ex_broker_wf
     wf_TopicMetadata_def wf_PartitionMetadata_def wf_int32s_def list_of_def wf_ApiVersionsResponseKey_def
     wf_fetchRequestBlock_def)

subsection \<open>Transactions\<close>

definition ex_txn_conf :: TxnConf where
  "ex_txn_conf = \<lparr>tc_Version = V2_7_0_0, tc_RetryMax = 3, tc_Idempotent = True, tc_ID = ''tx'', tc_Timeout = 60000000000\<rparr>"

definition ex_coordinators :: Coordinators where
  "ex_coordinators =
     \<lparr>on_AddOffsetsToTxn = (\<lambda>q i. Answer \<lparr>aor_Version = 0, aor_ThrottleTime = 0, aor_Err = ErrNoError\<rparr>),
      on_TxnOffsetCommit = (\<lambda>q i. Answer \<lparr>tcr_Version = 2, tcr_ThrottleTime = 0, tcr_Topics =
        map (\<lambda>(t, os). (t, map (\<lambda>x. \<lparr>pte_Partition = pom_Partition x, pte_Err = ErrNoError\<rparr>) os)) (tcq_Topics q)\<rparr>),
      on_InitProducerID = (\<lambda>q i. Answer \<lparr>ipr_Version = 4, ipr_ThrottleTime = 0, ipr_Err = ErrNoError,
        ipr_ProducerID = 7, ipr_ProducerEpoch = 0\<rparr>),
      on_EndTxn = (\<lambda>q i. if i = 0 then SendError (KErr 6)
        else Answer \<lparr>etr_Version = 0, etr_ThrottleTime = 0, etr_Err = ErrNoError\<rparr>),
      on_AddPartitionsToTxn = (\<lambda>q i. Answer \<lparr>apr_Version = 2, apr_ThrottleTime = 0, apr_Errors =
        map (\<lambda>(t, ps). (t, map (\<lambda>p. \<lparr>pte_Partition = p, pte_Err = ErrNoError\<rparr>) ps)) (apq_TopicPartitions q)\<rparr>)\<rparr>"

text \<open>A manager that has begun a transaction, added a partition and recorded the offset of a group.\<close>

definition ex_manager :: transactionManager where
  "ex_manager = \<lparr>tm_producerID = 7, tm_producerEpoch = 0, tm_sequenceNumbers = [], tm_transactionalID = ''tx'',
     tm_transactionTimeout = 60000000000, tm_coordinatorSupportsBumpingEpoch = True, tm_epochBumpRequired = False,
     tm_lastError = None, tm_status = FlagReady, tm_pendingPartitions = [], tm_partitions = [], tm_offsets = []\<rparr>"

definition ex_in_txn :: transactionManager where
  "ex_in_txn = ex_manager\<lparr>tm_status := FlagInTransaction, tm_partitions := [(''orders'', 2)], tm_offsets :=
     [(''audit'', [((''orders'', 2), Some \<lparr>pom_Partition = 2, pom_Offset = 42, pom_LeaderEpoch = 0, pom_Metadata = None\<rparr>)])]\<rparr>"

lemma ex_manager_new: "newTransactionManager ex_txn_conf ex_coordinators = Ok ex_manager"
  by code_simp

lemma ex_in_txn_step:
  "ex_in_txn =
     snd (AddOffsetsToTxn [(''orders'', [\<lparr>pom_Partition = 2, pom_Offset = 42, pom_LeaderEpoch = 0, pom_Metadata = None\<rparr>])] ''audit''
       (snd (publishTxnPartitions ex_txn_conf ex_coordinators
         (maybeAddPartitionToCurrentTxn ''orders'' 2 (snd (BeginTxn ex_manager))))))"
  "fst (publishTxnPartitions ex_txn_conf ex_coordinators
         (maybeAddPartitionToCurrentTxn ''orders'' 2 (snd (BeginTxn ex_manager)))) = Ok ((), None)"
  by code_simp+

lemma ex_in_txn_reachable: "txn_reachable ex_txn_conf ex_in_txn"
proof -
  let ?t = "maybeAddPartitionToCurrentTxn ''orders'' 2 (snd (BeginTxn ex_manager))"
  have "txn_reachable ex_txn_conf ?t"
    by (rule txn_reachable.step [OF txn_reachable.step [OF txn_reachable.new [OF ex_manager_new] txn_step.begin_txn]
          txn_step.add_partition])
  from txn_reachable.step [OF this txn_step.publish [OF prod.collapse [symmetric, of "publishTxnPartitions ex_txn_conf ex_coordinators ?t",
      unfolded ex_in_txn_step(2)]]]
  show ?thesis unfolding ex_in_txn_step(1) by (rule txn_reachable.step) (rule txn_step.add_offsets)
qed

definition ex_fenced :: transactionManager where
  "ex_fenced = snd (maybeTransitionToErrorState (KErr ErrProducerFenced) ex_in_txn)"

lemma ex_fenced_fatal: "tm_status ex_fenced = FlagInError OR FlagFatalError" "isTransactional ex_fenced"
  "tm_lastError ex_fenced = Some (KErr ErrProducerFenced)"
  by code_simp+

definition ex_bumping :: transactionManager where
  "ex_bumping = ex_in_txn\<lparr>tm_status := FlagInError OR FlagAbortableError, tm_epochBumpRequired := True,
     tm_lastError := Some (KErr 59)\<rparr>"

definition ex_no_coordinator :: Coordinators where
  "ex_no_coordinator = ex_coordinators\<lparr>on_InitProducerID := \<lambda>q i. NoCoordinator (KErr 15),
     on_EndTxn := \<lambda>q i. Answer \<lparr>etr_Version = 0, etr_ThrottleTime = 0, etr_Err = ErrNoError\<rparr>\<rparr>"

subsection \<open>Administration messages\<close>

definition ex_CreateTopicsRequest :: CreateTopicsRequest where
  "ex_CreateTopicsRequest = \<lparr>ctq_Version = 2, ctq_TopicDetails = [(''orders'', \<lparr>tpd_NumPartitions = 3,
     tpd_ReplicationFactor = 2, tpd_ReplicaAssignment = [(0, [1, 2])], tpd_ConfigEntries = [(''retention.ms'',
     None)]\<rparr>)], ctq_Timeout = 1000000000, ctq_ValidateOnly = True\<rparr>"

lemma ex_CreateTopicsRequest_wf: "wf_CreateTopicsRequest ex_CreateTopicsRequest"
  by (simp add: ex_CreateTopicsRequest_def wf_CreateTopicsRequest_def wf_millis32_def wf_TopicDetail_def
     wf_TopicError_def wf_TopicPartition_def wf_TopicPartitionError_def wf_DeleteRecordsRequestTopic_def
     wf_DeleteRecordsResponseTopic_def wf_alterPartitionReassignmentsBlock_def
     wf_alterPartitionReassignmentsErrorBlock_def wf_reassignment_topics_def
     wf_PartitionReplicaReassignmentsStatus_def wf_topics_def wf_partitions_def wf_int32s_def list_of_def)

definition ex_CreateTopicsResponse :: CreateTopicsResponse where
  "ex_CreateTopicsResponse = \<lparr>ctr_Version = 2, ctr_ThrottleTime = 0, ctr_TopicErrors = [(''orders'',
     \<lparr>tpe_Err = 36, tpe_ErrMsg = Some ''exists''\<rparr>)]\<rparr>"

lemma ex_CreateTopicsResponse_wf: "wf_CreateTopicsResponse ex_CreateTopicsResponse"
  by (simp add: ex_CreateTopicsResponse_def wf_CreateTopicsResponse_def wf_millis32_def wf_TopicDetail_def
     wf_TopicError_def wf_TopicPartition_def wf_TopicPartitionError_def wf_DeleteRecordsRequestTopic_def
     wf_DeleteRecordsResponseTopic_def wf_alterPartitionReassignmentsBlock_def
     wf_alterPartitionReassignmentsErrorBlock_def wf_reassignment_topics_def
     wf_PartitionReplicaReassignmentsStatus_def wf_topics_def wf_partitions_def wf_int32s_def list_of_def)

definition ex_CreatePartitionsRequest :: CreatePartitionsRequest where
  "ex_CreatePartitionsRequest = \<lparr>cpq_Version = 0, cpq_TopicPartitions = [(''orders'', \<lparr>tpp_Count = 4,
     tpp_Assignment = [[2, 1]]\<rparr>)], cpq_Timeout = 0, cpq_ValidateOnly = False\<rparr>"

lemma ex_CreatePartitionsRequest_wf: "wf_CreatePartitionsRequest ex_CreatePartitionsRequest"
  by (simp add: ex_CreatePartitionsRequest_def wf_CreatePartitionsRequest_def wf_millis32_def wf_TopicDetail_def
     wf_TopicError_def wf_TopicPartition_def wf_TopicPartitionError_def wf_DeleteRecordsRequestTopic_def
     wf_DeleteRecordsResponseTopic_def wf_alterPartitionReassignmentsBlock_def
     wf_alterPartitionReassignmentsErrorBlock_def wf_reassignment_topics_def
     wf_PartitionReplicaReassignmentsStatus_def wf_topics_def wf_partitions_def wf_int32s_def list_of_def)

definition ex_CreatePartitionsResponse :: CreatePartitionsResponse where
  "ex_CreatePartitionsResponse = \<lparr>cpr_Version = 0, cpr_ThrottleTime = 0, cpr_TopicPartitionErrors =
     [(''orders'', \<lparr>tpr_Err = 0, tpr_ErrMsg = None\<rparr>)]\<rparr>"

lemma ex_CreatePartitionsResponse_wf: "wf_CreatePartitionsResponse ex_CreatePartitionsResponse"
  by (simp add: ex_CreatePartitionsResponse_def wf_CreatePartitionsResponse_def wf_millis32_def wf_TopicDetail_def
     wf_TopicError_def wf_TopicPartition_def wf_TopicPartitionError_def wf_DeleteRecordsRequestTopic_def
     wf_DeleteRecordsResponseTopic_def wf_alterPartitionReassignmentsBlock_def
     wf_alterPartitionReassignmentsErrorBlock_def wf_reassignment_topics_def
     wf_PartitionReplicaReassignmentsStatus_def wf_topics_def wf_partitions_def wf_int32s_def list_of_def)

definition ex_DeleteTopicsRequest :: DeleteTopicsRequest where
  "ex_DeleteTopicsRequest = \<lparr>dtq_Version = 1, dtq_Topics = [''orders''], dtq_Timeout = 0\<rparr>"

lemma ex_DeleteTopicsRequest_wf: "wf_DeleteTopicsRequest ex_DeleteTopicsRequest"
  by (simp add: ex_DeleteTopicsRequest_def wf_DeleteTopicsRequest_def wf_millis32_def wf_TopicDetail_def
     wf_TopicError_def wf_TopicPartition_def wf_TopicPartitionError_def wf_DeleteRecordsRequestTopic_def
     wf_DeleteRecordsResponseTopic_def wf_alterPartitionReassignmentsBlock_def
     wf_alterPartitionReassignmentsErrorBlock_def wf_reassignment_topics_def
     wf_PartitionReplicaReassignmentsStatus_def wf_topics_def wf_partitions_def wf_int32s_def list_of_def)

definition ex_DeleteTopicsResponse :: DeleteTopicsResponse where
  "ex_DeleteTopicsResponse = \<lparr>dtr_Version = 1, dtr_ThrottleTime = 0, dtr_TopicErrorCodes = [(''orders'',
     3)]\<rparr>"

lemma ex_DeleteTopicsResponse_wf: "wf_DeleteTopicsResponse ex_DeleteTopicsResponse"
  by (simp add: ex_DeleteTopicsResponse_def wf_DeleteTopicsResponse_def wf_millis32_def wf_TopicDetail_def
     wf_TopicError_def wf_TopicPartition_def wf_TopicPartitionError_def wf_DeleteRecordsRequestTopic_def
     wf_DeleteRecordsResponseTopic_def wf_alterPartitionReassignmentsBlock_def
     wf_alterPartitionReassignmentsErrorBlock_def wf_reassignment_topics_def
     wf_PartitionReplicaReassignmentsStatus_def wf_topics_def wf_partitions_def wf_int32s_def list_of_def)

definition ex_DeleteRecordsRequest :: DeleteRecordsRequest where
  "ex_DeleteRecordsRequest = \<lparr>drq_Version = 0, drq_Topics = [(''orders'', \<lparr>dqt_PartitionOffsets = [(0,
     10), (2, 5)]\<rparr>)], drq_Timeout = 0\<rparr>"

lemma ex_DeleteRecordsRequest_wf: "wf_DeleteRecordsRequest ex_DeleteRecordsRequest"
  by (simp add: ex_DeleteRecordsRequest_def wf_DeleteRecordsRequest_def wf_millis32_def wf_TopicDetail_def
     wf_TopicError_def wf_TopicPartition_def wf_TopicPartitionError_def wf_DeleteRecordsRequestTopic_def
     wf_DeleteRecordsResponseTopic_def wf_alterPartitionReassignmentsBlock_def
     wf_alterPartitionReassignmentsErrorBlock_def wf_reassignment_topics_def
     wf_PartitionReplicaReassignmentsStatus_def wf_topics_def wf_partitions_def wf_int32s_def list_of_def)

definition ex_DeleteRecordsResponse :: DeleteRecordsResponse where
  "ex_DeleteRecordsResponse = \<lparr>drr_Version = 0, drr_ThrottleTime = 0, drr_Topics = [(''orders'',
     \<lparr>drt_Partitions = [(0, \<lparr>drp_LowWatermark = 10, drp_Err = 0\<rparr>)]\<rparr>)]\<rparr>"

lemma ex_DeleteRecordsResponse_wf: "wf_DeleteRecordsResponse ex_DeleteRecordsResponse"
  by (simp add: ex_DeleteRecordsResponse_def wf_DeleteRecordsResponse_def wf_millis32_def wf_TopicDetail_def
     wf_TopicError_def wf_TopicPartition_def wf_TopicPartitionError_def wf_DeleteRecordsRequestTopic_def
     wf_DeleteRecordsResponseTopic_def wf_alterPartitionReassignmentsBlock_def
     wf_alterPartitionReassignmentsErrorBlock_def wf_reassignment_topics_def
     wf_PartitionReplicaReassignmentsStatus_def wf_topics_def wf_partitions_def wf_int32s_def list_of_def)

definition ex_AlterPartitionReassignmentsRequest :: AlterPartitionReassignmentsRequest where
  "ex_AlterPartitionReassignmentsRequest = \<lparr>raq_Version = 0, raq_TimeoutMs = 9, raq_blocks = [(''orders'',
     [(2, \<lparr>apb_replicas = Some [1, 3]\<rparr>)])]\<rparr>"

lemma ex_AlterPartitionReassignmentsRequest_wf: "wf_AlterPartitionReassignmentsRequest
     ex_AlterPartitionReassignmentsRequest"
  by (simp add: ex_AlterPartitionReassignmentsRequest_def wf_AlterPartitionReassignmentsRequest_def wf_millis32_def
     wf_TopicDetail_def wf_TopicError_def wf_TopicPartition_def wf_TopicPartitionError_def
     wf_DeleteRecordsRequestTopic_def wf_DeleteRecordsResponseTopic_def wf_alterPartitionReassignmentsBlock_def
     wf_alterPartitionReassignmentsErrorBlock_def wf_reassignment_topics_def
     wf_PartitionReplicaReassignmentsStatus_def wf_topics_def wf_partitions_def wf_int32s_def list_of_def)

definition ex_AlterPartitionReassignmentsResponse :: AlterPartitionReassignmentsResponse where
  "ex_AlterPartitionReassignmentsResponse = \<lparr>rar_Version = 0, rar_ThrottleTimeMs = 0, rar_ErrorCode = 0,
     rar_ErrorMessage = None, rar_Errors = [(''orders'', [(2, \<lparr>aeb_errorCode = 0, aeb_errorMessage =
     None\<rparr>)])]\<rparr>"

lemma ex_AlterPartitionReassignmentsResponse_wf: "wf_AlterPartitionReassignmentsResponse
     ex_AlterPartitionReassignmentsResponse"
  by (simp add: ex_AlterPartitionReassignmentsResponse_def wf_AlterPartitionReassignmentsResponse_def
     wf_millis32_def wf_TopicDetail_def wf_TopicError_def wf_TopicPartition_def wf_TopicPartitionError_def
     wf_DeleteRecordsRequestTopic_def wf_DeleteRecordsResponseTopic_def wf_alterPartitionReassignmentsBlock_def
     wf_alterPartitionReassignmentsErrorBlock_def wf_reassignment_topics_def
     wf_PartitionReplicaReassignmentsStatus_def wf_topics_def wf_partitions_def wf_int32s_def list_of_def)

definition ex_ListPartitionReassignmentsRequest :: ListPartitionReassignmentsRequest where
  "ex_ListPartitionReassignmentsRequest = \<lparr>lrq_Version = 0, lrq_TimeoutMs = 9, lrq_blocks = [(''orders'',
     Some [2])]\<rparr>"

lemma ex_ListPartitionReassignmentsRequest_wf: "wf_ListPartitionReassignmentsRequest
     ex_ListPartitionReassignmentsRequest"
  by (simp add: ex_ListPartitionReassignmentsRequest_def wf_ListPartitionReassignmentsRequest_def wf_millis32_def
     wf_TopicDetail_def wf_TopicError_def wf_TopicPartition_def wf_TopicPartitionError_def
     wf_DeleteRecordsRequestTopic_def wf_DeleteRecordsResponseTopic_def wf_alterPartitionReassignmentsBlock_def
     wf_alterPartitionReassignmentsErrorBlock_def wf_reassignment_topics_def
     wf_PartitionReplicaReassignmentsStatus_def wf_topics_def wf_partitions_def wf_int32s_def list_of_def)

definition ex_ListPartitionReassignmentsResponse :: ListPartitionReassignmentsResponse where
  "ex_ListPartitionReassignmentsResponse = \<lparr>lrr_Version = 0, lrr_ThrottleTimeMs = 0, lrr_ErrorCode = 0,
     lrr_ErrorMessage = None, lrr_TopicStatus = [(''orders'', [(2, \<lparr>prs_Replicas = Some [1],
     prs_AddingReplicas = Some [3], prs_RemovingReplicas = Some []\<rparr>)])]\<rparr>"

lemma ex_ListPartitionReassignmentsResponse_wf: "wf_ListPartitionReassignmentsResponse
     ex_ListPartitionReassignmentsResponse"
  by (simp add: ex_ListPartitionReassignmentsResponse_def wf_ListPartitionReassignmentsResponse_def wf_millis32_def
     wf_TopicDetail_def wf_TopicError_def wf_TopicPartition_def wf_TopicPartitionError_def
     wf_DeleteRecordsRequestTopic_def wf_DeleteRecordsResponseTopic_def wf_alterPartitionReassignmentsBlock_def
     wf_alterPartitionReassignmentsErrorBlock_def wf_reassignment_topics_def
     wf_PartitionReplicaReassignmentsStatus_def wf_topics_def wf_partitions_def wf_int32s_def list_of_def)

definition ex_DescribeConfigsRequest :: DescribeConfigsRequest where
  "ex_DescribeConfigsRequest = \<lparr>dcq_Version = 1, dcq_Resources = [\<lparr>cfr_Type = 2, cfr_Name =
     ''orders'', cfr_ConfigNames = []\<rparr>], dcq_IncludeSynonyms = True\<rparr>"

lemma ex_DescribeConfigsRequest_wf: "wf_DescribeConfigsRequest ex_DescribeConfigsRequest"
  by (simp add: ex_DescribeConfigsRequest_def wf_DescribeConfigsRequest_def wf_millis32_def wf_ConfigResource_def
     wf_ResourceResponse_def wf_ConfigEntry_def wf_ConfigSynonym_def wf_AlterConfigsResource_def
     wf_AlterConfigsResourceResponse_def wf_IncrementalAlterConfigsResource_def wf_IncrementalAlterConfigsEntry_def
     wf_DescribeLogDirsRequestTopic_def wf_DescribeLogDirsResponseDirMetadata_def
     wf_DescribeLogDirsResponseTopic_def)

definition ex_DescribeConfigsResponse :: DescribeConfigsResponse where
  "ex_DescribeConfigsResponse = \<lparr>dcr_Version = 1, dcr_ThrottleTime = 0, dcr_Resources =
     [\<lparr>rsp_ErrorCode = 0, rsp_ErrorMsg = [], rsp_Type = 2, rsp_Name = ''orders'', rsp_Configs =
     []\<rparr>]\<rparr>"

lemma ex_DescribeConfigsResponse_wf: "wf_DescribeConfigsResponse ex_DescribeConfigsResponse"
  by (simp add: ex_DescribeConfigsResponse_def wf_DescribeConfigsResponse_def wf_millis32_def wf_ConfigResource_def
     wf_ResourceResponse_def wf_ConfigEntry_def wf_ConfigSynonym_def wf_AlterConfigsResource_def
     wf_AlterConfigsResourceResponse_def wf_IncrementalAlterConfigsResource_def wf_IncrementalAlterConfigsEntry_def
     wf_DescribeLogDirsRequestTopic_def wf_DescribeLogDirsResponseDirMetadata_def
     wf_DescribeLogDirsResponseTopic_def)

definition ex_AlterConfigsRequest :: AlterConfigsRequest where
  "ex_AlterConfigsRequest = \<lparr>acq_Version = 0, acq_Resources = [\<lparr>acs_Type = 2, acs_Name = ''orders'',
     acs_ConfigEntries = [(''retention.ms'', Some ''1'')]\<rparr>], acq_ValidateOnly = False\<rparr>"

lemma ex_AlterConfigsRequest_wf: "wf_AlterConfigsRequest ex_AlterConfigsRequest"
  by (simp add: ex_AlterConfigsRequest_def wf_AlterConfigsRequest_def wf_millis32_def wf_ConfigResource_def
     wf_ResourceResponse_def wf_ConfigEntry_def wf_ConfigSynonym_def wf_AlterConfigsResource_def
     wf_AlterConfigsResourceResponse_def wf_IncrementalAlterConfigsResource_def wf_IncrementalAlterConfigsEntry_def
     wf_DescribeLogDirsRequestTopic_def wf_DescribeLogDirsResponseDirMetadata_def
     wf_DescribeLogDirsResponseTopic_def)

definition ex_AlterConfigsResponse :: AlterConfigsResponse where
  "ex_AlterConfigsResponse = \<lparr>arp_Version = 0, arp_ThrottleTime = 0, arp_Resources = [\<lparr>ars_ErrorCode =
     0, ars_ErrorMsg = [], ars_Type = 2, ars_Name = ''orders''\<rparr>]\<rparr>"

lemma ex_AlterConfigsResponse_wf: "wf_AlterConfigsResponse ex_AlterConfigsResponse"
  by (simp add: ex_AlterConfigsResponse_def wf_AlterConfigsResponse_def wf_millis32_def wf_ConfigResource_def
     wf_ResourceResponse_def wf_ConfigEntry_def wf_ConfigSynonym_def wf_AlterConfigsResource_def
     wf_AlterConfigsResourceResponse_def wf_IncrementalAlterConfigsResource_def wf_IncrementalAlterConfigsEntry_def
     wf_DescribeLogDirsRequestTopic_def wf_DescribeLogDirsResponseDirMetadata_def
     wf_DescribeLogDirsResponseTopic_def)

definition ex_IncrementalAlterConfigsRequest :: IncrementalAlterConfigsRequest where
  "ex_IncrementalAlterConfigsRequest = \<lparr>icq_Version = 0, icq_Resources = [\<lparr>ics_Type = 2, ics_Name =
     ''orders'', ics_ConfigEntries = [(''retention.ms'', \<lparr>ice_Operation = 1, ice_Value =
     None\<rparr>)]\<rparr>], icq_ValidateOnly = False\<rparr>"

lemma ex_IncrementalAlterConfigsRequest_wf: "wf_IncrementalAlterConfigsRequest ex_IncrementalAlterConfigsRequest"
  by (simp add: ex_IncrementalAlterConfigsRequest_def wf_IncrementalAlterConfigsRequest_def wf_millis32_def
     wf_ConfigResource_def wf_ResourceResponse_def wf_ConfigEntry_def wf_ConfigSynonym_def
     wf_AlterConfigsResource_def wf_AlterConfigsResourceResponse_def wf_IncrementalAlterConfigsResource_def
     wf_IncrementalAlterConfigsEntry_def wf_DescribeLogDirsRequestTopic_def
     wf_DescribeLogDirsResponseDirMetadata_def wf_DescribeLogDirsResponseTopic_def)

definition ex_IncrementalAlterConfigsResponse :: IncrementalAlterConfigsResponse where
  "ex_IncrementalAlterConfigsResponse = \<lparr>icr_Version = 0, icr_ThrottleTime = 0, icr_Resources =
     [\<lparr>ars_ErrorCode = 0, ars_ErrorMsg = [], ars_Type = 2, ars_Name = ''orders''\<rparr>]\<rparr>"

lemma ex_IncrementalAlterConfigsResponse_wf: "wf_IncrementalAlterConfigsResponse ex_IncrementalAlterConfigsResponse"
  by (simp add: ex_IncrementalAlterConfigsResponse_def wf_IncrementalAlterConfigsResponse_def wf_millis32_def
     wf_ConfigResource_def wf_ResourceResponse_def wf_ConfigEntry_def wf_ConfigSynonym_def
     wf_AlterConfigsResource_def wf_AlterConfigsResourceResponse_def wf_IncrementalAlterConfigsResource_def
     wf_IncrementalAlterConfigsEntry_def wf_DescribeLogDirsRequestTopic_def
     wf_DescribeLogDirsResponseDirMetadata_def wf_DescribeLogDirsResponseTopic_def)

definition ex_DescribeLogDirsRequest :: DescribeLogDirsRequest where
  "ex_DescribeLogDirsRequest = \<lparr>dlq_Version = 0, dlq_DescribeTopics = [\<lparr>dlt_Topic = ''orders'',
     dlt_PartitionIDs = [2]\<rparr>]\<rparr>"

lemma ex_DescribeLogDirsRequest_wf: "wf_DescribeLogDirsRequest ex_DescribeLogDirsRequest"
  by (simp add: ex_DescribeLogDirsRequest_def wf_DescribeLogDirsRequest_def wf_millis32_def wf_ConfigResource_def
     wf_ResourceResponse_def wf_ConfigEntry_def wf_ConfigSynonym_def wf_AlterConfigsResource_def
     wf_AlterConfigsResourceResponse_def wf_IncrementalAlterConfigsResource_def wf_IncrementalAlterConfigsEntry_def
     wf_DescribeLogDirsRequestTopic_def wf_DescribeLogDirsResponseDirMetadata_def
     wf_DescribeLogDirsResponseTopic_def)

definition ex_DescribeLogDirsResponse :: DescribeLogDirsResponse where
  "ex_DescribeLogDirsResponse = \<lparr>dlr_Version = 0, dlr_ThrottleTime = 0, dlr_LogDirs = [\<lparr>dlm_ErrorCode
     = 0, dlm_Path = ''d'', dlm_Topics = [\<lparr>dls_Topic = ''orders'', dls_Partitions = [\<lparr>dlp_PartitionID
     = 2, dlp_Size = 100, dlp_OffsetLag = 0, dlp_IsTemporary = False\<rparr>]\<rparr>]\<rparr>]\<rparr>"

lemma ex_DescribeLogDirsResponse_wf: "wf_DescribeLogDirsResponse ex_DescribeLogDirsResponse"
  by (simp add: ex_DescribeLogDirsResponse_def wf_DescribeLogDirsResponse_def wf_millis32_def wf_ConfigResource_def
     wf_ResourceResponse_def wf_ConfigEntry_def wf_ConfigSynonym_def wf_AlterConfigsResource_def
     wf_AlterConfigsResourceResponse_def wf_IncrementalAlterConfigsResource_def wf_IncrementalAlterConfigsEntry_def
     wf_DescribeLogDirsRequestTopic_def wf_DescribeLogDirsResponseDirMetadata_def
     wf_DescribeLogDirsResponseTopic_def)

definition ex_CreateAclsRequest :: CreateAclsRequest where
  "ex_CreateAclsRequest = \<lparr>caq_Version = 1, caq_AclCreations = [\<lparr>acr_Resource =
     \<lparr>rsc_ResourceType = AclResourceTopic, rsc_ResourceName = ''orders'', rsc_ResourcePatternType =
     AclPatternLiteral\<rparr>, acr_Acl = \<lparr>acl_Principal = ''User:a'', acl_Host = ''*'', acl_Operation =
     AclOperationRead, acl_PermissionType = AclPermissionAllow\<rparr>\<rparr>]\<rparr>"

lemma ex_CreateAclsRequest_wf: "wf_CreateAclsRequest ex_CreateAclsRequest"
  by (simp add: ex_CreateAclsRequest_def wf_CreateAclsRequest_def wf_millis32_def wf_AclCreation_def wf_Resource_def
     wf_Acl_def wf_AclFilter_def wf_AclCreationResponse_def wf_FilterResponse_def wf_MatchingAcl_def
     wf_ResourceAcls_def wf_QuotaFilterComponent_def wf_QuotaEntityComponent_def wf_DescribeClientQuotasEntry_def
     wf_ClientQuotasOp_def wf_AlterClientQuotasEntry_def wf_AlterClientQuotasEntryResponse_def
     wf_DescribeUserScramCredentialsRequestUser_def wf_DescribeUserScramCredentialsResult_def
     wf_AlterUserScramCredentialsResult_def wf_small_def)

definition ex_CreateAclsResponse :: CreateAclsResponse where
  "ex_CreateAclsResponse = \<lparr>car_Version = 0, car_ThrottleTime = 0, car_AclCreationResponses =
     [\<lparr>acp_Err = 31, acp_ErrMsg = Some ''no''\<rparr>]\<rparr>"

lemma ex_CreateAclsResponse_wf: "wf_CreateAclsResponse ex_CreateAclsResponse"
  by (simp add: ex_CreateAclsResponse_def wf_CreateAclsResponse_def wf_millis32_def wf_AclCreation_def
     wf_Resource_def wf_Acl_def wf_AclFilter_def wf_AclCreationResponse_def wf_FilterResponse_def wf_MatchingAcl_def
     wf_ResourceAcls_def wf_QuotaFilterComponent_def wf_QuotaEntityComponent_def wf_DescribeClientQuotasEntry_def
     wf_ClientQuotasOp_def wf_AlterClientQuotasEntry_def wf_AlterClientQuotasEntryResponse_def
     wf_DescribeUserScramCredentialsRequestUser_def wf_DescribeUserScramCredentialsResult_def
     wf_AlterUserScramCredentialsResult_def wf_small_def)

definition ex_DeleteAclsRequest :: DeleteAclsRequest where
  "ex_DeleteAclsRequest = \<lparr>daq_Version = 1, daq_Filters = [\<lparr>flt_Version = 1, flt_ResourceType =
     AclResourceTopic, flt_ResourceName = Some ''orders'', flt_ResourcePatternTypeFilter = AclPatternAny,
     flt_Principal = None, flt_Host = None, flt_Operation = AclOperationAny, flt_PermissionType =
     AclPermissionAny\<rparr>]\<rparr>"

lemma ex_DeleteAclsRequest_wf: "wf_DeleteAclsRequest ex_DeleteAclsRequest"
  by (simp add: ex_DeleteAclsRequest_def wf_DeleteAclsRequest_def wf_millis32_def wf_AclCreation_def wf_Resource_def
     wf_Acl_def wf_AclFilter_def wf_AclCreationResponse_def wf_FilterResponse_def wf_MatchingAcl_def
     wf_ResourceAcls_def wf_QuotaFilterComponent_def wf_QuotaEntityComponent_def wf_DescribeClientQuotasEntry_def
     wf_ClientQuotasOp_def wf_AlterClientQuotasEntry_def wf_AlterClientQuotasEntryResponse_def
     wf_DescribeUserScramCredentialsRequestUser_def wf_DescribeUserScramCredentialsResult_def
     wf_AlterUserScramCredentialsResult_def wf_small_def)

definition ex_DeleteAclsResponse :: DeleteAclsResponse where
  "ex_DeleteAclsResponse = \<lparr>dar_Version = 0, dar_ThrottleTime = 0, dar_FilterResponses = [\<lparr>flr_Err =
     0, flr_ErrMsg = None, flr_MatchingAcls = [\<lparr>mac_Err = 0, mac_ErrMsg = None, mac_Resource =
     \<lparr>rsc_ResourceType = AclResourceTopic, rsc_ResourceName = ''orders'', rsc_ResourcePatternType =
     AclPatternLiteral\<rparr>, mac_Acl = \<lparr>acl_Principal = ''User:a'', acl_Host = ''*'', acl_Operation =
     AclOperationRead, acl_PermissionType = AclPermissionAllow\<rparr>\<rparr>]\<rparr>]\<rparr>"

lemma ex_DeleteAclsResponse_wf: "wf_DeleteAclsResponse 1 ex_DeleteAclsResponse"
  by (simp add: ex_DeleteAclsResponse_def wf_DeleteAclsResponse_def wf_millis32_def wf_AclCreation_def
     wf_Resource_def wf_Acl_def wf_AclFilter_def wf_AclCreationResponse_def wf_FilterResponse_def wf_MatchingAcl_def
     wf_ResourceAcls_def wf_QuotaFilterComponent_def wf_QuotaEntityComponent_def wf_DescribeClientQuotasEntry_def
     wf_ClientQuotasOp_def wf_AlterClientQuotasEntry_def wf_AlterClientQuotasEntryResponse_def
     wf_DescribeUserScramCredentialsRequestUser_def wf_DescribeUserScramCredentialsResult_def
     wf_AlterUserScramCredentialsResult_def wf_small_def)

definition ex_DescribeAclsRequest :: DescribeAclsRequest where
  "ex_DescribeAclsRequest = \<lparr>dsq_Version = 1, dsq_AclFilter = \<lparr>flt_Version = 1, flt_ResourceType =
     AclResourceTopic, flt_ResourceName = Some ''orders'', flt_ResourcePatternTypeFilter = AclPatternAny,
     flt_Principal = None, flt_Host = None, flt_Operation = AclOperationAny, flt_PermissionType =
     AclPermissionAny\<rparr>\<rparr>"

lemma ex_DescribeAclsRequest_wf: "wf_DescribeAclsRequest ex_DescribeAclsRequest"
  by (simp add: ex_DescribeAclsRequest_def wf_DescribeAclsRequest_def wf_millis32_def wf_AclCreation_def
     wf_Resource_def wf_Acl_def wf_AclFilter_def wf_AclCreationResponse_def wf_FilterResponse_def wf_MatchingAcl_def
     wf_ResourceAcls_def wf_QuotaFilterComponent_def wf_QuotaEntityComponent_def wf_DescribeClientQuotasEntry_def
     wf_ClientQuotasOp_def wf_AlterClientQuotasEntry_def wf_AlterClientQuotasEntryResponse_def
     wf_DescribeUserScramCredentialsRequestUser_def wf_DescribeUserScramCredentialsResult_def
     wf_AlterUserScramCredentialsResult_def wf_small_def)

definition ex_DescribeAclsResponse :: DescribeAclsResponse where
  "ex_DescribeAclsResponse = \<lparr>dsr_Version = 0, dsr_ThrottleTime = 0, dsr_Err = 0, dsr_ErrMsg = None,
     dsr_ResourceAcls = [\<lparr>rac_Resource = \<lparr>rsc_ResourceType = AclResourceTopic, rsc_ResourceName =
     ''orders'', rsc_ResourcePatternType = AclPatternLiteral\<rparr>, rac_Acls = [\<lparr>acl_Principal =
     ''User:a'', acl_Host = ''*'', acl_Operation = AclOperationRead, acl_PermissionType =
     AclPermissionAllow\<rparr>]\<rparr>]\<rparr>"

lemma ex_DescribeAclsResponse_wf: "wf_DescribeAclsResponse 1 ex_DescribeAclsResponse"
  by (simp add: ex_DescribeAclsResponse_def wf_DescribeAclsResponse_def wf_millis32_def wf_AclCreation_def
     wf_Resource_def wf_Acl_def wf_AclFilter_def wf_AclCreationResponse_def wf_FilterResponse_def wf_MatchingAcl_def
     wf_ResourceAcls_def wf_QuotaFilterComponent_def wf_QuotaEntityComponent_def wf_DescribeClientQuotasEntry_def
     wf_ClientQuotasOp_def wf_AlterClientQuotasEntry_def wf_AlterClientQuotasEntryResponse_def
     wf_DescribeUserScramCredentialsRequestUser_def wf_DescribeUserScramCredentialsResult_def
     wf_AlterUserScramCredentialsResult_def wf_small_def)

definition ex_DescribeClientQuotasRequest :: DescribeClientQuotasRequest where
  "ex_DescribeClientQuotasRequest = \<lparr>dqq_Version = 0, dqq_Components = [\<lparr>qfc_EntityType = ''user'',
     qfc_MatchType = QuotaMatchExact, qfc_Match = ''a''\<rparr>], dqq_Strict = True\<rparr>"

lemma ex_DescribeClientQuotasRequest_wf: "wf_DescribeClientQuotasRequest ex_DescribeClientQuotasRequest"
  by (simp add: ex_DescribeClientQuotasRequest_def wf_DescribeClientQuotasRequest_def wf_millis32_def
     wf_AclCreation_def wf_Resource_def wf_Acl_def wf_AclFilter_def wf_AclCreationResponse_def wf_FilterResponse_def
     wf_MatchingAcl_def wf_ResourceAcls_def wf_QuotaFilterComponent_def wf_QuotaEntityComponent_def
     wf_DescribeClientQuotasEntry_def wf_ClientQuotasOp_def wf_AlterClientQuotasEntry_def
     wf_AlterClientQuotasEntryResponse_def wf_DescribeUserScramCredentialsRequestUser_def
     wf_DescribeUserScramCredentialsResult_def wf_AlterUserScramCredentialsResult_def wf_small_def)

definition ex_DescribeClientQuotasResponse :: DescribeClientQuotasResponse where
  "ex_DescribeClientQuotasResponse = \<lparr>dqr_Version = 0, dqr_ThrottleTime = 0, dqr_ErrorCode = 0, dqr_ErrorMsg
     = None, dqr_Entries = [\<lparr>dqe_Entity = [\<lparr>qec_EntityType = ''user'', qec_MatchType =
     QuotaMatchExact, qec_Name = ''a''\<rparr>], dqe_Values = [(''rate'', 9)]\<rparr>]\<rparr>"

lemma ex_DescribeClientQuotasResponse_wf: "wf_DescribeClientQuotasResponse ex_DescribeClientQuotasResponse"
  by (simp add: ex_DescribeClientQuotasResponse_def wf_DescribeClientQuotasResponse_def wf_millis32_def
     wf_AclCreation_def wf_Resource_def wf_Acl_def wf_AclFilter_def wf_AclCreationResponse_def wf_FilterResponse_def
     wf_MatchingAcl_def wf_ResourceAcls_def wf_QuotaFilterComponent_def wf_QuotaEntityComponent_def
     wf_DescribeClientQuotasEntry_def wf_ClientQuotasOp_def wf_AlterClientQuotasEntry_def
     wf_AlterClientQuotasEntryResponse_def wf_DescribeUserScramCredentialsRequestUser_def
     wf_DescribeUserScramCredentialsResult_def wf_AlterUserScramCredentialsResult_def wf_small_def)

definition ex_AlterClientQuotasRequest :: AlterClientQuotasRequest where
  "ex_AlterClientQuotasRequest = \<lparr>aqq_Version = 0, aqq_Entries = [\<lparr>aqe_Entity =
     [\<lparr>qec_EntityType = ''user'', qec_MatchType = QuotaMatchExact, qec_Name = ''a''\<rparr>], aqe_Ops =
     [\<lparr>cqo_Key = ''rate'', cqo_Value = 9, cqo_Remove = False\<rparr>]\<rparr>], aqq_ValidateOnly =
     False\<rparr>"

lemma ex_AlterClientQuotasRequest_wf: "wf_AlterClientQuotasRequest ex_AlterClientQuotasRequest"
  by (simp add: ex_AlterClientQuotasRequest_def wf_AlterClientQuotasRequest_def wf_millis32_def wf_AclCreation_def
     wf_Resource_def wf_Acl_def wf_AclFilter_def wf_AclCreationResponse_def wf_FilterResponse_def wf_MatchingAcl_def
     wf_ResourceAcls_def wf_QuotaFilterComponent_def wf_QuotaEntityComponent_def wf_DescribeClientQuotasEntry_def
     wf_ClientQuotasOp_def wf_AlterClientQuotasEntry_def wf_AlterClientQuotasEntryResponse_def
     wf_DescribeUserScramCredentialsRequestUser_def wf_DescribeUserScramCredentialsResult_def
     wf_AlterUserScramCredentialsResult_def wf_small_def)

definition ex_AlterClientQuotasResponse :: AlterClientQuotasResponse where
  "ex_AlterClientQuotasResponse = \<lparr>aqr_Version = 0, aqr_ThrottleTime = 0, aqr_Entries =
     [\<lparr>aqs_ErrorCode = 0, aqs_ErrorMsg = None, aqs_Entity = [\<lparr>qec_EntityType = ''user'', qec_MatchType
     = QuotaMatchExact, qec_Name = ''a''\<rparr>]\<rparr>]\<rparr>"

lemma ex_AlterClientQuotasResponse_wf: "wf_AlterClientQuotasResponse ex_AlterClientQuotasResponse"
  by (simp add: ex_AlterClientQuotasResponse_def wf_AlterClientQuotasResponse_def wf_millis32_def wf_AclCreation_def
     wf_Resource_def wf_Acl_def wf_AclFilter_def wf_AclCreationResponse_def wf_FilterResponse_def wf_MatchingAcl_def
     wf_ResourceAcls_def wf_QuotaFilterComponent_def wf_QuotaEntityComponent_def wf_DescribeClientQuotasEntry_def
     wf_ClientQuotasOp_def wf_AlterClientQuotasEntry_def wf_AlterClientQuotasEntryResponse_def
     wf_DescribeUserScramCredentialsRequestUser_def wf_DescribeUserScramCredentialsResult_def
     wf_AlterUserScramCredentialsResult_def wf_small_def)

definition ex_SaslHandshakeRequest :: SaslHandshakeRequest where
  "ex_SaslHandshakeRequest = \<lparr>shq_Version = 1, shq_Mechanism = ''PLAIN''\<rparr>"

lemma ex_SaslHandshakeRequest_wf: "wf_SaslHandshakeRequest ex_SaslHandshakeRequest"
  by (simp add: ex_SaslHandshakeRequest_def wf_SaslHandshakeRequest_def wf_millis32_def wf_AclCreation_def
     wf_Resource_def wf_Acl_def wf_AclFilter_def wf_AclCreationResponse_def wf_FilterResponse_def wf_MatchingAcl_def
     wf_ResourceAcls_def wf_QuotaFilterComponent_def wf_QuotaEntityComponent_def wf_DescribeClientQuotasEntry_def
     wf_ClientQuotasOp_def wf_AlterClientQuotasEntry_def wf_AlterClientQuotasEntryResponse_def
     wf_DescribeUserScramCredentialsRequestUser_def wf_DescribeUserScramCredentialsResult_def
     wf_AlterUserScramCredentialsResult_def wf_small_def)

definition ex_SaslHandshakeResponse :: SaslHandshakeResponse where
  "ex_SaslHandshakeResponse = \<lparr>shr_Version = 0, shr_Err = 0, shr_EnabledMechanisms = [''PLAIN'']\<rparr>"

lemma ex_SaslHandshakeResponse_wf: "wf_SaslHandshakeResponse ex_SaslHandshakeResponse"
  by (simp add: ex_SaslHandshakeResponse_def wf_SaslHandshakeResponse_def wf_millis32_def wf_AclCreation_def
     wf_Resource_def wf_Acl_def wf_AclFilter_def wf_AclCreationResponse_def wf_FilterResponse_def wf_MatchingAcl_def
     wf_ResourceAcls_def wf_QuotaFilterComponent_def wf_QuotaEntityComponent_def wf_DescribeClientQuotasEntry_def
     wf_ClientQuotasOp_def wf_AlterClientQuotasEntry_def wf_AlterClientQuotasEntryResponse_def
     wf_DescribeUserScramCredentialsRequestUser_def wf_DescribeUserScramCredentialsResult_def
     wf_AlterUserScramCredentialsResult_def wf_small_def)

definition ex_SaslAuthenticateRequest :: SaslAuthenticateRequest where
  "ex_SaslAuthenticateRequest = \<lparr>saq_Version = 1, saq_SaslAuthBytes = Some [0, 1]\<rparr>"

lemma ex_SaslAuthenticateRequest_wf: "wf_SaslAuthenticateRequest ex_SaslAuthenticateRequest"
  by (simp add: ex_SaslAuthenticateRequest_def wf_SaslAuthenticateRequest_def wf_millis32_def wf_AclCreation_def
     wf_Resource_def wf_Acl_def wf_AclFilter_def wf_AclCreationResponse_def wf_FilterResponse_def wf_MatchingAcl_def
     wf_ResourceAcls_def wf_QuotaFilterComponent_def wf_QuotaEntityComponent_def wf_DescribeClientQuotasEntry_def
     wf_ClientQuotasOp_def wf_AlterClientQuotasEntry_def wf_AlterClientQuotasEntryResponse_def
     wf_DescribeUserScramCredentialsRequestUser_def wf_DescribeUserScramCredentialsResult_def
     wf_AlterUserScramCredentialsResult_def wf_small_def)

definition ex_SaslAuthenticateResponse :: SaslAuthenticateResponse where
  "ex_SaslAuthenticateResponse = \<lparr>sar_Version = 1, sar_Err = 0, sar_ErrorMessage = None, sar_SaslAuthBytes =
     Some [], sar_SessionLifetimeMs = 60\<rparr>"

lemma ex_SaslAuthenticateResponse_wf: "wf_SaslAuthenticateResponse ex_SaslAuthenticateResponse"
  by (simp add: ex_SaslAuthenticateResponse_def wf_SaslAuthenticateResponse_def wf_millis32_def wf_AclCreation_def
     wf_Resource_def wf_Acl_def wf_AclFilter_def wf_AclCreationResponse_def wf_FilterResponse_def wf_MatchingAcl_def
     wf_ResourceAcls_def wf_QuotaFilterComponent_def wf_QuotaEntityComponent_def wf_DescribeClientQuotasEntry_def
     wf_ClientQuotasOp_def wf_AlterClientQuotasEntry_def wf_AlterClientQuotasEntryResponse_def
     wf_DescribeUserScramCredentialsRequestUser_def wf_DescribeUserScramCredentialsResult_def
     wf_AlterUserScramCredentialsResult_def wf_small_def)

definition ex_DescribeUserScramCredentialsRequest :: DescribeUserScramCredentialsRequest where
  "ex_DescribeUserScramCredentialsRequest = \<lparr>duq_Version = 0, duq_DescribeUsers = [\<lparr>duu_Name =
     ''a''\<rparr>]\<rparr>"

lemma ex_DescribeUserScramCredentialsRequest_wf: "wf_DescribeUserScramCredentialsRequest
     ex_DescribeUserScramCredentialsRequest"
  by (simp add: ex_DescribeUserScramCredentialsRequest_def wf_DescribeUserScramCredentialsRequest_def
     wf_millis32_def wf_AclCreation_def wf_Resource_def wf_Acl_def wf_AclFilter_def wf_AclCreationResponse_def
     wf_FilterResponse_def wf_MatchingAcl_def wf_ResourceAcls_def wf_QuotaFilterComponent_def
     wf_QuotaEntityComponent_def wf_DescribeClientQuotasEntry_def wf_ClientQuotasOp_def
     wf_AlterClientQuotasEntry_def wf_AlterClientQuotasEntryResponse_def
     wf_DescribeUserScramCredentialsRequestUser_def wf_DescribeUserScramCredentialsResult_def
     wf_AlterUserScramCredentialsResult_def wf_small_def)

definition ex_DescribeUserScramCredentialsResponse :: DescribeUserScramCredentialsResponse where
  "ex_DescribeUserScramCredentialsResponse = \<lparr>dur_Version = 0, dur_ThrottleTime = 0, dur_ErrorCode = 0,
     dur_ErrorMessage = None, dur_Results = [\<lparr>dus_User = ''a'', dus_ErrorCode = 0, dus_ErrorMessage = None,
     dus_CredentialInfos = [\<lparr>usi_Mechanism = 1, usi_Iterations = 4096\<rparr>]\<rparr>]\<rparr>"

lemma ex_DescribeUserScramCredentialsResponse_wf: "wf_DescribeUserScramCredentialsResponse
     ex_DescribeUserScramCredentialsResponse"
  by (simp add: ex_DescribeUserScramCredentialsResponse_def wf_DescribeUserScramCredentialsResponse_def
     wf_millis32_def wf_AclCreation_def wf_Resource_def wf_Acl_def wf_AclFilter_def wf_AclCreationResponse_def
     wf_FilterResponse_def wf_MatchingAcl_def wf_ResourceAcls_def wf_QuotaFilterComponent_def
     wf_QuotaEntityComponent_def wf_DescribeClientQuotasEntry_def wf_ClientQuotasOp_def
     wf_AlterClientQuotasEntry_def wf_AlterClientQuotasEntryResponse_def
     wf_DescribeUserScramCredentialsRequestUser_def wf_DescribeUserScramCredentialsResult_def
     wf_AlterUserScramCredentialsResult_def wf_small_def)

definition ex_AlterUserScramCredentialsResponse :: AlterUserScramCredentialsResponse where
  "ex_AlterUserScramCredentialsResponse = \<lparr>aur_Version = 0, aur_ThrottleTime = 0, aur_Results =
     [\<lparr>aus_User = ''a'', aus_ErrorCode = 0, aus_ErrorMessage = None\<rparr>]\<rparr>"

lemma ex_AlterUserScramCredentialsResponse_wf: "wf_AlterUserScramCredentialsResponse
     ex_AlterUserScramCredentialsResponse"
  by (simp add: ex_AlterUserScramCredentialsResponse_def wf_AlterUserScramCredentialsResponse_def wf_millis32_def
     wf_AclCreation_def wf_Resource_def wf_Acl_def wf_AclFilter_def wf_AclCreationResponse_def wf_FilterResponse_def
     wf_MatchingAcl_def wf_ResourceAcls_def wf_QuotaFilterComponent_def wf_QuotaEntityComponent_def
     wf_DescribeClientQuotasEntry_def wf_ClientQuotasOp_def wf_AlterClientQuotasEntry_def
     wf_AlterClientQuotasEntryResponse_def wf_DescribeUserScramCredentialsRequestUser_def
     wf_DescribeUserScramCredentialsResult_def wf_AlterUserScramCredentialsResult_def wf_small_def)

subsection \<open>Connections\<close>

definition ex_hashes :: hashes where
  "ex_hashes = \<lparr>hmac_sha256 = (\<lambda>key text. take 32 (key @ replicate 32 0)), hmac_sha512 = (\<lambda>key text. take 64 (key @ replicate 64 0))\<rparr>"

definition ex_body :: request_body where
  "ex_body = Body_Heartbeat \<lparr>hbq_Version = 3, hbq_GroupId = ''audit'', hbq_GenerationId = 4, hbq_MemberId = ''m1'',
     hbq_GroupInstanceId = None\<rparr>"

definition ex_broker_conf :: "nat \<Rightarrow> broker_conf" where
  "ex_broker_conf n = \<lparr>bc_Version = V2_5_0_0, bc_ClientID = ''c'', bc_MaxOpenRequests = n\<rparr>"

lemma ex_body_version: "IsAtLeast V2_5_0_0 V2_3_0_0"
  by code_simp

lemma ex_body_sendable: "always_sendable marking_codecs ex_hashes (ex_broker_conf n) ex_body"
  using ex_body_version
  by (simp add: always_sendable_def sendable_def request_of_def wf_request_def ex_body_def ex_broker_conf_def
      wf_HeartbeatRequest_def HeartbeatRequest_methods_def request_bytes_def enc_request_def
      enc_HeartbeatRequest_def ser_simps ser_string_def ser_nstring_def MaxRequestSize_def)

lemma ex_body_needs_response: "needs_response ex_body"
  by (simp add: needs_response_def ex_body_def)

definition ex_answer :: "request \<Rightarrow> byte list" where
  "ex_answer r = ser_ops (enc_HeartbeatResponse \<lparr>hbr_Version = 3, hbr_ThrottleTime = 0, hbr_Err = 27\<rparr>)"

abbreviation ex_peer :: "byte list \<Rightarrow> byte list" where
  "ex_peer \<equiv> \<lambda>stream. serve (length stream) marking_codecs ex_answer stream"

lemma ex_peer_answers: "answers_in_order marking_codecs ex_hashes ex_peer ex_answer"
proof -
  have "answers_in_order marking_codecs ex_hashes ex_peer (\<lambda>r. ex_answer (request_on_wire ex_hashes r))"
    by (rule serve_answers_in_order [OF lossless_marking_codecs])
      (simp add: ex_answer_def enc_HeartbeatResponse_def ser_simps MaxResponseSize_def)
  moreover have "(\<lambda>r. ex_answer (request_on_wire ex_hashes r)) = ex_answer" by (simp add: ex_answer_def fun_eq_iff)
  ultimately show ?thesis by simp
qed

lemma ex_run:
  "\<exists>c. pipeline marking_codecs ex_hashes ex_peer (ex_broker_conf 1) False new_connection c \<and> pending c = [] \<and>
     cn_requests c = [request_of (ex_broker_conf 1) new_connection ex_body] \<and> length (cn_handled c) = 1"
proof -
  obtain hv where hv: "promise_header ex_body = Some hv"
    using ex_body_needs_response by (simp add: promise_header_def)
  have idle: "pending new_connection = []" "cn_requests new_connection = []" "cn_handled new_connection = []"
    by (simp_all add: new_connection_def pending_def)
  have "sendable marking_codecs ex_hashes (ex_broker_conf 1) new_connection ex_body"
    using ex_body_sendable by (simp add: always_sendable_def)
  note ex = exchange_pipeline [OF idle(1) this lossless_marking_codecs hv, where peer = ex_peer, unfolded idle append_Nil]
  then have "length (cn_handled (snd (exchange marking_codecs ex_hashes ex_peer (ex_broker_conf 1) new_connection ex_body
      (Some hv)))) = 1" by (metis One_nat_def length_Cons list.size(3))
  with ex show ?thesis by blast
qed

lemma ex_run_wf: "wf_request marking_codecs ex_hashes (request_of (ex_broker_conf n) c ex_body)"
  using ex_body_sendable [of n] by (simp add: always_sendable_def sendable_def)

subsection \<open>Assignments\<close>

definition ex_subscription :: "string list \<Rightarrow> ConsumerGroupMemberMetadata" where
  "ex_subscription topics = \<lparr>mmd_Version = 0, mmd_Topics = topics, mmd_UserData = None, mmd_OwnedPartitions = [],
     mmd_GenerationID = 0, mmd_RackID = None\<rparr>"

definition ex_members :: members where
  "ex_members = [(''m2'', ex_subscription [''orders'']), (''m1'', ex_subscription [''audit'', ''orders''])]"

definition ex_topics :: topic_list where
  "ex_topics = [(''orders'', [0, 1, 2, 3, 4]), (''audit'', [0])]"

lemma ex_subscribes:
  "subscribes ex_members m t \<longleftrightarrow> (m = ''m1'' \<and> t \<in> {''audit'', ''orders''}) \<or> (m = ''m2'' \<and> t = ''orders'')"
  by (simp add: subscribes_def ex_members_def ex_subscription_def conj_disj_distribR ex_disj_distrib disj_commute)

lemma ex_go_maps: "go_maps ex_members ex_topics"
  by (simp add: go_maps_def ex_members_def ex_topics_def)

lemma ex_covered: "covered ex_members ex_topics"
  unfolding covered_def ex_subscribes by (simp add: ex_members_def ex_topics_def) blast

definition ex_equal_members :: members where
  "ex_equal_members = [(''m2'', ex_subscription [''orders'']), (''m1'', ex_subscription [''orders''])]"

lemma ex_equal_subscribes: "subscribes ex_equal_members m ''orders'' \<longleftrightarrow> m \<in> fst ` set ex_equal_members"
  by (simp add: subscribes_def ex_equal_members_def ex_subscription_def conj_disj_distribR ex_disj_distrib)

subsection \<open>Consuming, offsets, metadata and configuration\<close>

definition ex_log_batch :: "int64 \<Rightarrow> bool \<Rightarrow> bool \<Rightarrow> int64 \<Rightarrow> (nbytes \<times> nbytes) list \<Rightarrow> RecordBatch" where
  "ex_log_batch pid txn control first kvs =
     \<lparr>rb_FirstOffset = first, rb_PartitionLeaderEpoch = 0, rb_Version = 2, rb_Codec = 0,
      rb_CompressionLevel = 0, rb_Control = control, rb_LogAppendTime = False, rb_LastOffsetDelta = word_of_nat (length kvs) - 1,
      rb_FirstTimestamp = 0, rb_MaxTimestamp = 0, rb_ProducerID = pid, rb_ProducerEpoch = 0,
      rb_FirstSequence = 0,
      rb_Records = map (\<lambda>(i, k, v). \<lparr>rec_Headers = [], rec_Attributes = 0, rec_TimestampDelta = 0, rec_OffsetDelta = word_of_nat i,
        rec_Key = k, rec_Value = v\<rparr>) (enumerate 0 kvs),
      rb_PartialTrailingRecord = False, rb_IsTransactional = txn, rb_compressedRecords = None, rb_recordsLen = 0\<rparr>"

definition ex_log :: "RecordBatch list" where
  "ex_log =
     [ex_log_batch 1 True False 0 [(None, Some [1]), (None, Some [2])],
      ex_log_batch 2 True False 2 [(None, Some [3])],
      ex_log_batch 1 True True 3 [(Some [0, 0, 0, 0], Some [0, 0, 0, 0, 0, 0])],
      ex_log_batch 7 False False 4 [(None, Some [4])],
      ex_log_batch 2 True True 5 [(Some [0, 0, 0, 1], Some [0, 0, 0, 0, 0, 0])]]"

lemma ex_log_ok: "log_ok ex_log"
  by code_simp

lemma ex_log_decided: "decided (length ex_log) ex_log"
  by code_simp

definition ex_fetch_conf :: fetch_conf where
  "ex_fetch_conf = \<lparr>fc_Version = V2_3_0_0, fc_Fetch_Min = 1, fc_Fetch_Default = 1048576, fc_Fetch_Max = 0, fc_MaxWaitTime = 500000000,
     fc_IsolationLevel = ReadCommitted, fc_RackID = [], fc_Return_Errors = False\<rparr>"

definition ex_child :: partitionConsumer where
  "ex_child = (new_partitionConsumer ex_fetch_conf ''orders'' 2)\<lparr>pc_offset := 1\<rparr>"

definition ex_log_response :: FetchResponse where
  "ex_log_response = \<lparr>frs_Version = 11, frs_ThrottleTime = 0, frs_ErrorCode = 0, frs_SessionID = 0,
     frs_Blocks = [(''orders'', [(2, \<lparr>frb_Err = 0, frb_HighWaterMarkOffset = 6, frb_LastStableOffset = 6,
       frb_LastRecordsBatchOffset = Some 5, frb_LogStartOffset = 0,
       frb_AbortedTransactions = [\<lparr>abt_ProducerID = 1, abt_FirstOffset = 0\<rparr>], frb_PreferredReadReplica = - 1,
       frb_RecordsSet = map newDefaultRecords ex_log, frb_Partial = False, frb_Records = None\<rparr>)])],
     frs_LogAppendTime = False, frs_Timestamp = zeroTime\<rparr>"

lemma ex_log_index: "aborted_index (\<lambda>_. None) ex_log = [(\<lparr>abt_ProducerID = 1, abt_FirstOffset = 0\<rparr>, 3)]"
  by code_simp

lemma ex_fetched: "fetched 1 5 ex_log = ex_log"
  by code_simp

lemma ex_log_last: "last_of (last ex_log) = 5"
  by code_simp

lemma ex_answered: "answered ex_fetch_conf ex_log [(5, ex_log_response)] ex_child"
proof -
  have "ex_log \<noteq> []" by (simp add: ex_log_def)
  then show ?thesis
    by (auto simp: good_response_def frs_GetBlock_def get_block_def ex_log_response_def ex_child_def new_partitionConsumer_def
        answers_fetch_def ex_fetched ex_log_index ex_log_last)
qed

lemma ex_isolation: "fc_IsolationLevel ex_fetch_conf = ReadCommitted"
  by (simp add: ex_fetch_conf_def)

definition ex_message :: "int64 \<Rightarrow> ConsumerMessage" where
  "ex_message offset = \<lparr>cm_Headers = [], cm_Timestamp = zeroTime, cm_BlockTimestamp = zeroTime, cm_Key = None, cm_Value = None,
     cm_Topic = ''orders'', cm_Partition = 2, cm_Offset = offset\<rparr>"

definition ex_feeder :: feeder where
  "ex_feeder = \<lparr>fd_delivered = [], fd_interceptions = [], fd_firstAttempt = True, fd_timedOut = False, fd_closed = False\<rparr>"

definition ex_commit_om :: offsetManager where
  "ex_commit_om = update_pom ''t'' 0 (MarkOffset 5 []) (snd (addPOM one_pom (one_om\<lparr>om_poms := []\<rparr>)))"

abbreviation ex_store :: offset_store where
  "ex_store \<equiv> \<lambda>_ _. (0, [])"

definition ex_commit_request :: OffsetCommitRequest where
  "ex_commit_request = the (constructRequest one_conf ex_commit_om)"

lemma ex_commit_request: "constructRequest one_conf ex_commit_om = Some ex_commit_request"
proof -
  have "constructRequest one_conf ex_commit_om \<noteq> None" by code_simp
  then show ?thesis by (auto simp: ex_commit_request_def)
qed

abbreviation ex_committed_om :: offsetManager where
  "ex_committed_om \<equiv> om_handleResponse one_conf 1 ex_commit_request one_ok (ex_commit_om\<lparr>om_broker := Some 1\<rparr>)"

lemma ex_commit_run:
  "(om_step one_conf)\<^sup>*\<^sup>* (one_om\<lparr>om_poms := []\<rparr>, ex_store, Idle)
     (ex_committed_om, stored_by ex_commit_request one_ok ex_store, Idle)"
proof -
  have 1: "om_step one_conf (one_om\<lparr>om_poms := []\<rparr>, ex_store, Idle) (snd (addPOM one_pom (one_om\<lparr>om_poms := []\<rparr>)), ex_store, Idle)"
    by (rule om_step.manage) (simp_all add: one_pom_def)
  have 2: "om_step one_conf (snd (addPOM one_pom (one_om\<lparr>om_poms := []\<rparr>)), ex_store, Idle) (ex_commit_om, ex_store, Idle)"
    unfolding ex_commit_om_def by (rule om_step.mark)
  note 3 = om_step.request [OF ex_commit_request, of ex_store 1]
  note 4 = om_step.answer [of one_conf "ex_commit_om\<lparr>om_broker := Some 1\<rparr>" ex_store 1 ex_commit_request one_ok]
  note 5 = om_step.handle [of one_conf "ex_commit_om\<lparr>om_broker := Some 1\<rparr>" "stored_by ex_commit_request one_ok ex_store" 1 ex_commit_request one_ok]
  from 1 2 3 4 5 show ?thesis by (meson r_into_rtranclp rtranclp.rtrancl_into_rtrancl)
qed

lemma ex_committed_pom:
  "findPOM ex_committed_om ''t'' 0 = Some (one_pom\<lparr>pom_offset := 5\<rparr>)"
  by code_simp

definition ex_offsets_env :: "offset_store om_env" where
  "ex_offsets_env = \<lparr>env_Closed = (\<lambda>_. False), env_RefreshCoordinator = (\<lambda>_ w. (Ok (), w)), env_Coordinator = (\<lambda>_ w. (Ok 1, w)),
     env_FetchOffset = (\<lambda>_ _ w. (Err ErrOutOfBrokers, w)),
     env_CommitOffset = (\<lambda>_ req w.
       let resp = \<lparr>ocr_Version = ocq_Version req, ocr_ThrottleTimeMs = 0,
             ocr_Errors = map (\<lambda>(topic, ps). (topic, map (\<lambda>(prt, _). (prt, ErrNoError)) ps)) (ocq_blocks req)\<rparr>
       in (Ok resp, stored_by req resp w)),
     env_CloseBroker = (\<lambda>_ w. w), env_closingFirst = (\<lambda>w. (False, w))\<rparr>"

lemma ex_offsets_accepting: "accepting ex_offsets_env (\<lambda>w. w)"
proof -
  have none: "map_of (map (\<lambda>(prt, _). (prt, ErrNoError)) ps) p = map_option (\<lambda>_. ErrNoError) (map_of ps p)"
    for ps :: "(int32 \<times> offsetCommitRequestBlock) list" and p
    by (induction ps) auto
  have "get_block (map (\<lambda>(topic, ps). (topic, map (\<lambda>(prt, _). (prt, ErrNoError)) ps)) bs) topic prt =
      map_option (\<lambda>_. ErrNoError) (get_block bs topic prt)" for bs :: "offsetCommitRequestBlock topics" and topic prt
    by (induction bs) (auto simp: get_block_def none)
  then show ?thesis by (auto simp: accepting_def ex_offsets_env_def Let_def)
qed

lemma ex_open_om: "poms_ok (update_pom ''t'' 0 (MarkOffset 5 []) one_om)"
    "clean_stored (update_pom ''t'' 0 (MarkOffset 5 []) one_om) ex_store"
  by (auto simp: poms_ok_def update_pom_def map_poms_def one_om_def one_pom_def MarkOffset_def clean_stored_def
      findPOM_def get_block_def split: if_splits)

lemma ex_closing: "oc_AutoCommit_Enable one_conf" "oc_Offsets_Retry_Max one_conf \<ge> 0"
  by (simp_all add: one_conf_def)

definition ex_silent :: "unit client_env" where
  "ex_silent = \<lparr>ce_ResponseSize = (\<lambda>_ _. 0), ce_GetMetadata = (\<lambda>_ _ w. (Err ErrNotConnected, w)),
     ce_FindCoordinator = (\<lambda>_ _ w. (Err ErrNotConnected, w)), ce_GetAvailableOffsets = (\<lambda>_ _ w. (Err ErrNotConnected, w)),
     ce_Close = (\<lambda>_ w. w), ce_pastDeadline = (\<lambda>w. (False, w)), ce_pastDeadlineAfterBackoff = (\<lambda>w. (False, w)),
     ce_refreshedMeanwhile = (\<lambda>w. (False, w))\<rparr>"

definition ex_client_conf :: client_conf where
  "ex_client_conf = \<lparr>cc_Version = V2_1_0_0, cc_Metadata_Full = True, cc_Metadata_Retry_Max = 3, cc_AllowAutoTopicCreation = True\<rparr>"

definition ex_seeded :: client where
  "ex_seeded = randomizeSeedBrokers [''kafka1:9092'', ''kafka2:9092''] new_client"

definition ex_partition_metadata :: "int32 \<Rightarrow> int32 \<Rightarrow> PartitionMetadata" where
  "ex_partition_metadata prt leader = \<lparr>pmd_Version = 7, pmd_Err = 0, pmd_ID = prt, pmd_Leader = leader, pmd_LeaderEpoch = 3,
     pmd_Replicas = Some [1, 2], pmd_Isr = Some [1, 2], pmd_OfflineReplicas = Some []\<rparr>"

definition ex_topic_metadata :: TopicMetadata where
  "ex_topic_metadata = \<lparr>tmd_Version = 7, tmd_Err = 0, tmd_Name = ''orders'', tmd_Uuid = [], tmd_IsInternal = False,
     tmd_Partitions = [ex_partition_metadata 0 1, ex_partition_metadata 1 2], tmd_TopicAuthorizedOperations = 0\<rparr>"

definition ex_cluster :: MetadataResponse where
  "ex_cluster = \<lparr>mdr_Version = 7, mdr_ThrottleTimeMs = 0,
     mdr_Brokers = [\<lparr>br_id = 1, br_addr = ''kafka1:9092'', br_rack = None\<rparr>, \<lparr>br_id = 2, br_addr = ''kafka2:9092'', br_rack = None\<rparr>],
     mdr_ClusterID = None, mdr_ControllerID = 1, mdr_Topics = [ex_topic_metadata], mdr_ClusterAuthorizedOperations = 0\<rparr>"

definition ex_idempotent_config :: Config where
  "ex_idempotent_config = NewConfig\<lparr>cfg_Net := (cfg_Net NewConfig)\<lparr>net_MaxOpenRequests := 1\<rparr>,
     cfg_Producer := (cfg_Producer NewConfig)\<lparr>prod_Idempotent := True, prod_RequiredAcks := WaitForAll\<rparr>\<rparr>"

lemma ex_idempotent_valid: "Validate (\<lambda>_. None) (\<lambda>s. s) ex_idempotent_config = (ex_idempotent_config, None)"
  by code_simp

definition ex_emptied :: RecordBatch where
  "ex_emptied = (ex_log_batch 7 False False 10 [])\<lparr>rb_LastOffsetDelta := 4\<rparr>"

definition ex_emptied_block :: FetchResponseBlock where
  "ex_emptied_block = add_batch (new_FetchResponseBlock\<lparr>frb_HighWaterMarkOffset := 20, frb_PreferredReadReplica := - 1\<rparr>) ex_emptied"

definition ex_emptied_response :: FetchResponse where
  "ex_emptied_response = ex_log_response\<lparr>frs_Blocks := [(''orders'', [(2, ex_emptied_block)])]\<rparr>"

end
