(* ===== verification/Spec2Isabelle.thy ===== *)
theory Spec2Isabelle
  imports Examples
begin

text \<open>
  A verification development of the Kafka client library sarama (the Go package under \<open>src/\<close>).

  \<^bold>\<open>The program.\<close> A client (\<open>client.go\<close>) keeps the metadata of a cluster and one connection per
  broker (\<open>broker.go\<close>). Requests and responses are structs with an \<open>encode\<close> and a \<open>decode\<close> method
  that work on a packet encoder and decoder (\<open>encoder_decoder.go\<close>, \<open>prep_encoder.go\<close>,
  \<open>real_encoder.go\<close>, \<open>real_decoder.go\<close>); a request is framed with a header (\<open>request.go\<close>). Records
  travel in batches or in the older message sets. A producer chooses partitions, collects messages in
  produce sets and may run transactions; a consumer fetches partitions, alone or as a member of a group
  whose partitions a strategy assigns, and commits offsets through an offset manager.

  \<^bold>\<open>Conventions.\<close> A Go integer of a fixed width is a word, an \<open>int\<close> an integer; a byte slice
  that may be nil is an option of a list; a struct is a record whose fields carry a prefix for the type.
  A call returns a \<open>res\<close>: \<open>Ok\<close>, \<open>Err\<close> with a \<open>go_error\<close>, \<open>Panic\<close>, or \<open>Diverge\<close> when fuel
  runs out. A Go map is an association list, whose order stands for the order of one iteration. An
  \<open>encode\<close> method is the list of calls it makes on the packet encoder (\<open>pe_op list\<close>); a \<open>decode\<close>
  method is a function on the state of the decoder. Concurrency is a step relation with one rule per point
  at which goroutines interleave. What brokers, the clock and the random generator do is an argument of the
  definitions: functions, or records of functions on a world that is passed along. Compression codecs and
  keyed hashes are third-party code and are parameters (\<open>codecs\<close>, \<open>hashes\<close>); the one law that is
  used of a codec is \<open>lossless\<close>, that decompression undoes compression.

  \<^bold>\<open>Theories.\<close>
  \<^item> \<open>Go_Prelude\<close>, \<open>Go_Maps\<close>, \<open>Hashes\<close>, \<open>Varint\<close>, \<open>Kafka_Version\<close>: Go's types, errors and
    results, maps, checksums, variable-length integers, and broker versions (\<open>errors.go\<close>, \<open>utils.go\<close>).
  \<^item> \<open>Wire_Encoder\<close>, \<open>Wire_Decoder\<close>, \<open>Decoder_Safety\<close>, \<open>Wire_Codec\<close>, \<open>Wire_Steps\<close>: the packet
    encoders and the decoder with their stacks of length and checksum fields, the safety of decoding
    arbitrary bytes, and the contract between the two methods of a message type: the locales
    \<open>wire_elem\<close> and \<open>wire_codec\<close>, which the message types interpret.
  \<^item> \<open>Compression\<close>, \<open>Record_Format\<close>, \<open>Record_Batch\<close>, \<open>Message_Format\<close>, \<open>Records_Union\<close>,
    \<open>Fetch_Records\<close>: \<open>compress.go\<close>, \<open>decompress.go\<close>, \<open>record.go\<close>, \<open>record_batch.go\<close>,
    \<open>control_record.go\<close>, \<open>message.go\<close>, \<open>message_set.go\<close>, \<open>records.go\<close>, and the records of a fetched
    partition, which may be cut anywhere.
  \<^item> \<open>Protocol_Common\<close>, \<open>Protocol_Table\<close>, \<open>Net_Address\<close>, \<open>Group_Metadata\<close>, and the message types in
    \<open>Produce_Messages\<close>, \<open>Fetch_Messages\<close>, \<open>Metadata_Messages\<close>, \<open>Group_Messages\<close>, \<open>Offset_Messages\<close>,
    \<open>Txn_Messages\<close>, \<open>Admin_Common\<close>, \<open>Admin_Messages\<close>, \<open>Acl_Messages\<close>, \<open>Auth_Messages\<close>: the
    \<open>_request.go\<close> and \<open>_response.go\<close> files.
  \<^item> \<open>Request_Framing\<close>, \<open>Broker_Connection\<close>, \<open>Broker_Calls\<close>, \<open>Broker_Exchange\<close>: \<open>request.go\<close>,
    \<open>response_header.go\<close> and \<open>broker.go\<close>, with the sender and the receiver of a connection interleaved.
  \<^item> \<open>Producer_Message\<close>, \<open>Produce_Set\<close>, \<open>Partitioners\<close>, \<open>Txn_Manager\<close>, \<open>Txn_Safety\<close>:
    \<open>produce_set.go\<close>, \<open>partitioner.go\<close>, \<open>transaction_manager.go\<close> and the parts of
    \<open>async_producer.go\<close> that call them. The contract of a partitioner is the locale \<open>partitioner\<close>.
  \<^item> \<open>Consumer_Partition\<close>, \<open>Consumer_Log\<close>, \<open>Offset_Manager\<close>: \<open>consumer.go\<close> and
    \<open>offset_manager.go\<close>; the log of a partition with its transactions is the specification of what a
    consumer reads.
  \<^item> \<open>Client_Metadata\<close>, \<open>Config_Validate\<close>: \<open>client.go\<close> and \<open>config.go\<close>.
  \<^item> \<open>Balance_Plans\<close>, \<open>Balance_Range\<close>, \<open>Balance_RoundRobin\<close>: \<open>balance_strategy.go\<close>, with the
    contract of a strategy as the locale \<open>balance_strategy\<close>.
  \<^item> \<open>Examples\<close>: the concrete values at which the properties below are applied.

  \<^bold>\<open>Properties.\<close> Messages on the wire: the two passes of \<open>encode\<close> agree, and every kind of message
  is decoded as it was sent, whatever follows it; a cut block yields its whole batches. Connections: under
  every interleaving a promise gets the answer to its own request, none is lost, and at most
  \<open>MaxOpenRequests\<close> + 1 are outstanding. Producing and transactions: the counters of a produce set are
  right, a commit that reports success was confirmed, the fatal state is final, sequence numbers are
  consecutive. Consuming: with \<open>ReadCommitted\<close> exactly the committed records are delivered, in order and
  once; an offset that is held as committed is stored. Client: a refresh returns and leaves consistent
  caches. Assignment: every partition goes to exactly one subscriber. A section of its own holds
  places where the code does something else than its comments or its names say; further facts close the
  theory.

  \<^bold>\<open>Bounds and fuel.\<close> \<open>fetch_loop\<close> and the loop of a message set take the number of bytes as fuel,
  which is enough since each turn consumes some; the nesting of compressed message sets takes a depth, and
  the theorems hold for every depth that the data needs. The loops over brokers of a refresh
  and of the search for a coordinator, and the search of the round-robin strategy, are partial functions into
  \<open>option\<close>; the first two are shown to return since every turn removes a broker, the last to return exactly
  if the topic has a subscriber. Retry loops recurse on the attempts that are left.

  \<^bold>\<open>Not modelled.\<close> Network I/O, TLS, SASL exchanges and Kerberos; logging, metrics and object pools;
  time, except where a clock decides a branch. The goroutines of the asynchronous producer that move
  messages over channels, the synchronous producer on top of it, the sessions of \<open>consumer_group.go\<close>,
  the maps and goroutines of consumers in \<open>consumer.go\<close>, the sticky strategy, and the administration
  client \<open>admin.go\<close>, which issues the requests modelled here. Mocks, tools and examples.
\<close>

unbundle bit_operations_syntax

section \<open>Messages on the wire\<close>

text \<open>
  C1: \<open>encode\<close> sizes a message with \<open>prepEncoder\<close> and then writes it with \<open>realEncoder\<close>. For every
  sequence of calls it returns the bytes the calls stand for, exactly when each call is within the
  limits of the encoders and the whole is within \<open>MaxRequestSize\<close>; otherwise it returns an error.
  It never panics: the buffer of the second pass has the size the first pass computed.
\<close>

theorem encode_two_passes:
  "case encode ops of
     Ok bs \<Rightarrow> bs = ser_ops ops \<and> ops_ok ops \<and> length (ser_ops ops) \<le> MaxRequestSize
   | Err e \<Rightarrow> \<not> (ops_ok ops \<and> length (ser_ops ops) \<le> MaxRequestSize)
   | _ \<Rightarrow> False"
  using encode_ops_ok [of ops] encode_ops_bad [of ops]
  by (cases "ops_ok ops") (auto split: if_splits)



text \<open>
  C3: A consumer fetches a partition whose batches the broker cut off at an arbitrary byte. The
  response block is read without an error, and its records are those of the batches that are wholly
  within the bytes, in order. When there is none, the block has no records, and it is marked as
  partial exactly when bytes of a batch were there, so that the consumer can ask for more.
\<close>

theorem fetch_block_truncated:
  assumes "wf_block_head v b" "\<And>w. w \<in> set bs \<Longrightarrow> wf_RecordBatch cs w \<and> rb_Records w \<noteq> []"
    and "lossless cs" "j \<le> 2147483647"
  shows "\<exists>b'. codes (dec_FetchResponseBlock depth cs v) (cut_block cs v j b bs) b' \<and>
    (if whole_batches cs j bs \<noteq> []
     then frb_RecordsSet b' = map batch_records_of (whole_batches cs j bs) \<and> \<not> frb_Partial b'
     else frb_numRecords b' = Ok 0 \<and> frb_isPartial b' = Ok (0 < left_over cs j bs))"
  using assms by (rule cut_block_read)

theorem fetch_block_truncated_witness:
  "\<exists>b'. codes (dec_FetchResponseBlock 1 marking_codecs 11) (cut_block marking_codecs 11 100 ex_block [ex_batch, ex_batch]) b' \<and>
    frb_RecordsSet b' = [batch_records_of ex_batch] \<and> \<not> frb_Partial b'"
proof -
  have w: "whole_batches marking_codecs 100 [ex_batch, ex_batch] = [ex_batch]" by (simp add: ex_batch_length)
  have h: "wf_block_head 11 ex_block" by (simp add: wf_block_head_def ex_block_def)
  have r: "w \<in> set [ex_batch, ex_batch] \<Longrightarrow> wf_RecordBatch marking_codecs w \<and> rb_Records w \<noteq> []" for w
    using ex_batch_wf by (auto simp: ex_batch_def)
  from fetch_block_truncated [where j = 100 and depth = 1 and bs = "[ex_batch, ex_batch]", OF h r lossless_marking_codecs]
  show ?thesis by (simp add: w del: whole_batches.simps)
qed



section \<open>Connections\<close>

text \<open>
  C5: Against a broker that answers the requests in order, every promise that was handled got the
  answer to its own request, the promises are handled in the order of the requests, and the connection
  does not fail. This holds for every interleaving of senders and receiver.
\<close>

theorem promises_get_their_answers:
  assumes "pipeline cs hs peer conf False new_connection c" "answers_in_order cs hs peer answer" "lossless cs"
    and "list_all (wf_request cs hs) (cn_requests c)"
  shows "list_all (\<lambda>(p, r). r = Ok (answer (pr_request p))) (cn_handled c) \<and>
    map (pr_request \<circ> fst) (cn_handled c) @ map pr_request (pending c) =
      filter (\<lambda>r. needs_response (req_body r)) (cn_requests c) \<and>
    cn_dead c = None"
proof -
  have inv: "pipeline_inv cs hs answer c" using assms by (rule pipeline_inv_reachable)
  then have "map pr_request (map fst (cn_handled c) @ pending c) =
      filter (\<lambda>r. needs_response (req_body r)) (cn_requests c)" unfolding pipeline_inv_def by metis
  moreover have "list_all (\<lambda>(p, r). r = Ok (answer (pr_request p))) (cn_handled c)" "cn_dead c = None"
    using inv by (simp_all add: pipeline_inv_def)
  ultimately show ?thesis by simp
qed

theorem promises_get_their_answers_witness:
  "\<exists>c. pipeline marking_codecs ex_hashes ex_peer (ex_broker_conf 1) False new_connection c \<and> length (cn_handled c) = 1 \<and>
     list_all (\<lambda>(p, r). r = Ok (ex_answer (pr_request p))) (cn_handled c)"
proof -
  obtain c where c: "pipeline marking_codecs ex_hashes ex_peer (ex_broker_conf 1) False new_connection c"
    "cn_requests c = [request_of (ex_broker_conf 1) new_connection ex_body]" "length (cn_handled c) = 1"
    using ex_run by blast
  have "list_all (wf_request marking_codecs ex_hashes) (cn_requests c)" by (simp add: c(2) ex_run_wf)
  then show ?thesis
    using promises_get_their_answers [OF c(1) ex_peer_answers lossless_marking_codecs] c(1,3) by blast
qed

text \<open>
  C6: The connection to a broker, with its blocked sender, its channel and its receiver, refines a
  queue: whatever the peer does and whatever writes fail, every step adds a promise at the end, handles
  the first one, or changes nothing; so no promise is lost, handled twice or overtaken.
\<close>

theorem connection_refines_queue:
  assumes "pipeline cs hs peer conf faults new_connection c" "pipeline_step cs hs peer conf faults c c'"
  shows "queue_step (abstract_queue c) (abstract_queue c') \<and> map fst (cn_handled c) @ pending c = cn_promised c"
  using pipeline_refines_queue [OF assms(2)] pipeline_fifo [OF assms(1)] by (rule conjI)

theorem connection_refines_queue_witness:
  "\<exists>c c'. pipeline_step marking_codecs ex_hashes ex_peer (ex_broker_conf 1) True c c' \<and> c \<noteq> c' \<and>
     queue_step (abstract_queue c) (abstract_queue c') \<and> map fst (cn_handled c) @ pending c = cn_promised c"
proof -
  obtain hv where hv: "promise_header ex_body = Some hv"
    using ex_body_needs_response by (simp add: promise_header_def)
  have "sendable marking_codecs ex_hashes (ex_broker_conf 1) new_connection ex_body"
    using ex_body_sendable by (simp add: always_sendable_def)
  from sendInternal_sendable [OF this lossless_marking_codecs hv] obtain c' where
    c': "sendInternal marking_codecs ex_hashes (ex_broker_conf 1) None ex_body new_connection = (Ok (), c')" "cn_sending c' \<noteq> None"
    by simp
  then have step: "pipeline_step marking_codecs ex_hashes ex_peer (ex_broker_conf 1) True new_connection c'"
    by (auto intro: pipeline_step.send simp: new_connection_def)
  moreover have "new_connection \<noteq> c'" using c'(2) by (auto simp: new_connection_def)
  ultimately show ?thesis using connection_refines_queue [OF rtranclp.rtrancl_refl step] by blast
qed

text \<open>
  C7: The receiver of a connection never stalls with promises pending and never runs forever: from every
  state all pending promises can be handled, in their order, and every run of the receiver without new
  requests ends.
\<close>

theorem receiver_handles_all:
  "wfP (\<lambda>c' c. receiver_step peer conf c c') \<and>
   (pending c \<noteq> [] \<longrightarrow> (\<exists>c'. receiver_step peer conf c c')) \<and>
   (\<exists>c'. (receiver_step peer conf)\<^sup>*\<^sup>* c c' \<and> pending c' = [] \<and>
      map fst (cn_handled c') = map fst (cn_handled c) @ pending c)"
  using receiver_terminates receiver_progress receiver_drains by blast

theorem receiver_handles_all_witness:
  "\<exists>c. pending c \<noteq> [] \<and> (\<exists>c'. receiver_step ex_peer (ex_broker_conf 1) c c') \<and>
     (\<exists>c'. (receiver_step ex_peer (ex_broker_conf 1))\<^sup>*\<^sup>* c c' \<and> pending c' = [])"
proof -
  let ?p = "\<lparr>pr_request = request_of (ex_broker_conf 1) new_connection ex_body, pr_correlationID = 0, pr_headerVersion = 0\<rparr>"
  let ?c = "new_connection\<lparr>cn_sending := Some ?p\<rparr>"
  have "pending ?c \<noteq> []" by (simp add: pending_def)
  with receiver_handles_all [where peer = ex_peer and conf = "ex_broker_conf 1" and c = ?c] show ?thesis by blast
qed

text \<open>
  C8: A call on a broker returns what the broker answered. After any history of the connection that
  leaves nothing pending, \<open>GetMetadata\<close>, \<open>FetchOffset\<close> and \<open>Heartbeat\<close> on it return the response whose bytes
  the broker sent for the request, in the version of the request.
\<close>

theorem calls_return_answers:
  assumes "pipeline cs hs peer conf False new_connection c" "pending c = []" "list_all (wf_request cs hs) (cn_requests c)"
    and "answers_in_order cs hs peer answer" "lossless cs"
  shows "(sendable cs hs conf c (Body_Metadata mq) \<longrightarrow>
      answer (request_of conf c (Body_Metadata mq)) = ser_ops (enc_MetadataResponse mr) \<longrightarrow>
      wf_MetadataResponse mr \<longrightarrow> mdr_Version mr = mdq_Version mq \<longrightarrow>
      Broker_GetMetadata (connection_transport cs hs peer conf c) mq = Ok mr) \<and>
    (sendable cs hs conf c (Body_OffsetFetch oq) \<longrightarrow>
      answer (request_of conf c (Body_OffsetFetch oq)) = ser_ops (enc_OffsetFetchResponse ofs) \<longrightarrow>
      wf_OffsetFetchResponse ofs \<longrightarrow> ofr_Version ofs = ofq_Version oq \<longrightarrow>
      Broker_FetchOffset (connection_transport cs hs peer conf c) oq = Ok ofs) \<and>
    (sendable cs hs conf c (Body_Heartbeat hq) \<longrightarrow>
      answer (request_of conf c (Body_Heartbeat hq)) = ser_ops (enc_HeartbeatResponse hr) \<longrightarrow>
      wf_HeartbeatResponse hr \<longrightarrow> hbr_Version hr = hbq_Version hq \<longrightarrow>
      Broker_Heartbeat (connection_transport cs hs peer conf c) hq = Ok hr)"
  using exchange_delivers [OF assms]
  by (intro conjI impI Broker_GetMetadata_answer Broker_FetchOffset_answer Broker_Heartbeat_answer)
    (simp_all add: needs_response_def)

theorem calls_return_answers_witness:
  "Broker_Heartbeat (connection_transport marking_codecs ex_hashes ex_peer (ex_broker_conf 1) new_connection)
     \<lparr>hbq_Version = 3, hbq_GroupId = ''audit'', hbq_GenerationId = 4, hbq_MemberId = ''m1'', hbq_GroupInstanceId = None\<rparr> =
   Ok \<lparr>hbr_Version = 3, hbr_ThrottleTime = 0, hbr_Err = 27\<rparr>"
proof -
  have "pending new_connection = []" by (simp add: new_connection_def pending_def)
  moreover have "list_all (wf_request marking_codecs ex_hashes) (cn_requests new_connection)"
    by (simp add: new_connection_def)
  ultimately show ?thesis
    using calls_return_answers [OF rtranclp.rtrancl_refl _ _ ex_peer_answers lossless_marking_codecs]
      ex_body_sendable [of 1]
    by (simp add: always_sendable_def ex_body_def ex_answer_def wf_HeartbeatResponse_def wf_millis32_def)
qed



section \<open>Producing\<close>

text \<open>
  C10: Whatever the broker producer does with its set of messages, adding messages (also ones that
  are refused) and dropping partitions, the byte and message counters it decides with are the sums
  over the partitions, and each partition's records are those of its messages, in number and bytes.
\<close>

theorem produce_set_counters: "set_reachable conf ps \<Longrightarrow> ps_inv conf ps"
  by (rule set_reachable_inv)

theorem produce_set_counters_witness:
  "ps_bufferCount (snd (ps_add ex_conf 0 ex_msg (newProduceSet 1 0))) = 1 \<and>
   ps_inv ex_conf (snd (ps_add ex_conf 0 ex_msg (newProduceSet 1 0)))"
proof
  show "ps_bufferCount (snd (ps_add ex_conf 0 ex_msg (newProduceSet 1 0))) = 1" by code_simp
  show "ps_inv ex_conf (snd (ps_add ex_conf 0 ex_msg (newProduceSet 1 0)))"
    by (rule produce_set_counters, rule set_reachable.add [OF set_reachable.new], rule prod.collapse [symmetric])
qed

section \<open>Transactions\<close>

text \<open>
  C11: A commit is never reported on the client's own authority. When \<open>CommitTxn\<close> returns without an
  error for a transaction that has partitions, the transaction coordinator has confirmed an \<open>EndTxn\<close>
  request that commits under the producer's id and epoch, every group's offsets were confirmed by a
  \<open>TxnOffsetCommit\<close> answer without an error, and the manager is ready with nothing left over. This
  holds for every behaviour of the coordinators, retries included.
\<close>

theorem txn_commit_confirmed:
  assumes "txn_reachable conf t" "CommitTxn conf env t = (Ok None, u)" "tm_partitions t \<noteq> []" "0 \<le> tc_RetryMax conf"
  shows "list_all (offsets_confirmed conf env t) (tm_offsets t) \<and> end_confirmed conf env True t \<and>
    tm_status u = FlagReady \<and> tm_partitions u = [] \<and> tm_pendingPartitions u = [] \<and> tm_offsets u = []"
proof -
  let ?d = "dispatch_endtxn True t"
  have same: "tm_partitions ?d = tm_partitions t" "tm_offsets ?d = tm_offsets t"
    "commit_request conf os g ?d = commit_request conf os g t" "end_request conf b ?d = end_request conf b t" for os g b
    by (auto simp: dispatch_endtxn_def transitionTo_def commit_request_def end_request_def)
  have "tm_inv ?d" by (rule txn_inv.keeps_step [OF txn_step.end_mark txn_reachable_inv [OF assms(1)]])
  moreover have "finishTransaction conf env True ?d = (Ok None, u)"
    using assms(2) by (auto simp: CommitTxn_def end_transaction_def split: if_splits)
  ultimately show ?thesis
    using commit_confirmed [of conf env ?d u] assms(3,4)
    by (simp add: same attempts_def offsets_confirmed_def end_confirmed_def)
qed

theorem txn_commit_confirmed_witness:
  "fst (CommitTxn ex_txn_conf ex_coordinators ex_in_txn) = Ok None \<and>
   list_all (offsets_confirmed ex_txn_conf ex_coordinators ex_in_txn) (tm_offsets ex_in_txn) \<and>
   end_confirmed ex_txn_conf ex_coordinators True ex_in_txn"
proof -
  have c: "fst (CommitTxn ex_txn_conf ex_coordinators ex_in_txn) = Ok None" by code_simp
  then have "CommitTxn ex_txn_conf ex_coordinators ex_in_txn = (Ok None, snd (CommitTxn ex_txn_conf ex_coordinators ex_in_txn))"
    by (metis prod.collapse)
  from txn_commit_confirmed [OF ex_in_txn_reachable this] c show ?thesis
    by (simp add: ex_in_txn_def ex_txn_conf_def)
qed

text \<open>
  C12: Whatever sequence of operations and answers, the status of the transaction manager is one of
  eight, an error is recorded exactly in the error states, and a partition is never both pending and
  part of the transaction.
\<close>

theorem txn_invariant:
  assumes "txn_reachable conf t"
  shows "tm_status t \<in> set txn_statuses \<and> (tm_lastError t \<noteq> None \<longleftrightarrow> tm_status t AND FlagInError \<noteq> 0) \<and>
    set (tm_partitions t) \<inter> set (tm_pendingPartitions t) = {}"
  using txn_reachable_inv [OF assms] by (simp add: tm_inv_def)

theorem txn_invariant_witness:
  "tm_partitions ex_in_txn = [(''orders'', 2)] \<and> set (tm_partitions ex_in_txn) \<inter> set (tm_pendingPartitions ex_in_txn) = {}"
  using txn_invariant [OF ex_in_txn_reachable] by (simp add: ex_in_txn_def)

text \<open>
  C13: A fatal error is final: no operation leads out of it, no transaction can begin, and commit and
  abort report the error without a request.
\<close>

theorem txn_fatal_final:
  assumes "(txn_step conf)\<^sup>*\<^sup>* t u" "tm_status t = FlagInError OR FlagFatalError"
  shows "tm_status u = FlagInError OR FlagFatalError \<and>
    (isTransactional u \<longrightarrow> fst (BeginTxn u) = Some ErrTransitionNotAllowed \<and>
      CommitTxn conf env u = (Ok (tm_lastError u), u) \<and> AbortTxn conf env u = (Ok (tm_lastError u), u))"
proof -
  have "fatal u" using assms by (intro txn_fatal.keeps_steps [OF assms(1)]) (simp add: fatal_def)
  then show ?thesis
    by (simp add: fatal_def BeginTxn_def CommitTxn_def AbortTxn_def end_transaction_def dispatch_endtxn_def
        finishTransaction_def transitionTo_def isTransitionValid_def transition_valid_def producerTxnTransitions_def)
qed

theorem txn_fatal_final_witness:
  "fst (AbortTxn ex_txn_conf ex_coordinators ex_fenced) = Ok (Some (KErr ErrProducerFenced))"
  using txn_fatal_final [of ex_txn_conf ex_fenced ex_fenced ex_coordinators] by (simp add: ex_fenced_fatal)

text \<open>
  C14: The sequence numbers that an idempotent producer gives to the messages of a partition are
  consecutive (modulo the width of an int32), however messages of other partitions come in between,
  and after an epoch bump they start at zero again.
\<close>

theorem sequence_numbers_consecutive:
  assumes "list_all (\<lambda>(topic, prt). 0 \<le> sint prt) (tp # tps)"
  shows "numbers_of tp tps t = map (\<lambda>i. next_number tp t + word_of_nat i) [0..<count_list tps tp] \<and>
    next_number tp (bumpEpoch t) = 0 \<and> tm_producerEpoch (bumpEpoch t) = tm_producerEpoch t + 1"
  using numbers_consecutive [OF assms] bumpEpoch_restarts by blast

theorem sequence_numbers_consecutive_witness:
  "numbers_of (''a'', 1) [(''a'', 1), (''b'', 1), (''a'', 1)] ex_manager = [0, 1]"
proof -
  have n: "next_number (''a'', 1) ex_manager = 0" by (simp add: next_number_def ex_manager_def)
  show ?thesis
    using sequence_numbers_consecutive [of "(''a'', 1)" "[(''a'', 1), (''b'', 1), (''a'', 1)]" ex_manager]
    by (simp add: n upt_rec)
qed

section \<open>Consuming\<close>

text \<open>
  C15: A consumer that reads with \<open>ReadCommitted\<close> gets, from any run of fetch responses, exactly the
  records of the log from its offset on that are not control records and whose transaction was
  committed, in order and each once; what is still to be read is exactly what lies behind its new
  offset, which grows with every response.
\<close>

theorem read_committed_exact:
  assumes "log_ok log" "decided (length log) log" "fc_IsolationLevel conf = ReadCommitted" "answered conf log nrs child"
  shows "\<exists>ms child'. read_all conf (map snd nrs) child = (Ok ms, child') \<and>
    visible_from (sint (pc_offset child)) child log = ms @ visible_from (sint (pc_offset child')) child log \<and>
    sint (pc_offset child) + int (length nrs) \<le> sint (pc_offset child')"
  by (rule read_all_committed [OF assms])

theorem read_committed_exact_witness:
  "\<exists>ms child'. read_all ex_fetch_conf [ex_log_response] ex_child = (Ok ms, child') \<and>
    visible_from 1 ex_child ex_log = ms @ visible_from (sint (pc_offset child')) ex_child ex_log \<and>
    2 \<le> sint (pc_offset child')"
  using read_committed_exact [OF ex_log_ok ex_log_decided ex_isolation ex_answered]
  by (simp add: ex_child_def new_partitionConsumer_def)

text \<open>
  C16: Until the consumer is closed, its feeder gives the user the messages of a response in order and each
  once, whatever its timer does, also when it hands the subscription back in between; how many depends
  only on how often the user takes one.
\<close>

theorem feeder_in_order:
  assumes "Dying \<notin> set evs"
  shows "fd_delivered (fst (feed fresh msgs evs fd)) = fd_delivered fd @ take (count_list evs Taken) msgs"
  by (rule feed_delivers [OF assms])

theorem feeder_in_order_witness:
  "fd_delivered (fst (feed True [ex_message 4, ex_message 5] [Tick, Tick, Taken] ex_feeder)) = [ex_message 4]"
  using feeder_in_order [of "[Tick, Tick, Taken]" True "[ex_message 4, ex_message 5]" ex_feeder]
  by (simp add: ex_feeder_def)

text \<open>
  C17: However marks, resets, commits, lost answers and releases are interleaved, a partition that the
  offset manager holds as clean has its offset and metadata with the coordinator: no marked offset is
  forgotten, and a partition is only released when its offset is stored.
\<close>

theorem clean_offsets_stored:
  assumes "(om_step conf)\<^sup>*\<^sup>* (om0, store0, Idle) (om, store, ph)" "om_poms om0 = []"
    and "findPOM om topic prt = Some pom" "\<not> pom_dirty pom"
  shows "store topic prt = (pom_offset pom, pom_metadata pom)"
  by (rule clean_is_stored [OF assms])

theorem clean_offsets_stored_witness:
  "stored_by ex_commit_request one_ok ex_store ''t'' 0 = (5, [])"
  using clean_offsets_stored [OF ex_commit_run _ ex_committed_pom] by (simp add: one_pom_def)



section \<open>Client and configuration\<close>

text \<open>
  C19: A refresh of the metadata returns, whatever the brokers answer and however often it retries, and it
  leaves the client consistent: the partition lists it hands out name exactly the partitions of its
  metadata, in order and each once, the writable ones exactly those with a leader.
\<close>

theorem metadata_refresh_returns:
  assumes "client_ok cl"
  shows "\<exists>r cl' w'. RefreshMetadata conf env topics cl w = Some (r, cl', w') \<and> client_ok cl' \<and>
    (\<forall>topic t ids. cachedPartitions cl' topic t = Some ids \<longrightarrow> sorted (map sint ids) \<and> distinct ids \<and>
      (\<forall>prt. prt \<in> set ids \<longleftrightarrow> (\<exists>p. cachedMetadata cl' topic prt = Some p \<and>
        (t = writablePartitions \<longrightarrow> pmd_Err p \<noteq> ErrLeaderNotAvailable))))"
proof -
  obtain r cl' w' where "RefreshMetadata conf env topics cl w = Some (r, cl', w')" "client_ok cl'"
    using RefreshMetadata_returns [OF assms, of conf env topics w] by (auto simp: returns_ok_def split: option.splits)
  then show ?thesis using cachedPartitions_exact by blast
qed

theorem metadata_refresh_returns_witness:
  "\<exists>r cl' w'. RefreshMetadata ex_client_conf ex_silent [''orders''] ex_seeded () = Some (r, cl', w') \<and> client_ok cl'"
  using metadata_refresh_returns [OF new_client_ok, where conf = ex_client_conf and env = ex_silent and w = "()"]
  unfolding ex_seeded_def by blast

text \<open>
  C20: After an update of the metadata every partition of the response whose leader is among its brokers is
  led by the broker with the address the response gives, under the response's leader epoch; the brokers
  that the client knows are exactly those of the response.
\<close>

theorem metadata_update_leaders:
  assumes "\<not> cl_closed cl" "distinct (map br_id (mdr_Brokers response))" "broker \<in> set (mdr_Brokers response)"
    and "distinct (map tmd_Name (mdr_Topics response))" "topic \<in> set (mdr_Topics response)" "tmd_Err topic = ErrNoError"
    and "distinct (map pmd_ID (tmd_Partitions topic))" "p \<in> set (tmd_Partitions topic)" "pmd_Err p \<noteq> ErrLeaderNotAvailable"
    and "pmd_Leader p = br_id broker"
  shows "\<exists>b. cachedLeader (snd (snd (updateMetadata response allKnown cl))) (tmd_Name topic) (pmd_ID p) = Ok (b, pmd_LeaderEpoch p) \<and>
    cb_addr b = br_addr broker \<and>
    (\<forall>i. map_of (cl_brokers (snd (snd (updateMetadata response allKnown cl)))) i \<noteq> None \<longleftrightarrow> i \<in> br_id ` set (mdr_Brokers response))"
proof -
  obtain b where "cachedLeader (snd (snd (updateMetadata response allKnown cl))) (tmd_Name topic) (pmd_ID p) = Ok (b, pmd_LeaderEpoch p)"
    "cb_addr b = br_addr broker"
    using updateMetadata_leader [OF assms, of allKnown] by (elim exE conjE) simp
  then show ?thesis by (intro exI conjI allI updateMetadata_brokers [OF assms(1,2)])
qed

theorem metadata_update_leaders_witness:
  "\<exists>b. cachedLeader (snd (snd (updateMetadata ex_cluster True ex_seeded))) ''orders'' 1 = Ok (b, 3) \<and> cb_addr b = ''kafka2:9092''"
proof -
  let ?broker = "\<lparr>br_id = 2, br_addr = ''kafka2:9092'', br_rack = None\<rparr>"
  have "\<not> cl_closed ex_seeded" by (simp add: ex_seeded_def randomizeSeedBrokers_def new_client_def)
  moreover have "distinct (map br_id (mdr_Brokers ex_cluster))" "?broker \<in> set (mdr_Brokers ex_cluster)"
    "distinct (map tmd_Name (mdr_Topics ex_cluster))" "ex_topic_metadata \<in> set (mdr_Topics ex_cluster)"
    by (simp_all add: ex_cluster_def)
  moreover have "tmd_Err ex_topic_metadata = ErrNoError" "distinct (map pmd_ID (tmd_Partitions ex_topic_metadata))"
    "ex_partition_metadata 1 2 \<in> set (tmd_Partitions ex_topic_metadata)"
    by (simp_all add: ex_topic_metadata_def ex_partition_metadata_def)
  moreover have "pmd_Err (ex_partition_metadata 1 2) \<noteq> ErrLeaderNotAvailable" "pmd_Leader (ex_partition_metadata 1 2) = br_id ?broker"
    by (simp_all add: ex_partition_metadata_def)
  ultimately obtain b where
    "cachedLeader (snd (snd (updateMetadata ex_cluster True ex_seeded))) (tmd_Name ex_topic_metadata) (pmd_ID (ex_partition_metadata 1 2)) =
       Ok (b, pmd_LeaderEpoch (ex_partition_metadata 1 2))" "cb_addr b = br_addr ?broker"
    using metadata_update_leaders by blast
  then show ?thesis by (simp add: ex_topic_metadata_def ex_partition_metadata_def)
qed

text \<open>
  C21: A configuration that \<open>Validate\<close> accepts with an idempotent producer has one open request per
  connection, waits for all replicas, retries, and needs brokers of version 0.11; a connection made with it
  still has up to two requests on the wire.
\<close>

theorem idempotent_config_in_flight:
  assumes "Validate gzip_error quote c = (c', None)" "prod_Idempotent (cfg_Producer c')"
    and "bc_MaxOpenRequests conf = nat (net_MaxOpenRequests (cfg_Net c'))"
  shows "prod_RequiredAcks (cfg_Producer c') = WaitForAll \<and> 1 \<le> prod_Retry_Max (cfg_Producer c') \<and>
    IsAtLeast (cfg_Version c') V0_11_0_0 \<and> bc_MaxOpenRequests conf = 1 \<and>
    (pipeline cs hs peer conf faults new_connection conn \<longrightarrow> length (pending conn) \<le> 2)"
proof -
  note v = Validate_idempotent [OF assms(1,2)]
  then have one: "bc_MaxOpenRequests conf = 1" using assms(3) by simp
  then have "length (pending conn) \<le> 2" if "pipeline cs hs peer conf faults new_connection conn"
    using in_flight_bound [OF that] by simp
  with v one show ?thesis by blast
qed

theorem idempotent_config_in_flight_witness:
  "prod_RequiredAcks (cfg_Producer ex_idempotent_config) = WaitForAll \<and> 1 \<le> prod_Retry_Max (cfg_Producer ex_idempotent_config)"
proof -
  have "prod_Idempotent (cfg_Producer ex_idempotent_config)" by (simp add: ex_idempotent_config_def)
  from idempotent_config_in_flight [OF ex_idempotent_valid this,
      where conf = "\<lparr>bc_Version = V2_1_0_0, bc_ClientID = ''c'', bc_MaxOpenRequests = 1\<rparr>"]
  show ?thesis by (simp add: ex_idempotent_config_def)
qed

section \<open>Assignment of partitions\<close>

text \<open>
  C22: The range strategy and the round-robin strategy both give every partition of every subscribed
  topic to exactly one member, who subscribes to the topic.
\<close>

theorem strategies_assign_once:
  assumes "go_maps members topics" "covered members topics"
  shows "\<exists>p q. Plan_range members topics = Some (Ok p) \<and> assigned_once members topics p \<and>
    Plan_roundrobin members topics = Some (Ok q) \<and> assigned_once members topics q"
proof -
  obtain p where "Plan_range members topics = Some (Ok p)" "assigned_once members topics p"
    using range.plans [OF assms] by (elim exE conjE)
  moreover obtain q where "Plan_roundrobin members topics = Some (Ok q)" "assigned_once members topics q"
    using roundrobin.plans [OF assms] by (elim exE conjE)
  ultimately show ?thesis by (intro exI conjI)
qed

theorem strategies_assign_once_witness:
  "\<exists>p q. Plan_range ex_members ex_topics = Some (Ok p) \<and> assigned_once ex_members ex_topics p \<and>
    Plan_roundrobin ex_members ex_topics = Some (Ok q) \<and> assigned_once ex_members ex_topics q"
  by (rule strategies_assign_once [OF ex_go_maps ex_covered])

text \<open>
  C23: Under the range strategy the subscribers of a topic, in the order of their ids, get consecutive
  runs of its partitions that together are the list of partitions, and the lengths of any two runs
  differ by at most one.
\<close>

theorem range_consecutive_runs:
  assumes "go_maps members topics" "(t, ps) \<in> set topics" "subscribes members m t" "subscribes members m' t"
    and "Plan_range members topics = Some (Ok p)"
  shows "concat (map (\<lambda>m. plan_get p m t) (subscribers members t)) = ps \<and>
    length (plan_get p m t) \<le> length (plan_get p m' t) + 1"
proof
  show "concat (map (\<lambda>m. plan_get p m t) (subscribers members t)) = ps"
    using assms(3) by (intro Plan_range_runs [OF assms(1,2) _ assms(5)] exI)
  show "length (plan_get p m t) \<le> length (plan_get p m' t) + 1"
    by (rule Plan_range_fair [OF assms(5,3,4)])
qed

theorem range_consecutive_runs_witness:
  "\<exists>p. Plan_range ex_members ex_topics = Some (Ok p) \<and>
    plan_get p ''m1'' ''orders'' @ plan_get p ''m2'' ''orders'' = [0, 1, 2, 3, 4] \<and>
    length (plan_get p ''m1'' ''orders'') \<le> length (plan_get p ''m2'' ''orders'') + 1"
proof -
  obtain p where p: "Plan_range ex_members ex_topics = Some (Ok p)" by (simp add: Plan_range_def)
  have "{m. subscribes ex_members m ''orders''} = {''m1'', ''m2''}" by (auto simp: ex_subscribes)
  moreover have "sorted_list_of_set {''m1'', ''m2''} = [''m1'', ''m2'']" by code_simp
  ultimately have s: "subscribers ex_members ''orders'' = [''m1'', ''m2'']" by (simp add: subscribers_def)
  have t: "(''orders'', [0, 1, 2, 3, 4]) \<in> set ex_topics" by (simp add: ex_topics_def)
  have m: "subscribes ex_members ''m1'' ''orders''" "subscribes ex_members ''m2'' ''orders''"
    by (simp_all add: ex_subscribes)
  show ?thesis using p range_consecutive_runs [OF ex_go_maps t m p] by (simp add: s)
qed

text \<open>
  C24: The round-robin strategy returns a plan exactly if every topic with partitions has a subscriber
  (with neither members nor topics it returns an error); otherwise its search for the next subscriber
  does not end.
\<close>

theorem roundrobin_returns:
  "(\<exists>r. Plan_roundrobin members topics = Some r) \<longleftrightarrow> members = [] \<or> topics = [] \<or> covered members topics"
  by (rule Plan_roundrobin_returns)

text \<open>
  C25: If every member subscribes to every topic, the round-robin strategy spreads the partitions evenly:
  the numbers of partitions of any two members differ by at most one.
\<close>

theorem roundrobin_even:
  assumes "go_maps members topics" "Plan_roundrobin members topics = Some (Ok p)"
    and "\<And>m t. m \<in> fst ` set members \<Longrightarrow> t \<in> fst ` set topics \<Longrightarrow> subscribes members m t"
    and "m \<in> fst ` set members" "m' \<in> fst ` set members"
  shows "plan_size p m \<le> plan_size p m' + 1"
  using assms by (rule Plan_roundrobin_fair)

theorem roundrobin_even_witness:
  "\<exists>p. Plan_roundrobin ex_equal_members [(''orders'', [0, 1, 2])] = Some (Ok p) \<and>
     plan_size p ''m1'' \<le> plan_size p ''m2'' + 1"
proof -
  let ?topics = "[(''orders'', [0, 1, 2 :: int32])]"
  have maps: "go_maps ex_equal_members ?topics" by (simp add: go_maps_def ex_equal_members_def)
  have m: "''m1'' \<in> fst ` set ex_equal_members" "''m2'' \<in> fst ` set ex_equal_members"
    by (simp_all add: ex_equal_members_def)
  then have "subscribes ex_equal_members ''m1'' ''orders''" by (simp only: ex_equal_subscribes)
  then have "covered ex_equal_members ?topics"
    by (auto simp: covered_def) (simp add: ex_equal_members_def)
  note c = this
  obtain p where p: "Plan_roundrobin ex_equal_members ?topics = Some (Ok p)"
    using roundrobin.plans [OF maps c] by (elim exE conjE)
  have "plan_size p ''m1'' \<le> plan_size p ''m2'' + 1"
    by (rule roundrobin_even [OF maps p _ m]) (simp add: ex_equal_subscribes)
  with p show ?thesis by (intro exI conjI)
qed

section \<open>Deliveries\<close>

text \<open>
  C26: A fetch response with batches of records for any partitions, with aborted transactions and every
  field of its version, reaches the consumer as it was sent.
\<close>

theorem fetch_response_delivered:
  assumes "wf_FetchResponse cs r" "lossless cs"
  shows "delivered (enc_FetchResponse cs r) (dec_FetchResponse depth cs) (frs_Version r) x (frs_on_wire r)"
  using codes_FetchResponse [OF assms] by (rule codes_delivered)

theorem fetch_response_delivered_witness:
  "delivered (enc_FetchResponse marking_codecs ex_FetchResponse) (dec_FetchResponse 1 marking_codecs) 11 ex_FetchResponse
     (frs_on_wire ex_FetchResponse)"
  using fetch_response_delivered [OF ex_FetchResponse_wf lossless_marking_codecs, of 1 ex_FetchResponse]
  by (simp add: ex_FetchResponse_def)

text \<open>
  C27: A produce request with batches of records, and the broker's response to it, reach the other end
  as they were sent.
\<close>

theorem produce_messages_delivered:
  assumes "wf_ProduceRequest cs q" "lossless cs" "wf_ProduceResponse r"
  shows "delivered (fst (enc_ProduceRequest cs q)) (dec_ProduceRequest depth cs) (preq_Version q) q0 (ProduceRequest_on_wire q) \<and>
    delivered (enc_ProduceResponse r) dec_ProduceResponse (prsp_Version r) r0 r"
  using reads_ProduceRequest [OF assms(1,2)] prsp.ok [OF assms(3)] prsp.reads [OF assms(3)]
  by (auto intro!: codes_delivered simp: codes_def)

theorem produce_messages_delivered_witness:
  "delivered (fst (enc_ProduceRequest marking_codecs ex_ProduceRequest)) (dec_ProduceRequest 1 marking_codecs)
     (preq_Version ex_ProduceRequest) ex_ProduceRequest (ProduceRequest_on_wire ex_ProduceRequest) \<and>
   delivered (enc_ProduceResponse ex_ProduceResponse) dec_ProduceResponse (prsp_Version ex_ProduceResponse)
     ex_ProduceResponse ex_ProduceResponse"
  by (rule produce_messages_delivered [OF ex_ProduceRequest_wf lossless_marking_codecs ex_ProduceResponse_wf])

text \<open>
  C28: The requests and responses of the transaction protocol (\<open>InitProducerID\<close>,
     \<open>AddPartitionsToTxn\<close>,
  \<open>AddOffsetsToTxn\<close>, \<open>EndTxn\<close>, \<open>TxnOffsetCommit\<close>) reach the other end as they
     were sent: every value the
  version can represent is encoded, and decoding gives it back.
\<close>

theorem txn_messages_delivered:
  "(wf_InitProducerIDRequest a \<longrightarrow> delivered (enc_InitProducerIDRequest a) dec_InitProducerIDRequest
     (ipq_Version a) ax a) \<and>
   (wf_InitProducerIDResponse b \<longrightarrow> delivered (enc_InitProducerIDResponse b)
     dec_InitProducerIDResponse (ipr_Version b) bx b) \<and>
   (wf_AddPartitionsToTxnRequest c \<longrightarrow> delivered (enc_AddPartitionsToTxnRequest c)
     dec_AddPartitionsToTxnRequest (apq_Version c) cx c) \<and>
   (wf_AddPartitionsToTxnResponse d \<longrightarrow> delivered (enc_AddPartitionsToTxnResponse d)
     dec_AddPartitionsToTxnResponse (apr_Version d) dx d) \<and>
   (wf_AddOffsetsToTxnRequest e \<longrightarrow> delivered (enc_AddOffsetsToTxnRequest e)
     dec_AddOffsetsToTxnRequest (aoq_Version e) ex e) \<and>
   (wf_AddOffsetsToTxnResponse f \<longrightarrow> delivered (enc_AddOffsetsToTxnResponse f)
     dec_AddOffsetsToTxnResponse v fx f) \<and>
   (wf_EndTxnRequest g \<longrightarrow> delivered (enc_EndTxnRequest g) dec_EndTxnRequest (etq_Version g) gx g)
     \<and>
   (wf_EndTxnResponse h \<longrightarrow> delivered (enc_EndTxnResponse h) dec_EndTxnResponse v hx h) \<and>
   (wf_TxnOffsetCommitRequest i \<longrightarrow> delivered (enc_TxnOffsetCommitRequest i)
     dec_TxnOffsetCommitRequest (tcq_Version i) ix i) \<and>
   (wf_TxnOffsetCommitResponse j \<longrightarrow> delivered (enc_TxnOffsetCommitResponse j)
     dec_TxnOffsetCommitResponse (tcr_Version j) jx j)"
  by (intro conjI impI; erule ipq.sent ipr.sent apq.sent apr.sent aoq.sent aor.sent etq.sent etr.sent tcq.sent
     tcr.sent)

theorem txn_messages_delivered_witness:
  "delivered (enc_InitProducerIDRequest ex_InitProducerIDRequest) dec_InitProducerIDRequest (ipq_Version
     ex_InitProducerIDRequest) ex_InitProducerIDRequest ex_InitProducerIDRequest \<and>
   delivered (enc_InitProducerIDResponse ex_InitProducerIDResponse) dec_InitProducerIDResponse (ipr_Version
     ex_InitProducerIDResponse) ex_InitProducerIDResponse ex_InitProducerIDResponse \<and>
   delivered (enc_AddPartitionsToTxnRequest ex_AddPartitionsToTxnRequest) dec_AddPartitionsToTxnRequest (apq_Version
     ex_AddPartitionsToTxnRequest) ex_AddPartitionsToTxnRequest ex_AddPartitionsToTxnRequest \<and>
   delivered (enc_AddPartitionsToTxnResponse ex_AddPartitionsToTxnResponse) dec_AddPartitionsToTxnResponse
     (apr_Version ex_AddPartitionsToTxnResponse) ex_AddPartitionsToTxnResponse ex_AddPartitionsToTxnResponse \<and>
   delivered (enc_AddOffsetsToTxnRequest ex_AddOffsetsToTxnRequest) dec_AddOffsetsToTxnRequest (aoq_Version
     ex_AddOffsetsToTxnRequest) ex_AddOffsetsToTxnRequest ex_AddOffsetsToTxnRequest \<and>
   delivered (enc_AddOffsetsToTxnResponse ex_AddOffsetsToTxnResponse) dec_AddOffsetsToTxnResponse 1
     ex_AddOffsetsToTxnResponse ex_AddOffsetsToTxnResponse \<and>
   delivered (enc_EndTxnRequest ex_EndTxnRequest) dec_EndTxnRequest (etq_Version ex_EndTxnRequest) ex_EndTxnRequest
     ex_EndTxnRequest \<and>
   delivered (enc_EndTxnResponse ex_EndTxnResponse) dec_EndTxnResponse 1 ex_EndTxnResponse ex_EndTxnResponse \<and>
   delivered (enc_TxnOffsetCommitRequest ex_TxnOffsetCommitRequest) dec_TxnOffsetCommitRequest (tcq_Version
     ex_TxnOffsetCommitRequest) ex_TxnOffsetCommitRequest ex_TxnOffsetCommitRequest \<and>
   delivered (enc_TxnOffsetCommitResponse ex_TxnOffsetCommitResponse) dec_TxnOffsetCommitResponse (tcr_Version
     ex_TxnOffsetCommitResponse) ex_TxnOffsetCommitResponse ex_TxnOffsetCommitResponse"
  using txn_messages_delivered [where a = ex_InitProducerIDRequest and ax = ex_InitProducerIDRequest and b =
     ex_InitProducerIDResponse and bx = ex_InitProducerIDResponse and c = ex_AddPartitionsToTxnRequest and cx =
     ex_AddPartitionsToTxnRequest and d = ex_AddPartitionsToTxnResponse and dx = ex_AddPartitionsToTxnResponse and e
     = ex_AddOffsetsToTxnRequest and ex = ex_AddOffsetsToTxnRequest and f = ex_AddOffsetsToTxnResponse and fx =
     ex_AddOffsetsToTxnResponse and g = ex_EndTxnRequest and gx = ex_EndTxnRequest and h = ex_EndTxnResponse and hx
     = ex_EndTxnResponse and i = ex_TxnOffsetCommitRequest and ix = ex_TxnOffsetCommitRequest and j =
     ex_TxnOffsetCommitResponse and jx = ex_TxnOffsetCommitResponse]
    ex_InitProducerIDRequest_wf ex_InitProducerIDResponse_wf ex_AddPartitionsToTxnRequest_wf
     ex_AddPartitionsToTxnResponse_wf ex_AddOffsetsToTxnRequest_wf ex_AddOffsetsToTxnResponse_wf ex_EndTxnRequest_wf
     ex_EndTxnResponse_wf ex_TxnOffsetCommitRequest_wf ex_TxnOffsetCommitResponse_wf
  by blast





text \<open>
  C31: The requests and responses that create and delete topics, add partitions, delete records and
  reassign partitions reach the other end as they were sent.
\<close>

theorem topic_messages_delivered:
  "(wf_CreateTopicsRequest a \<longrightarrow> delivered (enc_CreateTopicsRequest a) dec_CreateTopicsRequest
     (ctq_Version a) ax a) \<and>
   (wf_CreateTopicsResponse b \<longrightarrow> delivered (enc_CreateTopicsResponse b) dec_CreateTopicsResponse
     (ctr_Version b) bx b) \<and>
   (wf_CreatePartitionsRequest c \<longrightarrow> delivered (enc_CreatePartitionsRequest c)
     dec_CreatePartitionsRequest (cpq_Version c) cx c) \<and>
   (wf_CreatePartitionsResponse d \<longrightarrow> delivered (enc_CreatePartitionsResponse d)
     dec_CreatePartitionsResponse v dx d) \<and>
   (wf_DeleteTopicsRequest e \<longrightarrow> delivered (enc_DeleteTopicsRequest e) dec_DeleteTopicsRequest
     (dtq_Version e) ex e) \<and>
   (wf_DeleteTopicsResponse f \<longrightarrow> delivered (enc_DeleteTopicsResponse f) dec_DeleteTopicsResponse
     (dtr_Version f) fx f) \<and>
   (wf_DeleteRecordsRequest g \<longrightarrow> delivered (enc_DeleteRecordsRequest g) dec_DeleteRecordsRequest
     (drq_Version g) gx g) \<and>
   (wf_DeleteRecordsResponse h \<longrightarrow> delivered (enc_DeleteRecordsResponse h) dec_DeleteRecordsResponse
     (drr_Version h) hx h) \<and>
   (wf_AlterPartitionReassignmentsRequest i \<longrightarrow> delivered (enc_AlterPartitionReassignmentsRequest i)
     dec_AlterPartitionReassignmentsRequest (raq_Version i) ix i) \<and>
   (wf_AlterPartitionReassignmentsResponse j \<longrightarrow> delivered (enc_AlterPartitionReassignmentsResponse j)
     dec_AlterPartitionReassignmentsResponse (rar_Version j) jx j) \<and>
   (wf_ListPartitionReassignmentsRequest k \<longrightarrow> delivered (enc_ListPartitionReassignmentsRequest k)
     dec_ListPartitionReassignmentsRequest (lrq_Version k) kx k) \<and>
   (wf_ListPartitionReassignmentsResponse l \<longrightarrow> delivered (enc_ListPartitionReassignmentsResponse l)
     dec_ListPartitionReassignmentsResponse (lrr_Version l) lx l)"
  by (intro conjI impI; erule ctq.sent ctr.sent cpq.sent cpr.sent dtq.sent dtr.sent drq.sent drr.sent raq.sent
     rar.sent lrq.sent lrr.sent)

theorem topic_messages_delivered_witness:
  "delivered (enc_CreateTopicsRequest ex_CreateTopicsRequest) dec_CreateTopicsRequest (ctq_Version
     ex_CreateTopicsRequest) ex_CreateTopicsRequest ex_CreateTopicsRequest \<and>
   delivered (enc_CreateTopicsResponse ex_CreateTopicsResponse) dec_CreateTopicsResponse (ctr_Version
     ex_CreateTopicsResponse) ex_CreateTopicsResponse ex_CreateTopicsResponse \<and>
   delivered (enc_CreatePartitionsRequest ex_CreatePartitionsRequest) dec_CreatePartitionsRequest (cpq_Version
     ex_CreatePartitionsRequest) ex_CreatePartitionsRequest ex_CreatePartitionsRequest \<and>
   delivered (enc_CreatePartitionsResponse ex_CreatePartitionsResponse) dec_CreatePartitionsResponse 1
     ex_CreatePartitionsResponse ex_CreatePartitionsResponse \<and>
   delivered (enc_DeleteTopicsRequest ex_DeleteTopicsRequest) dec_DeleteTopicsRequest (dtq_Version
     ex_DeleteTopicsRequest) ex_DeleteTopicsRequest ex_DeleteTopicsRequest \<and>
   delivered (enc_DeleteTopicsResponse ex_DeleteTopicsResponse) dec_DeleteTopicsResponse (dtr_Version
     ex_DeleteTopicsResponse) ex_DeleteTopicsResponse ex_DeleteTopicsResponse \<and>
   delivered (enc_DeleteRecordsRequest ex_DeleteRecordsRequest) dec_DeleteRecordsRequest (drq_Version
     ex_DeleteRecordsRequest) ex_DeleteRecordsRequest ex_DeleteRecordsRequest \<and>
   delivered (enc_DeleteRecordsResponse ex_DeleteRecordsResponse) dec_DeleteRecordsResponse (drr_Version
     ex_DeleteRecordsResponse) ex_DeleteRecordsResponse ex_DeleteRecordsResponse \<and>
   delivered (enc_AlterPartitionReassignmentsRequest ex_AlterPartitionReassignmentsRequest)
     dec_AlterPartitionReassignmentsRequest (raq_Version ex_AlterPartitionReassignmentsRequest)
     ex_AlterPartitionReassignmentsRequest ex_AlterPartitionReassignmentsRequest \<and>
   delivered (enc_AlterPartitionReassignmentsResponse ex_AlterPartitionReassignmentsResponse)
     dec_AlterPartitionReassignmentsResponse (rar_Version ex_AlterPartitionReassignmentsResponse)
     ex_AlterPartitionReassignmentsResponse ex_AlterPartitionReassignmentsResponse \<and>
   delivered (enc_ListPartitionReassignmentsRequest ex_ListPartitionReassignmentsRequest)
     dec_ListPartitionReassignmentsRequest (lrq_Version ex_ListPartitionReassignmentsRequest)
     ex_ListPartitionReassignmentsRequest ex_ListPartitionReassignmentsRequest \<and>
   delivered (enc_ListPartitionReassignmentsResponse ex_ListPartitionReassignmentsResponse)
     dec_ListPartitionReassignmentsResponse (lrr_Version ex_ListPartitionReassignmentsResponse)
     ex_ListPartitionReassignmentsResponse ex_ListPartitionReassignmentsResponse"
  using topic_messages_delivered [where a = ex_CreateTopicsRequest and ax = ex_CreateTopicsRequest and b =
     ex_CreateTopicsResponse and bx = ex_CreateTopicsResponse and c = ex_CreatePartitionsRequest and cx =
     ex_CreatePartitionsRequest and d = ex_CreatePartitionsResponse and dx = ex_CreatePartitionsResponse and e =
     ex_DeleteTopicsRequest and ex = ex_DeleteTopicsRequest and f = ex_DeleteTopicsResponse and fx =
     ex_DeleteTopicsResponse and g = ex_DeleteRecordsRequest and gx = ex_DeleteRecordsRequest and h =
     ex_DeleteRecordsResponse and hx = ex_DeleteRecordsResponse and i = ex_AlterPartitionReassignmentsRequest and ix
     = ex_AlterPartitionReassignmentsRequest and j = ex_AlterPartitionReassignmentsResponse and jx =
     ex_AlterPartitionReassignmentsResponse and k = ex_ListPartitionReassignmentsRequest and kx =
     ex_ListPartitionReassignmentsRequest and l = ex_ListPartitionReassignmentsResponse and lx =
     ex_ListPartitionReassignmentsResponse]
    ex_CreateTopicsRequest_wf ex_CreateTopicsResponse_wf ex_CreatePartitionsRequest_wf
     ex_CreatePartitionsResponse_wf ex_DeleteTopicsRequest_wf ex_DeleteTopicsResponse_wf ex_DeleteRecordsRequest_wf
     ex_DeleteRecordsResponse_wf ex_AlterPartitionReassignmentsRequest_wf ex_AlterPartitionReassignmentsResponse_wf
     ex_ListPartitionReassignmentsRequest_wf ex_ListPartitionReassignmentsResponse_wf
  by blast



text \<open>
  C33: The salted password that is sent instead of a password is \<open>Hi\<close> of RFC 5802: the first keyed hash of
  the salt and the block index, xor'ed with its further iterations. The keyed hashes themselves are
  parameters whose digests have a constant length.
\<close>

theorem salted_password_is_Hi:
  assumes "scram_mac hs mechanism password = Inr mac" "\<And>x. length (mac x) = len"
  shows "saltedPassword hs mechanism password salt iterations = Inr (Hi mac salt (nat iterations))"
  using assms by (rule saltedPassword_Hi)

theorem salted_password_is_Hi_witness:
  "saltedPassword ex_hashes SCRAM_MECHANISM_SHA_256 [7] [1, 2] 4096 = Inr (Hi (hmac_sha256 ex_hashes [7]) [1, 2] 4096)"
  using salted_password_is_Hi [of ex_hashes SCRAM_MECHANISM_SHA_256 "[7]" "hmac_sha256 ex_hashes [7]" 32 "[1, 2]" 4096]
  by (simp add: scram_mac_def ex_hashes_def)


section \<open>Records\<close>

text \<open>
  C35: The size by which the producer decides when a batch is full is an upper bound of what it sends:
  the encoded, uncompressed batch has at most twelve bytes more than the counted ones (the offset and
  the length in front of the batch are not counted).
\<close>

theorem produce_set_size_bound:
  assumes "set_inv conf s" "IsAtLeast (conf_Version conf) V0_11_0_0" "rs_RecordBatch (pset_recordsToSend s) = Some b"
    and "sendable_batch cs (finish_batch conf b)" "rb_Codec b = CompressionNone" "pset_bufferBytes s < 2 ^ 31"
  shows "int (length (ser_ops (fst (enc_RecordBatch cs (finish_batch conf b))))) \<le> pset_bufferBytes s + 12"
  using assms by (rule batch_bytes_counted)

theorem produce_set_size_bound_witness:
  "int (length (ser_ops (fst (enc_RecordBatch marking_codecs (finish_batch ex_conf (ex_batch\<lparr>rb_Codec := 0\<rparr>)))))) \<le>
     recordBatchOverhead + records_bytes [ex_record] + 12"
  using produce_set_size_bound [OF ex_partitionSet_inv ex_version(1) _ ex_sendable]
  by (simp add: ex_partitionSet_def newDefaultRecords_def records_bytes_def record_bytes_def ex_record_def
      recordBatchOverhead_def maximumRecordOverhead_def nlen_def)

section \<open>Choice of partitions\<close>

text \<open>
  C36: A message that \<open>partitionMessage\<close> accepts goes to a partition of the topic, one of the lists the
  client returned, and nothing else of the message changes.
\<close>

theorem message_partition_valid:
  assumes "partitionMessage all writable p m = (Ok None, p', m')"
    and "\<And>ps. all = Ok ps \<or> writable = Ok ps \<Longrightarrow> length ps \<le> 2147483647"
  shows "\<exists>ps. (all = Ok ps \<or> writable = Ok ps) \<and> pm_Partition m' \<in> set ps \<and>
    m' = m\<lparr>pm_Partition := pm_Partition m'\<rparr>"
  using assms by (rule partitionMessage_ok)

theorem message_partition_valid_witness:
  "pm_Partition (snd (snd (partitionMessage (Ok [4, 6]) (Ok [6]) (roundRobinPartitioner 0) ex_msg))) \<in> {4, 6}"
proof -
  have 1: "partitionMessage (Ok [4, 6]) (Ok [6]) (roundRobinPartitioner 0) ex_msg =
      (Ok None, roundRobinPartitioner 1, ex_msg\<lparr>pm_Partition := 6\<rparr>)"
    by (simp add: partitionMessage_def)
  have "length ps \<le> 2147483647" if "Ok [4, 6 :: int32] = Ok ps \<or> Ok [6] = Ok ps" for ps using that by auto
  from message_partition_valid [OF 1 this] show ?thesis by (auto simp: 1)
qed

section \<open>Where the code falls short\<close>

text \<open>
  C37: A batch that was emptied by compaction and spans several offsets holds a consumer up: the offset to go
  on from is taken from the first offset of the batch, so that a consumer that stands there already fetches
  the same batch again.
\<close>

theorem empty_batch_fetched_again:
  assumes "frs_GetBlock response (pc_topic child) (pc_partition child) = Some block" "frb_Err block = ErrNoError"
    and "block = add_batch (no_records block) w" "rb_Records w = []" "\<not> frb_Partial block"
      "first_of w < sint (frb_HighWaterMarkOffset block)" "frb_PreferredReadReplica block = invalidPreferredReplicaID"
    and "pc_offset child = rb_FirstOffset w + 1"
  shows "parseResponse conf response child = (Ok [], child)"
  by (rule empty_batch_refetched [OF assms])

theorem empty_batch_fetched_again_witness:
  "parseResponse ex_fetch_conf ex_emptied_response (ex_child\<lparr>pc_offset := 11\<rparr>) = (Ok [], ex_child\<lparr>pc_offset := 11\<rparr>)"
  by (rule empty_batch_fetched_again [where block = ex_emptied_block and w = ex_emptied])
    (simp_all add: ex_emptied_response_def ex_emptied_block_def ex_emptied_def ex_log_batch_def frs_GetBlock_def get_block_def
      ex_child_def new_partitionConsumer_def add_batch_def add_records_def no_records_def new_FetchResponseBlock_def)




text \<open>
  C40: A fetch request of the versions 7 to 10 that names no partitions, which is how a fetch session
  polls, is encoded but cannot be decoded: \<open>decode\<close> returns at the empty list of topics and leaves the
  list of forgotten topics in the buffer.
\<close>

theorem empty_fetch_request_unreadable:
  assumes "frq_blocks r = []" "7 \<le> frq_Version r" "frq_Version r < 11" "frq_forgotten r = []"
  shows "versionedDecode (Some (ser_ops (enc_FetchRequest r))) x dec_FetchRequest (frq_Version r) =
    Err (PacketDecodingError ''invalid length'')"
  using assms by (rule empty_fetch_request_rejected)

theorem empty_fetch_request_unreadable_witness:
  "versionedDecode (Some (ser_ops (enc_FetchRequest
     ex_FetchRequest7))) ex_FetchRequest7 dec_FetchRequest 7 =
   Err (PacketDecodingError ''invalid length'')"
  using empty_fetch_request_unreadable [of ex_FetchRequest7 ex_FetchRequest7]
  by (simp add: ex_FetchRequest7_def)

section \<open>Further facts\<close>

text \<open>
  What group members tell each other through the coordinator, the subscription, the assignment and
  the user data of the sticky assignor, is read back as it was written.
\<close>

theorem member_data_delivered:
  "(wf_ConsumerGroupMemberMetadata a \<longrightarrow> delivered (enc_ConsumerGroupMemberMetadata a) (\<lambda>_.
     dec_ConsumerGroupMemberMetadata) 0 ax a) \<and>
   (wf_ConsumerGroupMemberAssignment b \<longrightarrow> delivered (enc_ConsumerGroupMemberAssignment b)
     (\<lambda>_. dec_ConsumerGroupMemberAssignment) 0 bx b) \<and>
   (wf_StickyAssignorUserDataV0 c \<longrightarrow> delivered (enc_StickyAssignorUserDataV0 c) (\<lambda>_.
     dec_StickyAssignorUserDataV0) 0 cx c) \<and>
   (wf_StickyAssignorUserDataV1 d \<longrightarrow> delivered (enc_StickyAssignorUserDataV1 d) (\<lambda>_.
     dec_StickyAssignorUserDataV1) 0 dx d)"
  by (intro conjI impI; erule mmd.sent mas.sent su0.sent su1.sent)

theorem member_data_delivered_witness:
  "delivered (enc_ConsumerGroupMemberMetadata ex_ConsumerGroupMemberMetadata) (\<lambda>_.
     dec_ConsumerGroupMemberMetadata) 0 ex_ConsumerGroupMemberMetadata ex_ConsumerGroupMemberMetadata \<and>
   delivered (enc_ConsumerGroupMemberAssignment ex_ConsumerGroupMemberAssignment) (\<lambda>_.
     dec_ConsumerGroupMemberAssignment) 0 ex_ConsumerGroupMemberAssignment ex_ConsumerGroupMemberAssignment \<and>
   delivered (enc_StickyAssignorUserDataV0 ex_StickyAssignorUserDataV0) (\<lambda>_. dec_StickyAssignorUserDataV0) 0
     ex_StickyAssignorUserDataV0 ex_StickyAssignorUserDataV0 \<and>
   delivered (enc_StickyAssignorUserDataV1 ex_StickyAssignorUserDataV1) (\<lambda>_. dec_StickyAssignorUserDataV1) 0
     ex_StickyAssignorUserDataV1 ex_StickyAssignorUserDataV1"
  using member_data_delivered [where a = ex_ConsumerGroupMemberMetadata and ax = ex_ConsumerGroupMemberMetadata and
     b = ex_ConsumerGroupMemberAssignment and bx = ex_ConsumerGroupMemberAssignment and c =
     ex_StickyAssignorUserDataV0 and cx = ex_StickyAssignorUserDataV0 and d = ex_StickyAssignorUserDataV1 and dx =
     ex_StickyAssignorUserDataV1]
    ex_ConsumerGroupMemberMetadata_wf ex_ConsumerGroupMemberAssignment_wf ex_StickyAssignorUserDataV0_wf
     ex_StickyAssignorUserDataV1_wf
  by blast

text \<open>
  The requests and responses about the cluster, the metadata of brokers, topics and partitions and
  the supported API versions, and fetch requests reach the other end as they were sent.
\<close>

theorem cluster_messages_delivered:
  "(wf_MetadataRequest a \<longrightarrow> delivered (enc_MetadataRequest a) dec_MetadataRequest (mdq_Version a) ax
     a) \<and>
   (wf_MetadataResponse b \<longrightarrow> delivered (enc_MetadataResponse b) dec_MetadataResponse (mdr_Version b)
     bx b) \<and>
   (wf_ApiVersionsRequest c \<longrightarrow> delivered (enc_ApiVersionsRequest c) dec_ApiVersionsRequest
     (avq_Version c) cx c) \<and>
   (wf_ApiVersionsResponse d \<longrightarrow> delivered (enc_ApiVersionsResponse d) dec_ApiVersionsResponse
     (avr_Version d) dx d) \<and>
   (wf_FetchRequest e \<longrightarrow> delivered (enc_FetchRequest e) dec_FetchRequest (frq_Version e) ex e)"
  by (intro conjI impI; erule mdq.sent mdr.sent avq.sent avr.sent frq.sent)

theorem cluster_messages_delivered_witness:
  "delivered (enc_MetadataRequest ex_MetadataRequest) dec_MetadataRequest (mdq_Version ex_MetadataRequest)
     ex_MetadataRequest ex_MetadataRequest \<and>
   delivered (enc_MetadataResponse ex_MetadataResponse) dec_MetadataResponse (mdr_Version ex_MetadataResponse)
     ex_MetadataResponse ex_MetadataResponse \<and>
   delivered (enc_ApiVersionsRequest ex_ApiVersionsRequest) dec_ApiVersionsRequest (avq_Version
     ex_ApiVersionsRequest) ex_ApiVersionsRequest ex_ApiVersionsRequest \<and>
   delivered (enc_ApiVersionsResponse ex_ApiVersionsResponse) dec_ApiVersionsResponse (avr_Version
     ex_ApiVersionsResponse) ex_ApiVersionsResponse ex_ApiVersionsResponse \<and>
   delivered (enc_FetchRequest ex_FetchRequest) dec_FetchRequest (frq_Version ex_FetchRequest) ex_FetchRequest
     ex_FetchRequest"
  using cluster_messages_delivered [where a = ex_MetadataRequest and ax = ex_MetadataRequest and b =
     ex_MetadataResponse and bx = ex_MetadataResponse and c = ex_ApiVersionsRequest and cx = ex_ApiVersionsRequest
     and d = ex_ApiVersionsResponse and dx = ex_ApiVersionsResponse and e = ex_FetchRequest and ex =
     ex_FetchRequest]
    ex_MetadataRequest_wf ex_MetadataResponse_wf ex_ApiVersionsRequest_wf ex_ApiVersionsResponse_wf ex_FetchRequest_wf
  by blast

text \<open>
  The requests and responses that describe and alter configurations and describe the log
  directories reach the other end as they were sent.
\<close>

theorem config_messages_delivered:
  "(wf_DescribeConfigsRequest a \<longrightarrow> delivered (enc_DescribeConfigsRequest a)
     dec_DescribeConfigsRequest (dcq_Version a) ax a) \<and>
   (wf_DescribeConfigsResponse b \<longrightarrow> delivered (enc_DescribeConfigsResponse b)
     dec_DescribeConfigsResponse (dcr_Version b) bx b) \<and>
   (wf_AlterConfigsRequest c \<longrightarrow> delivered (enc_AlterConfigsRequest c) dec_AlterConfigsRequest
     (acq_Version c) cx c) \<and>
   (wf_AlterConfigsResponse d \<longrightarrow> delivered (enc_AlterConfigsResponse d) dec_AlterConfigsResponse v dx
     d) \<and>
   (wf_IncrementalAlterConfigsRequest e \<longrightarrow> delivered (enc_IncrementalAlterConfigsRequest e)
     dec_IncrementalAlterConfigsRequest (icq_Version e) ex e) \<and>
   (wf_IncrementalAlterConfigsResponse f \<longrightarrow> delivered (enc_IncrementalAlterConfigsResponse f)
     dec_IncrementalAlterConfigsResponse v fx f) \<and>
   (wf_DescribeLogDirsRequest g \<longrightarrow> delivered (enc_DescribeLogDirsRequest g)
     dec_DescribeLogDirsRequest (dlq_Version g) gx g) \<and>
   (wf_DescribeLogDirsResponse h \<longrightarrow> delivered (enc_DescribeLogDirsResponse h)
     dec_DescribeLogDirsResponse v hx h)"
  by (intro conjI impI; erule dcq.sent dcr.sent acq.sent arp.sent icq.sent icr.sent dlq.sent dlr.sent)

theorem config_messages_delivered_witness:
  "delivered (enc_DescribeConfigsRequest ex_DescribeConfigsRequest) dec_DescribeConfigsRequest (dcq_Version
     ex_DescribeConfigsRequest) ex_DescribeConfigsRequest ex_DescribeConfigsRequest \<and>
   delivered (enc_DescribeConfigsResponse ex_DescribeConfigsResponse) dec_DescribeConfigsResponse (dcr_Version
     ex_DescribeConfigsResponse) ex_DescribeConfigsResponse ex_DescribeConfigsResponse \<and>
   delivered (enc_AlterConfigsRequest ex_AlterConfigsRequest) dec_AlterConfigsRequest (acq_Version
     ex_AlterConfigsRequest) ex_AlterConfigsRequest ex_AlterConfigsRequest \<and>
   delivered (enc_AlterConfigsResponse ex_AlterConfigsResponse) dec_AlterConfigsResponse 1 ex_AlterConfigsResponse
     ex_AlterConfigsResponse \<and>
   delivered (enc_IncrementalAlterConfigsRequest ex_IncrementalAlterConfigsRequest)
     dec_IncrementalAlterConfigsRequest (icq_Version ex_IncrementalAlterConfigsRequest)
     ex_IncrementalAlterConfigsRequest ex_IncrementalAlterConfigsRequest \<and>
   delivered (enc_IncrementalAlterConfigsResponse ex_IncrementalAlterConfigsResponse)
     dec_IncrementalAlterConfigsResponse 1 ex_IncrementalAlterConfigsResponse ex_IncrementalAlterConfigsResponse
     \<and>
   delivered (enc_DescribeLogDirsRequest ex_DescribeLogDirsRequest) dec_DescribeLogDirsRequest (dlq_Version
     ex_DescribeLogDirsRequest) ex_DescribeLogDirsRequest ex_DescribeLogDirsRequest \<and>
   delivered (enc_DescribeLogDirsResponse ex_DescribeLogDirsResponse) dec_DescribeLogDirsResponse 1
     ex_DescribeLogDirsResponse ex_DescribeLogDirsResponse"
  using config_messages_delivered [where a = ex_DescribeConfigsRequest and ax = ex_DescribeConfigsRequest and b =
     ex_DescribeConfigsResponse and bx = ex_DescribeConfigsResponse and c = ex_AlterConfigsRequest and cx =
     ex_AlterConfigsRequest and d = ex_AlterConfigsResponse and dx = ex_AlterConfigsResponse and e =
     ex_IncrementalAlterConfigsRequest and ex = ex_IncrementalAlterConfigsRequest and f =
     ex_IncrementalAlterConfigsResponse and fx = ex_IncrementalAlterConfigsResponse and g =
     ex_DescribeLogDirsRequest and gx = ex_DescribeLogDirsRequest and h = ex_DescribeLogDirsResponse and hx =
     ex_DescribeLogDirsResponse]
    ex_DescribeConfigsRequest_wf ex_DescribeConfigsResponse_wf ex_AlterConfigsRequest_wf ex_AlterConfigsResponse_wf
     ex_IncrementalAlterConfigsRequest_wf ex_IncrementalAlterConfigsResponse_wf ex_DescribeLogDirsRequest_wf
     ex_DescribeLogDirsResponse_wf
  by blast

text \<open>
  A variable-length integer that \<open>putVarint\<close> or \<open>putUVarint\<close> wrote is read back by \<open>getVarint\<close> and
  \<open>getUVarint\<close>, whatever bytes follow it, and it takes at most ten bytes.
\<close>

theorem varint_roundtrip:
  "fst (getVarint (new_decoder (ser_ops [putVarint x] @ rest))) = Ok x \<and> length (ser_ops [putVarint x]) \<le> 10 \<and>
   fst (getUVarint (new_decoder (ser_ops [putUVarint w] @ rest))) = Ok w \<and> length (ser_ops [putUVarint w]) \<le> 10"
  by (simp add: ser_simps new_decoder_eq dec_steps length_PutVarint_max length_PutUvarint_max)

text \<open>
  Reading the printed form of a Kafka version gives the version back.
\<close>

theorem version_parse_print:
  assumes "kv_major v = 0 \<or> kv_patch v = 0" "list_all (\<lambda>n. n < 2 ^ 64) (kv_version v)"
  shows "ParseKafkaVersion (kv_String v) = (v, None)"
  using assms by (rule ParseKafkaVersion_String)

theorem version_parse_print_witness: "ParseKafkaVersion (kv_String V0_10_2_1) = (V0_10_2_1, None)"
  by (rule version_parse_print) (simp_all add: kv_version_def newKafkaVersion_def)

text \<open>
  The same for the message sets of the older formats: of a set that was cut off at any byte, the
  blocks that are wholly there are decoded, and the set is marked as having a partial trailing message
  exactly when bytes are left.
\<close>

theorem message_set_truncated:
  assumes "list_all (wf_block cs (dec_MessageSet depth cs)) msbs" "lossless cs"
    and "bytes = ser_ops (fst (enc_MessageBlocks cs (map fst msbs)))" "length bytes \<le> 2147483647"
  shows "fst (dec_MessageSet (Suc depth) cs (new_decoder (take j bytes))) =
    Ok (MessageSet (take j bytes \<noteq> concat (map wb_bytes (whole_blocks j (wire_blocks cs msbs)))) False
      (map wb_block (whole_blocks j (wire_blocks cs msbs))))"
  using dec_MessageSet_cut [OF wire_blocks_ok [OF assms(1,2)], of j] enc_MessageBlocks_bytes [OF assms(1)] assms(3,4)
  by simp

theorem message_set_truncated_witness:
  "\<exists>ms. fst (dec_MessageSet (Suc 0) marking_codecs (new_decoder (take 40
     (ser_ops (fst (enc_MessageBlocks marking_codecs (map fst [(MessageBlock 5 ex_Message, None :: MessageSet option)]))))))) = Ok ms \<and>
     ms_Messages ms = map wb_block (wire_blocks marking_codecs [(MessageBlock 5 ex_Message, None)])"
proof -
  let ?msbs = "[(MessageBlock 5 ex_Message, None)]"
  have l: "list_all (wf_block marking_codecs (dec_MessageSet 0 marking_codecs)) ?msbs"
    using ex_message_wf by simp
  have b: "length (ser_ops (fst (enc_MessageBlocks marking_codecs (map fst ?msbs)))) \<le> 2147483647"
    using ex_message_bytes by (simp del: enc_MessageBlocks.simps)
  have "length (wb_bytes (hd (wire_blocks marking_codecs ?msbs))) = 35"
    using enc_MessageBlocks_bytes [OF l] ex_message_bytes by (simp add: wire_blocks_def del: enc_MessageBlocks.simps)
  then have w: "whole_blocks 40 (wire_blocks marking_codecs ?msbs) = wire_blocks marking_codecs ?msbs"
    by (simp add: wire_blocks_def)
  show ?thesis
    by (intro exI conjI, rule message_set_truncated [OF l lossless_marking_codecs refl b]) (simp only: w MessageSet.sel)
qed

text \<open>
  When the epoch bump after an abort finds no coordinator, \<open>AbortTxn\<close> fails and the producer id is
  lost; a second \<open>AbortTxn\<close> then succeeds, and a transaction can begin although the producer has no id.
\<close>

theorem aborted_without_producer_id:
  assumes t: "isTransactional t" "tm_status t = FlagInError OR FlagAbortableError" "tm_epochBumpRequired t"
      "tm_partitions t \<noteq> []" "tm_producerID t \<noteq> noProducerID" "tm_producerEpoch t \<noteq> noProducerEpoch"
    and conf: "tc_RetryMax conf \<ge> 0" "IsAtLeast (tc_Version conf) V2_5_0_0"
    and env: "\<And>req. on_EndTxn env req 0 = Answer r" "etr_Err r = ErrNoError"
      "\<And>req i. on_InitProducerID env req i = NoCoordinator e"
  shows "\<exists>u v w. AbortTxn conf env t = (Ok (Some e), u) \<and> AbortTxn conf env u = (Ok None, v) \<and>
    BeginTxn v = (None, w) \<and> tm_status w = FlagInTransaction \<and> tm_producerID w = noProducerID"
proof -
  from abort_loses_producer_id [where conf = conf and env = env and r = r and e = e, OF t conf env] obtain u
    where u: "AbortTxn conf env t = (Ok (Some e), u)" "tm_status u = FlagInitializing" "\<not> tm_epochBumpRequired u"
      "tm_partitions u = []" "tm_producerID u = noProducerID" "isTransactional u" by blast
  from ready_without_producer_id [OF u(6,2,3,4,5), of conf env] u(1) show ?thesis by blast
qed

theorem aborted_without_producer_id_witness:
  "\<exists>u v w. AbortTxn ex_txn_conf ex_no_coordinator ex_bumping = (Ok (Some (KErr 15)), u) \<and>
     AbortTxn ex_txn_conf ex_no_coordinator u = (Ok None, v) \<and>
     BeginTxn v = (None, w) \<and> tm_status w = FlagInTransaction \<and> tm_producerID w = noProducerID"
proof -
  have v: "IsAtLeast V2_7_0_0 V2_5_0_0" by code_simp
  show ?thesis
    by (rule aborted_without_producer_id [where r = "\<lparr>etr_Version = 0, etr_ThrottleTime = 0, etr_Err = ErrNoError\<rparr>"])
      (simp_all add: ex_bumping_def ex_in_txn_def ex_manager_def ex_no_coordinator_def ex_txn_conf_def isTransactional_def v)
qed

text \<open>
  A list of groups that is encoded with version 3 or 4 cannot be decoded: \<open>encode\<close> writes no tagged
  fields, and \<open>decode\<close> of these versions reads them.
\<close>

theorem list_groups_flexible_unreadable:
  assumes "lsr_Version r = 3 \<or> lsr_Version r = 4" "lsr_Groups r = []"
  shows "versionedDecode (Some (ser_ops (enc_ListGroupsResponse r))) x dec_ListGroupsResponse (lsr_Version r) =
    Err ErrInsufficientData"
  using assms by (rule list_groups_v3_unreadable)

theorem list_groups_flexible_unreadable_witness:
  "versionedDecode (Some (ser_ops (enc_ListGroupsResponse
     ex_ListGroupsResponse3))) ex_ListGroupsResponse3 dec_ListGroupsResponse 3 =
   Err ErrInsufficientData"
  using list_groups_flexible_unreadable [of ex_ListGroupsResponse3 ex_ListGroupsResponse3]
  by (simp add: ex_ListGroupsResponse3_def)

text \<open>
  A group member's join request that was decoded cannot be encoded again: decoding fills both the
  map and the ordered list of protocols, and \<open>encode\<close> refuses a request that has both.
\<close>

theorem join_request_not_resendable:
  assumes "wf_JoinGroupRequest r" "jgq_OrderedGroupProtocols r \<noteq> []"
  shows "\<exists>r' e. delivered (enc_JoinGroupRequest r) dec_JoinGroupRequest (jgq_Version r) x r' \<and>
    encode (enc_JoinGroupRequest r') = Err e"
  using codes_delivered [where d = dec_JoinGroupRequest, OF codes_JoinGroupRequest [OF assms(1)]] decoded_JoinGroupRequest_not_sendable [OF assms(2)]
  by blast

theorem join_request_not_resendable_witness:
  "\<exists>r' e. delivered (enc_JoinGroupRequest ex_JoinGroupRequest) dec_JoinGroupRequest 1 ex_JoinGroupRequest r' \<and>
     encode (enc_JoinGroupRequest r') = Err e"
  using join_request_not_resendable [of ex_JoinGroupRequest ex_JoinGroupRequest]
  by (simp add: ex_JoinGroupRequest_def wf_JoinGroupRequest_def wf_GroupProtocol_def)

text \<open>
  Encoding runs twice, once to size the request and once to write it, and a batch keeps its
  compressed records between the two. The second run makes the same calls and leaves the same batch.
\<close>

theorem batch_encoding_repeatable:
  assumes "enc_RecordBatch cs b = (ops, b')" "ops_ok ops"
  shows "enc_RecordBatch cs b' = (ops, b')"
  using assms by (rule enc_RecordBatch_again)

theorem batch_encoding_repeatable_witness:
  "enc_RecordBatch marking_codecs (snd (enc_RecordBatch marking_codecs ex_batch)) = enc_RecordBatch marking_codecs ex_batch"
proof -
  have "sendable_batch marking_codecs ex_batch" using ex_batch_wf by (simp add: wf_RecordBatch_def)
  from batch_encoding_repeatable [OF prod.collapse [symmetric] enc_RecordBatch_ok [OF this]] show ?thesis by simp
qed

text \<open>
  The version of a produce request is one that the configured broker version supports.
\<close>

theorem produce_request_version_supported:
  assumes "buildRequest cs conf ps = Ok (req, ps')" "IsAtLeast (conf_Version conf) MinVersion"
  shows "IsAtLeast (conf_Version conf) (produce_requiredVersion (preq_Version req))"
  using buildRequest_version [OF assms(1)] request_version_required [OF assms(2)] by simp

theorem produce_request_version_supported_witness:
  "\<exists>req ps'. buildRequest marking_codecs ex_conf (newProduceSet 1 0) = Ok (req, ps') \<and>
     IsAtLeast V2_1_0_0 (produce_requiredVersion (preq_Version req))"
proof -
  obtain req ps' where r: "buildRequest marking_codecs ex_conf (newProduceSet 1 0) = Ok (req, ps')"
    by (simp add: buildRequest_def newProduceSet_def Let_def)
  from produce_request_version_supported [OF r ex_version(2)] r show ?thesis by (auto simp: ex_conf_def)
qed

text \<open>
  The round-robin partitioner serves the partitions in turn: from any position, the partition of
  the i-th message is i places further, modulo the number of partitions.
\<close>

theorem round_robin_turns:
  assumes "0 \<le> sint p" "sint p \<le> sint n" "0 < sint n"
  shows "fst (pick_all Partition (roundRobinPartitioner p) ms n) =
    map (\<lambda>i. Ok (word_of_int ((sint p + int i) mod sint n))) [0..<length ms]"
  using assms by (rule round_robin_all)

theorem round_robin_turns_witness:
  "fst (pick_all Partition (roundRobinPartitioner 2) [ex_msg, ex_msg] 3) = [Ok 2, Ok 0]"
  using round_robin_turns [of 2 3 "[ex_msg, ex_msg]"] by (simp add: upt_rec)

text \<open>
  The hash partitioner's choice is a function of the hash of the key, and is a partition number:
  with the reference option the lower 31 bits modulo the number of partitions, with the unsigned
  option the hash as an unsigned number, and otherwise the absolute value of the signed remainder.
\<close>

theorem hash_partition_value:
  assumes "0 < sint n"
  shows "in_range n (hash_choice refAbs uns h n) \<and>
    hash_choice refAbs uns h n = Ok (word_of_int
      (if refAbs then uint h mod 2 ^ 31 mod sint n else if uns then uint h mod sint n else \<bar>sint h smod sint n\<bar>))"
  using hash_choice_value [OF assms] hash_choice_range [OF assms] by simp

theorem hash_partition_value_witness: "hash_choice False False (- 7) 5 = Ok 2"
  using hash_partition_value [of 5 False False "- 7"] by (simp add: signed_modulo_int_def)

text \<open>
  A compact string whose announced length goes beyond the buffer makes \<open>getCompactString\<close> and
  \<open>getCompactNullableString\<close> panic instead of returning \<open>ErrInsufficientData\<close>: unlike \<open>getString\<close>, they
  slice the buffer without comparing the length with what remains.
\<close>

theorem compact_string_panics:
  assumes "0 \<le> sint (n - 1)" "int (length bs) < sint (n - 1)"
  shows "fst (getCompactString (new_decoder (PutUvarint n @ bs))) = Panic \<and>
    fst (getCompactNullableString (new_decoder (PutUvarint n @ bs))) = Panic"
  using assms
  by (simp add: new_decoder_eq getCompactString_def getCompactNullableString_def dec_steps sliceString_def)

theorem compact_string_panics_witness: "fst (getCompactString (new_decoder [5, 65, 66])) = Panic"
proof -
  have "PutUvarint 5 @ [65, 66] = [5, 65, 66]" by code_simp
  with compact_string_panics [of 5 "[65, 66]"] show ?thesis by simp
qed

text \<open>
  The table of versions a configuration may name lists every version constant of the package but
  two: 2.6.3 and 2.7.2 are missing from it.
\<close>

theorem supported_versions_missing:
  "filter (\<lambda>v. v \<notin> set SupportedVersions) namedVersions = [V2_6_3_0, V2_7_2_0]"
  by code_simp

text \<open>
  A codec number that is none of the five codecs makes \<open>String\<close> panic: it indexes a slice of names.
\<close>

theorem codec_String_unknown_panics: "codec_String cc = Panic \<longleftrightarrow> \<not> is_codec cc"
  by (rule codec_String_panics)

end
